(* ===== verification/Prelude.thy ===== *)
theory Prelude
  imports Complex_Main "HOL-Library.AList" "HOL-Library.Product_Lexorder"
    "HOL-Library.List_Lexorder" "HOL-Library.Char_ord"
begin

text \<open>
  Shared vocabulary of the development: JSON values with Python's truthiness and equality,
  Python dictionaries as association lists, exceptions as the left side of a sum, the textual
  form of integers and UUIDs, ordered selection from a list of rows (SQL's
  \<open>ORDER BY ... LIMIT 1\<close>), and keyed row tables with the interface locale \<open>row_table\<close> the
  component theories interpret.
\<close>

named_theorems row_simps \<open>field access of updated rows and tables\<close>

section \<open>Values\<close>

type_synonym uuid = nat \<comment> \<open>the 128-bit value of a UUID; PostgreSQL orders uuids by it\<close>
type_synonym time = int \<comment> \<open>microseconds since the epoch, the resolution of \<open>datetime\<close>\<close>

datatype json =
    JNull
  | JBool bool
  | JInt int
  | JFloat rat
  | JStr string
  | JList "json list"
  | JObj "(string \<times> json) list"

type_synonym dict = "(string \<times> json) list"

text \<open>\<open>bool(value)\<close> of a JSON value.\<close>

fun truthy :: "json \<Rightarrow> bool" where
  "truthy JNull = False"
| "truthy (JBool b) = b"
| "truthy (JInt i) = (i \<noteq> 0)"
| "truthy (JFloat r) = (r \<noteq> 0)"
| "truthy (JStr s) = (s \<noteq> [])"
| "truthy (JList xs) = (xs \<noteq> [])"
| "truthy (JObj d) = (d \<noteq> [])"

text \<open>
  Python's \<open>==\<close>: numbers compare by value across \<open>bool\<close>, \<open>int\<close> and \<open>float\<close>, dictionaries
  without regard to insertion order.
\<close>

fun num_of :: "json \<Rightarrow> rat option" where
  "num_of (JBool b) = Some (if b then 1 else 0)"
| "num_of (JInt i) = Some (of_int i)"
| "num_of (JFloat r) = Some r"
| "num_of _ = None"

fun py_eq :: "json \<Rightarrow> json \<Rightarrow> bool"
  and py_eqs :: "json list \<Rightarrow> json list \<Rightarrow> bool"
  and py_eq_items :: "(string \<times> json) list \<Rightarrow> (string \<times> json) list \<Rightarrow> bool" where
  "py_eq JNull b = (b = JNull)"
| "py_eq (JBool x) b = (num_of b = Some (if x then 1 else 0))"
| "py_eq (JInt i) b = (num_of b = Some (of_int i))"
| "py_eq (JFloat r) b = (num_of b = Some r)"
| "py_eq (JStr s) b = (b = JStr s)"
| "py_eq (JList xs) b = (case b of JList ys \<Rightarrow> py_eqs xs ys | _ \<Rightarrow> False)"
| "py_eq (JObj d) b =
     (case b of JObj e \<Rightarrow> length d = length e \<and> py_eq_items d e | _ \<Rightarrow> False)"
| "py_eqs [] ys = (ys = [])"
| "py_eqs (x # xs) ys = (case ys of [] \<Rightarrow> False | y # ys' \<Rightarrow> py_eq x y \<and> py_eqs xs ys')"
| "py_eq_items [] e = True"
| "py_eq_items ((k, v) # d) e =
     ((case map_of e k of None \<Rightarrow> False | Some w \<Rightarrow> py_eq v w) \<and> py_eq_items d e)"

definition py_in :: "json \<Rightarrow> json list \<Rightarrow> bool" where
  "py_in x xs = list_ex (py_eq x) xs"

fun is_obj :: "json \<Rightarrow> bool" where
  "is_obj (JObj _) = True"
| "is_obj _ = False"

fun is_str :: "json \<Rightarrow> bool" where
  "is_str (JStr _) = True"
| "is_str _ = False"

fun obj_of :: "json \<Rightarrow> dict" where
  "obj_of (JObj d) = d"
| "obj_of _ = []"

section \<open>Dictionaries\<close>

text \<open>\<open>d.get(k)\<close>, \<open>k in d\<close>, \<open>d[k] = v\<close>, \<open>{**a, **b}\<close>, \<open>d.pop(k, None)\<close>.\<close>

definition dget :: "dict \<Rightarrow> string \<Rightarrow> json" where
  "dget d k = (case map_of d k of None \<Rightarrow> JNull | Some v \<Rightarrow> v)"

definition dhas :: "dict \<Rightarrow> string \<Rightarrow> bool" where
  "dhas d k = (map_of d k \<noteq> None)"

definition dset :: "string \<Rightarrow> json \<Rightarrow> dict \<Rightarrow> dict" where
  "dset k v d = AList.update k v d"

definition dmerge :: "dict \<Rightarrow> dict \<Rightarrow> dict" where
  "dmerge a b = fold (\<lambda>(k, v). AList.update k v) b a"

definition dpop :: "string \<Rightarrow> dict \<Rightarrow> dict" where
  "dpop k d = AList.delete k d"

definition dgetdef :: "dict \<Rightarrow> string \<Rightarrow> json \<Rightarrow> json" where
  "dgetdef d k x = (case map_of d k of None \<Rightarrow> x | Some v \<Rightarrow> v)"

text \<open>\<open>d.get(k) or x\<close>: the default also replaces a falsy value.\<close>

definition dgetor :: "dict \<Rightarrow> string \<Rightarrow> json \<Rightarrow> json" where
  "dgetor d k x = (let v = dget d k in if truthy v then v else x)"

lemma map_of_dset [simp]: "map_of (dset k v d) = (map_of d)(k \<mapsto> v)"
  by (simp add: dset_def update_conv')

lemma map_of_dpop [simp]: "map_of (dpop k d) = (map_of d)(k := None)"
  by (simp add: dpop_def delete_conv')

lemma distinct_dset [simp]:
  "distinct (map fst d) \<Longrightarrow> distinct (map fst (dset k v d))"
  by (simp add: dset_def distinct_update)

lemma distinct_dmerge [simp]:
  "distinct (map fst a) \<Longrightarrow> distinct (map fst (dmerge a b))"
  unfolding dmerge_def
  by (induction b arbitrary: a) (auto simp: distinct_update split: prod.splits)

lemma map_of_dmerge [simp]:
  "distinct (map fst b) \<Longrightarrow> map_of (dmerge a b) = map_of a ++ map_of b"
proof (induction b arbitrary: a)
  case Nil
  then show ?case by (simp add: dmerge_def)
next
  case (Cons p b)
  obtain k v where p: "p = (k, v)" by (cases p)
  from Cons.prems p have k: "map_of b k = None"
    by (auto simp: map_of_eq_None_iff)
  have "map_of (dmerge a (p # b)) = map_of (dmerge (AList.update k v a) b)"
    by (simp add: dmerge_def p)
  also have "\<dots> = (map_of a)(k \<mapsto> v) ++ map_of b"
    using Cons by (simp add: update_conv')
  also have "\<dots> = map_of a ++ map_of (p # b)"
    using k by (auto simp: p map_add_def fun_eq_iff split: option.splits)
  finally show ?case .
qed

lemma dget_dset [simp]: "dget (dset k v d) k' = (if k' = k then v else dget d k')"
  by (simp add: dget_def)

lemma dhas_dset [simp]: "dhas (dset k v d) k' = (k' = k \<or> dhas d k')"
  by (simp add: dhas_def)

section \<open>Exceptions\<close>

datatype py_error =
    ValueError string
  | RuntimeError string
  | TypeError string
  | KeyError string
  | RunOwnershipError string
  | RunConflictError string
  | InvalidTransition string
  | ProtocolError string
  | CheckpointConflict string
  | RuntimeContextError string
  | AuthenticationError int string
  | AuthorizationError string
  | HTTPException int string
  | IntegrityError
  | DataError string
  | NotImplementedError
  | AttributeError string
  | IndexError string

type_synonym 'a res = "py_error + 'a"

definition rbind :: "'a res \<Rightarrow> ('a \<Rightarrow> 'b res) \<Rightarrow> 'b res" where
  "rbind r f = (case r of Inl e \<Rightarrow> Inl e | Inr x \<Rightarrow> f x)"

lemma rbind_simps [simp]: "rbind (Inl e) f = Inl e" "rbind (Inr x) f = f x"
  by (simp_all add: rbind_def)

lemma rbind_eq_Inr: "rbind r f = Inr y \<longleftrightarrow> (\<exists>x. r = Inr x \<and> f x = Inr y)"
  by (cases r) auto

lemma rbind_cong [fundef_cong]:
  "r = r' \<Longrightarrow> (\<And>x. r' = Inr x \<Longrightarrow> f x = f' x) \<Longrightarrow> rbind r f = rbind r' f'"
  by (cases r') auto

section \<open>Text\<close>

fun nat_str :: "nat \<Rightarrow> string" where
  "nat_str n =
     (if n < 10 then [char_of (48 + n)] else nat_str (n div 10) @ [char_of (48 + n mod 10)])"

declare nat_str.simps [simp del]

definition int_str :: "int \<Rightarrow> string" where
  "int_str i = (if i < 0 then ''-'' @ nat_str (nat (- i)) else nat_str (nat i))"

definition hex_digit :: "nat \<Rightarrow> char" where
  "hex_digit d = (if d < 10 then char_of (48 + d) else char_of (87 + d))"

fun hex_str :: "nat \<Rightarrow> nat \<Rightarrow> string" where
  "hex_str 0 u = []"
| "hex_str (Suc n) u = hex_str n (u div 16) @ [hex_digit (u mod 16)]"

text \<open>\<open>str(uuid)\<close>: 32 lower-case hexadecimal digits grouped 8-4-4-4-12.\<close>

definition uuid_str :: "uuid \<Rightarrow> string" where
  "uuid_str u =
     (let h = hex_str 32 u
      in take 8 h @ ''-'' @ take 4 (drop 8 h) @ ''-'' @ take 4 (drop 12 h) @ ''-''
         @ take 4 (drop 16 h) @ ''-'' @ drop 20 h)"

lemma length_hex_str [simp]: "length (hex_str n u) = n"
  by (induction n u rule: hex_str.induct) auto

section \<open>Ordered selection\<close>

text \<open>\<open>ORDER BY key LIMIT 1\<close>: the first row with the least key.\<close>

fun min_by :: "('a \<Rightarrow> 'k::linorder) \<Rightarrow> 'a list \<Rightarrow> 'a option" where
  "min_by k [] = None"
| "min_by k (x # xs) =
     (case min_by k xs of
        None \<Rightarrow> Some x
      | Some y \<Rightarrow> if k y < k x then Some y else Some x)"

lemma min_by_None [simp]: "min_by k xs = None \<longleftrightarrow> xs = []"
  by (cases xs) (auto split: option.splits)

lemma min_by_in: "min_by k xs = Some x \<Longrightarrow> x \<in> set xs"
  by (induction xs arbitrary: x) (auto split: option.splits if_splits)

lemma min_by_least: "min_by k xs = Some x \<Longrightarrow> y \<in> set xs \<Longrightarrow> k x \<le> k y"
proof (induction xs arbitrary: x)
  case Nil
  then show ?case by simp
next
  case (Cons a xs)
  show ?case
  proof (cases "min_by k xs")
    case None
    with Cons.prems show ?thesis by auto
  next
    case (Some z)
    with Cons.IH have z: "y \<in> set xs \<Longrightarrow> k z \<le> k y" by blast
    from Cons.prems Some z show ?thesis
      by (auto split: if_splits)
  qed
qed

text \<open>\<open>COALESCE(MAX(column), 0)\<close>.\<close>

definition max_or0 :: "int list \<Rightarrow> int" where
  "max_or0 xs = (if xs = [] then 0 else Max (set xs))"

lemma max_or0_ge: "x \<in> set xs \<Longrightarrow> x \<le> max_or0 xs"
  by (auto simp: max_or0_def)

lemma max_or0_cases: "max_or0 xs = 0 \<or> max_or0 xs \<in> set xs"
  using Max_in [of "set xs"] by (auto simp: max_or0_def)

section \<open>Keyed row tables\<close>

text \<open>
  A table is the list of its rows in storage order. \<open>t_get\<close> reads the row with a primary
  key, \<open>t_upd\<close> is \<open>UPDATE ... WHERE key = k\<close>, \<open>t_ins\<close> appends, \<open>t_del\<close> is \<open>DELETE\<close>.
\<close>

definition t_get :: "('r \<Rightarrow> 'k) \<Rightarrow> 'k \<Rightarrow> 'r list \<Rightarrow> 'r option" where
  "t_get key k rows = find (\<lambda>r. key r = k) rows"

definition t_upd :: "('r \<Rightarrow> 'k) \<Rightarrow> 'k \<Rightarrow> ('r \<Rightarrow> 'r) \<Rightarrow> 'r list \<Rightarrow> 'r list" where
  "t_upd key k f rows = map (\<lambda>r. if key r = k then f r else r) rows"

definition t_del :: "('r \<Rightarrow> 'k) \<Rightarrow> 'k \<Rightarrow> 'r list \<Rightarrow> 'r list" where
  "t_del key k rows = filter (\<lambda>r. key r \<noteq> k) rows"

lemma find_Some_in: "find P xs = Some x \<Longrightarrow> x \<in> set xs \<and> P x"
  by (auto simp: find_Some_iff in_set_conv_nth)

lemma t_get_Some: "t_get key k rows = Some r \<Longrightarrow> r \<in> set rows \<and> key r = k"
  unfolding t_get_def by (drule find_Some_in) auto

lemma t_get_None: "t_get key k rows = None \<longleftrightarrow> k \<notin> key ` set rows"
  by (auto simp: t_get_def find_None_iff)

lemma t_get_upd:
  "(\<And>r. key (f r) = key r) \<Longrightarrow>
   t_get key k' (t_upd key k f rows) =
     (if k' = k then map_option f (t_get key k rows) else t_get key k' rows)"
  unfolding t_get_def t_upd_def by (induction rows) auto

lemma t_get_upd_const:
  "key x = k \<Longrightarrow> t_get key k' (t_upd key k (\<lambda>_. x) rows) =
     (if k' = k then map_option (\<lambda>_. x) (t_get key k rows) else t_get key k' rows)"
  unfolding t_get_def t_upd_def by (induction rows) auto

lemma t_get_in: "distinct (map key rows) \<Longrightarrow> r \<in> set rows \<Longrightarrow> t_get key (key r) rows = Some r"
  unfolding t_get_def by (induction rows) auto

lemma t_get_append:
  "t_get key k (rows @ [r]) =
     (case t_get key k rows of Some x \<Rightarrow> Some x | None \<Rightarrow> if key r = k then Some r else None)"
  unfolding t_get_def by (induction rows) auto

lemma t_get_del [simp]: "t_get key k' (t_del key k rows) = (if k' = k then None else t_get key k' rows)"
  unfolding t_get_def t_del_def by (induction rows) auto

lemma keys_t_upd: "(\<And>r. key (f r) = key r) \<Longrightarrow> map key (t_upd key k f rows) = map key rows"
  by (auto simp: t_upd_def)

lemma set_t_upd: "set (t_upd key k f rows) = (\<lambda>r. if key r = k then f r else r) ` set rows"
  by (simp add: t_upd_def)

lemma t_upd_absent: "k \<notin> key ` set rows \<Longrightarrow> t_upd key k f rows = rows"
  unfolding t_upd_def by (induction rows) auto

lemma keys_t_del: "map key (t_del key k rows) = filter (\<lambda>x. x \<noteq> k) (map key rows)"
  unfolding t_del_def by (induction rows) auto

text \<open>
  The interface a component uses of a table of the database: reading and updating a row by
  its primary key, with what an update leaves alone.
\<close>

locale row_table =
  fixes key :: "'r \<Rightarrow> 'k"
    and rows :: "'s \<Rightarrow> 'r list"
    and get :: "'k \<Rightarrow> 's \<Rightarrow> 'r option"
    and upd :: "'k \<Rightarrow> ('r \<Rightarrow> 'r) \<Rightarrow> 's \<Rightarrow> 's"
  assumes get_rows: "get k s = t_get key k (rows s)"
    and rows_upd: "rows (upd k f s) = t_upd key k f (rows s)"
begin

lemma get_upd:
  "(\<And>r. key (f r) = key r) \<Longrightarrow>
   get k' (upd k f s) = (if k' = k then map_option f (get k s) else get k' s)"
  by (simp add: get_rows rows_upd t_get_upd)

lemma get_Some: "get k s = Some r \<Longrightarrow> r \<in> set (rows s) \<and> key r = k"
  unfolding get_rows by (rule t_get_Some)

lemma get_in: "distinct (map key (rows s)) \<Longrightarrow> r \<in> set (rows s) \<Longrightarrow> get (key r) s = Some r"
  by (simp add: get_rows t_get_in)

lemma get_None: "get k s = None \<longleftrightarrow> k \<notin> key ` set (rows s)"
  by (simp add: get_rows t_get_None)

lemma keys_upd: "(\<And>r. key (f r) = key r) \<Longrightarrow> map key (rows (upd k f s)) = map key (rows s)"
  by (simp add: rows_upd keys_t_upd)

lemma set_upd: "set (rows (upd k f s)) = (\<lambda>r. if key r = k then f r else r) ` set (rows s)"
  by (simp add: rows_upd set_t_upd)


end

end
