(* ===== verification/RunState.thy ===== *)
theory RunState
  imports Prelude
begin

text \<open>
  The run status vocabulary (\<open>protocol.py\<close>) and the deterministic run state machine
  (\<open>run_state.py\<close>): statuses, reasons, the transition table and the validating
  \<open>transition\<close> function that the API and the workers share. Rows store the enumerations by
  their string values, so the operations take and return strings where the code does.
\<close>

section \<open>Statuses and reasons\<close>

datatype run_status = PENDING | RUNNING | SUCCESS | ERROR | TIMEOUT | INTERRUPTED

datatype run_reason =
    COMPLETED
  | BUSINESS_ERROR
  | INFRASTRUCTURE_ERROR
  | RETRY
  | CANCEL_REQUESTED
  | HITL_INTERRUPT
  | SHUTDOWN_REQUEUE
  | TIMED_OUT \<comment> \<open>\<open>RunReason.TIMEOUT\<close>\<close>
  | ROLLBACK

fun status_value :: "run_status \<Rightarrow> string" where
  "status_value PENDING = ''pending''"
| "status_value RUNNING = ''running''"
| "status_value SUCCESS = ''success''"
| "status_value ERROR = ''error''"
| "status_value TIMEOUT = ''timeout''"
| "status_value INTERRUPTED = ''interrupted''"

fun reason_value :: "run_reason \<Rightarrow> string" where
  "reason_value COMPLETED = ''completed''"
| "reason_value BUSINESS_ERROR = ''business_error''"
| "reason_value INFRASTRUCTURE_ERROR = ''infrastructure_error''"
| "reason_value RETRY = ''retry''"
| "reason_value CANCEL_REQUESTED = ''cancel_requested''"
| "reason_value HITL_INTERRUPT = ''hitl_interrupt''"
| "reason_value SHUTDOWN_REQUEUE = ''shutdown_requeue''"
| "reason_value TIMED_OUT = ''timeout''"
| "reason_value ROLLBACK = ''rollback''"

definition all_statuses :: "run_status list" where
  "all_statuses = [PENDING, RUNNING, SUCCESS, ERROR, TIMEOUT, INTERRUPTED]"

definition all_reasons :: "run_reason list" where
  "all_reasons = [COMPLETED, BUSINESS_ERROR, INFRASTRUCTURE_ERROR, RETRY, CANCEL_REQUESTED,
     HITL_INTERRUPT, SHUTDOWN_REQUEUE, TIMED_OUT, ROLLBACK]"

definition PUBLIC_RUN_STATUSES :: "string list" where
  "PUBLIC_RUN_STATUSES = map status_value all_statuses"

definition TERMINAL_RUN_STATUSES :: "string list" where
  "TERMINAL_RUN_STATUSES = map status_value [SUCCESS, ERROR, TIMEOUT, INTERRUPTED]"

definition ensure_status :: "string \<Rightarrow> run_status res" where
  "ensure_status v =
     (case find (\<lambda>s. status_value s = v) all_statuses of
        Some s \<Rightarrow> Inr s
      | None \<Rightarrow> Inl (ProtocolError (''Unsupported run status '' @ v)))"

definition ensure_reason :: "string \<Rightarrow> run_reason res" where
  "ensure_reason v =
     (case find (\<lambda>r. reason_value r = v) all_reasons of
        Some r \<Rightarrow> Inr r
      | None \<Rightarrow> Inl (ValueError (v @ '' is not a valid RunReason'')))"

section \<open>The transition function\<close>

definition MAX_INFRASTRUCTURE_RETRIES :: int where
  "MAX_INFRASTRUCTURE_RETRIES = 3"

record transition_rec =
  tr_status :: run_status
  tr_reason :: run_reason
  tr_retry_count :: int

fun ALLOWED :: "run_status \<Rightarrow> run_status list" where
  "ALLOWED PENDING = [PENDING, RUNNING, ERROR, INTERRUPTED]"
| "ALLOWED RUNNING = [PENDING, RUNNING, SUCCESS, ERROR, TIMEOUT, INTERRUPTED]"
| "ALLOWED INTERRUPTED = [INTERRUPTED, PENDING]"
| "ALLOWED SUCCESS = [SUCCESS]"
| "ALLOWED ERROR = [ERROR]"
| "ALLOWED TIMEOUT = [TIMEOUT]"

definition terminal_status :: "run_status \<Rightarrow> bool" where
  "terminal_status s = (s \<in> set [SUCCESS, ERROR, TIMEOUT, INTERRUPTED])"

definition is_terminal :: "string \<Rightarrow> bool res" where
  "is_terminal v = rbind (ensure_status v) (\<lambda>s. Inr (terminal_status s))"

definition transition :: "string \<Rightarrow> string \<Rightarrow> string \<Rightarrow> int \<Rightarrow> transition_rec res" where
  "transition current target reason retry_count =
     rbind (ensure_status current) (\<lambda>c.
     rbind (ensure_status target) (\<lambda>t.
       if t \<notin> set (ALLOWED c) then
         Inl (InvalidTransition (''Cannot transition run from '' @ status_value c @ '' to ''
              @ status_value t))
       else rbind (ensure_reason reason) (\<lambda>r.
         if retry_count < 0 \<or> retry_count > MAX_INFRASTRUCTURE_RETRIES then
           Inl (InvalidTransition (''retry_count must be between 0 and 3, got ''
                @ int_str retry_count))
         else if r = INFRASTRUCTURE_ERROR \<and> retry_count > MAX_INFRASTRUCTURE_RETRIES then
           Inl (InvalidTransition ''infrastructure retries are capped at three'')
         else if t = INTERRUPTED \<and>
                 r \<notin> set [CANCEL_REQUESTED, HITL_INTERRUPT, SHUTDOWN_REQUEUE, ROLLBACK] then
           Inl (InvalidTransition
             ''interrupted runs require a cancellation, HITL, shutdown, or rollback reason'')
         else if t = SUCCESS \<and> r \<noteq> COMPLETED then
           Inl (InvalidTransition (''success runs require reason='' @ [CHR 0x27] @ ''completed'' @ [CHR 0x27]))
         else Inr \<lparr>tr_status = t, tr_reason = r, tr_retry_count = retry_count\<rparr>)))"

definition validate_persisted_status :: "string \<Rightarrow> string res" where
  "validate_persisted_status v =
     (if v \<notin> set PUBLIC_RUN_STATUSES
      then Inl (InvalidTransition (''Invalid persisted run status: '' @ v))
      else Inr v)"

section \<open>Lemmas\<close>

lemma status_value_inj [simp]: "status_value s = status_value t \<longleftrightarrow> s = t"
  by (cases s; cases t) auto

lemma reason_value_inj [simp]: "reason_value r = reason_value q \<longleftrightarrow> r = q"
  by (cases r; cases q) auto

lemma ensure_status_value [simp]: "ensure_status (status_value s) = Inr s"
  by (cases s) (simp_all add: ensure_status_def all_statuses_def)

lemma ensure_reason_value [simp]: "ensure_reason (reason_value r) = Inr r"
  by (cases r) (simp_all add: ensure_reason_def all_reasons_def)

lemma ensure_status_Inr: "ensure_status v = Inr s \<longleftrightarrow> v = status_value s"
proof
  assume "ensure_status v = Inr s"
  then show "v = status_value s"
    by (auto simp: ensure_status_def split: option.splits dest!: find_Some_in)
qed simp

lemma ensure_reason_Inr: "ensure_reason v = Inr r \<longleftrightarrow> v = reason_value r"
proof
  assume "ensure_reason v = Inr r"
  then show "v = reason_value r"
    by (auto simp: ensure_reason_def split: option.splits dest!: find_Some_in)
qed simp

lemma is_terminal_value [simp]: "is_terminal (status_value s) = Inr (terminal_status s)"
  by (simp add: is_terminal_def)

lemma is_terminal_lit [simp]:
  "is_terminal ''pending'' = Inr False" "is_terminal ''running'' = Inr False"
  "is_terminal ''success'' = Inr True" "is_terminal ''error'' = Inr True"
  "is_terminal ''timeout'' = Inr True" "is_terminal ''interrupted'' = Inr True"
  using is_terminal_value [of PENDING] is_terminal_value [of RUNNING]
    is_terminal_value [of SUCCESS] is_terminal_value [of ERROR]
    is_terminal_value [of TIMEOUT] is_terminal_value [of INTERRUPTED]
  by (simp_all add: terminal_status_def)

lemma transition_Inr_iff:
  "transition (status_value c) (status_value t) (reason_value r) n = Inr x \<longleftrightarrow>
     t \<in> set (ALLOWED c) \<and> 0 \<le> n \<and> n \<le> 3 \<and>
     (t = INTERRUPTED \<longrightarrow> r \<in> {CANCEL_REQUESTED, HITL_INTERRUPT, SHUTDOWN_REQUEUE, ROLLBACK}) \<and>
     (t = SUCCESS \<longrightarrow> r = COMPLETED) \<and>
     x = \<lparr>tr_status = t, tr_reason = r, tr_retry_count = n\<rparr>"
  by (auto simp: transition_def MAX_INFRASTRUCTURE_RETRIES_def)

lemma transition_Inr:
  assumes "transition cur tgt rs n = Inr x"
  shows "\<exists>c. cur = status_value c \<and> tgt = status_value (tr_status x) \<and>
    rs = reason_value (tr_reason x) \<and> tr_status x \<in> set (ALLOWED c) \<and> 0 \<le> n \<and> n \<le> 3 \<and>
    tr_retry_count x = n"
  using assms
  by (auto simp: transition_def rbind_eq_Inr ensure_status_Inr ensure_reason_Inr
      MAX_INFRASTRUCTURE_RETRIES_def split: if_splits)

end
