(* ===== verification/Models.thy ===== *)
theory Models
  imports RunState
begin

text \<open>
  The persistent state: one record per ORM row of \<open>models.py\<close>, the rows of the checkpoint
  saver's tables the runtime reads and rewrites, and the database as the record of its tables.
  Columns keep their Python types: an optional column is an \<open>option\<close>, a JSONB object a
  dictionary, a JSONB value that may be null a \<open>json\<close>. Every table is an instance of the
  \<open>row_table\<close> interface of the prelude.
\<close>

section \<open>Rows\<close>

record assistant_row =
  as_id :: uuid
  as_graph_id :: string
  as_name :: string
  as_description :: "string option"
  as_config :: dict
  as_context :: dict
  as_metadata :: dict
  as_version :: int
  as_created_at :: time
  as_updated_at :: time

record assistant_version_row =
  av_assistant_id :: uuid
  av_version :: int
  av_graph_id :: string
  av_config :: dict
  av_context :: dict
  av_metadata :: dict
  av_name :: string
  av_description :: "string option"
  av_created_at :: time

record thread_row =
  th_id :: uuid
  th_graph_id :: "string option"
  th_status :: string
  th_event_seq :: int
  th_event_pruned_through :: int
  th_metadata :: dict
  th_config :: dict
  th_values :: json
  th_interrupts :: dict
  th_error :: json
  th_created_at :: time
  th_updated_at :: time
  th_state_updated_at :: "time option"

record run_row =
  run_id :: uuid
  run_thread_id :: "uuid option"
  run_assistant_id :: uuid
  run_status :: string
  run_reason :: "string option"
  run_retry_count :: int
  run_max_attempts :: int
  run_next_attempt_at :: "time option"
  run_idempotency_key :: "string option"
  run_lease_owner :: "string option"
  run_lease_expires_at :: "time option"
  run_heartbeat_at :: "time option"
  run_event_seq :: int
  run_event_pruned_through :: int
  run_metadata :: dict
  run_kwargs :: dict
  run_queue_position :: "int option"
  run_multitask_strategy :: "string option"
  run_created_at :: time
  run_updated_at :: time

text \<open>
  Rows of the saver's tables \<open>checkpoints\<close>, \<open>checkpoint_writes\<close> and \<open>checkpoint_blobs\<close>, with the
  columns the runtime's SQL names; the other columns of a row are one JSON value, so that two
  rows are equal exactly when their \<open>to_jsonb\<close> images are.
\<close>

record checkpoint_row =
  cp_thread_id :: string
  cp_ns :: string
  cp_id :: string
  cp_parent_id :: "string option"
  cp_checkpoint :: dict
  cp_metadata :: dict
  cp_rest :: json

record write_row =
  cw_thread_id :: string
  cw_ns :: string
  cw_checkpoint_id :: string
  cw_rest :: json

record blob_row =
  cb_thread_id :: string
  cb_ns :: string
  cb_channel :: string
  cb_version :: string
  cb_type :: string

text \<open>
  The thread fields a baseline captures (\<open>projection\<close>), and its capture time. JSON carries a
  datetime as ISO text and the code parses it back; the record keeps the value itself.
\<close>

record projection =
  pj_captured_at :: time
  pj_values :: json
  pj_interrupts :: dict
  pj_status :: string
  pj_error :: json
  pj_graph_id :: "string option"
  pj_state_updated_at :: "time option"

record baseline_row =
  bl_run_id :: uuid
  bl_thread_id :: uuid
  bl_checkpoints :: "checkpoint_row list"
  bl_writes :: "write_row list"
  bl_projection :: projection

record cron_row =
  cr_id :: uuid
  cr_assistant_id :: uuid
  cr_thread_id :: "uuid option"
  cr_schedule :: string
  cr_payload :: dict
  cr_metadata :: dict
  cr_next_run_date :: "time option"
  cr_end_time :: "time option"
  cr_user_id :: "string option"
  cr_timezone :: "string option"
  cr_on_run_completed :: "string option"
  cr_enabled :: bool
  cr_created_at :: time
  cr_updated_at :: time

record retry_counter_row =
  rc_run_id :: uuid
  rc_count :: int

record lease_row =
  ls_run_id :: uuid
  ls_owner :: string
  ls_expires_at :: time
  ls_heartbeat_at :: time
  ls_generation :: int

record event_row =
  ev_id :: uuid
  ev_run_id :: "uuid option"
  ev_thread_id :: "uuid option"
  ev_sequence :: int
  ev_topic :: string
  ev_namespace :: "json list"
  ev_payload :: dict
  ev_terminal :: bool
  ev_created_at :: time

section \<open>The database\<close>

text \<open>\<open>db_draws\<close> counts the identifiers \<open>uuid4()\<close> has produced so far.\<close>

record db =
  db_assistants :: "assistant_row list"
  db_versions :: "assistant_version_row list"
  db_threads :: "thread_row list"
  db_runs :: "run_row list"
  db_leases :: "lease_row list"
  db_events :: "event_row list"
  db_baselines :: "baseline_row list"
  db_checkpoints :: "checkpoint_row list"
  db_writes :: "write_row list"
  db_blobs :: "blob_row list"
  db_crons :: "cron_row list"
  db_retry_counters :: "retry_counter_row list"
  db_draws :: nat

definition empty_db :: db where
  "empty_db = \<lparr>db_assistants = [], db_versions = [], db_threads = [], db_runs = [],
     db_leases = [], db_events = [], db_baselines = [], db_checkpoints = [], db_writes = [],
     db_blobs = [], db_crons = [], db_retry_counters = [], db_draws = 0\<rparr>"

text \<open>
  What a transaction reads from outside the database: the clock, \<open>uuid4\<close> as the stream of the
  identifiers it produces, the SHA-256 of a canonical JSON dump (\<open>_stable_hash\<close>) and Python's
  \<open>str\<close> of floats and containers.
\<close>

record env =
  e_now :: time
  e_uuid :: "nat \<Rightarrow> uuid"
  e_hash :: "json \<Rightarrow> string"
  e_repr :: "json \<Rightarrow> string"

definition get_run :: "uuid \<Rightarrow> db \<Rightarrow> run_row option" where
  "get_run k d = t_get run_id k (db_runs d)"

definition upd_run :: "uuid \<Rightarrow> (run_row \<Rightarrow> run_row) \<Rightarrow> db \<Rightarrow> db" where
  "upd_run k f d = d\<lparr>db_runs := t_upd run_id k f (db_runs d)\<rparr>"

definition get_thread :: "uuid \<Rightarrow> db \<Rightarrow> thread_row option" where
  "get_thread k d = t_get th_id k (db_threads d)"

definition upd_thread :: "uuid \<Rightarrow> (thread_row \<Rightarrow> thread_row) \<Rightarrow> db \<Rightarrow> db" where
  "upd_thread k f d = d\<lparr>db_threads := t_upd th_id k f (db_threads d)\<rparr>"

definition get_lease :: "uuid \<Rightarrow> db \<Rightarrow> lease_row option" where
  "get_lease k d = t_get ls_run_id k (db_leases d)"

definition upd_lease :: "uuid \<Rightarrow> (lease_row \<Rightarrow> lease_row) \<Rightarrow> db \<Rightarrow> db" where
  "upd_lease k f d = d\<lparr>db_leases := t_upd ls_run_id k f (db_leases d)\<rparr>"

definition del_lease :: "uuid \<Rightarrow> db \<Rightarrow> db" where
  "del_lease k d = d\<lparr>db_leases := t_del ls_run_id k (db_leases d)\<rparr>"

definition get_baseline :: "uuid \<Rightarrow> db \<Rightarrow> baseline_row option" where
  "get_baseline k d = t_get bl_run_id k (db_baselines d)"

definition get_assistant :: "uuid \<Rightarrow> db \<Rightarrow> assistant_row option" where
  "get_assistant k d = t_get as_id k (db_assistants d)"

definition upd_assistant :: "uuid \<Rightarrow> (assistant_row \<Rightarrow> assistant_row) \<Rightarrow> db \<Rightarrow> db" where
  "upd_assistant k f d = d\<lparr>db_assistants := t_upd as_id k f (db_assistants d)\<rparr>"

definition get_cron :: "uuid \<Rightarrow> db \<Rightarrow> cron_row option" where
  "get_cron k d = t_get cr_id k (db_crons d)"

definition upd_cron :: "uuid \<Rightarrow> (cron_row \<Rightarrow> cron_row) \<Rightarrow> db \<Rightarrow> db" where
  "upd_cron k f d = d\<lparr>db_crons := t_upd cr_id k f (db_crons d)\<rparr>"

text \<open>
  \<open>session.delete(run)\<close> and \<open>DELETE FROM runs\<close>: leases, baselines and events of the run go
  with it (\<open>ON DELETE CASCADE\<close>).
\<close>

definition del_run :: "uuid \<Rightarrow> db \<Rightarrow> db" where
  "del_run k d = d\<lparr>db_runs := t_del run_id k (db_runs d),
     db_leases := t_del ls_run_id k (db_leases d),
     db_baselines := t_del bl_run_id k (db_baselines d),
     db_events := filter (\<lambda>e. ev_run_id e \<noteq> Some k) (db_events d)\<rparr>"

interpretation runs_t: row_table run_id db_runs get_run upd_run
  by unfold_locales (simp_all add: get_run_def upd_run_def)

interpretation threads_t: row_table th_id db_threads get_thread upd_thread
  by unfold_locales (simp_all add: get_thread_def upd_thread_def)

interpretation leases_t: row_table ls_run_id db_leases get_lease upd_lease
  by unfold_locales (simp_all add: get_lease_def upd_lease_def)

interpretation assistants_t: row_table as_id db_assistants get_assistant upd_assistant
  by unfold_locales (simp_all add: get_assistant_def upd_assistant_def)

interpretation crons_t: row_table cr_id db_crons get_cron upd_cron
  by unfold_locales (simp_all add: get_cron_def upd_cron_def)

section \<open>Frame lemmas\<close>

lemma upd_run_frame [simp]:
  "db_threads (upd_run k f d) = db_threads d" "db_leases (upd_run k f d) = db_leases d"
  "db_events (upd_run k f d) = db_events d" "db_baselines (upd_run k f d) = db_baselines d"
  "db_checkpoints (upd_run k f d) = db_checkpoints d" "db_writes (upd_run k f d) = db_writes d"
  "db_assistants (upd_run k f d) = db_assistants d" "db_crons (upd_run k f d) = db_crons d"
  "db_draws (upd_run k f d) = db_draws d" "db_versions (upd_run k f d) = db_versions d"
  "db_retry_counters (upd_run k f d) = db_retry_counters d" "db_blobs (upd_run k f d) = db_blobs d"
  by (simp_all add: upd_run_def)

lemma upd_thread_frame [simp]:
  "db_runs (upd_thread k g d) = db_runs d" "db_leases (upd_thread k g d) = db_leases d"
  "db_events (upd_thread k g d) = db_events d" "db_baselines (upd_thread k g d) = db_baselines d"
  "db_checkpoints (upd_thread k g d) = db_checkpoints d"
  "db_writes (upd_thread k g d) = db_writes d"
  "db_assistants (upd_thread k g d) = db_assistants d" "db_crons (upd_thread k g d) = db_crons d"
  "db_draws (upd_thread k g d) = db_draws d" "db_versions (upd_thread k g d) = db_versions d"
  "db_retry_counters (upd_thread k g d) = db_retry_counters d"
  "db_blobs (upd_thread k g d) = db_blobs d"
  by (simp_all add: upd_thread_def)

lemma del_lease_frame [simp]:
  "db_runs (del_lease k d) = db_runs d" "db_threads (del_lease k d) = db_threads d"
  "db_events (del_lease k d) = db_events d" "db_baselines (del_lease k d) = db_baselines d"
  "db_checkpoints (del_lease k d) = db_checkpoints d" "db_writes (del_lease k d) = db_writes d"
  "db_assistants (del_lease k d) = db_assistants d" "db_draws (del_lease k d) = db_draws d"
  by (simp_all add: del_lease_def)

lemma get_frame [simp]:
  "get_thread t (upd_run k f d) = get_thread t d"
  "get_lease l (upd_run k f d) = get_lease l d"
  "get_baseline l (upd_run k f d) = get_baseline l d"
  "get_assistant a (upd_run k f d) = get_assistant a d"
  "get_run r (upd_thread k g d) = get_run r d"
  "get_lease l (upd_thread k g d) = get_lease l d"
  "get_baseline l (upd_thread k g d) = get_baseline l d"
  "get_assistant a (upd_thread k g d) = get_assistant a d"
  "get_run r (del_lease k d) = get_run r d"
  "get_thread t (del_lease k d) = get_thread t d"
  "get_baseline l (del_lease k d) = get_baseline l d"
  "get_assistant a (del_lease k d) = get_assistant a d"
  by (simp_all add: get_thread_def get_lease_def get_run_def get_baseline_def get_assistant_def)

lemma get_lease_del [simp]: "get_lease l (del_lease k d) = (if l = k then None else get_lease l d)"
  by (simp add: get_lease_def del_lease_def)

end
