(* ===== verification/Observability.thy ===== *)
theory Observability
  imports Models
begin

text \<open>
  Trace metadata of durable events (\<open>observability.py\<close>): \<open>summarize_value\<close> replaces a payload
  by its kind, size and hash, and \<open>build_trace_metadata\<close> assembles the \<open>trace\<close> object stored
  with every event. The SHA-256 of the canonical dump and Python's \<open>repr\<close> of floats and
  containers come from the environment.
\<close>

section \<open>Python conversions\<close>

fun py_str :: "env \<Rightarrow> json \<Rightarrow> string" where
  "py_str e JNull = ''None''"
| "py_str e (JBool b) = (if b then ''True'' else ''False'')"
| "py_str e (JInt i) = int_str i"
| "py_str e (JStr s) = s"
| "py_str e v = e_repr e v"

text \<open>\<open>list(value)\<close>: the characters of a string, the keys of a dictionary.\<close>

fun py_list :: "json \<Rightarrow> json list res" where
  "py_list (JList xs) = Inr xs"
| "py_list (JStr s) = Inr (map (\<lambda>c. JStr [c]) s)"
| "py_list (JObj d) = Inr (map (\<lambda>(k, _). JStr k) d)"
| "py_list _ = Inl (TypeError ''object is not iterable'')"

definition opt_str :: "uuid option \<Rightarrow> json" where
  "opt_str u = (case u of None \<Rightarrow> JNull | Some i \<Rightarrow> JStr (uuid_str i))"

section \<open>Summaries and traces\<close>

definition DEFAULT_TRACE_CONTEXT_KEYS :: "string list" where
  "DEFAULT_TRACE_CONTEXT_KEYS = [''run_id'', ''thread_id'', ''assistant_id'',
     ''assistant_version'', ''deployment_version'', ''graph_id'', ''request_id'']"

definition SUMMARY_KEYS :: "string list" where
  "SUMMARY_KEYS = [''data'', ''input'', ''output'', ''error'', ''interrupts'', ''content'',
     ''prompt'', ''response'']"

fun summarize_value :: "env \<Rightarrow> json \<Rightarrow> json" where
  "summarize_value e JNull = JNull"
| "summarize_value e (JBool b) = JBool b"
| "summarize_value e (JInt i) = JInt i"
| "summarize_value e (JFloat r) = JFloat r"
| "summarize_value e (JStr s) =
     JObj [(''kind'', JStr ''str''), (''length'', JInt (int (length s))),
           (''sha256'', JStr (e_hash e (JStr s)))]"
| "summarize_value e (JObj d) =
     JObj [(''kind'', JStr ''dict''), (''size'', JInt (int (length d))),
           (''keys'', JList (map (\<lambda>(k, _). JStr k) (take 10 d))),
           (''sha256'', JStr (e_hash e (JObj d)))]"
| "summarize_value e (JList xs) =
     JObj [(''kind'', JStr ''list''), (''size'', JInt (int (length xs))),
           (''sha256'', JStr (e_hash e (JList xs)))]"

definition trace_context_fields :: "env \<Rightarrow> dict \<Rightarrow> string list \<Rightarrow> dict \<Rightarrow> dict" where
  "trace_context_fields e context keys trace =
     fold (\<lambda>k t. let v = dget context k in
             if v \<noteq> JNull \<and> v \<noteq> JStr [] then dset k (JStr (py_str e v)) t else t)
       keys trace"

definition trace_event_fields :: "env \<Rightarrow> dict \<Rightarrow> dict \<Rightarrow> dict" where
  "trace_event_fields e event trace =
     (let t1 = dset ''event''
            (JStr (py_str e (dgetor event ''event'' (dgetor event ''method'' (JStr ''custom''))))) trace;
          ns = dget event ''namespace'';
          t2 = (if ns \<noteq> JNull then dset ''namespace'' (summarize_value e ns) t1 else t1);
          t3 = fold (\<lambda>k t. if dhas event k then dset k (summarize_value e (dget event k)) t else t)
                 SUMMARY_KEYS t2
      in fold (\<lambda>k t. if dhas event k then dset k (JStr (py_str e (dget event k))) t else t)
           [''status'', ''reason'', ''topic''] t3)"

definition build_trace_metadata :: "env \<Rightarrow> dict \<Rightarrow> dict \<Rightarrow> string list option \<Rightarrow> dict" where
  "build_trace_metadata e event context allowed_keys =
     (let t0 = [(''schema_version'', JInt 1)];
          t1 = (if context \<noteq> []
                then trace_context_fields e context
                       (case allowed_keys of None \<Rightarrow> DEFAULT_TRACE_CONTEXT_KEYS | Some ks \<Rightarrow> ks) t0
                else t0)
      in if event \<noteq> [] then trace_event_fields e event t1 else t1)"

section \<open>Lemmas\<close>

lemma fold_cond_dset_keys:
  "dhas (fold (\<lambda>k t. if P k then dset k (f k) t else t) ks t) k \<Longrightarrow> k \<in> set ks \<or> dhas t k"
proof (induction ks arbitrary: t)
  case Nil
  then show ?case by simp
next
  case (Cons a ks)
  from Cons.prems Cons.IH have "k \<in> set ks \<or> dhas (if P a then dset a (f a) t else t) k"
    by (simp only: fold_simps)
  then show ?case by (auto split: if_splits)
qed

lemma trace_context_fields_keys:
  "dhas (trace_context_fields e c ks t) k \<Longrightarrow> k \<in> set ks \<or> dhas t k"
  unfolding trace_context_fields_def Let_def by (rule fold_cond_dset_keys)

lemma trace_event_fields_keys:
  assumes "dhas (trace_event_fields e ev t) k"
  shows "k \<in> set (''event'' # ''namespace'' # SUMMARY_KEYS @ [''status'', ''reason'', ''topic''])
         \<or> dhas t k"
  using assms unfolding trace_event_fields_def Let_def
  by (auto dest!: fold_cond_dset_keys split: if_splits)

end
