(* ===== verification/EventLog.thy ===== *)
theory EventLog
  imports Observability
begin

text \<open>
  The durable event log of \<open>run_store.py\<close>: \<open>record_event\<close> appends one event under the cursor of
  its thread (or of its run, when the run has no thread), \<open>record_message_deltas\<close> appends a
  batch under one cursor, \<open>prune_expired_events\<close> deletes a bounded batch of old events and
  raises the replay watermarks. Inserting a row checks the table's primary key, its two unique
  indexes and its foreign keys, as the flush does.
\<close>

section \<open>Inserting an event row\<close>

definition event_conflict :: "event_row \<Rightarrow> db \<Rightarrow> bool" where
  "event_conflict ev d =
     (list_ex (\<lambda>x. ev_id x = ev_id ev) (db_events d) \<or>
      (ev_run_id ev \<noteq> None \<and>
       (list_ex (\<lambda>x. ev_run_id x = ev_run_id ev \<and> ev_sequence x = ev_sequence ev) (db_events d) \<or>
        (ev_terminal ev \<and>
         list_ex (\<lambda>x. ev_run_id x = ev_run_id ev \<and> ev_terminal x) (db_events d)))) \<or>
      (case ev_run_id ev of None \<Rightarrow> False | Some r \<Rightarrow> get_run r d = None) \<or>
      (case ev_thread_id ev of None \<Rightarrow> False | Some t \<Rightarrow> get_thread t d = None))"

definition insert_event :: "event_row \<Rightarrow> db \<Rightarrow> db res" where
  "insert_event ev d =
     (if event_conflict ev d then Inl IntegrityError
      else Inr (d\<lparr>db_events := db_events d @ [ev]\<rparr>))"

section \<open>Cursors\<close>

definition thread_sequences :: "uuid \<Rightarrow> db \<Rightarrow> int list" where
  "thread_sequences t d = map ev_sequence (filter (\<lambda>v. ev_thread_id v = Some t) (db_events d))"

definition run_sequences :: "uuid \<Rightarrow> db \<Rightarrow> int list" where
  "run_sequences r d = map ev_sequence (filter (\<lambda>v. ev_run_id v = Some r) (db_events d))"

definition next_thread_sequence :: "thread_row \<Rightarrow> db \<Rightarrow> int" where
  "next_thread_sequence th d = max (th_event_seq th) (max_or0 (thread_sequences (th_id th) d)) + 1"

definition next_run_sequence :: "run_row \<Rightarrow> db \<Rightarrow> int" where
  "next_run_sequence r d = max (run_event_seq r) (max_or0 (run_sequences (run_id r) d)) + 1"

section \<open>Building the row\<close>

definition stamp_payload :: "env \<Rightarrow> dict \<Rightarrow> dict" where
  "stamp_payload e p =
     (if dhas p ''timestamp'' then p else dset ''timestamp'' (JInt (e_now e div 1000)) p)"

definition event_payload ::
  "env \<Rightarrow> uuid option \<Rightarrow> uuid option \<Rightarrow> string \<Rightarrow> json list \<Rightarrow> dict \<Rightarrow> dict \<Rightarrow> dict" where
  "event_payload e rid tid topic ns payload tctx =
     dset ''trace''
       (JObj (build_trace_metadata e
          (dmerge [(''event'', JStr topic), (''namespace'', JList ns)] payload)
          (dmerge [(''run_id'', opt_str rid), (''thread_id'', opt_str tid)] tctx) None))
       (stamp_payload e payload)"

definition make_event ::
  "env \<Rightarrow> uuid option \<Rightarrow> uuid option \<Rightarrow> int \<Rightarrow> string \<Rightarrow> json list \<Rightarrow> dict \<Rightarrow> dict \<Rightarrow> bool
    \<Rightarrow> db \<Rightarrow> event_row" where
  "make_event e rid tid seq topic ns payload tctx terminal d =
     \<lparr>ev_id = e_uuid e (db_draws d), ev_run_id = rid, ev_thread_id = tid, ev_sequence = seq,
      ev_topic = topic, ev_namespace = ns,
      ev_payload = event_payload e rid tid topic ns payload tctx,
      ev_terminal = terminal, ev_created_at = e_now e\<rparr>"

definition append_event ::
  "env \<Rightarrow> uuid option \<Rightarrow> uuid option \<Rightarrow> int \<Rightarrow> string \<Rightarrow> json list \<Rightarrow> dict \<Rightarrow> dict \<Rightarrow> bool
    \<Rightarrow> db \<Rightarrow> (event_row \<times> db) res" where
  "append_event e rid tid seq topic ns payload tctx terminal d =
     (let ev = make_event e rid tid seq topic ns payload tctx terminal d
      in rbind (insert_event ev (d\<lparr>db_draws := db_draws d + 1\<rparr>)) (\<lambda>d'. Inr (ev, d')))"

text \<open>A lifecycle event with a status names the graph it is about.\<close>

definition lifecycle_payload :: "run_row \<Rightarrow> string \<Rightarrow> dict \<Rightarrow> db \<Rightarrow> dict" where
  "lifecycle_payload r topic payload d =
     (if topic = ''lifecycle'' \<and> truthy (dget payload ''status'') \<and> \<not> dhas payload ''graph_name''
      then dset ''graph_name''
             (JStr (case get_assistant (run_assistant_id r) d of
                      Some a \<Rightarrow> as_graph_id a
                    | None \<Rightarrow> uuid_str (run_assistant_id r))) payload
      else payload)"

section \<open>record\_event\<close>

definition find_terminal_event :: "uuid \<Rightarrow> db \<Rightarrow> event_row option" where
  "find_terminal_event r d = find (\<lambda>v. ev_run_id v = Some r \<and> ev_terminal v) (db_events d)"

definition run_missing :: "uuid \<Rightarrow> py_error" where
  "run_missing r = RunOwnershipError (''run '' @ uuid_str r @ '' does not exist'')"

definition thread_missing :: "uuid \<Rightarrow> py_error" where
  "thread_missing t = RunOwnershipError (''thread '' @ uuid_str t @ '' does not exist'')"

definition record_run_event ::
  "env \<Rightarrow> run_row \<Rightarrow> string \<Rightarrow> dict \<Rightarrow> json list \<Rightarrow> dict \<Rightarrow> bool \<Rightarrow> db \<Rightarrow> (event_row \<times> db) res" where
  "record_run_event e r topic payload ns tctx terminal d =
     (case run_thread_id r of
        Some t \<Rightarrow>
          (case get_thread t d of
             None \<Rightarrow> Inl (thread_missing t)
           | Some th \<Rightarrow>
               (let s = next_thread_sequence th d;
                    d1 = upd_thread t (\<lambda>x. x\<lparr>th_event_seq := s\<rparr>) d;
                    d2 = upd_run (run_id r) (\<lambda>x. x\<lparr>run_event_seq := max (run_event_seq x) s\<rparr>) d1
                in append_event e (Some (run_id r)) (Some t) s topic ns payload tctx terminal d2))
      | None \<Rightarrow>
          (let s = next_run_sequence r d;
               d1 = upd_run (run_id r) (\<lambda>x. x\<lparr>run_event_seq := max (run_event_seq x) s\<rparr>) d
           in append_event e (Some (run_id r)) None s topic ns payload tctx terminal d1))"

definition record_thread_event ::
  "env \<Rightarrow> uuid \<Rightarrow> string \<Rightarrow> dict \<Rightarrow> json list \<Rightarrow> dict \<Rightarrow> bool \<Rightarrow> db \<Rightarrow> (event_row \<times> db) res" where
  "record_thread_event e t topic payload ns tctx terminal d =
     (case get_thread t d of
        None \<Rightarrow> Inl (thread_missing t)
      | Some th \<Rightarrow>
          (let s = next_thread_sequence th d;
               d1 = upd_thread t (\<lambda>x. x\<lparr>th_event_seq := s\<rparr>) d
           in append_event e None (Some t) s topic ns payload tctx terminal d1))"

definition record_event ::
  "env \<Rightarrow> uuid option \<Rightarrow> uuid option \<Rightarrow> string \<Rightarrow> dict \<Rightarrow> json list \<Rightarrow> dict \<Rightarrow> bool \<Rightarrow> db
    \<Rightarrow> (event_row \<times> db) res" where
  "record_event e rid tid topic payload ns tctx terminal d =
     (case rid of
        Some r \<Rightarrow>
          (case get_run r d of
             None \<Rightarrow> Inl (run_missing r)
           | Some run \<Rightarrow>
               if tid \<noteq> None \<and> tid \<noteq> run_thread_id run then
                 Inl (ValueError ''event thread_id does not match the run thread'')
               else (case (if terminal then find_terminal_event r d else None) of
                   Some existing \<Rightarrow> Inr (existing, d)
                 | None \<Rightarrow>
                     record_run_event e run topic (lifecycle_payload run topic payload d) ns tctx
                       terminal d))
      | None \<Rightarrow>
          (case tid of
             None \<Rightarrow> Inl (ValueError ''thread_id is required when recording a runless event'')
           | Some t \<Rightarrow> record_thread_event e t topic payload ns tctx terminal d))"

section \<open>record\_message\_deltas\<close>

definition delta_namespace :: "dict \<Rightarrow> json list res" where
  "delta_namespace event =
     py_list (dgetor event ''namespace'' (dgetor event ''parent_ids'' (JList [])))"

text \<open>The loop over the events: consecutive sequence numbers, rows collected in order.\<close>

fun delta_rows ::
  "env \<Rightarrow> uuid \<Rightarrow> uuid option \<Rightarrow> dict \<Rightarrow> nat \<Rightarrow> int \<Rightarrow> dict list \<Rightarrow> event_row list res" where
  "delta_rows e r tid tctx draws s [] = Inr []"
| "delta_rows e r tid tctx draws s (event # events) =
     rbind (delta_namespace event) (\<lambda>ns.
     rbind (delta_rows e r tid tctx (draws + 1) (s + 1) events) (\<lambda>rest.
       Inr (\<lparr>ev_id = e_uuid e draws, ev_run_id = Some r, ev_thread_id = tid,
             ev_sequence = s + 1, ev_topic = ''messages'', ev_namespace = ns,
             ev_payload = event_payload e (Some r) tid ''messages'' ns event tctx,
             ev_terminal = False, ev_created_at = e_now e\<rparr> # rest)))"

fun insert_events :: "event_row list \<Rightarrow> db \<Rightarrow> db res" where
  "insert_events [] d = Inr d"
| "insert_events (ev # evs) d = rbind (insert_event ev d) (insert_events evs)"

definition delta_start :: "run_row \<Rightarrow> thread_row option \<Rightarrow> db \<Rightarrow> int" where
  "delta_start r th d =
     (case th of
        Some t \<Rightarrow> max (max (th_event_seq t) (run_event_seq r)) (max_or0 (thread_sequences (th_id t) d))
      | None \<Rightarrow> max (run_event_seq r) (max_or0 (run_sequences (run_id r) d)))"

definition record_message_deltas ::
  "env \<Rightarrow> uuid \<Rightarrow> uuid option \<Rightarrow> dict list \<Rightarrow> dict \<Rightarrow> db \<Rightarrow> (event_row list \<times> db) res" where
  "record_message_deltas e r tid events tctx d =
     (if events = [] then Inr ([], d)
      else case get_run r d of
        None \<Rightarrow> Inl (run_missing r)
      | Some run \<Rightarrow>
          if tid \<noteq> None \<and> tid \<noteq> run_thread_id run then
            Inl (ValueError ''event thread_id does not match the run thread'')
          else
            rbind (case run_thread_id run of
                     None \<Rightarrow> Inr None
                   | Some t \<Rightarrow>
                       (case get_thread t d of
                          None \<Rightarrow> Inl (thread_missing t)
                        | Some th \<Rightarrow> Inr (Some th))) (\<lambda>th.
            let s = delta_start run th d; last_s = s + int (length events) in
            rbind (delta_rows e r (run_thread_id run) tctx (db_draws d) s events) (\<lambda>rows.
            let d1 = upd_run r (\<lambda>x. x\<lparr>run_event_seq := last_s\<rparr>) d;
                d2 = (case run_thread_id run of
                        None \<Rightarrow> d1
                      | Some t \<Rightarrow> upd_thread t (\<lambda>x. x\<lparr>th_event_seq := last_s\<rparr>) d1)
            in rbind (insert_events rows (d2\<lparr>db_draws := db_draws d + length events\<rparr>)) (\<lambda>d3.
               Inr (rows, d3)))))"

section \<open>prune\_expired\_events\<close>

definition expired_event :: "time \<Rightarrow> uuid \<Rightarrow> event_row \<Rightarrow> bool" where
  "expired_event cutoff r v =
     (ev_run_id v = Some r \<and> ev_created_at v < cutoff \<and> \<not> ev_terminal v)"

text \<open>
  \<open>locked\<close> says which run rows another transaction holds: \<open>FOR UPDATE SKIP LOCKED\<close> passes them
  over.
\<close>

definition prune_candidate :: "time \<Rightarrow> (uuid \<Rightarrow> bool) \<Rightarrow> db \<Rightarrow> run_row option" where
  "prune_candidate cutoff locked d =
     min_by (\<lambda>r. (run_updated_at r, run_id r))
       (filter (\<lambda>r. run_status r \<in> set TERMINAL_RUN_STATUSES \<and> run_updated_at r < cutoff \<and>
                    list_ex (expired_event cutoff (run_id r)) (db_events d) \<and>
                    \<not> locked (run_id r))
          (db_runs d))"

definition prune_batch :: "time \<Rightarrow> uuid \<Rightarrow> nat \<Rightarrow> db \<Rightarrow> uuid list" where
  "prune_batch cutoff r n d =
     map ev_id (take n (sort_key ev_sequence (filter (expired_event cutoff r) (db_events d))))"

definition prune_expired_events ::
  "env \<Rightarrow> (uuid \<Rightarrow> bool) \<Rightarrow> int \<Rightarrow> int \<Rightarrow> db \<Rightarrow> nat \<times> db" where
  "prune_expired_events e locked retention_seconds batch_size d =
     (if retention_seconds \<le> 0 \<or> batch_size \<le> 0 then (0, d)
      else
        let cutoff = e_now e - retention_seconds * 1000000 in
        case prune_candidate cutoff locked d of
          None \<Rightarrow> (0, d)
        | Some run \<Rightarrow>
            let ids = prune_batch cutoff (run_id run) (nat batch_size) d in
            if ids = [] then (0, d)
            else
              let deleted = map ev_sequence (filter (\<lambda>v. ev_id v \<in> set ids) (db_events d));
                  d1 = d\<lparr>db_events := filter (\<lambda>v. ev_id v \<notin> set ids) (db_events d)\<rparr>
              in if deleted = [] then (0, d1)
                 else
                   let watermark = Max (set deleted);
                       d2 = upd_run (run_id run)
                              (\<lambda>x. x\<lparr>run_event_pruned_through :=
                                       max (run_event_pruned_through x) watermark\<rparr>) d1;
                       d3 = (case run_thread_id run of
                               None \<Rightarrow> d2
                             | Some t \<Rightarrow> upd_thread t
                                 (\<lambda>x. x\<lparr>th_event_pruned_through :=
                                          max (th_event_pruned_through x) watermark\<rparr>) d2)
                   in (length deleted, d3))"

section \<open>Well-formed logs\<close>

text \<open>
  The log invariant: rows are keyed, an event refers to rows that exist and agree on the
  thread, cursors are at or above every sequence number of their scope, a run's cursor is at or
  below its thread's, storage order is sequence order in every scope, and a run has at most one
  terminal event.
\<close>

definition event_refs_ok :: "db \<Rightarrow> event_row \<Rightarrow> bool" where
  "event_refs_ok d v \<longleftrightarrow>
     (\<forall>r. ev_run_id v = Some r \<longrightarrow>
        (\<exists>run. get_run r d = Some run \<and> ev_thread_id v = run_thread_id run \<and>
               ev_sequence v \<le> run_event_seq run)) \<and>
     (\<forall>t. ev_thread_id v = Some t \<longrightarrow>
        (\<exists>th. get_thread t d = Some th \<and> ev_sequence v \<le> th_event_seq th))"

definition cursors_ok :: "db \<Rightarrow> bool" where
  "cursors_ok d \<longleftrightarrow>
     (\<forall>r run t. get_run r d = Some run \<and> run_thread_id run = Some t \<longrightarrow>
        run_event_seq run \<le> (case get_thread t d of None \<Rightarrow> 0 | Some th \<Rightarrow> th_event_seq th))"

definition terminal_events :: "uuid \<Rightarrow> db \<Rightarrow> event_row list" where
  "terminal_events r d = filter (\<lambda>v. ev_run_id v = Some r \<and> ev_terminal v) (db_events d)"

definition log_wf :: "db \<Rightarrow> bool" where
  "log_wf d \<longleftrightarrow>
     distinct (map run_id (db_runs d)) \<and> distinct (map th_id (db_threads d)) \<and>
     distinct (map ev_id (db_events d)) \<and>
     (\<forall>th \<in> set (db_threads d). 0 \<le> th_event_seq th) \<and>
     (\<forall>v \<in> set (db_events d). event_refs_ok d v) \<and> cursors_ok d \<and>
     (\<forall>t. sorted_wrt (<) (thread_sequences t d)) \<and>
     (\<forall>r. sorted_wrt (<) (run_sequences r d)) \<and>
     (\<forall>r. length (terminal_events r d) \<le> 1)"

text \<open>\<open>uuid4\<close> returns identifiers that are new, and different from one another.\<close>

definition fresh_ids :: "env \<Rightarrow> db \<Rightarrow> bool" where
  "fresh_ids e d \<longleftrightarrow>
     inj_on (e_uuid e) {db_draws d..} \<and>
     (\<forall>n \<ge> db_draws d. e_uuid e n \<notin> ev_id ` set (db_events d))"

lemma log_wfD:
  assumes "log_wf d"
  shows "distinct (map run_id (db_runs d))" "distinct (map th_id (db_threads d))"
    "distinct (map ev_id (db_events d))" "\<And>v. v \<in> set (db_events d) \<Longrightarrow> event_refs_ok d v"
    "cursors_ok d" "\<And>t. sorted_wrt (<) (thread_sequences t d)"
    "\<And>r. sorted_wrt (<) (run_sequences r d)" "\<And>r. length (terminal_events r d) \<le> 1"
    "\<And>th. th \<in> set (db_threads d) \<Longrightarrow> 0 \<le> th_event_seq th"
  using assms by (auto simp: log_wf_def)

lemma event_refs_run:
  "event_refs_ok d v \<Longrightarrow> ev_run_id v = Some r \<Longrightarrow>
   \<exists>run. get_run r d = Some run \<and> ev_thread_id v = run_thread_id run \<and>
         ev_sequence v \<le> run_event_seq run"
  by (simp add: event_refs_ok_def)

lemma event_refs_thread:
  "event_refs_ok d v \<Longrightarrow> ev_thread_id v = Some t \<Longrightarrow>
   \<exists>th. get_thread t d = Some th \<and> ev_sequence v \<le> th_event_seq th"
  by (simp add: event_refs_ok_def)

lemma thread_sequence_le:
  assumes "log_wf d" "get_thread t d = Some th" "s \<in> set (thread_sequences t d)"
  shows "s \<le> th_event_seq th"
  using assms by (auto simp: thread_sequences_def dest!: log_wfD(4) [OF assms(1)] event_refs_thread)

lemma run_sequence_le:
  assumes "log_wf d" "get_run r d = Some run" "s \<in> set (run_sequences r d)"
  shows "s \<le> run_event_seq run"
  using assms by (auto simp: run_sequences_def dest!: log_wfD(4) [OF assms(1)] event_refs_run)

lemma run_sequences_below_thread:
  assumes "log_wf d" "get_run r d = Some run" "run_thread_id run = Some t"
    "get_thread t d = Some th" "s \<in> set (run_sequences r d)"
  shows "s \<le> th_event_seq th"
  using run_sequence_le [OF assms(1,2,5)] log_wfD(5) [OF assms(1)] assms(2,3,4)
  by (fastforce simp: cursors_ok_def)

subsection \<open>Raising cursors\<close>

lemma event_frames [simp]:
  "thread_sequences t (upd_run r f d) = thread_sequences t d"
  "run_sequences q (upd_run r f d) = run_sequences q d"
  "terminal_events q (upd_run r f d) = terminal_events q d"
  "thread_sequences t (upd_thread k g d) = thread_sequences t d"
  "run_sequences q (upd_thread k g d) = run_sequences q d"
  "terminal_events q (upd_thread k g d) = terminal_events q d"
  by (simp_all add: thread_sequences_def run_sequences_def terminal_events_def)

lemma draws_frames [simp]:
  "get_run r (d\<lparr>db_draws := n\<rparr>) = get_run r d" "get_thread t (d\<lparr>db_draws := n\<rparr>) = get_thread t d"
  "thread_sequences t (d\<lparr>db_draws := n\<rparr>) = thread_sequences t d"
  "run_sequences r (d\<lparr>db_draws := n\<rparr>) = run_sequences r d"
  "terminal_events r (d\<lparr>db_draws := n\<rparr>) = terminal_events r d"
  by (simp_all add: get_run_def get_thread_def thread_sequences_def run_sequences_def
      terminal_events_def)

lemma log_wf_draws [simp]: "log_wf (d\<lparr>db_draws := n\<rparr>) = log_wf d"
  by (simp add: log_wf_def event_refs_ok_def cursors_ok_def)

text \<open>
  Updates that keep a run's identity, thread and cursor (a status change, a lease, a watermark)
  keep the log invariant; so do updates of a thread that keep its identity and cursor.
\<close>

lemma log_wf_upd_run:
  assumes "log_wf d" "\<And>x. run_id (f x) = run_id x" "\<And>x. run_thread_id (f x) = run_thread_id x"
    "\<And>x. run_event_seq (f x) = run_event_seq x"
  shows "log_wf (upd_run r f d)"
proof -
  have g: "get_run q (upd_run r f d) = (if q = r then map_option f (get_run r d) else get_run q d)"
    for q by (rule runs_t.get_upd) (rule assms(2))
  have "event_refs_ok (upd_run r f d) v" if "event_refs_ok d v" for v
    using that assms(3,4) by (fastforce simp: event_refs_ok_def g)
  moreover have "cursors_ok (upd_run r f d)"
    using log_wfD(5) [OF assms(1)] assms(3,4)
    by (auto simp: cursors_ok_def g split: if_splits)
  ultimately show ?thesis
    using assms(1) runs_t.keys_upd [of f r d, OF assms(2)] by (simp add: log_wf_def)
qed

lemma log_wf_upd_thread:
  assumes "log_wf d" "\<And>x. th_id (g x) = th_id x"
    "\<And>x. get_thread t d = Some x \<Longrightarrow> th_event_seq x \<le> th_event_seq (g x)"
  shows "log_wf (upd_thread t g d)"
proof -
  have h: "get_thread q (upd_thread t g d) =
      (if q = t then map_option g (get_thread t d) else get_thread q d)"
    for q by (rule threads_t.get_upd) (rule assms(2))
  have "event_refs_ok (upd_thread t g d) v" if "event_refs_ok d v" for v
    using that assms(3) by (fastforce simp: event_refs_ok_def h intro: order_trans)
  moreover have "cursors_ok (upd_thread t g d)"
    unfolding cursors_ok_def
  proof (intro allI impI, elim conjE)
    fix r run q
    assume r: "get_run r (upd_thread t g d) = Some run" "run_thread_id run = Some q"
    then have le: "run_event_seq run \<le> (case get_thread q d of None \<Rightarrow> 0 | Some th \<Rightarrow> th_event_seq th)"
      using log_wfD(5) [OF assms(1)] by (simp add: cursors_ok_def)
    show "run_event_seq run \<le> (case get_thread q (upd_thread t g d) of None \<Rightarrow> 0
        | Some th \<Rightarrow> th_event_seq th)"
    proof (cases "get_thread q d")
      case None
      with le show ?thesis by (cases "q = t") (simp_all add: h)
    next
      case (Some x)
      with le assms(3) [of x] show ?thesis by (auto simp: h)
    qed
  qed
  moreover have "0 \<le> th_event_seq x" if "x \<in> set (db_threads (upd_thread t g d))" for x
  proof -
    from that obtain y where y: "y \<in> set (db_threads d)" "x = (if th_id y = t then g y else y)"
      by (auto simp: threads_t.set_upd)
    then have "get_thread (th_id y) d = Some y"
      using threads_t.get_in log_wfD(2) [OF assms(1)] by blast
    with y assms(3) [of y] log_wfD(9) [OF assms(1) y(1)] show ?thesis
      by (auto intro: order_trans)
  qed
  ultimately show ?thesis
    using assms(1) threads_t.keys_upd [of g t d, OF assms(2)] by (simp add: log_wf_def)
qed

lemma log_wf_raise_run:
  assumes "log_wf d" "get_run r d = Some run" "run_event_seq run \<le> s"
    "\<And>t. run_thread_id run = Some t \<Longrightarrow>
       s \<le> (case get_thread t d of None \<Rightarrow> 0 | Some th \<Rightarrow> th_event_seq th)"
    "\<And>x. run_id (f x) = run_id x" "\<And>x. run_thread_id (f x) = run_thread_id x"
    "run_event_seq (f run) = s"
  shows "log_wf (upd_run r f d)"
proof -
  have g: "get_run q (upd_run r f d) = (if q = r then map_option f (get_run r d) else get_run q d)"
    for q by (rule runs_t.get_upd) (rule assms(5))
  have "event_refs_ok (upd_run r f d) v" if "event_refs_ok d v" for v
    using that assms(2,3,6,7) by (fastforce simp: event_refs_ok_def g)
  moreover have "cursors_ok (upd_run r f d)"
    using log_wfD(5) [OF assms(1)] assms(2,4,6,7)
    by (auto simp: cursors_ok_def g split: if_splits)
  ultimately show ?thesis
    using assms(1) runs_t.keys_upd [of f r d, OF assms(5)] by (simp add: log_wf_def)
qed

subsection \<open>Appending an event\<close>

lemma events_append [simp]:
  "get_run r (d\<lparr>db_events := evs\<rparr>) = get_run r d"
  "get_thread t (d\<lparr>db_events := evs\<rparr>) = get_thread t d"
  "thread_sequences t (d\<lparr>db_events := db_events d @ [ev]\<rparr>) =
     thread_sequences t d @ (if ev_thread_id ev = Some t then [ev_sequence ev] else [])"
  "run_sequences r (d\<lparr>db_events := db_events d @ [ev]\<rparr>) =
     run_sequences r d @ (if ev_run_id ev = Some r then [ev_sequence ev] else [])"
  "terminal_events r (d\<lparr>db_events := db_events d @ [ev]\<rparr>) =
     terminal_events r d @ (if ev_run_id ev = Some r \<and> ev_terminal ev then [ev] else [])"
  by (simp_all add: get_run_def get_thread_def thread_sequences_def run_sequences_def
      terminal_events_def)

definition appendable :: "event_row \<Rightarrow> db \<Rightarrow> bool" where
  "appendable ev d \<longleftrightarrow>
     event_refs_ok d ev \<and> ev_id ev \<notin> ev_id ` set (db_events d) \<and>
     (\<forall>t. ev_thread_id ev = Some t \<longrightarrow> (\<forall>s \<in> set (thread_sequences t d). s < ev_sequence ev)) \<and>
     (\<forall>r. ev_run_id ev = Some r \<longrightarrow>
        (\<forall>s \<in> set (run_sequences r d). s < ev_sequence ev) \<and>
        (ev_terminal ev \<longrightarrow> terminal_events r d = []))"

lemma appendable_no_conflict:
  assumes "appendable ev d"
  shows "\<not> event_conflict ev d"
proof -
  have "\<not> list_ex (\<lambda>x. ev_id x = ev_id ev) (db_events d)"
    using assms unfolding appendable_def list_ex_iff by (metis imageI)
  moreover have "\<not> list_ex (\<lambda>x. ev_run_id x = ev_run_id ev \<and> ev_sequence x = ev_sequence ev)
      (db_events d)" if "ev_run_id ev \<noteq> None"
    using assms that unfolding appendable_def list_ex_iff run_sequences_def by fastforce
  moreover have "\<not> list_ex (\<lambda>x. ev_run_id x = ev_run_id ev \<and> ev_terminal x) (db_events d)"
    if "ev_run_id ev \<noteq> None" "ev_terminal ev"
    using assms that unfolding appendable_def list_ex_iff terminal_events_def filter_empty_conv
    by fastforce
  moreover have "\<And>r. ev_run_id ev = Some r \<Longrightarrow> get_run r d \<noteq> None"
    "\<And>t. ev_thread_id ev = Some t \<Longrightarrow> get_thread t d \<noteq> None"
    using assms by (auto simp: appendable_def event_refs_ok_def)
  ultimately show ?thesis
    unfolding event_conflict_def by (auto split: option.splits)
qed

lemma log_wf_append:
  assumes "log_wf d" "appendable ev d"
  shows "log_wf (d\<lparr>db_events := db_events d @ [ev]\<rparr>)"
proof -
  have r: "event_refs_ok (d\<lparr>db_events := evs\<rparr>) v = event_refs_ok d v" for evs v
    by (simp add: event_refs_ok_def)
  show ?thesis
    using assms unfolding log_wf_def appendable_def
    by (auto simp: r cursors_ok_def sorted_wrt_append)
qed

lemma insert_event_Inr: "insert_event ev d = Inr d' \<longleftrightarrow>
    \<not> event_conflict ev d \<and> d' = d\<lparr>db_events := db_events d @ [ev]\<rparr>"
  by (auto simp: insert_event_def)

lemma append_event_Inr: "append_event e rid tid s topic ns p tc term d = Inr (ev, d') \<longleftrightarrow>
    ev = make_event e rid tid s topic ns p tc term d \<and>
    \<not> event_conflict ev (d\<lparr>db_draws := db_draws d + 1\<rparr>) \<and>
    d' = d\<lparr>db_draws := db_draws d + 1, db_events := db_events d @ [ev]\<rparr>"
  by (auto simp: append_event_def Let_def rbind_eq_Inr insert_event_Inr)

lemma make_event_sel [simp]:
  "ev_id (make_event e rid tid s topic ns p tc term d) = e_uuid e (db_draws d)"
  "ev_run_id (make_event e rid tid s topic ns p tc term d) = rid"
  "ev_thread_id (make_event e rid tid s topic ns p tc term d) = tid"
  "ev_sequence (make_event e rid tid s topic ns p tc term d) = s"
  "ev_topic (make_event e rid tid s topic ns p tc term d) = topic"
  "ev_namespace (make_event e rid tid s topic ns p tc term d) = ns"
  "ev_terminal (make_event e rid tid s topic ns p tc term d) = term"
  "ev_created_at (make_event e rid tid s topic ns p tc term d) = e_now e"
  by (simp_all add: make_event_def)

section \<open>record\_event keeps the log well formed\<close>

lemma next_thread_sequence_gt:
  "th_event_seq th < next_thread_sequence th d"
  "s \<in> set (thread_sequences (th_id th) d) \<Longrightarrow> s < next_thread_sequence th d"
  using max_or0_ge [of s "thread_sequences (th_id th) d"] by (auto simp: next_thread_sequence_def)

lemma next_run_sequence_gt:
  "run_event_seq r < next_run_sequence r d"
  "s \<in> set (run_sequences (run_id r) d) \<Longrightarrow> s < next_run_sequence r d"
  using max_or0_ge [of s "run_sequences (run_id r) d"] by (auto simp: next_run_sequence_def)

lemma conflict_facts:
  assumes "\<not> event_conflict ev d"
  shows "ev_id ev \<notin> ev_id ` set (db_events d)"
    "\<And>r. ev_run_id ev = Some r \<Longrightarrow> ev_terminal ev \<Longrightarrow> terminal_events r d = []"
  using assms by (force simp: event_conflict_def list_ex_iff image_iff terminal_events_def
      filter_empty_conv)+

lemma event_conflict_draws [simp]: "event_conflict ev (d\<lparr>db_draws := n\<rparr>) = event_conflict ev d"
  by (simp add: event_conflict_def split: option.split)

lemma append_event_log_wf:
  assumes "log_wf d" "append_event e rid tid s topic ns p tc term d = Inr (ev, d')"
    "event_refs_ok d (make_event e rid tid s topic ns p tc term d)"
    "\<And>t x. tid = Some t \<Longrightarrow> x \<in> set (thread_sequences t d) \<Longrightarrow> x < s"
    "\<And>r x. rid = Some r \<Longrightarrow> x \<in> set (run_sequences r d) \<Longrightarrow> x < s"
  shows "log_wf d'"
proof -
  let ?ev = "make_event e rid tid s topic ns p tc term d"
  from assms(2) have nc: "\<not> event_conflict ?ev d" and d': "d' =
      d\<lparr>db_events := db_events d @ [?ev]\<rparr>\<lparr>db_draws := db_draws d + 1\<rparr>"
    by (auto simp: append_event_Inr)
  have "appendable ?ev d"
    using assms(3,4,5) conflict_facts [OF nc] by (auto simp: appendable_def)
  with assms(1) have "log_wf (d\<lparr>db_events := db_events d @ [?ev]\<rparr>)" by (rule log_wf_append)
  then show ?thesis unfolding d' log_wf_draws .
qed

lemma raised_thread_log:
  assumes "log_wf d" "get_run r d = Some run" "run_thread_id run = Some t"
    "get_thread t d = Some th" "s = next_thread_sequence th d"
    "d2 = upd_run r (\<lambda>x. x\<lparr>run_event_seq := max (run_event_seq x) s\<rparr>)
            (upd_thread t (\<lambda>x. x\<lparr>th_event_seq := s\<rparr>) d)"
  shows "log_wf d2" "get_run r d2 = Some (run\<lparr>run_event_seq := max (run_event_seq run) s\<rparr>)"
    "get_thread t d2 = Some (th\<lparr>th_event_seq := s\<rparr>)"
proof -
  have tid: "th_id th = t" using threads_t.get_Some [OF assms(4)] by simp
  have gt: "th_event_seq th < s" using assms(5) next_thread_sequence_gt(1) by simp
  have w1: "log_wf (upd_thread t (\<lambda>x. x\<lparr>th_event_seq := s\<rparr>) d)"
    by (rule log_wf_upd_thread [OF assms(1)]) (use assms(4) gt in auto)
  have g1: "get_thread t (upd_thread t (\<lambda>x. x\<lparr>th_event_seq := s\<rparr>) d) =
      Some (th\<lparr>th_event_seq := s\<rparr>)"
    by (simp add: threads_t.get_upd assms(4))
  have le: "run_event_seq run \<le> th_event_seq th"
    using log_wfD(5) [OF assms(1)] assms(2,3,4) by (fastforce simp: cursors_ok_def)
  show "log_wf d2" unfolding assms(6)
    by (rule log_wf_raise_run [OF w1, where run = run and s = "max (run_event_seq run) s"])
      (use assms(2,3) g1 le gt in auto)
  show "get_run r d2 = Some (run\<lparr>run_event_seq := max (run_event_seq run) s\<rparr>)"
    by (simp add: assms(6) runs_t.get_upd assms(2))
  show "get_thread t d2 = Some (th\<lparr>th_event_seq := s\<rparr>)"
    by (simp add: assms(6) g1)
qed

lemma record_run_event_log_wf:
  assumes "log_wf d" "get_run r d = Some run"
    "record_run_event e run topic p ns tc term d = Inr (ev, d')"
  shows "log_wf d'"
proof -
  have rid: "run_id run = r" using runs_t.get_Some [OF assms(2)] by simp
  show ?thesis
  proof (cases "run_thread_id run")
    case None
    let ?s = "next_run_sequence run d"
    let ?d1 = "upd_run r (\<lambda>x. x\<lparr>run_event_seq := max (run_event_seq x) ?s\<rparr>) d"
    have w: "log_wf ?d1"
      by (rule log_wf_raise_run [OF assms(1,2), where s = "max (run_event_seq run) ?s"])
        (use None in auto)
    have g: "get_run r ?d1 = Some (run\<lparr>run_event_seq := max (run_event_seq run) ?s\<rparr>)"
      by (simp add: runs_t.get_upd assms(2))
    from assms(3) None have
      a: "append_event e (Some r) None ?s topic ns p tc term ?d1 = Inr (ev, d')"
      by (simp add: record_run_event_def Let_def rid)
    show ?thesis
      by (rule append_event_log_wf [OF w a])
        (use None g next_run_sequence_gt(2) [of _ run d] rid in \<open>auto simp: event_refs_ok_def\<close>)
  next
    case (Some t)
    then obtain th where th: "get_thread t d = Some th"
      using assms(3) by (auto simp: record_run_event_def split: option.splits)
    let ?s = "next_thread_sequence th d"
    let ?d2 = "upd_run r (\<lambda>x. x\<lparr>run_event_seq := max (run_event_seq x) ?s\<rparr>)
            (upd_thread t (\<lambda>x. x\<lparr>th_event_seq := ?s\<rparr>) d)"
    note w = raised_thread_log [OF assms(1,2) Some th refl refl]
    from assms(3) Some th have
      a: "append_event e (Some r) (Some t) ?s topic ns p tc term ?d2 = Inr (ev, d')"
      by (simp add: record_run_event_def Let_def rid)
    have tid: "th_id th = t" using threads_t.get_Some [OF th] by simp
    show ?thesis
      by (rule append_event_log_wf [OF w(1) a])
        (use Some w(2,3) next_thread_sequence_gt(1) [of th d] next_thread_sequence_gt(2) [of _ th d]
          run_sequences_below_thread [OF assms(1,2) Some th] tid
         in \<open>auto simp: event_refs_ok_def intro: le_less_trans\<close>)
  qed
qed

lemma record_thread_event_log_wf:
  assumes "log_wf d" "record_thread_event e t topic p ns tc term d = Inr (ev, d')"
  shows "log_wf d'"
proof -
  from assms(2) obtain th where th: "get_thread t d = Some th"
    by (auto simp: record_thread_event_def split: option.splits)
  let ?s = "next_thread_sequence th d"
  let ?d1 = "upd_thread t (\<lambda>x. x\<lparr>th_event_seq := ?s\<rparr>) d"
  from assms(2) th have a: "append_event e None (Some t) ?s topic ns p tc term ?d1 = Inr (ev, d')"
    by (simp add: record_thread_event_def Let_def)
  have tid: "th_id th = t" using threads_t.get_Some [OF th] by simp
  have w: "log_wf ?d1"
    by (rule log_wf_upd_thread [OF assms(1)])
      (use th next_thread_sequence_gt(1) [of th d] in \<open>auto simp: less_imp_le\<close>)
  show ?thesis
    by (rule append_event_log_wf [OF w a])
      (use next_thread_sequence_gt(2) [of _ th d] tid in
        \<open>auto simp: event_refs_ok_def threads_t.get_upd th\<close>)
qed

text \<open>The two outcomes of a successful call: the existing terminal event, or a new row.\<close>

lemma record_event_cases:
  assumes "record_event e rid tid topic p ns tc term d = Inr (ev, d')"
  obtains (existing) r where "rid = Some r" "term" "find_terminal_event r d = Some ev" "d' = d"
  | (run) r run where "rid = Some r" "get_run r d = Some run"
      "term \<Longrightarrow> find_terminal_event r d = None" "tid = None \<or> tid = run_thread_id run"
      "record_run_event e run topic (lifecycle_payload run topic p d) ns tc term d = Inr (ev, d')"
  | (runless) t where "rid = None" "tid = Some t"
      "record_thread_event e t topic p ns tc term d = Inr (ev, d')"
proof (cases rid)
  case None
  then show ?thesis
    using assms runless by (cases tid) (simp_all add: record_event_def)
next
  case (Some r)
  then obtain run where r: "get_run r d = Some run" "tid = None \<or> tid = run_thread_id run"
    using assms by (auto simp: record_event_def split: option.splits if_splits)
  show ?thesis
  proof (cases "if term then find_terminal_event r d else None")
    case None
    then show ?thesis
      using assms Some r by (intro run [of r run]) (auto simp: record_event_def split: if_splits)
  next
    case (Some v)
    then show ?thesis
      using assms \<open>rid = Some r\<close> r
      by (intro existing [of r]) (auto simp: record_event_def split: if_splits)
  qed
qed

lemma record_event_log_wf:
  assumes "log_wf d" "record_event e rid tid topic p ns tc term d = Inr (ev, d')"
  shows "log_wf d'"
  using assms(2)
proof (cases rule: record_event_cases)
  case existing
  with assms(1) show ?thesis by simp
next
  case run
  with assms(1) show ?thesis by (blast intro: record_run_event_log_wf)
next
  case runless
  with assms(1) show ?thesis by (blast intro: record_thread_event_log_wf)
qed

section \<open>A batch of deltas is a sequence of records\<close>

text \<open>The specification of the batch: each delta recorded on its own.\<close>

fun record_each ::
  "env \<Rightarrow> uuid \<Rightarrow> uuid option \<Rightarrow> dict \<Rightarrow> dict list \<Rightarrow> db \<Rightarrow> (event_row list \<times> db) res" where
  "record_each e r tid tctx [] d = Inr ([], d)"
| "record_each e r tid tctx (event # events) d =
     rbind (delta_namespace event) (\<lambda>ns.
     rbind (record_event e (Some r) tid ''messages'' event ns tctx False d) (\<lambda>(row, d1).
     rbind (record_each e r tid tctx events d1) (\<lambda>(rows, d2). Inr (row # rows, d2))))"

definition raise_to :: "uuid \<Rightarrow> uuid option \<Rightarrow> int \<Rightarrow> db \<Rightarrow> db" where
  "raise_to r tido s d =
     (case tido of
        None \<Rightarrow> upd_run r (\<lambda>x. x\<lparr>run_event_seq := s\<rparr>) d
      | Some t \<Rightarrow> upd_thread t (\<lambda>x. x\<lparr>th_event_seq := s\<rparr>) (upd_run r (\<lambda>x. x\<lparr>run_event_seq := s\<rparr>) d))"

definition delta_row :: "env \<Rightarrow> uuid \<Rightarrow> uuid option \<Rightarrow> dict \<Rightarrow> nat \<Rightarrow> int \<Rightarrow> json list \<Rightarrow> dict \<Rightarrow> event_row" where
  "delta_row e r tid tctx draws s ns event =
     \<lparr>ev_id = e_uuid e draws, ev_run_id = Some r, ev_thread_id = tid,
      ev_sequence = s + 1, ev_topic = ''messages'', ev_namespace = ns,
      ev_payload = event_payload e (Some r) tid ''messages'' ns event tctx,
      ev_terminal = False, ev_created_at = e_now e\<rparr>"

lemma upd_run_cong:
  assumes "get_run r d = Some x" "distinct (map run_id (db_runs d))" "f x = g x"
  shows "upd_run r f d = upd_run r g d"
proof -
  have "f y = g y" if "y \<in> set (db_runs d)" "run_id y = r" for y
    using runs_t.get_in [OF assms(2) that(1)] that(2) assms(1,3) by simp
  then have "t_upd run_id r f (db_runs d) = t_upd run_id r g (db_runs d)"
    by (auto simp: t_upd_def)
  then show ?thesis by (simp add: upd_run_def)
qed

lemma upd_run_thread_swap: "upd_run r f (upd_thread t g d) = upd_thread t g (upd_run r f d)"
  by (simp add: upd_run_def upd_thread_def)

lemma raise_to_twice [simp]: "raise_to r tido s (raise_to r tido s' d) = raise_to r tido s d"
  by (simp add: raise_to_def upd_run_def upd_thread_def t_upd_def comp_def split: option.split)

lemma raise_to_frame [simp]:
  "raise_to r tido s (d\<lparr>db_draws := n\<rparr>) = (raise_to r tido s d)\<lparr>db_draws := n\<rparr>"
  "raise_to r tido s (d\<lparr>db_events := evs\<rparr>) = (raise_to r tido s d)\<lparr>db_events := evs\<rparr>"
  "db_draws (raise_to r tido s d) = db_draws d" "db_events (raise_to r tido s d) = db_events d"
  by (simp_all add: raise_to_def upd_run_def upd_thread_def split: option.split)

lemma raise_to_none [simp]:
  "(get_run q (raise_to r tido s d) = None) = (get_run q d = None)"
  "(get_thread t (raise_to r tido s d) = None) = (get_thread t d = None)"
  by (simp_all add: raise_to_def runs_t.get_upd threads_t.get_upd split: option.split)

lemma conflict_raise [simp]: "event_conflict v (raise_to r tido s d) = event_conflict v d"
  by (simp add: event_conflict_def split: option.split)

lemma insert_event_raise:
  "insert_event v ((raise_to r tido s d)\<lparr>db_draws := n\<rparr>) =
     rbind (insert_event v d) (\<lambda>d'. Inr ((raise_to r tido s d')\<lparr>db_draws := n\<rparr>))"
  by (simp add: insert_event_def)

text \<open>Recording one delta raises both cursors to the next number and inserts the row.\<close>

lemma record_delta:
  assumes "log_wf d" "get_run r d = Some run" "tid = None \<or> tid = run_thread_id run"
    "\<And>t. run_thread_id run = Some t \<Longrightarrow> get_thread t d \<noteq> None"
    "s = delta_start run (case run_thread_id run of None \<Rightarrow> None | Some t \<Rightarrow> get_thread t d) d"
  shows "record_event e (Some r) tid ''messages'' event ns tctx False d =
    (let row = delta_row e r (run_thread_id run) tctx (db_draws d) s ns event
     in rbind (insert_event row ((raise_to r (run_thread_id run) (s + 1) d)\<lparr>db_draws := db_draws d + 1\<rparr>))
          (\<lambda>d'. Inr (row, d')))"
proof -
  have rid: "run_id run = r" using runs_t.get_Some [OF assms(2)] by simp
  have L: "lifecycle_payload run ''messages'' event d = event" by (simp add: lifecycle_payload_def)
  have R: "record_event e (Some r) tid ''messages'' event ns tctx False d =
      record_run_event e run ''messages'' event ns tctx False d"
    using assms(2,3) by (auto simp: record_event_def L)
  show ?thesis
  proof (cases "run_thread_id run")
    case None
    with assms(5) have s: "next_run_sequence run d = s + 1" "run_event_seq run \<le> s"
      by (auto simp: next_run_sequence_def delta_start_def rid)
    have u: "upd_run r (\<lambda>x. x\<lparr>run_event_seq := max (run_event_seq x) (s + 1)\<rparr>) d =
        upd_run r (\<lambda>x. x\<lparr>run_event_seq := s + 1\<rparr>) d"
      by (rule upd_run_cong [OF assms(2) log_wfD(1) [OF assms(1)]]) (use s(2) in simp)
    show ?thesis
      unfolding R using None
      by (simp add: record_run_event_def s(1) rid u Let_def append_event_def make_event_def
          delta_row_def raise_to_def)
  next
    case (Some t)
    then obtain th where th: "get_thread t d = Some th" using assms(4) by blast
    have tid: "th_id th = t" using threads_t.get_Some [OF th] by simp
    have le: "run_event_seq run \<le> th_event_seq th"
      using log_wfD(5) [OF assms(1)] assms(2) Some th by (fastforce simp: cursors_ok_def)
    with assms(5) Some th have s: "next_thread_sequence th d = s + 1" "run_event_seq run \<le> s"
      by (auto simp: next_thread_sequence_def delta_start_def tid)
    have u: "upd_run r (\<lambda>x. x\<lparr>run_event_seq := max (run_event_seq x) (s + 1)\<rparr>) d =
        upd_run r (\<lambda>x. x\<lparr>run_event_seq := s + 1\<rparr>) d"
      by (rule upd_run_cong [OF assms(2) log_wfD(1) [OF assms(1)]]) (use s(2) in simp)
    show ?thesis
      unfolding R using Some th
      by (simp add: record_run_event_def s(1) rid u upd_run_thread_swap Let_def append_event_def
          make_event_def delta_row_def raise_to_def)
  qed
qed

text \<open>The state after one delta: the cursors stand at its number.\<close>

lemma delta_start_step:
  assumes "log_wf d" "get_run r d = Some run"
    "\<And>t. run_thread_id run = Some t \<Longrightarrow> get_thread t d \<noteq> None"
    "s = delta_start run (case run_thread_id run of None \<Rightarrow> None | Some t \<Rightarrow> get_thread t d) d"
    "row = delta_row e r (run_thread_id run) tctx n s ns event"
    "d1 = (raise_to r (run_thread_id run) (s + 1) d)\<lparr>db_draws := m, db_events := db_events d @ [row]\<rparr>"
  shows "get_run r d1 = Some (run\<lparr>run_event_seq := s + 1\<rparr>)"
    "\<And>t. run_thread_id run = Some t \<Longrightarrow> get_thread t d1 \<noteq> None"
    "delta_start (run\<lparr>run_event_seq := s + 1\<rparr>)
       (case run_thread_id run of None \<Rightarrow> None | Some t \<Rightarrow> get_thread t d1) d1 = s + 1"
proof -
  have rid: "run_id run = r" using runs_t.get_Some [OF assms(2)] by simp
  have g: "get_run q d1 = get_run q (raise_to r (run_thread_id run) (s + 1) d)"
    "get_thread t d1 = get_thread t (raise_to r (run_thread_id run) (s + 1) d)" for q t
    by (simp_all add: assms(6) get_run_def get_thread_def)
  show "get_run r d1 = Some (run\<lparr>run_event_seq := s + 1\<rparr>)"
    by (simp add: g raise_to_def runs_t.get_upd assms(2) split: option.split)
  show "get_thread t d1 \<noteq> None" if "run_thread_id run = Some t" for t
    using assms(3) [OF that] by (simp add: g)
  have sq: "x \<le> s" if "run_thread_id run = None" "x \<in> set (run_sequences r d)" for x
    using that assms(4) max_or0_ge [OF that(2)] by (simp add: delta_start_def rid)
  have st: "x \<le> s" if "run_thread_id run = Some t" "x \<in> set (thread_sequences t d)" for x t
    using that assms(3) [OF that(1)] assms(4) max_or0_ge [OF that(2)] threads_t.get_Some [of t d]
    by (auto simp: delta_start_def)
  have m: "max_or0 (xs @ [s + 1]) = s + 1" if le: "\<forall>x \<in> set xs. x \<le> s" for xs
  proof -
    have "Max (set (xs @ [s + 1])) = s + 1"
      by (rule Max_eqI) (use le in \<open>auto intro: order_trans\<close>)
    then show ?thesis by (simp add: max_or0_def)
  qed
  show "delta_start (run\<lparr>run_event_seq := s + 1\<rparr>)
       (case run_thread_id run of None \<Rightarrow> None | Some t \<Rightarrow> get_thread t d1) d1 = s + 1"
  proof (cases "run_thread_id run")
    case None
    have "run_sequences r d1 = run_sequences r d @ [s + 1]"
      by (simp add: assms(5,6) run_sequences_def delta_row_def)
    with m [of "run_sequences r d"] sq [OF None] None show ?thesis
      by (simp add: delta_start_def rid)
  next
    case (Some t)
    then obtain th where th: "get_thread t d = Some th" using assms(3) by blast
    have tid: "th_id th = t" using threads_t.get_Some [OF th] by simp
    have "thread_sequences t d1 = thread_sequences t d @ [s + 1]"
      using Some by (simp add: assms(5,6) thread_sequences_def delta_row_def)
    moreover have "get_thread t d1 = Some (th\<lparr>th_event_seq := s + 1\<rparr>)"
      using Some th by (simp add: g raise_to_def threads_t.get_upd)
    ultimately show ?thesis
      using m [of "thread_sequences t d"] st [OF Some] Some by (simp add: delta_start_def tid)
  qed
qed

definition delta_batch ::
  "env \<Rightarrow> uuid \<Rightarrow> uuid option \<Rightarrow> dict \<Rightarrow> int \<Rightarrow> dict list \<Rightarrow> db \<Rightarrow> (event_row list \<times> db) res" where
  "delta_batch e r tido tctx s events d =
     rbind (delta_rows e r tido tctx (db_draws d) s events) (\<lambda>rows.
     rbind (insert_events rows ((raise_to r tido (s + int (length events)) d)
              \<lparr>db_draws := db_draws d + length events\<rparr>)) (\<lambda>d3. Inr (rows, d3)))"

lemma insert_events_raise:
  "insert_events rows ((raise_to r tido s d)\<lparr>db_draws := n\<rparr>) =
     rbind (insert_events rows d) (\<lambda>d'. Inr ((raise_to r tido s d')\<lparr>db_draws := n\<rparr>))"
proof (induction rows arbitrary: d)
  case (Cons v rows)
  then show ?case by (cases "insert_event v d") (simp_all add: insert_event_raise)
qed simp

lemma record_each_batch:
  assumes "log_wf d" "get_run r d = Some run" "tid = None \<or> tid = run_thread_id run"
    "\<And>t. run_thread_id run = Some t \<Longrightarrow> get_thread t d \<noteq> None" "events \<noteq> []"
    "s = delta_start run (case run_thread_id run of None \<Rightarrow> None | Some t \<Rightarrow> get_thread t d) d"
  shows "record_each e r tid tctx events d = Inr out \<longleftrightarrow>
         delta_batch e r (run_thread_id run) tctx s events d = Inr out"
  using assms
proof (induction events arbitrary: d run s out)
  case (Cons event events)
  let ?T = "run_thread_id run"
  note rec = record_delta [OF Cons.prems(1-4,6)]
  show ?case
  proof (cases "delta_namespace event")
    case (Inl x)
    then show ?thesis by (simp add: delta_batch_def)
  next
    case (Inr ns)
    define row where "row = delta_row e r ?T tctx (db_draws d) s ns event"
    define d1 where "d1 = (raise_to r ?T (s + 1) d)\<lparr>db_draws := db_draws d + 1,
        db_events := db_events d @ [row]\<rparr>"
    have rec1: "record_event e (Some r) tid ''messages'' event ns tctx False d =
        (if event_conflict row d then Inl IntegrityError else Inr (row, d1))"
      using rec [of e event ns tctx]
      by (simp add: row_def [symmetric] insert_event_def d1_def)
    have rows: "delta_rows e r ?T tctx (db_draws d) s (event # events) =
        rbind (delta_rows e r ?T tctx (db_draws d + 1) (s + 1) events) (\<lambda>rest. Inr (row # rest))"
      by (simp add: Inr row_def delta_row_def)
    show ?thesis
    proof (cases "event_conflict row d")
      case True
      then show ?thesis
        by (cases "delta_rows e r ?T tctx (db_draws d + 1) (s + 1) events")
          (simp_all add: Inr rec1 delta_batch_def rows insert_event_def del: delta_rows.simps)
    next
      case False
      have w1: "log_wf d1"
        using record_event_log_wf [OF Cons.prems(1) rec1 [THEN trans]] False by simp
      note st = delta_start_step [OF Cons.prems(1,2,4,6) row_def d1_def]
      have ins: "insert_event row ((raise_to r ?T k d)\<lparr>db_draws := n\<rparr>) =
          Inr ((raise_to r ?T k d1)\<lparr>db_draws := n\<rparr>)" for k n
        using False by (simp add: insert_event_def d1_def)
      show ?thesis
      proof (cases "events = []")
        case True
        with rows have rows0: "delta_rows e r ?T tctx (db_draws d) s [event] = Inr [row]" by simp
        show ?thesis
          using False True by (auto simp: Inr rec1 delta_batch_def rows0 insert_event_def d1_def
              simp del: delta_rows.simps(2))
      next
        case ne: False
        have IH: "record_each e r tid tctx events d1 = Inr o' \<longleftrightarrow>
            delta_batch e r ?T tctx (s + 1) events d1 = Inr o'" for o'
          using Cons.IH [OF w1 st(1) _ _ ne, of "s + 1" o'] Cons.prems(3) st(2,3) by simp
        have B: "delta_batch e r ?T tctx s (event # events) d =
            rbind (delta_batch e r ?T tctx (s + 1) events d1) (\<lambda>(rest, d3). Inr (row # rest, d3))"
          unfolding delta_batch_def rows
          by (cases "delta_rows e r ?T tctx (db_draws d + 1) (s + 1) events")
            (simp_all add: ins d1_def [THEN arg_cong, of db_draws] algebra_simps
              rbind_def split: sum.split)
        show ?thesis
          unfolding B record_each.simps Inr rbind_simps rec1
          using False IH by (auto simp: rbind_eq_Inr)
      qed
    qed
  qed
qed simp

lemma record_message_deltas_batch:
  assumes "log_wf d" "get_run r d = Some run" "tid = None \<or> tid = run_thread_id run"
    "\<And>t. run_thread_id run = Some t \<Longrightarrow> get_thread t d \<noteq> None" "events \<noteq> []"
  shows "record_message_deltas e r tid events tctx d =
    delta_batch e r (run_thread_id run) tctx
      (delta_start run (case run_thread_id run of None \<Rightarrow> None | Some t \<Rightarrow> get_thread t d) d) events d"
  using assms
  by (auto simp: record_message_deltas_def delta_batch_def raise_to_def Let_def
      split: option.splits)

lemma record_message_deltas_each:
  assumes "log_wf d" "record_message_deltas e r tid events tctx d = Inr (rows, d')"
  shows "record_each e r tid tctx events d = Inr (rows, d')"
proof (cases "events = []")
  case True
  with assms show ?thesis by (simp add: record_message_deltas_def)
next
  case False
  with assms(2) obtain run where run: "get_run r d = Some run" "tid = None \<or> tid = run_thread_id run"
    "\<And>t. run_thread_id run = Some t \<Longrightarrow> get_thread t d \<noteq> None"
    by (auto simp: record_message_deltas_def split: option.splits if_splits)
  show ?thesis
    using assms(2) record_message_deltas_batch [OF assms(1) run False]
      record_each_batch [OF assms(1) run False refl] by simp
qed

lemma record_message_deltas_log_wf:
  assumes "log_wf d" "record_message_deltas e r tid events tctx d = Inr (rows, d')"
  shows "log_wf d'"
  using record_message_deltas_each [OF assms] assms(1)
proof (induction events arbitrary: d rows)
  case (Cons ev events)
  then show ?case by (auto simp: rbind_eq_Inr intro: record_event_log_wf)
qed simp

end
