(* ===== verification/Checkpoints.thy ===== *)
theory Checkpoints
  imports EventLog
begin

text \<open>
  Checkpoint maintenance (\<open>checkpoint_mutations.py\<close>) and the fenced saver (\<open>checkpoint.py\<close>):
  the baseline captured before a run executes, rollback to it, durable completion of
  acknowledged rollbacks, pruning that keeps what delta channels need, the writer fence that
  rejects stale worker generations, and copying a thread through the saver contract. The saver
  library itself (\<open>AsyncPostgresSaver\<close>) is a parameter.
\<close>

section \<open>UUID text\<close>

text \<open>
  \<open>uuid.UUID(text)\<close>: braces, hyphens and the \<open>urn:uuid:\<close> prefix are dropped; 32 hexadecimal
  digits remain.
\<close>

fun hex_val :: "char \<Rightarrow> nat option" where
  "hex_val c =
     (let n = of_char c :: nat
      in if 48 \<le> n \<and> n \<le> 57 then Some (n - 48)
         else if 97 \<le> n \<and> n \<le> 102 then Some (n - 87)
         else if 65 \<le> n \<and> n \<le> 70 then Some (n - 55)
         else None)"

fun hex_acc :: "nat \<Rightarrow> string \<Rightarrow> nat option" where
  "hex_acc acc [] = Some acc"
| "hex_acc acc (c # cs) = (case hex_val c of None \<Rightarrow> None | Some d \<Rightarrow> hex_acc (16 * acc + d) cs)"

fun remove_all :: "string \<Rightarrow> string \<Rightarrow> string" where
  "remove_all pat [] = []"
| "remove_all pat (c # cs) =
     (if pat \<noteq> [] \<and> take (length pat) (c # cs) = pat
      then remove_all pat (drop (length pat - 1) cs)
      else c # remove_all pat cs)"

definition strip_chars :: "char list \<Rightarrow> string \<Rightarrow> string" where
  "strip_chars cs s = rev (dropWhile (\<lambda>c. c \<in> set cs) (rev (dropWhile (\<lambda>c. c \<in> set cs) s)))"

definition parse_uuid :: "string \<Rightarrow> uuid option" where
  "parse_uuid s =
     (let h = filter (\<lambda>c. c \<noteq> CHR ''-'')
                (strip_chars ''{}'' (remove_all ''uuid:'' (remove_all ''urn:'' s)))
      in if length h = 32 then hex_acc 0 h else None)"

section \<open>UUID text round trip\<close>

lemma below_16:
  "(d::nat) < 16 \<Longrightarrow> d = 0 \<or> d = 1 \<or> d = 2 \<or> d = 3 \<or> d = 4 \<or> d = 5 \<or> d = 6 \<or> d = 7 \<or>
     d = 8 \<or> d = 9 \<or> d = 10 \<or> d = 11 \<or> d = 12 \<or> d = 13 \<or> d = 14 \<or> d = 15"
  by presburger

lemma hex_val_digit: "d < 16 \<Longrightarrow> hex_val (hex_digit d) = Some d"
  by (drule below_16, elim disjE) (simp_all add: hex_digit_def)

lemma hex_digit_range: "d < 16 \<Longrightarrow> hex_digit d \<in> set ''0123456789abcdef''"
  by (drule below_16, elim disjE) (simp_all add: hex_digit_def char_of_def bit_0 bit_Suc)

lemma set_hex_str: "set (hex_str n u) \<subseteq> set ''0123456789abcdef''"
proof (induction n arbitrary: u)
  case (Suc n)
  have "hex_digit (u mod 16) \<in> set ''0123456789abcdef''" by (rule hex_digit_range) simp
  with Suc show ?case by (simp only: hex_str.simps set_append) auto
qed simp

lemma hex_acc_append:
  "hex_acc acc (xs @ ys) = (case hex_acc acc xs of None \<Rightarrow> None | Some a \<Rightarrow> hex_acc a ys)"
  by (induction xs arbitrary: acc) (auto split: option.split)

lemma hex_acc_str: "hex_acc acc (hex_str n u) = Some (acc * 16 ^ n + u mod 16 ^ n)"
proof (induction n arbitrary: acc u)
  case (Suc n)
  have d: "hex_val (hex_digit (u mod 16)) = Some (u mod 16)" by (rule hex_val_digit) simp
  have m: "u mod (16 * 16 ^ n) = 16 * (u div 16 mod 16 ^ n) + u mod 16"
    by (simp add: mod_mult2_eq)
  show ?case
    using d by (simp add: hex_acc_append Suc algebra_simps m del: hex_val.simps)
qed simp

lemma remove_all_absent: "hd pat \<notin> set s \<Longrightarrow> remove_all pat s = s"
proof (induction s)
  case (Cons c cs)
  have "take (length pat) (c # cs) \<noteq> pat" if "pat \<noteq> []"
  proof
    assume "take (length pat) (c # cs) = pat"
    with that have "hd pat = c" by (cases pat) auto
    with Cons.prems show False by simp
  qed
  with Cons show ?case by auto
qed simp

lemma strip_chars_absent: "set cs \<inter> set s = {} \<Longrightarrow> strip_chars cs s = s"
proof -
  assume a: "set cs \<inter> set s = {}"
  have d: "dropWhile (\<lambda>c. c \<in> set cs) xs = xs" if "set cs \<inter> set xs = {}" for xs :: string
    using that by (cases xs) auto
  from a show ?thesis by (simp add: strip_chars_def d)
qed

lemma hex_str_parts:
  "set (take k (drop m (hex_str n u))) \<subseteq> set ''0123456789abcdef''"
  "set (take k (hex_str n u)) \<subseteq> set ''0123456789abcdef''"
  "set (drop m (hex_str n u)) \<subseteq> set ''0123456789abcdef''"
  using set_hex_str [of n u] by (meson order_trans set_drop_subset set_take_subset)+

lemma set_uuid_str: "set (uuid_str u) \<subseteq> set ''0123456789abcdef-''"
proof -
  have s: "set ''0123456789abcdef'' \<subseteq> set ''0123456789abcdef-''" "set ''-'' \<subseteq> set ''0123456789abcdef-''"
    by simp_all
  show ?thesis
    unfolding uuid_str_def Let_def set_append
    by (intro Un_least s(2) subset_trans [OF hex_str_parts(1) s(1)]
        subset_trans [OF hex_str_parts(2) s(1)] subset_trans [OF hex_str_parts(3) s(1)])
qed

lemma hex_chunks:
  "length h = 32 \<Longrightarrow>
   take 8 h @ take 4 (drop 8 h) @ take 4 (drop 12 h) @ take 4 (drop 16 h) @ drop 20 h = h"
proof -
  have s: "take k (drop m h) @ drop (k + m) h = drop m h" for k m
    by (metis append_take_drop_id drop_drop)
  show ?thesis
    using s [of 8 0] s [of 4 8] s [of 4 12] s [of 4 16] by simp
qed

lemma filter_hyphens: "filter (\<lambda>c. c \<noteq> CHR ''-'') (uuid_str u) = hex_str 32 u"
proof -
  have f: "filter (\<lambda>c. c \<noteq> CHR ''-'') xs = xs" if "set xs \<subseteq> set ''0123456789abcdef''" for xs
    using that by (intro filter_True) auto
  have t: "set (take k (drop m (hex_str 32 u))) \<subseteq> set ''0123456789abcdef''"
    "set (drop m (hex_str 32 u)) \<subseteq> set ''0123456789abcdef''" for k m
    using set_hex_str [of 32 u] by (meson order_trans set_drop_subset set_take_subset)+
  let ?h = "hex_str 32 u"
  have "filter (\<lambda>c. c \<noteq> CHR ''-'') (uuid_str u) =
      take 8 (drop 0 ?h) @ take 4 (drop 8 ?h) @ take 4 (drop 12 ?h) @ take 4 (drop 16 ?h) @ drop 20 ?h"
    unfolding uuid_str_def Let_def filter_append
    using f [OF t(1) [of 8 0]] f [OF t(1) [of 4 8]] f [OF t(1) [of 4 12]] f [OF t(1) [of 4 16]]
      f [OF t(2) [of 20]] by simp
  also have "\<dots> = ?h" using hex_chunks [of ?h] by simp
  finally show ?thesis .
qed

lemma parse_uuid_str:
  assumes "u < 2 ^ 128"
  shows "parse_uuid (uuid_str u) = Some u"
proof -
  have n: "CHR ''u'' \<notin> set (uuid_str u)" "set ''{}'' \<inter> set (uuid_str u) = {}"
    using set_uuid_str [of u] by auto
  have m: "u mod 16 ^ 32 = u" using assms by simp
  have "remove_all ''uuid:'' (remove_all ''urn:'' (uuid_str u)) = uuid_str u"
    using n(1) by (simp add: remove_all_absent)
  then show ?thesis
    using strip_chars_absent [OF n(2)] hex_acc_str [of 0 32 u] m
    by (simp add: parse_uuid_def Let_def filter_hyphens)
qed

lemma uuid_str_inject:
  "u < 2 ^ 128 \<Longrightarrow> v < 2 ^ 128 \<Longrightarrow> uuid_str u = uuid_str v \<longleftrightarrow> u = v"
  by (metis parse_uuid_str option.inject)

section \<open>Baselines\<close>

definition thread_key :: "uuid \<Rightarrow> string" where
  "thread_key t = uuid_str t"

definition thread_checkpoints :: "uuid \<Rightarrow> db \<Rightarrow> checkpoint_row list" where
  "thread_checkpoints t d = filter (\<lambda>c. cp_thread_id c = thread_key t) (db_checkpoints d)"

definition thread_writes :: "uuid \<Rightarrow> db \<Rightarrow> write_row list" where
  "thread_writes t d = filter (\<lambda>w. cw_thread_id w = thread_key t) (db_writes d)"

definition thread_projection :: "time \<Rightarrow> thread_row \<Rightarrow> projection" where
  "thread_projection now th =
     \<lparr>pj_captured_at = now, pj_values = th_values th, pj_interrupts = th_interrupts th,
      pj_status = th_status th, pj_error = th_error th, pj_graph_id = th_graph_id th,
      pj_state_updated_at = th_state_updated_at th\<rparr>"

text \<open>Retries keep the original baseline.\<close>

definition capture_baseline :: "time \<Rightarrow> run_row \<Rightarrow> thread_row \<Rightarrow> db \<Rightarrow> db" where
  "capture_baseline now run th d =
     (if get_baseline (run_id run) d \<noteq> None then d
      else d\<lparr>db_baselines := db_baselines d @
               [\<lparr>bl_run_id = run_id run, bl_thread_id = th_id th,
                 bl_checkpoints = thread_checkpoints (th_id th) d,
                 bl_writes = thread_writes (th_id th) d,
                 bl_projection = thread_projection now th\<rparr>]\<rparr>)"

section \<open>Rollback\<close>

text \<open>Python's equality of two \<open>to_jsonb\<close> images.\<close>

definition cp_same :: "checkpoint_row \<Rightarrow> checkpoint_row \<Rightarrow> bool" where
  "cp_same a b =
     (cp_thread_id a = cp_thread_id b \<and> cp_ns a = cp_ns b \<and> cp_id a = cp_id b \<and>
      cp_parent_id a = cp_parent_id b \<and> py_eq (JObj (cp_checkpoint a)) (JObj (cp_checkpoint b)) \<and>
      py_eq (JObj (cp_metadata a)) (JObj (cp_metadata b)) \<and> py_eq (cp_rest a) (cp_rest b))"

definition cp_key :: "checkpoint_row \<Rightarrow> string \<times> string" where
  "cp_key c = (cp_ns c, cp_id c)"

text \<open>\<open>{key(c): c for c in cs}.get(k)\<close>: a later row of the same key wins.\<close>

definition by_key :: "checkpoint_row list \<Rightarrow> string \<times> string \<Rightarrow> checkpoint_row option" where
  "by_key cs k = find (\<lambda>c. cp_key c = k) (rev cs)"

definition other_active :: "uuid \<Rightarrow> uuid \<Rightarrow> db \<Rightarrow> bool" where
  "other_active t r d =
     list_ex (\<lambda>x. run_thread_id x = Some t \<and> run_id x \<noteq> r \<and>
        (run_status x = ''running'' \<or> run_reason x = Some ''rollback'')) (db_runs d)"

definition foreign_checkpoint :: "env \<Rightarrow> uuid \<Rightarrow> checkpoint_row list \<Rightarrow> checkpoint_row \<Rightarrow> bool" where
  "foreign_checkpoint e r old c =
     (\<not> (case by_key old (cp_key c) of None \<Rightarrow> False | Some o' \<Rightarrow> cp_same c o') \<and>
      py_str e (dgetdef (cp_metadata c) ''run_id'' (JStr [])) \<noteq> uuid_str r)"

definition later_baseline :: "baseline_row \<Rightarrow> uuid \<Rightarrow> uuid \<Rightarrow> db \<Rightarrow> bool" where
  "later_baseline b t r d =
     list_ex (\<lambda>x. bl_thread_id x = t \<and> bl_run_id x \<noteq> r \<and>
        pj_captured_at (bl_projection x) \<ge> pj_captured_at (bl_projection b)) (db_baselines d)"

definition restore_thread :: "projection \<Rightarrow> thread_row \<Rightarrow> thread_row" where
  "restore_thread p th =
     th\<lparr>th_values := pj_values p, th_interrupts := pj_interrupts p, th_status := pj_status p,
        th_error := pj_error p, th_graph_id := pj_graph_id p,
        th_state_updated_at := pj_state_updated_at p\<rparr>"

definition restore_baseline :: "uuid \<Rightarrow> baseline_row \<Rightarrow> db \<Rightarrow> db" where
  "restore_baseline t b d =
     upd_thread t (restore_thread (bl_projection b))
       (d\<lparr>db_writes := filter (\<lambda>w. cw_thread_id w \<noteq> thread_key t) (db_writes d) @ bl_writes b,
          db_checkpoints :=
            filter (\<lambda>c. cp_thread_id c \<noteq> thread_key t) (db_checkpoints d) @ bl_checkpoints b\<rparr>)"

definition rollback_run :: "env \<Rightarrow> run_row \<Rightarrow> bool \<Rightarrow> db \<Rightarrow> db res" where
  "rollback_run e run validate_only d =
     (case run_thread_id run of
        None \<Rightarrow> Inr (if validate_only then d else del_run (run_id run) d)
      | Some t \<Rightarrow>
          if get_thread t d = None then
            Inl (CheckpointConflict ''thread no longer exists'')
          else if other_active t (run_id run) d then
            Inl (CheckpointConflict ''another run is executing on this thread'')
          else (case get_baseline (run_id run) d of
              None \<Rightarrow>
                if run_retry_count run \<noteq> 0 \<or>
                   run_status run \<notin> set [''pending'', ''interrupted''] then
                  Inl (CheckpointConflict ''run has no safe rollback baseline'')
                else Inr (if validate_only then d else del_run (run_id run) d)
            | Some b \<Rightarrow>
                if list_ex (foreign_checkpoint e (run_id run) (bl_checkpoints b))
                     (thread_checkpoints t d) then
                  Inl (CheckpointConflict ''later state depends on this run; rollback is unsafe'')
                else if later_baseline b t (run_id run) d then
                  Inl (CheckpointConflict ''a later run has already started on this thread'')
                else if validate_only then Inr d
                else Inr (del_run (run_id run) (restore_baseline t b d))))"

text \<open>
  One transaction of the cleanup loop. The row is read again under its lock (\<open>locked\<close>: held by
  another transaction, which \<open>SKIP LOCKED\<close> passes over); an exception is logged and the
  transaction rolled back.
\<close>

definition rollback_stopped :: "env \<Rightarrow> string option \<Rightarrow> run_row \<Rightarrow> bool" where
  "rollback_stopped e owner run =
     (run_lease_owner run = None \<or>
      (owner \<noteq> None \<and> run_lease_owner run = owner) \<or>
      (case run_lease_expires_at run of None \<Rightarrow> False | Some x \<Rightarrow> x \<le> e_now e))"

definition complete_rollback ::
  "env \<Rightarrow> string option \<Rightarrow> (uuid \<Rightarrow> bool) \<Rightarrow> uuid \<Rightarrow> db \<Rightarrow> db" where
  "complete_rollback e owner locked rid d =
     (case get_run rid d of
        None \<Rightarrow> d
      | Some run \<Rightarrow>
          if run_reason run \<noteq> Some ''rollback'' \<or> locked rid then d
          else if rollback_stopped e owner run then
            (case rollback_run e run False d of Inl _ \<Rightarrow> d | Inr d' \<Rightarrow> d')
          else d)"

definition pending_rollbacks :: "uuid option \<Rightarrow> db \<Rightarrow> uuid list" where
  "pending_rollbacks rid d =
     sort (map run_id (filter (\<lambda>x. run_reason x = Some ''rollback'' \<and>
        (case rid of None \<Rightarrow> True | Some r \<Rightarrow> run_id x = r)) (db_runs d)))"

definition complete_rollbacks ::
  "env \<Rightarrow> string option \<Rightarrow> uuid option \<Rightarrow> (uuid \<Rightarrow> bool) \<Rightarrow> db \<Rightarrow> db" where
  "complete_rollbacks e owner rid locked d =
     fold (complete_rollback e owner locked) (pending_rollbacks rid d) d"

section \<open>Pruning checkpoints\<close>

text \<open>\<open>set(value)\<close> of the metadata entry that counts writes per delta channel.\<close>

fun key_strings :: "json \<Rightarrow> string list" where
  "key_strings (JObj d) = map fst d"
| "key_strings (JList xs) = concat (map (\<lambda>x. case x of JStr s \<Rightarrow> [s] | _ \<Rightarrow> []) xs)"
| "key_strings (JStr s) = map (\<lambda>c. [c]) s"
| "key_strings _ = []"

definition delta_channels :: "checkpoint_row \<Rightarrow> string list" where
  "delta_channels c = key_strings (dgetdef (cp_metadata c) ''counters_since_delta_snapshot'' (JObj []))"

text \<open>A channel is resolved at a checkpoint that stores its value, inline or as a blob.\<close>

definition channel_resolved :: "env \<Rightarrow> (string \<times> string \<times> string) set \<Rightarrow> checkpoint_row \<Rightarrow> string \<Rightarrow> bool"
where
  "channel_resolved e blobs c ch =
     (dhas (obj_of (dgetdef (cp_checkpoint c) ''channel_values'' (JObj []))) ch \<or>
      (cp_ns c, ch,
       py_str e (dget (obj_of (dgetdef (cp_checkpoint c) ''channel_versions'' (JObj []))) ch))
        \<in> blobs)"

definition parent_row :: "checkpoint_row list \<Rightarrow> checkpoint_row \<Rightarrow> checkpoint_row option" where
  "parent_row rows c =
     (case cp_parent_id c of None \<Rightarrow> None | Some p \<Rightarrow> by_key rows (cp_ns c, p))"

text \<open>
  The walk from a head to its ancestors. The fuel bounds the number of visited rows; every
  visited key is new, so the number of rows is enough (\<open>keep_walk_fuel\<close>).
\<close>

fun keep_walk ::
  "nat \<Rightarrow> env \<Rightarrow> (string \<times> string \<times> string) set \<Rightarrow> checkpoint_row list \<Rightarrow> string list
    \<Rightarrow> checkpoint_row \<Rightarrow> (string \<times> string) set \<Rightarrow> (string \<times> string) set" where
  "keep_walk 0 e blobs rows unresolved row kept = kept"
| "keep_walk (Suc n) e blobs rows unresolved row kept =
     (if cp_key row \<in> kept then kept
      else let kept' = insert (cp_key row) kept;
               left = filter (\<lambda>ch. \<not> channel_resolved e blobs row ch) unresolved
           in if left = [] then kept'
              else (case parent_row rows row of
                      None \<Rightarrow> kept'
                    | Some p \<Rightarrow> keep_walk n e blobs rows left p kept'))"

fun keep_heads ::
  "env \<Rightarrow> (string \<times> string \<times> string) set \<Rightarrow> checkpoint_row list \<Rightarrow> checkpoint_row list
    \<Rightarrow> string set \<Rightarrow> (string \<times> string) set \<Rightarrow> (string \<times> string) set" where
  "keep_heads e blobs rows [] namespaces kept = kept"
| "keep_heads e blobs rows (head # heads) namespaces kept =
     (if cp_ns head \<in> namespaces then keep_heads e blobs rows heads namespaces kept
      else keep_heads e blobs rows heads (insert (cp_ns head) namespaces)
             (keep_walk (Suc (length rows)) e blobs rows (delta_channels head) head kept))"

definition desc_rows :: "uuid \<Rightarrow> db \<Rightarrow> checkpoint_row list" where
  "desc_rows t d = rev (sort_key cp_id (rev (thread_checkpoints t d)))"

definition live_blobs :: "uuid \<Rightarrow> db \<Rightarrow> (string \<times> string \<times> string) set" where
  "live_blobs t d = (\<lambda>b. (cb_ns b, cb_channel b, cb_version b)) `
     set (filter (\<lambda>b. cb_thread_id b = thread_key t \<and> cb_type b \<noteq> ''empty'') (db_blobs d))"

definition kept_keys :: "env \<Rightarrow> uuid \<Rightarrow> db \<Rightarrow> (string \<times> string) set" where
  "kept_keys e t d = keep_heads e (live_blobs t d) (desc_rows t d) (desc_rows t d) {} {}"

definition prune_checkpoints :: "env \<Rightarrow> uuid \<Rightarrow> db \<Rightarrow> db res" where
  "prune_checkpoints e t d =
     (if list_ex (\<lambda>x. run_thread_id x = Some t \<and>
           (run_status x = ''running'' \<or> run_reason x = Some ''rollback'')) (db_runs d)
      then Inl (CheckpointConflict ''cannot prune a thread while a run is executing'')
      else
        let kept = kept_keys e t d;
            dropped = set (map cp_key (thread_checkpoints t d)) - kept
        in Inr (d\<lparr>db_writes := filter (\<lambda>w. \<not> (cw_thread_id w = thread_key t \<and>
                       (cw_ns w, cw_checkpoint_id w) \<in> dropped)) (db_writes d),
                  db_checkpoints := filter (\<lambda>c. \<not> (cp_thread_id c = thread_key t \<and>
                       cp_key c \<in> dropped)) (db_checkpoints d),
                  db_baselines := filter (\<lambda>b. bl_thread_id b \<noteq> t) (db_baselines d)\<rparr>))"

section \<open>The fenced saver\<close>

text \<open>The context variable \<open>checkpoint_writer\<close>: run, owner and generation of the worker.\<close>

record writer =
  wr_run_id :: uuid
  wr_owner :: string
  wr_generation :: int

definition writer_valid :: "env \<Rightarrow> writer \<Rightarrow> string \<Rightarrow> db \<Rightarrow> bool" where
  "writer_valid e w thread_id d =
     (case get_run (wr_run_id w) d of
        None \<Rightarrow> False
      | Some run \<Rightarrow>
          run_status run = ''running'' \<and>
          (case run_lease_expires_at run of None \<Rightarrow> False | Some x \<Rightarrow> x > e_now e) \<and>
          run_lease_owner run = Some (wr_owner w) \<and>
          run_retry_count run = wr_generation w \<and>
          uuid_str (case run_thread_id run of Some t \<Rightarrow> t | None \<Rightarrow> wr_run_id w) = thread_id)"

definition config_thread_id :: "env \<Rightarrow> dict \<Rightarrow> string res" where
  "config_thread_id e config =
     (case map_of config ''configurable'' of
        None \<Rightarrow> Inl (KeyError ''configurable'')
      | Some c \<Rightarrow>
          (case map_of (obj_of c) ''thread_id'' of
             None \<Rightarrow> Inl (KeyError ''thread_id'')
           | Some v \<Rightarrow> Inr (py_str e v)))"

definition config_run_uuid :: "env \<Rightarrow> dict \<Rightarrow> uuid option" where
  "config_run_uuid e config =
     (let v = dgetor (obj_of (dget config ''configurable'')) ''run_id''
                (dgetor (obj_of (dget config ''metadata'')) ''run_id'' (dget config ''run_id''))
      in if truthy v then parse_uuid (py_str e v) else None)"

definition blocking_run :: "uuid \<Rightarrow> uuid option \<Rightarrow> run_row \<Rightarrow> bool" where
  "blocking_run t current x =
     (run_thread_id x = Some t \<and>
      (run_status x = ''running'' \<or> run_reason x = Some ''rollback'') \<and>
      (run_reason x = Some ''rollback'' \<or> current = None \<or> current \<noteq> Some (run_id x)))"

definition fenced_writer :: "env \<Rightarrow> writer option \<Rightarrow> dict \<Rightarrow> db \<Rightarrow> db res" where
  "fenced_writer e writer config d =
     rbind (config_thread_id e config) (\<lambda>thread_id.
       if (case writer of None \<Rightarrow> False | Some w \<Rightarrow> \<not> writer_valid e w thread_id d) then
         Inl (CheckpointConflict ''checkpoint writer no longer owns the run'')
       else (case parse_uuid thread_id of
           None \<Rightarrow> Inr d
         | Some t \<Rightarrow>
             if writer \<noteq> None then Inr d
             else
               let current = config_run_uuid e config in
               if list_ex (blocking_run t current) (db_runs d) then
                 Inl (CheckpointConflict ''thread has an active run or rollback'')
               else if current = None then
                 Inr (d\<lparr>db_baselines := filter (\<lambda>b. bl_thread_id b \<noteq> t) (db_baselines d)\<rparr>)
               else Inr d))"

text \<open>\<open>put\<close> and \<open>put_writes\<close> stand for the saver library's \<open>aput\<close> and \<open>aput_writes\<close>.\<close>

definition fenced_aput ::
  "(dict \<Rightarrow> dict \<Rightarrow> dict \<Rightarrow> dict \<Rightarrow> db \<Rightarrow> (dict \<times> db) res) \<Rightarrow> env \<Rightarrow> writer option
    \<Rightarrow> dict \<Rightarrow> dict \<Rightarrow> dict \<Rightarrow> dict \<Rightarrow> db \<Rightarrow> (dict \<times> db) res" where
  "fenced_aput put e writer config checkpoint metadata versions d =
     rbind (fenced_writer e writer config d) (\<lambda>d1.
       let metadata' = (case writer of
             None \<Rightarrow> metadata
           | Some w \<Rightarrow> dset ''run_id'' (JStr (uuid_str (wr_run_id w))) metadata)
       in put config checkpoint metadata' versions d1)"

definition fenced_aput_writes ::
  "(dict \<Rightarrow> (string \<times> json) list \<Rightarrow> string \<Rightarrow> string \<Rightarrow> db \<Rightarrow> db res) \<Rightarrow> env \<Rightarrow> writer option
    \<Rightarrow> dict \<Rightarrow> (string \<times> json) list \<Rightarrow> string \<Rightarrow> string \<Rightarrow> db \<Rightarrow> db res" where
  "fenced_aput_writes put_writes e writer config ws task_id task_path d =
     rbind (fenced_writer e writer config d) (put_writes config ws task_id task_path)"

section \<open>Copying a thread\<close>

record saver_item =
  si_config :: dict
  si_parent_config :: "dict option"
  si_checkpoint :: dict
  si_metadata :: dict
  si_pending_writes :: "(string \<times> string \<times> json) list"

definition copy_config :: "env \<Rightarrow> string \<Rightarrow> saver_item \<Rightarrow> dict" where
  "copy_config e target item =
     (let src = obj_of (dget (si_config item) ''configurable'');
          base = [(''thread_id'', JStr target),
                  (''checkpoint_ns'', dgetdef src ''checkpoint_ns'' (JStr []))];
          parent = (case si_parent_config item of
              None \<Rightarrow> JNull
            | Some p \<Rightarrow> dget (obj_of (dgetdef p ''configurable'' (JObj []))) ''checkpoint_id'')
      in [(''configurable'', JObj (if truthy parent then dset ''checkpoint_id'' parent base else base))])"

fun copy_writes ::
  "(dict \<Rightarrow> (string \<times> json) list \<Rightarrow> string \<Rightarrow> string \<Rightarrow> db \<Rightarrow> db res) \<Rightarrow> dict
    \<Rightarrow> (string \<times> string \<times> json) list \<Rightarrow> db \<Rightarrow> db res" where
  "copy_writes put_writes config [] d = Inr d"
| "copy_writes put_writes config ((task, channel, value) # ws) d =
     rbind (put_writes config [(channel, value)] task [] d) (copy_writes put_writes config ws)"

fun copy_items ::
  "(dict \<Rightarrow> dict \<Rightarrow> dict \<Rightarrow> dict \<Rightarrow> db \<Rightarrow> (dict \<times> db) res) \<Rightarrow>
   (dict \<Rightarrow> (string \<times> json) list \<Rightarrow> string \<Rightarrow> string \<Rightarrow> db \<Rightarrow> db res) \<Rightarrow> env \<Rightarrow> string
    \<Rightarrow> saver_item list \<Rightarrow> db \<Rightarrow> db res" where
  "copy_items put put_writes e target [] d = Inr d"
| "copy_items put put_writes e target (item # items) d =
     rbind (put (copy_config e target item) (si_checkpoint item) (si_metadata item)
              (obj_of (dgetdef (si_checkpoint item) ''channel_versions'' (JObj []))) d)
       (\<lambda>(next, d1). rbind (copy_writes put_writes next (si_pending_writes item) d1)
          (copy_items put put_writes e target items))"

definition copy_thread_checkpoints ::
  "(string \<Rightarrow> db \<Rightarrow> saver_item list) \<Rightarrow>
   (dict \<Rightarrow> dict \<Rightarrow> dict \<Rightarrow> dict \<Rightarrow> db \<Rightarrow> (dict \<times> db) res) \<Rightarrow>
   (dict \<Rightarrow> (string \<times> json) list \<Rightarrow> string \<Rightarrow> string \<Rightarrow> db \<Rightarrow> db res) \<Rightarrow>
   env \<Rightarrow> string \<Rightarrow> string \<Rightarrow> db \<Rightarrow> db res" where
  "copy_thread_checkpoints alist put put_writes e source target d =
     copy_items (fenced_aput put e None) (fenced_aput_writes put_writes e None) e target
       (sort_key (\<lambda>item. py_str e (dgetdef (si_checkpoint item) ''id'' (JStr []))) (alist source d)) d"

end
