(* ===== verification/RunStore.thy ===== *)
theory RunStore
  imports Checkpoints
begin

text \<open>
  The run repository of \<open>run_store.py\<close>: submission, claiming, lease renewal, completion,
  failure, shutdown requeue and the reclaim of expired leases. An operation is one transaction:
  it returns \<open>Inl\<close> of the exception (the transaction is rolled back) or \<open>Inr\<close> of its result,
  the events it recorded (\<open>last_transition_events\<close>) and the new database. Rows another
  transaction has locked are an argument, because \<open>SKIP LOCKED\<close> reads them.
\<close>

section \<open>Configuration\<close>

record repository =
  lease_seconds :: int
  max_attempts :: int
  retry_base_seconds :: rat

text \<open>\<open>retry_env\<close> is \<open>float(os.environ.get(...))\<close>, \<open>None\<close> when \<open>float\<close> raises \<open>ValueError\<close>.\<close>

definition run_repository :: "int \<Rightarrow> int \<Rightarrow> rat option \<Rightarrow> repository" where
  "run_repository lease attempts retry_env =
     \<lparr>lease_seconds = max lease 5,
      max_attempts = max 1 (min attempts MAX_INFRASTRUCTURE_RETRIES),
      retry_base_seconds = (case retry_env of None \<Rightarrow> 1 | Some x \<Rightarrow> max x (1 / 10))\<rparr>"

definition retry_delay :: "repository \<Rightarrow> int \<Rightarrow> rat" where
  "retry_delay cfg retry_count =
     min (retry_base_seconds cfg * 2 ^ nat (max (retry_count - 1) 0)) 30"

text \<open>\<open>timedelta(seconds=x)\<close> rounds to microseconds, ties to even.\<close>

definition td_seconds :: "rat \<Rightarrow> time" where
  "td_seconds x =
     (let y = x * 1000000; f = \<lfloor>y\<rfloor>; r = y - of_int f
      in if r < 1 / 2 then f else if r > 1 / 2 then f + 1 else if even f then f else f + 1)"

section \<open>Submission\<close>

definition is_resume :: "dict \<Rightarrow> bool" where
  "is_resume kwargs =
     (case dget kwargs ''command'' of JObj c \<Rightarrow> dhas c ''resume'' | _ \<Rightarrow> False)"

record submission =
  sb_assistant_id :: uuid
  sb_thread_id :: "uuid option"
  sb_kwargs :: dict
  sb_metadata :: dict
  sb_idempotency_key :: "string option"
  sb_multitask_strategy :: "string option"

definition has_key :: "submission \<Rightarrow> bool" where
  "has_key s = (sb_idempotency_key s \<noteq> None \<and> sb_idempotency_key s \<noteq> Some [])"

definition find_key :: "string option \<Rightarrow> db \<Rightarrow> run_row option" where
  "find_key k d = find (\<lambda>r. run_idempotency_key r = k) (db_runs d)"

definition reuse_run :: "submission \<Rightarrow> run_row \<Rightarrow> run_row res" where
  "reuse_run s r =
     (if run_thread_id r \<noteq> sb_thread_id s \<or> run_assistant_id r \<noteq> sb_assistant_id s
      then Inl (RunConflictError ''Idempotency key belongs to another run target'')
      else Inr r)"

definition next_position :: "uuid option \<Rightarrow> db \<Rightarrow> int" where
  "next_position tid d =
     max_or0 (concat (map (\<lambda>r. case run_queue_position r of None \<Rightarrow> [] | Some p \<Rightarrow> [p])
       (filter (\<lambda>r. run_thread_id r = tid) (db_runs d)))) + 1"

definition new_run :: "repository \<Rightarrow> env \<Rightarrow> submission \<Rightarrow> int \<Rightarrow> db \<Rightarrow> run_row" where
  "new_run cfg e s position d =
     \<lparr>run_id = e_uuid e (db_draws d), run_thread_id = sb_thread_id s,
      run_assistant_id = sb_assistant_id s, run_status = ''pending'', run_reason = None,
      run_retry_count = 0, run_max_attempts = max_attempts cfg, run_next_attempt_at = None,
      run_idempotency_key = sb_idempotency_key s, run_lease_owner = None,
      run_lease_expires_at = None, run_heartbeat_at = None, run_event_seq = 0,
      run_event_pruned_through = 0, run_metadata = sb_metadata s,
      run_kwargs = filter (\<lambda>(k, _). k \<noteq> ''__graphharbor_resume_after_drain'') (sb_kwargs s),
      run_queue_position = Some position, run_multitask_strategy = sb_multitask_strategy s,
      run_created_at = e_now e, run_updated_at = e_now e\<rparr>"

text \<open>The primary key and the partial unique indexes of \<open>runs\<close>.\<close>

definition run_conflict :: "run_row \<Rightarrow> db \<Rightarrow> bool" where
  "run_conflict r d =
     list_ex (\<lambda>x. run_id x = run_id r \<or>
        (run_idempotency_key r \<noteq> None \<and> run_idempotency_key x = run_idempotency_key r) \<or>
        (run_status r = ''running'' \<and> run_status x = ''running'' \<and>
         run_thread_id r \<noteq> None \<and> run_thread_id x = run_thread_id r)) (db_runs d)"

text \<open>
  Everything before the insert: an existing run for the key (\<open>Inl\<close> inside), or the queue
  position of the new one (\<open>Inr\<close> inside).
\<close>

definition create_plan :: "submission \<Rightarrow> db \<Rightarrow> (run_row + int) res" where
  "create_plan s d =
     (case (if has_key s then find_key (sb_idempotency_key s) d else None) of
        Some r \<Rightarrow> rbind (reuse_run s r) (\<lambda>x. Inr (Inl x))
      | None \<Rightarrow>
          if sb_thread_id s \<noteq> None \<and> sb_multitask_strategy s = Some ''reject'' \<and>
             \<not> is_resume (sb_kwargs s) \<and>
             list_ex (\<lambda>r. run_thread_id r = sb_thread_id s \<and>
                (run_status r = ''pending'' \<or> run_status r = ''running'')) (db_runs d)
          then Inl (RunConflictError ''Thread already has a pending or running run'')
          else Inr (Inr (next_position (sb_thread_id s) d)))"

text \<open>The nested insert; the unique index is the authority between the lookup and the insert.\<close>

definition create_insert ::
  "repository \<Rightarrow> env \<Rightarrow> submission \<Rightarrow> int \<Rightarrow> db \<Rightarrow> (run_row \<times> db) res" where
  "create_insert cfg e s position d =
     (let r = new_run cfg e s position d
      in if run_conflict r d then
           (if \<not> has_key s then Inl IntegrityError
            else case find_key (sb_idempotency_key s) d of
                None \<Rightarrow> Inl IntegrityError
              | Some x \<Rightarrow> rbind (reuse_run s x) (\<lambda>y. Inr (y, d)))
         else Inr (r, d\<lparr>db_runs := db_runs d @ [r], db_draws := db_draws d + 1\<rparr>))"

text \<open>
  A submission reads \<open>d0\<close> and inserts into \<open>d1\<close>, the database other API processes may have
  changed in between.
\<close>

definition create_run ::
  "repository \<Rightarrow> env \<Rightarrow> submission \<Rightarrow> db \<Rightarrow> db \<Rightarrow> (run_row \<times> db) res" where
  "create_run cfg e s d0 d1 =
     rbind (create_plan s d0) (\<lambda>p. case p of
       Inl r \<Rightarrow> Inr (r, d1)
     | Inr position \<Rightarrow> create_insert cfg e s position d1)"

section \<open>Claiming\<close>

text \<open>The JSONB operator \<open>?\<close>: key of an object, string element of an array, equal string.\<close>

fun jsonb_has_key :: "json \<Rightarrow> string \<Rightarrow> bool" where
  "jsonb_has_key (JObj d) k = dhas d k"
| "jsonb_has_key (JList xs) k = (JStr k \<in> set xs)"
| "jsonb_has_key (JStr s) k = (s = k)"
| "jsonb_has_key _ k = False"

definition sql_resume :: "run_row \<Rightarrow> bool" where
  "sql_resume r = jsonb_has_key (dget (run_kwargs r) ''command'') ''resume''"

text \<open>The queue order of a thread: resumes first, then position, creation time and identifier.\<close>

definition queue_key :: "run_row \<Rightarrow> nat \<times> int \<times> time \<times> uuid" where
  "queue_key r = (if sql_resume r then 0 else 1,
     case run_queue_position r of None \<Rightarrow> 0 | Some p \<Rightarrow> p, run_created_at r, run_id r)"

definition due :: "time \<Rightarrow> run_row \<Rightarrow> bool" where
  "due now r = (case run_next_attempt_at r of None \<Rightarrow> True | Some x \<Rightarrow> x \<le> now)"

definition lease_live :: "time \<Rightarrow> run_row \<Rightarrow> bool" where
  "lease_live now r =
     (run_lease_owner r \<noteq> None \<and>
      (case run_lease_expires_at r of None \<Rightarrow> False | Some x \<Rightarrow> x > now))"

definition thread_occupied :: "time \<Rightarrow> uuid \<Rightarrow> db \<Rightarrow> bool" where
  "thread_occupied now t d =
     list_ex (\<lambda>x. run_thread_id x = Some t \<and>
        (run_status x = ''running'' \<or> run_reason x = Some ''rollback'' \<or> lease_live now x))
       (db_runs d)"

definition thread_interrupted :: "uuid \<Rightarrow> db \<Rightarrow> bool" where
  "thread_interrupted t d = list_ex (\<lambda>x. th_id x = t \<and> th_interrupts x \<noteq> []) (db_threads d)"

definition queued_before :: "uuid \<Rightarrow> run_row \<Rightarrow> db \<Rightarrow> bool" where
  "queued_before t r d =
     list_ex (\<lambda>x. run_thread_id x = Some t \<and> run_status x = ''pending'' \<and>
        run_id x \<noteq> run_id r \<and> queue_key x < queue_key r) (db_runs d)"

definition eligible :: "time \<Rightarrow> db \<Rightarrow> run_row \<Rightarrow> bool" where
  "eligible now d r =
     (run_status r = ''pending'' \<and> due now r \<and>
      (case run_thread_id r of
         None \<Rightarrow> True
       | Some t \<Rightarrow> \<not> thread_occupied now t d \<and>
                   \<not> (thread_interrupted t d \<and> \<not> sql_resume r) \<and>
                   \<not> queued_before t r d))"

definition claim_select :: "env \<Rightarrow> (uuid \<Rightarrow> bool) \<Rightarrow> db \<Rightarrow> run_row option" where
  "claim_select e locked d =
     min_by (\<lambda>r. (run_created_at r, run_id r))
       (filter (\<lambda>r. eligible (e_now e) d r \<and> \<not> locked (run_id r)) (db_runs d))"

definition lifecycle_event :: "string \<Rightarrow> string \<Rightarrow> dict" where
  "lifecycle_event status reason =
     [(''event'', JStr ''lifecycle''), (''status'', JStr status), (''reason'', JStr reason)]"

text \<open>A run out of attempts is closed instead of started.\<close>

definition claim_exhausted :: "env \<Rightarrow> run_row \<Rightarrow> db \<Rightarrow> (event_row list \<times> db) res" where
  "claim_exhausted e run d =
     (let d1 = upd_run (run_id run) (\<lambda>x. x\<lparr>run_status := ''error'',
                 run_reason := Some ''infrastructure_error'', run_next_attempt_at := None,
                 run_updated_at := e_now e\<rparr>) d;
          d2 = (case run_thread_id run of
                  None \<Rightarrow> d1
                | Some t \<Rightarrow> upd_thread t (\<lambda>x. x\<lparr>th_status := ''idle''\<rparr>) d1)
      in rbind (record_event e (Some (run_id run)) (run_thread_id run) ''lifecycle''
                  (lifecycle_event ''error'' ''infrastructure_error'') [] [] True d2)
           (\<lambda>(ev, d3). Inr ([ev], d3)))"

definition upsert_lease :: "lease_row \<Rightarrow> db \<Rightarrow> db" where
  "upsert_lease l d =
     (if get_lease (ls_run_id l) d = None then d\<lparr>db_leases := db_leases d @ [l]\<rparr>
      else upd_lease (ls_run_id l) (\<lambda>_. l) d)"

definition claimed_run :: "repository \<Rightarrow> env \<Rightarrow> string \<Rightarrow> run_row \<Rightarrow> run_row" where
  "claimed_run cfg e owner run =
     run\<lparr>run_status := ''running'', run_reason := None, run_next_attempt_at := None,
         run_retry_count := run_retry_count run + 1,
         run_max_attempts :=
           min (if run_max_attempts run \<noteq> 0 then run_max_attempts run else max_attempts cfg)
               (max_attempts cfg),
         run_lease_owner := Some owner,
         run_lease_expires_at := Some (e_now e + lease_seconds cfg * 1000000),
         run_heartbeat_at := Some (e_now e)\<rparr>"

definition start_run ::
  "repository \<Rightarrow> env \<Rightarrow> string \<Rightarrow> run_row \<Rightarrow> db \<Rightarrow> (run_row option \<times> event_row list \<times> db) res" where
  "start_run cfg e owner run d =
     (let run' = claimed_run cfg e owner run
      in if (case run_thread_id run of
               None \<Rightarrow> False
             | Some t \<Rightarrow> list_ex (\<lambda>x. run_thread_id x = Some t \<and> run_id x \<noteq> run_id run \<and>
                            run_status x = ''running'') (db_runs d))
         then Inl IntegrityError
         else Inr (Some run', [],
                upsert_lease \<lparr>ls_run_id = run_id run, ls_owner = owner,
                   ls_expires_at = e_now e + lease_seconds cfg * 1000000,
                   ls_heartbeat_at = e_now e, ls_generation = run_retry_count run'\<rparr>
                 (upd_run (run_id run) (\<lambda>_. run') d)))"

text \<open>
  After the row is locked: the thread is locked without waiting, the conditions are read again,
  then the run is closed or started. \<open>d\<close> is the database these statements see.
\<close>

definition claim_commit ::
  "repository \<Rightarrow> env \<Rightarrow> string \<Rightarrow> (uuid \<Rightarrow> bool) \<Rightarrow> uuid \<Rightarrow> db
    \<Rightarrow> (run_row option \<times> event_row list \<times> db) res" where
  "claim_commit cfg e owner thread_locked rid d =
     (case get_run rid d of
        None \<Rightarrow> Inr (None, [], d)
      | Some run \<Rightarrow>
          if (case run_thread_id run of
                None \<Rightarrow> False
              | Some t \<Rightarrow>
                  (case get_thread t d of
                     None \<Rightarrow> True
                   | Some th \<Rightarrow> thread_locked t \<or>
                       (th_interrupts th \<noteq> [] \<and> \<not> is_resume (run_kwargs run)) \<or>
                       \<not> eligible (e_now e) d run))
          then Inr (None, [], d)
          else if run_retry_count run \<ge> run_max_attempts run then
            rbind (claim_exhausted e run d) (\<lambda>(evs, d'). Inr (None, evs, d'))
          else (case run_thread_id run of
              None \<Rightarrow> start_run cfg e owner run d
            | Some t \<Rightarrow>
                (case get_thread t d of
                   None \<Rightarrow> start_run cfg e owner run d
                 | Some th \<Rightarrow>
                     if other_active t (run_id run) d then Inr (None, [], d)
                     else start_run cfg e owner run
                            (upd_thread t (\<lambda>x. x\<lparr>th_status := ''busy''\<rparr>)
                              (capture_baseline (e_now e) run th d)))))"

definition claim_next ::
  "repository \<Rightarrow> env \<Rightarrow> string \<Rightarrow> (uuid \<Rightarrow> bool) \<Rightarrow> (uuid \<Rightarrow> bool) \<Rightarrow> db \<Rightarrow> db
    \<Rightarrow> (run_row option \<times> event_row list \<times> db) res" where
  "claim_next cfg e owner locked thread_locked d0 d1 =
     (case claim_select e locked d0 of
        None \<Rightarrow> Inr (None, [], d1)
      | Some run \<Rightarrow> claim_commit cfg e owner thread_locked (run_id run) d1)"

section \<open>Leases\<close>

definition renew :: "repository \<Rightarrow> env \<Rightarrow> uuid \<Rightarrow> string \<Rightarrow> db \<Rightarrow> bool \<times> db" where
  "renew cfg e rid owner d =
     (case get_run rid d of
        None \<Rightarrow> (False, d)
      | Some run \<Rightarrow>
          if run_status run \<noteq> ''running'' \<or> run_lease_owner run \<noteq> Some owner then (False, d)
          else
            let expires = e_now e + lease_seconds cfg * 1000000 in
            case get_lease rid d of
              None \<Rightarrow> (False, d)
            | Some l \<Rightarrow>
                if ls_owner l = owner \<and> ls_expires_at l > e_now e then
                  (True, upd_run rid (\<lambda>x. x\<lparr>run_lease_expires_at := Some expires,
                       run_heartbeat_at := Some (e_now e), run_updated_at := e_now e\<rparr>)
                     (upd_lease rid (\<lambda>x. x\<lparr>ls_expires_at := expires,
                       ls_heartbeat_at := e_now e\<rparr>) d))
                else (False, d))"

section \<open>Completion\<close>

type_synonym pre_event = "string \<times> dict \<times> json list option"

definition ns_or :: "json list option \<Rightarrow> json list" where
  "ns_or ns = (case ns of None \<Rightarrow> [] | Some xs \<Rightarrow> xs)"

fun record_preceding ::
  "env \<Rightarrow> uuid \<Rightarrow> uuid option \<Rightarrow> dict \<Rightarrow> pre_event list \<Rightarrow> db \<Rightarrow> (event_row list \<times> db) res" where
  "record_preceding e r tid tctx [] d = Inr ([], d)"
| "record_preceding e r tid tctx ((topic, payload, ns) # evs) d =
     rbind (record_event e (Some r) tid topic payload (ns_or ns) tctx False d) (\<lambda>(ev, d1).
     rbind (record_preceding e r tid tctx evs d1) (\<lambda>(rest, d2). Inr (ev # rest, d2)))"

definition finished_run :: "env \<Rightarrow> transition_rec \<Rightarrow> run_row \<Rightarrow> run_row" where
  "finished_run e change x =
     x\<lparr>run_status := status_value (tr_status change),
       run_reason := Some (reason_value (tr_reason change)), run_lease_owner := None,
       run_lease_expires_at := None, run_next_attempt_at := None,
       run_heartbeat_at := Some (e_now e), run_updated_at := e_now e\<rparr>"

definition finish_run ::
  "env \<Rightarrow> uuid \<Rightarrow> string \<Rightarrow> string \<Rightarrow> string \<Rightarrow> dict option \<Rightarrow> pre_event list \<Rightarrow> dict \<Rightarrow> db
    \<Rightarrow> (run_row option \<times> event_row list \<times> db) res" where
  "finish_run e rid owner target reason terminal_payload preceding tctx d =
     (case get_run rid d of
        None \<Rightarrow> Inl (run_missing rid)
      | Some run \<Rightarrow>
          rbind (is_terminal (run_status run)) (\<lambda>done.
            if done then Inr (None, [], d)
            else if run_lease_owner run \<noteq> Some owner then
              Inl (RunOwnershipError (''run '' @ uuid_str rid @ '' is owned by another worker''))
            else rbind (is_terminal target) (\<lambda>target_done.
              if terminal_payload \<noteq> None \<and> \<not> target_done then
                Inl (ValueError ''terminal_payload requires a terminal run status'')
              else
                let payload = (case terminal_payload of
                      Some p \<Rightarrow> Some p
                    | None \<Rightarrow> if target_done then Some (lifecycle_event target reason) else None) in
                rbind (record_preceding e rid (run_thread_id run) tctx preceding d) (\<lambda>(evs, d1).
                rbind (transition (run_status run) target reason (run_retry_count run)) (\<lambda>change.
                  let d2 = del_lease rid (upd_run rid (finished_run e change) d1) in
                  case payload of
                    None \<Rightarrow> Inr (get_run rid d2, evs, d2)
                  | Some p \<Rightarrow>
                      rbind (record_event e (Some rid) (run_thread_id run) ''lifecycle'' p [] tctx
                               True d2)
                        (\<lambda>(ev, d3). Inr (get_run rid d3, evs @ [ev], d3)))))))"

definition released_run :: "env \<Rightarrow> transition_rec \<Rightarrow> time option \<Rightarrow> run_row \<Rightarrow> run_row" where
  "released_run e change next_attempt x =
     x\<lparr>run_status := status_value (tr_status change),
       run_reason := Some (reason_value (tr_reason change)),
       run_next_attempt_at := next_attempt, run_lease_owner := None,
       run_lease_expires_at := None, run_heartbeat_at := Some (e_now e),
       run_updated_at := e_now e\<rparr>"

definition fail_run ::
  "repository \<Rightarrow> env \<Rightarrow> uuid \<Rightarrow> string \<Rightarrow> bool \<Rightarrow> string \<Rightarrow> dict option \<Rightarrow> dict \<Rightarrow> db
    \<Rightarrow> (run_row option \<times> event_row list \<times> db) res" where
  "fail_run cfg e rid owner infrastructure reason terminal_payload tctx d =
     (case get_run rid d of
        None \<Rightarrow> Inl (run_missing rid)
      | Some run \<Rightarrow>
          if run_lease_owner run \<noteq> Some owner then
            Inl (RunOwnershipError (''run '' @ uuid_str rid @ '' is owned by another worker''))
          else rbind (is_terminal (run_status run)) (\<lambda>done.
            if done then Inr (Some run, [], d)
            else
              let retry = infrastructure \<and>
                    run_retry_count run < min (run_max_attempts run) (max_attempts cfg) in
              rbind (if retry
                     then transition (run_status run) ''pending'' ''retry'' (run_retry_count run)
                     else transition (run_status run) ''error'' reason (run_retry_count run))
              (\<lambda>change.
                let next_attempt =
                      (if retry
                       then Some (e_now e + td_seconds (retry_delay cfg (run_retry_count run)))
                       else None);
                    d1 = del_lease rid (upd_run rid (released_run e change next_attempt) d);
                    payload = (case terminal_payload of
                        Some (p # ps) \<Rightarrow> p # ps
                      | _ \<Rightarrow> lifecycle_event (status_value (tr_status change))
                               (reason_value (tr_reason change)))
                in rbind (record_event e (Some rid) (run_thread_id run) ''lifecycle'' payload [] tctx
                            (terminal_status (tr_status change)) d1)
                     (\<lambda>(ev, d2). Inr (get_run rid d2, [ev], d2)))))"

definition drained_run :: "bool \<Rightarrow> run_row \<Rightarrow> run_row" where
  "drained_run drained x =
     (if drained
      then x\<lparr>run_kwargs := dset ''__graphharbor_resume_after_drain'' (JBool True) (run_kwargs x)\<rparr>
      else x)"

definition idle_thread :: "uuid option \<Rightarrow> db \<Rightarrow> db" where
  "idle_thread tid d =
     (case tid of None \<Rightarrow> d | Some t \<Rightarrow> upd_thread t (\<lambda>x. x\<lparr>th_status := ''idle''\<rparr>) d)"

definition requeue_for_shutdown ::
  "repository \<Rightarrow> env \<Rightarrow> uuid \<Rightarrow> string \<Rightarrow> bool \<Rightarrow> db
    \<Rightarrow> (run_row option \<times> event_row list \<times> db) res" where
  "requeue_for_shutdown cfg e rid owner drained d =
     (case get_run rid d of
        None \<Rightarrow> Inl (run_missing rid)
      | Some run \<Rightarrow>
          if run_lease_owner run \<noteq> Some owner then
            Inl (RunOwnershipError (''run '' @ uuid_str rid @ '' is owned by another worker''))
          else if run_status run \<noteq> ''running'' then Inr (Some run, [], d)
          else rbind (transition (run_status run) ''pending'' ''shutdown_requeue''
                        (run_retry_count run)) (\<lambda>change.
            let delay = td_seconds (retry_delay cfg (run_retry_count run));
                d1 = upd_run rid (\<lambda>x. released_run e change (Some (e_now e + delay))
                       (drained_run drained x)) d;
                d2 = del_lease rid (idle_thread (run_thread_id run) d1)
            in rbind (record_event e (Some rid) (run_thread_id run) ''lifecycle''
                        (lifecycle_event (status_value (tr_status change))
                           (reason_value (tr_reason change))) [] [] False d2)
                 (\<lambda>(ev, d3). Inr (get_run rid d3, [ev], d3))))"

section \<open>Reclaiming expired leases\<close>

definition lease_expired :: "time \<Rightarrow> run_row \<Rightarrow> bool" where
  "lease_expired now r =
     (run_status r = ''running'' \<and>
      (case run_lease_expires_at r of None \<Rightarrow> False | Some x \<Rightarrow> x < now))"

definition reclaimed_run :: "transition_rec \<Rightarrow> time option \<Rightarrow> time \<Rightarrow> run_row \<Rightarrow> run_row" where
  "reclaimed_run change next_attempt now x =
     x\<lparr>run_status := status_value (tr_status change),
       run_reason := Some (reason_value (tr_reason change)),
       run_next_attempt_at := next_attempt, run_lease_owner := None,
       run_lease_expires_at := None, run_updated_at := now\<rparr>"

definition reclaim_thread :: "bool \<Rightarrow> thread_row \<Rightarrow> thread_row" where
  "reclaim_thread failed x =
     (if failed
      then x\<lparr>th_status := ''idle'', th_error := JObj [(''reason'', JStr ''infrastructure_error'')]\<rparr>
      else x\<lparr>th_status := ''idle''\<rparr>)"

definition reclaim_one ::
  "repository \<Rightarrow> env \<Rightarrow> time \<Rightarrow> run_row \<Rightarrow> db \<Rightarrow> (event_row \<times> db) res" where
  "reclaim_one cfg e now run d =
     (let spent = run_retry_count run \<ge> run_max_attempts run in
      rbind (if spent
             then transition (run_status run) ''error'' ''infrastructure_error'' (run_retry_count run)
             else transition (run_status run) ''pending'' ''shutdown_requeue'' (run_retry_count run))
      (\<lambda>change.
        let next_attempt =
              (if spent then None
               else Some (now + td_seconds (retry_delay cfg (run_retry_count run))));
            failed = (tr_status change = ERROR);
            d1 = upd_run (run_id run) (reclaimed_run change next_attempt now) d;
            d2 = (case run_thread_id run of
                    None \<Rightarrow> d1
                  | Some t \<Rightarrow> upd_thread t (reclaim_thread failed) d1)
        in record_event e (Some (run_id run)) (run_thread_id run) ''lifecycle''
             (lifecycle_event (status_value (tr_status change)) (reason_value (tr_reason change)))
             [] [] failed d2))"

fun reclaim_all ::
  "repository \<Rightarrow> env \<Rightarrow> time \<Rightarrow> run_row list \<Rightarrow> db \<Rightarrow> (event_row list \<times> db) res" where
  "reclaim_all cfg e now [] d = Inr ([], d)"
| "reclaim_all cfg e now (run # runs) d =
     rbind (reclaim_one cfg e now run d) (\<lambda>(ev, d1).
     rbind (reclaim_all cfg e now runs d1) (\<lambda>(evs, d2). Inr (ev # evs, d2)))"

definition requeue_expired ::
  "repository \<Rightarrow> env \<Rightarrow> time option \<Rightarrow> (uuid \<Rightarrow> bool) \<Rightarrow> db
    \<Rightarrow> (nat \<times> event_row list \<times> db) res" where
  "requeue_expired cfg e when locked d =
     (let now = (case when of None \<Rightarrow> e_now e | Some t \<Rightarrow> t);
          runs = filter (\<lambda>r. lease_expired now r \<and> \<not> locked (run_id r)) (db_runs d)
      in rbind (reclaim_all cfg e now runs d) (\<lambda>(evs, d1).
           let gone = set (map run_id runs)
           in Inr (length runs, evs,
                d1\<lparr>db_leases := filter (\<lambda>l. ls_run_id l \<notin> gone) (db_leases d1)\<rparr>)))"

end
