(* ===== verification/RunControl.thy ===== *)
theory RunControl
  imports RunStore
begin

text \<open>
  Operations on runs outside the repository: cancellation with its two actions and the queue
  compare-and-swap of \<open>core_api.py\<close>, run deletion, and the release a worker performs once a
  cancelled execution has stopped (\<open>production_worker.py\<close>). The messages published after the
  commit belong to the stream.
\<close>

section \<open>Cancellation\<close>

definition cancelled_run :: "env \<Rightarrow> transition_rec \<Rightarrow> run_row \<Rightarrow> run_row" where
  "cancelled_run e change x =
     (let y = x\<lparr>run_status := status_value (tr_status change),
                run_reason := Some (reason_value (tr_reason change)),
                run_heartbeat_at := Some (e_now e), run_updated_at := e_now e\<rparr>
      in if run_status x = ''running'' then y
         else y\<lparr>run_lease_owner := None, run_lease_expires_at := None\<rparr>)"

definition marked_rollback :: "env \<Rightarrow> run_row \<Rightarrow> run_row" where
  "marked_rollback e x =
     x\<lparr>run_status := ''interrupted'', run_reason := Some ''rollback'', run_updated_at := e_now e\<rparr>"

definition cancel_row ::
  "env \<Rightarrow> uuid \<Rightarrow> string \<Rightarrow> db \<Rightarrow> (event_row list \<times> db) res" where
  "cancel_row e rid action d =
     (case get_run rid d of
        None \<Rightarrow> Inr ([], d)
      | Some row \<Rightarrow>
          if action = ''rollback'' then
            rbind (rollback_run e row True d) (\<lambda>_.
              if run_lease_owner row = None
              then rbind (rollback_run e row False d) (\<lambda>d'. Inr ([], d'))
              else Inr ([], upd_run rid (marked_rollback e) d))
          else rbind (is_terminal (run_status row)) (\<lambda>done.
            if done then Inr ([], d)
            else rbind (transition (run_status row) ''interrupted'' ''cancel_requested''
                          (run_retry_count row)) (\<lambda>change.
              let d1 = upd_run rid (cancelled_run e change) d;
                  d2 = (if run_status row = ''running'' then d1 else del_lease rid d1)
              in rbind (record_event e (Some rid) (run_thread_id row) ''lifecycle''
                          (lifecycle_event ''interrupted'' ''cancel_requested'') []
                          [(''assistant_id'', JStr (uuid_str (run_assistant_id row)))] True d2)
                   (\<lambda>(ev, d3). Inr ([ev], d3)))))"

text \<open>The worker's last transaction of a run whose cancellation it has seen through.\<close>

definition release_stopped :: "uuid \<Rightarrow> string \<Rightarrow> uuid option \<Rightarrow> db \<Rightarrow> db" where
  "release_stopped rid owner tid d =
     (case get_run rid d of
        None \<Rightarrow> d
      | Some run \<Rightarrow>
          if run_lease_owner run = Some owner \<and> run_reason run = Some ''cancel_requested'' then
            let d1 = del_lease rid (upd_run rid (\<lambda>x. x\<lparr>run_lease_owner := None,
                       run_lease_expires_at := None\<rparr>) d)
            in (case tid of
                  None \<Rightarrow> d1
                | Some t \<Rightarrow> upd_thread t (\<lambda>x. x\<lparr>th_status :=
                    (if th_interrupts x \<noteq> [] then ''interrupted'' else ''idle'')\<rparr>) d1)
          else d)"

text \<open>\<open>visible\<close>: the caller's authorisation filter and scope admit the row.\<close>

definition runs_delete :: "(run_row \<Rightarrow> bool) \<Rightarrow> uuid \<Rightarrow> uuid \<Rightarrow> db \<Rightarrow> db" where
  "runs_delete visible thread_id rid d =
     (case get_run rid d of
        None \<Rightarrow> d
      | Some row \<Rightarrow>
          if visible row \<and> run_thread_id row = Some thread_id then del_run rid d else d)"

section \<open>The queue of a thread\<close>

record queue_request =
  qr_cancel :: bool
  qr_expected :: "uuid list"
  qr_requested :: "uuid list"

fun parse_ids :: "json list \<Rightarrow> uuid list option" where
  "parse_ids [] = Some []"
| "parse_ids (JStr s # xs) =
     (case parse_uuid s of
        None \<Rightarrow> None
      | Some u \<Rightarrow> (case parse_ids xs of None \<Rightarrow> None | Some us \<Rightarrow> Some (u # us)))"
| "parse_ids (_ # xs) = None"

definition parse_queue :: "json \<Rightarrow> queue_request res" where
  "parse_queue payload =
     (case payload of
        JObj p \<Rightarrow>
          (case dget p ''operation'' of
             JObj _ \<Rightarrow> Inl (HTTPException 422 ''invalid queue IDs'')
           | JList _ \<Rightarrow> Inl (HTTPException 422 ''invalid queue IDs'')
           | operation \<Rightarrow>
               (case (dget p ''expected_run_ids'', dget p ''run_ids'') of
                  (JList expected, JList requested) \<Rightarrow>
                    if operation \<notin> {JStr ''cancel'', JStr ''reorder''} then
                      Inl (HTTPException 422 ''invalid queue operation'')
                    else if length expected > 1000 \<or> length requested > 1000 then
                      Inl (HTTPException 422 ''queue operation exceeds 1000 runs'')
                    else (case (parse_ids expected, parse_ids requested) of
                        (Some es, Some rs) \<Rightarrow>
                          if \<not> distinct es \<or> \<not> distinct rs then
                            Inl (HTTPException 422 ''duplicate queue run IDs'')
                          else if \<not> set rs \<subseteq> set es \<or>
                                  (operation = JStr ''reorder'' \<and> set rs \<noteq> set es) then
                            Inl (HTTPException 422 ''run IDs do not match expected queue'')
                          else Inr \<lparr>qr_cancel = (operation = JStr ''cancel''),
                                    qr_expected = es, qr_requested = rs\<rparr>
                      | _ \<Rightarrow> Inl (HTTPException 422 ''invalid queue IDs''))
                | _ \<Rightarrow> Inl (HTTPException 422 ''invalid queue operation'')))
      | _ \<Rightarrow> Inl (HTTPException 422 ''queue operation must be an object''))"

text \<open>\<open>ORDER BY queue_position, created_at, run_id\<close>: PostgreSQL puts nulls last.\<close>

definition position_key :: "run_row \<Rightarrow> (nat \<times> int) \<times> time \<times> uuid" where
  "position_key r =
     ((case run_queue_position r of None \<Rightarrow> (1, 0) | Some p \<Rightarrow> (0, p)), run_created_at r, run_id r)"

definition queued :: "uuid \<Rightarrow> run_row \<Rightarrow> bool" where
  "queued t r = (run_thread_id r = Some t \<and> run_status r = ''pending'' \<and> \<not> sql_resume r)"

definition queue_rows :: "uuid \<Rightarrow> (uuid \<Rightarrow> bool) \<Rightarrow> db \<Rightarrow> run_row list" where
  "queue_rows t locked d =
     sort_key position_key (filter (\<lambda>r. queued t r \<and> \<not> locked (run_id r)) (db_runs d))"

definition row_positions :: "run_row list \<Rightarrow> int list" where
  "row_positions rows =
     sort (map (\<lambda>(i, r). case run_queue_position r of
              None \<Rightarrow> int i + 1
            | Some p \<Rightarrow> if p = 0 then int i + 1 else p) (enumerate 0 rows))"

definition set_positions :: "(uuid \<times> int) list \<Rightarrow> db \<Rightarrow> db" where
  "set_positions ps d =
     fold (\<lambda>(r, p). upd_run r (\<lambda>x. x\<lparr>run_queue_position := Some p\<rparr>)) ps d"

fun cancel_rows :: "env \<Rightarrow> uuid list \<Rightarrow> db \<Rightarrow> (event_row list \<times> db) res" where
  "cancel_rows e [] d = Inr ([], d)"
| "cancel_rows e (r # rs) d =
     rbind (cancel_row e r ''interrupt'' d) (\<lambda>(evs, d1).
     rbind (cancel_rows e rs d1) (\<lambda>(evs', d2). Inr (evs @ evs', d2)))"

definition runs_queue ::
  "env \<Rightarrow> (uuid \<Rightarrow> bool) \<Rightarrow> uuid \<Rightarrow> queue_request \<Rightarrow> db \<Rightarrow> (event_row list \<times> db) res" where
  "runs_queue e locked t q d =
     (if get_thread t d = None then Inl (HTTPException 404 ''thread not found'')
      else
        let rows = queue_rows t locked d in
        if length (filter (queued t) (db_runs d)) \<noteq> length rows \<or>
           map run_id rows \<noteq> qr_expected q then
          Inl (HTTPException 409 ''queue changed; refresh and retry'')
        else if qr_cancel q then cancel_rows e (qr_requested q) d
        else Inr ([], set_positions (zip (qr_requested q) (row_positions rows)) d))"

text \<open>The response lists the rows that are still pending, by position.\<close>

definition queue_response :: "uuid list \<Rightarrow> db \<Rightarrow> run_row list" where
  "queue_response ids d =
     sort_key (\<lambda>r. case run_queue_position r of None \<Rightarrow> 0 | Some p \<Rightarrow> p)
       (filter (\<lambda>r. run_status r = ''pending'')
         (concat (map (\<lambda>i. case get_run i d of None \<Rightarrow> [] | Some r \<Rightarrow> [r]) ids)))"

end
