(* ===== verification/RunProtocol.thy ===== *)
theory RunProtocol
  imports RunControl
begin

text \<open>
  The protocol the run operations follow together. \<open>control\<close> abstracts the database to what
  decides ownership: the runs without their event cursors, the leases, and which runs are
  closed by a terminal event. Every operation of the repository and of run control refines a
  step of the abstract machine \<open>control_step\<close>; its invariant then holds in every database
  the operations reach.
\<close>

section \<open>The abstraction\<close>

definition ctl :: "run_row \<Rightarrow> run_row" where
  "ctl x = x\<lparr>run_event_seq := 0, run_event_pruned_through := 0\<rparr>"

record control =
  cn_run :: "uuid \<Rightarrow> run_row option"
  cn_lease :: "uuid \<Rightarrow> lease_row option"
  cn_closed :: "uuid \<Rightarrow> bool"

definition control_of :: "db \<Rightarrow> control" where
  "control_of d = \<lparr>cn_run = (\<lambda>r. map_option ctl (get_run r d)), cn_lease = (\<lambda>r. get_lease r d),
            cn_closed = (\<lambda>r. terminal_events r d \<noteq> [])\<rparr>"

lemma ctl_sel [simp]:
  "run_id (ctl x) = run_id x" "run_thread_id (ctl x) = run_thread_id x"
  "run_status (ctl x) = run_status x" "run_reason (ctl x) = run_reason x"
  "run_retry_count (ctl x) = run_retry_count x" "run_max_attempts (ctl x) = run_max_attempts x"
  "run_next_attempt_at (ctl x) = run_next_attempt_at x"
  "run_idempotency_key (ctl x) = run_idempotency_key x"
  "run_lease_owner (ctl x) = run_lease_owner x"
  "run_lease_expires_at (ctl x) = run_lease_expires_at x"
  "run_kwargs (ctl x) = run_kwargs x" "run_queue_position (ctl x) = run_queue_position x"
  "run_assistant_id (ctl x) = run_assistant_id x" "run_created_at (ctl x) = run_created_at x"
  by (simp_all add: ctl_def)

lemma ctl_cursor [simp]:
  "ctl (x\<lparr>run_event_seq := s\<rparr>) = ctl x" "ctl (x\<lparr>run_event_pruned_through := s\<rparr>) = ctl x"
  by (simp_all add: ctl_def)

section \<open>What an operation does to the abstraction\<close>

lemma cn_abs [simp]:
  "cn_run (control_of d) r = map_option ctl (get_run r d)" "cn_lease (control_of d) r = get_lease r d"
  "cn_closed (control_of d) r = (terminal_events r d \<noteq> [])"
  by (simp_all add: control_of_def)

lemma control_eqI:
  "(\<And>r. map_option ctl (get_run r d) = map_option ctl (get_run r d')) \<Longrightarrow>
   (\<And>r. get_lease r d = get_lease r d') \<Longrightarrow>
   (\<And>r. (terminal_events r d \<noteq> []) = (terminal_events r d' \<noteq> [])) \<Longrightarrow> control_of d = control_of d'"
  by (simp add: control_of_def)

lemma control_upd_thread [simp]: "control_of (upd_thread t g d) = control_of d"
  by (rule control_eqI) simp_all

lemma control_idle_thread [simp]: "control_of (idle_thread t d) = control_of d"
  by (simp add: idle_thread_def split: option.split)

lemma get_lease_draws [simp]: "get_lease r (d\<lparr>db_draws := n\<rparr>) = get_lease r d"
  by (simp add: get_lease_def)

lemma get_lease_events [simp]: "get_lease r (d\<lparr>db_events := n\<rparr>) = get_lease r d"
  by (simp add: get_lease_def)

lemma control_draws [simp]: "control_of (d\<lparr>db_draws := n\<rparr>) = control_of d"
  by (rule control_eqI) simp_all

lemma control_upd_run:
  assumes "\<And>x. run_id (f x) = run_id x"
  shows "control_of (upd_run r f d) = (control_of d)\<lparr>cn_run := (cn_run (control_of d))
           (r := map_option (\<lambda>x. ctl (f x)) (get_run r d))\<rparr>"
  by (rule control.equality) (auto simp: runs_t.get_upd [OF assms] option.map_comp comp_def)

lemma control_del_lease: "control_of (del_lease r d) = (control_of d)\<lparr>cn_lease := (cn_lease (control_of d))(r := None)\<rparr>"
  by (rule control.equality) (auto simp: terminal_events_def fun_eq_iff)

lemma control_cursor [simp]: "control_of (upd_run r (\<lambda>x. x\<lparr>run_event_seq := f x\<rparr>) d) = control_of d"
  by (subst control_upd_run) (auto intro!: control.equality simp: option.map_comp comp_def)

lemma control_append:
  assumes "append_event e rid tid s topic ns p tc term d = Inr (ev, d')"
  shows "control_of d' = (control_of d)
           \<lparr>cn_closed := (\<lambda>r. cn_closed (control_of d) r \<or> (rid = Some r \<and> term))\<rparr>"
proof -
  let ?ev = "make_event e rid tid s topic ns p tc term d"
  have d': "d' = d\<lparr>db_events := db_events d @ [?ev]\<rparr>\<lparr>db_draws := db_draws d + 1\<rparr>"
    using assms by (auto simp: append_event_def Let_def rbind_eq_Inr insert_event_Inr)
  show ?thesis unfolding d' control_draws
    by (intro control.equality) (auto simp: fun_eq_iff)
qed

text \<open>
  The repository's view of \<open>record_event\<close>: ownership is untouched, a terminal event closes
  the run.
\<close>

lemma control_record_event:
  assumes "record_event e (Some r) tid topic p ns tc term d = Inr (ev, d')"
  shows "control_of d' = (if term then (control_of d)\<lparr>cn_closed := (cn_closed (control_of d))(r := True)\<rparr> else control_of d)"
  using assms
proof (cases rule: record_event_cases)
  case (existing r')
  then have "ev \<in> set (terminal_events r d)"
    using find_Some_in [of _ "db_events d" ev]
    by (auto simp: find_terminal_event_def terminal_events_def)
  then have "terminal_events r d \<noteq> []" by auto
  with existing show ?thesis
    by (auto intro!: control.equality simp: fun_eq_iff)
next
  case (run r' run)
  then have r: "get_run r d = Some run" "run_id run = r"
    using runs_t.get_Some [of r d run] by simp_all
  show ?thesis
  proof (cases "run_thread_id run")
    case None
    with run(5) r(2) obtain s d1 where a:
      "append_event e (Some r) None s topic ns (lifecycle_payload run topic p d) tc term d1 = Inr (ev, d')"
      "control_of d1 = control_of d"
      by (auto simp: record_run_event_def Let_def)
    show ?thesis
      unfolding control_append [OF a(1)] a(2) by (auto intro!: control.equality simp: fun_eq_iff)
  next
    case (Some t)
    with run(5) r(2) obtain s d1 where a:
      "append_event e (Some r) (Some t) s topic ns (lifecycle_payload run topic p d) tc term d1 = Inr (ev, d')"
      "control_of d1 = control_of d"
      by (auto simp: record_run_event_def Let_def split: option.splits)
    show ?thesis
      unfolding control_append [OF a(1)] a(2) by (auto intro!: control.equality simp: fun_eq_iff)
  qed
next
  case (runless t)
  then show ?thesis by simp
qed

lemma control_record_thread_event:
  assumes "record_event e None tid topic p ns tc term d = Inr (ev, d')"
  shows "control_of d' = control_of d"
  using assms
proof (cases rule: record_event_cases)
  case (runless t)
  then obtain s d1 where a: "append_event e None (Some t) s topic ns p tc term d1 = Inr (ev, d')"
      "control_of d1 = control_of d"
    by (auto simp: record_thread_event_def Let_def split: option.splits)
  show ?thesis
    unfolding control_append [OF a(1)] a(2) by (auto intro!: control.equality simp: fun_eq_iff)
qed simp_all

section \<open>The abstract machine\<close>

text \<open>\<open>kept x y\<close>: the columns no transition changes.\<close>

definition kept :: "run_row \<Rightarrow> run_row \<Rightarrow> bool" where
  "kept x y \<longleftrightarrow> run_id y = run_id x \<and> run_thread_id y = run_thread_id x \<and>
     run_idempotency_key y = run_idempotency_key x"

definition no_lease :: "run_row \<Rightarrow> bool" where
  "no_lease x \<longleftrightarrow> run_lease_owner x = None \<and> run_lease_expires_at x = None"

definition leased :: "run_row \<Rightarrow> lease_row \<Rightarrow> bool" where
  "leased x l \<longleftrightarrow> run_lease_owner x = Some (ls_owner l) \<and>
     run_lease_expires_at x = Some (ls_expires_at l) \<and> ls_generation l = run_retry_count x"

definition terminal :: "run_row \<Rightarrow> bool" where
  "terminal x \<longleftrightarrow> run_status x \<in> set TERMINAL_RUN_STATUSES"

lemma ctl_views [simp]:
  "no_lease (ctl x) = no_lease x" "leased (ctl x) l = leased x l" "terminal (ctl x) = terminal x"
  by (simp_all add: no_lease_def leased_def terminal_def)

inductive control_step :: "control \<Rightarrow> control \<Rightarrow> bool" where
  submit: "cn_run c r = None \<Longrightarrow> run_id x = r \<Longrightarrow> run_status x = ''pending'' \<Longrightarrow>
    run_reason x = None \<Longrightarrow> run_retry_count x = 0 \<Longrightarrow> run_max_attempts x \<in> {1..3} \<Longrightarrow> no_lease x \<Longrightarrow>
    (\<And>q y. cn_run c q = Some y \<Longrightarrow> run_idempotency_key x = None \<or>
       run_idempotency_key y \<noteq> run_idempotency_key x) \<Longrightarrow>
    control_step c (c\<lparr>cn_run := (cn_run c)(r \<mapsto> x)\<rparr>)"
| claim: "cn_run c r = Some x \<Longrightarrow> run_status x = ''pending'' \<Longrightarrow>
    run_retry_count x < run_max_attempts x \<Longrightarrow> run_reason y = None \<Longrightarrow>
    (\<And>q z t. cn_run c q = Some z \<Longrightarrow> q \<noteq> r \<Longrightarrow> run_thread_id x = Some t \<Longrightarrow>
       run_thread_id z = Some t \<Longrightarrow> run_status z \<noteq> ''running'') \<Longrightarrow>
    kept x y \<Longrightarrow> run_status y = ''running'' \<Longrightarrow> run_retry_count y = run_retry_count x + 1 \<Longrightarrow>
    run_max_attempts y \<in> {1..3} \<Longrightarrow> leased y l \<Longrightarrow>
    control_step c (c\<lparr>cn_run := (cn_run c)(r \<mapsto> y), cn_lease := (cn_lease c)(r \<mapsto> l)\<rparr>)"
| extend: "cn_run c r = Some x \<Longrightarrow> run_status x = ''running'' \<Longrightarrow> cn_lease c r = Some l \<Longrightarrow>
    kept x y \<Longrightarrow> run_status y = run_status x \<Longrightarrow> run_reason y = run_reason x \<Longrightarrow>
    run_retry_count y = run_retry_count x \<Longrightarrow> run_max_attempts y = run_max_attempts x \<Longrightarrow>
    leased y l' \<Longrightarrow>
    control_step c (c\<lparr>cn_run := (cn_run c)(r \<mapsto> y), cn_lease := (cn_lease c)(r \<mapsto> l')\<rparr>)"
| close: "cn_run c r = Some x \<Longrightarrow> \<not> terminal x \<Longrightarrow> kept x y \<Longrightarrow> terminal y \<Longrightarrow> no_lease y \<Longrightarrow>
    run_retry_count y = run_retry_count x \<Longrightarrow> run_max_attempts y = run_max_attempts x \<Longrightarrow>
    control_step c \<lparr>cn_run = (cn_run c)(r \<mapsto> y), cn_lease = (cn_lease c)(r := None),
      cn_closed = (cn_closed c)(r := True)\<rparr>"
| requeue: "cn_run c r = Some x \<Longrightarrow> run_status x = ''running'' \<Longrightarrow> kept x y \<Longrightarrow>
    run_status y = ''pending'' \<Longrightarrow> no_lease y \<Longrightarrow> run_retry_count y = run_retry_count x \<Longrightarrow>
    run_max_attempts y = run_max_attempts x \<Longrightarrow>
    control_step c (c\<lparr>cn_run := (cn_run c)(r \<mapsto> y), cn_lease := (cn_lease c)(r := None)\<rparr>)"
| cancel: "cn_run c r = Some x \<Longrightarrow> run_status x = ''running'' \<Longrightarrow> kept x y \<Longrightarrow>
    run_status y = ''interrupted'' \<Longrightarrow> run_lease_owner y = run_lease_owner x \<Longrightarrow>
    run_lease_expires_at y = run_lease_expires_at x \<Longrightarrow>
    run_retry_count y = run_retry_count x \<Longrightarrow> run_max_attempts y = run_max_attempts x \<Longrightarrow>
    control_step c (c\<lparr>cn_run := (cn_run c)(r \<mapsto> y), cn_closed := (cn_closed c)(r := True)\<rparr>)"
| mark: "cn_run c r = Some x \<Longrightarrow> run_lease_owner x \<noteq> None \<Longrightarrow> kept x y \<Longrightarrow>
    run_status y = ''interrupted'' \<Longrightarrow> run_reason y = Some ''rollback'' \<Longrightarrow>
    run_lease_owner y = run_lease_owner x \<Longrightarrow> run_lease_expires_at y = run_lease_expires_at x \<Longrightarrow>
    run_retry_count y = run_retry_count x \<Longrightarrow> run_max_attempts y = run_max_attempts x \<Longrightarrow>
    control_step c (c\<lparr>cn_run := (cn_run c)(r \<mapsto> y)\<rparr>)"
| release: "cn_run c r = Some x \<Longrightarrow> run_status x \<noteq> ''running'' \<Longrightarrow> kept x y \<Longrightarrow>
    run_status y = run_status x \<Longrightarrow> run_reason y = run_reason x \<Longrightarrow> no_lease y \<Longrightarrow>
    run_retry_count y = run_retry_count x \<Longrightarrow> run_max_attempts y = run_max_attempts x \<Longrightarrow>
    control_step c (c\<lparr>cn_run := (cn_run c)(r \<mapsto> y), cn_lease := (cn_lease c)(r := None)\<rparr>)"
| adjust: "cn_run c r = Some x \<Longrightarrow> kept x y \<Longrightarrow>
    run_status y = run_status x \<Longrightarrow> run_reason y = run_reason x \<Longrightarrow>
    run_lease_owner y = run_lease_owner x \<Longrightarrow> run_lease_expires_at y = run_lease_expires_at x \<Longrightarrow>
    run_retry_count y = run_retry_count x \<Longrightarrow> run_max_attempts y = run_max_attempts x \<Longrightarrow>
    control_step c (c\<lparr>cn_run := (cn_run c)(r \<mapsto> y)\<rparr>)"
| drop_run: "control_step c \<lparr>cn_run = (cn_run c)(r := None), cn_lease = (cn_lease c)(r := None),
      cn_closed = (cn_closed c)(r := False)\<rparr>"

text \<open>
  The invariant of one run: its status decides whether it holds a lease, the run row and the
  lease row agree on owner, expiry and generation, attempts stay within their bound, and a
  terminal event exists exactly for terminal runs (a run marked for rollback is deleted instead).
\<close>

definition row_ok :: "run_row \<Rightarrow> lease_row option \<Rightarrow> bool \<Rightarrow> bool" where
  "row_ok x l shut \<longleftrightarrow>
     run_status x \<in> set PUBLIC_RUN_STATUSES \<and>
     0 \<le> run_retry_count x \<and> run_retry_count x \<le> 3 \<and> run_max_attempts x \<in> {1..3} \<and>
     (case l of None \<Rightarrow> no_lease x | Some y \<Rightarrow> leased x y) \<and>
     (run_status x \<notin> {''running'', ''interrupted''} \<longrightarrow> l = None) \<and>
     (run_status x = ''running'' \<longrightarrow> l \<noteq> None \<and> 1 \<le> run_retry_count x \<and> run_reason x = None) \<and>
     (shut \<longrightarrow> terminal x) \<and> (terminal x \<longrightarrow> shut \<or> run_reason x = Some ''rollback'')"

definition control_inv :: "control \<Rightarrow> bool" where
  "control_inv c \<longleftrightarrow>
     (\<forall>r x. cn_run c r = Some x \<longrightarrow> run_id x = r \<and> row_ok x (cn_lease c r) (cn_closed c r)) \<and>
     (\<forall>r. cn_run c r = None \<longrightarrow> cn_lease c r = None \<and> \<not> cn_closed c r) \<and>
     (\<forall>q r x y t. cn_run c q = Some x \<and> cn_run c r = Some y \<and> run_status x = ''running'' \<and>
        run_status y = ''running'' \<and> run_thread_id x = Some t \<and> run_thread_id y = Some t \<longrightarrow> q = r) \<and>
     (\<forall>q r x y k. cn_run c q = Some x \<and> cn_run c r = Some y \<and> run_idempotency_key x = Some k \<and>
        run_idempotency_key y = Some k \<longrightarrow> q = r)"

lemma control_invD:
  assumes "control_inv c"
  shows "\<And>r x. cn_run c r = Some x \<Longrightarrow> run_id x = r"
    "\<And>r x. cn_run c r = Some x \<Longrightarrow> row_ok x (cn_lease c r) (cn_closed c r)"
    "\<And>r. cn_run c r = None \<Longrightarrow> cn_lease c r = None"
    "\<And>r. cn_run c r = None \<Longrightarrow> \<not> cn_closed c r"
    "\<And>q r x y t. cn_run c q = Some x \<Longrightarrow> cn_run c r = Some y \<Longrightarrow> run_status x = ''running'' \<Longrightarrow>
        run_status y = ''running'' \<Longrightarrow> run_thread_id x = Some t \<Longrightarrow> run_thread_id y = Some t \<Longrightarrow> q = r"
    "\<And>q r x y k. cn_run c q = Some x \<Longrightarrow> cn_run c r = Some y \<Longrightarrow> run_idempotency_key x = Some k \<Longrightarrow>
        run_idempotency_key y = Some k \<Longrightarrow> q = r"
  using assms unfolding control_inv_def by blast+

lemma control_invI:
  assumes "cn_run c = R" "cn_lease c = L" "cn_closed c = B"
    "\<And>r x. R r = Some x \<Longrightarrow> run_id x = r \<and> row_ok x (L r) (B r)"
    "\<And>r. R r = None \<Longrightarrow> L r = None \<and> \<not> B r"
    "\<And>q r x y t. R q = Some x \<Longrightarrow> R r = Some y \<Longrightarrow> run_status x = ''running'' \<Longrightarrow>
        run_status y = ''running'' \<Longrightarrow> run_thread_id x = Some t \<Longrightarrow> run_thread_id y = Some t \<Longrightarrow> q = r"
    "\<And>q r x y k. R q = Some x \<Longrightarrow> R r = Some y \<Longrightarrow> run_idempotency_key x = Some k \<Longrightarrow>
        run_idempotency_key y = Some k \<Longrightarrow> q = r"
  shows "control_inv c"
  unfolding control_inv_def assms(1-3) using assms(4-7) by blast

lemma key_unique_upd:
  assumes "\<And>q r x y k. R q = Some x \<Longrightarrow> R r = Some y \<Longrightarrow> f x = Some k \<Longrightarrow> f y = Some k \<Longrightarrow> q = r"
    "R r0 = Some x0" "f y0 = f x0"
    "(R(r0 \<mapsto> y0)) q = Some x" "(R(r0 \<mapsto> y0)) r = Some y" "f x = Some k" "f y = Some k"
  shows "q = r"
  using assms by (metis fun_upd_apply option.inject)

text \<open>A step that rewrites one run keeps the invariant when the new row satisfies it.\<close>

lemma control_inv_update:
  assumes "control_inv c" "cn_run c r = Some x" "kept x y" "row_ok y l b"
    "\<And>q z t. cn_run c q = Some z \<Longrightarrow> q \<noteq> r \<Longrightarrow> run_status y = ''running'' \<Longrightarrow>
       run_thread_id x = Some t \<Longrightarrow> run_thread_id z = Some t \<Longrightarrow> run_status z \<noteq> ''running''"
  shows "control_inv \<lparr>cn_run = (cn_run c)(r \<mapsto> y), cn_lease = (cn_lease c)(r := l),
           cn_closed = (cn_closed c)(r := b)\<rparr>"
proof -
  have i: "run_id y = r" "run_thread_id y = run_thread_id x"
    "run_idempotency_key y = run_idempotency_key x"
    using assms(3) control_invD(1) [OF assms(1,2)] by (auto simp: kept_def)
  have u: "q = r'" if "((cn_run c)(r \<mapsto> y)) q = Some x'" "((cn_run c)(r \<mapsto> y)) r' = Some y'"
    "run_status x' = ''running''" "run_status y' = ''running''" "run_thread_id x' = Some t"
    "run_thread_id y' = Some t" for q r' x' y' t
    using that control_invD(5) [OF assms(1), of q x' r' y' t] assms(5) [of q x' t]
      assms(5) [of r' y' t] i
    by (cases "q = r"; cases "r' = r") auto
  have k: "q = r'" if "((cn_run c)(r \<mapsto> y)) q = Some x'" "((cn_run c)(r \<mapsto> y)) r' = Some y'"
    "run_idempotency_key x' = Some k" "run_idempotency_key y' = Some k" for q r' x' y' k
    by (rule key_unique_upd [OF control_invD(6) [OF assms(1)] assms(2) i(3) that])
  have v: "run_id z = q \<and> row_ok z (((cn_lease c)(r := l)) q) (((cn_closed c)(r := b)) q)"
    if "((cn_run c)(r \<mapsto> y)) q = Some z" for q z
    using that control_invD(1,2) [OF assms(1), of q z] assms(4) i by (cases "q = r") auto
  have w: "((cn_lease c)(r := l)) q = None \<and> \<not> ((cn_closed c)(r := b)) q"
    if "((cn_run c)(r \<mapsto> y)) q = None" for q
    using that control_invD(3,4) [OF assms(1), of q] by (cases "q = r") auto
  show ?thesis
  proof (rule control_invI [where R = "(cn_run c)(r \<mapsto> y)" and L = "(cn_lease c)(r := l)" and
        B = "(cn_closed c)(r := b)"], goal_cases)
    case (4 q z)
    then show ?case by (rule v)
  next
    case (5 q)
    then show ?case by (rule w)
  next
    case (6 q p x' y' t)
    then show ?case by (rule u)
  next
    case (7 q p x' y' k)
    then show ?case by (rule k)
  qed simp_all
qed

lemma terminal_lit:
  "run_status x = ''pending'' \<Longrightarrow> \<not> terminal x" "run_status x = ''running'' \<Longrightarrow> \<not> terminal x"
  "run_status x = ''interrupted'' \<Longrightarrow> terminal x"
  by (simp_all add: terminal_def TERMINAL_RUN_STATUSES_def)

lemma terminal_public: "terminal x \<Longrightarrow> run_status x \<in> set PUBLIC_RUN_STATUSES"
  by (auto simp: terminal_def TERMINAL_RUN_STATUSES_def PUBLIC_RUN_STATUSES_def all_statuses_def)

lemma public_lit [simp]:
  "''pending'' \<in> set PUBLIC_RUN_STATUSES" "''running'' \<in> set PUBLIC_RUN_STATUSES"
  "''interrupted'' \<in> set PUBLIC_RUN_STATUSES" "''success'' \<in> set PUBLIC_RUN_STATUSES"
  "''error'' \<in> set PUBLIC_RUN_STATUSES" "''timeout'' \<in> set PUBLIC_RUN_STATUSES"
  by (simp_all add: PUBLIC_RUN_STATUSES_def all_statuses_def)

text \<open>The same for a step that leaves the lease or the closed flag alone.\<close>

lemma fun_upd_self: "f x = y \<Longrightarrow> f(x := y) = f"
  by auto

lemma control_mk:
  "c\<lparr>cn_run := R, cn_lease := L\<rparr> = \<lparr>cn_run = R, cn_lease = L, cn_closed = cn_closed c\<rparr>"
  "c\<lparr>cn_run := R, cn_closed := B\<rparr> = \<lparr>cn_run = R, cn_lease = cn_lease c, cn_closed = B\<rparr>"
  "c\<lparr>cn_run := R\<rparr> = \<lparr>cn_run = R, cn_lease = cn_lease c, cn_closed = cn_closed c\<rparr>"
  by simp_all

lemma control_inv_step:
  assumes "control_step c c'" "control_inv c"
  shows "control_inv c'"
  using assms
proof (induction rule: control_step.induct)
  case (submit c r x)
  have n: "cn_lease c r = None" "\<not> cn_closed c r"
    using control_invD(3,4) [OF submit.prems] submit.hyps(1) by blast+
  have ok: "row_ok x None False"
    using submit.hyps by (simp add: row_ok_def terminal_lit)
  have u: "q = r'" if "((cn_run c)(r \<mapsto> x)) q = Some x'" "((cn_run c)(r \<mapsto> x)) r' = Some y'"
    "run_status x' = ''running''" "run_status y' = ''running''" "run_thread_id x' = Some t"
    "run_thread_id y' = Some t" for q r' x' y' t
    using that control_invD(5) [OF submit.prems, of q x' r' y' t] submit.hyps(3)
    by (cases "q = r"; cases "r' = r") auto
  have k: "q = r'" if "((cn_run c)(r \<mapsto> x)) q = Some x'" "((cn_run c)(r \<mapsto> x)) r' = Some y'"
    "run_idempotency_key x' = Some k" "run_idempotency_key y' = Some k" for q r' x' y' k
    using that control_invD(6) [OF submit.prems, of q x' r' y' k] submit.hyps(8) [of q x']
      submit.hyps(8) [of r' y']
    by (cases "q = r"; cases "r' = r") auto
  have v: "run_id z = q \<and> row_ok z (cn_lease c q) (cn_closed c q)"
    if "((cn_run c)(r \<mapsto> x)) q = Some z" for q z
    using that control_invD(1,2) [OF submit.prems, of q z] submit.hyps(2) ok n by (cases "q = r") auto
  have w: "cn_lease c q = None \<and> \<not> cn_closed c q" if "((cn_run c)(r \<mapsto> x)) q = None" for q
    using that control_invD(3,4) [OF submit.prems, of q] by (cases "q = r") auto
  show ?case
  proof (rule control_invI [where R = "(cn_run c)(r \<mapsto> x)" and L = "cn_lease c" and
        B = "cn_closed c"], goal_cases)
    case (4 q z)
    then show ?case by (rule v)
  next
    case (5 q)
    then show ?case by (rule w)
  next
    case (6 q p x' y' t)
    then show ?case by (rule u)
  next
    case (7 q p x' y' k)
    then show ?case by (rule k)
  qed simp_all
next
  case (claim c r x y l)
  note row = control_invD(2) [OF claim.prems claim.hyps(1)]
  have ok: "row_ok y (Some l) (cn_closed c r)"
    using claim.hyps row by (auto simp: row_ok_def terminal_lit)
  show ?case
    using control_inv_update [OF claim.prems claim.hyps(1,6) ok] claim.hyps(5)
    by (simp add: control_mk fun_upd_self)
next
  case (extend c r x l y l')
  note row = control_invD(2) [OF extend.prems extend.hyps(1)]
  have ok: "row_ok y (Some l') (cn_closed c r)"
    using extend.hyps row by (auto simp: row_ok_def terminal_lit)
  show ?case
    using control_inv_update [OF extend.prems extend.hyps(1,4) ok]
      control_invD(5) [OF extend.prems _ extend.hyps(1)] extend.hyps(2)
    by (auto simp: control_mk fun_upd_self)
next
  case (close c r x y)
  note row = control_invD(2) [OF close.prems close.hyps(1)]
  have ok: "row_ok y None True"
    using close.hyps row by (auto simp: row_ok_def terminal_lit terminal_public)
  show ?case
    using control_inv_update [OF close.prems close.hyps(1,3) ok] close.hyps(4) terminal_lit(2)
    by auto
next
  case (requeue c r x y)
  note row = control_invD(2) [OF requeue.prems requeue.hyps(1)]
  have ok: "row_ok y None (cn_closed c r)"
    using requeue.hyps row by (auto simp: row_ok_def terminal_lit)
  show ?case
    using control_inv_update [OF requeue.prems requeue.hyps(1,3) ok] requeue.hyps(4)
    by (simp add: control_mk fun_upd_self)
next
  case (cancel c r x y)
  note row = control_invD(2) [OF cancel.prems cancel.hyps(1)]
  have ok: "row_ok y (cn_lease c r) True"
    using cancel.hyps row
    by (auto simp: row_ok_def terminal_lit leased_def no_lease_def split: option.splits)
  show ?case
    using control_inv_update [OF cancel.prems cancel.hyps(1,3) ok] cancel.hyps(4)
    by (simp add: control_mk fun_upd_self)
next
  case (mark c r x y)
  note row = control_invD(2) [OF mark.prems mark.hyps(1)]
  have ok: "row_ok y (cn_lease c r) (cn_closed c r)"
    using mark.hyps row
    by (auto simp: row_ok_def terminal_lit leased_def no_lease_def split: option.splits)
  show ?case
    using control_inv_update [OF mark.prems mark.hyps(1,3) ok] mark.hyps(4)
    by (simp add: control_mk fun_upd_self)
next
  case (release c r x y)
  note row = control_invD(2) [OF release.prems release.hyps(1)]
  have ok: "row_ok y None (cn_closed c r)"
    using release.hyps row by (auto simp: row_ok_def terminal_def)
  show ?case
    using control_inv_update [OF release.prems release.hyps(1,3) ok] release.hyps(2,4)
    by (simp add: control_mk fun_upd_self)
next
  case (adjust c r x y)
  note row = control_invD(2) [OF adjust.prems adjust.hyps(1)]
  have ok: "row_ok y (cn_lease c r) (cn_closed c r)"
    using adjust.hyps row
    by (auto simp: row_ok_def terminal_def leased_def no_lease_def split: option.splits)
  show ?case
    using control_inv_update [OF adjust.prems adjust.hyps(1,2) ok]
      control_invD(5) [OF adjust.prems _ adjust.hyps(1)] adjust.hyps(3)
    by (auto simp: control_mk fun_upd_self)
next
  case (drop_run c r)
  note d = control_invD [OF drop_run]
  show ?case
  proof (rule control_invI [OF refl refl refl], goal_cases)
    case (1 q x)
    then show ?case using d(1,2) [of q x] by (cases "q = r") auto
  next
    case (2 q)
    then show ?case using d(3,4) [of q] by (cases "q = r") auto
  next
    case (3 q p x y t)
    then show ?case using d(5) [of q x p y t] by (cases "q = r"; cases "p = r") auto
  next
    case (4 q p x y k)
    then show ?case using d(6) [of q x p y k] by (cases "q = r"; cases "p = r") auto
  qed
qed

lemma control_inv_steps: "control_step\<^sup>*\<^sup>* c c' \<Longrightarrow> control_inv c \<Longrightarrow> control_inv c'"
  by (induction rule: rtranclp_induct) (auto intro: control_inv_step)

end
