(* ===== verification/RunRefinement.thy ===== *)
theory RunRefinement
  imports RunProtocol
begin

text \<open>
  Every operation on runs keeps the log well formed and refines a sequence of steps of the
  abstract machine; the reachable databases therefore satisfy the control invariant.
\<close>

definition db_ok :: "db \<Rightarrow> bool" where
  "db_ok d \<longleftrightarrow> log_wf d \<and> control_inv (control_of d)"

lemma db_okD: "db_ok d \<Longrightarrow> log_wf d" "db_ok d \<Longrightarrow> control_inv (control_of d)"
  by (simp_all add: db_ok_def)

text \<open>An operation refines the machine when it keeps the log and takes machine steps.\<close>

definition refines :: "db \<Rightarrow> db \<Rightarrow> bool" where
  "refines d d' \<longleftrightarrow> log_wf d' \<and> control_step\<^sup>*\<^sup>* (control_of d) (control_of d')"

lemma refines_same: "log_wf d' \<Longrightarrow> control_of d' = control_of d \<Longrightarrow> refines d d'"
  by (simp add: refines_def)

lemma refines_refl [simp]: "log_wf d \<Longrightarrow> refines d d"
  by (rule refines_same) simp_all

lemma refines_step: "log_wf d' \<Longrightarrow> control_step (control_of d) (control_of d') \<Longrightarrow> refines d d'"
  by (simp add: refines_def r_into_rtranclp)

lemma refines_trans: "refines d d' \<Longrightarrow> refines d' d'' \<Longrightarrow> refines d d''"
  by (auto simp: refines_def)

lemma refines_ok: "db_ok d \<Longrightarrow> refines d d' \<Longrightarrow> db_ok d'"
  by (auto simp: refines_def db_ok_def intro: control_inv_steps)

section \<open>Frames\<close>

lemma log_wf_cong:
  "db_runs d' = db_runs d \<Longrightarrow> db_threads d' = db_threads d \<Longrightarrow> db_events d' = db_events d \<Longrightarrow>
   log_wf d' = log_wf d"
  by (simp add: log_wf_def event_refs_ok_def cursors_ok_def thread_sequences_def
      run_sequences_def terminal_events_def get_run_def get_thread_def)

lemma control_of_cong:
  "db_runs d' = db_runs d \<Longrightarrow> db_leases d' = db_leases d \<Longrightarrow> db_events d' = db_events d \<Longrightarrow>
   control_of d' = control_of d"
  by (simp add: control_of_def terminal_events_def get_run_def get_lease_def)

lemma control_get:
  "get_run r d = Some x \<Longrightarrow> cn_run (control_of d) r = Some (ctl x)"
  by simp

lemma log_wf_status:
  assumes "log_wf d" "\<And>x. run_id (f x) = run_id x" "\<And>x. run_thread_id (f x) = run_thread_id x"
    "\<And>x. run_event_seq (f x) = run_event_seq x"
  shows "log_wf (del_lease q (upd_run r f d))" "log_wf (upd_run r f d)"
  using log_wf_upd_run [OF assms] log_wf_cong [of "del_lease q (upd_run r f d)" "upd_run r f d"]
  by simp_all

lemma log_wf_del_lease [simp]: "log_wf (del_lease q d) = log_wf d"
  by (rule log_wf_cong) simp_all

lemma log_wf_thread_status:
  assumes "log_wf d" "\<And>x. th_id (g x) = th_id x" "\<And>x. th_event_seq (g x) = th_event_seq x"
  shows "log_wf (upd_thread t g d)"
  using assms by (intro log_wf_upd_thread) simp_all

lemma log_wf_idle [simp]: "log_wf d \<Longrightarrow> log_wf (idle_thread t d)"
  by (auto simp: idle_thread_def intro: log_wf_thread_status split: option.split)

section \<open>Deleting a run\<close>

lemma get_run_del [simp]: "get_run q (del_run r d) = (if q = r then None else get_run q d)"
  by (simp add: get_run_def del_run_def)

lemma get_thread_del_run [simp]: "get_thread t (del_run r d) = get_thread t d"
  by (simp add: get_thread_def del_run_def)

lemma terminal_events_del [simp]:
  "terminal_events q (del_run r d) = (if q = r then [] else terminal_events q d)"
  by (auto simp: terminal_events_def del_run_def intro: filter_cong)

lemma get_lease_del_run [simp]: "get_lease q (del_run r d) = (if q = r then None else get_lease q d)"
  by (simp add: get_lease_def del_run_def)

lemma control_del_run:
  "control_of (del_run r d) = \<lparr>cn_run = (cn_run (control_of d))(r := None),
     cn_lease = (cn_lease (control_of d))(r := None),
     cn_closed = (cn_closed (control_of d))(r := False)\<rparr>"
  by (rule control.equality) (auto simp: fun_eq_iff)

lemma sorted_map_filter:
  "sorted_wrt (<) (map f (filter P xs)) \<Longrightarrow> sorted_wrt (<) (map f (filter P (filter Q xs)))"
  for f :: "'a \<Rightarrow> 'b::linorder"
  by (induction xs) auto

lemma log_wf_del_run:
  assumes "log_wf d"
  shows "log_wf (del_run r d)"
proof -
  have e: "db_events (del_run r d) = filter (\<lambda>v. ev_run_id v \<noteq> Some r) (db_events d)"
    by (simp add: del_run_def)
  have "event_refs_ok (del_run r d) v" if "v \<in> set (db_events d)" "ev_run_id v \<noteq> Some r" for v
    using log_wfD(4) [OF assms that(1)] that(2) by (auto simp: event_refs_ok_def)
  moreover have "cursors_ok (del_run r d)"
    using log_wfD(5) [OF assms] by (auto simp: cursors_ok_def)
  moreover have "sorted_wrt (<) (thread_sequences t (del_run r d))" for t
    using log_wfD(6) [OF assms, of t] unfolding thread_sequences_def e by (rule sorted_map_filter)
  moreover have "sorted_wrt (<) (run_sequences q (del_run r d))" for q
    using log_wfD(7) [OF assms, of q] unfolding run_sequences_def e by (rule sorted_map_filter)
  moreover have "distinct (map run_id (db_runs (del_run r d)))"
    "distinct (map ev_id (db_events (del_run r d)))"
    using log_wfD(1,3) [OF assms] by (simp_all add: del_run_def keys_t_del distinct_map_filter)
  ultimately show ?thesis
    using assms by (auto simp: log_wf_def e) (simp_all add: del_run_def)
qed

lemma refines_del_run: "log_wf d \<Longrightarrow> refines d (del_run r d)"
  by (rule refines_step) (auto simp: log_wf_del_run control_del_run intro: control_step.drop_run)

section \<open>Rewriting one run\<close>

text \<open>
  The common shape: a run row is rewritten, threads change their status, the lease is kept or
  deleted, and a lifecycle event is recorded.
\<close>

lemma control_rewrite:
  assumes "get_run r d = Some x" "\<And>x. run_id (f x) = run_id x" "ctl (f x) = y"
  shows "control_of (upd_run r f d) = (control_of d)\<lparr>cn_run := (cn_run (control_of d))(r \<mapsto> y)\<rparr>"
  using assms(1,3) by (simp add: control_upd_run [OF assms(2)])

lemma control_rewrite_del:
  assumes "get_run r d = Some x" "\<And>x. run_id (f x) = run_id x" "ctl (f x) = y"
  shows "control_of (del_lease r (upd_run r f d)) =
    (control_of d)\<lparr>cn_run := (cn_run (control_of d))(r \<mapsto> y),
                  cn_lease := (cn_lease (control_of d))(r := None)\<rparr>"
  by (simp add: control_del_lease control_rewrite [OF assms])

text \<open>Recording after the rewrite: terminal closes the run, the rest is unchanged.\<close>

lemma refines_record:
  assumes "log_wf d1" "record_event e (Some r) tid topic p ns tc term d1 = Inr (ev, d2)"
    "control_step (control_of d)
      (if term then (control_of d1)\<lparr>cn_closed := (cn_closed (control_of d1))(r := True)\<rparr>
       else control_of d1)"
  shows "refines d d2"
  using assms(3) record_event_log_wf [OF assms(1,2)]
  by (intro refines_step) (simp_all add: control_record_event [OF assms(2)])

lemma record_preceding_refines:
  assumes "log_wf d" "record_preceding e r tid tc evs d = Inr (out, d')"
  shows "log_wf d' \<and> control_of d' = control_of d"
  using assms
proof (induction evs arbitrary: d out)
  case Nil
  then show ?case by simp
next
  case (Cons a evs)
  obtain topic p ns where a: "a = (topic, p, ns)" by (cases a) auto
  from Cons.prems(2) obtain ev d1 rest where
    1: "record_event e (Some r) tid topic p (ns_or ns) tc False d = Inr (ev, d1)" and
    2: "record_preceding e r tid tc evs d1 = Inr (rest, d')"
    by (auto simp: a rbind_eq_Inr)
  from Cons.IH [OF record_event_log_wf [OF Cons.prems(1) 1] 2] control_record_event [OF 1]
  show ?case by simp
qed

section \<open>Submission\<close>

lemma get_run_insert:
  "run_id r \<notin> run_id ` set (db_runs d) \<Longrightarrow>
   get_run q (d\<lparr>db_runs := db_runs d @ [r]\<rparr>) = (if q = run_id r then Some r else get_run q d)"
  using runs_t.get_None [of "run_id r" d]
  by (auto simp: get_run_def t_get_append split: option.split)

lemma log_wf_insert_run:
  assumes "log_wf d" "run_id r \<notin> run_id ` set (db_runs d)" "run_event_seq r = 0"
  shows "log_wf (d\<lparr>db_runs := db_runs d @ [r]\<rparr>)"
proof -
  note g = get_run_insert [OF assms(2)]
  have n: "get_run (run_id r) d = None" using assms(2) runs_t.get_None by blast
  have t: "get_thread t (d\<lparr>db_runs := x\<rparr>) = get_thread t d" for t x by (simp add: get_thread_def)
  have "event_refs_ok (d\<lparr>db_runs := db_runs d @ [r]\<rparr>) v" if "event_refs_ok d v" for v
    using that n by (auto simp: event_refs_ok_def g t)
  moreover have "cursors_ok (d\<lparr>db_runs := db_runs d @ [r]\<rparr>)"
    using log_wfD(5) [OF assms(1)] assms(3) log_wfD(9) [OF assms(1)] threads_t.get_Some
    by (fastforce simp: cursors_ok_def g t split: option.split)
  ultimately show ?thesis
    using assms(1,2) unfolding log_wf_def
    by (simp add: thread_sequences_def run_sequences_def terminal_events_def)
qed

lemma control_insert_run:
  "run_id r \<notin> run_id ` set (db_runs d) \<Longrightarrow>
   control_of (d\<lparr>db_runs := db_runs d @ [r]\<rparr>) =
     (control_of d)\<lparr>cn_run := (cn_run (control_of d))(run_id r \<mapsto> ctl r)\<rparr>"
  by (rule control.equality)
    (simp_all add: fun_eq_iff get_run_insert get_lease_def terminal_events_def)

lemma create_insert_cases:
  assumes "create_insert cfg e s pos d = Inr (r, d')"
  obtains (found) "run_idempotency_key r = sb_idempotency_key s" "r \<in> set (db_runs d)" "d' = d"
      "run_thread_id r = sb_thread_id s" "run_assistant_id r = sb_assistant_id s"
  | (new) "r = new_run cfg e s pos d" "\<not> run_conflict r d"
      "d' = d\<lparr>db_runs := db_runs d @ [r]\<rparr>\<lparr>db_draws := db_draws d + 1\<rparr>"
proof (cases "run_conflict (new_run cfg e s pos d) d")
  case True
  with assms obtain x where x: "find_key (sb_idempotency_key s) d = Some x" "reuse_run s x = Inr r"
    "d' = d"
    by (auto simp: create_insert_def Let_def rbind_eq_Inr split: if_splits option.splits)
  then have "x = r" "run_thread_id r = sb_thread_id s" "run_assistant_id r = sb_assistant_id s"
    by (auto simp: reuse_run_def split: if_splits)
  with x show ?thesis
    using find_Some_in [of _ "db_runs d" r] by (intro found) (auto simp: find_key_def)
next
  case False
  then show ?thesis
    using assms by (intro new) (auto simp: create_insert_def Let_def)
qed

lemma new_run_sel [simp]:
  "run_status (new_run cfg e s pos d) = ''pending''" "run_reason (new_run cfg e s pos d) = None"
  "run_retry_count (new_run cfg e s pos d) = 0"
  "run_max_attempts (new_run cfg e s pos d) = max_attempts cfg"
  "run_event_seq (new_run cfg e s pos d) = 0" "no_lease (new_run cfg e s pos d)"
  "run_idempotency_key (new_run cfg e s pos d) = sb_idempotency_key s"
  "run_thread_id (new_run cfg e s pos d) = sb_thread_id s"
  "run_assistant_id (new_run cfg e s pos d) = sb_assistant_id s"
  "run_id (new_run cfg e s pos d) = e_uuid e (db_draws d)"
  by (simp_all add: new_run_def no_lease_def)

definition cfg_ok :: "repository \<Rightarrow> bool" where
  "cfg_ok cfg \<longleftrightarrow> max_attempts cfg \<in> {1..3} \<and> 0 < lease_seconds cfg"

lemma run_repository_ok: "cfg_ok (run_repository l a x)"
  by (auto simp: cfg_ok_def run_repository_def MAX_INFRASTRUCTURE_RETRIES_def)

lemma create_insert_refines:
  assumes "log_wf d" "cfg_ok cfg" "create_insert cfg e s pos d = Inr (r, d')"
  shows "refines d d'"
  using assms(3)
proof (cases rule: create_insert_cases)
  case found
  with assms(1) show ?thesis by simp
next
  case new
  then have f: "run_id r \<notin> run_id ` set (db_runs d)"
    and k: "\<And>y. y \<in> set (db_runs d) \<Longrightarrow> run_idempotency_key r = None \<or>
             run_idempotency_key y \<noteq> run_idempotency_key r"
    by (auto simp: run_conflict_def list_ex_iff)
  have w: "log_wf d'"
    using log_wf_insert_run [OF assms(1) f] new by simp
  have n: "cn_run (control_of d) (run_id r) = None"
    using f runs_t.get_None [of "run_id r" d] by simp
  have "control_step (control_of d)
      ((control_of d)\<lparr>cn_run := (cn_run (control_of d))(run_id r \<mapsto> ctl r)\<rparr>)"
  proof (rule control_step.submit [OF n])
    fix q y
    assume "cn_run (control_of d) q = Some y"
    then obtain z where "get_run q d = Some z" "y = ctl z" by auto
    then show "run_idempotency_key (ctl r) = None \<or>
        run_idempotency_key y \<noteq> run_idempotency_key (ctl r)"
      using k runs_t.get_Some [of q d z] by simp
  qed (use new assms(2) in \<open>simp_all add: cfg_ok_def no_lease_def new_run_def\<close>)
  moreover have "control_of d' =
      (control_of d)\<lparr>cn_run := (cn_run (control_of d))(run_id r \<mapsto> ctl r)\<rparr>"
    using new(3) control_insert_run [OF f] by simp
  ultimately show ?thesis using w by (intro refines_step) simp_all
qed

section \<open>Claiming\<close>

lemma row_okI:
  "control_inv (control_of d) \<Longrightarrow> get_run r d = Some x \<Longrightarrow>
   row_ok x (get_lease r d) (terminal_events r d \<noteq> [])"
  using control_invD(2) [of "control_of d" r "ctl x"]
  by (simp add: row_ok_def split: option.splits)

lemma pending_no_lease:
  assumes "control_inv (control_of d)" "get_run r d = Some x" "run_status x = ''pending''"
  shows "no_lease x" "get_lease r d = None" "\<not> terminal x" "run_max_attempts x \<in> {1..3}"
  using row_okI [OF assms(1,2)] assms(3) by (auto simp: row_ok_def terminal_lit)

lemma claim_exhausted_refines:
  assumes "db_ok d" "get_run (run_id run) d = Some run" "run_status run = ''pending''"
    "claim_exhausted e run d = Inr (evs, d')"
  shows "refines d d'"
proof -
  let ?f = "\<lambda>x. x\<lparr>run_status := ''error'', run_reason := Some ''infrastructure_error'',
      run_next_attempt_at := None, run_updated_at := e_now e\<rparr>"
  define d2 where "d2 = (case run_thread_id run of None \<Rightarrow> upd_run (run_id run) ?f d
    | Some t \<Rightarrow> upd_thread t (\<lambda>x. x\<lparr>th_status := ''idle''\<rparr>) (upd_run (run_id run) ?f d))"
  from assms(4) obtain ev where r: "record_event e (Some (run_id run)) (run_thread_id run) ''lifecycle''
      (lifecycle_event ''error'' ''infrastructure_error'') [] [] True d2 = Inr (ev, d')"
    by (auto simp: claim_exhausted_def Let_def d2_def rbind_eq_Inr)
  note p = pending_no_lease [OF db_okD(2) [OF assms(1)] assms(2,3)]
  have w: "log_wf (upd_run (run_id run) ?f d)"
    by (rule log_wf_status) (use db_okD(1) [OF assms(1)] in simp_all)
  then have w2: "log_wf d2"
    unfolding d2_def by (auto intro!: log_wf_thread_status split: option.split)
  have c: "control_of d2 = (control_of d)\<lparr>cn_run := (cn_run (control_of d))(run_id run \<mapsto> ctl (?f run))\<rparr>"
    unfolding d2_def using control_rewrite [OF assms(2), of ?f "ctl (?f run)"]
    by (simp split: option.split)
  have "control_step (control_of d) \<lparr>cn_run = (cn_run (control_of d))(run_id run \<mapsto> ctl (?f run)),
      cn_lease = (cn_lease (control_of d))(run_id run := None),
      cn_closed = (cn_closed (control_of d))(run_id run := True)\<rparr>"
    by (rule control_step.close [OF control_get [OF assms(2)]])
      (use p in \<open>simp_all add: kept_def terminal_def TERMINAL_RUN_STATUSES_def no_lease_def\<close>)
  moreover have "(cn_lease (control_of d))(run_id run := None) = cn_lease (control_of d)"
    using p(2) by (simp add: fun_upd_self)
  ultimately show ?thesis
    by (intro refines_record [OF w2 r]) (simp add: c control_mk)
qed

lemma get_lease_upsert:
  "get_lease q (upsert_lease l d) = (if q = ls_run_id l then Some l else get_lease q d)"
proof (cases "get_lease (ls_run_id l) d")
  case None
  then show ?thesis
    by (auto simp: upsert_lease_def get_lease_def t_get_append split: option.split)
next
  case (Some x)
  then show ?thesis
    using t_get_upd_const [of ls_run_id l "ls_run_id l" q "db_leases d"]
    by (simp add: upsert_lease_def get_lease_def upd_lease_def)
qed

lemma upsert_lease_frame [simp]:
  "db_runs (upsert_lease l d) = db_runs d" "db_threads (upsert_lease l d) = db_threads d"
  "db_events (upsert_lease l d) = db_events d" "db_baselines (upsert_lease l d) = db_baselines d"
  "db_checkpoints (upsert_lease l d) = db_checkpoints d"
  "db_writes (upsert_lease l d) = db_writes d"
  by (simp_all add: upsert_lease_def upd_lease_def)

lemma control_upsert:
  "control_of (upsert_lease l d) =
     (control_of d)\<lparr>cn_lease := (cn_lease (control_of d))(ls_run_id l \<mapsto> l)\<rparr>"
  by (rule control.equality) (auto simp: fun_eq_iff get_lease_upsert get_run_def terminal_events_def)

lemma claimed_sel [simp]:
  "run_id (claimed_run cfg e owner x) = run_id x"
  "run_thread_id (claimed_run cfg e owner x) = run_thread_id x"
  "run_event_seq (claimed_run cfg e owner x) = run_event_seq x"
  "run_status (claimed_run cfg e owner x) = ''running''"
  "run_reason (claimed_run cfg e owner x) = None"
  "run_retry_count (claimed_run cfg e owner x) = run_retry_count x + 1"
  "run_idempotency_key (claimed_run cfg e owner x) = run_idempotency_key x"
  "run_lease_owner (claimed_run cfg e owner x) = Some owner"
  "run_lease_expires_at (claimed_run cfg e owner x) = Some (e_now e + lease_seconds cfg * 1000000)"
  by (simp_all add: claimed_run_def)

lemma upd_run_const:
  assumes "get_run r d = Some x" "distinct (map run_id (db_runs d))"
  shows "upd_run r (\<lambda>_. f x) d = upd_run r f d"
proof -
  have "f x = f y" if "y \<in> set (db_runs d)" "run_id y = r" for y
    using runs_t.get_in [OF assms(2) that(1)] that(2) assms(1) by simp
  then have "t_upd run_id r (\<lambda>_. f x) (db_runs d) = t_upd run_id r f (db_runs d)"
    by (auto simp: t_upd_def)
  then show ?thesis by (simp add: upd_run_def)
qed

text \<open>
  Only the thread and its baseline were touched since \<open>d\<close>: the state in which the run is
  started.
\<close>

lemma start_run_refines:
  assumes "db_ok d" "cfg_ok cfg" "get_run (run_id run) d = Some run" "run_status run = ''pending''"
    "run_retry_count run < run_max_attempts run"
    "db_runs d1 = db_runs d" "control_of d1 = control_of d" "log_wf d1"
    "start_run cfg e owner run d1 = Inr (res, evs, d')"
  shows "refines d d'"
proof -
  let ?f = "claimed_run cfg e owner"
  let ?l = "\<lparr>ls_run_id = run_id run, ls_owner = owner,
       ls_expires_at = e_now e + lease_seconds cfg * 1000000, ls_heartbeat_at = e_now e,
       ls_generation = run_retry_count run + 1\<rparr>"
  have g: "get_run (run_id run) d1 = Some run"
    using assms(3,6) by (simp add: get_run_def)
  from assms(9) have d': "d' = upsert_lease ?l (upd_run (run_id run) (\<lambda>_. ?f run) d1)"
    and u: "\<And>z t. z \<in> set (db_runs d1) \<Longrightarrow> run_thread_id run = Some t \<Longrightarrow> run_thread_id z = Some t \<Longrightarrow>
             run_id z \<noteq> run_id run \<Longrightarrow> run_status z \<noteq> ''running''"
    by (auto simp: start_run_def Let_def list_ex_iff split: if_splits option.splits)
  have c: "upd_run (run_id run) (\<lambda>_. ?f run) d1 = upd_run (run_id run) ?f d1"
    using g log_wfD(1) [OF assms(8)] by (rule upd_run_const)
  note p = pending_no_lease [OF db_okD(2) [OF assms(1)] assms(3,4)]
  have "log_wf (upd_run (run_id run) ?f d1)"
    by (rule log_wf_status) (use assms(8) in simp_all)
  then have w: "log_wf d'"
    unfolding d' c by (subst log_wf_cong [of _ "upd_run (run_id run) ?f d1"]) simp_all
  have "control_step (control_of d1) ((control_of d1)\<lparr>cn_run :=
      (cn_run (control_of d1))(run_id run \<mapsto> ctl (?f run)),
      cn_lease := (cn_lease (control_of d1))(run_id run \<mapsto> ?l)\<rparr>)"
  proof (rule control_step.claim [OF control_get [OF g]])
    fix q z t
    assume a: "cn_run (control_of d1) q = Some z" "q \<noteq> run_id run"
      "run_thread_id (ctl run) = Some t" "run_thread_id z = Some t"
    then obtain y where "get_run q d1 = Some y" "z = ctl y" by auto
    with a u [of y t] runs_t.get_Some [of q d1 y] show "run_status z \<noteq> ''running''" by auto
  qed (use assms(2,4,5) p in \<open>simp_all add: kept_def leased_def claimed_run_def cfg_ok_def min_def\<close>)
  moreover have "control_of d' = (control_of d1)\<lparr>cn_run :=
      (cn_run (control_of d1))(run_id run \<mapsto> ctl (?f run)),
      cn_lease := (cn_lease (control_of d1))(run_id run \<mapsto> ?l)\<rparr>"
    unfolding d' c by (simp add: control_upsert control_rewrite [OF g])
  ultimately show ?thesis
    using w assms(7) by (intro refines_step) simp_all
qed

lemma capture_baseline_frame [simp]:
  "db_runs (capture_baseline now run th d) = db_runs d"
  "db_threads (capture_baseline now run th d) = db_threads d"
  "db_leases (capture_baseline now run th d) = db_leases d"
  "db_events (capture_baseline now run th d) = db_events d"
  "db_checkpoints (capture_baseline now run th d) = db_checkpoints d"
  "db_writes (capture_baseline now run th d) = db_writes d"
  by (simp_all add: capture_baseline_def)

lemma claim_commit_cases:
  assumes "claim_commit cfg e owner tlk rid d = Inr (res, evs, d')"
  obtains (none) "res = None" "evs = []" "d' = d"
  | (exhausted) run where "get_run rid d = Some run" "res = None"
      "run_max_attempts run \<le> run_retry_count run" "claim_exhausted e run d = Inr (evs, d')"
  | (runless) run where "get_run rid d = Some run" "run_thread_id run = None"
      "run_retry_count run < run_max_attempts run" "start_run cfg e owner run d = Inr (res, evs, d')"
  | (started) run t th where "get_run rid d = Some run" "run_thread_id run = Some t"
      "get_thread t d = Some th" "\<not> tlk t" "th_interrupts th = [] \<or> is_resume (run_kwargs run)"
      "eligible (e_now e) d run" "run_retry_count run < run_max_attempts run"
      "\<not> other_active t (run_id run) d"
      "start_run cfg e owner run (upd_thread t (\<lambda>x. x\<lparr>th_status := ''busy''\<rparr>)
         (capture_baseline (e_now e) run th d)) = Inr (res, evs, d')"
proof (cases "get_run rid d")
  case None
  with assms show ?thesis by (intro none) (simp_all add: claim_commit_def)
next
  case run: (Some run)
  show ?thesis
  proof (cases "run_thread_id run")
    case None
    with assms run show ?thesis
      by (cases "run_max_attempts run \<le> run_retry_count run")
        (auto simp: claim_commit_def rbind_eq_Inr intro: runless exhausted)
  next
    case t: (Some t)
    show ?thesis
    proof (cases "get_thread t d")
      case None
      with assms run t show ?thesis by (intro none) (simp_all add: claim_commit_def)
    next
      case th: (Some th)
      show ?thesis
      proof (cases "tlk t \<or> (th_interrupts th \<noteq> [] \<and> \<not> is_resume (run_kwargs run)) \<or>
          \<not> eligible (e_now e) d run")
        case True
        with assms run t th show ?thesis by (intro none) (auto simp: claim_commit_def)
      next
        case go: False
        show ?thesis
        proof (cases "run_max_attempts run \<le> run_retry_count run")
          case True
          with assms run t th go show ?thesis
            by (intro exhausted) (auto simp: claim_commit_def rbind_eq_Inr)
        next
          case more: False
          show ?thesis
          proof (cases "other_active t (run_id run) d")
            case True
            with assms run t th go more show ?thesis by (intro none) (auto simp: claim_commit_def)
          next
            case False
            with assms run t th go more show ?thesis
              by (intro started [OF run t th]) (auto simp: claim_commit_def)
          qed
        qed
      qed
    qed
  qed
qed

lemma claim_commit_refines:
  assumes "db_ok d" "cfg_ok cfg" "\<And>run. get_run rid d = Some run \<Longrightarrow> run_status run = ''pending''"
    "claim_commit cfg e owner tlk rid d = Inr (res, evs, d')"
  shows "refines d d'"
  using assms(4)
proof (cases rule: claim_commit_cases)
  case none
  with assms(1) show ?thesis by (simp add: db_ok_def)
next
  case (exhausted run)
  then have "run_id run = rid" using runs_t.get_Some by blast
  with exhausted show ?thesis
    using claim_exhausted_refines [OF assms(1) _ assms(3) exhausted(4)] by simp
next
  case (runless run)
  then have "run_id run = rid" using runs_t.get_Some by blast
  with runless show ?thesis
    using start_run_refines [OF assms(1,2) _ assms(3) runless(3) refl refl _ runless(4)]
      db_okD(1) [OF assms(1)] by simp
next
  case (started run t th)
  let ?d1 = "upd_thread t (\<lambda>x. x\<lparr>th_status := ''busy''\<rparr>) (capture_baseline (e_now e) run th d)"
  have id: "run_id run = rid" using started(1) runs_t.get_Some by blast
  have w0: "log_wf (capture_baseline (e_now e) run th d)"
    using db_okD(1) [OF assms(1)] by (subst log_wf_cong [of _ d]) simp_all
  then have w: "log_wf ?d1" by (rule log_wf_thread_status) simp_all
  have c: "control_of ?d1 = control_of d"
    unfolding control_upd_thread by (rule control_of_cong) simp_all
  show ?thesis
    by (rule start_run_refines [OF assms(1,2) _ _ started(7) _ c w started(9)])
      (use started(1) assms(3) id in simp_all)
qed

lemma claim_next_refines:
  assumes "db_ok d1" "cfg_ok cfg"
    "\<And>run. claim_select e locked d0 = Some run \<Longrightarrow> get_run (run_id run) d1 = Some run"
    "claim_next cfg e owner locked tlk d0 d1 = Inr (res, evs, d')"
  shows "refines d1 d'"
proof (cases "claim_select e locked d0")
  case None
  with assms(1,4) show ?thesis by (simp add: claim_next_def db_ok_def)
next
  case (Some run)
  from min_by_in [OF Some [unfolded claim_select_def]] have "run_status run = ''pending''"
    by (simp add: eligible_def)
  with Some assms(3) [OF Some] assms(4) show ?thesis
    by (intro claim_commit_refines [OF assms(1,2)]) (auto simp: claim_next_def)
qed

section \<open>Leases\<close>

lemma renew_refines:
  assumes "db_ok d"
  shows "refines d (snd (renew cfg e rid owner d))"
proof (cases "fst (renew cfg e rid owner d)")
  case False
  with assms show ?thesis
    by (auto simp: renew_def Let_def db_ok_def split: option.splits if_splits)
next
  case True
  then obtain run l where r: "get_run rid d = Some run" "run_status run = ''running''"
    "run_lease_owner run = Some owner" "get_lease rid d = Some l" "ls_owner l = owner"
    by (auto simp: renew_def Let_def split: option.splits if_splits)
  let ?x = "e_now e + lease_seconds cfg * 1000000"
  let ?f = "\<lambda>x. x\<lparr>run_lease_expires_at := Some ?x, run_heartbeat_at := Some (e_now e),
      run_updated_at := e_now e\<rparr>"
  let ?g = "\<lambda>x. x\<lparr>ls_expires_at := ?x, ls_heartbeat_at := e_now e\<rparr>"
  have d': "snd (renew cfg e rid owner d) = upd_run rid ?f (upd_lease rid ?g d)"
    using True r by (auto simp: renew_def Let_def split: if_splits)
  have fr: "db_runs (upd_lease rid ?g d) = db_runs d" "db_threads (upd_lease rid ?g d) = db_threads d"
    "db_events (upd_lease rid ?g d) = db_events d"
    by (simp_all add: upd_lease_def)
  have gr: "get_run q (upd_lease rid ?g d) = get_run q d" for q by (simp add: get_run_def fr)
  have "log_wf (upd_lease rid ?g d)"
    using db_okD(1) [OF assms] by (subst log_wf_cong [OF fr])
  then have w: "log_wf (upd_run rid ?f (upd_lease rid ?g d))"
    by (rule log_wf_status) simp_all
  have gl: "get_lease q (upd_lease rid ?g d) = (if q = rid then Some (?g l) else get_lease q d)" for q
    using r(4) by (simp add: leases_t.get_upd)
  have "leased run l"
    using row_okI [OF db_okD(2) [OF assms] r(1)] r(4) by (simp add: row_ok_def)
  then have "control_step (control_of d) ((control_of d)\<lparr>cn_run :=
      (cn_run (control_of d))(rid \<mapsto> ctl (?f run)), cn_lease := (cn_lease (control_of d))(rid \<mapsto> ?g l)\<rparr>)"
    by (intro control_step.extend [OF control_get [OF r(1)], of l])
      (use r in \<open>simp_all add: kept_def leased_def\<close>)
  moreover have "control_of (upd_run rid ?f (upd_lease rid ?g d)) = (control_of d)\<lparr>cn_run :=
      (cn_run (control_of d))(rid \<mapsto> ctl (?f run)), cn_lease := (cn_lease (control_of d))(rid \<mapsto> ?g l)\<rparr>"
    by (rule control.equality)
      (auto simp: fun_eq_iff runs_t.get_upd gr gl r(1) terminal_events_def fr)
  ultimately show ?thesis
    unfolding d' using w by (intro refines_step) simp_all
qed

section \<open>Completion\<close>

lemma terminal_status_value: "terminal_status t \<longleftrightarrow> status_value t \<in> set TERMINAL_RUN_STATUSES"
  by (cases t) (simp_all add: terminal_status_def TERMINAL_RUN_STATUSES_def)

lemma is_terminal_Inr: "is_terminal v = Inr b \<Longrightarrow> b = (v \<in> set TERMINAL_RUN_STATUSES)"
  by (auto simp: is_terminal_def rbind_eq_Inr ensure_status_Inr terminal_status_value)

lemma leased_running:
  assumes "control_inv (control_of d)" "get_run r d = Some x" "run_lease_owner x \<noteq> None" "\<not> terminal x"
  shows "run_status x = ''running''"
  using row_okI [OF assms(1,2)] assms(3,4)
  by (auto simp: row_ok_def terminal_def TERMINAL_RUN_STATUSES_def PUBLIC_RUN_STATUSES_def
      all_statuses_def no_lease_def split: option.splits)

lemma finished_sel [simp]:
  "run_id (finished_run e c x) = run_id x" "run_thread_id (finished_run e c x) = run_thread_id x"
  "run_event_seq (finished_run e c x) = run_event_seq x"
  "run_status (finished_run e c x) = status_value (tr_status c)"
  "run_reason (finished_run e c x) = Some (reason_value (tr_reason c))"
  "run_retry_count (finished_run e c x) = run_retry_count x"
  "run_max_attempts (finished_run e c x) = run_max_attempts x"
  "run_idempotency_key (finished_run e c x) = run_idempotency_key x"
  "no_lease (finished_run e c x)"
  by (simp_all add: finished_run_def no_lease_def)

lemma released_sel [simp]:
  "run_id (released_run e c n x) = run_id x"
  "run_thread_id (released_run e c n x) = run_thread_id x"
  "run_event_seq (released_run e c n x) = run_event_seq x"
  "run_status (released_run e c n x) = status_value (tr_status c)"
  "run_reason (released_run e c n x) = Some (reason_value (tr_reason c))"
  "run_retry_count (released_run e c n x) = run_retry_count x"
  "run_max_attempts (released_run e c n x) = run_max_attempts x"
  "run_idempotency_key (released_run e c n x) = run_idempotency_key x"
  "run_next_attempt_at (released_run e c n x) = n"
  "no_lease (released_run e c n x)"
  by (simp_all add: released_run_def no_lease_def)

lemma ctl_finished: "ctl (finished_run e c x) = finished_run e c (ctl x)"
  by (simp add: ctl_def finished_run_def)

text \<open>Closing and requeueing a run, as steps of the machine.\<close>

lemma close_step:
  assumes "control_of d1 = control_of d" "get_run r d = Some x" "\<not> terminal x" "terminal y"
    "kept x y" "no_lease y" "run_retry_count y = run_retry_count x"
    "run_max_attempts y = run_max_attempts x"
    "control_of d2 = (control_of d1)\<lparr>cn_run := (cn_run (control_of d1))(r \<mapsto> ctl y),
       cn_lease := (cn_lease (control_of d1))(r := None)\<rparr>"
  shows "control_step (control_of d)
     ((control_of d2)\<lparr>cn_closed := (cn_closed (control_of d2))(r := True)\<rparr>)"
  using control_step.close [OF control_get [OF assms(2)], of "ctl y"] assms
  by (simp add: kept_def control_mk)

lemma requeue_step:
  assumes "get_run r d = Some x" "run_status x = ''running''" "run_status y = ''pending''"
    "kept x y" "no_lease y" "run_retry_count y = run_retry_count x"
    "run_max_attempts y = run_max_attempts x"
    "control_of d2 = (control_of d)\<lparr>cn_run := (cn_run (control_of d))(r \<mapsto> ctl y),
       cn_lease := (cn_lease (control_of d))(r := None)\<rparr>"
  shows "control_step (control_of d) (control_of d2)"
  using control_step.requeue [OF control_get [OF assms(1)], of "ctl y"] assms
  by (simp add: kept_def)

text \<open>The branches of \<open>finish\<close>.\<close>

lemma finish_run_cases:
  assumes "finish_run e rid owner target reason tp pre tc d = Inr (res, evs, d')"
  obtains (already) run where "get_run rid d = Some run" "terminal run" "res = None" "evs = []"
      "d' = d"
  | (finished) run change pevs d1 where "get_run rid d = Some run" "\<not> terminal run"
      "run_lease_owner run = Some owner"
      "record_preceding e rid (run_thread_id run) tc pre d = Inr (pevs, d1)"
      "transition (run_status run) target reason (run_retry_count run) = Inr change"
      "target \<in> set TERMINAL_RUN_STATUSES \<Longrightarrow> \<exists>p ev. (tp = Some p \<or> tp = None) \<and>
         record_event e (Some rid) (run_thread_id run) ''lifecycle'' p [] tc True
           (del_lease rid (upd_run rid (finished_run e change) d1)) = Inr (ev, d') \<and>
         res = get_run rid d' \<and> evs = pevs @ [ev] \<and>
         (tp = None \<longrightarrow> p = lifecycle_event target reason)"
      "target \<notin> set TERMINAL_RUN_STATUSES \<Longrightarrow> tp = None \<and>
         d' = del_lease rid (upd_run rid (finished_run e change) d1)"
proof -
  obtain run b where 1: "get_run rid d = Some run" "is_terminal (run_status run) = Inr b"
    using assms by (auto simp: finish_run_def rbind_eq_Inr split: option.splits)
  note b = is_terminal_Inr [OF 1(2)]
  show ?thesis
  proof (cases b)
    case True
    with assms 1 b show ?thesis
      by (intro already [OF 1(1)]) (auto simp: finish_run_def terminal_def)
  next
    case False
    with assms 1 obtain tb pevs d1 change where
      2: "run_lease_owner run = Some owner" "is_terminal target = Inr tb"
        "\<not> (tp \<noteq> None \<and> \<not> tb)"
        "record_preceding e rid (run_thread_id run) tc pre d = Inr (pevs, d1)"
        "transition (run_status run) target reason (run_retry_count run) = Inr change"
      by (auto simp: finish_run_def rbind_eq_Inr Let_def split: if_splits)
    note tb = is_terminal_Inr [OF 2(2)]
    show ?thesis
    proof (rule finished [OF 1(1) _ 2(1,4,5)], goal_cases)
      case 1
      then show ?case using False b by (simp add: terminal_def)
    next
      case 2
      with assms \<open>get_run rid d = Some run\<close> \<open>is_terminal (run_status run) = Inr b\<close> False
        \<open>run_lease_owner run = Some owner\<close> \<open>is_terminal target = Inr tb\<close> tb
        \<open>record_preceding e rid (run_thread_id run) tc pre d = Inr (pevs, d1)\<close>
        \<open>transition (run_status run) target reason (run_retry_count run) = Inr change\<close>
      show ?case
        by (cases tp) (auto simp: finish_run_def Let_def rbind_eq_Inr)
    next
      case 3
      with assms \<open>get_run rid d = Some run\<close> \<open>is_terminal (run_status run) = Inr b\<close> False
        \<open>run_lease_owner run = Some owner\<close> \<open>is_terminal target = Inr tb\<close> tb
        \<open>record_preceding e rid (run_thread_id run) tc pre d = Inr (pevs, d1)\<close>
        \<open>transition (run_status run) target reason (run_retry_count run) = Inr change\<close>
      show ?case
        by (cases tp) (auto simp: finish_run_def Let_def)
    qed
  qed
qed

lemma finish_run_refines:
  assumes "db_ok d" "target \<in> set TERMINAL_RUN_STATUSES"
    "finish_run e rid owner target reason tp pre tc d = Inr (res, evs, d')"
  shows "refines d d'"
  using assms(3)
proof (cases rule: finish_run_cases)
  case already
  with assms(1) show ?thesis by (simp add: db_ok_def)
next
  case (finished run change pevs d1)
  let ?d2 = "del_lease rid (upd_run rid (finished_run e change) d1)"
  have w1: "log_wf d1" and c1: "control_of d1 = control_of d"
    using record_preceding_refines [OF db_okD(1) [OF assms(1)] finished(4)] by simp_all
  have w2: "log_wf ?d2"
    by (rule log_wf_status) (use w1 in simp_all)
  from c1 finished(1) obtain run1 where r1: "get_run rid d1 = Some run1" "ctl run1 = ctl run"
    by (metis cn_abs(1) option.map_disc_iff option.collapse option.map_sel option.sel option.simps(3))
  have t: "status_value (tr_status change) = target"
    using transition_Inr [OF finished(5)] by auto
  from finished(6) [OF assms(2)] obtain p ev where
    r: "record_event e (Some rid) (run_thread_id run) ''lifecycle'' p [] tc True ?d2 = Inr (ev, d')"
    by blast
  have y: "ctl (finished_run e change run1) = ctl (finished_run e change run)"
    by (simp only: ctl_finished r1(2))
  have "control_step (control_of d)
     ((control_of ?d2)\<lparr>cn_closed := (cn_closed (control_of ?d2))(rid := True)\<rparr>)"
    by (rule close_step [OF c1 finished(1,2), of "finished_run e change run"])
      (use assms(2) t control_rewrite_del [OF r1(1), of "finished_run e change"] y in
        \<open>simp_all add: terminal_def kept_def\<close>)
  then show ?thesis
    by (intro refines_record [OF w2 r]) simp
qed

section \<open>Failure and requeueing\<close>

lemma fail_run_cases:
  assumes "fail_run cfg e rid owner infra reason tp tc d = Inr (res, evs, d')"
  obtains (already) run where "get_run rid d = Some run" "terminal run" "res = Some run" "evs = []"
      "d' = d"
  | (failed) run change p ev n where "get_run rid d = Some run" "\<not> terminal run"
      "run_lease_owner run = Some owner"
      "n = (if infra \<and> run_retry_count run < min (run_max_attempts run) (max_attempts cfg)
            then Some (e_now e + td_seconds (retry_delay cfg (run_retry_count run))) else None)"
      "(if infra \<and> run_retry_count run < min (run_max_attempts run) (max_attempts cfg)
        then transition (run_status run) ''pending'' ''retry'' (run_retry_count run)
        else transition (run_status run) ''error'' reason (run_retry_count run)) = Inr change"
      "record_event e (Some rid) (run_thread_id run) ''lifecycle'' p [] tc
         (terminal_status (tr_status change))
         (del_lease rid (upd_run rid (released_run e change n) d)) = Inr (ev, d')"
      "res = get_run rid d'" "evs = [ev]"
proof -
  obtain run b where 1: "get_run rid d = Some run" "is_terminal (run_status run) = Inr b"
      "run_lease_owner run = Some owner"
    using assms by (auto simp: fail_run_def rbind_eq_Inr split: option.splits if_splits)
  note b = is_terminal_Inr [OF 1(2)]
  show ?thesis
  proof (cases b)
    case True
    with assms 1 b show ?thesis
      by (intro already [OF 1(1)]) (auto simp: fail_run_def terminal_def)
  next
    case False
    with 1 b have nt: "\<not> terminal run" by (simp add: terminal_def)
    from False assms 1 show ?thesis
      by (auto simp: fail_run_def rbind_eq_Inr Let_def intro!: failed [OF 1(1) nt 1(3) refl])
  qed
qed

lemma fail_run_refines:
  assumes "db_ok d" "fail_run cfg e rid owner infra reason tp tc d = Inr (res, evs, d')"
  shows "refines d d'"
  using assms(2)
proof (cases rule: fail_run_cases)
  case already
  with assms(1) show ?thesis by (simp add: db_ok_def)
next
  case (failed run change p ev n)
  let ?d1 = "del_lease rid (upd_run rid (released_run e change n) d)"
  have w: "log_wf ?d1" by (rule log_wf_status) (use db_okD(1) [OF assms(1)] in simp_all)
  have run: "run_status run = ''running''"
    using leased_running [OF db_okD(2) [OF assms(1)] failed(1)] failed(2,3) by simp
  have c: "control_of ?d1 = (control_of d)\<lparr>cn_run :=
      (cn_run (control_of d))(rid \<mapsto> ctl (released_run e change n run)),
      cn_lease := (cn_lease (control_of d))(rid := None)\<rparr>"
    by (rule control_rewrite_del [OF failed(1)]) simp_all
  have k: "kept run (released_run e change n run)" by (simp add: kept_def)
  show ?thesis
  proof (cases "infra \<and> run_retry_count run < min (run_max_attempts run) (max_attempts cfg)")
    case True
    with failed(5) have t: "status_value (tr_status change) = ''pending''"
      by (auto dest!: transition_Inr)
    then have s: "tr_status change = PENDING" by (cases "tr_status change") simp_all
    have "control_step (control_of d) (control_of ?d1)"
      by (rule requeue_step [OF failed(1) run _ k _ _ _ c]) (use t in simp_all)
    then show ?thesis
      by (intro refines_record [OF w failed(6)]) (simp add: s terminal_status_def)
  next
    case False
    with failed(5) have t: "status_value (tr_status change) = ''error''"
      by (auto dest!: transition_Inr)
    then have s: "tr_status change = ERROR" by (cases "tr_status change") simp_all
    have "control_step (control_of d) ((control_of ?d1)\<lparr>cn_closed := (cn_closed (control_of ?d1))(rid := True)\<rparr>)"
      by (rule close_step [OF refl failed(1,2) _ k _ _ _ c])
        (use t in \<open>simp_all add: terminal_def TERMINAL_RUN_STATUSES_def\<close>)
    then show ?thesis
      by (intro refines_record [OF w failed(6)]) (simp add: s terminal_status_def)
  qed
qed

lemma drained_sel [simp]:
  "run_id (drained_run b x) = run_id x" "run_thread_id (drained_run b x) = run_thread_id x"
  "run_event_seq (drained_run b x) = run_event_seq x"
  "run_retry_count (drained_run b x) = run_retry_count x"
  "run_max_attempts (drained_run b x) = run_max_attempts x"
  "run_idempotency_key (drained_run b x) = run_idempotency_key x"
  by (simp_all add: drained_run_def)

lemma requeue_for_shutdown_cases:
  assumes "requeue_for_shutdown cfg e rid owner drained d = Inr (res, evs, d')"
  obtains (already) run where "get_run rid d = Some run" "run_status run \<noteq> ''running''"
      "res = Some run" "evs = []" "d' = d"
  | (requeued) run change ev n where "get_run rid d = Some run" "run_status run = ''running''"
      "run_lease_owner run = Some owner"
      "n = Some (e_now e + td_seconds (retry_delay cfg (run_retry_count run)))"
      "transition (run_status run) ''pending'' ''shutdown_requeue'' (run_retry_count run) = Inr change"
      "record_event e (Some rid) (run_thread_id run) ''lifecycle''
         (lifecycle_event (status_value (tr_status change)) (reason_value (tr_reason change))) [] []
         False (del_lease rid (idle_thread (run_thread_id run)
           (upd_run rid (\<lambda>x. released_run e change n (drained_run drained x)) d))) = Inr (ev, d')"
      "res = get_run rid d'" "evs = [ev]"
  using assms
  by (auto simp: requeue_for_shutdown_def rbind_eq_Inr Let_def split: option.splits if_splits)

lemma requeue_for_shutdown_refines:
  assumes "db_ok d" "requeue_for_shutdown cfg e rid owner drained d = Inr (res, evs, d')"
  shows "refines d d'"
  using assms(2)
proof (cases rule: requeue_for_shutdown_cases)
  case already
  with assms(1) show ?thesis by (simp add: db_ok_def)
next
  case (requeued run change ev n)
  let ?f = "\<lambda>x. released_run e change n (drained_run drained x)"
  let ?d1 = "del_lease rid (idle_thread (run_thread_id run) (upd_run rid ?f d))"
  have "log_wf (upd_run rid ?f d)"
    by (rule log_wf_status) (use db_okD(1) [OF assms(1)] in simp_all)
  then have w: "log_wf ?d1" by simp
  have c: "control_of ?d1 = (control_of d)\<lparr>cn_run := (cn_run (control_of d))(rid \<mapsto> ctl (?f run)),
      cn_lease := (cn_lease (control_of d))(rid := None)\<rparr>"
    by (simp add: control_del_lease control_rewrite [OF requeued(1)])
  have t: "status_value (tr_status change) = ''pending''"
    using transition_Inr [OF requeued(5)] by auto
  have "control_step (control_of d) (control_of ?d1)"
    by (rule requeue_step [OF requeued(1,2) _ _ _ _ _ c]) (use t in \<open>simp_all add: kept_def\<close>)
  then show ?thesis
    by (intro refines_record [OF w requeued(6)]) simp
qed

section \<open>Reclaiming\<close>

lemma reclaimed_sel [simp]:
  "run_id (reclaimed_run c n now x) = run_id x"
  "run_thread_id (reclaimed_run c n now x) = run_thread_id x"
  "run_event_seq (reclaimed_run c n now x) = run_event_seq x"
  "run_status (reclaimed_run c n now x) = status_value (tr_status c)"
  "run_reason (reclaimed_run c n now x) = Some (reason_value (tr_reason c))"
  "run_retry_count (reclaimed_run c n now x) = run_retry_count x"
  "run_max_attempts (reclaimed_run c n now x) = run_max_attempts x"
  "run_idempotency_key (reclaimed_run c n now x) = run_idempotency_key x"
  "no_lease (reclaimed_run c n now x)"
  by (simp_all add: reclaimed_run_def no_lease_def)

lemma ctl_reclaimed: "ctl (reclaimed_run c n now x) = reclaimed_run c n now (ctl x)"
  by (simp add: ctl_def reclaimed_run_def)

lemma reclaim_one_Inr:
  assumes "reclaim_one cfg e now run d = Inr (ev, d')"
  obtains change d2 n where
    "(if run_max_attempts run \<le> run_retry_count run
      then transition (run_status run) ''error'' ''infrastructure_error'' (run_retry_count run)
      else transition (run_status run) ''pending'' ''shutdown_requeue'' (run_retry_count run)) = Inr change"
    "d2 = (case run_thread_id run of
       None \<Rightarrow> upd_run (run_id run) (reclaimed_run change n now) d
     | Some t \<Rightarrow> upd_thread t (reclaim_thread (tr_status change = ERROR))
         (upd_run (run_id run) (reclaimed_run change n now) d))"
    "record_event e (Some (run_id run)) (run_thread_id run) ''lifecycle''
       (lifecycle_event (status_value (tr_status change)) (reason_value (tr_reason change)))
       [] [] (tr_status change = ERROR) d2 = Inr (ev, d')"
    "n = (if run_max_attempts run \<le> run_retry_count run then None
          else Some (now + td_seconds (retry_delay cfg (run_retry_count run))))"
  using assms by (auto simp: reclaim_one_def Let_def rbind_eq_Inr)

text \<open>The leases of the processed runs are deleted at the end, by one statement.\<close>

definition drop_leases :: "uuid set \<Rightarrow> db \<Rightarrow> db" where
  "drop_leases S d = d\<lparr>db_leases := filter (\<lambda>l. ls_run_id l \<notin> S) (db_leases d)\<rparr>"

lemma log_wf_drop_leases [simp]: "log_wf (drop_leases S d) = log_wf d"
  by (rule log_wf_cong) (simp_all add: drop_leases_def)

lemma find_filter: "find P (filter Q xs) = find (\<lambda>x. P x \<and> Q x) xs"
  by (induction xs) auto

lemma control_drop_leases:
  "control_of (drop_leases S d) =
     (control_of d)\<lparr>cn_lease := (\<lambda>q. if q \<in> S then None else cn_lease (control_of d) q)\<rparr>"
proof -
  have "get_lease q (drop_leases S d) = (if q \<in> S then None else get_lease q d)" for q
    by (auto simp: get_lease_def drop_leases_def t_get_def find_filter find_None_iff
        intro: arg_cong [of _ _ "\<lambda>P. find P _"])
  then show ?thesis
    by (intro control.equality)
      (simp_all add: fun_eq_iff get_run_def terminal_events_def drop_leases_def)
qed

lemma reclaim_thread_sel [simp]:
  "th_id (reclaim_thread b x) = th_id x" "th_event_seq (reclaim_thread b x) = th_event_seq x"
  by (simp_all add: reclaim_thread_def)

lemma reclaim_one_refines:
  assumes "log_wf d" "cn_run (control_of d) (run_id run) = Some (ctl run)"
    "run_status run = ''running''" "reclaim_one cfg e now run d = Inr (ev, d')"
  shows "refines (drop_leases S d) (drop_leases (insert (run_id run) S) d')" (is ?ref)
    "\<And>q. q \<noteq> run_id run \<Longrightarrow> cn_run (control_of d') q = cn_run (control_of d) q" "log_wf d'"
proof -
  let ?r = "run_id run"
  from assms(4) obtain change d2 n where
    1: "(if run_max_attempts run \<le> run_retry_count run
      then transition (run_status run) ''error'' ''infrastructure_error'' (run_retry_count run)
      else transition (run_status run) ''pending'' ''shutdown_requeue'' (run_retry_count run)) = Inr change"
    and 2: "d2 = (case run_thread_id run of
       None \<Rightarrow> upd_run ?r (reclaimed_run change n now) d
     | Some t \<Rightarrow> upd_thread t (reclaim_thread (tr_status change = ERROR))
         (upd_run ?r (reclaimed_run change n now) d))"
    and 3: "record_event e (Some ?r) (run_thread_id run) ''lifecycle''
       (lifecycle_event (status_value (tr_status change)) (reason_value (tr_reason change)))
       [] [] (tr_status change = ERROR) d2 = Inr (ev, d')"
    by (rule reclaim_one_Inr)
  let ?y = "reclaimed_run change n now (ctl run)"
  from assms(2) obtain x where x: "get_run ?r d = Some x" "ctl x = ctl run" by auto
  have "log_wf (upd_run ?r (reclaimed_run change n now) d)"
    by (rule log_wf_status) (use assms(1) in simp_all)
  then have w2: "log_wf d2"
    unfolding 2 by (auto intro: log_wf_thread_status split: option.split)
  have c2: "control_of d2 = (control_of d)\<lparr>cn_run := (cn_run (control_of d))(?r \<mapsto> ?y)\<rparr>"
    unfolding 2 using control_rewrite [OF x(1), of "reclaimed_run change n now" ?y]
    by (simp add: ctl_reclaimed x(2) split: option.split)
  note c' = control_record_event [OF 3, unfolded c2]
  show "log_wf d'" by (rule record_event_log_wf [OF w2 3])
  show "cn_run (control_of d') q = cn_run (control_of d) q" if "q \<noteq> ?r" for q
    using that by (simp only: c') simp
  have run: "cn_run (control_of (drop_leases S d)) ?r = Some (ctl run)"
    using assms(2) by (simp add: control_drop_leases)
  let ?C = "control_of (drop_leases S d)"
  have l: "(\<lambda>q. if q \<in> insert ?r S then None else cn_lease (control_of d) q) = (cn_lease ?C)(?r := None)"
    by (auto simp: control_drop_leases fun_eq_iff)
  have "control_step ?C (control_of (drop_leases (insert ?r S) d'))"
  proof (cases "tr_status change = ERROR")
    case True
    have "control_step ?C \<lparr>cn_run = (cn_run ?C)(?r \<mapsto> ?y), cn_lease = (cn_lease ?C)(?r := None),
        cn_closed = (cn_closed ?C)(?r := True)\<rparr>"
      by (rule control_step.close [OF run])
        (use assms(3) True in \<open>simp_all add: kept_def terminal_def TERMINAL_RUN_STATUSES_def\<close>)
    moreover have "control_of (drop_leases (insert ?r S) d') = \<lparr>cn_run = (cn_run ?C)(?r \<mapsto> ?y),
        cn_lease = (cn_lease ?C)(?r := None), cn_closed = (cn_closed ?C)(?r := True)\<rparr>"
      unfolding control_drop_leases [of "insert ?r S"] c' using True
      by (intro control.equality) (auto simp: control_drop_leases fun_eq_iff)
    ultimately show ?thesis by simp
  next
    case False
    with 1 have t: "tr_status change = PENDING"
      by (auto split: if_splits dest!: transition_Inr) (cases "tr_status change"; simp)+
    have "control_step ?C (?C\<lparr>cn_run := (cn_run ?C)(?r \<mapsto> ?y), cn_lease := (cn_lease ?C)(?r := None)\<rparr>)"
      by (rule control_step.requeue [OF run]) (use assms(3) t in \<open>simp_all add: kept_def\<close>)
    moreover have "control_of (drop_leases (insert ?r S) d') =
        ?C\<lparr>cn_run := (cn_run ?C)(?r \<mapsto> ?y), cn_lease := (cn_lease ?C)(?r := None)\<rparr>"
      unfolding control_drop_leases [of "insert ?r S"] c' using t
      by (intro control.equality) (auto simp: control_drop_leases fun_eq_iff)
    ultimately show ?thesis by simp
  qed
  then show ?ref
    using \<open>log_wf d'\<close> by (intro refines_step) simp_all
qed

lemma reclaim_all_refines:
  assumes "log_wf d" "\<And>run. run \<in> set runs \<Longrightarrow> cn_run (control_of d) (run_id run) = Some (ctl run)"
    "\<And>run. run \<in> set runs \<Longrightarrow> run_status run = ''running''" "distinct (map run_id runs)"
    "reclaim_all cfg e now runs d = Inr (evs, d')"
  shows "refines (drop_leases S d) (drop_leases (S \<union> run_id ` set runs) d')"
  using assms
proof (induction runs arbitrary: d evs S)
  case Nil
  then show ?case by simp
next
  case (Cons run runs)
  from Cons.prems(5) obtain ev d1 evs' where
    1: "reclaim_one cfg e now run d = Inr (ev, d1)" and
    2: "reclaim_all cfg e now runs d1 = Inr (evs', d')"
    by (auto simp: rbind_eq_Inr)
  have c: "cn_run (control_of d) (run_id run) = Some (ctl run)" and st: "run_status run = ''running''"
    using Cons.prems(2,3) by simp_all
  note one = reclaim_one_refines [OF Cons.prems(1) c st 1]
  have "refines (drop_leases (insert (run_id run) S) d1)
      (drop_leases (insert (run_id run) S \<union> run_id ` set runs) d')"
  proof (rule Cons.IH [OF one(3) _ _ _ 2])
    fix q
    assume q: "q \<in> set runs"
    with Cons.prems(4) have "run_id q \<noteq> run_id run" by (auto simp: image_iff)
    with one(2) Cons.prems(2) [of q] q
    show "cn_run (control_of d1) (run_id q) = Some (ctl q)" by simp
  qed (use Cons.prems in auto)
  with one(1) [of S] show ?case
    by (auto intro: refines_trans)
qed

lemma requeue_expired_refines:
  assumes "db_ok d" "requeue_expired cfg e when locked d = Inr (n, evs, d')"
  shows "refines d d'"
proof -
  define runs where "runs = filter (\<lambda>r. lease_expired (case when of None \<Rightarrow> e_now e | Some t \<Rightarrow> t) r \<and>
      \<not> locked (run_id r)) (db_runs d)"
  from assms(2) obtain d1 where
    1: "reclaim_all cfg e (case when of None \<Rightarrow> e_now e | Some t \<Rightarrow> t) runs d = Inr (evs, d1)" and
    2: "d' = drop_leases (run_id ` set runs) d1"
    by (auto simp: requeue_expired_def Let_def rbind_eq_Inr drop_leases_def runs_def)
  note w = db_okD(1) [OF assms(1)]
  have "refines (drop_leases {} d) (drop_leases ({} \<union> run_id ` set runs) d1)"
  proof (rule reclaim_all_refines [OF w _ _ _ 1])
    fix run
    assume "run \<in> set runs"
    then have r: "run \<in> set (db_runs d)" "run_status run = ''running''"
      by (auto simp: runs_def lease_expired_def)
    then show "cn_run (control_of d) (run_id run) = Some (ctl run)"
      using runs_t.get_in [OF log_wfD(1) [OF w]] by simp
    show "run_status run = ''running''" by (rule r(2))
  qed (simp add: runs_def distinct_map_filter log_wfD(1) [OF w])
  moreover have "drop_leases {} d = d" by (simp add: drop_leases_def)
  ultimately show ?thesis by (simp add: 2)
qed

section \<open>Cancellation, release and rollback\<close>

lemma restore_thread_sel [simp]:
  "th_id (restore_thread p x) = th_id x" "th_event_seq (restore_thread p x) = th_event_seq x"
  "th_event_pruned_through (restore_thread p x) = th_event_pruned_through x"
  by (simp_all add: restore_thread_def)

lemma restore_baseline_log:
  assumes "log_wf d"
  shows "log_wf (restore_baseline t b d)" "control_of (restore_baseline t b d) = control_of d"
proof -
  let ?d = "d\<lparr>db_writes := filter (\<lambda>w. cw_thread_id w \<noteq> thread_key t) (db_writes d) @ bl_writes b,
      db_checkpoints := filter (\<lambda>c. cp_thread_id c \<noteq> thread_key t) (db_checkpoints d) @ bl_checkpoints b\<rparr>"
  have "log_wf ?d" using assms by (subst log_wf_cong [of _ d]) simp_all
  then show "log_wf (restore_baseline t b d)"
    unfolding restore_baseline_def by (rule log_wf_thread_status) simp_all
  show "control_of (restore_baseline t b d) = control_of d"
    unfolding restore_baseline_def control_upd_thread by (rule control_of_cong) simp_all
qed

lemma rollback_run_cases:
  assumes "rollback_run e run v d = Inr d'"
  obtains (validated) "v" "d' = d"
  | (deleted) "\<not> v" "d' = del_run (run_id run) d"
      "run_thread_id run = None \<or> get_baseline (run_id run) d = None"
  | (restored) t b th where "\<not> v" "run_thread_id run = Some t" "get_thread t d = Some th"
      "get_baseline (run_id run) d = Some b" "\<not> other_active t (run_id run) d"
      "\<not> later_baseline b t (run_id run) d"
      "\<not> list_ex (foreign_checkpoint e (run_id run) (bl_checkpoints b)) (thread_checkpoints t d)"
      "d' = del_run (run_id run) (restore_baseline t b d)"
  using assms
  by (auto simp: rollback_run_def split: option.splits if_splits)

lemma rollback_run_refines:
  assumes "log_wf d" "rollback_run e run v d = Inr d'"
  shows "refines d d'"
  using assms(2)
proof (cases rule: rollback_run_cases)
  case validated
  with assms(1) show ?thesis by simp
next
  case deleted
  with assms(1) show ?thesis by (simp add: refines_del_run)
next
  case (restored t b th)
  have "refines d (restore_baseline t b d)"
    using restore_baseline_log [OF assms(1)] by (intro refines_same)
  moreover have "refines (restore_baseline t b d) d'"
    unfolding restored(8) by (rule refines_del_run) (rule restore_baseline_log(1) [OF assms(1)])
  ultimately show ?thesis by (rule refines_trans)
qed

lemma complete_rollback_refines:
  "log_wf d \<Longrightarrow> refines d (complete_rollback e owner locked rid d)"
  by (auto simp: complete_rollback_def split: option.split sum.split intro: rollback_run_refines)

lemma refines_wf: "refines d d' \<Longrightarrow> log_wf d'"
  by (simp add: refines_def)

lemma complete_rollbacks_refines:
  assumes "log_wf d"
  shows "refines d (complete_rollbacks e owner rid locked d)"
proof -
  have "refines d (fold (complete_rollback e owner locked) ids d)" for ids
    using assms
  proof (induction ids arbitrary: d)
    case (Cons i ids)
    note r = complete_rollback_refines [OF Cons.prems, of e owner locked i]
    from Cons.IH [OF refines_wf [OF r]] r show ?case
      by (simp del: fold_simps add: fold_Cons) (blast intro: refines_trans)
  qed simp
  then show ?thesis by (simp add: complete_rollbacks_def)
qed

lemma cancelled_sel [simp]:
  "run_id (cancelled_run e c x) = run_id x" "run_thread_id (cancelled_run e c x) = run_thread_id x"
  "run_event_seq (cancelled_run e c x) = run_event_seq x"
  "run_status (cancelled_run e c x) = status_value (tr_status c)"
  "run_reason (cancelled_run e c x) = Some (reason_value (tr_reason c))"
  "run_retry_count (cancelled_run e c x) = run_retry_count x"
  "run_max_attempts (cancelled_run e c x) = run_max_attempts x"
  "run_idempotency_key (cancelled_run e c x) = run_idempotency_key x"
  by (simp_all add: cancelled_run_def Let_def)

lemma cancel_row_cases:
  assumes "cancel_row e rid action d = Inr (evs, d')"
  obtains (same) "evs = []" "d' = d"
  | (rolled_back) row where "get_run rid d = Some row" "action = ''rollback''"
      "run_lease_owner row = None" "rollback_run e row False d = Inr d'" "evs = []"
  | (marked) row where "get_run rid d = Some row" "action = ''rollback''"
      "run_lease_owner row \<noteq> None" "rollback_run e row True d = Inr d"
      "d' = upd_run rid (marked_rollback e) d" "evs = []"
  | (cancelled) row change ev where "get_run rid d = Some row" "action \<noteq> ''rollback''"
      "\<not> terminal row" "tr_status change = INTERRUPTED" "tr_reason change = CANCEL_REQUESTED"
      "record_event e (Some rid) (run_thread_id row) ''lifecycle''
         (lifecycle_event ''interrupted'' ''cancel_requested'') []
         [(''assistant_id'', JStr (uuid_str (run_assistant_id row)))] True
         (if run_status row = ''running'' then upd_run rid (cancelled_run e change) d
          else del_lease rid (upd_run rid (cancelled_run e change) d)) = Inr (ev, d')" "evs = [ev]"
proof (cases "get_run rid d")
  case None
  with assms show ?thesis by (intro same) (simp_all add: cancel_row_def)
next
  case row: (Some row)
  show ?thesis
  proof (cases "action = ''rollback''")
    case True
    with assms row obtain x where x: "rollback_run e row True d = Inr x"
      by (auto simp: cancel_row_def rbind_eq_Inr)
    then have "x = d" by (auto elim: rollback_run_cases)
    with assms row True x show ?thesis
      by (cases "run_lease_owner row")
        (auto simp: cancel_row_def rbind_eq_Inr intro: rolled_back [OF row True] marked [OF row True])
  next
    case False
    with assms row obtain b where b: "is_terminal (run_status row) = Inr b"
      by (auto simp: cancel_row_def rbind_eq_Inr)
    note t = is_terminal_Inr [OF b]
    show ?thesis
    proof (cases b)
      case True
      with assms row False b show ?thesis by (intro same) (simp_all add: cancel_row_def)
    next
      case nt: False
      with assms row False b obtain change where
        c: "transition (run_status row) ''interrupted'' ''cancel_requested'' (run_retry_count row) = Inr change"
        by (auto simp: cancel_row_def rbind_eq_Inr)
      then have "status_value (tr_status change) = status_value INTERRUPTED"
        "reason_value (tr_reason change) = reason_value CANCEL_REQUESTED"
        by (auto dest!: transition_Inr)
      then have s: "tr_status change = INTERRUPTED" "tr_reason change = CANCEL_REQUESTED"
        by (simp_all only: status_value_inj reason_value_inj)
      have "\<not> terminal row" using nt t by (simp add: terminal_def)
      from cancelled [OF row False this s] assms row False b nt c show ?thesis
        by (auto simp: cancel_row_def rbind_eq_Inr Let_def split: if_splits)
    qed
  qed
qed

lemma cancel_row_refines:
  assumes "db_ok d" "cancel_row e rid action d = Inr (evs, d')"
  shows "refines d d'"
  using assms(2)
proof (cases rule: cancel_row_cases)
  case same
  with assms(1) show ?thesis by (simp add: db_ok_def)
next
  case (rolled_back row)
  then show ?thesis using rollback_run_refines db_okD(1) [OF assms(1)] by blast
next
  case (marked row)
  have w: "log_wf d'"
    unfolding marked(5)
    by (rule log_wf_status) (use db_okD(1) [OF assms(1)] in \<open>simp_all add: marked_rollback_def\<close>)
  have c: "control_of d' = (control_of d)\<lparr>cn_run := (cn_run (control_of d))
      (rid \<mapsto> ctl (marked_rollback e row))\<rparr>"
    unfolding marked(5) by (rule control_rewrite [OF marked(1)]) (simp_all add: marked_rollback_def)
  have "control_step (control_of d) (control_of d')"
    unfolding c
    by (rule control_step.mark [OF control_get [OF marked(1)]])
      (use marked(3) in \<open>simp_all add: kept_def marked_rollback_def\<close>)
  with w show ?thesis by (rule refines_step)
next
  case (cancelled row change ev)
  let ?d1 = "upd_run rid (cancelled_run e change) d"
  have w: "log_wf ?d1" "log_wf (del_lease rid ?d1)"
    by (rule log_wf_status; use db_okD(1) [OF assms(1)] in simp)+
  show ?thesis
  proof (cases "run_status row = ''running''")
    case True
    have c: "control_of ?d1 = (control_of d)\<lparr>cn_run := (cn_run (control_of d))
        (rid \<mapsto> ctl (cancelled_run e change row))\<rparr>"
      by (rule control_rewrite [OF cancelled(1)]) simp_all
    have "control_step (control_of d) ((control_of d)\<lparr>cn_run := (cn_run (control_of d))
        (rid \<mapsto> ctl (cancelled_run e change row)), cn_closed := (cn_closed (control_of d))(rid := True)\<rparr>)"
      by (rule control_step.cancel [OF control_get [OF cancelled(1)]])
        (use True cancelled(4) in \<open>simp_all add: kept_def cancelled_run_def\<close>)
    moreover from cancelled(6) True have r: "record_event e (Some rid) (run_thread_id row) ''lifecycle''
         (lifecycle_event ''interrupted'' ''cancel_requested'') []
         [(''assistant_id'', JStr (uuid_str (run_assistant_id row)))] True ?d1 = Inr (ev, d')"
      by simp
    ultimately show ?thesis
      by (intro refines_record [OF w(1) r]) (simp add: c)
  next
    case False
    have c: "control_of (del_lease rid ?d1) = (control_of d)\<lparr>cn_run := (cn_run (control_of d))
        (rid \<mapsto> ctl (cancelled_run e change row)), cn_lease := (cn_lease (control_of d))(rid := None)\<rparr>"
      by (rule control_rewrite_del [OF cancelled(1)]) simp_all
    have "control_step (control_of d) ((control_of (del_lease rid ?d1))\<lparr>cn_closed :=
        (cn_closed (control_of (del_lease rid ?d1)))(rid := True)\<rparr>)"
      by (rule close_step [OF refl cancelled(1,3) _ _ _ _ _ c])
        (use cancelled(4) False in
          \<open>simp_all add: terminal_def TERMINAL_RUN_STATUSES_def kept_def no_lease_def cancelled_run_def\<close>)
    moreover from cancelled(6) False have r: "record_event e (Some rid) (run_thread_id row) ''lifecycle''
         (lifecycle_event ''interrupted'' ''cancel_requested'') []
         [(''assistant_id'', JStr (uuid_str (run_assistant_id row)))] True (del_lease rid ?d1) = Inr (ev, d')"
      by simp
    ultimately show ?thesis
      by (intro refines_record [OF w(2) r]) simp
  qed
qed

lemma cancel_rows_refines:
  assumes "db_ok d" "cancel_rows e ids d = Inr (evs, d')"
  shows "refines d d'"
  using assms
proof (induction ids arbitrary: d evs)
  case Nil
  then show ?case by (simp add: db_ok_def)
next
  case (Cons i ids)
  from Cons.prems(2) obtain d1 e1 e2 where
    1: "cancel_row e i ''interrupt'' d = Inr (e1, d1)" and 2: "cancel_rows e ids d1 = Inr (e2, d')"
    by (auto simp: rbind_eq_Inr)
  note r = cancel_row_refines [OF Cons.prems(1) 1]
  from r Cons.IH [OF refines_ok [OF Cons.prems(1) r] 2] show ?case by (rule refines_trans)
qed

lemma release_stopped_refines:
  assumes "db_ok d"
  shows "refines d (release_stopped rid owner tid d)"
proof (cases "\<exists>run. get_run rid d = Some run \<and> run_lease_owner run = Some owner \<and>
    run_reason run = Some ''cancel_requested''")
  case False
  then have "release_stopped rid owner tid d = d"
    by (auto simp: release_stopped_def split: option.split)
  with assms show ?thesis by (simp add: db_ok_def)
next
  case True
  then obtain run where r: "get_run rid d = Some run" "run_lease_owner run = Some owner"
    "run_reason run = Some ''cancel_requested''" by blast
  let ?f = "\<lambda>x. x\<lparr>run_lease_owner := None, run_lease_expires_at := None\<rparr>"
  let ?d1 = "del_lease rid (upd_run rid ?f d)"
  have w: "log_wf ?d1" by (rule log_wf_status) (use db_okD(1) [OF assms] in simp_all)
  have c: "control_of ?d1 = (control_of d)\<lparr>cn_run := (cn_run (control_of d))(rid \<mapsto> ctl (?f run)),
      cn_lease := (cn_lease (control_of d))(rid := None)\<rparr>"
    by (rule control_rewrite_del [OF r(1)]) simp_all
  have n: "run_status run \<noteq> ''running''"
    using row_okI [OF db_okD(2) [OF assms] r(1)] r(3) by (auto simp: row_ok_def)
  have "control_step (control_of d) (control_of ?d1)"
    unfolding c
    by (rule control_step.release [OF control_get [OF r(1)]])
      (use n in \<open>simp_all add: kept_def no_lease_def\<close>)
  with w have "refines d ?d1" by (rule refines_step)
  moreover have "refines ?d1 (release_stopped rid owner tid d)"
  proof (rule refines_same)
    show "log_wf (release_stopped rid owner tid d)"
      using r w by (auto simp: release_stopped_def Let_def intro: log_wf_thread_status split: option.split)
    show "control_of (release_stopped rid owner tid d) = control_of ?d1"
      using r by (simp add: release_stopped_def Let_def split: option.split)
  qed
  ultimately show ?thesis by (rule refines_trans)
qed

lemma runs_delete_refines: "log_wf d \<Longrightarrow> refines d (runs_delete vis t rid d)"
  by (auto simp: runs_delete_def intro: refines_del_run split: option.split)

section \<open>The queue\<close>

lemma set_position_refines:
  assumes "log_wf d"
  shows "refines d (upd_run r (\<lambda>x. x\<lparr>run_queue_position := Some p\<rparr>) d)"
proof -
  let ?f = "\<lambda>x. x\<lparr>run_queue_position := Some p\<rparr>"
  have w: "log_wf (upd_run r ?f d)" by (rule log_wf_status) (use assms in simp_all)
  show ?thesis
  proof (cases "get_run r d")
    case None
    have "control_of (upd_run r ?f d) = control_of d"
      using None by (subst control_upd_run) (auto intro!: control.equality simp: fun_eq_iff)
    with w show ?thesis by (rule refines_same)
  next
    case (Some x)
    have c: "control_of (upd_run r ?f d) =
        (control_of d)\<lparr>cn_run := (cn_run (control_of d))(r \<mapsto> ctl (?f x))\<rparr>"
      by (rule control_rewrite [OF Some]) simp_all
    have "control_step (control_of d) (control_of (upd_run r ?f d))"
      unfolding c by (rule control_step.adjust [OF control_get [OF Some]]) (simp_all add: kept_def)
    with w show ?thesis by (rule refines_step)
  qed
qed

lemma set_positions_refines: "log_wf d \<Longrightarrow> refines d (set_positions ps d)"
  unfolding set_positions_def
proof (induction ps arbitrary: d)
  case (Cons a ps)
  obtain r p where a: "a = (r, p)" by (cases a)
  note s = set_position_refines [OF Cons.prems, of r p]
  from Cons.IH [OF refines_wf [OF s]] s show ?case
    by (simp del: fold_simps add: fold_Cons a) (blast intro: refines_trans)
qed simp

lemma runs_queue_refines:
  assumes "db_ok d" "runs_queue e locked t q d = Inr (evs, d')"
  shows "refines d d'"
  using assms cancel_rows_refines [OF assms(1)] set_positions_refines [OF db_okD(1) [OF assms(1)]]
  by (auto simp: runs_queue_def Let_def split: if_splits)

section \<open>Events and maintenance\<close>

lemma record_progress_refines:
  assumes "log_wf d" "record_event e rid tid topic p ns tc False d = Inr (ev, d')"
  shows "refines d d'"
proof (rule refines_same)
  show "log_wf d'" by (rule record_event_log_wf [OF assms])
  show "control_of d' = control_of d"
    using assms(2) by (cases rid) (auto dest: control_record_event control_record_thread_event)
qed

lemma log_wf_filter_events:
  assumes "log_wf d"
  shows "log_wf (d\<lparr>db_events := filter P (db_events d)\<rparr>)"
proof -
  have r: "event_refs_ok (d\<lparr>db_events := evs\<rparr>) v = event_refs_ok d v" for evs v
    by (simp add: event_refs_ok_def)
  have "sorted_wrt (<) (thread_sequences t (d\<lparr>db_events := filter P (db_events d)\<rparr>))" for t
    using sorted_map_filter [OF log_wfD(6) [OF assms, of t, unfolded thread_sequences_def], of P]
    by (simp add: thread_sequences_def del: filter_filter)
  moreover have "sorted_wrt (<) (run_sequences q (d\<lparr>db_events := filter P (db_events d)\<rparr>))" for q
    using sorted_map_filter [OF log_wfD(7) [OF assms, of q, unfolded run_sequences_def], of P]
    by (simp add: run_sequences_def del: filter_filter)
  moreover have "length (terminal_events q (d\<lparr>db_events := filter P (db_events d)\<rparr>)) \<le> 1" for q
  proof -
    have "terminal_events q (d\<lparr>db_events := filter P (db_events d)\<rparr>) = filter P (terminal_events q d)"
      by (simp add: terminal_events_def conj_commute)
    then show ?thesis
      using log_wfD(8) [OF assms, of q] length_filter_le [of P "terminal_events q d"]
      by (metis le_trans)
  qed
  ultimately show ?thesis
    using assms by (auto simp: log_wf_def cursors_ok_def r distinct_map_filter)
qed

text \<open>What a pruning pass that finds a candidate does.\<close>

definition prune_effect :: "run_row \<Rightarrow> uuid list \<Rightarrow> int \<Rightarrow> db \<Rightarrow> db" where
  "prune_effect run ids w d =
     (case run_thread_id run of
        None \<Rightarrow> id
      | Some t \<Rightarrow> upd_thread t (\<lambda>x. x\<lparr>th_event_pruned_through := max (th_event_pruned_through x) w\<rparr>))
      (upd_run (run_id run) (\<lambda>x. x\<lparr>run_event_pruned_through := max (run_event_pruned_through x) w\<rparr>)
        (d\<lparr>db_events := filter (\<lambda>v. ev_id v \<notin> set ids) (db_events d)\<rparr>))"

lemma prune_expired_events_alt:
  "prune_expired_events e locked n b d = (0, d) \<or>
   (\<exists>run ids deleted.
      prune_candidate (e_now e - n * 1000000) locked d = Some run \<and> n > 0 \<and> b > 0 \<and>
      ids = prune_batch (e_now e - n * 1000000) (run_id run) (nat b) d \<and>
      deleted = map ev_sequence (filter (\<lambda>v. ev_id v \<in> set ids) (db_events d)) \<and> deleted \<noteq> [] \<and>
      prune_expired_events e locked n b d =
         (length deleted, prune_effect run ids (Max (set deleted)) d))"
proof (cases "n \<le> 0 \<or> b \<le> 0")
  case True
  then show ?thesis by (auto simp: prune_expired_events_def)
next
  case pos: False
  show ?thesis
  proof (cases "prune_candidate (e_now e - n * 1000000) locked d")
    case None
    with pos show ?thesis by (simp add: prune_expired_events_def Let_def)
  next
    case (Some run)
    define ids where "ids = prune_batch (e_now e - n * 1000000) (run_id run) (nat b) d"
    show ?thesis
    proof (cases "ids = []")
      case True
      with pos Some show ?thesis
        by (simp add: prune_expired_events_def Let_def ids_def)
    next
      case False
      then obtain i where i: "i \<in> set ids" by (cases ids) auto
      then obtain v where v: "i = ev_id v" "v \<in> set (take (nat b) (sort_key ev_sequence
          (filter (expired_event (e_now e - n * 1000000) (run_id run)) (db_events d))))"
        by (auto simp: ids_def prune_batch_def)
      from in_set_takeD [OF v(2)] have "v \<in> set (db_events d)" by simp
      with i v(1) have ne: "filter (\<lambda>v. ev_id v \<in> set ids) (db_events d) \<noteq> []"
        by (auto simp: filter_empty_conv)
      have "prune_expired_events e locked n b d =
          (length (map ev_sequence (filter (\<lambda>v. ev_id v \<in> set ids) (db_events d))),
           prune_effect run ids (Max (set (map ev_sequence
             (filter (\<lambda>v. ev_id v \<in> set ids) (db_events d))))) d)"
        using ne False pos Some
        by (simp add: prune_expired_events_def Let_def prune_effect_def
            flip: ids_def split: option.split)
      with pos Some ids_def ne show ?thesis by fastforce
    qed
  qed
qed

lemma prune_expired_events_refines:
  assumes "log_wf d"
  shows "refines d (snd (prune_expired_events e locked n b d))"
  using prune_expired_events_alt [of e locked n b d]
proof (elim disjE exE conjE)
  assume "prune_expired_events e locked n b d = (0, d)"
  with assms show ?thesis by simp
next
  fix run ids deleted
  assume pruned: "prune_candidate (e_now e - n * 1000000) locked d = Some run" "n > 0" "b > 0"
    "ids = prune_batch (e_now e - n * 1000000) (run_id run) (nat b) d"
    "deleted = map ev_sequence (filter (\<lambda>v. ev_id v \<in> set ids) (db_events d))" "deleted \<noteq> []"
    "prune_expired_events e locked n b d =
       (length deleted, prune_effect run ids (Max (set deleted)) d)"
  let ?d1 = "d\<lparr>db_events := filter (\<lambda>v. ev_id v \<notin> set ids) (db_events d)\<rparr>"
  let ?d2 = "upd_run (run_id run) (\<lambda>x. x\<lparr>run_event_pruned_through :=
      max (run_event_pruned_through x) (Max (set deleted))\<rparr>) ?d1"
  have w: "log_wf ?d2"
    by (rule log_wf_status) (use log_wf_filter_events [OF assms] in simp_all)
  have keep: "v \<notin> set (terminal_events q d)" if "ev_id v \<in> set ids" for v q
  proof
    assume t: "v \<in> set (terminal_events q d)"
    from that obtain x where x: "x \<in> set (db_events d)" "ev_id x = ev_id v" "\<not> ev_terminal x"
      by (auto simp: pruned(4) prune_batch_def expired_event_def dest!: in_set_takeD)
    from t have "v \<in> set (db_events d)" "ev_terminal v" by (auto simp: terminal_events_def)
    with x log_wfD(3) [OF assms] show False by (auto simp: distinct_map inj_on_def)
  qed
  have t: "terminal_events q ?d1 = terminal_events q d" for q
  proof -
    have "terminal_events q ?d1 = filter (\<lambda>v. ev_id v \<notin> set ids) (terminal_events q d)"
      by (simp add: terminal_events_def conj_commute)
    also have "\<dots> = terminal_events q d" using keep by (intro filter_True) blast
    finally show ?thesis .
  qed
  have "control_of ?d1 = control_of d"
    by (rule control_eqI) (simp_all add: t)
  then have c: "control_of ?d2 = control_of d"
    by (subst control_upd_run) (auto intro!: control.equality simp: fun_eq_iff option.map_comp comp_def)
  show ?thesis
    unfolding pruned(7) prune_effect_def
    using w c by (auto intro!: refines_same intro: log_wf_thread_status split: option.split)
qed

lemma refines_frame:
  assumes "log_wf d" "db_runs d' = db_runs d" "db_threads d' = db_threads d"
    "db_events d' = db_events d" "db_leases d' = db_leases d"
  shows "refines d d'"
  using log_wf_cong [OF assms(2-4)] control_of_cong [OF assms(2,5,4)] assms(1)
  by (intro refines_same) simp_all

lemma prune_checkpoints_refines:
  assumes "log_wf d" "prune_checkpoints e t d = Inr d'"
  shows "refines d d'"
  using assms(2)
  by (intro refines_frame [OF assms(1)]) (auto simp: prune_checkpoints_def Let_def split: if_splits)

lemma fenced_writer_refines:
  assumes "log_wf d" "fenced_writer e w config d = Inr d'"
  shows "refines d d'"
proof -
  have "d' = d \<or> (\<exists>t. d' = d\<lparr>db_baselines := filter (\<lambda>b. bl_thread_id b \<noteq> t) (db_baselines d)\<rparr>)"
    using assms(2) unfolding fenced_writer_def rbind_eq_Inr Let_def
    by (auto split: option.splits if_splits)
  then show ?thesis
    by (auto intro: refines_frame [OF assms(1)])
qed

lemma control_record_deltas:
  assumes "log_wf d" "record_message_deltas e r tid events tctx d = Inr (rows, d')"
  shows "control_of d' = control_of d"
proof (cases "events = []")
  case True
  with assms show ?thesis by (simp add: record_message_deltas_def)
next
  case False
  have "record_each e r tid tctx events d = Inr (rows, d')"
    by (rule record_message_deltas_each [OF assms])
  then show ?thesis
  proof (induction events arbitrary: d rows)
    case (Cons ev events)
    then obtain ns row d1 rows' where
      1: "record_event e (Some r) tid ''messages'' ev ns tctx False d = Inr (row, d1)" and
      2: "record_each e r tid tctx events d1 = Inr (rows', d')"
      by (auto simp: rbind_eq_Inr)
    from Cons.IH [OF 2] control_record_event [OF 1] show ?case by simp
  qed simp
qed

section \<open>Reachable databases\<close>

text \<open>
  One committed transaction. A claim reads the candidates in an earlier database \<open>d0\<close> and
  continues in \<open>d\<close>: other transactions may have committed in between, but not on the claimed
  row, which is locked. \<open>outside\<close> stands for transactions that do not touch runs, leases,
  events or thread cursors (assistants, crons, the saver's tables, thread columns).
\<close>

inductive protocol_step :: "repository \<Rightarrow> db \<Rightarrow> db \<Rightarrow> bool" for cfg where
  submitted: "create_insert cfg e s pos d = Inr (r, d') \<Longrightarrow> protocol_step cfg d d'"
| claimed: "(\<And>run. claim_select e locked d0 = Some run \<Longrightarrow> get_run (run_id run) d = Some run) \<Longrightarrow>
    claim_next cfg e owner locked tlocked d0 d = Inr (res, evs, d') \<Longrightarrow> protocol_step cfg d d'"
| renewed: "protocol_step cfg d (snd (renew cfg e rid owner d))"
| finished: "target \<in> set TERMINAL_RUN_STATUSES \<Longrightarrow>
    finish_run e rid owner target reason tp pre tc d = Inr (res, evs, d') \<Longrightarrow> protocol_step cfg d d'"
| failed: "fail_run cfg e rid owner infra reason tp tc d = Inr (res, evs, d') \<Longrightarrow> protocol_step cfg d d'"
| requeued: "requeue_for_shutdown cfg e rid owner drained d = Inr (res, evs, d') \<Longrightarrow>
    protocol_step cfg d d'"
| reclaimed: "requeue_expired cfg e when locked d = Inr (n, evs, d') \<Longrightarrow> protocol_step cfg d d'"
| cancelled: "cancel_row e rid action d = Inr (evs, d') \<Longrightarrow> protocol_step cfg d d'"
| released: "protocol_step cfg d (release_stopped rid owner tid d)"
| rolled_back: "protocol_step cfg d (complete_rollback e owner' locked rid d)"
| deleted: "protocol_step cfg d (runs_delete vis t rid d)"
| queued: "runs_queue e locked t q d = Inr (evs, d') \<Longrightarrow> protocol_step cfg d d'"
| recorded: "record_event e rid' tid topic p ns tc False d = Inr (ev, d') \<Longrightarrow> protocol_step cfg d d'"
| streamed: "record_message_deltas e rid tid events tc d = Inr (rows, d') \<Longrightarrow> protocol_step cfg d d'"
| pruned: "protocol_step cfg d (snd (prune_expired_events e locked secs batch d))"
| pruned_checkpoints: "prune_checkpoints e t d = Inr d' \<Longrightarrow> protocol_step cfg d d'"
| fenced: "fenced_writer e w config d = Inr d' \<Longrightarrow> protocol_step cfg d d'"
| thread_created: "th_id th \<notin> th_id ` set (db_threads d) \<Longrightarrow> th_event_seq th = 0 \<Longrightarrow>
    protocol_step cfg d (d\<lparr>db_threads := db_threads d @ [th]\<rparr>)"
| thread_changed: "(\<And>x. th_id (g x) = th_id x) \<Longrightarrow> (\<And>x. th_event_seq (g x) = th_event_seq x) \<Longrightarrow>
    protocol_step cfg d (upd_thread t g d)"
| outside: "db_runs d' = db_runs d \<Longrightarrow> db_threads d' = db_threads d \<Longrightarrow> db_events d' = db_events d \<Longrightarrow>
    db_leases d' = db_leases d \<Longrightarrow> protocol_step cfg d d'"

inductive_cases protocol_stepE: "protocol_step cfg d d'"

lemma thread_created_refines:
  assumes "log_wf d" "th_id th \<notin> th_id ` set (db_threads d)" "th_event_seq th = 0"
  shows "refines d (d\<lparr>db_threads := db_threads d @ [th]\<rparr>)"
proof (rule refines_same)
  let ?d = "d\<lparr>db_threads := db_threads d @ [th]\<rparr>"
  have n: "get_thread (th_id th) d = None" using assms(2) threads_t.get_None by blast
  have h: "get_thread t ?d = (if t = th_id th then Some th else get_thread t d)" for t
    using n by (auto simp: get_thread_def t_get_append split: option.split)
  have g: "get_run r ?d = get_run r d" for r by (simp add: get_run_def)
  have "event_refs_ok ?d v" if "event_refs_ok d v" for v
    using that n by (auto simp: event_refs_ok_def g h)
  moreover have "cursors_ok ?d"
    using log_wfD(5) [OF assms(1)] n assms(3) by (fastforce simp: cursors_ok_def g h)
  ultimately show "log_wf ?d"
    using assms unfolding log_wf_def
    by (auto simp: thread_sequences_def run_sequences_def terminal_events_def)
  show "control_of ?d = control_of d" by (rule control_of_cong) simp_all
qed

text \<open>Every transaction refines the abstract machine.\<close>

lemma protocol_step_refines:
  assumes "protocol_step cfg d d'" "cfg_ok cfg" "db_ok d"
  shows "refines d d'"
  using assms(1)
proof cases
  case claimed
  with assms show ?thesis by (blast intro: claim_next_refines)
next
  case recorded
  with assms show ?thesis by (blast intro: record_progress_refines db_okD)
next
  case streamed
  have "log_wf d'" by (rule record_message_deltas_log_wf [OF db_okD(1) [OF assms(3)] streamed])
  moreover have "control_of d' = control_of d"
    by (rule control_record_deltas [OF db_okD(1) [OF assms(3)] streamed])
  ultimately show ?thesis by (rule refines_same)
next
  case thread_created
  with assms show ?thesis using thread_created_refines db_okD(1) by blast
next
  case thread_changed
  have "log_wf d'"
    unfolding thread_changed(1)
    by (rule log_wf_thread_status) (use thread_changed db_okD(1) [OF assms(3)] in simp_all)
  then show ?thesis using thread_changed(1) by (intro refines_same) simp_all
next
  case outside
  then show ?thesis using assms(3) by (intro refines_frame) (simp_all add: db_ok_def)
qed (use assms in \<open>blast intro: create_insert_refines renew_refines finish_run_refines
    fail_run_refines requeue_for_shutdown_refines requeue_expired_refines cancel_row_refines
    release_stopped_refines complete_rollback_refines runs_delete_refines runs_queue_refines
    prune_expired_events_refines prune_checkpoints_refines fenced_writer_refines db_okD\<close>)+

lemma protocol_step_ok:
  "protocol_step cfg d d' \<Longrightarrow> cfg_ok cfg \<Longrightarrow> db_ok d \<Longrightarrow> db_ok d'"
  by (blast intro: refines_ok protocol_step_refines)

lemma empty_db_ok: "db_ok empty_db"
  by (simp add: db_ok_def empty_db_def log_wf_def cursors_ok_def control_inv_def control_of_def
      get_run_def get_thread_def get_lease_def t_get_def thread_sequences_def run_sequences_def
      terminal_events_def)

text \<open>The databases the operations reach from an empty one.\<close>

definition reachable :: "repository \<Rightarrow> db \<Rightarrow> bool" where
  "reachable cfg d \<longleftrightarrow> (protocol_step cfg)\<^sup>*\<^sup>* empty_db d"

lemma reachable_ok:
  assumes "reachable cfg d" "cfg_ok cfg"
  shows "db_ok d"
  using assms(1) unfolding reachable_def
  by (induction rule: rtranclp_induct) (use empty_db_ok assms(2) protocol_step_ok in blast)+

end
