(* ===== verification/Scenario.thy ===== *)
theory Scenario
  imports RunRefinement
begin

text \<open>
  A concrete execution: one thread, two submissions, a claim, an event, a completion. The
  properties about reachable databases are instantiated on it.
\<close>

definition demo_env :: "time \<Rightarrow> env" where
  "demo_env now = \<lparr>e_now = now, e_uuid = (\<lambda>n. 2 + n), e_hash = (\<lambda>_. ''h''), e_repr = (\<lambda>_. ''r'')\<rparr>"

definition demo_cfg :: repository where
  "demo_cfg = run_repository 60 3 None"

definition demo_thread :: thread_row where
  "demo_thread = \<lparr>th_id = 1, th_graph_id = Some ''g'', th_status = ''idle'', th_event_seq = 0,
     th_event_pruned_through = 0, th_metadata = [], th_config = [], th_values = JNull,
     th_interrupts = [], th_error = JNull, th_created_at = 0, th_updated_at = 0,
     th_state_updated_at = None\<rparr>"

definition demo_submission :: submission where
  "demo_submission = \<lparr>sb_assistant_id = 7, sb_thread_id = Some 1, sb_kwargs = [],
     sb_metadata = [], sb_idempotency_key = Some ''k'', sb_multitask_strategy = Some ''enqueue''\<rparr>"

definition demo_db0 :: db where
  "demo_db0 = empty_db\<lparr>db_threads := [demo_thread]\<rparr>"

definition out_db :: "db \<Rightarrow> ('a \<times> 'b \<times> db) res \<Rightarrow> db" where
  "out_db d r = (case r of Inr (_, _, d') \<Rightarrow> d' | Inl _ \<Rightarrow> d)"

definition demo_db1 :: db where
  "demo_db1 = (case create_insert demo_cfg (demo_env 10) demo_submission 1 demo_db0 of
     Inr (r, d) \<Rightarrow> d | Inl _ \<Rightarrow> demo_db0)"

lemma demo_db1_value [code]:
  "demo_db1 =
    \<lparr>db_assistants = [], db_versions = [],
    db_threads =
      [\<lparr>th_id = 1, th_graph_id = Some ''g'', th_status = ''idle'',
          th_event_seq = 0, th_event_pruned_through = 0, th_metadata = [],
          th_config = [], th_values = JNull, th_interrupts = [],
          th_error = JNull, th_created_at = 0, th_updated_at = 0,
          th_state_updated_at = None\<rparr>],
    db_runs =
      [\<lparr>run_id = 2, run_thread_id = Some 1, run_assistant_id = 7,
          run_status = ''pending'', run_reason = None, run_retry_count = 0,
          run_max_attempts = 3, run_next_attempt_at = None,
          run_idempotency_key = Some ''k'', run_lease_owner = None,
          run_lease_expires_at = None, run_heartbeat_at = None,
          run_event_seq = 0, run_event_pruned_through = 0,
          run_metadata = [], run_kwargs = [], run_queue_position = Some 1,
          run_multitask_strategy = Some ''enqueue'', run_created_at = 10,
          run_updated_at = 10\<rparr>],
    db_leases = [], db_events = [], db_baselines = [], db_checkpoints = [],
    db_writes = [], db_blobs = [], db_crons = [], db_retry_counters = [],
    db_draws = 1\<rparr>"
  by code_simp

definition no_lock :: "uuid \<Rightarrow> bool" where
  "no_lock u = False"

definition demo_db2 :: db where
  "demo_db2 =
     out_db demo_db1 (claim_next demo_cfg (demo_env 20) ''w1'' no_lock no_lock demo_db1 demo_db1)"

lemma demo_db2_value [code]:
  "demo_db2 =
    \<lparr>db_assistants = [], db_versions = [],
    db_threads =
      [\<lparr>th_id = 1, th_graph_id = Some ''g'', th_status = ''busy'',
          th_event_seq = 0, th_event_pruned_through = 0, th_metadata = [],
          th_config = [], th_values = JNull, th_interrupts = [],
          th_error = JNull, th_created_at = 0, th_updated_at = 0,
          th_state_updated_at = None\<rparr>],
    db_runs =
      [\<lparr>run_id = 2, run_thread_id = Some 1, run_assistant_id = 7,
          run_status = ''running'', run_reason = None, run_retry_count = 1,
          run_max_attempts = 3, run_next_attempt_at = None,
          run_idempotency_key = Some ''k'', run_lease_owner = Some ''w1'',
          run_lease_expires_at = Some 60000020, run_heartbeat_at = Some 20,
          run_event_seq = 0, run_event_pruned_through = 0,
          run_metadata = [], run_kwargs = [], run_queue_position = Some 1,
          run_multitask_strategy = Some ''enqueue'', run_created_at = 10,
          run_updated_at = 10\<rparr>],
    db_leases =
      [\<lparr>ls_run_id = 2, ls_owner = ''w1'', ls_expires_at = 60000020,
          ls_heartbeat_at = 20, ls_generation = 1\<rparr>],
    db_events = [],
    db_baselines =
      [\<lparr>bl_run_id = 2, bl_thread_id = 1, bl_checkpoints = [],
          bl_writes = [],
          bl_projection =
            \<lparr>pj_captured_at = 20, pj_values = JNull, pj_interrupts = [],
               pj_status = ''idle'', pj_error = JNull,
               pj_graph_id = Some ''g'', pj_state_updated_at = None\<rparr>\<rparr>],
    db_checkpoints = [], db_writes = [], db_blobs = [], db_crons = [],
    db_retry_counters = [], db_draws = 1\<rparr>"
  by code_simp

definition demo_db3 :: db where
  "demo_db3 = (case record_event (demo_env 30) (Some 2) (Some 1) ''values''
       [(''event'', JStr ''values'')] [] [] False demo_db2 of
     Inr (ev, d) \<Rightarrow> d | Inl _ \<Rightarrow> demo_db2)"

lemma demo_db3_value [code]:
  "demo_db3 =
    \<lparr>db_assistants = [], db_versions = [],
    db_threads =
      [\<lparr>th_id = 1, th_graph_id = Some ''g'', th_status = ''busy'',
          th_event_seq = 1, th_event_pruned_through = 0, th_metadata = [],
          th_config = [], th_values = JNull, th_interrupts = [],
          th_error = JNull, th_created_at = 0, th_updated_at = 0,
          th_state_updated_at = None\<rparr>],
    db_runs =
      [\<lparr>run_id = 2, run_thread_id = Some 1, run_assistant_id = 7,
          run_status = ''running'', run_reason = None, run_retry_count = 1,
          run_max_attempts = 3, run_next_attempt_at = None,
          run_idempotency_key = Some ''k'', run_lease_owner = Some ''w1'',
          run_lease_expires_at = Some 60000020, run_heartbeat_at = Some 20,
          run_event_seq = 1, run_event_pruned_through = 0,
          run_metadata = [], run_kwargs = [], run_queue_position = Some 1,
          run_multitask_strategy = Some ''enqueue'', run_created_at = 10,
          run_updated_at = 10\<rparr>],
    db_leases =
      [\<lparr>ls_run_id = 2, ls_owner = ''w1'', ls_expires_at = 60000020,
          ls_heartbeat_at = 20, ls_generation = 1\<rparr>],
    db_events =
      [\<lparr>ev_id = 3, ev_run_id = Some 2, ev_thread_id = Some 1,
          ev_sequence = 1, ev_topic = ''values'', ev_namespace = [],
          ev_payload =
            [(''event'', JStr ''values''), (''timestamp'', JInt 0),
             (''trace'',
              JObj
               [(''schema_version'', JInt 1),
                (''run_id'', JStr ''00000000-0000-0000-0000-000000000002''),
                (''thread_id'',
                 JStr ''00000000-0000-0000-0000-000000000001''),
                (''event'', JStr ''values''),
                (''namespace'',
                 JObj
                  [(''kind'', JStr ''list''), (''size'', JInt 0),
                   (''sha256'', JStr ''h'')])])],
          ev_terminal = False, ev_created_at = 30\<rparr>],
    db_baselines =
      [\<lparr>bl_run_id = 2, bl_thread_id = 1, bl_checkpoints = [],
          bl_writes = [],
          bl_projection =
            \<lparr>pj_captured_at = 20, pj_values = JNull, pj_interrupts = [],
               pj_status = ''idle'', pj_error = JNull,
               pj_graph_id = Some ''g'', pj_state_updated_at = None\<rparr>\<rparr>],
    db_checkpoints = [], db_writes = [], db_blobs = [], db_crons = [],
    db_retry_counters = [], db_draws = 2\<rparr>"
  by code_simp

definition demo_db4 :: db where
  "demo_db4 = out_db demo_db3
     (finish_run (demo_env 40) 2 ''w1'' ''success'' ''completed'' None [] [] demo_db3)"

lemma demo_db4_value [code]:
  "demo_db4 =
    \<lparr>db_assistants = [], db_versions = [],
    db_threads =
      [\<lparr>th_id = 1, th_graph_id = Some ''g'', th_status = ''busy'',
          th_event_seq = 2, th_event_pruned_through = 0, th_metadata = [],
          th_config = [], th_values = JNull, th_interrupts = [],
          th_error = JNull, th_created_at = 0, th_updated_at = 0,
          th_state_updated_at = None\<rparr>],
    db_runs =
      [\<lparr>run_id = 2, run_thread_id = Some 1, run_assistant_id = 7,
          run_status = ''success'', run_reason = Some ''completed'',
          run_retry_count = 1, run_max_attempts = 3,
          run_next_attempt_at = None, run_idempotency_key = Some ''k'',
          run_lease_owner = None, run_lease_expires_at = None,
          run_heartbeat_at = Some 40, run_event_seq = 2,
          run_event_pruned_through = 0, run_metadata = [], run_kwargs = [],
          run_queue_position = Some 1,
          run_multitask_strategy = Some ''enqueue'', run_created_at = 10,
          run_updated_at = 40\<rparr>],
    db_leases = [],
    db_events =
      [\<lparr>ev_id = 3, ev_run_id = Some 2, ev_thread_id = Some 1,
          ev_sequence = 1, ev_topic = ''values'', ev_namespace = [],
          ev_payload =
            [(''event'', JStr ''values''), (''timestamp'', JInt 0),
             (''trace'',
              JObj
               [(''schema_version'', JInt 1),
                (''run_id'', JStr ''00000000-0000-0000-0000-000000000002''),
                (''thread_id'',
                 JStr ''00000000-0000-0000-0000-000000000001''),
                (''event'', JStr ''values''),
                (''namespace'',
                 JObj
                  [(''kind'', JStr ''list''), (''size'', JInt 0),
                   (''sha256'', JStr ''h'')])])],
          ev_terminal = False, ev_created_at = 30\<rparr>,
       \<lparr>ev_id = 4, ev_run_id = Some 2, ev_thread_id = Some 1,
          ev_sequence = 2, ev_topic = ''lifecycle'', ev_namespace = [],
          ev_payload =
            [(''event'', JStr ''lifecycle''),
             (''status'', JStr ''success''),
             (''reason'', JStr ''completed''),
             (''graph_name'',
              JStr ''00000000-0000-0000-0000-000000000007''),
             (''timestamp'', JInt 0),
             (''trace'',
              JObj
               [(''schema_version'', JInt 1),
                (''run_id'', JStr ''00000000-0000-0000-0000-000000000002''),
                (''thread_id'',
                 JStr ''00000000-0000-0000-0000-000000000001''),
                (''event'', JStr ''lifecycle''),
                (''namespace'',
                 JObj
                  [(''kind'', JStr ''list''), (''size'', JInt 0),
                   (''sha256'', JStr ''h'')]),
                (''status'', JStr ''success''),
                (''reason'', JStr ''completed'')])],
          ev_terminal = True, ev_created_at = 40\<rparr>],
    db_baselines =
      [\<lparr>bl_run_id = 2, bl_thread_id = 1, bl_checkpoints = [],
          bl_writes = [],
          bl_projection =
            \<lparr>pj_captured_at = 20, pj_values = JNull, pj_interrupts = [],
               pj_status = ''idle'', pj_error = JNull,
               pj_graph_id = Some ''g'', pj_state_updated_at = None\<rparr>\<rparr>],
    db_checkpoints = [], db_writes = [], db_blobs = [], db_crons = [],
    db_retry_counters = [], db_draws = 3\<rparr>"
  by code_simp

lemma demo_cfg_ok: "cfg_ok demo_cfg"
  unfolding demo_cfg_def by (rule run_repository_ok)

lemma Inr_out:
  "(case r of Inl _ \<Rightarrow> False | Inr _ \<Rightarrow> True) \<Longrightarrow> \<exists>a b. r = Inr (a, b, out_db d r)"
  by (auto simp: out_db_def split: sum.splits)

lemma claim_select_row:
  "log_wf d \<Longrightarrow> claim_select e locked d = Some run \<Longrightarrow> get_run (run_id run) d = Some run"
  unfolding claim_select_def by (drule min_by_in) (simp add: runs_t.get_in log_wfD(1))

lemma demo_step0: "protocol_step demo_cfg empty_db demo_db0"
  unfolding demo_db0_def
  using protocol_step.thread_created [of demo_thread empty_db demo_cfg]
  by (simp add: empty_db_def demo_thread_def)

lemma demo_step1: "protocol_step demo_cfg demo_db0 demo_db1"
  by (rule protocol_step.submitted [of _ "demo_env 10" demo_submission 1])
    (simp add: demo_db1_def create_insert_def Let_def run_conflict_def demo_db0_def empty_db_def)

lemma demo_reachable1: "reachable demo_cfg demo_db1"
  unfolding reachable_def using demo_step0 demo_step1 by (meson converse_rtranclp_into_rtranclp rtranclp.rtrancl_refl)

lemma demo_step2: "protocol_step demo_cfg demo_db1 demo_db2"
proof -
  let ?r = "claim_next demo_cfg (demo_env 20) ''w1'' no_lock no_lock demo_db1 demo_db1"
  have "case ?r of Inl _ \<Rightarrow> False | Inr _ \<Rightarrow> True" by code_simp
  then obtain a b where "?r = Inr (a, b, demo_db2)"
    unfolding demo_db2_def using Inr_out by blast
  then show ?thesis
    using claim_select_row db_okD(1) [OF reachable_ok [OF demo_reachable1 demo_cfg_ok]]
    by (blast intro: protocol_step.claimed)
qed

lemma demo_reachable2: "reachable demo_cfg demo_db2"
  using demo_reachable1 demo_step2 unfolding reachable_def by (rule rtranclp.rtrancl_into_rtrancl)

lemma demo_step3: "protocol_step demo_cfg demo_db2 demo_db3"
proof -
  let ?r = "record_event (demo_env 30) (Some 2) (Some 1) ''values''
       [(''event'', JStr ''values'')] [] [] False demo_db2"
  have "case ?r of Inl _ \<Rightarrow> False | Inr _ \<Rightarrow> True" by code_simp
  then obtain a where "?r = Inr (a, demo_db3)"
    unfolding demo_db3_def by (auto split: sum.splits)
  then show ?thesis by (rule protocol_step.recorded)
qed

lemma demo_reachable3: "reachable demo_cfg demo_db3"
  using demo_reachable2 demo_step3 unfolding reachable_def by (rule rtranclp.rtrancl_into_rtrancl)

lemma demo_step4: "protocol_step demo_cfg demo_db3 demo_db4"
proof -
  let ?r = "finish_run (demo_env 40) 2 ''w1'' ''success'' ''completed'' None [] [] demo_db3"
  have "case ?r of Inl _ \<Rightarrow> False | Inr _ \<Rightarrow> True" by code_simp
  then obtain a b where "?r = Inr (a, b, demo_db4)"
    unfolding demo_db4_def using Inr_out by blast
  then show ?thesis
    by (intro protocol_step.finished) (simp_all add: TERMINAL_RUN_STATUSES_def)
qed

lemma demo_reachable4: "reachable demo_cfg demo_db4"
  using demo_reachable3 demo_step4 unfolding reachable_def by (rule rtranclp.rtrancl_into_rtrancl)

end
