(* ===== verification/Ownership.thy ===== *)
theory Ownership
  imports Scenario
begin

text \<open>
  The guarantees of run ownership over every reachable database, and what the repository's
  operations promise: one execution per thread, leases that agree with rows, attempts within
  their bound, terminal events, exclusive claims in queue order, fencing, submission keys, the
  event log and the queue.
\<close>

section \<open>Helpers\<close>

lemma reachable_row:
  assumes "reachable cfg d" "cfg_ok cfg" "get_run r d = Some x"
  shows "row_ok x (get_lease r d) (terminal_events r d \<noteq> [])"
  using control_invD(2) [OF db_okD(2) [OF reachable_ok [OF assms(1,2)]], of r "ctl x"] assms(3)
  by (simp add: row_ok_def split: option.splits)

definition running_on :: "uuid \<Rightarrow> db \<Rightarrow> run_row list" where
  "running_on t d = filter (\<lambda>x. run_thread_id x = Some t \<and> run_status x = ''running'') (db_runs d)"

lemma distinct_same_length:
  assumes "distinct (map f xs)" "\<And>x y. x \<in> set xs \<Longrightarrow> y \<in> set xs \<Longrightarrow> f x = f y"
  shows "length xs \<le> 1"
proof (rule ccontr)
  assume "\<not> length xs \<le> 1"
  then obtain x y zs where xs: "xs = x # y # zs"
    by (metis One_nat_def le_0_eq le_SucI length_0_conv list.size(4) nat_le_linear neq_Nil_conv add_0 order_refl Suc_eq_plus1)
  with assms(2) [of x y] assms(1) show False by simp
qed

lemma running_on_le1:
  assumes "db_ok d"
  shows "length (running_on t d) \<le> 1"
proof (rule distinct_same_length)
  note w = log_wfD(1) [OF db_okD(1) [OF assms]]
  show "distinct (map run_id (running_on t d))"
    using w by (simp add: running_on_def distinct_map_filter)
  fix x y
  assume "x \<in> set (running_on t d)" "y \<in> set (running_on t d)"
  then have "get_run (run_id x) d = Some x" "get_run (run_id y) d = Some y"
    "run_status x = ''running''" "run_status y = ''running''" "run_thread_id x = Some t"
    "run_thread_id y = Some t"
    using runs_t.get_in [OF w] by (auto simp: running_on_def)
  then show "run_id x = run_id y"
    by (intro control_invD(5) [OF db_okD(2) [OF assms], of _ "ctl x" _ "ctl y" t]) simp_all
qed

text \<open>What a successful claim did.\<close>

lemma start_run_Inr:
  assumes "start_run cfg e owner old d1 = Inr (Some run, evs, d')"
  shows "run = claimed_run cfg e owner old" "evs = []"
    "d' = upsert_lease \<lparr>ls_run_id = run_id old, ls_owner = owner,
       ls_expires_at = e_now e + lease_seconds cfg * 1000000, ls_heartbeat_at = e_now e,
       ls_generation = run_retry_count old + 1\<rparr> (upd_run (run_id old) (\<lambda>_. run) d1)"
  using assms by (auto simp: start_run_def Let_def split: if_splits option.splits)

lemma claim_next_started:
  assumes "claim_next cfg e owner locked tlk d0 d = Inr (Some run, evs, d')"
  obtains old d1 where "get_run (run_id run) d = Some old" "run = claimed_run cfg e owner old"
    "run_retry_count old < run_max_attempts old" "db_runs d1 = db_runs d"
    "start_run cfg e owner old d1 = Inr (Some run, evs, d')"
    "\<And>t. run_thread_id old = Some t \<Longrightarrow> eligible (e_now e) d old"
proof -
  obtain r :: run_row where "claim_commit cfg e owner tlk (run_id r) d = Inr (Some run, evs, d')"
    using assms by (auto simp: claim_next_def split: option.splits)
  then show ?thesis
  proof (cases rule: claim_commit_cases)
    case (runless old)
    note s = start_run_Inr [OF runless(4)]
    show ?thesis
      by (rule that [OF _ s(1) runless(3) _ runless(4)])
        (use runless s runs_t.get_Some [OF runless(1)] in auto)
  next
    case (started old t th)
    note s = start_run_Inr [OF started(9)]
    show ?thesis
      by (rule that [OF _ s(1) started(7) _ started(9)])
        (use started s runs_t.get_Some [OF started(1)] in auto)
  qed simp_all
qed

lemma claim_next_result:
  assumes "claim_next cfg e owner locked tlk d0 d = Inr (Some run, evs, d')"
  shows "get_run (run_id run) d' = Some run"
    "\<exists>l. get_lease (run_id run) d' = Some l \<and> ls_owner l = owner \<and>
         ls_generation l = run_retry_count run \<and> ls_expires_at l = e_now e + lease_seconds cfg * 1000000"
proof -
  obtain old d1 where o: "get_run (run_id run) d = Some old" "run = claimed_run cfg e owner old"
    "db_runs d1 = db_runs d" "start_run cfg e owner old d1 = Inr (Some run, evs, d')"
    using claim_next_started [OF assms] by metis
  have i: "run_id run = run_id old" using o(2) by simp
  have g: "get_run (run_id old) d1 = Some old" using o(1,3) i by (simp add: get_run_def)
  note s = start_run_Inr [OF o(4)]
  show "get_run (run_id run) d' = Some run"
    using g i unfolding s(3)
    by (simp add: get_run_def upd_run_def upsert_lease_def upd_lease_def t_get_upd_const)
  show "\<exists>l. get_lease (run_id run) d' = Some l \<and> ls_owner l = owner \<and>
         ls_generation l = run_retry_count run \<and> ls_expires_at l = e_now e + lease_seconds cfg * 1000000"
    unfolding s(3) using o(2) i by (simp add: get_lease_upsert claimed_run_def)
qed

section \<open>Execution on a thread\<close>



text \<open>
  C6: the status of a run decides whether it holds a lease, and the run row and the lease row
  agree: a running run has a lease with the owner, the expiry and the generation of its row, and
  a pending, successful, failed or timed out run has none.
\<close>

theorem lease_agrees_with_run:
  assumes "reachable cfg d" "cfg_ok cfg" "get_run r d = Some x"
  shows "(case get_lease r d of
      None \<Rightarrow> run_status x \<noteq> ''running'' \<and> run_lease_owner x = None \<and> run_lease_expires_at x = None
    | Some l \<Rightarrow> run_status x \<in> {''running'', ''interrupted''} \<and> run_lease_owner x = Some (ls_owner l) \<and>
        run_lease_expires_at x = Some (ls_expires_at l) \<and> ls_generation l = run_retry_count x)"
  using reachable_row [OF assms]
  by (auto simp: row_ok_def no_lease_def leased_def split: option.splits)

theorem lease_agrees_with_run_witness:
  "\<exists>x l. get_run 2 demo_db2 = Some x \<and> get_lease 2 demo_db2 = Some l \<and>
     run_lease_owner x = Some (ls_owner l) \<and> ls_generation l = run_retry_count x \<and> ls_owner l = ''w1''"
proof -
  have "case (get_run 2 demo_db2, get_lease 2 demo_db2) of
      (Some x, Some l) \<Rightarrow> ls_owner l = ''w1'' | _ \<Rightarrow> False" by code_simp
  then obtain x l where x: "get_run 2 demo_db2 = Some x" "get_lease 2 demo_db2 = Some l"
    "ls_owner l = ''w1''" by (auto split: option.splits prod.splits)
  from lease_agrees_with_run [OF demo_reachable2 demo_cfg_ok x(1)] x show ?thesis by auto
qed

text \<open>
  C7: attempts stay within their bound: a run never counts more than three, and one that is
  running or has run counts at least one.
\<close>

theorem attempts_bounded:
  assumes "reachable cfg d" "cfg_ok cfg" "get_run r d = Some x"
  shows "0 \<le> run_retry_count x \<and> run_retry_count x \<le> 3 \<and> 1 \<le> run_max_attempts x \<and>
    run_max_attempts x \<le> 3 \<and> (run_status x = ''running'' \<longrightarrow> 1 \<le> run_retry_count x)"
  using reachable_row [OF assms] by (auto simp: row_ok_def)

theorem attempts_bounded_witness:
  "\<exists>x. get_run 2 demo_db2 = Some x \<and> run_retry_count x \<le> 3 \<and> 1 \<le> run_retry_count x"
proof -
  have "case get_run 2 demo_db2 of Some x \<Rightarrow> run_status x = ''running'' | _ \<Rightarrow> False" by code_simp
  then obtain x where x: "get_run 2 demo_db2 = Some x" "run_status x = ''running''"
    by (auto split: option.splits)
  from attempts_bounded [OF demo_reachable2 demo_cfg_ok x(1)] x show ?thesis by auto
qed





section \<open>Claims\<close>

text \<open>
  C2: a worker that claims a run of a thread found, in the database it committed to, no running
  run, no run marked for rollback and no live lease on that thread; the run was pending, due and
  the first of its thread's queue, had an attempt left, and it is now running under a lease of
  that worker whose generation is the new attempt.
\<close>

theorem claim_is_exclusive:
  assumes "claim_next cfg e owner locked tlk d0 d = Inr (Some run, evs, d')" "run_thread_id run = Some t"
  shows "\<not> thread_occupied (e_now e) t d \<and>
    (\<exists>old l. get_run (run_id run) d = Some old \<and> run_status old = ''pending'' \<and> due (e_now e) old \<and>
       \<not> queued_before t old d \<and> run_retry_count old < run_max_attempts old \<and>
       get_run (run_id run) d' = Some run \<and> run_status run = ''running'' \<and>
       run_lease_owner run = Some owner \<and> run_retry_count run = run_retry_count old + 1 \<and>
       get_lease (run_id run) d' = Some l \<and> ls_owner l = owner \<and>
       ls_generation l = run_retry_count run)"
proof -
  obtain old d1 where o: "get_run (run_id run) d = Some old" "run = claimed_run cfg e owner old"
    "run_retry_count old < run_max_attempts old"
    "\<And>t. run_thread_id old = Some t \<Longrightarrow> eligible (e_now e) d old"
    using claim_next_started [OF assms(1)] by metis
  have "run_thread_id old = Some t" using o(2) assms(2) by simp
  with o(4) have "eligible (e_now e) d old" by blast
  then have "run_status old = ''pending''" "due (e_now e) old" "\<not> thread_occupied (e_now e) t d"
    "\<not> queued_before t old d"
    using \<open>run_thread_id old = Some t\<close> by (auto simp: eligible_def)
  moreover have "run_status run = ''running''" "run_lease_owner run = Some owner"
    "run_retry_count run = run_retry_count old + 1"
    using o(2) by (simp_all add: claimed_run_def)
  ultimately show ?thesis using claim_next_result [OF assms(1)] o by blast
qed

theorem claim_is_exclusive_witness:
  "\<not> thread_occupied 20 1 demo_db1 \<and> thread_occupied 20 1 demo_db2"
proof -
  let ?r = "claim_next demo_cfg (demo_env 20) ''w1'' no_lock no_lock demo_db1 demo_db1"
  have "case ?r of Inl _ \<Rightarrow> False | Inr (None, _, _) \<Rightarrow> False | Inr (Some x, _, _) \<Rightarrow> run_thread_id x = Some 1"
    by code_simp
  then obtain x evs d' where "?r = Inr (Some x, evs, d')" "run_thread_id x = Some 1"
    by (auto split: sum.splits prod.splits option.splits)
  from claim_is_exclusive [OF this] have "\<not> thread_occupied (e_now (demo_env 20)) 1 demo_db1" by blast
  moreover have "thread_occupied 20 1 demo_db2" by code_simp
  ultimately show ?thesis by (simp add: demo_env_def)
qed

text \<open>
  C3: the fence. After a claim, the checkpoint writer of any earlier attempt of the run is
  refused, whoever owned it and whatever it writes; the writer of the new attempt is accepted
  for its own thread while its lease lasts.
\<close>

theorem stale_writer_is_fenced:
  assumes "claim_next cfg e owner locked tlk d0 d = Inr (Some run, evs, d')"
    "wr_run_id w = run_id run" "wr_generation w < run_retry_count run"
    "config_thread_id e' config = Inr (uuid_str (case run_thread_id run of Some t \<Rightarrow> t | None \<Rightarrow> run_id run))"
    "e_now e' < e_now e + lease_seconds cfg * 1000000"
  shows "(\<exists>msg. fenced_writer e' (Some w) config d' = Inl (CheckpointConflict msg)) \<and>
    fenced_writer e' (Some \<lparr>wr_run_id = run_id run, wr_owner = owner,
        wr_generation = run_retry_count run\<rparr>) config d' = Inr d'"
proof -
  note r = claim_next_result(1) [OF assms(1)]
  obtain old where "run = claimed_run cfg e owner old"
    using claim_next_started [OF assms(1)] by metis
  then have v: "run_status run = ''running''" "run_lease_owner run = Some owner"
    "run_lease_expires_at run = Some (e_now e + lease_seconds cfg * 1000000)"
    by (simp_all add: claimed_run_def)
  have "\<not> writer_valid e' w tid d'" for tid
    using assms(2,3) r by (simp add: writer_valid_def)
  moreover have "writer_valid e' \<lparr>wr_run_id = run_id run, wr_owner = owner,
      wr_generation = run_retry_count run\<rparr>
      (uuid_str (case run_thread_id run of Some t \<Rightarrow> t | None \<Rightarrow> run_id run)) d'"
    using r v assms(5) by (cases "run_thread_id run") (simp_all add: writer_valid_def)
  ultimately show ?thesis
    using assms(4) by (simp add: fenced_writer_def split: option.split)
qed

definition demo_config :: dict where
  "demo_config = [(''configurable'', JObj [(''thread_id'', JStr (uuid_str 1))])]"

theorem stale_writer_is_fenced_witness:
  "\<exists>msg. fenced_writer (demo_env 25) (Some \<lparr>wr_run_id = 2, wr_owner = ''w1'', wr_generation = 0\<rparr>)
     demo_config demo_db2 = Inl (CheckpointConflict msg)"
proof -
  let ?r = "claim_next demo_cfg (demo_env 20) ''w1'' no_lock no_lock demo_db1 demo_db1"
  let ?w = "\<lparr>wr_run_id = 2, wr_owner = ''w1'', wr_generation = 0\<rparr> :: writer"
  have "case ?r of Inl _ \<Rightarrow> False | Inr (None, _, _) \<Rightarrow> False
      | Inr (Some x, _, _) \<Rightarrow> run_id x = 2 \<and> run_retry_count x = 1 \<and> run_thread_id x = Some 1"
    by code_simp
  then obtain x evs d' where x: "?r = Inr (Some x, evs, d')" "run_id x = 2" "run_retry_count x = 1"
    "run_thread_id x = Some 1"
    by (auto split: sum.splits prod.splits option.splits)
  have d': "d' = demo_db2" using x(1) by (simp add: demo_db2_def out_db_def)
  have "config_thread_id (demo_env 25) demo_config =
      Inr (uuid_str (case run_thread_id x of Some t \<Rightarrow> t | None \<Rightarrow> run_id x))"
    using x(4) by (simp add: config_thread_id_def demo_config_def)
  moreover have "e_now (demo_env 25) < e_now (demo_env 20) + lease_seconds demo_cfg * 1000000"
    by (simp add: demo_env_def demo_cfg_def run_repository_def)
  ultimately show ?thesis
    using stale_writer_is_fenced [OF x(1), of ?w "demo_env 25" demo_config] x(2,3) d' by auto
qed

end
