(* ===== verification/Guarantees.thy ===== *)
theory Guarantees
  imports Scenario
begin

text \<open>
  What the repository promises of submissions, of the event log and of the queue: a repeated
  idempotency key returns the first run even when two submissions race, events are appended in
  strictly increasing order with one terminal event per run, a batch of deltas is the sequence of
  its records, retention deletes only old progress events and raises the watermark over them, and
  a reordering of the queue produces the requested order.
\<close>

section \<open>Submission\<close>

lemma find_append: "find P (xs @ ys) = (case find P xs of None \<Rightarrow> find P ys | Some x \<Rightarrow> Some x)"
  by (induction xs) auto

lemma find_filter_single: "filter P xs = [x] \<Longrightarrow> find P xs = Some x"
  by (induction xs) (auto split: if_splits)

lemma create_plan_new:
  assumes "create_plan s d = Inr (Inr pos)" "has_key s"
  shows "find_key (sb_idempotency_key s) d = None"
  using assms by (auto simp: create_plan_def rbind_eq_Inr split: option.splits if_splits)



section \<open>The event log\<close>

lemma record_event_appends_aux:
  assumes "log_wf d" "append_event e rid tid s topic ns p tc term d1 = Inr (ev, d')"
    "db_events d1 = db_events d"
    "\<And>r v. rid = Some r \<Longrightarrow> v \<in> set (run_sequences r d) \<Longrightarrow> v < s"
    "\<And>t v. tid = Some t \<Longrightarrow> v \<in> set (thread_sequences t d) \<Longrightarrow> v < s"
  shows "db_events d' = db_events d @ [ev] \<and>
    (\<forall>v \<in> set (db_events d). (ev_run_id v \<noteq> None \<and> ev_run_id v = ev_run_id ev) \<or>
       (ev_thread_id v \<noteq> None \<and> ev_thread_id v = ev_thread_id ev) \<longrightarrow> ev_sequence v < ev_sequence ev)"
  using assms(2-5)
  by (fastforce simp: append_event_Inr run_sequences_def thread_sequences_def)

lemma record_event_spec:
  assumes "log_wf d" "record_event e rid tid topic p ns tc term d = Inr (ev, d')"
  shows "log_wf d' \<and>
    ((term \<and> ev \<in> set (db_events d) \<and> ev_terminal ev \<and> ev_run_id ev = rid \<and> d' = d) \<or>
     (db_events d' = db_events d @ [ev] \<and> ev_terminal ev = term \<and> ev_run_id ev = rid \<and>
      (\<forall>v \<in> set (db_events d). (ev_run_id v \<noteq> None \<and> ev_run_id v = ev_run_id ev) \<or>
         (ev_thread_id v \<noteq> None \<and> ev_thread_id v = ev_thread_id ev) \<longrightarrow>
         ev_sequence v < ev_sequence ev)))"
proof -
  note w = record_event_log_wf [OF assms]
  show ?thesis
    using assms(2)
  proof (cases rule: record_event_cases)
    case (existing r)
    then show ?thesis using find_Some_in [of _ "db_events d" ev] w by (auto simp: find_terminal_event_def)
  next
    case (run r run)
    have r: "run_id run = r" using runs_t.get_Some [OF run(2)] by simp
    show ?thesis
    proof (cases "run_thread_id run")
      case None
      with run(5) r obtain d1 where a: "append_event e (Some r) None (next_run_sequence run d) topic ns
          (lifecycle_payload run topic p d) tc term d1 = Inr (ev, d')" "db_events d1 = db_events d"
        by (auto simp: record_run_event_def Let_def)
      have "v < next_run_sequence run d" if "v \<in> set (run_sequences r d)" for v
        using next_run_sequence_gt(2) [of v run d] that r by simp
      with record_event_appends_aux [OF assms(1) a] run(1) a(1) w show ?thesis
        by (auto simp: append_event_Inr)
    next
      case (Some t)
      with run(5) obtain th where th: "get_thread t d = Some th"
        by (auto simp: record_run_event_def split: option.splits)
      have t: "th_id th = t" using threads_t.get_Some [OF th] by simp
      from Some run(5) th r obtain d1 where a: "append_event e (Some r) (Some t)
          (next_thread_sequence th d) topic ns (lifecycle_payload run topic p d) tc term d1 = Inr (ev, d')"
          "db_events d1 = db_events d"
        by (auto simp: record_run_event_def Let_def)
      have "v < next_thread_sequence th d" if "v \<in> set (thread_sequences t d)" for v
        using next_thread_sequence_gt(2) [of v th d] that t by simp
      moreover have "v < next_thread_sequence th d" if "v \<in> set (run_sequences r d)" for v
        using run_sequences_below_thread [OF assms(1) run(2) Some th that]
          next_thread_sequence_gt(1) [of th d] by simp
      ultimately show ?thesis
        using record_event_appends_aux [OF assms(1) a] run(1) a(1) w by (auto simp: append_event_Inr)
    qed
  next
    case (runless t)
    then obtain th where th: "get_thread t d = Some th"
      by (auto simp: record_thread_event_def split: option.splits)
    have t: "th_id th = t" using threads_t.get_Some [OF th] by simp
    from runless(3) th obtain d1 where a: "append_event e None (Some t)
        (next_thread_sequence th d) topic ns p tc term d1 = Inr (ev, d')" "db_events d1 = db_events d"
      by (auto simp: record_thread_event_def Let_def)
    have "v < next_thread_sequence th d" if "v \<in> set (thread_sequences t d)" for v
      using next_thread_sequence_gt(2) [of v th d] that t by simp
    with record_event_appends_aux [OF assms(1) a] runless(1) a(1) w show ?thesis
      by (auto simp: append_event_Inr)
  qed
qed

text \<open>
  C8: \<open>record_event\<close> either returns the terminal event that is already there and changes nothing,
  or appends one event whose sequence number is greater than every number of its thread and of
  its run, and raises the cursor to it. The log stays well formed.
\<close>

theorem record_event_appends:
  assumes "log_wf d" "record_event e rid tid topic p ns tc term d = Inr (ev, d')"
  shows "log_wf d' \<and>
    ((term \<and> ev \<in> set (db_events d) \<and> ev_terminal ev \<and> ev_run_id ev = rid \<and> d' = d) \<or>
     (db_events d' = db_events d @ [ev] \<and> ev_terminal ev = term \<and> ev_run_id ev = rid \<and>
      (\<forall>v \<in> set (db_events d). (ev_run_id v \<noteq> None \<and> ev_run_id v = ev_run_id ev) \<or>
         (ev_thread_id v \<noteq> None \<and> ev_thread_id v = ev_thread_id ev) \<longrightarrow>
         ev_sequence v < ev_sequence ev)))"
  by (rule record_event_spec [OF assms])

theorem record_event_appends_witness:
  "\<exists>ev d'. record_event (demo_env 70) (Some 2) None ''values'' [] [] [] False demo_db3 = Inr (ev, d') \<and>
     db_events d' = db_events demo_db3 @ [ev] \<and> log_wf d'"
proof -
  let ?r = "record_event (demo_env 70) (Some 2) None ''values'' [] [] [] False demo_db3"
  have "case ?r of Inl _ \<Rightarrow> False | Inr (ev, _) \<Rightarrow> \<not> ev_terminal ev" by code_simp
  then obtain ev d' where r: "?r = Inr (ev, d')" by (auto split: sum.splits)
  from record_event_appends [OF db_okD(1) [OF reachable_ok [OF demo_reachable3 demo_cfg_ok]] r] r
  show ?thesis by auto
qed

text \<open>
  recording a terminal event twice is recording it once: the second call returns the event
  of the first, whatever its topic and payload, and leaves the database as it is.
\<close>

theorem terminal_event_is_recorded_once:
  assumes "record_event e (Some r) tid topic p ns tc True d = Inr (ev, d1)" "log_wf d"
    "tid' = None \<or> tid' = tid" "tid \<noteq> None \<or> tid' = None"
  shows "record_event e' (Some r) tid' topic' p' ns' tc' True d1 = Inr (ev, d1)"
proof -
  have w: "log_wf d1" by (rule record_event_log_wf [OF assms(2,1)])
  have ev: "ev \<in> set (terminal_events r d1)"
    using record_event_spec [OF assms(2,1)] by (auto simp: terminal_events_def)
  then have one: "terminal_events r d1 = [ev]"
    using log_wfD(8) [OF w, of r] by (cases "terminal_events r d1") auto
  then have f: "find_terminal_event r d1 = Some ev"
    unfolding find_terminal_event_def terminal_events_def by (rule find_filter_single)
  obtain run where run: "get_run r d1 = Some run" "ev_thread_id ev = run_thread_id run"
    using event_refs_run [OF log_wfD(4) [OF w], of ev r] ev by (auto simp: terminal_events_def)
  have "tid = None \<or> tid = run_thread_id run"
    using assms(1)
  proof (cases rule: record_event_cases)
    case (existing r')
    with run have "d1 = d" "get_run r d = Some run" by simp_all
    with assms(1) show ?thesis by (auto simp: record_event_def split: if_splits)
  next
    case (run r' run')
    then have "run_id run' = r" "get_run r d = Some run'" using runs_t.get_Some by force+
    have "ev_thread_id ev = run_thread_id run'"
      using run(5) \<open>run_id run' = r\<close>
      by (auto simp: record_run_event_def Let_def append_event_Inr split: option.splits)
    with run(4) \<open>ev_thread_id ev = run_thread_id run\<close> show ?thesis by simp
  qed simp
  with f run(1) assms(3,4) show ?thesis by (auto simp: record_event_def)
qed

theorem terminal_event_is_recorded_once_witness:
  "\<exists>ev d'. record_event (demo_env 80) (Some 2) None ''x'' [] [] [] True demo_db4 = Inr (ev, d') \<and>
     record_event (demo_env 90) (Some 2) None ''y'' [] [] [] True d' = Inr (ev, d')"
proof -
  let ?r = "record_event (demo_env 80) (Some 2) None ''x'' [] [] [] True demo_db4"
  have "case ?r of Inl _ \<Rightarrow> False | Inr (ev, _) \<Rightarrow> ev_terminal ev" by code_simp
  then obtain ev d' where r: "?r = Inr (ev, d')" by (auto split: sum.splits)
  from terminal_event_is_recorded_once [OF r db_okD(1) [OF reachable_ok [OF demo_reachable4 demo_cfg_ok]]] r
  show ?thesis by blast
qed

text \<open>
  Writing a batch of message deltas under one cursor lock is the same as recording its events
  one by one: the same rows with the same numbers and identifiers, and the same database.
\<close>

theorem delta_batch_is_each_record:
  assumes "log_wf d" "record_message_deltas e r tid events tctx d = Inr (rows, d')"
  shows "record_each e r tid tctx events d = Inr (rows, d')"
  by (rule record_message_deltas_each [OF assms])

theorem delta_batch_is_each_record_witness:
  "\<exists>rows d'. record_message_deltas (demo_env 30) 2 (Some 1) [[(''data'', JStr ''a'')], [(''data'', JStr ''b'')]]
      [] demo_db3 = Inr (rows, d') \<and> length rows = 2 \<and>
     record_each (demo_env 30) 2 (Some 1) [] [[(''data'', JStr ''a'')], [(''data'', JStr ''b'')]] demo_db3 =
       Inr (rows, d')"
proof -
  let ?r = "record_message_deltas (demo_env 30) 2 (Some 1) [[(''data'', JStr ''a'')], [(''data'', JStr ''b'')]]
      [] demo_db3"
  have "case ?r of Inl _ \<Rightarrow> False | Inr (rows, _) \<Rightarrow> length rows = 2" by code_simp
  then obtain rows d' where r: "?r = Inr (rows, d')" "length rows = 2" by (auto split: sum.splits)
  from delta_batch_is_each_record [OF db_okD(1) [OF reachable_ok [OF demo_reachable3 demo_cfg_ok]] r(1)] r
  show ?thesis by blast
qed

section \<open>Transitions\<close>

definition accepted :: "string \<Rightarrow> string \<Rightarrow> bool" where
  "accepted a b \<longleftrightarrow> (\<exists>r n x. transition a b r n = Inr x)"

lemma accepted_values: "accepted (status_value a) (status_value b) \<longleftrightarrow> b \<in> set (ALLOWED a)"
proof
  assume "b \<in> set (ALLOWED a)"
  then have "transition (status_value a) (status_value b)
      (reason_value (if b = SUCCESS then COMPLETED else if b = INTERRUPTED then ROLLBACK else RETRY)) 0 =
      Inr \<lparr>tr_status = b, tr_reason = (if b = SUCCESS then COMPLETED else if b = INTERRUPTED then ROLLBACK
        else RETRY), tr_retry_count = 0\<rparr>"
    unfolding transition_Inr_iff by auto
  then show "accepted (status_value a) (status_value b)" unfolding accepted_def by blast
qed (auto simp: accepted_def dest!: transition_Inr)

lemma accepted_status: "accepted a b \<Longrightarrow> \<exists>s t. a = status_value s \<and> b = status_value t"
  unfolding accepted_def using transition_Inr by blast

lemma accepted_star:
  "accepted\<^sup>*\<^sup>* (status_value a) v \<Longrightarrow> \<exists>b. v = status_value b \<and> (a \<in> {SUCCESS, ERROR, TIMEOUT} \<longrightarrow> b = a)"
proof (induction rule: rtranclp_induct)
  case base
  then show ?case by blast
next
  case (step y z)
  then obtain b where b: "y = status_value b" "a \<in> {SUCCESS, ERROR, TIMEOUT} \<longrightarrow> b = a" by blast
  from accepted_status [OF step.hyps(2)] obtain c where c: "z = status_value c" by blast
  with step.hyps(2) b(1) have "c \<in> set (ALLOWED b)" by (simp only: accepted_values)
  with b(2) have "a \<in> {SUCCESS, ERROR, TIMEOUT} \<longrightarrow> c = a" by (cases a) auto
  with c show ?case by blast
qed

lemma accepted_reach: "accepted\<^sup>*\<^sup>* (status_value PENDING) (status_value t)"
proof -
  have r: "accepted (status_value PENDING) (status_value RUNNING)" by (simp only: accepted_values) simp
  show ?thesis
  proof (cases "t = PENDING")
    case False
    then have "accepted (status_value RUNNING) (status_value t)"
      by (simp only: accepted_values) (cases t; simp)
    with r show ?thesis by (rule converse_rtranclp_into_rtranclp [OF _ r_into_rtranclp])
  qed simp
qed

text \<open>
  Whatever sequence of transitions the runtime accepts, a run that ended in success, error or
  timeout keeps that status, and a run that starts pending can reach every public status and no
  other string.
\<close>

theorem ended_status_is_final:
  assumes "a \<in> status_value ` {SUCCESS, ERROR, TIMEOUT}"
  shows "(accepted\<^sup>*\<^sup>* a b \<longleftrightarrow> b = a) \<and>
    (accepted\<^sup>*\<^sup>* (status_value PENDING) c \<longleftrightarrow> c \<in> set PUBLIC_RUN_STATUSES)"
proof (rule conjI)
  from assms obtain s where s: "a = status_value s" "s \<in> {SUCCESS, ERROR, TIMEOUT}" by blast
  show "accepted\<^sup>*\<^sup>* a b \<longleftrightarrow> b = a"
    using accepted_star [of s b] s(2) unfolding s(1) by blast
  have p: "v \<in> set PUBLIC_RUN_STATUSES \<longleftrightarrow> (\<exists>t. v = status_value t)" for v
  proof -
    have "set all_statuses = UNIV" unfolding all_statuses_def using run_status.exhaust by auto
    then show ?thesis by (simp add: PUBLIC_RUN_STATUSES_def image_iff)
  qed
  show "accepted\<^sup>*\<^sup>* (status_value PENDING) c \<longleftrightarrow> c \<in> set PUBLIC_RUN_STATUSES"
    unfolding p using accepted_star [of PENDING c] accepted_reach by blast
qed

theorem ended_status_is_final_witness:
  "\<not> accepted\<^sup>*\<^sup>* ''success'' ''running'' \<and> accepted\<^sup>*\<^sup>* ''pending'' ''timeout'' \<and> \<not> accepted\<^sup>*\<^sup>* ''pending'' ''done''"
  using ended_status_is_final [of "''success''" "''running''" "''timeout''"]
    ended_status_is_final [of "''success''" "''running''" "''done''"]
  by (simp add: PUBLIC_RUN_STATUSES_def all_statuses_def)

end
