(* ===== verification/Maintenance.thy ===== *)
theory Maintenance
  imports Scenario
begin

text \<open>
  What checkpoint maintenance guarantees (\<open>checkpoint_mutations.py\<close>, \<open>checkpoint.py\<close>): pruning
  keeps every namespace head with the ancestors its delta channels are rebuilt from, a rollback
  puts back exactly what was captured before the run started, and the fence refuses a worker
  whose claim is no longer current.
\<close>

section \<open>Pruning\<close>

text \<open>The fuel of a walk is enough: every visited row has a key that was not kept before.\<close>

definition unkept :: "checkpoint_row list \<Rightarrow> (string \<times> string) set \<Rightarrow> nat" where
  "unkept rows ks = card (cp_key ` set rows - ks)"

lemma parent_row_in: "parent_row rows c = Some p \<Longrightarrow> p \<in> set rows \<and> cp_ns p = cp_ns c \<and> cp_parent_id c = Some (cp_id p)"
  by (auto simp: parent_row_def by_key_def cp_key_def split: option.splits dest!: find_Some_in)

lemma unkept_insert:
  "row \<in> set rows \<Longrightarrow> cp_key row \<notin> ks \<Longrightarrow> unkept rows (insert (cp_key row) ks) < unkept rows ks"
  unfolding unkept_def by (intro psubset_card_mono) auto

lemma keep_walk_fuel:
  "row \<in> set rows \<Longrightarrow> unkept rows ks < n \<Longrightarrow> unkept rows ks < m \<Longrightarrow>
   keep_walk n e blobs rows unresolved row ks = keep_walk m e blobs rows unresolved row ks"
proof (induction n arbitrary: m row ks unresolved)
  case (Suc n)
  then obtain m' where m: "m = Suc m'" by (cases m) auto
  show ?case
  proof (cases "cp_key row \<in> ks")
    case False
    let ?ks = "insert (cp_key row) ks"
    have u: "unkept rows ?ks < unkept rows ks"
      using Suc.prems(1) False by (rule unkept_insert)
    have "keep_walk n e blobs rows left p ?ks = keep_walk m' e blobs rows left p ?ks"
      if "parent_row rows row = Some p" for left p
      by (rule Suc.IH) (use parent_row_in [OF that] u Suc.prems m in auto)
    then show ?thesis
      using False by (auto simp: m Let_def split: option.split)
  qed (simp add: m)
qed simp

lemma unkept_bound: "unkept rows ks < Suc (length rows)"
proof -
  have "unkept rows ks \<le> card (cp_key ` set rows)"
    unfolding unkept_def by (rule card_mono) auto
  also have "\<dots> \<le> length rows"
    by (metis card_length image_set length_map)
  finally show ?thesis by simp
qed

lemma keep_walk_mono: "ks \<subseteq> keep_walk n e blobs rows u row ks"
proof (induction n arbitrary: u row ks)
  case (Suc n)
  have "insert (cp_key row) ks \<subseteq> keep_walk n e blobs rows v p (insert (cp_key row) ks)" for v p
    by (rule Suc.IH)
  then show ?case by (auto simp: Let_def split: option.split)
qed simp

text \<open>
  What reconstruction from a head needs: the head, and from a row some of whose channels are
  still unresolved its parent.
\<close>

inductive needs ::
  "env \<Rightarrow> (string \<times> string \<times> string) set \<Rightarrow> checkpoint_row list \<Rightarrow> string list \<Rightarrow> checkpoint_row
    \<Rightarrow> checkpoint_row \<Rightarrow> bool" for e blobs rows where
  start: "needs e blobs rows u row row"
| parent: "left = filter (\<lambda>ch. \<not> channel_resolved e blobs row ch) u \<Longrightarrow> left \<noteq> [] \<Longrightarrow>
    parent_row rows row = Some p \<Longrightarrow> needs e blobs rows left p q \<Longrightarrow> needs e blobs rows u row q"

text \<open>Checkpoint identifiers ascend from parent to child.\<close>

definition ascending :: "checkpoint_row list \<Rightarrow> bool" where
  "ascending rows \<longleftrightarrow> (\<forall>c \<in> set rows. \<forall>p. cp_parent_id c = Some p \<longrightarrow> p < cp_id c)"

lemma keep_walk_needs:
  assumes "needs e blobs rows u row q" "ascending rows" "row \<in> set rows" "unkept rows ks < n"
    "\<And>i. (cp_ns row, i) \<in> ks \<Longrightarrow> cp_id row < i"
  shows "cp_key q \<in> keep_walk n e blobs rows u row ks"
  using assms
proof (induction arbitrary: n ks rule: needs.induct)
  case (start u row)
  then obtain n' where n: "n = Suc n'" by (cases n) auto
  have "cp_key row \<notin> ks" using start.prems(4) by (auto simp: cp_key_def)
  then show ?case
    using keep_walk_mono [of "insert (cp_key row) ks"] by (auto simp: n Let_def split: option.split)
next
  case (parent left row u p q)
  then obtain n' where n: "n = Suc n'" by (cases n) auto
  have nk: "cp_key row \<notin> ks" using parent.prems(4) by (auto simp: cp_key_def)
  note p = parent_row_in [OF parent.hyps(3)]
  have lt: "cp_id p < cp_id row"
    using parent.prems(1,2) p by (auto simp: ascending_def)
  have "cp_key q \<in> keep_walk n' e blobs rows left p (insert (cp_key row) ks)"
  proof (rule parent.IH)
    show "unkept rows (insert (cp_key row) ks) < n'"
      using unkept_insert [OF parent.prems(2) nk] parent.prems(3) n by simp
    show "cp_id p < i" if "(cp_ns p, i) \<in> insert (cp_key row) ks" for i
      using that lt p parent.prems(4) [of i] by (auto simp: cp_key_def)
  qed (use parent.prems(1) p in auto)
  then show ?case
    using nk parent.hyps(1,2,3) by (simp add: n Let_def)
qed

lemma keep_walk_ns: 
  "k \<in> keep_walk n e blobs rows u row ks \<Longrightarrow> k \<in> ks \<or> fst k = cp_ns row"
proof (induction n arbitrary: u row ks)
  case (Suc n)
  show ?case
  proof (cases "cp_key row \<in> ks \<or> filter (\<lambda>ch. \<not> channel_resolved e blobs row ch) u = [] \<or>
      parent_row rows row = None")
    case True
    with Suc.prems show ?thesis by (auto simp: Let_def cp_key_def split: if_splits)
  next
    case False
    then obtain p where p: "parent_row rows row = Some p" by auto
    with False Suc.prems have "k \<in> keep_walk n e blobs rows
        (filter (\<lambda>ch. \<not> channel_resolved e blobs row ch) u) p (insert (cp_key row) ks)"
      by (simp add: Let_def split: if_splits)
    from Suc.IH [OF this] parent_row_in [OF p] show ?thesis by (auto simp: cp_key_def)
  qed
qed simp

lemma keep_heads_mono: "ks \<subseteq> keep_heads e blobs rows heads namespaces ks"
proof (induction heads arbitrary: namespaces ks)
  case (Cons h hs)
  show ?case using Cons.IH keep_walk_mono by (simp add: subset_trans del: keep_walk.simps) (meson subset_trans)
qed simp

text \<open>The head of a namespace is the first of the rows that has it.\<close>

definition ns_head :: "checkpoint_row list \<Rightarrow> string \<Rightarrow> checkpoint_row option" where
  "ns_head rows ns = find (\<lambda>c. cp_ns c = ns) rows"

lemma keep_heads_needs:
  assumes "ascending rows" "set heads \<subseteq> set rows" "ns_head heads ns = Some head"
    "ns \<notin> namespaces" "\<And>k. k \<in> ks \<Longrightarrow> fst k \<in> namespaces"
    "needs e blobs rows (delta_channels head) head q"
  shows "cp_key q \<in> keep_heads e blobs rows heads namespaces ks"
  using assms(2-5)
proof (induction heads arbitrary: namespaces ks)
  case (Cons h hs)
  let ?w = "keep_walk (Suc (length rows)) e blobs rows (delta_channels h) h ks"
  show ?case
  proof (cases "cp_ns h = ns")
    case True
    with Cons.prems(2) have h: "h = head" by (simp add: ns_head_def)
    have "cp_key q \<in> ?w"
      using assms(1,6) Cons.prems(1,3,4) unkept_bound True
      unfolding h by (intro keep_walk_needs) (auto simp: h)
    from subsetD [OF keep_heads_mono this] Cons.prems(3) True show ?thesis
      by (auto simp del: keep_walk.simps)
  next
    case False
    then have hd: "ns_head hs ns = Some head" using Cons.prems(2) by (simp add: ns_head_def)
    show ?thesis
    proof (cases "cp_ns h \<in> namespaces")
      case True
      with Cons.IH [OF _ hd Cons.prems(3,4)] Cons.prems(1) show ?thesis by simp
    next
      case new: False
      have "cp_key q \<in> keep_heads e blobs rows hs (insert (cp_ns h) namespaces) ?w"
      proof (rule Cons.IH [OF _ hd])
        show "fst k \<in> insert (cp_ns h) namespaces" if "k \<in> ?w" for k
          using keep_walk_ns [OF that] Cons.prems(4) by blast
      qed (use Cons.prems(1,3) False in auto)
      with new show ?thesis by (simp del: keep_walk.simps)
    qed
  qed
qed (simp add: ns_head_def)

lemma set_desc_rows [simp]: "set (desc_rows t d) = set (thread_checkpoints t d)"
  by (simp add: desc_rows_def)

lemma needs_in: "needs e blobs rows u row q \<Longrightarrow> row \<in> set rows \<Longrightarrow> q \<in> set rows"
  by (induction rule: needs.induct) (auto dest: parent_row_in)

lemma kept_keys_needs:
  assumes "ascending (desc_rows t d)" "ns_head (desc_rows t d) ns = Some head"
    "needs e (live_blobs t d) (desc_rows t d) (delta_channels head) head q"
  shows "cp_key q \<in> kept_keys e t d"
  unfolding kept_keys_def by (rule keep_heads_needs [OF assms(1) _ assms(2) _ _ assms(3)]) auto

lemma prune_checkpoints_Inr:
  assumes "prune_checkpoints e t d = Inr d'"
  shows "thread_checkpoints t d' = filter (\<lambda>c. cp_key c \<in> kept_keys e t d) (thread_checkpoints t d)"
    "thread_writes t d' = filter (\<lambda>w. (cw_ns w, cw_checkpoint_id w) \<in> kept_keys e t d \<or>
        (cw_ns w, cw_checkpoint_id w) \<notin> cp_key ` set (thread_checkpoints t d)) (thread_writes t d)"
    "filter (\<lambda>c. cp_thread_id c \<noteq> thread_key t) (db_checkpoints d') =
       filter (\<lambda>c. cp_thread_id c \<noteq> thread_key t) (db_checkpoints d)"
proof -
  let ?dropped = "set (map cp_key (thread_checkpoints t d)) - kept_keys e t d"
  have d': "d' = d\<lparr>db_writes := filter (\<lambda>w. \<not> (cw_thread_id w = thread_key t \<and>
                       (cw_ns w, cw_checkpoint_id w) \<in> ?dropped)) (db_writes d),
                  db_checkpoints := filter (\<lambda>c. \<not> (cp_thread_id c = thread_key t \<and>
                       cp_key c \<in> ?dropped)) (db_checkpoints d),
                  db_baselines := filter (\<lambda>b. bl_thread_id b \<noteq> t) (db_baselines d)\<rparr>"
    using assms unfolding prune_checkpoints_def Let_def
    by (cases "list_ex (\<lambda>x. run_thread_id x = Some t \<and>
          (run_status x = ''running'' \<or> run_reason x = Some ''rollback'')) (db_runs d)")
      (simp_all only: if_True if_False sum.inject sum.distinct)
  show "thread_checkpoints t d' = filter (\<lambda>c. cp_key c \<in> kept_keys e t d) (thread_checkpoints t d)"
    unfolding d' by (auto simp: thread_checkpoints_def intro!: filter_cong)
  show "thread_writes t d' = filter (\<lambda>w. (cw_ns w, cw_checkpoint_id w) \<in> kept_keys e t d \<or>
        (cw_ns w, cw_checkpoint_id w) \<notin> cp_key ` set (thread_checkpoints t d)) (thread_writes t d)"
    unfolding d' by (auto simp: thread_writes_def intro!: filter_cong)
  show "filter (\<lambda>c. cp_thread_id c \<noteq> thread_key t) (db_checkpoints d') =
       filter (\<lambda>c. cp_thread_id c \<noteq> thread_key t) (db_checkpoints d)"
    unfolding d' by (auto intro!: filter_cong)
qed

text \<open>The head of a namespace has its greatest identifier.\<close>

lemma ns_head_greatest:
  assumes "ns_head (desc_rows t d) ns = Some head" "c \<in> set (thread_checkpoints t d)" "cp_ns c = ns"
  shows "cp_id c \<le> cp_id head"
proof -
  have s: "sorted_wrt (\<lambda>a b. cp_id b \<le> cp_id a) (desc_rows t d)"
    unfolding desc_rows_def sorted_wrt_rev
    using sorted_sort_key [of cp_id "rev (thread_checkpoints t d)"] by (simp add: sorted_map)
  have head: "cp_id c \<le> cp_id head"
    if "c \<in> set l" "sorted_wrt (\<lambda>a b. cp_id b \<le> cp_id a) l" "find (\<lambda>c. cp_ns c = ns) l = Some head"
    for l
    using that assms(3) by (induction l) (auto split: if_splits)
  show ?thesis
    by (rule head [OF _ s]) (use assms in \<open>simp_all add: ns_head_def\<close>)
qed

section \<open>Capturing and restoring a baseline\<close>

lemma restore_baseline_tables:
  assumes "\<And>c. c \<in> set (bl_checkpoints b) \<Longrightarrow> cp_thread_id c = thread_key t"
    "\<And>w. w \<in> set (bl_writes b) \<Longrightarrow> cw_thread_id w = thread_key t"
  shows "thread_checkpoints t (restore_baseline t b d) = bl_checkpoints b"
    "thread_writes t (restore_baseline t b d) = bl_writes b"
    "filter (\<lambda>c. cp_thread_id c \<noteq> thread_key t) (db_checkpoints (restore_baseline t b d)) =
       filter (\<lambda>c. cp_thread_id c \<noteq> thread_key t) (db_checkpoints d)"
    "filter (\<lambda>w. cw_thread_id w \<noteq> thread_key t) (db_writes (restore_baseline t b d)) =
       filter (\<lambda>w. cw_thread_id w \<noteq> thread_key t) (db_writes d)"
  using assms
  by (auto simp: restore_baseline_def thread_checkpoints_def thread_writes_def filter_empty_conv
      filter_id_conv)

lemma capture_baseline_get:
  "get_baseline (run_id run) d = None \<Longrightarrow>
   get_baseline (run_id run) (capture_baseline now run th d) =
     Some \<lparr>bl_run_id = run_id run, bl_thread_id = th_id th,
       bl_checkpoints = thread_checkpoints (th_id th) d, bl_writes = thread_writes (th_id th) d,
       bl_projection = thread_projection now th\<rparr>"
  by (simp add: capture_baseline_def get_baseline_def t_get_append)

lemma rollback_restores_baseline:
  assumes "rollback_run e run False d = Inr d'" "run_thread_id run = Some t"
    "get_baseline (run_id run) d = Some b" "get_thread t d = Some th"
    "\<And>c. c \<in> set (bl_checkpoints b) \<Longrightarrow> cp_thread_id c = thread_key t"
    "\<And>w. w \<in> set (bl_writes b) \<Longrightarrow> cw_thread_id w = thread_key t"
  shows "thread_checkpoints t d' = bl_checkpoints b" "thread_writes t d' = bl_writes b"
    "get_thread t d' = Some (restore_thread (bl_projection b) th)" "get_run (run_id run) d' = None"
proof -
  from assms(1) have d': "d' = del_run (run_id run) (restore_baseline t b d)"
    by (cases rule: rollback_run_cases) (use assms in auto)
  have "thread_checkpoints t d' = thread_checkpoints t (restore_baseline t b d)"
    "thread_writes t d' = thread_writes t (restore_baseline t b d)"
    by (simp_all add: d' thread_checkpoints_def thread_writes_def del_run_def)
  then show "thread_checkpoints t d' = bl_checkpoints b" "thread_writes t d' = bl_writes b"
    using restore_baseline_tables [OF assms(5,6)] by simp_all
  have "get_thread t (restore_baseline t b d) = Some (restore_thread (bl_projection b) th)"
    using assms(4) by (simp add: restore_baseline_def threads_t.get_upd)
      (simp add: get_thread_def)
  then show "get_thread t d' = Some (restore_thread (bl_projection b) th)" by (simp add: d')
  show "get_run (run_id run) d' = None" by (simp add: d')
qed

section \<open>A thread with checkpoints\<close>

definition demo_cp :: "string \<Rightarrow> string option \<Rightarrow> dict \<Rightarrow> checkpoint_row" where
  "demo_cp i parent meta =
     \<lparr>cp_thread_id = thread_key 1, cp_ns = [], cp_id = i, cp_parent_id = parent,
      cp_checkpoint = [], cp_metadata = meta, cp_rest = JNull\<rparr>"

definition demo_run :: run_row where
  "demo_run = new_run demo_cfg (demo_env 10) demo_submission 1 demo_db0"

definition demo_before :: db where
  "demo_before = demo_db0\<lparr>db_runs := [demo_run], db_checkpoints := [demo_cp ''a'' None []]\<rparr>"

definition demo_written :: db where
  "demo_written = (capture_baseline 15 demo_run demo_thread demo_before)
     \<lparr>db_checkpoints := [demo_cp ''a'' None [],
         demo_cp ''b'' (Some ''a'') [(''run_id'', JStr (uuid_str 2))]]\<rparr>"

definition demo_rolled :: db where
  "demo_rolled = (case rollback_run (demo_env 50) demo_run False demo_written of
     Inr d \<Rightarrow> d | Inl _ \<Rightarrow> demo_written)"

definition demo_chain :: db where
  "demo_chain = demo_db0\<lparr>db_checkpoints :=
     [demo_cp ''a'' None [], demo_cp ''b'' (Some ''a'') [],
      demo_cp ''c'' (Some ''b'') [(''counters_since_delta_snapshot'', JObj [(''m'', JInt 1)])]]\<rparr>"

definition demo_pruned :: db where
  "demo_pruned = (case prune_checkpoints (demo_env 60) 1 demo_chain of
     Inr d \<Rightarrow> d | Inl _ \<Rightarrow> demo_chain)"

section \<open>Properties\<close>

text \<open>
  C10: a rollback that succeeds puts back what \<open>capture_baseline\<close> saw: the thread's checkpoints
  and writes are those of the capture, whatever was written in between, the captured columns of
  the thread row have their old values, and the run is gone.
\<close>

theorem rollback_restores_captured:
  assumes "get_baseline (run_id run) d = None" "get_thread t d = Some th" "run_thread_id run = Some t"
    "get_baseline (run_id run) d2 = get_baseline (run_id run) (capture_baseline now run th d)"
    "get_thread t d2 = Some th2" "rollback_run e run False d2 = Inr d3"
  shows "thread_checkpoints t d3 = thread_checkpoints t d \<and> thread_writes t d3 = thread_writes t d \<and>
    get_thread t d3 = Some (restore_thread (thread_projection now th) th2) \<and>
    get_run (run_id run) d3 = None"
proof -
  have t: "th_id th = t" using threads_t.get_Some [OF assms(2)] by simp
  define b where "b = \<lparr>bl_run_id = run_id run, bl_thread_id = t,
       bl_checkpoints = thread_checkpoints t d, bl_writes = thread_writes t d,
       bl_projection = thread_projection now th\<rparr>"
  have b2: "get_baseline (run_id run) d2 = Some b"
    unfolding assms(4) b_def using capture_baseline_get [OF assms(1), of now th] t by (simp only:)
  have c: "cp_thread_id c = thread_key t" if "c \<in> set (bl_checkpoints b)" for c
    using that by (simp add: b_def thread_checkpoints_def)
  have w: "cw_thread_id w = thread_key t" if "w \<in> set (bl_writes b)" for w
    using that by (simp add: b_def thread_writes_def)
  have f: "bl_checkpoints b = thread_checkpoints t d" "bl_writes b = thread_writes t d"
    "bl_projection b = thread_projection now th"
    by (simp_all only: b_def baseline_row.select_convs)
  note r = rollback_restores_baseline [OF assms(6,3) b2 assms(5) c w, unfolded f]
  then show ?thesis by blast
qed

theorem rollback_restores_captured_witness:
  "map cp_id (thread_checkpoints 1 demo_written) = [''a'', ''b''] \<and>
   map cp_id (thread_checkpoints 1 demo_rolled) = [''a''] \<and> get_run 2 demo_rolled = None"
proof -
  have r: "run_id demo_run = 2" by code_simp
  have "get_baseline (run_id demo_run) demo_before = None"
    "get_thread 1 demo_before = Some demo_thread" "get_thread 1 demo_written = Some demo_thread"
    "run_thread_id demo_run = Some 1"
    by (simp_all add: demo_before_def demo_written_def demo_db0_def empty_db_def get_baseline_def
        t_get_def get_thread_def demo_thread_def demo_run_def demo_submission_def new_run_def
        capture_baseline_def)
  moreover have "get_baseline (run_id demo_run) demo_written =
      get_baseline (run_id demo_run) (capture_baseline 15 demo_run demo_thread demo_before)"
    by (simp add: demo_written_def get_baseline_def)
  moreover have "case rollback_run (demo_env 50) demo_run False demo_written of Inl _ \<Rightarrow> False | Inr _ \<Rightarrow> True"
    by code_simp
  then have "rollback_run (demo_env 50) demo_run False demo_written = Inr demo_rolled"
    unfolding demo_rolled_def by (auto split: sum.splits)
  ultimately have p: "thread_checkpoints 1 demo_rolled = thread_checkpoints 1 demo_before \<and>
      get_run (run_id demo_run) demo_rolled = None"
    using rollback_restores_captured [of demo_run demo_before 1 demo_thread demo_written 15] by blast
  have "map cp_id (thread_checkpoints 1 demo_before) = [''a'']"
    "map cp_id (thread_checkpoints 1 demo_written) = [''a'', ''b'']" by code_simp+
  with p r show ?thesis by simp
qed

text \<open>
  C11: pruning keeps, for every namespace, the head and every ancestor that a delta channel of
  the head has to be rebuilt from, with their writes, and does not touch another thread.
\<close>

theorem prune_keeps_reconstruction:
  assumes "prune_checkpoints e t d = Inr d'" "ascending (desc_rows t d)"
    "ns_head (desc_rows t d) ns = Some head"
    "needs e (live_blobs t d) (desc_rows t d) (delta_channels head) head q"
  shows "q \<in> set (thread_checkpoints t d') \<and>
    filter (\<lambda>w. (cw_ns w, cw_checkpoint_id w) = cp_key q) (thread_writes t d') =
      filter (\<lambda>w. (cw_ns w, cw_checkpoint_id w) = cp_key q) (thread_writes t d) \<and>
    filter (\<lambda>c. cp_thread_id c \<noteq> thread_key t) (db_checkpoints d') =
      filter (\<lambda>c. cp_thread_id c \<noteq> thread_key t) (db_checkpoints d)"
proof -
  note k = kept_keys_needs [OF assms(2-4)]
  have "head \<in> set (desc_rows t d)"
    using assms(3) unfolding ns_head_def by (auto dest: find_Some_in)
  then have "q \<in> set (thread_checkpoints t d)" using needs_in [OF assms(4)] by simp
  with k show ?thesis
    unfolding prune_checkpoints_Inr [OF assms(1)] by (auto intro!: filter_cong)
qed

theorem prune_keeps_reconstruction_witness:
  "map cp_id (thread_checkpoints 1 demo_pruned) = [''a'', ''b'', ''c''] \<and>
   demo_cp ''a'' None [] \<in> set (thread_checkpoints 1 demo_pruned)"
proof -
  let ?c = "demo_cp ''c'' (Some ''b'') [(''counters_since_delta_snapshot'', JObj [(''m'', JInt 1)])]"
  let ?b = "demo_cp ''b'' (Some ''a'') []" and ?a = "demo_cp ''a'' None []"
  have "case prune_checkpoints (demo_env 60) 1 demo_chain of Inl _ \<Rightarrow> False | Inr _ \<Rightarrow> True"
    by code_simp
  then have p: "prune_checkpoints (demo_env 60) 1 demo_chain = Inr demo_pruned"
    unfolding demo_pruned_def by (auto split: sum.splits)
  have rows: "desc_rows 1 demo_chain = [?c, ?b, ?a]" by code_simp
  have asc: "ascending (desc_rows 1 demo_chain)"
  proof -
    have "''a'' < ''b''" "''b'' < ''c''" by code_simp+
    then show ?thesis unfolding rows by (auto simp: ascending_def demo_cp_def)
  qed
  have head: "ns_head (desc_rows 1 demo_chain) [] = Some ?c"
    unfolding rows by (simp add: ns_head_def demo_cp_def)
  have u: "delta_channels ?c = [''m'']" by code_simp
  have l: "filter (\<lambda>ch. \<not> channel_resolved (demo_env 60) (live_blobs 1 demo_chain) r ch) [''m''] = [''m'']"
    if "r \<in> {?c, ?b}" for r
    using that by (auto simp: channel_resolved_def demo_cp_def live_blobs_def demo_chain_def
        demo_db0_def empty_db_def dhas_def dgetdef_def)
  have par: "parent_row [?c, ?b, ?a] ?c = Some ?b" "parent_row [?c, ?b, ?a] ?b = Some ?a" by code_simp+
  have "needs (demo_env 60) (live_blobs 1 demo_chain) (desc_rows 1 demo_chain) [''m''] ?c ?a"
    unfolding rows
    using l par by (intro needs.parent [OF _ _ par(1)] needs.parent [OF _ _ par(2)] needs.start) auto
  then have "?a \<in> set (thread_checkpoints 1 demo_pruned)"
    using prune_keeps_reconstruction [OF p asc head] unfolding u by blast
  moreover have "map cp_id (thread_checkpoints 1 demo_pruned) = [''a'', ''b'', ''c'']" by code_simp
  ultimately show ?thesis by blast
qed

end
