(* ===== verification/PyText.thy ===== *)
theory PyText
  imports Observability "HOL-Library.Multiset"
begin

text \<open>
  The string operations of the standard library the runtime uses: \<open>str.strip\<close>, \<open>str.split\<close>,
  \<open>str.startswith\<close>, \<open>str.rsplit\<close>, ASCII case folding, decimal parsing and the compact form of
  \<open>json.dumps\<close>. Characters are the first 256 code points.
\<close>

section \<open>Whitespace\<close>

definition is_space :: "char \<Rightarrow> bool" where
  "is_space c = ((of_char c :: nat) \<in> {9, 10, 11, 12, 13, 28, 29, 30, 31, 32, 133, 160})"

definition py_strip :: "string \<Rightarrow> string" where
  "py_strip s = rev (dropWhile is_space (rev (dropWhile is_space s)))"

text \<open>\<open>s.split()\<close>: the maximal runs of non-blank characters.\<close>

fun words_acc :: "string \<Rightarrow> string \<Rightarrow> string list" where
  "words_acc acc [] = (if acc = [] then [] else [rev acc])"
| "words_acc acc (c # cs) =
     (if is_space c then (if acc = [] then words_acc [] cs else rev acc # words_acc [] cs)
      else words_acc (c # acc) cs)"

definition py_words :: "string \<Rightarrow> string list" where
  "py_words s = words_acc [] s"

section \<open>Splitting\<close>

text \<open>\<open>s.split(sep, 1)\<close> at one character: \<open>None\<close> when the separator does not occur.\<close>

fun split_once :: "char \<Rightarrow> string \<Rightarrow> (string \<times> string) option" where
  "split_once sep [] = None"
| "split_once sep (c # cs) =
     (if c = sep then Some ([], cs)
      else case split_once sep cs of None \<Rightarrow> None | Some (a, b) \<Rightarrow> Some (c # a, b))"

fun split_all :: "char \<Rightarrow> string \<Rightarrow> string list" where
  "split_all sep [] = [[]]"
| "split_all sep (c # cs) =
     (if c = sep then [] # split_all sep cs
      else case split_all sep cs of [] \<Rightarrow> [[c]] | w # ws \<Rightarrow> (c # w) # ws)"

fun join :: "string \<Rightarrow> string list \<Rightarrow> string" where
  "join sep [] = []"
| "join sep [x] = x"
| "join sep (x # y # xs) = x @ sep @ join sep (y # xs)"

definition starts_with :: "string \<Rightarrow> string \<Rightarrow> bool" where
  "starts_with p s = (take (length p) s = p)"

definition lower_char :: "char \<Rightarrow> char" where
  "lower_char c =
     (let n = of_char c :: nat in if 65 \<le> n \<and> n \<le> 90 then char_of (n + 32) else c)"

definition ascii_lower :: "string \<Rightarrow> string" where
  "ascii_lower s = map lower_char s"

section \<open>Decimal numbers\<close>

definition is_digit :: "char \<Rightarrow> bool" where
  "is_digit c = (let n = of_char c :: nat in 48 \<le> n \<and> n \<le> 57)"

fun digits_val :: "nat \<Rightarrow> string \<Rightarrow> nat option" where
  "digits_val acc [] = Some acc"
| "digits_val acc (c # cs) =
     (if is_digit c then digits_val (10 * acc + (of_char c - 48)) cs else None)"

text \<open>
  \<open>int(s)\<close> of a string: blanks around, a sign, at least one digit, single underscores between
  digits.
\<close>

definition parse_nat :: "string \<Rightarrow> nat option" where
  "parse_nat s =
     (if [] \<in> set (split_all CHR ''_'' s) then None
      else digits_val 0 (filter (\<lambda>c. c \<noteq> CHR ''_'') s))"

definition parse_int :: "string \<Rightarrow> int option" where
  "parse_int s =
     (case py_strip s of
        [] \<Rightarrow> None
      | c # cs \<Rightarrow>
          if c = CHR ''-'' then map_option (\<lambda>n. - int n) (parse_nat cs)
          else if c = CHR ''+'' then map_option int (parse_nat cs)
          else map_option int (parse_nat (c # cs)))"

section \<open>JSON text\<close>

definition json_char :: "char \<Rightarrow> string" where
  "json_char c =
     (let n = of_char c :: nat in
      if n = 34 then [CHR 0x5C, CHR 0x22]
      else if n = 92 then [CHR 0x5C, CHR 0x5C]
      else if n = 10 then [CHR 0x5C] @ ''n''
      else if n = 13 then [CHR 0x5C] @ ''r''
      else if n = 9 then [CHR 0x5C] @ ''t''
      else if n = 8 then [CHR 0x5C] @ ''b''
      else if n = 12 then [CHR 0x5C] @ ''f''
      else if n < 32 then [CHR 0x5C] @ ''u00'' @ [hex_digit (n div 16), hex_digit (n mod 16)]
      else [c])"

definition json_string :: "string \<Rightarrow> string" where
  "json_string s = [CHR 0x22] @ concat (map json_char s) @ [CHR 0x22]"

text \<open>\<open>json.dumps(v, ensure_ascii=False, separators=(",", ":"))\<close>.\<close>

fun json_dumps :: "env \<Rightarrow> json \<Rightarrow> string"
  and dumps_list :: "env \<Rightarrow> json list \<Rightarrow> string list"
  and dumps_items :: "env \<Rightarrow> (string \<times> json) list \<Rightarrow> string list" where
  "json_dumps e JNull = ''null''"
| "json_dumps e (JBool b) = (if b then ''true'' else ''false'')"
| "json_dumps e (JInt i) = int_str i"
| "json_dumps e (JFloat r) = e_repr e (JFloat r)"
| "json_dumps e (JStr s) = json_string s"
| "json_dumps e (JList xs) = ''['' @ join '','' (dumps_list e xs) @ '']''"
| "json_dumps e (JObj d) = ''{'' @ join '','' (dumps_items e d) @ ''}''"
| "dumps_list e [] = []"
| "dumps_list e (x # xs) = json_dumps e x # dumps_list e xs"
| "dumps_items e [] = []"
| "dumps_items e ((k, v) # d) = (json_string k @ '':'' @ json_dumps e v) # dumps_items e d"

definition utf8_length :: "string \<Rightarrow> nat" where
  "utf8_length s = sum_list (map (\<lambda>c. if (of_char c :: nat) < 128 then 1 else 2) s)"

text \<open>Objects with their keys in order, as \<open>sort_keys=True\<close> writes them.\<close>

fun canon :: "json \<Rightarrow> json"
  and canon_list :: "json list \<Rightarrow> json list"
  and canon_items :: "(string \<times> json) list \<Rightarrow> (string \<times> json) list" where
  "canon (JObj d) = JObj (sort_key fst (canon_items d))"
| "canon (JList xs) = JList (canon_list xs)"
| "canon v = v"
| "canon_list [] = []"
| "canon_list (x # xs) = canon x # canon_list xs"
| "canon_items [] = []"
| "canon_items ((k, v) # d) = (k, canon v) # canon_items d"

section \<open>Lemmas\<close>

lemma split_once_app:
  "sep \<notin> set a \<Longrightarrow> split_once sep (a @ sep # b) = Some (a, b)"
  by (induction a) auto

lemma split_once_Some: "split_once sep s = Some (a, b) \<Longrightarrow> s = a @ sep # b \<and> sep \<notin> set a"
  by (induction s arbitrary: a) (auto split: if_splits option.splits)

lemma split_all_join:
  "\<forall>w \<in> set ws. sep \<notin> set w \<Longrightarrow> ws \<noteq> [] \<Longrightarrow> split_all sep (join [sep] ws) = ws"
proof (induction "[sep]" ws rule: join.induct)
  case (2 x)
  then show ?case by (induction x) auto
next
  case (3 x y xs)
  have "split_all sep (x @ sep # rest) = x # split_all sep rest" if "sep \<notin> set x" for rest
    using that by (induction x) auto
  with 3 show ?case by simp
qed simp

lemma py_strip_idem [simp]: "py_strip (py_strip s) = py_strip s"
proof -
  have d: "dropWhile P (rev (dropWhile P (rev (dropWhile P s)))) = rev (dropWhile P (rev (dropWhile P s)))"
    for P and s :: string
  proof (cases "rev (dropWhile P (rev (dropWhile P s)))")
    case (Cons c cs)
    have "\<not> P c"
    proof -
      obtain ys where "dropWhile P s = (c # cs) @ ys"
        by (metis Cons dropWhile_append3 rev_append rev_rev_ident takeWhile_dropWhile_id)
      then have "dropWhile P s = c # (cs @ ys)" by simp
      then show ?thesis by (metis dropWhile_eq_Cons_conv)
    qed
    with Cons show ?thesis by simp
  next
    case Nil
    show ?thesis unfolding Nil by simp
  qed
  have r: "dropWhile P (dropWhile P t) = dropWhile P t" for P and t :: string
    by (rule dropWhile_idem)
  show ?thesis
    unfolding py_strip_def d by (simp add: r)
qed

lemma digits_val_append:
  "digits_val acc (xs @ ys) = (case digits_val acc xs of None \<Rightarrow> None | Some a \<Rightarrow> digits_val a ys)"
  by (induction xs arbitrary: acc) (auto split: option.split)

lemma digits_val_digit: "d < 10 \<Longrightarrow> digits_val a [char_of (48 + d)] = Some (10 * a + d)"
  for d :: nat
  by (simp add: is_digit_def Let_def)

lemma digits_val_nat_str: "digits_val 0 (nat_str n) = Some n"
proof (induction n rule: nat_str.induct)
  case (1 n)
  show ?case
  proof (cases "n < 10")
    case True
    then show ?thesis using digits_val_digit [of n 0] by (simp add: nat_str.simps [of n])
  next
    case False
    with 1 have "digits_val 0 (nat_str (n div 10)) = Some (n div 10)" by simp
    then show ?thesis
      using False digits_val_digit [of "n mod 10" "n div 10"]
      by (simp add: nat_str.simps [of n] digits_val_append del: digits_val.simps)
  qed
qed

lemma nat_str_digits: "c \<in> set (nat_str n) \<Longrightarrow> is_digit c"
proof (induction n rule: nat_str.induct)
  case (1 n)
  have d: "is_digit (char_of (48 + d))" if "d < 10" for d :: nat
    using that by (simp add: is_digit_def Let_def)
  show ?case
  proof (cases "n < 10")
    case True
    with 1 d [of n] show ?thesis by (simp add: nat_str.simps [of n])
  next
    case False
    with 1 d [of "n mod 10"] show ?thesis by (auto simp: nat_str.simps [of n])
  qed
qed

lemma nat_str_ne: "nat_str n \<noteq> []"
  by (subst nat_str.simps) auto

lemma py_strip_none: "(\<And>c. c \<in> set s \<Longrightarrow> \<not> is_space c) \<Longrightarrow> py_strip s = s"
proof -
  assume a: "\<And>c. c \<in> set s \<Longrightarrow> \<not> is_space c"
  have d: "dropWhile is_space xs = xs" if "\<And>c. c \<in> set xs \<Longrightarrow> \<not> is_space c" for xs
    using that by (cases xs) auto
  from a d [of "rev s"] d [of s] show ?thesis by (simp add: py_strip_def)
qed

lemma digit_facts:
  assumes "is_digit c"
  shows "\<not> is_space c" "c \<noteq> CHR ''-''" "c \<noteq> CHR ''+''"
  using assms by (auto simp: is_digit_def is_space_def Let_def)

lemma split_all_none: "sep \<notin> set s \<Longrightarrow> split_all sep s = [s]"
  by (induction s) auto

lemma digit_no_underscore: "is_digit c \<Longrightarrow> c \<noteq> CHR ''_''"
  by (auto simp: is_digit_def Let_def)

lemma parse_nat_nat_str: "parse_nat (nat_str n) = Some n"
proof -
  have n: "c \<noteq> CHR ''_''" if "c \<in> set (nat_str n)" for c
    using nat_str_digits [OF that] by (rule digit_no_underscore)
  then have "CHR ''_'' \<notin> set (nat_str n)" by blast
  moreover have "filter (\<lambda>c. c \<noteq> CHR ''_'') (nat_str n) = nat_str n"
    using n by (intro filter_True) blast
  ultimately show ?thesis
    using nat_str_ne [of n] digits_val_nat_str [of n]
    by (simp add: parse_nat_def split_all_none del: digits_val.simps)
qed

lemma parse_int_nat_str: "parse_int (nat_str n) = Some (int n)"
proof -
  obtain c cs where c: "nat_str n = c # cs" using nat_str_ne by (cases "nat_str n") auto
  then have "is_digit c" using nat_str_digits [of c n] by simp
  moreover have "py_strip (nat_str n) = nat_str n"
    using nat_str_digits digit_facts(1) by (intro py_strip_none) blast
  moreover have "parse_nat (c # cs) = Some n"
    using parse_nat_nat_str [of n] c by simp
  ultimately show ?thesis
    using digit_facts by (simp add: parse_int_def c)
qed

lemma parse_int_int_str: "parse_int (int_str i) = Some i"
proof (cases "i < 0")
  case False
  then show ?thesis by (simp add: int_str_def parse_int_nat_str)
next
  case True
  have "\<not> is_space c" if "c \<in> set (CHR ''-'' # nat_str n)" for c n
    using that nat_str_digits digit_facts(1) by (auto simp: is_space_def)
  then have "py_strip (CHR ''-'' # nat_str (nat (- i))) = CHR ''-'' # nat_str (nat (- i))"
    by (intro py_strip_none) blast
  with True show ?thesis
    by (simp add: int_str_def parse_int_def parse_nat_nat_str)
qed

end
