(* ===== verification/ProtocolEvents.thy ===== *)
theory ProtocolEvents
  imports PyText
begin

text \<open>
  The public event contract of \<open>protocol.py\<close>: the capability document, the projection of an
  internal worker event into the typed v3 envelope (\<open>project_v3_event\<close>) and into the thread
  protocol envelope (\<open>protocol_event\<close>).
\<close>

section \<open>Conversions\<close>

text \<open>\<open>int(value)\<close>: \<open>None\<close> where it raises \<open>TypeError\<close> or \<open>ValueError\<close>.\<close>

fun py_int :: "json \<Rightarrow> int option" where
  "py_int (JInt i) = Some i"
| "py_int (JBool b) = Some (if b then 1 else 0)"
| "py_int (JFloat r) = Some (if r < 0 then - \<lfloor>- r\<rfloor> else \<lfloor>r\<rfloor>)"
| "py_int (JStr s) = parse_int s"
| "py_int _ = None"

text \<open>\<open>[str(item) for item in value]\<close> of a list value, else the empty list.\<close>

definition str_items :: "env \<Rightarrow> json \<Rightarrow> string list" where
  "str_items e v = (case v of JList xs \<Rightarrow> map (py_str e) xs | _ \<Rightarrow> [])"

definition strs :: "string list \<Rightarrow> json" where
  "strs xs = JList (map JStr xs)"

section \<open>Capabilities\<close>

record capability =
  ca_name :: string
  ca_profile :: string
  ca_available :: bool
  ca_reason :: "string option"

definition capability_dict :: "capability \<Rightarrow> dict" where
  "capability_dict c =
     (let value = [(''name'', JStr (ca_name c)), (''profile'', JStr (ca_profile c)),
                   (''available'', JBool (ca_available c))]
      in case ca_reason c of
           Some (x # xs) \<Rightarrow> dset ''reason'' (JStr (x # xs)) value
         | _ \<Rightarrow> value)"

definition core_capability :: "string \<Rightarrow> string \<Rightarrow> capability" where
  "core_capability name profile =
     \<lparr>ca_name = name, ca_profile = profile, ca_available = True, ca_reason = None\<rparr>"

definition CORE_CAPABILITIES :: "capability list" where
  "CORE_CAPABILITIES =
     map (\<lambda>n. core_capability n ''core'')
       [''assistants'', ''threads'', ''runs'', ''cron'', ''stream_v2'', ''events_v2'', ''events_v3'']
     @ [core_capability ''store'' ''extended'']"

definition capability_document :: dict where
  "capability_document =
     [(''protocol'', JStr ''langgraph-agent-server''), (''protocol_version'', JStr ''v2''),
      (''implementation_profile'', JStr ''core-resource-foundation''),
      (''run_statuses'', strs (sort PUBLIC_RUN_STATUSES)),
      (''capabilities'', JList (map (\<lambda>c. JObj (capability_dict c)) CORE_CAPABILITIES)),
      (''authentication'', JObj [(''production'', JStr ''application-auth'')])]"

section \<open>The v3 projection\<close>

definition lifecycle_phase :: "string \<Rightarrow> string" where
  "lifecycle_phase status =
     (if status = ''running'' then ''running''
      else if status = ''success'' then ''completed''
      else if status = ''error'' then ''failed''
      else if status = ''timeout'' then ''failed''
      else if status = ''interrupted'' then ''interrupted''
      else ''running'')"

definition copy_keys :: "dict \<Rightarrow> string list \<Rightarrow> dict \<Rightarrow> dict" where
  "copy_keys event keys data =
     fold (\<lambda>k acc. if dhas event k then dset k (dget event k) acc else acc) keys data"

definition event_method :: "env \<Rightarrow> dict \<Rightarrow> dict \<Rightarrow> string" where
  "event_method e event params =
     py_str e (dgetor event ''method'' (dgetor event ''event''
                 (dgetor params ''method'' (JStr ''custom''))))"

definition lifecycle_data :: "env \<Rightarrow> dict \<Rightarrow> json" where
  "lifecycle_data e event =
     (let status = py_str e (dget event ''status'')
      in JObj (copy_keys event
           [''graph_name'', ''cause'', ''reason'', ''output'', ''error'', ''interrupts'']
           [(''event'', JStr (lifecycle_phase status)), (''status'', JStr status)]))"

definition input_data :: "json \<Rightarrow> json" where
  "input_data data =
     (case data of
        JObj d \<Rightarrow> if dhas d ''event'' then JObj d
                  else JObj (dmerge [(''event'', JStr ''requested'')] d)
      | _ \<Rightarrow> data)"

definition event_timestamp :: "env \<Rightarrow> dict \<Rightarrow> dict \<Rightarrow> int" where
  "event_timestamp e event params =
     (case parse_int (py_str e (dgetdef params ''timestamp'' (dget event ''timestamp''))) of
        Some i \<Rightarrow> i
      | None \<Rightarrow> e_now e div 1000)"

record v3_event =
  v3_method :: string
  v3_namespace :: "string list"
  v3_timestamp :: int
  v3_data :: json
  v3_interrupts :: "json option"
  v3_seq :: "int option"

text \<open>The dictionary \<open>project_v3_event\<close> returns.\<close>

definition v3_dict :: "v3_event \<Rightarrow> dict" where
  "v3_dict v =
     [(''method'', JStr (v3_method v)),
      (''params'', JObj
        ([(''namespace'', strs (v3_namespace v)), (''timestamp'', JInt (v3_timestamp v)),
          (''data'', v3_data v)]
         @ (case v3_interrupts v of None \<Rightarrow> [] | Some i \<Rightarrow> [(''interrupts'', i)])))]
     @ (case v3_seq v of None \<Rightarrow> [] | Some s \<Rightarrow> [(''seq'', JInt s)])"

definition project_v3_event :: "env \<Rightarrow> dict \<Rightarrow> int option \<Rightarrow> json list \<Rightarrow> v3_event" where
  "project_v3_event e event sequence fallback =
     (let params = obj_of (dget event ''params'');
          method0 = event_method e event params;
          namespace = str_items e (dgetdef params ''namespace''
                        (dgetdef event ''namespace'' (JList fallback)));
          data0 = (if dhas params ''data'' then dget params ''data'' else dget event ''data'');
          data1 = (if method0 = ''lifecycle'' \<and> data0 = JNull \<and> truthy (dget event ''status'')
                   then lifecycle_data e event else data0);
          method = (if method0 = ''input.requested'' then ''input'' else method0);
          data = (if method0 = ''input.requested'' then input_data data1 else data1);
          interrupts = dgetdef params ''interrupts'' (dget event ''interrupts'')
      in \<lparr>v3_method = method, v3_namespace = namespace,
          v3_timestamp = event_timestamp e event params, v3_data = data,
          v3_interrupts = (if truthy interrupts then Some interrupts else None),
          v3_seq = (case sequence of Some s \<Rightarrow> Some s | None \<Rightarrow> py_int (dget event ''seq''))\<rparr>)"

section \<open>The thread protocol envelope\<close>

text \<open>The payload and the node of a \<open>messages\<close> event carrying a (payload, metadata) pair.\<close>

definition message_start :: "dict \<Rightarrow> dict \<Rightarrow> dict" where
  "message_start payload metadata =
     (if dget payload ''event'' = JStr ''message-start''
      then dset ''metadata'' (JObj metadata)
             (dset ''id'' (dgetor payload ''id'' (dgetor payload ''message_id''
                (dget metadata ''run_id''))) payload)
      else payload)"

definition message_payload :: "string \<Rightarrow> json \<Rightarrow> json \<times> json" where
  "message_payload name data =
     (if name = ''messages''
      then (case data of
          JList [JObj payload, JObj metadata] \<Rightarrow>
            if dhas payload ''event''
            then (JObj (message_start payload metadata), dget metadata ''langgraph_node'')
            else (data, JNull)
        | _ \<Rightarrow> (data, JNull))
      else (data, JNull))"

definition copy_truthy :: "dict \<Rightarrow> string \<Rightarrow> dict \<Rightarrow> dict" where
  "copy_truthy event k data =
     (if truthy (dget event k) then dset k (dget event k) data else data)"

definition protocol_lifecycle :: "env \<Rightarrow> dict \<Rightarrow> dict" where
  "protocol_lifecycle e event =
     (let status = py_str e (dgetor event ''status'' (JStr []));
          d0 = [(''event'', JStr (lifecycle_phase status)), (''status'', JStr status)];
          d1 = copy_truthy event ''reason'' (copy_keys event [''graph_name'', ''cause''] d0)
      in copy_truthy event ''interrupts'' (copy_keys event [''output'', ''error''] d1))"

definition input_payload :: "json \<Rightarrow> json" where
  "input_payload data =
     (case data of
        JObj d \<Rightarrow> if dhas d ''value'' then JObj (dset ''payload'' (dget d ''value'') d) else data
      | _ \<Rightarrow> data)"

text \<open>The child scope a lifecycle payload announces, and its error reduced to the message.\<close>

definition child_namespace :: "dict \<Rightarrow> string list \<Rightarrow> string list" where
  "child_namespace data namespace =
     (case dget data ''namespace'' of
        JList xs \<Rightarrow>
          if list_all is_str xs \<and> length xs > length namespace
          then concat (map (\<lambda>x. case x of JStr s \<Rightarrow> [s] | _ \<Rightarrow> []) xs)
          else namespace
      | _ \<Rightarrow> namespace)"

definition error_message :: "dict \<Rightarrow> dict" where
  "error_message data =
     (case dget data ''error'' of
        JObj err \<Rightarrow> if dhas err ''message'' then dset ''error'' (dget err ''message'') data else data
      | _ \<Rightarrow> data)"

definition protocol_event ::
  "env \<Rightarrow> string \<Rightarrow> int \<Rightarrow> string \<Rightarrow> string \<Rightarrow> dict \<Rightarrow> dict res" where
  "protocol_event e event_id sequence rid tid event =
     (let name = py_str e (dgetor event ''event'' (dgetor event ''method'' (JStr ''custom'')))
      in rbind (py_list (dgetor event ''namespace'' (JList []))) (\<lambda>ns0.
      let namespace = map (py_str e) ns0;
          (data0, node) = message_payload name (dget event ''data'');
          data1 = (if name = ''lifecycle'' \<and> truthy (dget event ''status'')
                   then JObj (protocol_lifecycle e event)
                   else if name = ''input.requested'' then input_payload data0
                   else data0);
          (namespace', data) =
            (case (name = ''lifecycle'', data1) of
               (True, JObj d) \<Rightarrow> (child_namespace d namespace, JObj (error_message d))
             | _ \<Rightarrow> (namespace, data1))
      in Inr [(''type'', JStr ''event''), (''event_id'', JStr event_id), (''seq'', JInt sequence),
          (''method'', JStr name),
          (''params'', JObj
            ([(''namespace'', strs namespace')]
             @ (if node \<noteq> JNull then [(''node'', node)] else [])
             @ [(''timestamp'', JInt (v3_timestamp (project_v3_event e event None []))),
                (''data'', data), (''run_id'', JStr rid), (''thread_id'', JStr tid),
                (''interrupts'', dgetor event ''interrupts'' (JList []))]))]))"

section \<open>Lemmas\<close>

lemma str_items_strs [simp]: "str_items e (strs xs) = xs"
  by (simp add: str_items_def strs_def comp_def)

lemma py_str_truthy:
  assumes "truthy v" "\<And>x. e_repr e x \<noteq> []"
  shows "py_str e v \<noteq> []"
proof (cases v)
  case (JInt i)
  then show ?thesis using nat_str_ne by (simp add: int_str_def)
qed (use assms in auto)

lemma event_method_ne:
  assumes "\<And>x. e_repr e x \<noteq> []"
  shows "event_method e event params \<noteq> []"
  unfolding event_method_def by (rule py_str_truthy [OF _ assms]) (simp add: dgetor_def Let_def)

lemma v3_method_ne:
  assumes "\<And>x. e_repr e x \<noteq> []"
  shows "v3_method (project_v3_event e event sequence fallback) \<noteq> []"
  using event_method_ne [OF assms] by (simp add: project_v3_event_def Let_def)

lemma v3_method_not_requested:
  "v3_method (project_v3_event e event sequence fallback) \<noteq> ''input.requested''"
  by (simp add: project_v3_event_def Let_def)

lemma v3_interrupts_truthy:
  "v3_interrupts (project_v3_event e event sequence fallback) = Some i \<Longrightarrow> truthy i"
  by (auto simp: project_v3_event_def Let_def split: if_splits)

lemma v3_fields [simp]:
  "dget (v3_dict v) ''method'' = JStr (v3_method v)"
  "dget (v3_dict v) ''status'' = JNull" "dget (v3_dict v) ''interrupts'' = JNull"
  "dget (v3_dict v) ''seq'' = (case v3_seq v of None \<Rightarrow> JNull | Some s \<Rightarrow> JInt s)"
  by (simp_all add: v3_dict_def dget_def split: option.split)

lemma v3_params [simp]:
  "dget (obj_of (dget (v3_dict v) ''params'')) ''data'' = v3_data v"
  "dhas (obj_of (dget (v3_dict v) ''params'')) ''data''"
  "dgetdef (obj_of (dget (v3_dict v) ''params'')) ''namespace'' x = strs (v3_namespace v)"
  "dgetdef (obj_of (dget (v3_dict v) ''params'')) ''timestamp'' x = JInt (v3_timestamp v)"
  "dgetdef (obj_of (dget (v3_dict v) ''params'')) ''interrupts'' x =
     (case v3_interrupts v of None \<Rightarrow> x | Some i \<Rightarrow> i)"
  by (simp_all add: v3_dict_def dget_def dhas_def dgetdef_def map_of_append map_add_def split: option.split)

text \<open>An envelope whose fields are normal is a fixed point of the projection.\<close>

lemma project_normal:
  assumes "v3_method v \<noteq> []" "v3_method v \<noteq> ''input.requested''"
    "\<And>i. v3_interrupts v = Some i \<Longrightarrow> truthy i"
  shows "project_v3_event e (v3_dict v) None fallback = v"
proof -
  have m: "event_method e (v3_dict v) p = v3_method v" for p
    using assms(1) by (simp add: event_method_def dgetor_def)
  have t: "event_timestamp e (v3_dict v) (obj_of (dget (v3_dict v) ''params'')) = v3_timestamp v"
    by (simp add: event_timestamp_def parse_int_int_str)
  have s: "py_int (dget (v3_dict v) ''seq'') = v3_seq v"
    by (simp split: option.split)
  show ?thesis
    using assms(2,3)
    unfolding project_v3_event_def Let_def m t s
    by (intro v3_event.equality) (auto split: option.split)
qed

end
