(* ===== verification/Streaming.thy ===== *)
theory Streaming
  imports ProtocolEvents EventLog
begin

text \<open>
  Event delivery over server-sent events (\<open>langhost/streaming.py\<close>): the frame encoder, the
  request cursors, the replay reads of the durable log, one pass of a thread stream, and the
  run stream as a machine over its prologue and the messages and silences that follow. Time
  only decides when a heartbeat is due, so the decisions are arguments.
\<close>

section \<open>Frames\<close>

text \<open>\<open>str.splitlines\<close>.\<close>

definition is_break :: "char \<Rightarrow> bool" where
  "is_break c = ((of_char c :: nat) \<in> {10, 11, 12, 13, 28, 29, 30, 133})"

fun lines_acc :: "string \<Rightarrow> string \<Rightarrow> string list" where
  "lines_acc acc [] = (if acc = [] then [] else [rev acc])"
| "lines_acc acc (c # cs) =
     (if is_break c
      then rev acc # (case cs of
             d # ds \<Rightarrow> if c = CHR 0x0D \<and> d = CHR 0x0A then lines_acc [] ds else lines_acc [] (d # ds)
           | [] \<Rightarrow> [])
      else lines_acc (c # acc) cs)"

definition splitlines :: "string \<Rightarrow> string list" where
  "splitlines s = lines_acc [] s"

text \<open>\<open>_sse\<close>: \<open>data = JNull\<close> is \<open>None\<close>; values are JSON already, so \<open>_jsonable\<close> is the identity.\<close>

definition newline :: string where
  "newline = [CHR 0x0A]"

definition sse :: "env \<Rightarrow> string \<Rightarrow> json \<Rightarrow> string option \<Rightarrow> bool \<Rightarrow> string" where
  "sse e event data event_id event_id_last =
     (let id_line = (case event_id of None \<Rightarrow> [] | Some i \<Rightarrow> [''id: '' @ i]);
          encoded = json_dumps e data;
          data_lines =
            (if data = JNull then []
             else map (\<lambda>l. ''data: '' @ l)
                    (let ls = splitlines encoded in if ls = [] then [encoded] else ls))
      in join newline
           ((if event_id_last then [] else id_line) @ [''event: '' @ event] @ data_lines
            @ (if event_id_last then id_line else []) @ [[]])
         @ newline)"

section \<open>Request parameters\<close>

definition stream_modes :: "env \<Rightarrow> dict \<Rightarrow> string set" where
  "stream_modes e payload =
     (let values = (case dgetdef payload ''stream_mode'' (JStr ''values'') of
                      JStr s \<Rightarrow> {s}
                    | JList xs \<Rightarrow> set (map (py_str e) xs)
                    | _ \<Rightarrow> {''values''})
      in values
         \<union> (if ''messages-tuple'' \<in> values \<or> ''messages'' \<in> values then {''messages''} else {})
         \<union> (if ''events'' \<in> values then {''events''} else {}))"

definition thread_modes_known :: "string list" where
  "thread_modes_known = [''lifecycle'', ''run_modes'', ''state_update'']"

definition thread_stream_modes :: "string option \<Rightarrow> string set res" where
  "thread_stream_modes raw =
     (let modes = (case raw of
             Some (c # cs) \<Rightarrow> map py_strip (split_all CHR '','' (c # cs))
           | _ \<Rightarrow> [''run_modes'']);
          invalid = filter (\<lambda>m. m \<notin> set thread_modes_known) modes
      in case min_by id invalid of
           Some m \<Rightarrow> Inl (HTTPException 422 (''Invalid stream mode: '' @ m))
         | None \<Rightarrow> Inr (set modes))"

definition digits1 :: "string \<Rightarrow> bool" where
  "digits1 s = (s \<noteq> [] \<and> list_all is_digit s)"

definition thread_cursor :: "string option \<Rightarrow> int res" where
  "thread_cursor value =
     (case value of
        None \<Rightarrow> Inr (- 1)
      | Some s \<Rightarrow>
          if s = ''-'' then Inr 0
          else (case split_once CHR ''-'' s of
              Some (a, b) \<Rightarrow>
                if digits1 a \<and> digits1 b then
                  (case parse_int a of
                     Some n \<Rightarrow> Inr n
                   | None \<Rightarrow> Inl (ValueError ''invalid literal for int()''))
                else Inl (HTTPException 422 ''Invalid last-event-id: must be a valid Redis stream ID'')
            | None \<Rightarrow>
                Inl (HTTPException 422 ''Invalid last-event-id: must be a valid Redis stream ID'')))"

definition run_cursor :: "string option \<Rightarrow> int" where
  "run_cursor value =
     (case value of
        Some (c # cs) \<Rightarrow> (case parse_int (c # cs) of Some n \<Rightarrow> max n 0 | None \<Rightarrow> 0)
      | _ \<Rightarrow> 0)"

section \<open>Reading the log\<close>

definition rows_after :: "int \<Rightarrow> event_row list \<Rightarrow> event_row list" where
  "rows_after c evs = sort_key ev_sequence (filter (\<lambda>v. c < ev_sequence v) evs)"

definition thread_log :: "uuid \<Rightarrow> db \<Rightarrow> event_row list" where
  "thread_log t d = filter (\<lambda>v. ev_thread_id v = Some t) (db_events d)"

definition run_log :: "uuid \<Rightarrow> db \<Rightarrow> event_row list" where
  "run_log r d = filter (\<lambda>v. ev_run_id v = Some r) (db_events d)"

definition thread_events :: "uuid \<Rightarrow> int \<Rightarrow> db \<Rightarrow> int \<times> event_row list" where
  "thread_events t c d =
     (case get_thread t d of
        None \<Rightarrow> (0, [])
      | Some th \<Rightarrow> (th_event_pruned_through th, rows_after c (thread_log t d)))"

definition thread_event_sequence :: "uuid \<Rightarrow> db \<Rightarrow> int" where
  "thread_event_sequence t d = max_or0 (thread_sequences t d)"

definition load_events :: "uuid \<Rightarrow> int \<Rightarrow> db \<Rightarrow> event_row list" where
  "load_events r c d = rows_after c (run_log r d)"

text \<open>\<open>authorized\<close> is the outcome of \<open>_authorized_run\<close> in the same transaction.\<close>

definition run_replay :: "bool \<Rightarrow> uuid \<Rightarrow> int \<Rightarrow> db \<Rightarrow> run_row option \<times> event_row list" where
  "run_replay authorized r c d =
     (if \<not> authorized then (None, []) else (get_run r d, load_events r c d))"

definition event_envelope :: "event_row \<Rightarrow> dict" where
  "event_envelope row =
     [(''id'', JStr (uuid_str (ev_id row))), (''seq'', JInt (ev_sequence row)),
      (''run_id'', opt_str (ev_run_id row)), (''thread_id'', opt_str (ev_thread_id row)),
      (''event'', JObj (ev_payload row)), (''namespace'', JList (ev_namespace row))]"

text \<open>
  \<open>(kwargs ->> 'stream_resumable')::boolean IS TRUE\<close>: PostgreSQL reads a boolean from the
  text, whatever the JSON type.
\<close>

definition cast_boolean :: "string \<Rightarrow> bool res" where
  "cast_boolean s =
     (let w = ascii_lower (py_strip s)
      in if w \<in> set [''t'', ''tr'', ''tru'', ''true'', ''y'', ''ye'', ''yes'', ''on'', ''1''] then Inr True
         else if w \<in> set [''f'', ''fa'', ''fal'', ''fals'', ''false'', ''n'', ''no'', ''of'', ''off'', ''0'']
              then Inr False
         else Inl (DataError ''invalid input syntax for type boolean''))"

definition sql_true :: "env \<Rightarrow> json \<Rightarrow> bool res" where
  "sql_true e v =
     (case v of
        JNull \<Rightarrow> Inr False
      | JStr s \<Rightarrow> cast_boolean s
      | _ \<Rightarrow> cast_boolean (json_dumps e v))"

fun resumable_run_ids :: "env \<Rightarrow> uuid list \<Rightarrow> db \<Rightarrow> uuid list res" where
  "resumable_run_ids e [] d = Inr []"
| "resumable_run_ids e (r # rs) d =
     rbind (case get_run r d of
              None \<Rightarrow> Inr False
            | Some run \<Rightarrow> sql_true e (dget (run_kwargs run) ''stream_resumable'')) (\<lambda>b.
     rbind (resumable_run_ids e rs d) (\<lambda>ids. Inr (if b then r # ids else ids)))"

section \<open>The thread stream\<close>

text \<open>The frame of an event: its name, data and identifier.\<close>

type_synonym frame = "string \<times> json \<times> string"

definition row_name :: "env \<Rightarrow> dict \<Rightarrow> string" where
  "row_name e event = py_str e (dgetor event ''event'' (dgetor event ''method'' (JStr ''custom'')))"

definition sequence_id :: "event_row \<Rightarrow> string" where
  "sequence_id row = int_str (ev_sequence row) @ ''-0''"

definition opt_uuid_str :: "uuid option \<Rightarrow> string" where
  "opt_uuid_str u = (case u of None \<Rightarrow> ''None'' | Some i \<Rightarrow> uuid_str i)"

definition run_attempt :: "event_row \<Rightarrow> (uuid \<Rightarrow> int option) \<Rightarrow> db \<Rightarrow> int" where
  "run_attempt row attempts d =
     (case ev_run_id row of
        None \<Rightarrow> 1
      | Some r \<Rightarrow>
          (case attempts r of
             Some n \<Rightarrow> n
           | None \<Rightarrow> (case get_run r d of None \<Rightarrow> 1 | Some run \<Rightarrow> max (run_retry_count run) 1)))"

definition thread_frame ::
  "env \<Rightarrow> event_row \<Rightarrow> string set \<Rightarrow> (uuid \<Rightarrow> int option) \<Rightarrow> db \<Rightarrow> frame option" where
  "thread_frame e row modes attempts d =
     (let event = ev_payload row; name = row_name e event
      in if name = ''lifecycle'' then
           (let status = py_str e (dgetor event ''status'' (JStr []))
            in if status = ''running'' then
                 (if ''lifecycle'' \<notin> modes \<and> ''run_modes'' \<notin> modes then None
                  else Some (''metadata'',
                    JObj [(''run_id'', JStr (opt_uuid_str (ev_run_id row))),
                          (''attempt'', JInt (run_attempt row attempts d))], sequence_id row))
               else if status \<in> set TERMINAL_RUN_STATUSES then
                 (if ''lifecycle'' \<notin> modes \<and> ''run_modes'' \<notin> modes then None
                  else Some (''metadata'',
                    JObj [(''status'', JStr ''run_done''),
                          (''run_id'', JStr (opt_uuid_str (ev_run_id row)))], sequence_id row))
               else None)
         else if name = ''state_update'' \<and> ''state_update'' \<notin> modes then None
         else if name \<noteq> ''state_update'' \<and> ''run_modes'' \<notin> modes then None
         else Some (name, dget event ''data'', sequence_id row))"

text \<open>
  The state of an open thread stream: the cursor, and whether the first pass is still to come.
  One pass reads the log after the cursor; on the first pass it passes over the events of runs
  that are not resumable. \<open>d\<close> is the database of the event read, \<open>d'\<close> that of the reads after
  it.
\<close>

record thread_stream =
  ts_cursor :: int
  ts_initial :: bool

definition open_thread_stream :: "uuid \<Rightarrow> int \<Rightarrow> db \<Rightarrow> thread_stream" where
  "open_thread_stream t cursor d =
     \<lparr>ts_cursor = (if cursor < 0 then thread_event_sequence t d else cursor), ts_initial = True\<rparr>"

definition running_runs :: "event_row list \<Rightarrow> uuid list" where
  "running_runs rows =
     concat (map (\<lambda>row. case ev_run_id row of
         None \<Rightarrow> []
       | Some r \<Rightarrow>
           if dgetor (ev_payload row) ''event'' (dget (ev_payload row) ''method'') = JStr ''lifecycle''
              \<and> dget (ev_payload row) ''status'' = JStr ''running''
           then [r] else []) rows)"

definition run_attempts :: "uuid list \<Rightarrow> db \<Rightarrow> uuid \<Rightarrow> int option" where
  "run_attempts ids d r =
     (if r \<in> set ids then map_option (\<lambda>run. max (run_retry_count run) 1) (get_run r d) else None)"

definition event_runs :: "event_row list \<Rightarrow> uuid list" where
  "event_runs rows =
     remdups (concat (map (\<lambda>row. case ev_run_id row of None \<Rightarrow> [] | Some r \<Rightarrow> [r]) rows))"

text \<open>\<open>Inl\<close> of the closing error frame, or \<open>Inr\<close> of the frames and the new state.\<close>

definition passed_over :: "bool \<Rightarrow> uuid list \<Rightarrow> event_row \<Rightarrow> bool" where
  "passed_over initial resumable row =
     (initial \<and> (case ev_run_id row of None \<Rightarrow> False | Some r \<Rightarrow> r \<notin> set resumable))"

fun emit_rows ::
  "(event_row \<Rightarrow> bool) \<Rightarrow> (event_row \<Rightarrow> frame option) \<Rightarrow> event_row list \<Rightarrow> int \<Rightarrow> frame list \<times> int" where
  "emit_rows skip frame_of [] cursor = ([], cursor)"
| "emit_rows skip frame_of (row # rows) cursor =
     (case emit_rows skip frame_of rows (ev_sequence row) of
        (frames, c) \<Rightarrow>
          (if skip row then (frames, c)
           else case frame_of row of None \<Rightarrow> (frames, c) | Some f \<Rightarrow> (f # frames, c)))"

definition thread_pass ::
  "env \<Rightarrow> uuid \<Rightarrow> string option \<Rightarrow> string set \<Rightarrow> db \<Rightarrow> db \<Rightarrow> thread_stream
    \<Rightarrow> (json + frame list \<times> thread_stream) res" where
  "thread_pass e t last_event_id modes d d' s =
     (let (watermark, rows) = thread_events t (ts_cursor s) d
      in if last_event_id \<noteq> None \<and> last_event_id \<noteq> Some ''-'' \<and> ts_cursor s < watermark then
           Inr (Inl (JObj [(''detail'', JStr ''cursor_expired''),
                           (''recovery'', JStr ''thread_snapshot'')]))
         else
           rbind (if ts_initial s then resumable_run_ids e (event_runs rows) d' else Inr [])
             (\<lambda>resumable.
             let attempts = run_attempts (running_runs rows) d';
                 (frames, cursor) = emit_rows (passed_over (ts_initial s) resumable)
                    (\<lambda>row. thread_frame e row modes attempts d') rows (ts_cursor s)
             in Inr (Inr (frames, \<lparr>ts_cursor = cursor, ts_initial = False\<rparr>))))"

text \<open>The loop of the stream: one pass per wake-up, each with the databases its reads see.\<close>

fun thread_passes ::
  "env \<Rightarrow> uuid \<Rightarrow> string option \<Rightarrow> string set \<Rightarrow> (db \<times> db) list \<Rightarrow> thread_stream
    \<Rightarrow> (frame list \<times> thread_stream) res" where
  "thread_passes e t last_event_id modes [] s = Inr ([], s)"
| "thread_passes e t last_event_id modes ((d, d') # ds) s =
     rbind (thread_pass e t last_event_id modes d d' s) (\<lambda>out. case out of
       Inl err \<Rightarrow> Inr ([(''error'', err, [])], s)
     | Inr (frames, s') \<Rightarrow>
         rbind (thread_passes e t last_event_id modes ds s') (\<lambda>(rest, s'').
           Inr (frames @ rest, s'')))"

section \<open>The run stream\<close>

definition frame_error :: "env \<Rightarrow> dict \<Rightarrow> json" where
  "frame_error e event =
     (let err = (case dgetor event ''error'' (JObj []) of
                   JObj d \<Rightarrow> d
                 | v \<Rightarrow> [(''message'', JStr (py_str e v))])
      in JObj [(''error'', dgetdef err ''type'' (JStr ''Error'')),
               (''message'', dgetdef err ''message'' (JStr []))])"

text \<open>\<open>x not in {...}\<close> hashes \<open>x\<close>, which a list or a dictionary refuses.\<close>

fun hashable :: "json \<Rightarrow> bool" where
  "hashable (JList _) = False"
| "hashable (JObj _) = False"
| "hashable _ = True"

definition with_interrupts :: "string \<Rightarrow> json \<Rightarrow> json \<Rightarrow> json" where
  "with_interrupts name interrupts data =
     (if name = ''values'' \<and> truthy interrupts
      then (case data of
          JObj d \<Rightarrow> JObj (dset ''__interrupt__'' interrupts d)
        | _ \<Rightarrow> JObj [(''value'', data), (''__interrupt__'', interrupts)])
      else data)"

definition event_frame ::
  "env \<Rightarrow> string set \<Rightarrow> bool \<Rightarrow> string \<Rightarrow> dict \<Rightarrow> (string \<times> json \<times> int) option res" where
  "event_frame e modes stream_subgraphs version envelope =
     (case dget envelope ''event'' of
        JObj event \<Rightarrow>
          rbind (case py_int (dgetor envelope ''seq'' (JInt 0)) of
                   None \<Rightarrow> Inl (ValueError ''invalid sequence'')
                 | Some n \<Rightarrow> Inr n) (\<lambda>sequence0.
          rbind (py_list (dgetor envelope ''namespace'' (JList []))) (\<lambda>fallback.
          let typed = project_v3_event e event (Some sequence0) fallback;
              name = v3_method typed; namespace = v3_namespace typed;
              target = (case (name = ''lifecycle'', v3_data typed) of
                  (True, JObj d) \<Rightarrow> dget d ''namespace'' | _ \<Rightarrow> JNull);
              sequence = (if dhas envelope ''seq'' then py_int (dget envelope ''seq'') else None)
          in if (namespace \<noteq> [] \<or> truthy target) \<and> \<not> stream_subgraphs then Inr None
             else if name = ''lifecycle'' \<and> version \<noteq> ''v3'' then
               (if \<not> hashable (dget event ''status'') then Inl (TypeError ''unhashable type'')
                else if dget event ''status'' \<notin> {JStr ''error'', JStr ''timeout''} then Inr None
                else Inr (map_option (\<lambda>n. (''error'', frame_error e event, n)) sequence))
             else if version \<noteq> ''v3'' \<and> name \<notin> modes \<and> ''events'' \<notin> modes \<and> ''debug'' \<notin> modes
             then Inr None
             else
               (let interrupts = (case v3_interrupts typed of
                        Some i \<Rightarrow> i | None \<Rightarrow> dgetor event ''interrupts'' (JList []));
                    data = with_interrupts name interrupts (v3_data typed)
                in Inr (map_option (\<lambda>n.
                     if version = ''v3''
                     then (name, JObj (v3_dict (typed\<lparr>v3_seq := Some n\<rparr>)), n)
                     else (if namespace \<noteq> [] then join ''|'' (name # namespace) else name, data, n))
                   sequence))))
      | _ \<Rightarrow> Inr None)"

text \<open>
  What the stream writes: an event frame with its sequence number (shown as the identifier when
  the stream is resumable), a frame without a number, or a heartbeat comment.
\<close>

datatype sse_out =
    Event string json int
  | Notice string json
  | Heartbeat

definition output_text :: "env \<Rightarrow> bool \<Rightarrow> sse_out \<Rightarrow> string" where
  "output_text e resumable out =
     (case out of
        Event name data n \<Rightarrow> sse e name data (if resumable then Some (int_str n) else None) False
      | Notice name data \<Rightarrow> sse e name data None False
      | Heartbeat \<Rightarrow> '': heartbeat'' @ newline @ newline)"

record run_stream_config =
  rs_run :: uuid
  rs_cursor :: int
  rs_modes :: "string set"
  rs_subgraphs :: bool
  rs_version :: string
  rs_include_location :: bool

definition emit_envelope ::
  "env \<Rightarrow> run_stream_config \<Rightarrow> int list \<Rightarrow> dict \<Rightarrow> (sse_out list \<times> int list) res" where
  "emit_envelope e cfg seen envelope =
     rbind (event_frame e (rs_modes cfg) (rs_subgraphs cfg) (rs_version cfg) envelope) (\<lambda>f.
       case f of
         None \<Rightarrow> Inr ([], seen)
       | Some (name, data, n) \<Rightarrow>
           if n \<le> rs_cursor cfg \<or> n \<in> set seen then Inr ([], seen)
           else Inr ([Event name data n], n # seen))"

fun emit_all ::
  "env \<Rightarrow> run_stream_config \<Rightarrow> int list \<Rightarrow> dict list \<Rightarrow> (sse_out list \<times> int list) res" where
  "emit_all e cfg seen [] = Inr ([], seen)"
| "emit_all e cfg seen (x # xs) =
     rbind (emit_envelope e cfg seen x) (\<lambda>(a, seen1).
     rbind (emit_all e cfg seen1 xs) (\<lambda>(b, seen2). Inr (a @ b, seen2)))"

definition is_terminal_run :: "run_row \<Rightarrow> bool" where
  "is_terminal_run run = (run_status run \<in> set TERMINAL_RUN_STATUSES)"

text \<open>
  The prologue, up to the wait for messages: the outputs, the sequence numbers seen and
  whether the stream goes on. \<open>d\<close> is the database of the replay, \<open>snapshot'\<close> the run the second
  authorised read returns.
\<close>

definition run_prologue ::
  "env \<Rightarrow> run_stream_config \<Rightarrow> bool \<Rightarrow> db \<Rightarrow> run_row option \<Rightarrow> (sse_out list \<times> int list \<times> bool) res" where
  "run_prologue e cfg authorized d snapshot' =
     (case run_replay authorized (rs_run cfg) (rs_cursor cfg) d of
        (None, _) \<Rightarrow> Inr ([Notice ''error'' (JObj [(''detail'', JStr ''run not found'')])], [], False)
      | (Some snapshot, rows) \<Rightarrow>
          if rs_cursor cfg \<noteq> 0 \<and> rs_cursor cfg < run_event_pruned_through snapshot then
            Inr ([Notice ''error'' (JObj [(''detail'', JStr ''cursor_expired''),
                   (''recovery'', JStr ''run_snapshot'')])], [], False)
          else
            let live_only = (\<not> rs_include_location cfg \<and>
                  \<not> truthy (dgetdef (run_kwargs snapshot) ''stream_resumable'' (JBool False)))
            in if live_only \<and> is_terminal_run snapshot then Inr ([], [], False)
               else
                 rbind (emit_all e cfg [] (map event_envelope (if live_only then [] else rows)))
                   (\<lambda>(outs, seen).
                   Inr (Notice ''metadata'' (JObj [(''run_id'', JStr (uuid_str (rs_run cfg))),
                          (''attempt'', JInt (run_retry_count snapshot + 1))]) # outs, seen,
                     case snapshot' of None \<Rightarrow> False | Some run \<Rightarrow> \<not> is_terminal_run run)))"

text \<open>
  One turn of the wait: a message (its parsed envelope, if it has one) or a silence.
  \<open>authorized\<close> is the outcome of the periodic authorisation, \<open>beat\<close> whether a heartbeat is
  due, \<open>snapshot\<close> the run as read after the silence and \<open>d\<close> the database of the last read.
\<close>

datatype turn =
    Message "dict option" bool bool
  | Silence bool "run_row option" db

definition ends_stream :: "env \<Rightarrow> dict \<Rightarrow> bool" where
  "ends_stream e envelope =
     (case dget envelope ''event'' of
        JObj event \<Rightarrow>
          dget event ''event'' = JStr ''lifecycle'' \<and>
          py_str e (dgetdef event ''status'' (JStr [])) \<in> set TERMINAL_RUN_STATUSES
      | _ \<Rightarrow> False)"

fun run_turn ::
  "env \<Rightarrow> run_stream_config \<Rightarrow> int list \<Rightarrow> turn \<Rightarrow> (sse_out list \<times> int list \<times> bool) res" where
  "run_turn e cfg seen (Message None authorized beat) =
     Inr (if beat then [Heartbeat] else [], seen, True)"
| "run_turn e cfg seen (Message (Some envelope) authorized beat) =
     (if \<not> authorized then Inr ([], seen, False)
      else rbind (emit_envelope e cfg seen envelope) (\<lambda>(outs, seen').
        Inr (if outs = [] \<and> beat then [Heartbeat] else outs, seen', \<not> ends_stream e envelope)))"
| "run_turn e cfg seen (Silence authorized snapshot d) =
     (if \<not> authorized then Inr ([], seen, False)
      else case snapshot of
          None \<Rightarrow> Inr ([Heartbeat], seen, True)
        | Some run \<Rightarrow>
            if \<not> is_terminal_run run then Inr ([Heartbeat], seen, True)
            else
              rbind (emit_all e cfg seen (map event_envelope
                  (load_events (rs_run cfg) (if seen = [] then rs_cursor cfg else Max (set seen)) d)))
                (\<lambda>(outs, seen'). Inr (Heartbeat # outs, seen', False)))"

text \<open>The loop, until a turn ends it or the time is over after the last turn.\<close>

fun run_turns :: "env \<Rightarrow> run_stream_config \<Rightarrow> int list \<Rightarrow> turn list \<Rightarrow> sse_out list res" where
  "run_turns e cfg seen [] =
     Inr [Notice ''error'' (JObj [(''detail'', JStr ''stream timed out'')])]"
| "run_turns e cfg seen (t # ts) =
     rbind (run_turn e cfg seen t) (\<lambda>(outs, seen', more).
       if more then rbind (run_turns e cfg seen' ts) (\<lambda>rest. Inr (outs @ rest)) else Inr outs)"

definition run_sse ::
  "env \<Rightarrow> run_stream_config \<Rightarrow> bool \<Rightarrow> db \<Rightarrow> run_row option \<Rightarrow> turn list \<Rightarrow> sse_out list res" where
  "run_sse e cfg authorized d snapshot' turns =
     rbind (run_prologue e cfg authorized d snapshot') (\<lambda>(outs, seen, more).
       if more then rbind (run_turns e cfg seen turns) (\<lambda>rest. Inr (outs @ rest)) else Inr outs)"

section \<open>Reading frames back\<close>

text \<open>
  What a server-sent-events reader makes of a frame: lines up to the blank line, each a field
  name and a value; the data lines joined by a newline, the last event name and identifier.
\<close>

definition strip_field :: "string \<Rightarrow> string \<Rightarrow> string option" where
  "strip_field name line =
     (if starts_with (name @ '': '') line then Some (drop (length name + 2) line) else None)"

definition field_values :: "string \<Rightarrow> string list \<Rightarrow> string list" where
  "field_values name ls =
     concat (map (\<lambda>l. case strip_field name l of None \<Rightarrow> [] | Some v \<Rightarrow> [v]) ls)"

definition read_sse :: "string \<Rightarrow> string list \<times> string list \<times> string" where
  "read_sse text =
     (let ls = split_all CHR 0x0A text
      in (field_values ''event'' ls, field_values ''id'' ls, join newline (field_values ''data'' ls)))"

lemma join_app: "xs \<noteq> [] \<Longrightarrow> join sep (xs @ [y]) = join sep xs @ sep @ y"
  by (induction sep xs rule: join.induct) auto

lemma field_values_simps [simp]:
  "field_values name [] = []"
  "field_values name (l # ls) =
     (case strip_field name l of None \<Rightarrow> [] | Some v \<Rightarrow> [v]) @ field_values name ls"
  "field_values name (ls @ ls') = field_values name ls @ field_values name ls'"
  by (simp_all add: field_values_def)

lemma starts_with_app [simp]: "starts_with p (p @ s)"
  by (simp add: starts_with_def)

lemma strip_fields [simp]:
  "strip_field ''event'' (CHR ''e'' # CHR ''v'' # CHR ''e'' # CHR ''n'' # CHR ''t'' # CHR '':'' # CHR '' '' # s) = Some s"
  "strip_field ''id'' (CHR ''i'' # CHR ''d'' # CHR '':'' # CHR '' '' # s) = Some s"
  "strip_field ''data'' (CHR ''d'' # CHR ''a'' # CHR ''t'' # CHR ''a'' # CHR '':'' # CHR '' '' # s) = Some s"
  "strip_field ''event'' (CHR ''i'' # s) = None" "strip_field ''event'' (CHR ''d'' # s) = None"
  "strip_field ''id'' (CHR ''e'' # s) = None" "strip_field ''id'' (CHR ''d'' # s) = None"
  "strip_field ''data'' (CHR ''e'' # s) = None" "strip_field ''data'' (CHR ''i'' # s) = None"
  "strip_field ''data'' [] = None" "strip_field ''event'' [] = None" "strip_field ''id'' [] = None"
  by (simp_all add: strip_field_def starts_with_def)

lemma split_all_lines:
  assumes "\<And>l. l \<in> set ls \<Longrightarrow> CHR 0x0A \<notin> set l" "ls \<noteq> []"
  shows "split_all CHR 0x0A (join newline ls @ newline) = ls @ [[]]"
proof -
  have "join newline ls @ newline = join newline (ls @ [[]])"
    using assms(2) by (simp add: join_app)
  also have "split_all CHR 0x0A \<dots> = ls @ [[]]"
    unfolding newline_def using assms by (intro split_all_join) auto
  finally show ?thesis .
qed

lemma lines_acc_none:
  "(\<And>c. c \<in> set s \<Longrightarrow> \<not> is_break c) \<Longrightarrow>
   lines_acc acc s = (if acc = [] \<and> s = [] then [] else [rev acc @ s])"
  by (induction s arbitrary: acc) auto

lemma newline_is_break: "is_break CHR 0x0A"
  by (simp add: is_break_def)

text \<open>The characters a JSON text can hold: no control character below 32.\<close>

definition plain_chars :: "string \<Rightarrow> bool" where
  "plain_chars s \<longleftrightarrow> (\<forall>c \<in> set s. (32 :: nat) \<le> of_char c)"

lemma plain_chars_simps [simp]:
  "plain_chars []" "plain_chars (c # s) \<longleftrightarrow> (32 :: nat) \<le> of_char c \<and> plain_chars s"
  "plain_chars (s @ t) \<longleftrightarrow> plain_chars s \<and> plain_chars t"
  "plain_chars (concat ss) \<longleftrightarrow> (\<forall>s \<in> set ss. plain_chars s)"
  by (auto simp: plain_chars_def)

lemma plain_digits: "plain_chars (nat_str n)"
  using nat_str_digits [of _ n] by (fastforce simp: plain_chars_def is_digit_def Let_def)

lemma plain_int_str: "plain_chars (int_str i)"
  by (simp add: int_str_def plain_digits)

lemma plain_join: "plain_chars sep \<Longrightarrow> (\<And>s. s \<in> set ss \<Longrightarrow> plain_chars s) \<Longrightarrow> plain_chars (join sep ss)"
  by (induction sep ss rule: join.induct) auto

lemma hex_digit_plain: "d < 16 \<Longrightarrow> (32 :: nat) \<le> of_char (hex_digit d)"
  by (auto simp: hex_digit_def)

lemma plain_json_char: "plain_chars (json_char c)"
proof -
  have "(of_char c :: nat) mod 16 < 16" "(of_char c :: nat) < 32 \<Longrightarrow> (of_char c :: nat) div 16 < 16"
    by simp_all
  then show ?thesis
    by (auto simp: json_char_def Let_def hex_digit_plain)
qed

lemma plain_json_string: "plain_chars (json_string s)"
  by (simp add: json_string_def plain_json_char)

lemma plain_json_dumps:
  "(\<And>r. plain_chars (e_repr e (JFloat r))) \<Longrightarrow> plain_chars (json_dumps e v)"
  "(\<And>r. plain_chars (e_repr e (JFloat r))) \<Longrightarrow> \<forall>s \<in> set (dumps_list e vs). plain_chars s"
  "(\<And>r. plain_chars (e_repr e (JFloat r))) \<Longrightarrow> \<forall>s \<in> set (dumps_items e d). plain_chars s"
  by (induction e v and e vs and e d rule: json_dumps_dumps_list_dumps_items.induct)
    (auto simp: plain_int_str plain_json_string intro!: plain_join)

lemma plain_breaks:
  assumes "plain_chars s" "CHR 0x85 \<notin> set s" "c \<in> set s"
  shows "\<not> is_break c"
proof -
  have "(32 :: nat) \<le> of_char c" using assms by (auto simp: plain_chars_def)
  moreover have "(of_char c :: nat) \<noteq> 133"
  proof
    assume "(of_char c :: nat) = 133"
    then have "(of_char c :: nat) = of_char CHR 0x85" by simp
    then have "c = CHR 0x85" by (simp only: of_char_eq_iff)
    then show False using assms by simp
  qed
  ultimately show ?thesis by (auto simp: is_break_def)
qed

lemma splitlines_plain:
  assumes "plain_chars s" "CHR 0x85 \<notin> set s" "s \<noteq> []"
  shows "splitlines s = [s]"
  using assms plain_breaks by (simp add: splitlines_def lines_acc_none)

lemma plain_no_newline: "plain_chars s \<Longrightarrow> CHR 0x0A \<notin> set s"
  by (auto simp: plain_chars_def)

lemma json_dumps_ne:
  assumes "\<And>r. e_repr e (JFloat r) \<noteq> []"
  shows "json_dumps e v \<noteq> []"
  using assms nat_str_ne by (cases v) (auto simp: int_str_def json_string_def)

lemma read_sse_frame:
  assumes "data \<noteq> JNull" "plain_chars event" "\<And>i. event_id = Some i \<Longrightarrow> plain_chars i"
    "\<And>r. plain_chars (e_repr e (JFloat r)) \<and> e_repr e (JFloat r) \<noteq> []"
    "CHR 0x85 \<notin> set (json_dumps e data)"
  shows "read_sse (sse e event data event_id last_line) =
           ([event], (case event_id of None \<Rightarrow> [] | Some i \<Rightarrow> [i]), json_dumps e data)"
proof -
  let ?j = "json_dumps e data"
  let ?id = "case event_id of None \<Rightarrow> [] | Some i \<Rightarrow> [''id: '' @ i]"
  let ?ls = "(if last_line then [] else ?id) @ [''event: '' @ event] @ [''data: '' @ ?j]
    @ (if last_line then ?id else [])"
  have j: "plain_chars ?j" using plain_json_dumps(1) assms(4) by blast
  have sp: "splitlines ?j = [?j]"
    by (rule splitlines_plain [OF j assms(5)]) (use json_dumps_ne assms(4) in blast)
  have shape: "sse e event data event_id last_line = join newline (?ls @ [[]]) @ newline"
    using assms(1) sp by (simp add: sse_def Let_def)
  have brk: "CHR 0x0A \<notin> set l" if "l \<in> set (?ls @ [[]])" for l
  proof -
    from that have "l \<in> set ?id \<or> l \<in> {[], ''event: '' @ event, ''data: '' @ ?j}"
      by (simp only: set_append Un_iff split: if_split_asm) (simp only: list.set insert_iff, blast)+
    then have "l = [] \<or> l = ''event: '' @ event \<or> l = ''data: '' @ ?j \<or>
        (\<exists>i. event_id = Some i \<and> l = ''id: '' @ i)"
      by (cases event_id) (simp_all only: option.case list.set insert_iff empty_iff option.inject, blast+)
    moreover have "plain_chars (''event: '' @ event)" "plain_chars (''data: '' @ ?j)"
      using assms(2) j by simp_all
    moreover have "plain_chars (''id: '' @ i)" if "event_id = Some i" for i
      using assms(3) [OF that] by simp
    ultimately have "plain_chars l" by auto
    then show ?thesis by (rule plain_no_newline)
  qed
  have "split_all CHR 0x0A (sse e event data event_id last_line) = (?ls @ [[]]) @ [[]]"
    unfolding shape by (rule split_all_lines [OF brk]) blast+
  then have r: "read_sse (sse e event data event_id last_line) =
      (field_values ''event'' ((?ls @ [[]]) @ [[]]), field_values ''id'' ((?ls @ [[]]) @ [[]]),
       join newline (field_values ''data'' ((?ls @ [[]]) @ [[]])))"
    by (simp only: read_sse_def Let_def)
  show ?thesis
    unfolding r by (cases last_line; cases event_id) simp_all
qed

end
