(* ===== verification/Delivery.thy ===== *)
theory Delivery
  imports Streaming RunRefinement
begin

text \<open>
  What the event streams deliver. The interface \<open>replay_log\<close> is a log with strictly increasing
  positions, read after a cursor, together with the way it grows; its lemmas say what a client
  that always resumes after the last entry it received has seen. The durable log of a thread
  and the log of a run are its two instances. The run stream and the frame text follow.
\<close>

section \<open>Following a log by its cursor\<close>

definition advance :: "('e \<Rightarrow> int) \<Rightarrow> int \<Rightarrow> 'e list \<Rightarrow> int" where
  "advance pos c xs = (if xs = [] then c else pos (last xs))"

text \<open>Read after the cursor in each of a list of snapshots, advancing past what was read.\<close>

fun follow :: "('e \<Rightarrow> int) \<Rightarrow> (int \<Rightarrow> 'd \<Rightarrow> 'e list) \<Rightarrow> int \<Rightarrow> 'd list \<Rightarrow> 'e list" where
  "follow pos replay c [] = []"
| "follow pos replay c (d # ds) =
     replay c d @ follow pos replay (advance pos c (replay c d)) ds"

text \<open>
  The later snapshot has no entry at or below the limit of the earlier one that the earlier one
  did not have; entries may have gone.
\<close>

definition grows :: "('e \<Rightarrow> int) \<Rightarrow> ('d \<Rightarrow> 'e list) \<Rightarrow> ('d \<Rightarrow> int) \<Rightarrow> 'd \<Rightarrow> 'd \<Rightarrow> bool" where
  "grows pos entries limit d d' \<longleftrightarrow>
     limit d \<le> limit d' \<and>
     (\<forall>x \<in> set (entries d'). x \<in> set (entries d) \<or> limit d < pos x)"

lemma growsI:
  "limit d \<le> limit d' \<Longrightarrow>
   (\<And>x. x \<in> set (entries d') \<Longrightarrow> x \<notin> set (entries d) \<Longrightarrow> limit d < pos x) \<Longrightarrow>
   grows pos entries limit d d'"
  by (auto simp: grows_def)

lemma grows_refl [simp]: "grows pos entries limit d d"
  by (simp add: grows_def)

lemma grows_trans:
  "grows pos entries limit d d' \<Longrightarrow> grows pos entries limit d' d'' \<Longrightarrow> grows pos entries limit d d''"
  unfolding grows_def by fastforce

lemma advance_le:
  assumes "sorted_wrt (<) (map pos xs)" "x \<in> set xs"
  shows "pos x \<le> advance pos c xs"
proof (cases xs rule: rev_cases)
  case (snoc ys z)
  with assms show ?thesis by (auto simp: advance_def sorted_wrt_append intro: less_imp_le)
qed (use assms in simp)

lemma advance_ge: "(\<And>x. x \<in> set xs \<Longrightarrow> c < pos x) \<Longrightarrow> c \<le> advance pos c xs"
  unfolding advance_def using last_in_set [of xs] by fastforce

lemma sort_key_sorted: "sorted (map f xs) \<Longrightarrow> sort_key f xs = xs"
  by (simp add: sort_key_id_if_sorted)

lemma sorted_less_sorted: "sorted_wrt (<) xs \<Longrightarrow> sorted xs" for xs :: "int list"
  by (rule sorted_wrt_mono_rel) auto

lemma sorted_wrt_filter_map:
  "sorted_wrt (<) (map pos xs) \<Longrightarrow> sorted_wrt (<) (map pos (filter P xs))"
  by (induction xs) auto

locale replay_log =
  fixes wf :: "'d \<Rightarrow> bool"
    and entries :: "'d \<Rightarrow> 'e list"
    and pos :: "'e \<Rightarrow> int"
    and limit :: "'d \<Rightarrow> int"
    and replay :: "int \<Rightarrow> 'd \<Rightarrow> 'e list"
  assumes entries_sorted: "wf d \<Longrightarrow> sorted_wrt (<) (map pos (entries d))"
    and entries_below: "wf d \<Longrightarrow> x \<in> set (entries d) \<Longrightarrow> pos x \<le> limit d"
    and replay_after: "wf d \<Longrightarrow> replay c d = filter (\<lambda>x. c < pos x) (entries d)"
begin

lemma replay_sorted: "wf d \<Longrightarrow> sorted_wrt (<) (map pos (replay c d))"
  by (simp add: replay_after entries_sorted sorted_wrt_filter_map)

lemma replay_set: "wf d \<Longrightarrow> set (replay c d) = {x \<in> set (entries d). c < pos x}"
  by (auto simp: replay_after)

text \<open>Resuming after a received entry gives exactly the rest.\<close>

lemma resume:
  assumes "wf d" "replay c d = xs @ x # ys"
  shows "replay (pos x) d = ys"
proof -
  have s: "sorted_wrt (<) (map pos (xs @ x # ys))"
    using replay_sorted [OF assms(1), of c] assms(2) by simp
  have "c < pos x"
    using assms replay_set [OF assms(1), of c] by auto
  then have "replay (pos x) d = filter (\<lambda>y. pos x < pos y) (replay c d)"
    using assms(1) by (auto simp: replay_after intro: filter_cong)
  also have "\<dots> = ys"
    unfolding assms(2) using s by (auto simp: sorted_wrt_append filter_empty_conv filter_id_conv)
  finally show ?thesis .
qed

lemma follow_above:
  assumes "\<And>d. d \<in> set ds \<Longrightarrow> wf d" "x \<in> set (follow pos replay c ds)"
  shows "c < pos x"
  using assms
proof (induction ds arbitrary: c)
  case (Cons d ds)
  have a: "c \<le> advance pos c (replay c d)"
    by (rule advance_ge) (use Cons.prems(1) replay_set in auto)
  from Cons.prems(2) consider "x \<in> set (replay c d)"
    | "x \<in> set (follow pos replay (advance pos c (replay c d)) ds)" by auto
  then show ?case
  proof cases
    case 1
    then show ?thesis using replay_set Cons.prems(1) by auto
  next
    case 2
    have "advance pos c (replay c d) < pos x"
      by (rule Cons.IH [OF _ 2]) (use Cons.prems(1) in auto)
    with a show ?thesis by simp
  qed
qed simp

text \<open>Nothing is delivered twice, and in order.\<close>

lemma follow_sorted:
  assumes "\<And>d. d \<in> set ds \<Longrightarrow> wf d"
  shows "sorted_wrt (<) (map pos (follow pos replay c ds))"
  using assms
proof (induction ds arbitrary: c)
  case (Cons d ds)
  let ?r = "replay c d"
  have w: "wf d" using Cons.prems by simp
  have "pos x < pos y" if "x \<in> set ?r" "y \<in> set (follow pos replay (advance pos c ?r) ds)" for x y
  proof -
    have "pos x \<le> advance pos c ?r" by (rule advance_le [OF replay_sorted [OF w] that(1)])
    also have "\<dots> < pos y" by (rule follow_above [OF _ that(2)]) (use Cons.prems in auto)
    finally show ?thesis .
  qed
  then show ?case
    using replay_sorted [OF w, of c] Cons.IH [of "advance pos c ?r"] Cons.prems
    by (auto simp: sorted_wrt_append)
qed simp

text \<open>Nothing is left out: an entry of any snapshot after the cursor is delivered.\<close>

lemma grows_new:
  assumes "successively (grows pos entries limit) (d # ds)" "d' \<in> set ds"
  shows "grows pos entries limit d d'"
proof -
  have "transp (grows pos entries limit)" by (rule transpI) (rule grows_trans)
  then have "sorted_wrt (grows pos entries limit) (d # ds)"
    using assms(1) by (simp add: successively_conv_sorted_wrt)
  with assms(2) show ?thesis by simp
qed

lemma follow_covers:
  assumes "\<And>d. d \<in> set ds \<Longrightarrow> wf d" "successively (grows pos entries limit) ds"
  shows "set (follow pos replay c ds) = {x. c < pos x \<and> (\<exists>d \<in> set ds. x \<in> set (entries d))}"
  using assms
proof (induction ds arbitrary: c)
  case (Cons d ds)
  let ?r = "replay c d" and ?c = "advance pos c (replay c d)"
  have w: "wf d" using Cons.prems by simp
  have r: "set ?r = {x \<in> set (entries d). c < pos x}" by (rule replay_set [OF w])
  have "successively (grows pos entries limit) ds"
    using Cons.prems(2) by (cases ds) auto
  then have IH: "set (follow pos replay ?c ds) = {x. ?c < pos x \<and> (\<exists>d \<in> set ds. x \<in> set (entries d))}"
    by (intro Cons.IH) (use Cons.prems(1) in auto)
  have up: "?c < pos x" if "d' \<in> set ds" "x \<in> set (entries d')" "c < pos x" "x \<notin> set ?r" for d' x
  proof -
    have "x \<notin> set (entries d)" using that r by auto
    then have "limit d < pos x"
      using grows_new [OF Cons.prems(2) that(1)] that(2) by (auto simp: grows_def)
    moreover have "?c \<le> limit d \<or> ?c = c"
      unfolding advance_def using entries_below [OF w] r last_in_set [of ?r] by auto
    ultimately show ?thesis using that(3) by auto
  qed
  have lo: "c \<le> ?c" by (rule advance_ge) (use r in auto)
  show ?case using r IH up lo by (auto 4 3)
qed simp

end

section \<open>The durable logs\<close>

definition thread_limit :: "uuid \<Rightarrow> db \<Rightarrow> int" where
  "thread_limit t d = (case get_thread t d of None \<Rightarrow> 0 | Some th \<Rightarrow> th_event_seq th)"

definition run_limit :: "uuid \<Rightarrow> db \<Rightarrow> int" where
  "run_limit r d = (case get_run r d of None \<Rightarrow> 0 | Some run \<Rightarrow> run_event_seq run)"

lemma thread_log_sequences: "map ev_sequence (thread_log t d) = thread_sequences t d"
  by (simp add: thread_log_def thread_sequences_def)

lemma run_log_sequences: "map ev_sequence (run_log r d) = run_sequences r d"
  by (simp add: run_log_def run_sequences_def)

lemma rows_after_sorted:
  "sorted_wrt (<) (map ev_sequence xs) \<Longrightarrow> rows_after c xs = filter (\<lambda>v. c < ev_sequence v) xs"
  unfolding rows_after_def
  by (intro sort_key_sorted sorted_less_sorted sorted_wrt_filter_map)

lemma thread_log_missing: "log_wf d \<Longrightarrow> get_thread t d = None \<Longrightarrow> thread_log t d = []"
  by (auto simp: thread_log_def filter_empty_conv dest!: log_wfD(4) event_refs_thread)

interpretation thread_replay: replay_log log_wf "thread_log t" ev_sequence "thread_limit t"
  "\<lambda>c d. snd (thread_events t c d)" for t
proof
  show "sorted_wrt (<) (map ev_sequence (thread_log t d))" if "log_wf d" for d
    using log_wfD(6) [OF that] by (simp add: thread_log_sequences)
  show "ev_sequence x \<le> thread_limit t d" if "log_wf d" "x \<in> set (thread_log t d)" for d x
    using event_refs_thread [OF log_wfD(4) [OF that(1)], of x t] that(2)
    by (auto simp: thread_log_def thread_limit_def)
  show "snd (thread_events t c d) = filter (\<lambda>x. c < ev_sequence x) (thread_log t d)"
    if "log_wf d" for c d
    using log_wfD(6) [OF that, of t] thread_log_missing [OF that, of t]
    by (auto simp: thread_events_def rows_after_sorted thread_log_sequences split: option.split)
qed

interpretation run_replay: replay_log log_wf "run_log r" ev_sequence "run_limit r" "load_events r" for r
proof
  show "sorted_wrt (<) (map ev_sequence (run_log r d))" if "log_wf d" for d
    using log_wfD(7) [OF that] by (simp add: run_log_sequences)
  show "ev_sequence x \<le> run_limit r d" if "log_wf d" "x \<in> set (run_log r d)" for d x
    using event_refs_run [OF log_wfD(4) [OF that(1)], of x r] that(2)
    by (auto simp: run_log_def run_limit_def)
  show "load_events r c d = filter (\<lambda>x. c < ev_sequence x) (run_log r d)" if "log_wf d" for c d
    using log_wfD(7) [OF that, of r]
    by (simp add: load_events_def rows_after_sorted run_log_sequences)
qed

text \<open>Appending an event grows both logs.\<close>

abbreviation thread_grows :: "uuid \<Rightarrow> db \<Rightarrow> db \<Rightarrow> bool" where
  "thread_grows t \<equiv> grows ev_sequence (thread_log t) (thread_limit t)"

abbreviation run_grows :: "uuid \<Rightarrow> db \<Rightarrow> db \<Rightarrow> bool" where
  "run_grows r \<equiv> grows ev_sequence (run_log r) (run_limit r)"

definition logs_grow :: "db \<Rightarrow> db \<Rightarrow> bool" where
  "logs_grow d d' \<longleftrightarrow> (\<forall>t. thread_grows t d d') \<and> (\<forall>r. run_grows r d d')"

lemma logs_grow_refl [simp]: "logs_grow d d"
  by (simp add: logs_grow_def)

lemma logs_grow_trans: "logs_grow d d' \<Longrightarrow> logs_grow d' d'' \<Longrightarrow> logs_grow d d''"
  unfolding logs_grow_def by (blast intro: grows_trans)

lemma logs_grow_append:
  assumes "db_events d' = db_events d @ [ev]"
    "\<And>t. ev_thread_id ev = Some t \<Longrightarrow> thread_limit t d < ev_sequence ev"
    "\<And>r. ev_run_id ev = Some r \<Longrightarrow> run_limit r d < ev_sequence ev"
    "\<And>t. thread_limit t d \<le> thread_limit t d'" "\<And>r. run_limit r d \<le> run_limit r d'"
  shows "logs_grow d d'"
  using assms by (auto simp: logs_grow_def grows_def thread_log_def run_log_def)

lemma append_event_events:
  "append_event e rid tid s topic ns p tc term d = Inr (ev, d') \<Longrightarrow>
   db_events d' = db_events d @ [ev] \<and> ev_sequence ev = s \<and> ev_run_id ev = rid \<and>
   ev_thread_id ev = tid \<and> get_run r d' = get_run r d \<and> get_thread t d' = get_thread t d"
  by (auto simp: append_event_Inr get_run_def get_thread_def)

lemma record_event_logs_grow:
  assumes "log_wf d" "record_event e rid tid topic p ns tc term d = Inr (ev, d')"
  shows "logs_grow d d'"
  using assms(2)
proof (cases rule: record_event_cases)
  case existing
  then show ?thesis by simp
next
  case (run r run)
  have r: "run_id run = r" using runs_t.get_Some [OF run(2)] by simp
  show ?thesis
  proof (cases "run_thread_id run")
    case None
    let ?s = "next_run_sequence run d"
    let ?d = "upd_run r (\<lambda>x. x\<lparr>run_event_seq := max (run_event_seq x) ?s\<rparr>) d"
    from run(5) None r have a: "append_event e (Some r) None ?s topic ns
        (lifecycle_payload run topic p d) tc term ?d = Inr (ev, d')"
      by (simp add: record_run_event_def Let_def)
    show ?thesis
      by (rule logs_grow_append [where ev = ev])
        (use append_event_events [OF a] next_run_sequence_gt(1) [of run d] run(2) in
          \<open>auto simp: run_limit_def thread_limit_def runs_t.get_upd split: option.split\<close>)
  next
    case (Some t)
    with run(5) obtain th where th: "get_thread t d = Some th"
      by (auto simp: record_run_event_def split: option.splits)
    let ?s = "next_thread_sequence th d"
    let ?d = "upd_run r (\<lambda>x. x\<lparr>run_event_seq := max (run_event_seq x) ?s\<rparr>)
      (upd_thread t (\<lambda>x. x\<lparr>th_event_seq := ?s\<rparr>) d)"
    from run(5) Some th r have a: "append_event e (Some r) (Some t) ?s topic ns
        (lifecycle_payload run topic p d) tc term ?d = Inr (ev, d')"
      by (simp add: record_run_event_def Let_def)
    have le: "run_event_seq run \<le> th_event_seq th"
      using log_wfD(5) [OF assms(1)] run(2) Some th by (fastforce simp: cursors_ok_def)
    show ?thesis
      by (rule logs_grow_append [where ev = ev])
        (use append_event_events [OF a] next_thread_sequence_gt(1) [of th d] run(2) le th in
          \<open>auto simp: run_limit_def thread_limit_def runs_t.get_upd threads_t.get_upd split: option.split\<close>)
  qed
next
  case (runless t)
  then obtain th where th: "get_thread t d = Some th"
    by (auto simp: record_thread_event_def split: option.splits)
  let ?s = "next_thread_sequence th d"
  let ?d = "upd_thread t (\<lambda>x. x\<lparr>th_event_seq := ?s\<rparr>) d"
  from runless(3) th have a: "append_event e None (Some t) ?s topic ns p tc term ?d = Inr (ev, d')"
    by (simp add: record_thread_event_def Let_def)
  show ?thesis
    by (rule logs_grow_append [where ev = ev])
      (use append_event_events [OF a] next_thread_sequence_gt(1) [of th d] th in
        \<open>auto simp: run_limit_def thread_limit_def threads_t.get_upd split: option.split\<close>)
qed

lemma record_deltas_logs_grow:
  assumes "log_wf d" "record_message_deltas e r tid events tctx d = Inr (rows, d')"
  shows "logs_grow d d'"
  using record_message_deltas_each [OF assms] assms(1)
proof (induction events arbitrary: d rows)
  case (Cons ev events)
  then obtain ns row d1 rows' where
    1: "record_event e (Some r) tid ''messages'' ev ns tctx False d = Inr (row, d1)" and
    2: "record_each e r tid tctx events d1 = Inr (rows', d')"
    by (auto simp: rbind_eq_Inr)
  show ?case
    using logs_grow_trans [OF record_event_logs_grow [OF Cons.prems(2) 1]
        Cons.IH [OF 2 record_event_log_wf [OF Cons.prems(2) 1]]] .
qed simp

lemma logs_grow_fewer:
  assumes "set (db_events d') \<subseteq> set (db_events d)"
    "\<And>t. thread_limit t d' = thread_limit t d" "\<And>r. run_limit r d' = run_limit r d"
  shows "logs_grow d d'"
  using assms by (auto simp: logs_grow_def grows_def thread_log_def run_log_def)

lemma prune_logs_grow: "logs_grow d (snd (prune_expired_events e locked n b d))"
  using prune_expired_events_alt [of e locked n b d]
proof (elim disjE exE conjE)
  fix run ids deleted
  assume p: "prune_expired_events e locked n b d =
      (length deleted, prune_effect run ids (Max (set deleted)) d)"
  show ?thesis
    unfolding p
    by (rule logs_grow_fewer)
      (auto simp: prune_effect_def thread_limit_def run_limit_def runs_t.get_upd threads_t.get_upd
        split: option.split)
qed simp

section \<open>Every transaction grows the thread logs\<close>

definition thread_logs_grow :: "db \<Rightarrow> db \<Rightarrow> bool" where
  "thread_logs_grow d d' \<longleftrightarrow> (\<forall>t. thread_grows t d d')"

lemma thread_logs_grow_refl [simp]: "thread_logs_grow d d"
  by (simp add: thread_logs_grow_def)

lemma thread_logs_grow_trans:
  "thread_logs_grow d d' \<Longrightarrow> thread_logs_grow d' d'' \<Longrightarrow> thread_logs_grow d d''"
  unfolding thread_logs_grow_def by (blast intro: grows_trans)

lemma logs_grow_threads: "logs_grow d d' \<Longrightarrow> thread_logs_grow d d'"
  by (simp add: logs_grow_def thread_logs_grow_def)

text \<open>A transaction is quiet when it adds no event and moves no thread cursor.\<close>

definition quiet :: "db \<Rightarrow> db \<Rightarrow> bool" where
  "quiet d d' \<longleftrightarrow> set (db_events d') \<subseteq> set (db_events d) \<and> (\<forall>t. thread_limit t d' = thread_limit t d)"

lemma quiet_grow: "quiet d d' \<Longrightarrow> thread_logs_grow d d'"
  by (auto simp: quiet_def thread_logs_grow_def grows_def thread_log_def)

lemma thread_limit_frame:
  "db_threads d' = db_threads d \<Longrightarrow> thread_limit t d' = thread_limit t d"
  by (simp add: thread_limit_def get_thread_def)

lemma thread_limit_upd_thread:
  "(\<And>x. th_id (g x) = th_id x) \<Longrightarrow> (\<And>x. th_event_seq (g x) = th_event_seq x) \<Longrightarrow>
   thread_limit t (upd_thread t' g d) = thread_limit t d"
  by (simp add: thread_limit_def threads_t.get_upd split: option.split)

lemma quiet_frame:
  "db_events d' = db_events d \<Longrightarrow> db_threads d' = db_threads d \<Longrightarrow> quiet d d'"
  by (simp add: quiet_def thread_limit_def get_thread_def)

lemma quiet_trans: "quiet d d' \<Longrightarrow> quiet d' d'' \<Longrightarrow> quiet d d''"
  by (auto simp: quiet_def)

lemma quiet_upd_thread:
  "(\<And>x. th_id (g x) = th_id x) \<Longrightarrow> (\<And>x. th_event_seq (g x) = th_event_seq x) \<Longrightarrow>
   quiet d (upd_thread t g d)"
  by (simp add: quiet_def thread_limit_upd_thread)

lemma quiet_refl [simp]: "quiet d d"
  by (simp add: quiet_def)

lemma thread_limit_simps [simp]:
  "thread_limit t (upd_run r f d) = thread_limit t d" "thread_limit t (del_lease r d) = thread_limit t d"
  "thread_limit t (del_run r d) = thread_limit t d" "thread_limit t (idle_thread u d) = thread_limit t d"
  "thread_limit t (upsert_lease l d) = thread_limit t d"
  "thread_limit t (upd_lease r h d) = thread_limit t d"
  "thread_limit t (drop_leases S d) = thread_limit t d"
proof -
  show "thread_limit t (idle_thread u d) = thread_limit t d"
    by (cases u) (simp_all add: idle_thread_def thread_limit_upd_thread)
  show "thread_limit t (upsert_lease l d) = thread_limit t d"
    by (rule thread_limit_frame) (simp add: upsert_lease_def upd_lease_def)
qed (rule thread_limit_frame; simp add: upd_lease_def del_run_def drop_leases_def)+

lemma idle_thread_events [simp]: "db_events (idle_thread u d) = db_events d"
  by (simp add: idle_thread_def split: option.split)

lemma lease_events [simp]:
  "db_events (upd_lease r h d) = db_events d" "db_events (drop_leases S d) = db_events d"
  "db_events (upsert_lease l d) = db_events d"
  by (simp_all add: upd_lease_def drop_leases_def upsert_lease_def)

lemma del_run_events: "set (db_events (del_run r d)) \<subseteq> set (db_events d)"
  by (auto simp: del_run_def)

text \<open>A quiet rewrite followed by a record.\<close>

lemma quiet_record:
  assumes "quiet d d1" "log_wf d1" "record_event e rid tid topic p ns tc term d1 = Inr (ev, d')"
  shows "thread_logs_grow d d'"
  by (rule thread_logs_grow_trans [OF quiet_grow [OF assms(1)]
        logs_grow_threads [OF record_event_logs_grow [OF assms(2,3)]]])

lemma record_preceding_grow:
  assumes "log_wf d" "record_preceding e r tid tc evs d = Inr (out, d')"
  shows "thread_logs_grow d d' \<and> log_wf d'"
  using assms
proof (induction evs arbitrary: d out)
  case (Cons a evs)
  obtain topic p ns where a: "a = (topic, p, ns)" by (cases a) auto
  from Cons.prems(2) obtain ev d1 rest where
    1: "record_event e (Some r) tid topic p (ns_or ns) tc False d = Inr (ev, d1)" and
    2: "record_preceding e r tid tc evs d1 = Inr (rest, d')"
    by (auto simp: a rbind_eq_Inr)
  from Cons.IH [OF record_event_log_wf [OF Cons.prems(1) 1] 2]
    logs_grow_threads [OF record_event_logs_grow [OF Cons.prems(1) 1]]
  show ?case by (blast intro: thread_logs_grow_trans)
qed simp

lemma start_run_quiet:
  assumes "start_run cfg e owner run d = Inr (res, evs, d')"
  shows "quiet d d'"
proof -
  have q: "quiet d (upsert_lease l (upd_run r f d))" for l r f by (simp add: quiet_def)
  from assms show ?thesis
    unfolding start_run_def Let_def by (simp split: if_split_asm add: q) (use q in blast)
qed

lemma claim_next_grow:
  assumes "log_wf d" "claim_next cfg e owner locked tlk d0 d = Inr (res, evs, d')"
  shows "thread_logs_grow d d'"
proof (cases "claim_select e locked d0")
  case None
  with assms show ?thesis by (simp add: claim_next_def)
next
  case (Some r)
  have st: "thread_logs_grow d d'"
    if s: "start_run cfg e owner run d1 = Inr (res, evs, d')" and q: "quiet d d1" for run d1
  proof -
    from s have "quiet d1 d'" by (rule start_run_quiet)
    with q show ?thesis by (blast intro: quiet_grow thread_logs_grow_trans)
  qed
  from Some assms(2) have "claim_commit cfg e owner tlk (run_id r) d = Inr (res, evs, d')"
    by (simp add: claim_next_def)
  then show ?thesis
  proof (cases rule: claim_commit_cases)
    case none
    then show ?thesis by simp
  next
    case (exhausted run)
    let ?f = "\<lambda>x. x\<lparr>run_status := ''error'', run_reason := Some ''infrastructure_error'',
        run_next_attempt_at := None, run_updated_at := e_now e\<rparr>"
    define d2 where "d2 = (case run_thread_id run of None \<Rightarrow> upd_run (run_id run) ?f d
      | Some t \<Rightarrow> upd_thread t (\<lambda>x. x\<lparr>th_status := ''idle''\<rparr>) (upd_run (run_id run) ?f d))"
    from exhausted(4) obtain ev where r: "record_event e (Some (run_id run)) (run_thread_id run)
        ''lifecycle'' (lifecycle_event ''error'' ''infrastructure_error'') [] [] True d2 = Inr (ev, d')"
      by (auto simp: claim_exhausted_def Let_def d2_def rbind_eq_Inr)
    have "log_wf (upd_run (run_id run) ?f d)"
      by (rule log_wf_status) (use assms(1) in simp_all)
    then have "log_wf d2"
      unfolding d2_def by (auto intro!: log_wf_thread_status split: option.split)
    moreover have "quiet d d2"
      unfolding d2_def
      by (cases "run_thread_id run") (simp_all add: quiet_def thread_limit_upd_thread)
    ultimately show ?thesis using r by (blast intro: quiet_record)
  next
    case (runless run)
    show ?thesis by (rule st [OF runless(4)]) (simp add: quiet_def)
  next
    case (started run t th)
    have "quiet d (capture_baseline (e_now e) run th d)" by (rule quiet_frame) simp_all
    then have "quiet d (upd_thread t (\<lambda>x. x\<lparr>th_status := ''busy''\<rparr>)
        (capture_baseline (e_now e) run th d))"
      by (rule quiet_trans) (rule quiet_upd_thread; simp)
    then show ?thesis by (rule st [OF started(9)])
  qed
qed

lemma finish_run_grow:
  assumes "log_wf d" "target \<in> set TERMINAL_RUN_STATUSES"
    "finish_run e rid owner target reason tp pre tc d = Inr (res, evs, d')"
  shows "thread_logs_grow d d'"
  using assms(3)
proof (cases rule: finish_run_cases)
  case (finished run change pevs d1)
  let ?d2 = "del_lease rid (upd_run rid (finished_run e change) d1)"
  have 1: "thread_logs_grow d d1" "log_wf d1"
    using record_preceding_grow [OF assms(1) finished(4)] by simp_all
  have w2: "log_wf ?d2" by (rule log_wf_status) (use 1 in simp_all)
  from finished(6) [OF assms(2)] obtain p ev where
    r: "record_event e (Some rid) (run_thread_id run) ''lifecycle'' p [] tc True ?d2 = Inr (ev, d')"
    by blast
  have "thread_logs_grow d1 d'" by (rule quiet_record [OF _ w2 r]) (simp add: quiet_def)
  with 1(1) show ?thesis by (rule thread_logs_grow_trans)
qed simp

lemma fail_run_grow:
  assumes "log_wf d" "fail_run cfg e rid owner infra reason tp tc d = Inr (res, evs, d')"
  shows "thread_logs_grow d d'"
  using assms(2)
proof (cases rule: fail_run_cases)
  case (failed run change p ev n)
  show ?thesis
    by (rule quiet_record [OF _ _ failed(6)])
      (use assms(1) in \<open>auto simp: quiet_def intro: log_wf_status\<close>)
qed simp

lemma requeue_for_shutdown_grow:
  assumes "log_wf d" "requeue_for_shutdown cfg e rid owner drained d = Inr (res, evs, d')"
  shows "thread_logs_grow d d'"
  using assms(2)
proof (cases rule: requeue_for_shutdown_cases)
  case (requeued run change ev n)
  have "log_wf (upd_run rid (\<lambda>x. released_run e change n (drained_run drained x)) d)"
    by (rule log_wf_status) (use assms(1) in simp_all)
  then show ?thesis
    by (intro quiet_record [OF _ _ requeued(6)]) (simp_all add: quiet_def)
qed simp

lemma requeue_expired_grow:
  assumes "log_wf d" "requeue_expired cfg e when locked d = Inr (n, evs, d')"
  shows "thread_logs_grow d d'"
proof -
  have all: "thread_logs_grow d d1" if "log_wf d" "reclaim_all cfg e now runs d = Inr (evs, d1)"
    for now runs d d1 evs
    using that
  proof (induction runs arbitrary: d evs)
    case (Cons run runs)
    from Cons.prems(2) obtain ev d2 evs' where
      1: "reclaim_one cfg e now run d = Inr (ev, d2)" and
      2: "reclaim_all cfg e now runs d2 = Inr (evs', d1)"
      by (auto simp: rbind_eq_Inr)
    from 1 obtain change d3 m where
      d3: "d3 = (case run_thread_id run of
         None \<Rightarrow> upd_run (run_id run) (reclaimed_run change m now) d
       | Some t \<Rightarrow> upd_thread t (reclaim_thread (tr_status change = ERROR))
           (upd_run (run_id run) (reclaimed_run change m now) d))" and
      r: "record_event e (Some (run_id run)) (run_thread_id run) ''lifecycle''
       (lifecycle_event (status_value (tr_status change)) (reason_value (tr_reason change)))
       [] [] (tr_status change = ERROR) d3 = Inr (ev, d2)"
      by (rule reclaim_one_Inr)
    have "log_wf (upd_run (run_id run) (reclaimed_run change m now) d)"
      by (rule log_wf_status) (use Cons.prems(1) in simp_all)
    then have w: "log_wf d3"
      unfolding d3 by (auto intro: log_wf_thread_status split: option.split)
    have "quiet d d3"
      unfolding d3
      by (cases "run_thread_id run") (simp_all add: quiet_def thread_limit_upd_thread)
    from quiet_record [OF this w r] Cons.IH [OF record_event_log_wf [OF w r] 2]
    show ?case by (rule thread_logs_grow_trans)
  qed simp
  from assms(2) obtain d1 runs where
    1: "reclaim_all cfg e (case when of None \<Rightarrow> e_now e | Some t \<Rightarrow> t) runs d = Inr (evs, d1)" and
    2: "d' = drop_leases (run_id ` set runs) d1"
    by (auto simp: requeue_expired_def Let_def rbind_eq_Inr drop_leases_def)
  have "quiet d1 d'" by (simp add: 2 quiet_def)
  from thread_logs_grow_trans [OF all [OF assms(1) 1] quiet_grow [OF this]] show ?thesis .
qed

lemma rollback_run_quiet:
  assumes "rollback_run e run v d = Inr d'"
  shows "quiet d d'"
  using assms
proof (cases rule: rollback_run_cases)
  case deleted
  then show ?thesis using del_run_events by (simp add: quiet_def)
next
  case (restored t b th)
  have "quiet d (restore_baseline t b d)"
    unfolding restore_baseline_def
    by (rule quiet_trans [OF _ quiet_upd_thread]) (simp_all add: quiet_frame)
  moreover have "quiet (restore_baseline t b d) d'"
    unfolding restored(8) using del_run_events by (simp add: quiet_def)
  ultimately show ?thesis by (rule quiet_trans)
qed (simp add: quiet_def)

lemma cancel_row_grow:
  assumes "log_wf d" "cancel_row e rid action d = Inr (evs, d')"
  shows "thread_logs_grow d d'"
  using assms(2)
proof (cases rule: cancel_row_cases)
  case (rolled_back row)
  then show ?thesis by (blast intro: quiet_grow rollback_run_quiet)
next
  case (marked row)
  then show ?thesis by (intro quiet_grow) (simp add: quiet_def)
next
  case (cancelled row change ev)
  let ?d = "upd_run rid (cancelled_run e change) d"
  have "log_wf ?d" "log_wf (del_lease rid ?d)"
    by (rule log_wf_status; use assms(1) in simp)+
  then show ?thesis
    by (intro quiet_record [OF _ _ cancelled(6)]) (simp_all add: quiet_def)
qed simp

lemma cancel_rows_grow:
  assumes "db_ok d" "cancel_rows e ids d = Inr (evs, d')"
  shows "thread_logs_grow d d'"
  using assms
proof (induction ids arbitrary: d evs)
  case (Cons i ids)
  from Cons.prems(2) obtain d1 e1 e2 where
    1: "cancel_row e i ''interrupt'' d = Inr (e1, d1)" and 2: "cancel_rows e ids d1 = Inr (e2, d')"
    by (auto simp: rbind_eq_Inr)
  from cancel_row_grow [OF db_okD(1) [OF Cons.prems(1)] 1]
    Cons.IH [OF refines_ok [OF Cons.prems(1) cancel_row_refines [OF Cons.prems(1) 1]] 2]
  show ?case by (rule thread_logs_grow_trans)
qed simp

lemma set_positions_quiet: "quiet d (set_positions ps d)"
  unfolding set_positions_def
proof (induction ps arbitrary: d)
  case (Cons a ps)
  obtain r p where a: "a = (r, p)" by (cases a)
  have "quiet d (upd_run r (\<lambda>x. x\<lparr>run_queue_position := Some p\<rparr>) d)" by (simp add: quiet_def)
  from quiet_trans [OF this Cons.IH] show ?case by (simp add: a)
qed (simp add: quiet_def)

text \<open>The transactions that only touch rows are quiet.\<close>

lemma create_insert_quiet: "create_insert cfg e s pos d = Inr (r, d') \<Longrightarrow> quiet d d'"
  by (erule create_insert_cases) (simp_all add: quiet_frame)

lemma renew_quiet: "quiet d (snd (renew cfg e rid owner d))"
  by (rule quiet_frame) (auto simp: renew_def Let_def upd_lease_def split: option.split)

lemma release_stopped_quiet: "quiet d (release_stopped rid owner tid d)"
proof -
  have "quiet d (case t of None \<Rightarrow> d1 | Some u \<Rightarrow> upd_thread u (\<lambda>x. x\<lparr>th_status := ''idle''\<rparr>) d1)"
    if "quiet d d1" for t d1
    using that by (cases t) (simp_all add: quiet_def thread_limit_upd_thread)
  then show ?thesis
    by (auto simp: release_stopped_def Let_def quiet_def thread_limit_upd_thread
        split: option.split)
qed

lemma runs_delete_quiet: "quiet d (runs_delete vis t rid d)"
  using del_run_events by (auto simp: runs_delete_def quiet_def split: option.split)

lemma runs_queue_grow:
  assumes "db_ok d" "runs_queue e locked t q d = Inr (evs, d')"
  shows "thread_logs_grow d d'"
  using assms cancel_rows_grow [OF assms(1)] quiet_grow [OF set_positions_quiet]
  by (auto simp: runs_queue_def Let_def split: if_splits)

lemma complete_rollback_quiet: "quiet d (complete_rollback e owner locked rid d)"
  by (auto simp: complete_rollback_def split: option.split sum.split intro: rollback_run_quiet)

lemma prune_checkpoints_quiet: "prune_checkpoints e t d = Inr d' \<Longrightarrow> quiet d d'"
  by (rule quiet_frame) (auto simp: prune_checkpoints_def Let_def split: if_splits)

lemma fenced_writer_quiet:
  assumes "fenced_writer e w config d = Inr d'"
  shows "quiet d d'"
proof -
  have "d' = d \<or> (\<exists>t. d' = d\<lparr>db_baselines := filter (\<lambda>b. bl_thread_id b \<noteq> t) (db_baselines d)\<rparr>)"
    using assms unfolding fenced_writer_def rbind_eq_Inr Let_def by (auto split: option.splits if_splits)
  then show ?thesis by (auto intro: quiet_frame)
qed

lemma thread_created_grow:
  assumes "th_event_seq th = 0" "log_wf d"
  shows "thread_logs_grow d (d\<lparr>db_threads := db_threads d @ [th]\<rparr>)"
proof -
  have "thread_limit t d \<le> thread_limit t (d\<lparr>db_threads := db_threads d @ [th]\<rparr>)" for t
    using assms(1)
    by (cases "get_thread t d") (simp_all add: thread_limit_def get_thread_def t_get_append)
  then show ?thesis by (auto simp: thread_logs_grow_def grows_def thread_log_def)
qed

lemma protocol_step_grow:
  assumes "protocol_step cfg d d'" "db_ok d"
  shows "thread_logs_grow d d'"
  using assms(1)
proof cases
  case thread_created
  then show ?thesis using thread_created_grow db_okD(1) [OF assms(2)] by blast
next
  case (thread_changed g t)
  then show ?thesis by (intro quiet_grow) (simp add: quiet_upd_thread)
next
  case outside
  then show ?thesis by (intro quiet_grow) (simp add: quiet_frame)
next
  case renewed
  then show ?thesis using renew_quiet quiet_grow by blast
next
  case released
  then show ?thesis using release_stopped_quiet quiet_grow by blast
next
  case rolled_back
  then show ?thesis using complete_rollback_quiet quiet_grow by blast
next
  case deleted
  then show ?thesis using runs_delete_quiet quiet_grow by blast
next
  case pruned
  then show ?thesis using prune_logs_grow logs_grow_threads by blast
qed (use db_okD(1) [OF assms(2)] assms(2) in \<open>blast intro: quiet_grow create_insert_quiet claim_next_grow
    finish_run_grow fail_run_grow requeue_for_shutdown_grow requeue_expired_grow cancel_row_grow
    runs_queue_grow prune_checkpoints_quiet fenced_writer_quiet
    record_event_logs_grow record_deltas_logs_grow logs_grow_threads\<close>)+

lemma protocol_steps_grow:
  assumes "(protocol_step cfg)\<^sup>*\<^sup>* d d'" "db_ok d" "cfg_ok cfg"
  shows "db_ok d' \<and> thread_logs_grow d d'"
  using assms(1)
proof (induction rule: rtranclp_induct)
  case (step d1 d2)
  then show ?case
    using assms(3) protocol_step_ok [OF step.hyps(2)] protocol_step_grow [OF step.hyps(2)]
    by (blast intro: thread_logs_grow_trans)
qed (use assms(2) in simp)

text \<open>The databases a client sees, one after the other, in an execution.\<close>

lemma execution_grows:
  assumes "successively (protocol_step cfg)\<^sup>*\<^sup>* ds" "reachable cfg (hd ds)" "cfg_ok cfg"
  shows "successively (thread_grows t) ds \<and> (\<forall>d \<in> set ds. log_wf d)"
proof (cases ds)
  case (Cons d ds')
  have "successively (thread_grows t) (d # ds') \<and> (\<forall>x \<in> set (d # ds'). db_ok x)"
    if "db_ok d" "successively (protocol_step cfg)\<^sup>*\<^sup>* (d # ds')" for d ds'
    using that
  proof (induction ds' arbitrary: d)
    case (Cons d' ds')
    then have "db_ok d' \<and> thread_logs_grow d d'"
      by (intro protocol_steps_grow [OF _ _ assms(3)]) auto
    with Cons show ?case by (auto simp: thread_logs_grow_def)
  qed simp
  with assms Cons reachable_ok show ?thesis by (fastforce intro: db_okD)
qed simp

section \<open>The frames of the thread stream\<close>

definition shown :: "env \<Rightarrow> string set \<Rightarrow> event_row \<Rightarrow> bool" where
  "shown e modes row \<longleftrightarrow> thread_frame e row modes (\<lambda>_. None) empty_db \<noteq> None"

lemma thread_frame_shown: "thread_frame e row modes attempts d \<noteq> None \<longleftrightarrow> shown e modes row"
  by (simp add: shown_def thread_frame_def Let_def)

lemma thread_frame_id:
  "thread_frame e row modes attempts d = Some f \<Longrightarrow> snd (snd f) = sequence_id row"
  by (auto simp: thread_frame_def Let_def split: if_splits)

lemma emit_rows_cursor: "snd (emit_rows skip f rows c) = advance ev_sequence c rows"
proof (induction rows arbitrary: c)
  case (Cons row rows)
  obtain fs c' where e: "emit_rows skip f rows (ev_sequence row) = (fs, c')" by fastforce
  with Cons.IH [of "ev_sequence row"] show ?case
    by (simp add: advance_def split: option.split)
qed (simp add: advance_def)

lemma emit_rows_ids:
  assumes "\<And>row. f row \<noteq> None \<longleftrightarrow> P row" "\<And>row x. f row = Some x \<Longrightarrow> snd (snd x) = sequence_id row"
  shows "map (snd \<circ> snd) (fst (emit_rows skip f rows c)) =
           map sequence_id (filter (\<lambda>row. \<not> skip row \<and> P row) rows)"
proof (induction rows arbitrary: c)
  case (Cons row rows)
  obtain fs c' where e: "emit_rows skip f rows (ev_sequence row) = (fs, c')" by fastforce
  show ?case
    using Cons.IH [of "ev_sequence row"] assms(1) [of row] assms(2) [of row] e
    by (cases "f row") auto
qed simp

lemma thread_passes_follow:
  assumes "last_event_id = None \<or> last_event_id = Some ''-''" "\<not> ts_initial s"
  shows "\<exists>frames s'. thread_passes e t last_event_id modes ds s = Inr (frames, s') \<and>
    map (snd \<circ> snd) frames = map sequence_id (filter (shown e modes)
      (follow ev_sequence (\<lambda>c d. snd (thread_events t c d)) (ts_cursor s) (map fst ds)))"
  using assms(2)
proof (induction ds arbitrary: s)
  case (Cons p ds)
  obtain d d' where p: "p = (d, d')" by (cases p)
  define rows where "rows = snd (thread_events t (ts_cursor s) d)"
  define f where "f = (\<lambda>row. thread_frame e row modes (run_attempts (running_runs rows) d') d')"
  obtain fs c where out: "emit_rows (passed_over False []) f rows (ts_cursor s) = (fs, c)"
    by fastforce
  let ?s = "\<lparr>ts_cursor = c, ts_initial = False\<rparr>"
  have pass: "thread_pass e t last_event_id modes d d' s = Inr (Inr (fs, ?s))"
    using assms(1) Cons.prems out
    by (auto simp: thread_pass_def Let_def rows_def f_def split: prod.split)
  have c: "c = advance ev_sequence (ts_cursor s) rows"
    using emit_rows_cursor [of "passed_over False []" f rows "ts_cursor s"] out by simp
  have "map (snd \<circ> snd) (fst (emit_rows (passed_over False []) f rows (ts_cursor s))) =
      map sequence_id (filter (\<lambda>row. \<not> passed_over False [] row \<and> shown e modes row) rows)"
    by (rule emit_rows_ids) (simp_all add: f_def thread_frame_shown thread_frame_id del: not_None_eq)
  then have i: "map (snd \<circ> snd) fs = map sequence_id (filter (shown e modes) rows)"
    by (simp only: out fst_conv) (simp add: passed_over_def)
  have s: "\<not> ts_initial ?s" "ts_cursor ?s = c" by simp_all
  obtain rest s' where r: "thread_passes e t last_event_id modes ds ?s = Inr (rest, s')"
    "map (snd \<circ> snd) rest = map sequence_id (filter (shown e modes)
      (follow ev_sequence (\<lambda>c d. snd (thread_events t c d)) c (map fst ds)))"
    using Cons.IH [OF s(1)] unfolding s(2) by blast
  have "thread_passes e t last_event_id modes (p # ds) s = Inr (fs @ rest, s')"
    by (simp add: p pass r(1))
  moreover have "map (snd \<circ> snd) (fs @ rest) = map sequence_id (filter (shown e modes)
      (follow ev_sequence (\<lambda>c d. snd (thread_events t c d)) (ts_cursor s) (map fst (p # ds))))"
    unfolding map_append i r(2) by (simp add: p c rows_def)
  ultimately show ?case by blast
qed simp

section \<open>The numbers of a run stream\<close>

definition numbers :: "sse_out list \<Rightarrow> int list" where
  "numbers outs = concat (map (\<lambda>x. case x of Event _ _ n \<Rightarrow> [n] | _ \<Rightarrow> []) outs)"

lemma numbers_simps [simp]:
  "numbers [] = []" "numbers (Event a b n # xs) = n # numbers xs"
  "numbers (Notice a b # xs) = numbers xs" "numbers (Heartbeat # xs) = numbers xs"
  "numbers (xs @ ys) = numbers xs @ numbers ys"
  by (simp_all add: numbers_def)

text \<open>\<open>news cursor seen outs seen'\<close>: the numbers written are new, and remembered.\<close>

definition news :: "int \<Rightarrow> int list \<Rightarrow> sse_out list \<Rightarrow> int list \<Rightarrow> bool" where
  "news cursor seen outs seen' \<longleftrightarrow>
     distinct (numbers outs) \<and> (\<forall>n \<in> set (numbers outs). cursor < n \<and> n \<notin> set seen) \<and>
     set seen' = set seen \<union> set (numbers outs)"

lemma news_append:
  "news c seen a seen1 \<Longrightarrow> news c seen1 b seen2 \<Longrightarrow> news c seen (a @ b) seen2"
  unfolding news_def by auto

lemma emit_envelope_news:
  assumes "emit_envelope e cfg seen x = Inr (outs, seen')"
  shows "news (rs_cursor cfg) seen outs seen'"
proof -
  obtain f where f: "event_frame e (rs_modes cfg) (rs_subgraphs cfg) (rs_version cfg) x = Inr f"
    using assms by (auto simp: emit_envelope_def rbind_eq_Inr)
  show ?thesis
  proof (cases f)
    case None
    with assms f show ?thesis by (simp add: emit_envelope_def news_def)
  next
    case (Some g)
    obtain name data n where "g = (name, data, n)" by (cases g)
    with assms f Some show ?thesis
      by (auto simp: emit_envelope_def news_def split: if_splits)
  qed
qed

lemma emit_all_news:
  "emit_all e cfg seen xs = Inr (outs, seen') \<Longrightarrow> news (rs_cursor cfg) seen outs seen'"
proof (induction xs arbitrary: seen outs)
  case (Cons x xs)
  then obtain a seen1 b where "emit_envelope e cfg seen x = Inr (a, seen1)"
    "emit_all e cfg seen1 xs = Inr (b, seen')" "outs = a @ b"
    by (auto simp: rbind_eq_Inr)
  with Cons.IH emit_envelope_news show ?case by (blast intro: news_append)
qed (simp add: news_def)

lemma run_turn_news:
  assumes "run_turn e cfg seen t = Inr (outs, seen', goes_on)"
  shows "news (rs_cursor cfg) seen outs seen'"
proof (cases t)
  case (Message m authorized beat)
  show ?thesis
  proof (cases m)
    case None
    with assms Message show ?thesis by (auto simp: news_def split: if_splits)
  next
    case (Some envelope)
    with assms Message show ?thesis
      by (auto simp: rbind_eq_Inr news_def split: if_splits dest!: emit_envelope_news)
  qed
next
  case (Silence authorized snapshot d)
  with assms show ?thesis
    by (auto simp: rbind_eq_Inr news_def split: if_splits option.splits dest!: emit_all_news)
qed

lemma run_turns_news:
  "run_turns e cfg seen ts = Inr outs \<Longrightarrow> \<exists>seen'. news (rs_cursor cfg) seen outs seen'"
proof (induction ts arbitrary: seen outs)
  case Nil
  then show ?case by (auto simp: news_def)
next
  case (Cons t ts)
  then obtain a seen1 goes_on where t: "run_turn e cfg seen t = Inr (a, seen1, goes_on)" and
    r: "(if goes_on then rbind (run_turns e cfg seen1 ts) (\<lambda>rest. Inr (a @ rest)) else Inr a) = Inr outs"
    by (auto simp: rbind_eq_Inr)
  note n = run_turn_news [OF t]
  show ?case
  proof (cases goes_on)
    case True
    with r obtain rest where "run_turns e cfg seen1 ts = Inr rest" "outs = a @ rest"
      by (auto simp: rbind_eq_Inr)
    with Cons.IH n show ?thesis by (blast intro: news_append)
  next
    case False
    with r n show ?thesis by auto
  qed
qed

lemma run_prologue_news:
  "run_prologue e cfg authorized d snapshot' = Inr (outs, seen, goes_on) \<Longrightarrow>
   news (rs_cursor cfg) [] outs seen"
  by (auto simp: run_prologue_def Let_def rbind_eq_Inr news_def
      split: prod.splits option.splits if_splits dest!: emit_all_news)

lemma run_sse_news:
  assumes "run_sse e cfg authorized d snapshot' turns = Inr outs"
  shows "distinct (numbers outs) \<and> (\<forall>n \<in> set (numbers outs). rs_cursor cfg < n)"
proof -
  obtain a seen goes_on where p: "run_prologue e cfg authorized d snapshot' = Inr (a, seen, goes_on)" and
    r: "(if goes_on then rbind (run_turns e cfg seen turns) (\<lambda>rest. Inr (a @ rest)) else Inr a) = Inr outs"
    using assms by (auto simp: run_sse_def rbind_eq_Inr)
  note n = run_prologue_news [OF p]
  show ?thesis
  proof (cases goes_on)
    case True
    with r obtain rest where "run_turns e cfg seen turns = Inr rest" "outs = a @ rest"
      by (auto simp: rbind_eq_Inr)
    with n show ?thesis by (auto simp: news_def dest!: run_turns_news)
  next
    case False
    with r n show ?thesis by (auto simp: news_def)
  qed
qed

text \<open>The replay of the prologue writes exactly the events that have a frame.\<close>

definition framed :: "env \<Rightarrow> run_stream_config \<Rightarrow> event_row \<Rightarrow> bool" where
  "framed e cfg row \<longleftrightarrow> (\<exists>f. event_frame e (rs_modes cfg) (rs_subgraphs cfg) (rs_version cfg)
      (event_envelope row) = Inr (Some f))"

lemma envelope_fields [simp]:
  "dget (event_envelope row) ''seq'' = JInt (ev_sequence row)" "dhas (event_envelope row) ''seq''"
  "dget (event_envelope row) ''event'' = JObj (ev_payload row)"
  by (simp_all add: event_envelope_def dget_def dhas_def)

lemma event_frame_number:
  assumes "event_frame e modes sub v (event_envelope row) = Inr (Some (name, data, n))"
  shows "n = ev_sequence row"
  using assms by (auto simp: event_frame_def rbind_eq_Inr Let_def split: if_splits option.splits)

lemma emit_all_rows:
  assumes "emit_all e cfg seen (map event_envelope rows) = Inr (outs, seen')"
    "sorted_wrt (<) (map ev_sequence rows)"
    "\<And>row. row \<in> set rows \<Longrightarrow> rs_cursor cfg < ev_sequence row \<and> (\<forall>n \<in> set seen. n < ev_sequence row)"
  shows "numbers outs = map ev_sequence (filter (framed e cfg) rows)"
  using assms
proof (induction rows arbitrary: seen outs)
  case (Cons row rows)
  from Cons.prems(1) obtain a seen1 b where
    1: "emit_envelope e cfg seen (event_envelope row) = Inr (a, seen1)" and
    2: "emit_all e cfg seen1 (map event_envelope rows) = Inr (b, seen')" and 3: "outs = a @ b"
    by (auto simp: rbind_eq_Inr)
  from 1 obtain f where f: "event_frame e (rs_modes cfg) (rs_subgraphs cfg) (rs_version cfg)
      (event_envelope row) = Inr f"
    by (auto simp: emit_envelope_def rbind_eq_Inr)
  have new: "rs_cursor cfg < ev_sequence row" "ev_sequence row \<notin> set seen"
    using Cons.prems(3) [of row] by auto
  have a: "numbers a = (if framed e cfg row then [ev_sequence row] else []) \<and>
      set seen1 \<subseteq> insert (ev_sequence row) (set seen)"
  proof (cases f)
    case None
    with f 1 show ?thesis by (auto simp: emit_envelope_def framed_def)
  next
    case (Some g)
    obtain name data n where g: "g = (name, data, n)" by (cases g)
    from event_frame_number f Some g have "n = ev_sequence row" by blast
    with f Some g new 1 show ?thesis by (auto simp: emit_envelope_def framed_def)
  qed
  have "numbers b = map ev_sequence (filter (framed e cfg) rows)"
    by (rule Cons.IH [OF 2]) (use Cons.prems(2,3) a in auto)
  with a 3 show ?case by simp
qed simp

lemma run_prologue_replays:
  assumes "log_wf d" "get_run (rs_run cfg) d = Some run"
    "rs_cursor cfg = 0 \<or> run_event_pruned_through run \<le> rs_cursor cfg"
    "rs_include_location cfg \<or> truthy (dget (run_kwargs run) ''stream_resumable'')"
    "run_prologue e cfg True d snapshot' = Inr (outs, seen, goes_on)"
  shows "numbers outs = map ev_sequence (filter (framed e cfg)
           (filter (\<lambda>v. rs_cursor cfg < ev_sequence v) (run_log (rs_run cfg) d)))"
proof -
  let ?rows = "filter (\<lambda>v. rs_cursor cfg < ev_sequence v) (run_log (rs_run cfg) d)"
  have l: "load_events (rs_run cfg) (rs_cursor cfg) d = ?rows"
    by (rule run_replay.replay_after [OF assms(1)])
  have s: "sorted_wrt (<) (map ev_sequence ?rows)"
    using run_replay.replay_sorted [OF assms(1), of "rs_run cfg" "rs_cursor cfg"] l by simp
  have inc: "rs_include_location cfg \<or>
      truthy (dgetdef (run_kwargs run) ''stream_resumable'' (JBool False))"
    using assms(4) by (auto simp: dget_def dgetdef_def split: option.splits)
  have cur: "\<not> (rs_cursor cfg \<noteq> 0 \<and> rs_cursor cfg < run_event_pruned_through run)"
    using assms(3) by auto
  define lv where "lv = (\<not> rs_include_location cfg \<and>
      \<not> truthy (dgetdef (run_kwargs run) ''stream_resumable'' (JBool False)))"
  have lv: "lv = False" using inc by (simp add: lv_def)
  have rep: "run_replay True (rs_run cfg) (rs_cursor cfg) d = (Some run, ?rows)"
    by (simp add: run_replay_def l assms(2))
  define hello where "hello = Notice ''metadata'' (JObj [(''run_id'', JStr (uuid_str (rs_run cfg))),
      (''attempt'', JInt (run_retry_count run + 1))])"
  have "run_prologue e cfg True d snapshot' =
      rbind (emit_all e cfg [] (map event_envelope ?rows)) (\<lambda>(outs, seen).
        Inr (hello # outs, seen, case snapshot' of None \<Rightarrow> False | Some run \<Rightarrow> \<not> is_terminal_run run))"
    unfolding run_prologue_def rep prod.case option.case Let_def lv_def [symmetric] lv hello_def [symmetric]
      if_not_P [OF cur] by simp
  with assms(5) have r: "rbind (emit_all e cfg [] (map event_envelope ?rows)) (\<lambda>(outs, seen).
        Inr (hello # outs, seen, case snapshot' of None \<Rightarrow> False | Some run \<Rightarrow> \<not> is_terminal_run run))
      = Inr (outs, seen, goes_on)"
    by (simp only:)
  have "\<exists>outs'. emit_all e cfg [] (map event_envelope ?rows) = Inr (outs', seen) \<and> outs = hello # outs'"
  proof (cases "emit_all e cfg [] (map event_envelope ?rows)")
    case (Inl x)
    with r show ?thesis by (simp only: rbind_simps sum.simps)
  next
    case (Inr p)
    obtain a b where p: "p = (a, b)" by (cases p)
    from r have "hello # a = outs \<and> b = seen"
      unfolding Inr p rbind_simps prod.case by simp
    with Inr p show ?thesis by blast
  qed
  then obtain outs' where o: "emit_all e cfg [] (map event_envelope ?rows) = Inr (outs', seen)"
    "outs = hello # outs'" by blast
  have "numbers outs = numbers outs'" unfolding o(2) hello_def numbers_simps ..
  moreover have "numbers outs' = map ev_sequence (filter (framed e cfg) ?rows)"
    by (rule emit_all_rows [OF o(1) s]) simp
  ultimately show ?thesis by (simp only:)
qed

end
