(* ===== verification/Streams.thy ===== *)
theory Streams
  imports Delivery Scenario
begin

text \<open>
  What the event streams promise their clients over whole executions: no event lost and none
  repeated after the cursor, a complete replay, retention that is announced, and frames that a
  reader takes apart again.
\<close>

section \<open>Following a log\<close>



section \<open>The run stream\<close>

text \<open>
  C13: a run stream numbers its events: no number twice, none at or below the cursor the client
  sent, through the replay, the messages, the silences and the final catch-up.
\<close>

theorem run_stream_never_repeats:
  assumes "run_sse e cfg authorized d snapshot' turns = Inr outs"
  shows "distinct (numbers outs) \<and> (\<forall>n \<in> set (numbers outs). rs_cursor cfg < n)"
  by (rule run_sse_news [OF assms])

definition demo_stream :: "int \<Rightarrow> run_stream_config" where
  "demo_stream c = \<lparr>rs_run = 2, rs_cursor = c, rs_modes = {''values''}, rs_subgraphs = False,
     rs_version = ''v2'', rs_include_location = True\<rparr>"

theorem run_stream_never_repeats_witness:
  "\<exists>outs. run_sse (demo_env 50) (demo_stream 0) True demo_db3 (get_run 2 demo_db3)
      [Silence True (get_run 2 demo_db4) demo_db4] = Inr outs \<and> distinct (numbers outs) \<and>
      length (numbers outs) = 1"
proof -
  let ?r = "run_sse (demo_env 50) (demo_stream 0) True demo_db3 (get_run 2 demo_db3)
      [Silence True (get_run 2 demo_db4) demo_db4]"
  have "case ?r of Inl _ \<Rightarrow> False | Inr outs \<Rightarrow> length (numbers outs) = 1" by code_simp
  then obtain outs where r: "?r = Inr outs" "length (numbers outs) = 1" by (auto split: sum.splits)
  with run_stream_never_repeats [OF r(1)] show ?thesis by blast
qed

text \<open>
  the replay of a resumable run whose cursor has not expired is complete and in order: the
  numbers written before the stream waits are those of all the run's logged events after the
  cursor that have a frame in the requested modes.
\<close>

theorem run_replay_is_complete:
  assumes "log_wf d" "get_run (rs_run cfg) d = Some run"
    "rs_cursor cfg = 0 \<or> run_event_pruned_through run \<le> rs_cursor cfg"
    "rs_include_location cfg \<or> truthy (dget (run_kwargs run) ''stream_resumable'')"
    "run_prologue e cfg True d snapshot' = Inr (outs, seen, goes_on)"
  shows "numbers outs = map ev_sequence (filter (framed e cfg)
           (filter (\<lambda>v. rs_cursor cfg < ev_sequence v) (run_log (rs_run cfg) d)))"
  by (rule run_prologue_replays [OF assms])

theorem run_replay_is_complete_witness:
  "\<exists>outs seen b. run_prologue (demo_env 50) (demo_stream 0) True demo_db4 (get_run 2 demo_db4) =
      Inr (outs, seen, b) \<and> numbers outs = map ev_sequence (filter (framed (demo_env 50) (demo_stream 0))
        (filter (\<lambda>v. 0 < ev_sequence v) (run_log 2 demo_db4))) \<and> length (numbers outs) = 1"
proof -
  let ?r = "run_prologue (demo_env 50) (demo_stream 0) True demo_db4 (get_run 2 demo_db4)"
  have "case ?r of Inl _ \<Rightarrow> False | Inr (outs, seen, b) \<Rightarrow> length (numbers outs) = 1" by code_simp
  then obtain outs seen b where r: "?r = Inr (outs, seen, b)" "length (numbers outs) = 1"
    by (auto split: sum.splits)
  obtain run where run: "get_run (rs_run (demo_stream 0)) demo_db4 = Some run"
    by (cases "get_run 2 demo_db4") (auto simp: demo_stream_def, code_simp)
  have "rs_cursor (demo_stream 0) = 0" "rs_run (demo_stream 0) = 2"
    "rs_include_location (demo_stream 0)" by (simp_all add: demo_stream_def)
  with run_replay_is_complete [OF db_okD(1) [OF reachable_ok [OF demo_reachable4 demo_cfg_ok]] run _ _ r(1)] r
  show ?thesis by simp
qed

section \<open>Retention\<close>

lemma prune_effect_events:
  "db_events (prune_effect run ids w d) = filter (\<lambda>v. ev_id v \<notin> set ids) (db_events d)"
  by (auto simp: prune_effect_def split: option.split)

text \<open>An event that retention deletes lies at or below the watermarks it leaves.\<close>

lemma prune_gone:
  assumes "log_wf d" "d' = snd (prune_expired_events e locked secs n d)"
    "v \<in> set (db_events d)" "v \<notin> set (db_events d')"
  obtains r run where "ev_run_id v = Some r" "get_run r d' = Some run"
    "ev_sequence v \<le> run_event_pruned_through run" "\<not> ev_terminal v"
    "ev_created_at v < e_now e - secs * 1000000" "run_status run \<in> set TERMINAL_RUN_STATUSES"
    "\<And>t. ev_thread_id v = Some t \<Longrightarrow> \<exists>th. get_thread t d' = Some th \<and> ev_sequence v \<le> th_event_pruned_through th"
  using prune_expired_events_alt [of e locked secs n d]
proof (elim disjE exE conjE)
  assume "prune_expired_events e locked secs n d = (0, d)"
  with assms(2-4) show ?thesis by simp
next
  fix run ids deleted
  assume p: "prune_candidate (e_now e - secs * 1000000) locked d = Some run"
    "ids = prune_batch (e_now e - secs * 1000000) (run_id run) (nat n) d"
    "deleted = map ev_sequence (filter (\<lambda>v. ev_id v \<in> set ids) (db_events d))"
    "prune_expired_events e locked secs n d = (length deleted, prune_effect run ids (Max (set deleted)) d)"
  let ?w = "Max (set deleted)"
  have d': "d' = prune_effect run ids ?w d" using assms(2) p(4) by simp
  have i: "ev_id v \<in> set ids" using assms(3,4) by (simp add: d' prune_effect_events)
  then obtain x where x: "x \<in> set (db_events d)" "ev_id x = ev_id v"
    "expired_event (e_now e - secs * 1000000) (run_id run) x"
    by (auto simp: p(2) prune_batch_def dest!: in_set_takeD)
  then have "x = v" using assms(1,3) log_wfD(3) [OF assms(1)] by (auto simp: distinct_map inj_on_def)
  with x have v: "ev_run_id v = Some (run_id run)" "ev_created_at v < e_now e - secs * 1000000"
    "\<not> ev_terminal v" by (simp_all add: expired_event_def)
  have "ev_sequence v \<in> set deleted" using assms(3) i by (simp add: p(3))
  then have w: "ev_sequence v \<le> ?w" by (rule Max_ge [OF finite_set])
  have run: "run \<in> set (db_runs d)" "run_status run \<in> set TERMINAL_RUN_STATUSES"
    using p(1) by (auto simp: prune_candidate_def dest!: min_by_in)
  then have g: "get_run (run_id run) d = Some run" using log_wfD(1) [OF assms(1)] by (simp add: runs_t.get_in)
  from event_refs_run [OF log_wfD(4) [OF assms(1,3)] v(1)] g
  have t: "ev_thread_id v = run_thread_id run" by simp
  show ?thesis
  proof (rule that [OF v(1) _ _ v(3,2)])
    show "get_run (run_id run) d' = Some (run\<lparr>run_event_pruned_through := max (run_event_pruned_through run) ?w\<rparr>)"
      using g by (auto simp: d' prune_effect_def runs_t.get_upd split: option.split)
    fix u assume u: "ev_thread_id v = Some u"
    from event_refs_thread [OF log_wfD(4) [OF assms(1,3)] u] obtain th where "get_thread u d = Some th" by auto
    moreover have "run_thread_id run = Some u" using t u by simp
    ultimately show "\<exists>th. get_thread u d' = Some th \<and> ev_sequence v \<le> th_event_pruned_through th"
      using w by (auto simp: d' prune_effect_def threads_t.get_upd)
  qed (use run w in auto)
qed

lemma prune_keeps_rest:
  assumes "d' = snd (prune_expired_events e locked secs n d)"
    "\<And>v. v \<in> set (db_events d) \<Longrightarrow> P v \<Longrightarrow> v \<in> set (db_events d')"
  shows "filter P (db_events d') = filter P (db_events d)"
proof -
  obtain Q where Q: "db_events d' = filter Q (db_events d)"
    using prune_expired_events_alt [of e locked secs n d] assms(1)
    by (elim disjE exE conjE) (auto simp: prune_effect_events intro: that [of "\<lambda>_. True"])
  from assms(2) have "\<And>v. v \<in> set (db_events d) \<Longrightarrow> P v \<Longrightarrow> Q v" by (simp add: Q)
  then show ?thesis by (auto simp: Q intro: filter_cong)
qed

text \<open>The run of the scenario with a second event, finished and pruned a while later.\<close>

definition demo_two :: db where
  "demo_two = (case record_event (demo_env 35) (Some 2) (Some 1) ''values''
       [(''event'', JStr ''values'')] [] [] False demo_db3 of Inr (ev, d) \<Rightarrow> d | Inl _ \<Rightarrow> demo_db3)"

lemma demo_two_value [code]:
  "demo_two =
    \<lparr>db_assistants = [], db_versions = [],
    db_threads =
      [\<lparr>th_id = 1, th_graph_id = Some ''g'', th_status = ''busy'',
          th_event_seq = 2, th_event_pruned_through = 0, th_metadata = [],
          th_config = [], th_values = JNull, th_interrupts = [],
          th_error = JNull, th_created_at = 0, th_updated_at = 0,
          th_state_updated_at = None\<rparr>],
    db_runs =
      [\<lparr>run_id = 2, run_thread_id = Some 1, run_assistant_id = 7,
          run_status = ''running'', run_reason = None, run_retry_count = 1,
          run_max_attempts = 3, run_next_attempt_at = None,
          run_idempotency_key = Some ''k'', run_lease_owner = Some ''w1'',
          run_lease_expires_at = Some 60000020, run_heartbeat_at = Some 20,
          run_event_seq = 2, run_event_pruned_through = 0,
          run_metadata = [], run_kwargs = [], run_queue_position = Some 1,
          run_multitask_strategy = Some ''enqueue'', run_created_at = 10,
          run_updated_at = 10\<rparr>],
    db_leases =
      [\<lparr>ls_run_id = 2, ls_owner = ''w1'', ls_expires_at = 60000020,
          ls_heartbeat_at = 20, ls_generation = 1\<rparr>],
    db_events =
      [\<lparr>ev_id = 3, ev_run_id = Some 2, ev_thread_id = Some 1,
          ev_sequence = 1, ev_topic = ''values'', ev_namespace = [],
          ev_payload =
            [(''event'', JStr ''values''), (''timestamp'', JInt 0),
             (''trace'',
              JObj
               [(''schema_version'', JInt 1),
                (''run_id'', JStr ''00000000-0000-0000-0000-000000000002''),
                (''thread_id'',
                 JStr ''00000000-0000-0000-0000-000000000001''),
                (''event'', JStr ''values''),
                (''namespace'',
                 JObj
                  [(''kind'', JStr ''list''), (''size'', JInt 0),
                   (''sha256'', JStr ''h'')])])],
          ev_terminal = False, ev_created_at = 30\<rparr>,
       \<lparr>ev_id = 4, ev_run_id = Some 2, ev_thread_id = Some 1,
          ev_sequence = 2, ev_topic = ''values'', ev_namespace = [],
          ev_payload =
            [(''event'', JStr ''values''), (''timestamp'', JInt 0),
             (''trace'',
              JObj
               [(''schema_version'', JInt 1),
                (''run_id'', JStr ''00000000-0000-0000-0000-000000000002''),
                (''thread_id'',
                 JStr ''00000000-0000-0000-0000-000000000001''),
                (''event'', JStr ''values''),
                (''namespace'',
                 JObj
                  [(''kind'', JStr ''list''), (''size'', JInt 0),
                   (''sha256'', JStr ''h'')])])],
          ev_terminal = False, ev_created_at = 35\<rparr>],
    db_baselines =
      [\<lparr>bl_run_id = 2, bl_thread_id = 1, bl_checkpoints = [],
          bl_writes = [],
          bl_projection =
            \<lparr>pj_captured_at = 20, pj_values = JNull, pj_interrupts = [],
               pj_status = ''idle'', pj_error = JNull,
               pj_graph_id = Some ''g'', pj_state_updated_at = None\<rparr>\<rparr>],
    db_checkpoints = [], db_writes = [], db_blobs = [], db_crons = [],
    db_retry_counters = [], db_draws = 3\<rparr>"
  by code_simp

definition demo_done :: db where
  "demo_done = out_db demo_two
     (finish_run (demo_env 40) 2 ''w1'' ''success'' ''completed'' None [] [] demo_two)"

lemma demo_done_value [code]:
  "demo_done =
    \<lparr>db_assistants = [], db_versions = [],
    db_threads =
      [\<lparr>th_id = 1, th_graph_id = Some ''g'', th_status = ''busy'',
          th_event_seq = 3, th_event_pruned_through = 0, th_metadata = [],
          th_config = [], th_values = JNull, th_interrupts = [],
          th_error = JNull, th_created_at = 0, th_updated_at = 0,
          th_state_updated_at = None\<rparr>],
    db_runs =
      [\<lparr>run_id = 2, run_thread_id = Some 1, run_assistant_id = 7,
          run_status = ''success'', run_reason = Some ''completed'',
          run_retry_count = 1, run_max_attempts = 3,
          run_next_attempt_at = None, run_idempotency_key = Some ''k'',
          run_lease_owner = None, run_lease_expires_at = None,
          run_heartbeat_at = Some 40, run_event_seq = 3,
          run_event_pruned_through = 0, run_metadata = [], run_kwargs = [],
          run_queue_position = Some 1,
          run_multitask_strategy = Some ''enqueue'', run_created_at = 10,
          run_updated_at = 40\<rparr>],
    db_leases = [],
    db_events =
      [\<lparr>ev_id = 3, ev_run_id = Some 2, ev_thread_id = Some 1,
          ev_sequence = 1, ev_topic = ''values'', ev_namespace = [],
          ev_payload =
            [(''event'', JStr ''values''), (''timestamp'', JInt 0),
             (''trace'',
              JObj
               [(''schema_version'', JInt 1),
                (''run_id'', JStr ''00000000-0000-0000-0000-000000000002''),
                (''thread_id'',
                 JStr ''00000000-0000-0000-0000-000000000001''),
                (''event'', JStr ''values''),
                (''namespace'',
                 JObj
                  [(''kind'', JStr ''list''), (''size'', JInt 0),
                   (''sha256'', JStr ''h'')])])],
          ev_terminal = False, ev_created_at = 30\<rparr>,
       \<lparr>ev_id = 4, ev_run_id = Some 2, ev_thread_id = Some 1,
          ev_sequence = 2, ev_topic = ''values'', ev_namespace = [],
          ev_payload =
            [(''event'', JStr ''values''), (''timestamp'', JInt 0),
             (''trace'',
              JObj
               [(''schema_version'', JInt 1),
                (''run_id'', JStr ''00000000-0000-0000-0000-000000000002''),
                (''thread_id'',
                 JStr ''00000000-0000-0000-0000-000000000001''),
                (''event'', JStr ''values''),
                (''namespace'',
                 JObj
                  [(''kind'', JStr ''list''), (''size'', JInt 0),
                   (''sha256'', JStr ''h'')])])],
          ev_terminal = False, ev_created_at = 35\<rparr>,
       \<lparr>ev_id = 5, ev_run_id = Some 2, ev_thread_id = Some 1,
          ev_sequence = 3, ev_topic = ''lifecycle'', ev_namespace = [],
          ev_payload =
            [(''event'', JStr ''lifecycle''),
             (''status'', JStr ''success''),
             (''reason'', JStr ''completed''),
             (''graph_name'',
              JStr ''00000000-0000-0000-0000-000000000007''),
             (''timestamp'', JInt 0),
             (''trace'',
              JObj
               [(''schema_version'', JInt 1),
                (''run_id'', JStr ''00000000-0000-0000-0000-000000000002''),
                (''thread_id'',
                 JStr ''00000000-0000-0000-0000-000000000001''),
                (''event'', JStr ''lifecycle''),
                (''namespace'',
                 JObj
                  [(''kind'', JStr ''list''), (''size'', JInt 0),
                   (''sha256'', JStr ''h'')]),
                (''status'', JStr ''success''),
                (''reason'', JStr ''completed'')])],
          ev_terminal = True, ev_created_at = 40\<rparr>],
    db_baselines =
      [\<lparr>bl_run_id = 2, bl_thread_id = 1, bl_checkpoints = [],
          bl_writes = [],
          bl_projection =
            \<lparr>pj_captured_at = 20, pj_values = JNull, pj_interrupts = [],
               pj_status = ''idle'', pj_error = JNull,
               pj_graph_id = Some ''g'', pj_state_updated_at = None\<rparr>\<rparr>],
    db_checkpoints = [], db_writes = [], db_blobs = [], db_crons = [],
    db_retry_counters = [], db_draws = 4\<rparr>"
  by code_simp

definition demo_retained :: db where
  "demo_retained = snd (prune_expired_events (demo_env 2000000) no_lock 1 10 demo_done)"

lemma demo_retained_value [code]:
  "demo_retained =
    \<lparr>db_assistants = [], db_versions = [],
    db_threads =
      [\<lparr>th_id = 1, th_graph_id = Some ''g'', th_status = ''busy'',
          th_event_seq = 3, th_event_pruned_through = 2, th_metadata = [],
          th_config = [], th_values = JNull, th_interrupts = [],
          th_error = JNull, th_created_at = 0, th_updated_at = 0,
          th_state_updated_at = None\<rparr>],
    db_runs =
      [\<lparr>run_id = 2, run_thread_id = Some 1, run_assistant_id = 7,
          run_status = ''success'', run_reason = Some ''completed'',
          run_retry_count = 1, run_max_attempts = 3,
          run_next_attempt_at = None, run_idempotency_key = Some ''k'',
          run_lease_owner = None, run_lease_expires_at = None,
          run_heartbeat_at = Some 40, run_event_seq = 3,
          run_event_pruned_through = 2, run_metadata = [], run_kwargs = [],
          run_queue_position = Some 1,
          run_multitask_strategy = Some ''enqueue'', run_created_at = 10,
          run_updated_at = 40\<rparr>],
    db_leases = [],
    db_events =
      [\<lparr>ev_id = 5, ev_run_id = Some 2, ev_thread_id = Some 1,
          ev_sequence = 3, ev_topic = ''lifecycle'', ev_namespace = [],
          ev_payload =
            [(''event'', JStr ''lifecycle''),
             (''status'', JStr ''success''),
             (''reason'', JStr ''completed''),
             (''graph_name'',
              JStr ''00000000-0000-0000-0000-000000000007''),
             (''timestamp'', JInt 0),
             (''trace'',
              JObj
               [(''schema_version'', JInt 1),
                (''run_id'', JStr ''00000000-0000-0000-0000-000000000002''),
                (''thread_id'',
                 JStr ''00000000-0000-0000-0000-000000000001''),
                (''event'', JStr ''lifecycle''),
                (''namespace'',
                 JObj
                  [(''kind'', JStr ''list''), (''size'', JInt 0),
                   (''sha256'', JStr ''h'')]),
                (''status'', JStr ''success''),
                (''reason'', JStr ''completed'')])],
          ev_terminal = True, ev_created_at = 40\<rparr>],
    db_baselines =
      [\<lparr>bl_run_id = 2, bl_thread_id = 1, bl_checkpoints = [],
          bl_writes = [],
          bl_projection =
            \<lparr>pj_captured_at = 20, pj_values = JNull, pj_interrupts = [],
               pj_status = ''idle'', pj_error = JNull,
               pj_graph_id = Some ''g'', pj_state_updated_at = None\<rparr>\<rparr>],
    db_checkpoints = [], db_writes = [], db_blobs = [], db_crons = [],
    db_retry_counters = [], db_draws = 4\<rparr>"
  by code_simp

lemma demo_two_reachable: "reachable demo_cfg demo_two"
proof -
  let ?r = "record_event (demo_env 35) (Some 2) (Some 1) ''values''
       [(''event'', JStr ''values'')] [] [] False demo_db3"
  have "case ?r of Inl _ \<Rightarrow> False | Inr _ \<Rightarrow> True" by code_simp
  then obtain a where "?r = Inr (a, demo_two)" unfolding demo_two_def by (auto split: sum.splits)
  then have "protocol_step demo_cfg demo_db3 demo_two" by (rule protocol_step.recorded)
  with demo_reachable3 show ?thesis unfolding reachable_def by (rule rtranclp.rtrancl_into_rtrancl)
qed

lemma demo_done_reachable: "reachable demo_cfg demo_done"
proof -
  let ?r = "finish_run (demo_env 40) 2 ''w1'' ''success'' ''completed'' None [] [] demo_two"
  have "case ?r of Inl _ \<Rightarrow> False | Inr _ \<Rightarrow> True" by code_simp
  then obtain a b where "?r = Inr (a, b, demo_done)" unfolding demo_done_def using Inr_out by blast
  then have "protocol_step demo_cfg demo_two demo_done"
    by (intro protocol_step.finished) (simp_all add: TERMINAL_RUN_STATUSES_def)
  with demo_two_reachable show ?thesis unfolding reachable_def by (rule rtranclp.rtrancl_into_rtrancl)
qed

lemmas demo_done_wf = db_okD(1) [OF reachable_ok [OF demo_done_reachable demo_cfg_ok]]

text \<open>
  retention never shortens a run's replay in silence: after a pruning pass a client that
  resumes at a cursor either is sent exactly the events it would have been sent before, or is
  told that its cursor has expired and to recover from a snapshot.
\<close>

theorem run_retention_is_announced:
  assumes "log_wf d" "d' = snd (prune_expired_events e locked secs n d)"
    "get_run (rs_run cfg) d' = Some run" "rs_cursor cfg \<noteq> 0"
  shows "load_events (rs_run cfg) (rs_cursor cfg) d' = load_events (rs_run cfg) (rs_cursor cfg) d \<or>
    run_prologue e' cfg True d' snapshot' = Inr ([Notice ''error'' (JObj
      [(''detail'', JStr ''cursor_expired''), (''recovery'', JStr ''run_snapshot'')])], [], False)"
proof (cases "\<exists>v \<in> set (db_events d). v \<notin> set (db_events d') \<and> ev_run_id v = Some (rs_run cfg) \<and>
    rs_cursor cfg < ev_sequence v")
  case True
  then obtain v where v: "v \<in> set (db_events d)" "v \<notin> set (db_events d')"
    "ev_run_id v = Some (rs_run cfg)" "rs_cursor cfg < ev_sequence v" by blast
  have "rs_cursor cfg < run_event_pruned_through run"
    by (rule prune_gone [OF assms(1,2) v(1,2)]) (use assms(3) v(3,4) in auto)
  with assms(3,4) show ?thesis by (simp add: run_prologue_def run_replay_def)
next
  case False
  then have "filter (\<lambda>v. rs_cursor cfg < ev_sequence v) (run_log (rs_run cfg) d') =
      filter (\<lambda>v. rs_cursor cfg < ev_sequence v) (run_log (rs_run cfg) d)"
    using prune_keeps_rest [OF assms(2), of "\<lambda>v. rs_cursor cfg < ev_sequence v \<and> ev_run_id v = Some (rs_run cfg)"]
    by (auto simp: run_log_def conj_commute)
  then show ?thesis by (simp add: load_events_def rows_after_def)
qed

theorem run_retention_is_announced_witness:
  "length (load_events 2 1 demo_done) = 2 \<and> length (load_events 2 1 demo_retained) = 1 \<and>
   run_prologue (demo_env 60) (demo_stream 1) True demo_retained None = Inr ([Notice ''error'' (JObj
      [(''detail'', JStr ''cursor_expired''), (''recovery'', JStr ''run_snapshot'')])], [], False)"
proof -
  have n: "length (load_events 2 1 demo_done) = 2" "length (load_events 2 1 demo_retained) = 1"
    by code_simp+
  have "get_run 2 demo_retained \<noteq> None" by code_simp
  then obtain run where run: "get_run (rs_run (demo_stream 1)) demo_retained = Some run"
    by (auto simp: demo_stream_def)
  have c: "rs_cursor (demo_stream 1) = 1" "rs_run (demo_stream 1) = 2" by (simp_all add: demo_stream_def)
  from run_retention_is_announced [OF demo_done_wf demo_retained_def run] c n show ?thesis by fastforce
qed

text \<open>
  The same for a thread's stream that was opened with a \<open>last-event-id\<close>.
\<close>

theorem thread_retention_is_announced:
  assumes "log_wf d" "d' = snd (prune_expired_events e locked secs n d)" "i \<noteq> ''-''"
  shows "snd (thread_events t (ts_cursor s) d') = snd (thread_events t (ts_cursor s) d) \<or>
    thread_pass e' t (Some i) modes d' d'' s = Inr (Inl (JObj
      [(''detail'', JStr ''cursor_expired''), (''recovery'', JStr ''thread_snapshot'')]))"
proof (cases "\<exists>v \<in> set (db_events d). v \<notin> set (db_events d') \<and> ev_thread_id v = Some t \<and>
    ts_cursor s < ev_sequence v")
  case True
  then obtain v where v: "v \<in> set (db_events d)" "v \<notin> set (db_events d')"
    "ev_thread_id v = Some t" "ts_cursor s < ev_sequence v" by blast
  have "\<exists>th. get_thread t d' = Some th \<and> ev_sequence v \<le> th_event_pruned_through th"
    by (rule prune_gone [OF assms(1,2) v(1,2)]) (use v(3) in blast)
  then obtain th where "get_thread t d' = Some th" "ev_sequence v \<le> th_event_pruned_through th" by blast
  with v(4) assms(3) show ?thesis by (simp add: thread_pass_def thread_events_def)
next
  case False
  then have e: "filter (\<lambda>v. ts_cursor s < ev_sequence v) (thread_log t d') =
      filter (\<lambda>v. ts_cursor s < ev_sequence v) (thread_log t d)"
    using prune_keeps_rest [OF assms(2), of "\<lambda>v. ts_cursor s < ev_sequence v \<and> ev_thread_id v = Some t"]
    by (auto simp: thread_log_def conj_commute)
  have "log_wf d'" using prune_expired_events_refines [OF assms(1)] by (simp add: assms(2) refines_def)
  from thread_replay.replay_after [OF this, of t "ts_cursor s"]
    thread_replay.replay_after [OF assms(1), of t "ts_cursor s"] e
  show ?thesis by simp
qed

theorem thread_retention_is_announced_witness:
  "length (snd (thread_events 1 1 demo_done)) = 2 \<and> length (snd (thread_events 1 1 demo_retained)) = 1 \<and>
   thread_pass (demo_env 60) 1 (Some ''1-0'') {''run_modes''} demo_retained demo_retained
     \<lparr>ts_cursor = 1, ts_initial = True\<rparr> = Inr (Inl (JObj
      [(''detail'', JStr ''cursor_expired''), (''recovery'', JStr ''thread_snapshot'')]))"
proof -
  have n: "length (snd (thread_events 1 1 demo_done)) = 2" "length (snd (thread_events 1 1 demo_retained)) = 1"
    by code_simp+
  from thread_retention_is_announced [OF demo_done_wf demo_retained_def, of "''1-0''" 1
      "\<lparr>ts_cursor = 1, ts_initial = True\<rparr>"] n
  show ?thesis by fastforce
qed

section \<open>Frames\<close>

text \<open>
  what \<open>_sse\<close> writes, a reader of server-sent events takes apart again: one event with the
  given name, identifier and JSON text, provided the text holds none of the characters
  \<open>splitlines\<close> breaks at (JSON escapes all of them below U+0020).
\<close>

theorem sse_frame_roundtrip:
  assumes "data \<noteq> JNull" "plain_chars event" "\<And>i. event_id = Some i \<Longrightarrow> plain_chars i"
    "\<And>r. plain_chars (e_repr e (JFloat r)) \<and> e_repr e (JFloat r) \<noteq> []"
    "CHR 0x85 \<notin> set (json_dumps e data)"
  shows "read_sse (sse e event data event_id last_line) =
           ([event], (case event_id of None \<Rightarrow> [] | Some i \<Rightarrow> [i]), json_dumps e data)"
  by (rule read_sse_frame [OF assms])

theorem sse_frame_roundtrip_witness:
  "read_sse (sse (demo_env 0) ''values'' (JObj [(''a'', JStr [CHR 0x0A, CHR ''x''])]) (Some ''7-0'') True) =
     ([''values''], [''7-0''], json_dumps (demo_env 0) (JObj [(''a'', JStr [CHR 0x0A, CHR ''x''])]))"
  by (subst sse_frame_roundtrip) (simp_all add: demo_env_def plain_chars_def, code_simp)

text \<open>
  the proviso is needed. A string with U+0085 (NEXT LINE), which JSON leaves as it is, is torn
  into two \<open>data\<close> lines, and the reader gets a different text, which is not the document sent.
\<close>

theorem sse_tears_next_line:
  "snd (snd (read_sse (sse (demo_env 0) ''values'' (JStr [CHR 0x85]) None False))) =
     [CHR 0x22, CHR 0x0A, CHR 0x22] \<and>
   json_dumps (demo_env 0) (JStr [CHR 0x85]) = [CHR 0x22, CHR 0x85, CHR 0x22]"
  by (rule conjI) code_simp+

end
