(* ===== verification/Queue.thy ===== *)
theory Queue
  imports Scenario
begin

text \<open>
  The queue of a thread (\<open>runs_queue\<close> in \<open>core_api.py\<close>): a reordering that is accepted produces
  the requested order, and an operation on a stale view of the queue is refused.
\<close>

section \<open>The queue\<close>

lemma sort_key_unique:
  assumes "distinct xs" "distinct ys" "set xs = set ys" "inj_on f (set xs)" "sorted (map f ys)"
  shows "sort_key f xs = ys"
  by (rule map_sorted_distinct_set_unique [of f])
    (use assms in \<open>simp_all add: distinct_map\<close>)

lemma set_positions_get:
  assumes "distinct (map fst ps)"
  shows "get_run r (set_positions ps d) =
    map_option (\<lambda>x. case map_of ps r of None \<Rightarrow> x | Some p \<Rightarrow> x\<lparr>run_queue_position := Some p\<rparr>) (get_run r d)"
  using assms
proof (induction ps arbitrary: d)
  case (Cons a ps)
  obtain i p where a: "a = (i, p)" by (cases a)
  with Cons.prems have n: "map_of ps i = None" by (simp add: map_of_eq_None_iff)
  have "set_positions (a # ps) d = set_positions ps (upd_run i (\<lambda>x. x\<lparr>run_queue_position := Some p\<rparr>) d)"
    by (simp add: set_positions_def a)
  with Cons n show ?case
    by (auto simp: a runs_t.get_upd option.map_comp comp_def split: option.split intro!: map_option_cong)
qed (simp add: set_positions_def option.map_ident)

lemma set_positions_ids: "map run_id (db_runs (set_positions ps d)) = map run_id (db_runs d)"
  unfolding set_positions_def
  by (induction ps arbitrary: d) (auto simp: runs_t.keys_upd split: prod.split)

lemma set_positions_row:
  assumes "distinct (map run_id (db_runs d))" "distinct (map fst ps)"
  shows "x \<in> set (db_runs (set_positions ps d)) \<longleftrightarrow> get_run (run_id x) (set_positions ps d) = Some x"
proof -
  have "distinct (map run_id (db_runs (set_positions ps d)))" using assms(1) by (simp add: set_positions_ids)
  from runs_t.get_in [OF this, of x] runs_t.get_Some [of "run_id x" "set_positions ps d" x] show ?thesis by blast
qed

lemma queued_position [simp]: "queued t (x\<lparr>run_queue_position := p\<rparr>) = queued t x"
  by (simp add: queued_def sql_resume_def)

lemma length_row_positions [simp]: "length (row_positions rows) = length rows"
  by (simp add: row_positions_def)

definition placed :: "db \<Rightarrow> uuid \<times> int \<Rightarrow> run_row" where
  "placed d = (\<lambda>(i, p). (the (get_run i d))\<lparr>run_queue_position := Some p\<rparr>)"

text \<open>Giving all queued rows strictly increasing positions in the order of \<open>rs\<close> orders them so.\<close>

lemma placed_rows:
  assumes ids: "distinct (map run_id (db_runs d))" and ps: "distinct (map fst ps)"
    and set: "set (map fst ps) = run_id ` set (filter (queued t) (db_runs d))"
    and d': "d' = set_positions ps d"
  shows "set (filter (queued t) (db_runs d')) = set (map (placed d) ps)"
    "\<And>a. a \<in> set ps \<Longrightarrow> run_id (placed d a) = fst a"
proof -
  have R: "\<exists>x. get_run (fst a) d = Some x \<and> run_id x = fst a \<and> queued t x" if "a \<in> set ps" for a
  proof -
    have "fst a \<in> set (map fst ps)" using that by simp
    then obtain x where "x \<in> set (db_runs d)" "queued t x" "fst a = run_id x" unfolding set by auto
    with runs_t.get_in [OF ids] show ?thesis by auto
  qed
  then show new: "run_id (placed d a) = fst a" if "a \<in> set ps" for a
    using that by (fastforce simp: placed_def split: prod.split)
  have q: "queued t (placed d a)" if "a \<in> set ps" for a
    using R [OF that] by (auto simp: placed_def split: prod.split)
  have in_d': "x \<in> set (db_runs d') \<longleftrightarrow> get_run (run_id x) d' = Some x" for x
    unfolding d' by (rule set_positions_row [OF ids ps])
  have get': "get_run (fst a) d' = Some (placed d a)" if "a \<in> set ps" for a
  proof -
    have "map_of ps (fst a) = Some (snd a)" by (rule map_of_is_SomeI [OF ps]) (simp add: that)
    with R [OF that] show ?thesis
      unfolding d' set_positions_get [OF ps] by (auto simp: placed_def split: prod.split)
  qed
  show "set (filter (queued t) (db_runs d')) = set (map (placed d) ps)"
  proof (rule set_eqI, rule iffI)
    fix x assume "x \<in> set (filter (queued t) (db_runs d'))"
    then have x: "get_run (run_id x) d' = Some x" "queued t x" using in_d' by auto
    then obtain y where y: "get_run (run_id x) d = Some y" "queued t y"
      unfolding d' set_positions_get [OF ps] by (auto split: option.splits)
    then have "y \<in> set (filter (queued t) (db_runs d))" "run_id y = run_id x"
      using runs_t.get_Some [OF y(1)] by simp_all
    then have "run_id x \<in> set (map fst ps)" unfolding set by (metis imageI)
    then obtain a where "a \<in> set ps" "fst a = run_id x" by auto
    with get' [of a] x(1) show "x \<in> set (map (placed d) ps)" by auto
  next
    fix x assume "x \<in> set (map (placed d) ps)"
    then obtain a where a: "a \<in> set ps" "x = placed d a" by auto
    with new q get' in_d' show "x \<in> set (filter (queued t) (db_runs d'))" by simp
  qed
qed

lemma placed_queue:
  assumes "distinct (map run_id (db_runs d))" "distinct (map fst ps)"
    "set (map fst ps) = run_id ` set (filter (queued t) (db_runs d))" "sorted_wrt (<) (map snd ps)"
  shows "queue_rows t (\<lambda>_. False) (set_positions ps d) = map (placed d) ps"
proof -
  let ?d = "set_positions ps d"
  note rows = placed_rows [OF assms(1-3) refl]
  have ids: "distinct (map run_id (db_runs ?d))" using assms(1) by (simp add: set_positions_ids)
  have m: "map run_id (map (placed d) ps) = map fst ps" using rows(2) by simp
  have "sort_key position_key (filter (queued t) (db_runs ?d)) = map (placed d) ps"
  proof (rule sort_key_unique)
    show "distinct (filter (queued t) (db_runs ?d))" using ids by (simp add: distinct_map)
    show "distinct (map (placed d) ps)" using m assms(2) by (metis distinct_map)
    show "set (filter (queued t) (db_runs ?d)) = set (map (placed d) ps)" by (rule rows(1))
    show "inj_on position_key (set (filter (queued t) (db_runs ?d)))"
      using ids by (auto simp: inj_on_def position_key_def distinct_map)
    have "sorted_wrt (\<lambda>a b. position_key (placed d a) \<le> position_key (placed d b)) ps"
      using assms(4) unfolding sorted_wrt_map
      by (rule sorted_wrt_mono_rel [rotated])
        (auto simp: placed_def position_key_def less_eq_prod_def split: prod.splits)
    then show "sorted (map position_key (map (placed d) ps))" by (simp add: sorted_wrt_map)
  qed
  then show ?thesis by (simp add: queue_rows_def)
qed

text \<open>The check of an operation against the queue: every queued row was seen, in the order sent.\<close>

lemma accepted_queue:
  assumes "distinct (map run_id (db_runs d))" "runs_queue e locked t q d = Inr (evs, d')"
  shows "set (queue_rows t locked d) = set (filter (queued t) (db_runs d))"
    "map run_id (queue_rows t locked d) = qr_expected q" "distinct (map run_id (queue_rows t locked d))"
proof -
  let ?rows = "queue_rows t locked d"
  have acc: "length (filter (queued t) (db_runs d)) = length ?rows" "map run_id ?rows = qr_expected q"
    using assms(2) by (auto simp: runs_queue_def Let_def split: if_splits)
  have sub: "set ?rows \<subseteq> set (filter (queued t) (db_runs d))" by (auto simp: queue_rows_def)
  moreover have d: "distinct ?rows" "distinct (filter (queued t) (db_runs d))"
    using assms(1) by (auto simp: queue_rows_def distinct_map)
  ultimately show "set ?rows = set (filter (queued t) (db_runs d))"
    using acc(1) by (metis List.finite_set card_subset_eq distinct_card)
  show "map run_id ?rows = qr_expected q" by (rule acc(2))
  show "distinct (map run_id ?rows)"
    using d(1) assms(1) sub by (auto simp: distinct_map inj_on_def)
qed

text \<open>
  C24: a reordering that is accepted takes effect: when the rows hold different positions, the
  queue of the thread afterwards is the requested list, and the positions in use are the same.
\<close>

theorem queue_reorder_takes_effect:
  assumes "log_wf d" "runs_queue e locked t q d = Inr (evs, d')" "\<not> qr_cancel q"
    "distinct (qr_requested q)" "set (qr_requested q) = set (qr_expected q)"
    "distinct (row_positions (queue_rows t locked d))"
  shows "map run_id (queue_rows t (\<lambda>_. False) d') = qr_requested q \<and>
    map run_queue_position (queue_rows t (\<lambda>_. False) d') = map Some (row_positions (queue_rows t locked d))"
proof -
  let ?P = "row_positions (queue_rows t locked d)"
  let ?ps = "zip (qr_requested q) ?P"
  have ids: "distinct (map run_id (db_runs d))" by (rule log_wfD(1) [OF assms(1)])
  note acc = accepted_queue [OF ids assms(2)]
  have len: "length (qr_requested q) = length ?P"
    using assms(4,5) acc(2,3) by (metis distinct_card length_map length_row_positions)
  have d': "d' = set_positions ?ps d"
    using assms(2,3) by (auto simp: runs_queue_def Let_def split: if_splits)
  have ps: "distinct (map fst ?ps)" using assms(4) len by simp
  have s: "set (map fst ?ps) = run_id ` set (filter (queued t) (db_runs d))"
    using len assms(5) acc(1,2) by (metis length_map list.set_map map_fst_zip)
  have "sorted_wrt (<) (map snd ?ps)"
    using assms(6) len by (simp add: row_positions_def strict_sorted_iff)
  note q = placed_queue [OF ids ps s this, folded d']
  have "map run_id (map (placed d) ?ps) = map fst ?ps"
    using placed_rows(2) [OF ids ps s refl] by (simp cong: map_cong)
  moreover have "map run_queue_position (map (placed d) ?ps) = map Some (map snd ?ps)"
    by (simp add: placed_def split: prod.split)
  ultimately show ?thesis unfolding q using len by simp
qed

definition demo_queue :: db where
  "demo_queue = (case create_insert demo_cfg (demo_env 12)
       (demo_submission\<lparr>sb_idempotency_key := None\<rparr>) 2 demo_db1 of
     Inr (r, d) \<Rightarrow> d | Inl _ \<Rightarrow> demo_db1)"

lemma demo_queue_value [code]:
  "demo_queue =
    \<lparr>db_assistants = [], db_versions = [],
    db_threads =
      [\<lparr>th_id = 1, th_graph_id = Some ''g'', th_status = ''idle'',
          th_event_seq = 0, th_event_pruned_through = 0, th_metadata = [],
          th_config = [], th_values = JNull, th_interrupts = [],
          th_error = JNull, th_created_at = 0, th_updated_at = 0,
          th_state_updated_at = None\<rparr>],
    db_runs =
      [\<lparr>run_id = 2, run_thread_id = Some 1, run_assistant_id = 7,
          run_status = ''pending'', run_reason = None, run_retry_count = 0,
          run_max_attempts = 3, run_next_attempt_at = None,
          run_idempotency_key = Some ''k'', run_lease_owner = None,
          run_lease_expires_at = None, run_heartbeat_at = None,
          run_event_seq = 0, run_event_pruned_through = 0,
          run_metadata = [], run_kwargs = [], run_queue_position = Some 1,
          run_multitask_strategy = Some ''enqueue'', run_created_at = 10,
          run_updated_at = 10\<rparr>,
       \<lparr>run_id = 3, run_thread_id = Some 1, run_assistant_id = 7,
          run_status = ''pending'', run_reason = None, run_retry_count = 0,
          run_max_attempts = 3, run_next_attempt_at = None,
          run_idempotency_key = None, run_lease_owner = None,
          run_lease_expires_at = None, run_heartbeat_at = None,
          run_event_seq = 0, run_event_pruned_through = 0,
          run_metadata = [], run_kwargs = [], run_queue_position = Some 2,
          run_multitask_strategy = Some ''enqueue'', run_created_at = 12,
          run_updated_at = 12\<rparr>],
    db_leases = [], db_events = [], db_baselines = [], db_checkpoints = [],
    db_writes = [], db_blobs = [], db_crons = [], db_retry_counters = [],
    db_draws = 2\<rparr>"
  by code_simp

lemma demo_queue_wf: "log_wf demo_queue"
proof -
  have "protocol_step demo_cfg demo_db1 demo_queue"
    by (rule protocol_step.submitted [of _ "demo_env 12" "demo_submission\<lparr>sb_idempotency_key := None\<rparr>" 2])
      code_simp
  with demo_reachable1 have "reachable demo_cfg demo_queue"
    unfolding reachable_def by (rule rtranclp.rtrancl_into_rtrancl)
  then show ?thesis using db_okD(1) [OF reachable_ok] demo_cfg_ok by blast
qed

theorem queue_reorder_takes_effect_witness:
  "\<exists>d'. runs_queue (demo_env 20) no_lock 1 \<lparr>qr_cancel = False, qr_expected = [2, 3],
      qr_requested = [3, 2]\<rparr> demo_queue = Inr ([], d') \<and>
    map run_id (queue_rows 1 (\<lambda>_. False) demo_queue) = [2, 3] \<and>
    map run_id (queue_rows 1 (\<lambda>_. False) d') = [3, 2]"
proof -
  let ?q = "\<lparr>qr_cancel = False, qr_expected = [2, 3], qr_requested = [3, 2]\<rparr>"
  let ?r = "runs_queue (demo_env 20) no_lock 1 ?q demo_queue"
  have "case ?r of Inl _ \<Rightarrow> False | Inr (evs, _) \<Rightarrow> evs = []" by code_simp
  then obtain d' where r: "?r = Inr ([], d')" by (auto split: sum.splits)
  have "map run_id (queue_rows 1 (\<lambda>_. False) demo_queue) = [2, 3]"
    "distinct (row_positions (queue_rows 1 no_lock demo_queue))" by code_simp+
  with queue_reorder_takes_effect [OF demo_queue_wf r] r show ?thesis by auto
qed

end
