(* ===== verification/AuthFilter.thy ===== *)
theory AuthFilter
  imports PyText
begin

text \<open>
  Application-owned authorisation: the dispatch to the SDK's handlers and the compilation of
  metadata filters into database predicates (\<open>authorization.py\<close>), and the filter evaluation of
  the compatibility operations (\<open>ops.py\<close>). Both read the same filter language; their agreement on
  the common fragment and their difference on unknown operators are proved here.
\<close>

section \<open>JSONB comparison\<close>

text \<open>JSONB keeps booleans apart from numbers; numbers compare by value.\<close>

fun jsonb_contains :: "json \<Rightarrow> json \<Rightarrow> bool"
  and contains_all :: "json list \<Rightarrow> json list \<Rightarrow> bool"
  and contains_items :: "(string \<times> json) list \<Rightarrow> (string \<times> json) list \<Rightarrow> bool" where
  "jsonb_contains a JNull = (a = JNull)"
| "jsonb_contains a (JBool b) = (a = JBool b)"
| "jsonb_contains a (JInt i) =
     (case a of JInt j \<Rightarrow> j = i | JFloat r \<Rightarrow> r = of_int i | _ \<Rightarrow> False)"
| "jsonb_contains a (JFloat q) =
     (case a of JInt j \<Rightarrow> of_int j = q | JFloat r \<Rightarrow> r = q | _ \<Rightarrow> False)"
| "jsonb_contains a (JStr s) = (a = JStr s)"
| "jsonb_contains a (JList ys) = (case a of JList xs \<Rightarrow> contains_all xs ys | _ \<Rightarrow> False)"
| "jsonb_contains a (JObj e) = (case a of JObj d \<Rightarrow> contains_items d e | _ \<Rightarrow> False)"
| "contains_all xs [] = True"
| "contains_all xs (y # ys) = (list_ex (\<lambda>x. jsonb_contains x y) xs \<and> contains_all xs ys)"
| "contains_items d [] = True"
| "contains_items d ((k, v) # e) =
     ((case map_of d k of None \<Rightarrow> False | Some w \<Rightarrow> jsonb_contains w v) \<and> contains_items d e)"

fun jsonb_eq :: "json \<Rightarrow> json \<Rightarrow> bool"
  and eq_lists :: "json list \<Rightarrow> json list \<Rightarrow> bool"
  and eq_items :: "(string \<times> json) list \<Rightarrow> (string \<times> json) list \<Rightarrow> bool" where
  "jsonb_eq JNull b = (b = JNull)"
| "jsonb_eq (JBool x) b = (b = JBool x)"
| "jsonb_eq (JInt i) b = (case b of JInt j \<Rightarrow> i = j | JFloat r \<Rightarrow> of_int i = r | _ \<Rightarrow> False)"
| "jsonb_eq (JFloat q) b = (case b of JInt j \<Rightarrow> q = of_int j | JFloat r \<Rightarrow> q = r | _ \<Rightarrow> False)"
| "jsonb_eq (JStr s) b = (b = JStr s)"
| "jsonb_eq (JList xs) b = (case b of JList ys \<Rightarrow> eq_lists xs ys | _ \<Rightarrow> False)"
| "jsonb_eq (JObj d) b =
     (case b of JObj e \<Rightarrow> length d = length e \<and> eq_items d e | _ \<Rightarrow> False)"
| "eq_lists [] ys = (ys = [])"
| "eq_lists (x # xs) ys = (case ys of [] \<Rightarrow> False | y # ys' \<Rightarrow> jsonb_eq x y \<and> eq_lists xs ys')"
| "eq_items [] e = True"
| "eq_items ((k, v) # d) e =
     ((case map_of e k of None \<Rightarrow> False | Some w \<Rightarrow> jsonb_eq v w) \<and> eq_items d e)"

section \<open>Compiled filters\<close>

type_synonym predicate = "dict \<Rightarrow> bool"

definition eq_clause :: "string \<Rightarrow> json \<Rightarrow> predicate" where
  "eq_clause key v m = (case map_of m key of None \<Rightarrow> False | Some w \<Rightarrow> jsonb_eq w v)"

definition contains_clause :: "string \<Rightarrow> json \<Rightarrow> predicate" where
  "contains_clause key operand m =
     (case map_of m key of
        Some (JList xs) \<Rightarrow>
          contains_all xs (case operand of JList ys \<Rightarrow> ys | _ \<Rightarrow> [operand])
      | _ \<Rightarrow> False)"

text \<open>
  \<open>metadata_predicate column filters depth\<close>: an exception while compiling, or the condition the
  query carries. A condition that SQL leaves unknown (a missing key) does not admit a row.
\<close>

fun metadata_predicate :: "json \<Rightarrow> nat \<Rightarrow> predicate res"
  and predicate_items :: "(string \<times> json) list \<Rightarrow> nat \<Rightarrow> predicate res"
  and predicate_group :: "json list \<Rightarrow> nat \<Rightarrow> predicate list res" where
  "metadata_predicate (JObj filters) depth =
     (if depth > 2 then Inl (HTTPException 500 ''Invalid authorization filter'')
      else predicate_items filters depth)"
| "metadata_predicate _ depth = Inl (HTTPException 500 ''Invalid authorization filter'')"
| "predicate_items [] depth = Inr (\<lambda>_. True)"
| "predicate_items ((key, value) # items) depth =
     rbind
       (if key = ''$and'' \<or> key = ''$or'' then
          (case value of
             JList groups \<Rightarrow>
               rbind (predicate_group groups (depth + 1)) (\<lambda>nested.
                 Inr (\<lambda>m. if key = ''$and'' then list_all (\<lambda>p. p m) nested
                          else list_ex (\<lambda>p. p m) nested))
           | _ \<Rightarrow> Inl (HTTPException 500 ''Invalid authorization filter group''))
        else if starts_with ''$'' key then
          Inl (HTTPException 500 ''Unsupported authorization filter'')
        else (case value of
            JObj [(operator, operand)] \<Rightarrow>
              if operator = ''$eq'' then Inr (eq_clause key operand)
              else if operator = ''$contains'' then Inr (contains_clause key operand)
              else Inl (HTTPException 500 ''Unsupported authorization filter operator'')
          | JObj _ \<Rightarrow> Inl (HTTPException 500 ''Invalid authorization filter operator'')
          | _ \<Rightarrow> Inr (eq_clause key value)))
       (\<lambda>clause. rbind (predicate_items items depth) (\<lambda>rest. Inr (\<lambda>m. clause m \<and> rest m)))"
| "predicate_group [] depth = Inr []"
| "predicate_group (item # items) depth =
     rbind (metadata_predicate item depth) (\<lambda>p.
     rbind (predicate_group items depth) (\<lambda>ps. Inr (p # ps)))"

section \<open>Interpreted filters\<close>

text \<open>\<open>_merge_jsonb\<close>, \<open>_plain_metadata_filter\<close>.\<close>

definition merge_jsonb :: "dict option list \<Rightarrow> dict" where
  "merge_jsonb objects =
     fold (\<lambda>obj result. case obj of None \<Rightarrow> result | Some d \<Rightarrow> dmerge result d) objects []"

definition plain_metadata_filter :: "json \<Rightarrow> dict option" where
  "plain_metadata_filter filters =
     (if \<not> truthy filters then Some []
      else case filters of
        JObj f \<Rightarrow>
          if list_ex (\<lambda>(k, v). starts_with ''$'' k \<or>
               (case v of JObj d \<Rightarrow> list_ex (\<lambda>(k', _). starts_with ''$'' k') d | _ \<Rightarrow> False)) f
          then None else Some f
      | _ \<Rightarrow> None)"

text \<open>An operator this evaluator does not know accepts the resource.\<close>

definition check_operator_filter :: "dict \<Rightarrow> string \<Rightarrow> dict \<Rightarrow> bool res" where
  "check_operator_filter metadata key value =
     (case value of
        [] \<Rightarrow> Inl (RuntimeError ''StopIteration'')
      | (op, filter_value) # _ \<Rightarrow>
          if op = ''$eq'' then
            Inr (case map_of metadata key of None \<Rightarrow> False | Some w \<Rightarrow> py_eq w filter_value)
          else if op = ''$contains'' then
            Inr (case map_of metadata key of
                   Some (JList xs) \<Rightarrow>
                     (case filter_value of
                        JList ys \<Rightarrow> list_all (\<lambda>el. py_in el xs) ys
                      | _ \<Rightarrow> py_in filter_value xs)
                 | _ \<Rightarrow> False)
          else Inr True)"

fun check_kv_filters :: "dict \<Rightarrow> (string \<times> json) list \<Rightarrow> bool res" where
  "check_kv_filters metadata [] = Inr True"
| "check_kv_filters metadata ((key, value) # items) =
     (case value of
        JObj d \<Rightarrow>
          rbind (check_operator_filter metadata key d) (\<lambda>ok.
            if ok then check_kv_filters metadata items else Inr False)
      | _ \<Rightarrow>
          (case map_of metadata key of
             None \<Rightarrow> Inr False
           | Some w \<Rightarrow>
               if py_eq w value then check_kv_filters metadata items else Inr False))"

text \<open>
  \<open>_check_filter_match\<close> and \<open>_check_logical_group\<close>: \<open>any\<close> and \<open>all\<close> stop at the first
  deciding group, and the keys beside a group are checked one level deeper. The nesting bound
  makes the recursion well founded: \<open>fuel\<close> counts the levels that are left.
\<close>

fun check_filter_match :: "nat \<Rightarrow> dict \<Rightarrow> json \<Rightarrow> bool res" where
  "check_filter_match fuel metadata filters =
     (if \<not> truthy filters then Inr True
      else case fuel of
        0 \<Rightarrow> Inl (HTTPException 500 ''Too many nested filter operators'')
      | Suc n \<Rightarrow>
          (case filters of
             JObj f \<Rightarrow>
               (let decide_group = (\<lambda>op groups.
                    let any = (op = ''$or'');
                        decide = foldr (\<lambda>g rest.
                            rbind (check_filter_match n metadata g) (\<lambda>ok.
                              if ok = any then Inr any else rest)) groups (Inr (\<not> any))
                    in rbind decide (\<lambda>matched.
                         if \<not> matched then Inr False
                         else (let remaining = filter (\<lambda>(k, _). k \<noteq> op) f in
                               if remaining \<noteq> []
                               then check_filter_match n metadata (JObj remaining)
                               else Inr True)))
                in (case map_of f ''$or'' of
                      Some gs \<Rightarrow> rbind (py_list gs) (decide_group ''$or'')
                    | None \<Rightarrow>
                        (case map_of f ''$and'' of
                           Some gs \<Rightarrow> rbind (py_list gs) (decide_group ''$and'')
                         | None \<Rightarrow> check_kv_filters metadata f)))
           | _ \<Rightarrow> Inl (TypeError ''filters are not a mapping'')))"

declare check_filter_match.simps [simp del]

text \<open>The nesting level starts at 0 and may reach 2: three levels.\<close>

definition filter_match :: "dict \<Rightarrow> json \<Rightarrow> bool res" where
  "filter_match metadata filters = check_filter_match 3 metadata filters"

definition auth_denies :: "dict option \<Rightarrow> json \<Rightarrow> bool res" where
  "auth_denies metadata filters =
     (if truthy filters
      then rbind (filter_match (case metadata of None \<Rightarrow> [] | Some m \<Rightarrow> m) filters) (\<lambda>b. Inr (\<not> b))
      else Inr False)"

section \<open>Dispatch to the application's handlers\<close>

text \<open>
  A handler of the SDK's \<open>Auth\<close> object, a parameter: from the context and the value it returns
  (or raises) a result and the value as it left it.
\<close>

datatype auth_result =
    AuthNone
  | AuthBool bool
  | AuthFilter dict
  | AuthOther
  | AuthHTTP int string
  | AuthAssertion string

record auth_context =
  ac_user :: dict
  ac_permissions :: json
  ac_resource :: string
  ac_action :: string

type_synonym auth_handler = "auth_context \<Rightarrow> dict \<Rightarrow> auth_result \<times> dict"

record sdk_auth =
  sa_handlers :: "string \<times> string \<Rightarrow> auth_handler list"
  sa_global :: "auth_handler list"

datatype auth_config = NoAuth | NotSdkAuth | SdkAuth sdk_auth

definition display_name :: "dict \<Rightarrow> json res" where
  "display_name user =
     (case map_of user ''identity'' of
        None \<Rightarrow> Inl (KeyError ''identity'')
      | Some i \<Rightarrow> Inr (dgetdef user ''display_name'' i))"

definition user_is_authenticated :: "dict \<Rightarrow> json" where
  "user_is_authenticated user = dgetdef user ''is_authenticated'' (JBool True)"

definition select_handler :: "sdk_auth \<Rightarrow> string \<Rightarrow> string \<Rightarrow> auth_handler option" where
  "select_handler a resource action =
     (case find (\<lambda>k. sa_handlers a k \<noteq> [])
             [(resource, action), (resource, ''*''), (''*'', action), (''*'', ''*'')] of
        Some k \<Rightarrow> Some (last (sa_handlers a k))
      | None \<Rightarrow> if sa_global a \<noteq> [] then Some (last (sa_global a)) else None)"

definition authorize ::
  "auth_config \<Rightarrow> dict option \<Rightarrow> string \<Rightarrow> string \<Rightarrow> dict \<Rightarrow> dict res \<times> dict" where
  "authorize auth user resource action value =
     (case (auth, user) of
        (NoAuth, _) \<Rightarrow> (Inr [], value)
      | (_, None) \<Rightarrow> (Inr [], value)
      | (NotSdkAuth, Some _) \<Rightarrow>
          (Inl (HTTPException 500 ''Configured authorization must be an SDK Auth instance''), value)
      | (SdkAuth a, Some u) \<Rightarrow>
          (case select_handler a resource action of
             None \<Rightarrow> (Inr [], value)
           | Some handler \<Rightarrow>
               (case handler \<lparr>ac_user = u, ac_permissions = dgetdef u ''permissions'' (JList []),
                              ac_resource = resource, ac_action = action\<rparr> value of
                  (AuthHTTP code detail, v) \<Rightarrow> (Inl (HTTPException code detail), v)
                | (AuthAssertion msg, v) \<Rightarrow> (Inl (HTTPException 403 msg), v)
                | (AuthNone, v) \<Rightarrow> (Inr [], v)
                | (AuthBool True, v) \<Rightarrow> (Inr [], v)
                | (AuthBool False, v) \<Rightarrow> (Inl (HTTPException 403 ''Forbidden''), v)
                | (AuthFilter f, v) \<Rightarrow> (Inr f, v)
                | (AuthOther, v) \<Rightarrow>
                    (Inl (HTTPException 500
                       ''Auth handler must return a filter dict, None, or boolean''), v))))"

section \<open>Agreement of the two evaluators\<close>

text \<open>
  The common fragment: equality and containment of strings, and one group per object, nested at
  most \<open>n\<close> levels.
\<close>

fun string_operand :: "json \<Rightarrow> bool" where
  "string_operand (JStr s) = True"
| "string_operand (JList xs) = list_all is_str xs"
| "string_operand _ = False"

fun simple_value :: "json \<Rightarrow> bool" where
  "simple_value (JStr s) = True"
| "simple_value (JObj [(op, v)]) =
     ((op = ''$eq'' \<and> is_str v) \<or> (op = ''$contains'' \<and> string_operand v))"
| "simple_value _ = False"

definition simple_items :: "dict \<Rightarrow> bool" where
  "simple_items f = list_all (\<lambda>(k, v). \<not> starts_with ''$'' k \<and> simple_value v) f"

fun common_filter :: "nat \<Rightarrow> json \<Rightarrow> bool" where
  "common_filter n (JObj f) =
     (simple_items f \<or>
      (case (n, f) of
         (Suc m, [(op, JList gs)]) \<Rightarrow>
           (op = ''$and'' \<or> op = ''$or'') \<and> list_all (common_filter m) gs
       | _ \<Rightarrow> False))"
| "common_filter n _ = False"

lemma eq_string [simp]:
  "py_eq w (JStr s) \<longleftrightarrow> w = JStr s" "jsonb_eq w (JStr s) \<longleftrightarrow> w = JStr s"
  by (cases w; auto)+

lemma is_str_cases: "is_str v \<Longrightarrow> \<exists>s. v = JStr s"
  by (cases v) auto

lemma contains_strings:
  "list_all is_str ys \<Longrightarrow> contains_all xs ys = list_all (\<lambda>y. py_in y xs) ys"
proof (induction ys)
  case (Cons y ys)
  then obtain s where y: "y = JStr s" using is_str_cases by auto
  from Cons show ?case
    by (auto simp: y py_in_def list_ex_iff)
qed simp

lemma operator_agree:
  assumes "simple_value v" "v = JObj [(op, x)]"
  shows "\<exists>c. (if op = ''$eq'' then Inr (eq_clause key x)
               else if op = ''$contains'' then Inr (contains_clause key x)
               else Inl (HTTPException 500 ''Unsupported authorization filter operator'')) = Inr c \<and>
             (\<forall>m. check_operator_filter m key [(op, x)] = Inr (c m))"
proof -
  from assms consider (eq) s where "op = ''$eq''" "x = JStr s"
    | (str) s where "op = ''$contains''" "x = JStr s"
    | (list) ys where "op = ''$contains''" "x = JList ys" "list_all is_str ys"
    by (cases x) auto
  then show ?thesis
  proof cases
    case eq
    then show ?thesis
      by (auto simp: eq_clause_def check_operator_filter_def split: option.split)
  next
    case str
    then show ?thesis
      by (auto simp: contains_clause_def check_operator_filter_def py_in_def list_ex_iff
          split: option.split json.split)
  next
    case list
    then show ?thesis
      by (auto simp: contains_clause_def check_operator_filter_def contains_strings
          split: option.split json.split)
  qed
qed

lemma dollar_keys: "\<not> starts_with ''$'' k \<Longrightarrow> k \<noteq> ''$and'' \<and> k \<noteq> ''$or''"
  by (auto simp: starts_with_def)

lemma simple_items_agree:
  "simple_items f \<Longrightarrow>
   \<exists>p. predicate_items f depth = Inr p \<and> (\<forall>m. check_kv_filters m f = Inr (p m))"
proof (induction f)
  case (Cons a f)
  obtain k v where a: "a = (k, v)" by (cases a)
  from Cons.prems a have k: "\<not> starts_with ''$'' k" and v: "simple_value v" and f: "simple_items f"
    by (auto simp: simple_items_def)
  from Cons.IH [OF f] obtain p where
    p: "predicate_items f depth = Inr p" "\<And>m. check_kv_filters m f = Inr (p m)" by blast
  from v consider (str) s where "v = JStr s" | (op) op x where "v = JObj [(op, x)]"
    by (cases v rule: simple_value.cases) auto
  then show ?case
  proof cases
    case str
    then show ?thesis
      using k p dollar_keys [OF k]
      by (auto simp: a eq_clause_def split: option.split)
  next
    case op
    from operator_agree [OF v op, of k] obtain c where
      c: "(if op = ''$eq'' then Inr (eq_clause k x)
           else if op = ''$contains'' then Inr (contains_clause k x)
           else Inl (HTTPException 500 ''Unsupported authorization filter operator'')) = Inr c"
        "\<And>m. check_operator_filter m k [(op, x)] = Inr (c m)" by blast
    have "predicate_items (a # f) depth = Inr (\<lambda>m. c m \<and> p m)"
      using k dollar_keys [OF k] c(1) p(1) by (simp add: a op)
    moreover have "check_kv_filters m (a # f) = Inr (c m \<and> p m)" for m
      using c(2) p(2) by (simp add: a op)
    ultimately show ?thesis by blast
  qed
qed simp

lemma no_groups:
  "simple_items f \<Longrightarrow> map_of f ''$or'' = None \<and> map_of f ''$and'' = None"
  by (induction f) (auto simp: simple_items_def dest: dollar_keys)

lemma common_group:
  assumes "\<not> simple_items f" "common_filter n j" "j = JObj f"
  obtains m op gs where "n = Suc m" "f = [(op, JList gs)]" "op = ''$and'' \<or> op = ''$or''"
    "list_all (common_filter m) gs"
proof -
  from assms have c: "case (n, f) of
         (Suc m, [(op, JList gs)]) \<Rightarrow>
           (op = ''$and'' \<or> op = ''$or'') \<and> list_all (common_filter m) gs
       | _ \<Rightarrow> False" by (simp del: split_paired_All)
  obtain m where n: "n = Suc m" using c by (cases n) simp_all
  obtain a f' where f: "f = a # f'" using c n by (cases f) simp_all
  obtain op v where a: "a = (op, v)" by (cases a)
  have f': "f' = []" using c by (cases f'; cases v) (simp_all add: n f a)
  obtain gs where v: "v = JList gs" using c by (cases v) (simp_all add: n f a f')
  show thesis using c by (intro that [of m op gs]) (simp_all add: n f a f' v)
qed

lemma common_agree:
  "common_filter n j \<Longrightarrow> n + depth \<le> 2 \<Longrightarrow>
   \<exists>p. metadata_predicate j depth = Inr p \<and> (\<forall>m. check_filter_match (Suc n) m j = Inr (p m))"
proof (induction n arbitrary: j depth rule: less_induct)
  case (less n)
  then obtain f where j: "j = JObj f" by (cases j) auto
  have d: "\<not> depth > 2" using less.prems(2) by simp
  show ?case
  proof (cases "simple_items f")
    case True
    from simple_items_agree [OF True, of depth] obtain p where
      p: "predicate_items f depth = Inr p" "\<And>m. check_kv_filters m f = Inr (p m)" by blast
    have "check_filter_match (Suc n) m j = Inr (p m)" for m
      using p no_groups [OF True] by (cases f) (auto simp: j check_filter_match.simps [of _ m])
    with p d show ?thesis by (auto simp: j)
  next
    case False
    obtain m0 op gs where
      f: "n = Suc m0" "f = [(op, JList gs)]" "op = ''$and'' \<or> op = ''$or''"
        "list_all (common_filter m0) gs"
      using common_group [OF False less.prems(1) j] by blast
    have G: "\<exists>ps. predicate_group hs (depth + 1) = Inr ps \<and>
        (\<forall>m b. foldr (\<lambda>g rest. rbind (check_filter_match n m g) (\<lambda>ok. if ok = b then Inr b else rest))
           hs (Inr (\<not> b)) = Inr (if b then list_ex (\<lambda>p. p m) ps else list_all (\<lambda>p. p m) ps))"
      if "list_all (common_filter m0) hs" for hs
      using that
    proof (induction hs)
      case (Cons g hs)
      then obtain ps where ps: "predicate_group hs (depth + 1) = Inr ps"
        "\<And>m b. foldr (\<lambda>g rest. rbind (check_filter_match n m g) (\<lambda>ok. if ok = b then Inr b else rest))
           hs (Inr (\<not> b)) = Inr (if b then list_ex (\<lambda>p. p m) ps else list_all (\<lambda>p. p m) ps)"
        by auto
      from less.IH [of m0 g "depth + 1"] Cons.prems f(1) less.prems(2) obtain p where
        p: "metadata_predicate g (depth + 1) = Inr p" "\<And>m. check_filter_match n m g = Inr (p m)"
        by auto
      from p(1) ps(1) have "predicate_group (g # hs) (depth + 1) = Inr (p # ps)" by simp
      moreover have "foldr (\<lambda>g rest. rbind (check_filter_match n m g) (\<lambda>ok. if ok = b then Inr b else rest))
           (g # hs) (Inr (\<not> b)) =
           Inr (if b then list_ex (\<lambda>p. p m) (p # ps) else list_all (\<lambda>p. p m) (p # ps))" for m b
        using ps(2) [of m b] p(2) [of m] by (cases b) (auto simp: comp_def)
      ultimately show ?case by blast
    qed simp
    from G [OF f(4)] obtain ps where ps: "predicate_group gs (depth + 1) = Inr ps"
      "\<And>m b. foldr (\<lambda>g rest. rbind (check_filter_match n m g) (\<lambda>ok. if ok = b then Inr b else rest))
           gs (Inr (\<not> b)) = Inr (if b then list_ex (\<lambda>p. p m) ps else list_all (\<lambda>p. p m) ps)"
      by blast
    show ?thesis
    proof (cases "op = ''$or''")
      case True
      have "check_filter_match (Suc n) m j = Inr (list_ex (\<lambda>p. p m) ps)" for m
        using ps(2) [of m True]
        by (simp add: j f(2) True check_filter_match.simps [of "Suc n"] Let_def cong: if_cong)
      moreover have "metadata_predicate j depth = Inr (\<lambda>m. list_ex (\<lambda>p. p m) ps)"
        using ps(1) d by (simp add: j f(2) True)
      ultimately show ?thesis by blast
    next
      case no: False
      with f(3) have op: "op = ''$and''" by simp
      have "check_filter_match (Suc n) m j = Inr (list_all (\<lambda>p. p m) ps)" for m
        using ps(2) [of m False]
        by (simp add: j f(2) op check_filter_match.simps [of "Suc n"] Let_def cong: if_cong)
      moreover have "metadata_predicate j depth = Inr (\<lambda>m. list_all (\<lambda>p. p m) ps)"
        using ps(1) d by (simp add: j f(2) op)
      ultimately show ?thesis by blast
    qed
  qed
qed

end
