(* ===== verification/Principal.thy ===== *)
theory Principal
  imports AuthFilter
begin

text \<open>
  Authenticated identities (\<open>auth.py\<close>): correlation and permission values, the signed runtime
  context and its verification, principals built from claims or from a custom auth user,
  idempotency keys bound to the identity, and the middleware's decision. HMAC-SHA256, SHA-256
  and the URL-safe base64 text of a JSON document are parameters.
\<close>

section \<open>Field values\<close>

definition CORRELATION_FIELDS :: "string list" where
  "CORRELATION_FIELDS = [''request_id'']"

definition RUNTIME_CONTEXT_FIELDS :: "string list" where
  "RUNTIME_CONTEXT_FIELDS = [''accepted_at'', ''permissions'', ''auth_user''] @ CORRELATION_FIELDS"

definition correlation_value :: "json \<Rightarrow> string \<Rightarrow> string option res" where
  "correlation_value value field =
     (case value of
        JNull \<Rightarrow> Inr None
      | JStr s \<Rightarrow>
          if py_strip s = [] \<or> int (length s) > 256
          then Inl (RuntimeContextError (''runtime context field is invalid: '' @ field))
          else Inr (Some (py_strip s))
      | _ \<Rightarrow> Inl (RuntimeContextError (''runtime context field is invalid: '' @ field)))"

fun strings_of :: "json list \<Rightarrow> string list option" where
  "strings_of [] = Some []"
| "strings_of (JStr s # xs) = (case strings_of xs of None \<Rightarrow> None | Some ss \<Rightarrow> Some (s # ss))"
| "strings_of (_ # xs) = None"

definition permission_names :: "json \<Rightarrow> string list res" where
  "permission_names value =
     (case value of
        JStr s \<Rightarrow> Inr (remdups (py_words s))
      | JList xs \<Rightarrow>
          (case strings_of xs of
             None \<Rightarrow> Inl (RuntimeContextError ''runtime context permissions are invalid'')
           | Some ss \<Rightarrow> Inr (remdups (filter (\<lambda>s. s \<noteq> []) (map py_strip ss))))
      | _ \<Rightarrow> Inl (RuntimeContextError ''runtime context permissions are invalid''))"

fun map_fields :: "(json \<Rightarrow> string \<Rightarrow> json res) \<Rightarrow> string list \<Rightarrow> dict \<Rightarrow> dict res" where
  "map_fields f [] d = Inr d"
| "map_fields f (k # ks) d =
     (if dhas d k then rbind (f (dget d k) k) (\<lambda>v. map_fields f ks (dset k v d))
      else map_fields f ks d)"

definition opt_json :: "string option \<Rightarrow> json" where
  "opt_json s = (case s of None \<Rightarrow> JNull | Some t \<Rightarrow> JStr t)"

definition auth_user_mapping :: "env \<Rightarrow> json \<Rightarrow> dict res" where
  "auth_user_mapping e value =
     (case value of
        JObj d \<Rightarrow>
          if int (utf8_length (json_dumps e (JObj d))) > 65536
          then Inl (RuntimeContextError ''custom auth user exceeds 65536 bytes'')
          else map_fields (\<lambda>v k. rbind (correlation_value v (''custom auth user '' @ k))
                 (\<lambda>s. Inr (opt_json s))) CORRELATION_FIELDS d
      | _ \<Rightarrow> Inl (RuntimeContextError ''custom auth user must be a JSON object''))"

section \<open>The signed runtime context\<close>

text \<open>The environment variables read, and the two codecs the token is made with.\<close>

record settings =
  st_secret :: "string option"
  st_issuer :: "string option"
  st_audience :: "string option"
  st_env :: "string option"
  st_now :: int \<comment> \<open>\<open>int(time.time())\<close>\<close>

record codec =
  cd_encode :: "json \<Rightarrow> string" \<comment> \<open>URL-safe base64 of the sorted, compact dump, unpadded\<close>
  cd_decode :: "string \<Rightarrow> json option" \<comment> \<open>its inverse; \<open>None\<close> when base64 or JSON rejects it\<close>
  cd_hmac :: "string \<Rightarrow> string \<Rightarrow> string" \<comment> \<open>hexadecimal HMAC-SHA256 under a key\<close>
  cd_sha256 :: "string \<Rightarrow> string"

definition set_text :: "string option \<Rightarrow> bool" where
  "set_text s = (case s of None \<Rightarrow> False | Some t \<Rightarrow> t \<noteq> [])"

definition production_env :: "settings \<Rightarrow> bool" where
  "production_env st = (st_env st = Some ''production'')"

definition runtime_context_secret :: "settings \<Rightarrow> string res" where
  "runtime_context_secret st =
     (let v = py_strip (case st_secret st of None \<Rightarrow> [] | Some s \<Rightarrow> s)
      in if v = [] then Inl (RuntimeContextError ''runtime context signing secret is not configured'')
         else Inr v)"

definition decode_b64_json :: "codec \<Rightarrow> string \<Rightarrow> dict res" where
  "decode_b64_json c s =
     (case cd_decode c s of
        None \<Rightarrow> Inl (RuntimeContextError ''invalid runtime context encoding'')
      | Some (JObj d) \<Rightarrow> Inr d
      | Some _ \<Rightarrow> Inl (RuntimeContextError ''runtime context payload must be an object''))"

definition accepted_value :: "json \<Rightarrow> bool" where
  "accepted_value v = (case v of JInt i \<Rightarrow> i \<ge> 0 | _ \<Rightarrow> False)"

definition correlation_entries :: "dict \<Rightarrow> dict res" where
  "correlation_entries context =
     rbind (correlation_value (dget context ''request_id'') ''request_id'') (\<lambda>v.
       Inr (case v of None \<Rightarrow> [] | Some s \<Rightarrow> [(''request_id'', JStr s)]))"

text \<open>The claims of the token: everything before encoding and signing.\<close>

definition runtime_claims ::
  "env \<Rightarrow> settings \<Rightarrow> dict \<Rightarrow> string \<Rightarrow> string option \<Rightarrow> dict res" where
  "runtime_claims e st context rid tid =
     (if \<not> set (map fst context) \<subseteq> set RUNTIME_CONTEXT_FIELDS then
        Inl (RuntimeContextError ''runtime context contains unknown fields'')
      else
        rbind (permission_names (dgetor context ''permissions'' (JList []))) (\<lambda>names.
        rbind (auth_user_mapping e (dgetor context ''auth_user'' (JObj []))) (\<lambda>user.
        if \<not> dhas user ''identity'' then
          Inl (RuntimeContextError ''runtime context auth_user requires identity'')
        else
          let accepted = dgetdef context ''accepted_at'' (JInt (st_now st)) in
          if \<not> accepted_value accepted then
            Inl (RuntimeContextError ''runtime context acceptance time is invalid'')
          else
            rbind (correlation_entries context) (\<lambda>extra.
            let values = [(''accepted_at'', accepted),
                          (''permissions'', JList (map JStr (sort names))),
                          (''auth_user'', JObj user)] @ extra;
                claims = [(''v'', JInt 2), (''accepted_at'', accepted), (''run_id'', JStr rid),
                          (''thread_id'', opt_json tid), (''context'', JObj values)]
            in if set_text (st_issuer st) \<noteq> set_text (st_audience st) then
                 Inl (RuntimeContextError
                   ''runtime context issuer and audience must be configured together'')
               else if production_env st \<and> \<not> set_text (st_issuer st) then
                 Inl (RuntimeContextError
                   ''runtime context issuer and audience are required in production'')
               else
                 Inr (if set_text (st_issuer st) \<and> set_text (st_audience st)
                      then claims @ [(''iss'', opt_json (st_issuer st)),
                                     (''aud'', opt_json (st_audience st))]
                      else claims)))))"

definition sign_runtime_context ::
  "env \<Rightarrow> codec \<Rightarrow> settings \<Rightarrow> dict \<Rightarrow> string \<Rightarrow> string option \<Rightarrow> string res" where
  "sign_runtime_context e c st context rid tid =
     rbind (runtime_claims e st context rid tid) (\<lambda>claims.
       let encoded = cd_encode c (JObj claims)
       in rbind (runtime_context_secret st) (\<lambda>key. Inr (encoded @ ''.'' @ cd_hmac c key encoded)))"

definition same_fields :: "dict \<Rightarrow> string list \<Rightarrow> bool" where
  "same_fields d ks = (set (map fst d) = set ks)"

definition check_context :: "dict \<Rightarrow> json \<Rightarrow> dict res" where
  "check_context claims accepted =
     (case dget claims ''context'' of
        JObj context \<Rightarrow>
          let fields = [''accepted_at'', ''permissions'', ''auth_user''] @
                filter (dhas context) CORRELATION_FIELDS
          in if \<not> same_fields context fields then
               Inl (RuntimeContextError ''runtime context fields are invalid'')
             else if \<not> py_eq (dget context ''accepted_at'') accepted then
               Inl (RuntimeContextError ''runtime context acceptance time is invalid'')
             else (case dget context ''permissions'' of
                 JList xs \<Rightarrow>
                   if \<not> list_all is_str xs then
                     Inl (RuntimeContextError ''runtime context permissions are invalid'')
                   else if dhas context ''request_id'' then
                     rbind (correlation_value (dget context ''request_id'') ''request_id'')
                       (\<lambda>_. Inr context)
                   else Inr context
               | _ \<Rightarrow> Inl (RuntimeContextError ''runtime context permissions are invalid''))
      | _ \<Rightarrow> Inl (RuntimeContextError ''runtime context fields are invalid''))"

definition verify_runtime_context ::
  "codec \<Rightarrow> settings \<Rightarrow> string \<Rightarrow> string \<Rightarrow> string option \<Rightarrow> dict res" where
  "verify_runtime_context c st token rid tid =
     (case split_once CHR ''.'' token of
        None \<Rightarrow> Inl (RuntimeContextError ''invalid runtime context token'')
      | Some (encoded, signature) \<Rightarrow>
          rbind (runtime_context_secret st) (\<lambda>key.
          if signature \<noteq> cd_hmac c key encoded then
            Inl (RuntimeContextError ''invalid runtime context signature'')
          else
            rbind (decode_b64_json c encoded) (\<lambda>claims.
            let standard = set_text (st_issuer st) \<or> set_text (st_audience st) \<or> production_env st;
                expected = [''v'', ''accepted_at'', ''run_id'', ''thread_id'', ''context''] @
                           (if standard then [''iss'', ''aud''] else [])
            in if standard \<and> (\<not> set_text (st_issuer st) \<or> \<not> set_text (st_audience st)) then
                 Inl (RuntimeContextError ''runtime context issuer and audience are required'')
               else if \<not> same_fields claims expected then
                 Inl (RuntimeContextError ''runtime context contains unknown claims'')
               else if standard \<and> (dget claims ''iss'' \<noteq> opt_json (st_issuer st) \<or>
                                   dget claims ''aud'' \<noteq> opt_json (st_audience st)) then
                 Inl (RuntimeContextError ''runtime context issuer or audience does not match'')
               else if \<not> py_eq (dget claims ''v'') (JInt 2) \<or>
                       \<not> accepted_value (dget claims ''accepted_at'') then
                 Inl (RuntimeContextError ''runtime context version is unsupported'')
               else if dget claims ''run_id'' \<noteq> JStr rid \<or>
                       dget claims ''thread_id'' \<noteq> opt_json tid then
                 Inl (RuntimeContextError ''runtime context resource does not match the run'')
               else check_context claims (dget claims ''accepted_at''))))"

section \<open>Principals\<close>

record principal =
  pr_subject :: string
  pr_roles :: "string list"
  pr_scopes :: "string list"
  pr_credential_type :: string
  pr_jti :: string
  pr_claims :: dict
  pr_auth_user :: "dict option"
  pr_request_id :: "string option"

definition can_scope :: "principal \<Rightarrow> string \<Rightarrow> bool" where
  "can_scope p scope = (scope \<in> set (pr_scopes p) \<or> ''*'' \<in> set (pr_scopes p))"

text \<open>The separator is the NUL character.\<close>

definition principal_idempotency_key :: "codec \<Rightarrow> principal \<Rightarrow> string option \<Rightarrow> string option" where
  "principal_idempotency_key c p key =
     (case key of
        None \<Rightarrow> None
      | Some k \<Rightarrow>
          if k = [] then None
          else Some (''auth:'' @ cd_sha256 c (pr_subject p @ [char_of (0::nat)] @ k)))"

definition scoped_idempotency_key ::
  "env \<Rightarrow> codec \<Rightarrow> principal option \<Rightarrow> json \<Rightarrow> string option" where
  "scoped_idempotency_key e c p key =
     (if \<not> truthy key then None
      else let value = py_str e key
           in (case p of
                 Some q \<Rightarrow> principal_idempotency_key c q (Some value)
               | None \<Rightarrow> Some (''anonymous:'' @ cd_sha256 c value)))"

definition claim_text :: "env \<Rightarrow> dict \<Rightarrow> string \<Rightarrow> string" where
  "claim_text e claims name =
     (let v = dget claims name
      in if v \<noteq> JNull \<and> py_strip (py_str e v) \<noteq> [] then py_str e v else [])"

fun claim_set :: "env \<Rightarrow> dict \<Rightarrow> string list \<Rightarrow> string list" where
  "claim_set e claims [] = []"
| "claim_set e claims (name # names) =
     (case dget claims name of
        JStr s \<Rightarrow> remdups (py_words s)
      | JList xs \<Rightarrow> remdups (map (py_str e) xs)
      | _ \<Rightarrow> claim_set e claims names)"

definition from_claims :: "env \<Rightarrow> dict \<Rightarrow> principal res" where
  "from_claims e claims =
     (let subject = claim_text e claims ''sub'';
          jti = (let j = claim_text e claims ''jti'' in if j \<noteq> [] then j else subject)
      in if subject = [] then Inl (AuthenticationError 401 ''authentication claims require sub'')
         else rbind (correlation_value (dget claims ''request_id'') ''request_id'') (\<lambda>rid.
           Inr \<lparr>pr_subject = subject, pr_roles = claim_set e claims [''roles'', ''role''],
                pr_scopes = claim_set e claims [''scope'', ''scopes''],
                pr_credential_type = ''delegation'', pr_jti = jti, pr_claims = claims,
                pr_auth_user = None, pr_request_id = rid\<rparr>))"

definition normalize_names :: "env \<Rightarrow> json \<Rightarrow> string list" where
  "normalize_names e v =
     (case v of
        JStr s \<Rightarrow> remdups (py_words s)
      | JList xs \<Rightarrow> remdups (filter (\<lambda>s. py_strip s \<noteq> []) (map (py_str e) xs))
      | _ \<Rightarrow> [])"

definition or_str :: "env \<Rightarrow> json \<Rightarrow> string \<Rightarrow> string" where
  "or_str e v dflt = (if truthy v then py_str e v else dflt)"

text \<open>The user as a mapping, the form the SDK's handlers return.\<close>

definition from_auth_user :: "env \<Rightarrow> dict \<Rightarrow> principal res" where
  "from_auth_user e user =
     (let subject = py_strip (or_str e (dgetdef user ''identity'' (dgetdef user ''sub'' (JStr []))) [])
      in if subject = [] then
           Inl (AuthenticationError 401 ''custom auth user must contain identity'')
         else
           let roles = dgetdef user ''roles'' (dgetdef user ''role'' (JList []));
               scopes = dgetdef user ''scopes'' (dgetdef user ''permissions'' (JList []));
               jti = py_strip (or_str e (dgetdef user ''jti''
                       (dgetdef user ''delegation_id'' (JStr subject))) subject)
           in (case auth_user_mapping e (JObj (dset ''identity'' (JStr subject) user)) of
                 Inl (RuntimeContextError msg) \<Rightarrow> Inl (AuthenticationError 401 msg)
               | Inl x \<Rightarrow> Inl x
               | Inr au \<Rightarrow>
                   rbind (correlation_value (dget au ''request_id'') ''request_id'') (\<lambda>rid.
                     Inr \<lparr>pr_subject = subject, pr_roles = normalize_names e roles,
                          pr_scopes = normalize_names e scopes,
                          pr_credential_type =
                            py_str e (dgetdef user ''credential_type'' (JStr ''custom_auth'')),
                          pr_jti = jti, pr_claims = au, pr_auth_user = Some au,
                          pr_request_id = rid\<rparr>)))"

section \<open>The middleware\<close>

record request =
  rq_type :: string
  rq_path :: string
  rq_method :: string
  rq_headers :: "(string \<times> string) list"
  rq_query_string :: string
  rq_path_params :: dict

definition PUBLIC_PATHS :: "string list" where
  "PUBLIC_PATHS = [''/ok'', ''/live'', ''/ready'', ''/info'', ''/openapi.json'', ''/metrics'']"

definition header_map :: "request \<Rightarrow> (string \<times> string) list" where
  "header_map rq = fold (\<lambda>(k, v). AList.update (ascii_lower k) v) (rq_headers rq) []"

definition header_value :: "request \<Rightarrow> string \<Rightarrow> string" where
  "header_value rq k = (case map_of (header_map rq) k of None \<Rightarrow> [] | Some v \<Rightarrow> v)"

definition query_params :: "string \<Rightarrow> (string \<times> string) list" where
  "query_params qs =
     fold (\<lambda>(k, v). AList.update k v)
       (map (\<lambda>item. case split_once CHR ''='' item of None \<Rightarrow> (item, []) | Some p \<Rightarrow> p)
         (filter (\<lambda>item. item \<noteq> []) (split_all CHR ''&'' qs))) []"

text \<open>
  What an authentication handler may do, called with the values its signature names: return a
  user, return \<open>None\<close> or \<open>False\<close>, or raise an exception with or without a status code.
\<close>

datatype handler_outcome =
    Authenticated dict
  | Rejected
  | Raised "int option" string

record auth_values =
  va_path :: string
  va_method :: string
  va_headers :: "(string \<times> string) list"
  va_authorization :: "string option"
  va_path_params :: dict
  va_query_params :: "(string \<times> string) list"

datatype auth_handler_config =
    NoHandler
  | NotCallable
  | Handler "auth_values \<Rightarrow> handler_outcome"

text \<open>\<open>self.auth_handler is not None\<close>.\<close>

fun configured :: "auth_handler_config \<Rightarrow> bool" where
  "configured NoHandler = False"
| "configured _ = True"

definition authenticate_with_auth_handler ::
  "auth_handler_config \<Rightarrow> request \<Rightarrow> string option \<Rightarrow> dict res" where
  "authenticate_with_auth_handler h rq authorization =
     (case h of
        Handler f \<Rightarrow>
          (case f \<lparr>va_path = rq_path rq, va_method = rq_method rq, va_headers = header_map rq,
                   va_authorization = authorization, va_path_params = rq_path_params rq,
                   va_query_params = query_params (rq_query_string rq)\<rparr> of
             Authenticated user \<Rightarrow> Inr user
           | Rejected \<Rightarrow>
               Inl (AuthenticationError 401 ''custom authentication rejected the request'')
           | Raised (Some code) detail \<Rightarrow>
               if code = 403 then Inl (AuthorizationError detail)
               else Inl (AuthenticationError code detail)
           | Raised None detail \<Rightarrow>
               Inl (AuthenticationError 500 ''authentication handler failed''))
      | _ \<Rightarrow>
          Inl (AuthenticationError 401 ''configured auth handler has no authenticate function''))"

datatype gate =
    Admit "principal option"
  | Refuse int string
  | Crash py_error \<comment> \<open>an exception the middleware does not handle\<close>

definition principal_middleware :: "env \<Rightarrow> auth_handler_config \<Rightarrow> bool \<Rightarrow> request \<Rightarrow> gate" where
  "principal_middleware e h allow_anonymous rq =
     (if rq_type rq \<noteq> ''http'' \<or> rq_path rq \<in> set PUBLIC_PATHS then Admit None
      else
        let auth_header = header_value rq ''authorization'' in
        if header_value rq ''x-graphharbor-management-key'' \<noteq> [] then
          Refuse 403 ''management credentials cannot access data-plane resources''
        else if auth_header = [] \<and> \<not> configured h then
          (if allow_anonymous then Admit None else Refuse 401 ''missing authorization header'')
        else if configured h then
          (case rbind (authenticate_with_auth_handler h rq
                  (if auth_header = [] then None else Some auth_header)) (from_auth_user e) of
             Inr p \<Rightarrow> Admit (Some p)
           | Inl (AuthorizationError msg) \<Rightarrow> Refuse 403 msg
           | Inl (AuthenticationError code msg) \<Rightarrow> Refuse code msg
           | Inl x \<Rightarrow> Crash x)
        else if allow_anonymous then Admit None
        else Refuse 401 ''authentication not configured'')"

section \<open>Lemmas\<close>

lemma fst_canon_items [simp]: "map fst (canon_items d) = map fst d"
  by (induction d) auto

lemma set_fst_canon [simp]: "fst ` set (canon_items d) = fst ` set d"
  by (metis fst_canon_items list.set_map)

lemma map_of_canon_items: "map_of (canon_items d) k = map_option canon (map_of d k)"
  by (induction d) auto

lemma map_of_sorted:
  assumes "distinct (map fst d)"
  shows "map_of (sort_key fst d) = map_of d"
proof -
  have "mset (map fst (sort_key fst d)) = mset (map fst d)" by simp
  with assms have "distinct (map fst (sort_key fst d))" by (metis mset_eq_imp_distinct_iff)
  with assms show ?thesis by (subst map_of_inject_set) simp_all
qed

lemma dget_canon:
  assumes "distinct (map fst d)"
  shows "dget (sort_key fst (canon_items d)) k = (case map_of d k of None \<Rightarrow> JNull | Some v \<Rightarrow> canon v)"
    "dhas (sort_key fst (canon_items d)) k = dhas d k"
  using assms
  by (simp_all add: dget_def dhas_def map_of_sorted map_of_canon_items split: option.split)

lemma same_fields_canon: "same_fields (sort_key fst (canon_items d)) ks = same_fields d ks"
  by (simp add: same_fields_def)

lemma canon_strs: "canon_list (map JStr xs) = map JStr xs"
  by (induction xs) auto

lemma canon_opt [simp]: "canon (opt_json s) = opt_json s"
  by (cases s) (simp_all add: opt_json_def)

lemma length_py_strip: "length (py_strip s) \<le> length s"
proof -
  have "length (dropWhile P xs) \<le> length xs" for P and xs :: string
    by (rule length_dropWhile_le)
  then show ?thesis unfolding py_strip_def by (metis length_rev order_trans)
qed

lemma correlation_again:
  "correlation_value v f = Inr (Some s) \<Longrightarrow> correlation_value (JStr s) g = Inr (Some s)"
proof -
  assume a: "correlation_value v f = Inr (Some s)"
  then obtain x where x: "v = JStr x" by (cases v) (simp_all add: correlation_value_def)
  with a have s: "s = py_strip x" "py_strip x \<noteq> []" "length x \<le> 256"
    by (auto simp: correlation_value_def split: if_splits)
  with length_py_strip [of x] have "length s \<le> 256" by simp
  with s show "correlation_value (JStr s) g = Inr (Some s)" by (simp add: correlation_value_def)
qed

lemma correlation_entries_cases:
  assumes "correlation_entries ctx = Inr extra"
  shows "extra = [] \<or> (\<exists>s. extra = [(''request_id'', JStr s)] \<and>
           correlation_value (JStr s) ''request_id'' = Inr (Some s))"
  using assms correlation_again
  by (fastforce simp: correlation_entries_def rbind_eq_Inr split: option.splits)

lemma accepted_canon: "accepted_value v \<Longrightarrow> canon v = v \<and> py_eq v v"
  by (cases v) (auto simp: accepted_value_def)

text \<open>A context built by the signer passes the checks of the verifier.\<close>

lemma check_context_signed:
  assumes "accepted_value accepted" "correlation_entries ctx = Inr extra"
    "values = [(''accepted_at'', accepted), (''permissions'', JList (map JStr names)),
               (''auth_user'', JObj user)] @ extra"
    "dget claims ''context'' = JObj (sort_key fst (canon_items values))"
  shows "check_context claims accepted = Inr (sort_key fst (canon_items values))"
proof -
  let ?c = "sort_key fst (canon_items values)"
  note a = accepted_canon [OF assms(1)]
  have "dhas ?c k = dhas values k" for k
    using correlation_entries_cases [OF assms(2)]
    by (subst dget_canon(2)) (auto simp: assms(3))
  moreover have d: "distinct (map fst values)"
    using correlation_entries_cases [OF assms(2)] by (auto simp: assms(3))
  ultimately have h: "dhas ?c ''request_id'' = (extra \<noteq> [])"
    using correlation_entries_cases [OF assms(2)] by (auto simp: assms(3) dhas_def)
  have f: "same_fields ?c ([''accepted_at'', ''permissions'', ''auth_user''] @
      filter (dhas ?c) CORRELATION_FIELDS)"
    using correlation_entries_cases [OF assms(2)] h
    by (auto simp: same_fields_canon same_fields_def assms(3) CORRELATION_FIELDS_def)
  have g: "dget ?c ''accepted_at'' = accepted" "dget ?c ''permissions'' = JList (map JStr names)"
    using a by (subst dget_canon(1) [OF d], simp add: assms(3) canon_strs)+
  have r: "\<exists>s. dget ?c ''request_id'' = JStr s \<and> correlation_value (JStr s) ''request_id'' = Inr (Some s)"
    if "extra \<noteq> []"
    using that correlation_entries_cases [OF assms(2)]
    by (subst (1) dget_canon(1) [OF d]) (auto simp: assms(3))
  show ?thesis
    using f g a h r
    by (auto simp: check_context_def assms(4) Let_def list_all_iff)
qed

lemma runtime_claims_Inr:
  assumes "runtime_claims e st ctx rid tid = Inr claims"
  obtains names user extra accepted where
    "permission_names (dgetor ctx ''permissions'' (JList [])) = Inr names"
    "auth_user_mapping e (dgetor ctx ''auth_user'' (JObj [])) = Inr user" "dhas user ''identity''"
    "accepted_value accepted" "correlation_entries ctx = Inr extra"
    "set_text (st_issuer st) = set_text (st_audience st)"
    "production_env st \<Longrightarrow> set_text (st_issuer st)"
    "claims = [(''v'', JInt 2), (''accepted_at'', accepted), (''run_id'', JStr rid),
       (''thread_id'', opt_json tid), (''context'', JObj
         ([(''accepted_at'', accepted), (''permissions'', JList (map JStr (sort names))),
           (''auth_user'', JObj user)] @ extra))] @
       (if set_text (st_issuer st)
        then [(''iss'', opt_json (st_issuer st)), (''aud'', opt_json (st_audience st))] else [])"
  using assms
  by (auto simp: runtime_claims_def rbind_eq_Inr Let_def split: if_splits)

lemma split_token:
  "CHR ''.'' \<notin> set a \<Longrightarrow> split_once CHR ''.'' (a @ ''.'' @ b) = Some (a, b)"
  using split_once_app [of "CHR ''.''" a b] by simp

end
