(* ===== verification/Identity.thy ===== *)
theory Identity
  imports Principal ProtocolEvents Checkpoints Scenario
begin

text \<open>
  What identities and filters guarantee: a signed runtime context verifies for its run and for no
  other, no request reaches the data plane without a decision of the configured handler, and the
  two evaluators of authorisation filters agree on the filters both know.
\<close>

section \<open>The signed runtime context\<close>

lemma roundtrip_aux:
  assumes "sign_runtime_context e c st ctx rid tid = Inr token" "runtime_claims e st ctx rid tid = Inr claims"
    "cd_decode c (cd_encode c (JObj claims)) = Some (canon (JObj claims))"
    "CHR ''.'' \<notin> set (cd_encode c (JObj claims))"
  shows "verify_runtime_context c st token rid tid =
    Inr (obj_of (canon (dget claims ''context'')))"
proof -
  from assms(1,2) obtain key where key: "runtime_context_secret st = Inr key"
    "token = cd_encode c (JObj claims) @ ''.'' @ cd_hmac c key (cd_encode c (JObj claims))"
    by (auto simp: sign_runtime_context_def Let_def rbind_eq_Inr)
  note s = split_token [OF assms(4), of "cd_hmac c key (cd_encode c (JObj claims))", folded key(2)]
  from assms(2) show ?thesis
  proof (cases rule: runtime_claims_Inr)
    case (1 names user extra accepted)
    let ?vals = "[(''accepted_at'', accepted), (''permissions'', JList (map JStr (sort names))),
           (''auth_user'', JObj user)] @ extra"
    let ?d = "sort_key fst (canon_items claims)"
    have d: "distinct (map fst claims)"
      by (cases "set_text (st_issuer st)") (simp_all add: 1(8))
    have f: "dget ?d ''v'' = JInt 2" "dget ?d ''accepted_at'' = accepted" "dget ?d ''run_id'' = JStr rid"
      "dget ?d ''thread_id'' = opt_json tid" "dget ?d ''context'' = JObj (sort_key fst (canon_items ?vals))"
      "set_text (st_issuer st) \<Longrightarrow> dget ?d ''iss'' = opt_json (st_issuer st)"
      "set_text (st_issuer st) \<Longrightarrow> dget ?d ''aud'' = opt_json (st_audience st)"
      using accepted_canon [OF 1(4)] by (subst dget_canon(1) [OF d], simp add: 1(8))+
    have c: "check_context ?d accepted = Inr (sort_key fst (canon_items ?vals))"
      by (rule check_context_signed [OF 1(4,5) refl f(5)])
    have k: "same_fields ?d ([''v'', ''accepted_at'', ''run_id'', ''thread_id'', ''context''] @
        (if set_text (st_issuer st) then [''iss'', ''aud''] else []))"
      by (auto simp: same_fields_canon same_fields_def 1(8))
    have x: "dget claims ''context'' = JObj ?vals" by (simp add: 1(8) dget_def)
    have "verify_runtime_context c st token rid tid = Inr (sort_key fst (canon_items ?vals))"
      using f c k 1(4,6,7)
      by (auto simp: verify_runtime_context_def s key(1) decode_b64_json_def assms(3) Let_def
          simp del: append.simps)
    then show ?thesis by (simp only: x canon.simps obj_of.simps)
  qed
qed

text \<open>
  C25: a token that was signed is accepted for the same run and thread under the same settings, and
  gives back the context that was signed, in the canonical form of its JSON text. The codec is
  assumed to invert itself on the claims of the token and to write no full stop.
\<close>

theorem runtime_context_roundtrip:
  assumes "sign_runtime_context e c st ctx rid tid = Inr token" "runtime_claims e st ctx rid tid = Inr claims"
    "cd_decode c (cd_encode c (JObj claims)) = Some (canon (JObj claims))"
    "CHR ''.'' \<notin> set (cd_encode c (JObj claims))"
  shows "verify_runtime_context c st token rid tid =
    Inr (obj_of (canon (dget claims ''context'')))"
  by (rule roundtrip_aux [OF assms])

text \<open>A settings record, a context and a codec that knows one document.\<close>

definition demo_settings :: settings where
  "demo_settings = \<lparr>st_secret = Some '' s '', st_issuer = None, st_audience = None, st_env = None, st_now = 5\<rparr>"

definition demo_context :: dict where
  "demo_context = [(''auth_user'', JObj [(''identity'', JStr ''u'')]), (''permissions'', JStr ''b a'')]"

definition demo_claims :: dict where
  "demo_claims = (case runtime_claims (demo_env 0) demo_settings demo_context ''r1'' (Some ''t1'') of
     Inr d \<Rightarrow> d | Inl _ \<Rightarrow> [])"

definition demo_codec :: codec where
  "demo_codec = \<lparr>cd_encode = (\<lambda>_. ''doc''), cd_decode = (\<lambda>_. Some (canon (JObj demo_claims))),
     cd_hmac = (\<lambda>k s. k @ ''/'' @ s), cd_sha256 = (\<lambda>s. s)\<rparr>"

lemma demo_secret: "runtime_context_secret demo_settings = Inr ''s''"
  by code_simp

lemma demo_claims: "runtime_claims (demo_env 0) demo_settings demo_context ''r1'' (Some ''t1'') = Inr demo_claims"
proof -
  have "case runtime_claims (demo_env 0) demo_settings demo_context ''r1'' (Some ''t1'') of
      Inl _ \<Rightarrow> False | Inr _ \<Rightarrow> True" by code_simp
  then show ?thesis by (auto simp: demo_claims_def split: sum.splits)
qed

lemma demo_token: "sign_runtime_context (demo_env 0) demo_codec demo_settings demo_context ''r1'' (Some ''t1'') =
     Inr ''doc.s/doc''"
  by (simp add: sign_runtime_context_def demo_claims demo_secret demo_codec_def)

theorem runtime_context_roundtrip_witness:
  "verify_runtime_context demo_codec demo_settings ''doc.s/doc'' ''r1'' (Some ''t1'') =
     Inr (obj_of (canon (dget demo_claims ''context''))) \<and>
   dget (obj_of (canon (dget demo_claims ''context''))) ''permissions'' = JList [JStr ''a'', JStr ''b'']"
proof
  show "verify_runtime_context demo_codec demo_settings ''doc.s/doc'' ''r1'' (Some ''t1'') =
     Inr (obj_of (canon (dget demo_claims ''context'')))"
    by (rule runtime_context_roundtrip [OF demo_token demo_claims]) (simp_all add: demo_codec_def)
qed code_simp

lemma verify_facts:
  assumes "verify_runtime_context c st token rid tid = Inr ctx"
  obtains key encoded claims where "runtime_context_secret st = Inr key"
    "split_once CHR ''.'' token = Some (encoded, cd_hmac c key encoded)"
    "decode_b64_json c encoded = Inr claims" "dget claims ''run_id'' = JStr rid"
    "dget claims ''thread_id'' = opt_json tid" "dget claims ''context'' = JObj ctx"
    "production_env st \<Longrightarrow> set_text (st_issuer st) \<and> dget claims ''iss'' = opt_json (st_issuer st) \<and>
       dget claims ''aud'' = opt_json (st_audience st)"
proof -
  obtain encoded sig where t: "split_once CHR ''.'' token = Some (encoded, sig)"
    using assms by (auto simp: verify_runtime_context_def split: option.splits)
  with assms obtain key claims where k: "runtime_context_secret st = Inr key"
    "sig = cd_hmac c key encoded" "decode_b64_json c encoded = Inr claims"
    by (auto simp: verify_runtime_context_def rbind_eq_Inr split: if_splits)
  from assms have ok: "dget claims ''run_id'' = JStr rid" "dget claims ''thread_id'' = opt_json tid"
    "check_context claims (dget claims ''accepted_at'') = Inr ctx"
    "production_env st \<Longrightarrow> set_text (st_issuer st) \<and> dget claims ''iss'' = opt_json (st_issuer st) \<and>
       dget claims ''aud'' = opt_json (st_audience st)"
    by (auto simp: verify_runtime_context_def t k Let_def split: if_splits)
  have "dget claims ''context'' = JObj ctx"
    using ok(3) by (auto simp: check_context_def Let_def rbind_eq_Inr split: json.splits if_splits)
  with that t k ok show ?thesis by blast
qed

lemma opt_json_inject [simp]: "opt_json a = opt_json b \<longleftrightarrow> a = b"
  by (auto simp: opt_json_def split: option.splits)

text \<open>
  C26: a token is bound to its run. Whatever verifies carries a correct signature under the
  configured secret and names the run and the thread it is verified for, in production also the
  configured issuer and audience; so it does not verify for any other run or thread.
\<close>

theorem runtime_context_is_bound:
  assumes "verify_runtime_context c st token rid tid = Inr ctx"
  shows "(\<exists>key encoded claims. runtime_context_secret st = Inr key \<and>
      split_once CHR ''.'' token = Some (encoded, cd_hmac c key encoded) \<and>
      decode_b64_json c encoded = Inr claims \<and> dget claims ''context'' = JObj ctx) \<and>
    (verify_runtime_context c st token rid' tid' = Inr ctx' \<longrightarrow> rid' = rid \<and> tid' = tid \<and> ctx' = ctx)"
proof (rule conjI)
  show "\<exists>key encoded claims. runtime_context_secret st = Inr key \<and>
      split_once CHR ''.'' token = Some (encoded, cd_hmac c key encoded) \<and>
      decode_b64_json c encoded = Inr claims \<and> dget claims ''context'' = JObj ctx"
    by (rule verify_facts [OF assms]) blast
  show "verify_runtime_context c st token rid' tid' = Inr ctx' \<longrightarrow> rid' = rid \<and> tid' = tid \<and> ctx' = ctx"
  proof
    assume v: "verify_runtime_context c st token rid' tid' = Inr ctx'"
    show "rid' = rid \<and> tid' = tid \<and> ctx' = ctx"
      by (rule verify_facts [OF assms], rule verify_facts [OF v]) simp
  qed
qed

theorem runtime_context_is_bound_witness:
  "verify_runtime_context demo_codec demo_settings ''doc.s/doc'' ''r1'' (Some ''t1'') =
     Inr (obj_of (canon (dget demo_claims ''context''))) \<and>
   (\<forall>x. verify_runtime_context demo_codec demo_settings ''doc.s/doc'' ''r2'' (Some ''t1'') \<noteq> Inr x)"
proof -
  have v: "verify_runtime_context demo_codec demo_settings ''doc.s/doc'' ''r1'' (Some ''t1'') =
     Inr (obj_of (canon (dget demo_claims ''context'')))"
    by (rule roundtrip_aux [OF demo_token demo_claims]) (simp_all add: demo_codec_def)
  from runtime_context_is_bound [OF v, of "''r2''" "Some ''t1''"] v show ?thesis by auto
qed

section \<open>The middleware\<close>

lemma from_auth_user_subject:
  "from_auth_user e user = Inr p \<Longrightarrow> pr_subject p \<noteq> [] \<and> pr_auth_user p \<noteq> None"
  by (auto simp: from_auth_user_def Let_def rbind_eq_Inr split: if_splits sum.splits py_error.splits)

lemma authenticated_user:
  assumes "authenticate_with_auth_handler h rq a = Inr user"
  obtains f v where "h = Handler f" "f v = Authenticated user" "va_path v = rq_path rq" "va_authorization v = a"
proof (cases h)
  case (Handler f)
  with assms show ?thesis
    by (intro that [OF Handler, of "\<lparr>va_path = rq_path rq, va_method = rq_method rq,
        va_headers = header_map rq, va_authorization = a, va_path_params = rq_path_params rq,
        va_query_params = query_params (rq_query_string rq)\<rparr>"])
      (auto simp: authenticate_with_auth_handler_def split: handler_outcome.splits option.splits if_splits)
qed (use assms in \<open>simp_all add: authenticate_with_auth_handler_def\<close>)

text \<open>
  C30: the middleware fails closed. An HTTP request to a path that is not public is admitted only
  when the configured handler accepted it, with a principal that has a subject, or when there is
  no handler and anonymous access is allowed; a management credential is never admitted.
\<close>

theorem middleware_fails_closed:
  assumes "rq_type rq = ''http''" "rq_path rq \<notin> set PUBLIC_PATHS"
    "principal_middleware e h allow_anonymous rq = Admit p"
  shows "header_value rq ''x-graphharbor-management-key'' = [] \<and>
    ((h = NoHandler \<and> allow_anonymous \<and> p = None) \<or>
     (\<exists>f v user q. h = Handler f \<and> f v = Authenticated user \<and> va_path v = rq_path rq \<and>
        from_auth_user e user = Inr q \<and> pr_subject q \<noteq> [] \<and> p = Some q))"
proof (cases h)
  case NoHandler
  with assms show ?thesis by (auto simp: principal_middleware_def Let_def split: if_splits)
next
  case NotCallable
  with assms show ?thesis
    by (simp add: principal_middleware_def Let_def authenticate_with_auth_handler_def split: if_splits)
next
  case (Handler f0)
  let ?a = "if header_value rq ''authorization'' = [] then None else Some (header_value rq ''authorization'')"
  from assms Handler obtain q where q: "header_value rq ''x-graphharbor-management-key'' = []" "p = Some q"
    "rbind (authenticate_with_auth_handler h rq ?a) (from_auth_user e) = Inr q"
    by (auto simp: principal_middleware_def Let_def split: if_splits sum.splits py_error.splits)
  then obtain user where u: "authenticate_with_auth_handler h rq ?a = Inr user" "from_auth_user e user = Inr q"
    by (auto simp: rbind_eq_Inr)
  from u(1) show ?thesis
    by (rule authenticated_user) (use q u(2) from_auth_user_subject [OF u(2)] in blast)
qed

definition demo_request :: "string \<Rightarrow> request" where
  "demo_request path = \<lparr>rq_type = ''http'', rq_path = path, rq_method = ''GET'', rq_headers = [],
     rq_query_string = [], rq_path_params = []\<rparr>"

theorem middleware_fails_closed_witness:
  "\<exists>q. principal_middleware (demo_env 0) (Handler (\<lambda>_. Authenticated [(''identity'', JStr ''u'')])) False
      (demo_request ''/runs'') = Admit (Some q) \<and> pr_subject q \<noteq> []"
proof -
  let ?h = "Handler (\<lambda>_. Authenticated [(''identity'', JStr ''u'')])"
  let ?m = "principal_middleware (demo_env 0) ?h False (demo_request ''/runs'')"
  have "case from_auth_user (demo_env 0) [(''identity'', JStr ''u'')] of Inr _ \<Rightarrow> True | _ \<Rightarrow> False"
    by code_simp
  then obtain q where "from_auth_user (demo_env 0) [(''identity'', JStr ''u'')] = Inr q"
    by (auto split: sum.splits)
  then have "\<exists>p. ?m = Admit p"
    by (simp add: principal_middleware_def authenticate_with_auth_handler_def PUBLIC_PATHS_def
        demo_request_def header_value_def header_map_def Let_def)
  then obtain p where p: "?m = Admit p" by blast
  have "rq_type (demo_request ''/runs'') = ''http''" "rq_path (demo_request ''/runs'') \<notin> set PUBLIC_PATHS"
    by (simp_all add: demo_request_def PUBLIC_PATHS_def)
  from middleware_fails_closed [OF this p] p show ?thesis by auto
qed

section \<open>Filters\<close>



text \<open>
  C32: they part on an operator neither knows: the compiled filter is refused with an error, while
  the interpreted one admits every resource.
\<close>

theorem unknown_operator_admits_all:
  assumes "op \<noteq> ''$eq''" "op \<noteq> ''$contains''" "\<not> starts_with ''$'' key"
  shows "filter_match m (JObj [(key, JObj [(op, v)])]) = Inr True \<and>
    auth_denies (Some m) (JObj [(key, JObj [(op, v)])]) = Inr False \<and>
    metadata_predicate (JObj [(key, JObj [(op, v)])]) 0 =
      Inl (HTTPException 500 ''Unsupported authorization filter operator'')"
proof -
  have k: "key \<noteq> ''$or''" "key \<noteq> ''$and''" using dollar_keys [OF assms(3)] by simp_all
  have "filter_match m (JObj [(key, JObj [(op, v)])]) = Inr True"
    unfolding filter_match_def
    by (subst check_filter_match.simps) (use assms k in \<open>simp add: check_operator_filter_def eval_nat_numeral\<close>)
  with assms k show ?thesis by (simp add: auth_denies_def)
qed

theorem unknown_operator_admits_all_witness:
  "filter_match [(''owner'', JStr ''eve'')] (JObj [(''owner'', JObj [(''$ne'', JStr ''eve'')])]) = Inr True \<and>
   auth_denies (Some [(''owner'', JStr ''eve'')]) (JObj [(''owner'', JObj [(''$ne'', JStr ''eve'')])]) = Inr False"
  using unknown_operator_admits_all [of "''$ne''" "''owner''" "[(''owner'', JStr ''eve'')]" "JStr ''eve''"]
  by (simp add: starts_with_def)

section \<open>Event projection\<close>

text \<open>
  The public form of an event is a fixed point of the projection: what a stream has projected
  once (live, replayed or fanned out), projecting again leaves alone.
\<close>

theorem projection_is_idempotent:
  assumes "\<And>x. e_repr e x \<noteq> []"
  shows "project_v3_event e (v3_dict (project_v3_event e event sequence fallback)) None fallback' =
    project_v3_event e event sequence fallback"
  by (rule project_normal [OF v3_method_ne [OF assms] v3_method_not_requested v3_interrupts_truthy])

theorem projection_is_idempotent_witness:
  "project_v3_event (demo_env 3) (v3_dict (project_v3_event (demo_env 3)
      [(''event'', JStr ''lifecycle''), (''status'', JStr ''running'')] (Some 4) [])) None [JStr ''x''] =
   project_v3_event (demo_env 3) [(''event'', JStr ''lifecycle''), (''status'', JStr ''running'')] (Some 4) []"
  by (rule projection_is_idempotent) (simp add: demo_env_def)

end
