(* ===== verification/RedisStream.thy ===== *)
theory RedisStream
  imports PyText Checkpoints
begin

text \<open>
  The Redis transport (\<open>redis_stream.py\<close>): stream identifiers, key and channel names, the fanout
  envelope, the bounded set of delivered identifiers, the stream manager with its local buffers,
  subscriber queues and control keys, resumption, the job queue and the wake counter. Redis is
  the record of what the code writes to it; the identifiers it assigns to stream entries, and
  how many old entries an approximate \<open>MAXLEN\<close> drops, are arguments.
\<close>

section \<open>Settings\<close>

definition opt_or :: "string option \<Rightarrow> string \<Rightarrow> string" where
  "opt_or s dflt = (case s of None \<Rightarrow> dflt | Some t \<Rightarrow> t)"

definition redis_namespace :: "string option \<Rightarrow> string" where
  "redis_namespace prefix = strip_chars '':'' (opt_or prefix ''graphharbor:runtime'')"

definition redis_max_connections :: "string option \<Rightarrow> int" where
  "redis_max_connections raw =
     (case parse_int (opt_or raw ''64'') of None \<Rightarrow> 64 | Some n \<Rightarrow> max n 8)"

definition replay_maxlen :: "string option \<Rightarrow> int" where
  "replay_maxlen raw =
     (case parse_int (opt_or raw ''2000'') of None \<Rightarrow> 2000 | Some n \<Rightarrow> max n 100)"

text \<open>\<open>LG_BG_JOB_HEARTBEAT\<close> (as \<open>float\<close> reads it) over the API's configuration, when it has one.\<close>

definition bg_job_heartbeat_secs :: "rat option \<Rightarrow> rat option \<Rightarrow> rat" where
  "bg_job_heartbeat_secs raw config =
     (case raw of
        Some x \<Rightarrow> max x 1
      | None \<Rightarrow> (case config of Some x \<Rightarrow> max x 1 | None \<Rightarrow> 120))"

definition heartbeat_ttl_secs :: "rat \<Rightarrow> int" where
  "heartbeat_ttl_secs heartbeat = max \<lfloor>heartbeat * 2\<rfloor> 4"

definition heartbeat_refresh_interval_secs :: "rat \<Rightarrow> rat" where
  "heartbeat_refresh_interval_secs heartbeat = max (heartbeat / 2) 1"

section \<open>Stream identifiers\<close>

record id_clock =
  ic_last_ms :: nat
  ic_seq :: nat

definition ms_seq_text :: "nat \<Rightarrow> nat \<Rightarrow> string" where
  "ms_seq_text ms s = nat_str ms @ ''-'' @ nat_str s"

text \<open>\<open>ms\<close> is the wall clock in milliseconds; it may stand still or go back.\<close>

definition generate_ms_seq_id :: "nat \<Rightarrow> id_clock \<Rightarrow> string \<times> id_clock" where
  "generate_ms_seq_id ms c =
     (let c' = (if ms > ic_last_ms c then \<lparr>ic_last_ms = ms, ic_seq = 0\<rparr>
                else c\<lparr>ic_seq := ic_seq c + 1\<rparr>)
      in (ms_seq_text (ic_last_ms c') (ic_seq c'), c'))"

definition parse_ms_seq_id :: "string \<Rightarrow> (int \<times> int) option" where
  "parse_ms_seq_id mid =
     (case split_once CHR ''-'' mid of
        None \<Rightarrow> None
      | Some (a, b) \<Rightarrow>
          (case (parse_int a, parse_int b) of
             (Some m, Some s) \<Rightarrow> Some (m, s)
           | _ \<Rightarrow> None))"

definition ms_seq_id_gt :: "string \<Rightarrow> string \<Rightarrow> bool" where
  "ms_seq_id_gt left right =
     (case (parse_ms_seq_id left, parse_ms_seq_id right) of
        (Some pl, Some pr) \<Rightarrow> pl > pr
      | _ \<Rightarrow> left > right)"

definition ms_seq_id_sort_key :: "string \<Rightarrow> int \<times> int \<times> string" where
  "ms_seq_id_sort_key mid =
     (case parse_ms_seq_id mid of Some (m, s) \<Rightarrow> (m, s, []) | None \<Rightarrow> (0, 0, mid))"

section \<open>Keys and channels\<close>

datatype thread_ref = Threadless | Thread uuid

fun ref_str :: "thread_ref \<Rightarrow> string" where
  "ref_str Threadless = ''no-thread''"
| "ref_str (Thread t) = uuid_str t"

definition thread_ref_of :: "uuid option \<Rightarrow> thread_ref" where
  "thread_ref_of t = (case t of None \<Rightarrow> Threadless | Some u \<Rightarrow> Thread u)"

definition queue_wake_channel :: "string \<Rightarrow> string" where
  "queue_wake_channel ns = ns @ '':run-queue''"

definition job_queue_key :: "string \<Rightarrow> string" where
  "job_queue_key ns = ns @ '':jobs''"

definition heartbeat_key :: "string \<Rightarrow> uuid \<Rightarrow> string" where
  "heartbeat_key ns r = ns @ '':run-heartbeat:'' @ uuid_str r"

definition stream_key :: "string \<Rightarrow> thread_ref \<Rightarrow> uuid \<Rightarrow> string" where
  "stream_key ns t r = ns @ '':run-stream:'' @ ref_str t @ '':'' @ uuid_str r"

definition control_key :: "string \<Rightarrow> thread_ref \<Rightarrow> uuid \<Rightarrow> string" where
  "control_key ns t r = ns @ '':run-control:'' @ ref_str t @ '':'' @ uuid_str r"

definition fanout_channel :: "string \<Rightarrow> thread_ref \<Rightarrow> uuid \<Rightarrow> string" where
  "fanout_channel ns t r = ns @ '':run-fanout:'' @ ref_str t @ '':'' @ uuid_str r"

definition thread_fanout_channel :: "string \<Rightarrow> uuid \<Rightarrow> string" where
  "thread_fanout_channel ns t = ns @ '':thread-fanout:'' @ uuid_str t"

definition rsplit_once :: "char \<Rightarrow> string \<Rightarrow> (string \<times> string) option" where
  "rsplit_once sep s =
     (case split_once sep (rev s) of None \<Rightarrow> None | Some (b, a) \<Rightarrow> Some (rev a, rev b))"

definition parse_run_fanout_channel :: "string \<Rightarrow> string \<Rightarrow> (thread_ref \<times> uuid) option" where
  "parse_run_fanout_channel ns channel =
     (let prefix = ns @ '':run-fanout:'' in
      if \<not> starts_with prefix channel then None
      else (case rsplit_once CHR '':'' (drop (length prefix) channel) of
          None \<Rightarrow> None
        | Some (thread_part, run_part) \<Rightarrow>
            (case parse_uuid run_part of
               None \<Rightarrow> None
             | Some r \<Rightarrow>
                 if thread_part = ''no-thread'' then Some (Threadless, r)
                 else (case parse_uuid thread_part of
                     None \<Rightarrow> None
                   | Some t \<Rightarrow> Some (Thread t, r)))))"

definition parse_thread_fanout_channel :: "string \<Rightarrow> string \<Rightarrow> uuid option" where
  "parse_thread_fanout_channel ns channel =
     (let prefix = ns @ '':thread-fanout:'' in
      if \<not> starts_with prefix channel then None
      else parse_uuid (drop (length prefix) channel))"

section \<open>Envelopes\<close>

record message =
  ms_topic :: string
  ms_data :: string
  ms_id :: "string option"

text \<open>\<open>orjson\<close> and base64, as the code uses them.\<close>

record wire =
  wi_dumps :: "json \<Rightarrow> string"
  wi_loads :: "string \<Rightarrow> json option"
  wi_b64 :: "string \<Rightarrow> string"
  wi_unb64 :: "string \<Rightarrow> string option"

definition encode_envelope :: "wire \<Rightarrow> message \<Rightarrow> bool \<Rightarrow> string" where
  "encode_envelope w m control =
     wi_dumps w (JObj [(''topic'', JStr (ms_topic m)), (''data'', JStr (wi_b64 w (ms_data m))),
       (''id'', JStr (opt_or (ms_id m) [])), (''control'', JBool control)])"

definition decode_envelope :: "wire \<Rightarrow> string \<Rightarrow> message option" where
  "decode_envelope w payload =
     (case wi_loads w payload of
        Some (JObj obj) \<Rightarrow>
          (case (map_of obj ''topic'', map_of obj ''data'') of
             (Some (JStr topic), Some (JStr data)) \<Rightarrow>
               (case wi_unb64 w data of
                  None \<Rightarrow> None
                | Some bytes \<Rightarrow>
                    (case dget obj ''id'' of
                       JStr mid \<Rightarrow> Some \<lparr>ms_topic = topic, ms_data = bytes,
                           ms_id = (if mid = [] then None else Some mid)\<rparr>
                     | v \<Rightarrow> if truthy v then None
                            else Some \<lparr>ms_topic = topic, ms_data = bytes, ms_id = None\<rparr>))
           | _ \<Rightarrow> None)
      | _ \<Rightarrow> None)"

section \<open>Delivered identifiers\<close>

text \<open>The insertion order as a list, oldest first; the set has the same elements.\<close>

record seen_ids =
  si_maxlen :: nat
  si_order :: "string list"
  si_ids :: "string set"

definition new_seen :: "nat \<Rightarrow> seen_ids" where
  "new_seen n = \<lparr>si_maxlen = n, si_order = [], si_ids = {}\<rparr>"

definition seen_add :: "string \<Rightarrow> seen_ids \<Rightarrow> bool \<times> seen_ids" where
  "seen_add mid s =
     (if mid \<in> si_ids s then (False, s)
      else
        let order = si_order s @ [mid]; ids = insert mid (si_ids s) in
        if length order > si_maxlen s then
          let n = length order div 2
          in (True, s\<lparr>si_order := drop n order, si_ids := ids - set (take n order)\<rparr>)
        else (True, s\<lparr>si_order := order, si_ids := ids\<rparr>))"

section \<open>The stream manager\<close>

text \<open>
  A subscriber queue is a number; \<open>sm_box\<close> holds what it contains. The tables keep an empty list
  where the code deletes the entry. \<open>rd_published\<close> lists the messages published, oldest first.
\<close>

record stream =
  sm_queues :: "thread_ref \<times> uuid \<Rightarrow> nat list"
  sm_control_queues :: "thread_ref \<times> uuid \<Rightarrow> nat list"
  sm_thread_streams :: "uuid \<Rightarrow> nat list"
  sm_control_keys :: "thread_ref \<times> uuid \<Rightarrow> message option"
  sm_stores :: "thread_ref \<times> uuid \<Rightarrow> message list"
  sm_seen :: seen_ids
  sm_clock :: id_clock
  sm_box :: "nat \<Rightarrow> message list"
  sm_next :: nat
  rd_streams :: "string \<Rightarrow> (string \<times> message) list"
  rd_control :: "string \<Rightarrow> string option"
  rd_published :: "(string \<times> string) list"

definition new_stream :: "id_clock \<Rightarrow> stream" where
  "new_stream c = \<lparr>sm_queues = (\<lambda>_. []), sm_control_queues = (\<lambda>_. []),
     sm_thread_streams = (\<lambda>_. []), sm_control_keys = (\<lambda>_. None), sm_stores = (\<lambda>_. []),
     sm_seen = new_seen 10000, sm_clock = c, sm_box = (\<lambda>_. []), sm_next = 0,
     rd_streams = (\<lambda>_. []), rd_control = (\<lambda>_. None), rd_published = []\<rparr>"

definition fanout_put :: "nat list \<Rightarrow> message \<Rightarrow> stream \<Rightarrow> stream" where
  "fanout_put qs m s =
     s\<lparr>sm_box := fold (\<lambda>q box. box(q := box q @ [m])) qs (sm_box s)\<rparr>"

definition mark_seen :: "string \<Rightarrow> message \<Rightarrow> stream \<Rightarrow> bool \<times> stream" where
  "mark_seen scope m s =
     (case ms_id m of
        None \<Rightarrow> (True, s)
      | Some mid \<Rightarrow>
          if mid = [] then (True, s)
          else (case seen_add (scope @ '':'' @ mid) (sm_seen s) of
                  (fresh, seen) \<Rightarrow> (fresh, s\<lparr>sm_seen := seen\<rparr>)))"

definition run_scope :: "thread_ref \<Rightarrow> uuid \<Rightarrow> string" where
  "run_scope t r = ''run:'' @ ref_str t @ '':'' @ uuid_str r"

definition thread_scope :: "uuid \<Rightarrow> string" where
  "thread_scope t = ''thread:'' @ uuid_str t"

definition deliver_local :: "thread_ref \<Rightarrow> uuid \<Rightarrow> message \<Rightarrow> bool \<Rightarrow> stream \<Rightarrow> stream" where
  "deliver_local t r m control s =
     (case mark_seen (run_scope t r) m s of
        (False, s1) \<Rightarrow> s1
      | (True, s1) \<Rightarrow>
          if control then
            fanout_put (sm_control_queues s1 (t, r)) m
              (s1\<lparr>sm_control_keys := (sm_control_keys s1)((t, r) \<mapsto> m)\<rparr>)
          else fanout_put (sm_queues s1 (t, r)) m s1)"

definition deliver_thread_local :: "uuid \<Rightarrow> message \<Rightarrow> stream \<Rightarrow> stream" where
  "deliver_thread_local t m s =
     (case mark_seen (thread_scope t) m s of
        (False, s1) \<Rightarrow> s1
      | (True, s1) \<Rightarrow> fanout_put (sm_thread_streams s1 t) m s1)"

text \<open>\<open>"control" in topic\<close>.\<close>

fun contains_sub :: "string \<Rightarrow> string \<Rightarrow> bool" where
  "contains_sub p [] = (p = [])"
| "contains_sub p (c # cs) = (starts_with p (c # cs) \<or> contains_sub p cs)"

definition is_control :: "string \<Rightarrow> bool" where
  "is_control topic = contains_sub ''control'' topic"

definition handle_run_fanout_message :: "string \<Rightarrow> wire \<Rightarrow> string \<times> string \<Rightarrow> stream \<Rightarrow> stream" where
  "handle_run_fanout_message ns w msg s =
     (case parse_run_fanout_channel ns (fst msg) of
        None \<Rightarrow> s
      | Some (t, r) \<Rightarrow>
          (case decode_envelope w (snd msg) of
             None \<Rightarrow> s
           | Some m \<Rightarrow> deliver_local t r m (is_control (ms_topic m)) s))"

definition handle_thread_fanout_message ::
  "string \<Rightarrow> wire \<Rightarrow> string \<times> string \<Rightarrow> stream \<Rightarrow> stream" where
  "handle_thread_fanout_message ns w msg s =
     (case parse_thread_fanout_channel ns (fst msg) of
        None \<Rightarrow> s
      | Some t \<Rightarrow>
          (case decode_envelope w (snd msg) of
             None \<Rightarrow> s
           | Some m \<Rightarrow> deliver_thread_local t m s))"

definition buffer_append :: "thread_ref \<times> uuid \<Rightarrow> message \<Rightarrow> stream \<Rightarrow> stream" where
  "buffer_append k m s =
     (let buf = sm_stores s k @ [m];
          buf' = (if length buf > 2000 then drop (length buf - 2000) buf else buf)
      in s\<lparr>sm_stores := (sm_stores s)(k := buf')\<rparr>)"

text \<open>\<open>XADD ... MAXLEN ~\<close>: \<open>dropped\<close> oldest entries are trimmed by Redis.\<close>

definition xadd :: "string \<Rightarrow> string \<Rightarrow> nat \<Rightarrow> message \<Rightarrow> stream \<Rightarrow> stream" where
  "xadd key entry_id dropped m s =
     s\<lparr>rd_streams := (rd_streams s)(key := drop dropped (rd_streams s key @ [(entry_id, m)]))\<rparr>"

definition publish :: "string \<Rightarrow> string \<Rightarrow> stream \<Rightarrow> stream" where
  "publish channel payload s = s\<lparr>rd_published := rd_published s @ [(channel, payload)]\<rparr>"

definition assign_id :: "nat \<Rightarrow> message \<Rightarrow> stream \<Rightarrow> message \<times> stream" where
  "assign_id ms m s =
     (case generate_ms_seq_id ms (sm_clock s) of
        (i, c) \<Rightarrow> (m\<lparr>ms_id := Some i\<rparr>, s\<lparr>sm_clock := c\<rparr>))"

definition put_message ::
  "string \<Rightarrow> wire \<Rightarrow> nat \<Rightarrow> string \<Rightarrow> nat \<Rightarrow> uuid option \<Rightarrow> uuid option \<Rightarrow> message \<Rightarrow> bool \<Rightarrow> stream
    \<Rightarrow> stream res" where
  "put_message ns w ms entry_id dropped rid tid m resumable s =
     (case rid of
        None \<Rightarrow> Inl (ValueError ''run_id is required'')
      | Some r \<Rightarrow>
          let t = thread_ref_of tid;
              control = is_control (ms_topic m);
              (m1, s1) = (if resumable
                then (m\<lparr>ms_id := Some entry_id\<rparr>, xadd (stream_key ns t r) entry_id dropped m s)
                else assign_id ms m s);
              s2 = (if control
                then s1\<lparr>sm_control_keys := (sm_control_keys s1)((t, r) \<mapsto> m1)\<rparr>
                else buffer_append (t, r) m1 s1);
              s3 = deliver_local t r m1 control s2;
              s4 = (if control
                then s3\<lparr>rd_control := (rd_control s3)(control_key ns t r \<mapsto> ms_data m1)\<rparr>
                else s3)
          in Inr (publish (fanout_channel ns t r) (encode_envelope w m1 control) s4))"

definition put_thread :: "string \<Rightarrow> wire \<Rightarrow> nat \<Rightarrow> uuid \<Rightarrow> message \<Rightarrow> stream \<Rightarrow> stream" where
  "put_thread ns w ms t m s =
     (let (m1, s1) = assign_id ms m s
      in publish (thread_fanout_channel ns t) (encode_envelope w m1 False)
           (deliver_thread_local t m1 s1))"

text \<open>
  A batch: the stream entries first (with the identifiers Redis returned), then buffers and
  queues message by message, then the publications.
\<close>

fun add_entries ::
  "string \<Rightarrow> (string \<times> nat) list \<Rightarrow> (message \<times> message option) list \<Rightarrow> stream \<Rightarrow> stream" where
  "add_entries key ((entry_id, dropped) # ids) ((m, _) # ms) s =
     add_entries key ids ms (xadd key entry_id dropped m s)"
| "add_entries key _ _ s = s"

definition deliver_pair ::
  "nat \<Rightarrow> thread_ref \<Rightarrow> uuid \<Rightarrow> string \<Rightarrow> message \<times> message option \<Rightarrow> stream
    \<Rightarrow> (message \<times> message option) \<times> stream" where
  "deliver_pair now t r entry_id p s =
     (let m1 = (fst p)\<lparr>ms_id := Some entry_id\<rparr>;
          s1 = deliver_local t r m1 False (buffer_append (t, r) m1 s)
      in (case (snd p, t) of
            (Some tm, Thread u) \<Rightarrow>
              (case assign_id now tm s1 of
                 (tm1, s2) \<Rightarrow> ((m1, Some tm1), deliver_thread_local u tm1 s2))
          | (tm, _) \<Rightarrow> ((m1, tm), s1)))"

fun deliver_pairs ::
  "nat \<Rightarrow> thread_ref \<Rightarrow> uuid \<Rightarrow> (string \<times> nat) list \<Rightarrow> (message \<times> message option) list \<Rightarrow> stream
    \<Rightarrow> (message \<times> message option) list \<times> stream" where
  "deliver_pairs now t r ((entry_id, _) # ids) (p # ps) s =
     (case deliver_pair now t r entry_id p s of
        (p1, s1) \<Rightarrow> (case deliver_pairs now t r ids ps s1 of (ps1, s2) \<Rightarrow> (p1 # ps1, s2)))"
| "deliver_pairs now t r _ _ s = ([], s)"

definition publish_pair ::
  "string \<Rightarrow> wire \<Rightarrow> thread_ref \<Rightarrow> uuid \<Rightarrow> message \<times> message option \<Rightarrow> stream \<Rightarrow> stream" where
  "publish_pair ns w t r p s =
     (let s1 = publish (fanout_channel ns t r) (encode_envelope w (fst p) False) s
      in (case (snd p, t) of
            (Some tm, Thread u) \<Rightarrow> publish (thread_fanout_channel ns u) (encode_envelope w tm False) s1
          | _ \<Rightarrow> s1))"

definition put_batch ::
  "string \<Rightarrow> wire \<Rightarrow> nat \<Rightarrow> uuid \<Rightarrow> uuid option \<Rightarrow> (string \<times> nat) list
    \<Rightarrow> (message \<times> message option) list \<Rightarrow> stream \<Rightarrow> stream" where
  "put_batch ns w now r tid ids messages s =
     (if messages = [] then s
      else
        let t = thread_ref_of tid;
            s1 = add_entries (stream_key ns t r) ids messages s;
            (ps, s2) = deliver_pairs now t r ids messages s1
        in fold (publish_pair ns w t r) ps s2)"

section \<open>Subscribers\<close>

text \<open>\<open>_replay_into_queue\<close>: an unbounded queue is never full.\<close>

definition after_cursor :: "string option \<Rightarrow> message \<Rightarrow> bool" where
  "after_cursor after_id m =
     (case (after_id, ms_id m) of
        (Some a, Some i) \<Rightarrow> ms_seq_id_gt i a
      | _ \<Rightarrow> True)"

definition replay_into_queue :: "nat \<Rightarrow> message list \<Rightarrow> string option \<Rightarrow> stream \<Rightarrow> stream" where
  "replay_into_queue q ms after_id s =
     s\<lparr>sm_box := (sm_box s)(q := sm_box s q @ filter (after_cursor after_id) ms)\<rparr>"

definition new_queue :: "stream \<Rightarrow> nat \<times> stream" where
  "new_queue s = (sm_next s, s\<lparr>sm_next := sm_next s + 1, sm_box := (sm_box s)(sm_next s := [])\<rparr>)"

definition add_queue ::
  "uuid \<Rightarrow> uuid option \<Rightarrow> string option \<Rightarrow> bool \<Rightarrow> stream \<Rightarrow> nat \<times> stream" where
  "add_queue r tid after_id replay s =
     (let (q, s1) = new_queue s; k = (thread_ref_of tid, r);
          s2 = (if replay then replay_into_queue q (sm_stores s1 k) after_id s1 else s1)
      in (q, s2\<lparr>sm_queues := (sm_queues s2)(k := sm_queues s2 k @ [q])\<rparr>))"

definition add_control_queue :: "uuid \<Rightarrow> uuid option \<Rightarrow> stream \<Rightarrow> nat \<times> stream" where
  "add_control_queue r tid s =
     (let (q, s1) = new_queue s; k = (thread_ref_of tid, r)
      in (q, s1\<lparr>sm_control_queues := (sm_control_queues s1)(k := sm_control_queues s1 k @ [q])\<rparr>))"

definition add_thread_stream :: "uuid \<Rightarrow> stream \<Rightarrow> nat \<times> stream" where
  "add_thread_stream t s =
     (let (q, s1) = new_queue s
      in (q, s1\<lparr>sm_thread_streams := (sm_thread_streams s1)(t := sm_thread_streams s1 t @ [q])\<rparr>))"

definition remove_thread_stream :: "uuid \<Rightarrow> nat \<Rightarrow> stream \<Rightarrow> stream" where
  "remove_thread_stream t q s =
     s\<lparr>sm_thread_streams := (sm_thread_streams s)(t := remove1 q (sm_thread_streams s t))\<rparr>"

definition remove_queue :: "uuid \<Rightarrow> uuid option \<Rightarrow> nat \<Rightarrow> stream \<Rightarrow> stream" where
  "remove_queue r tid q s =
     (let k = (thread_ref_of tid, r)
      in s\<lparr>sm_queues := (sm_queues s)(k := remove1 q (sm_queues s k))\<rparr>)"

definition remove_control_queue :: "uuid \<Rightarrow> uuid option \<Rightarrow> nat \<Rightarrow> stream \<Rightarrow> stream" where
  "remove_control_queue r tid q s =
     (let k = (thread_ref_of tid, r)
      in s\<lparr>sm_control_queues := (sm_control_queues s)(k := remove1 q (sm_control_queues s k))\<rparr>)"

definition get_control_key :: "uuid \<Rightarrow> uuid option \<Rightarrow> stream \<Rightarrow> message option" where
  "get_control_key r tid s = sm_control_keys s (thread_ref_of tid, r)"

text \<open>The local control key, else the one another replica left in Redis.\<close>

definition aget_control_key :: "string \<Rightarrow> uuid \<Rightarrow> uuid option \<Rightarrow> stream \<Rightarrow> message option \<times> stream"
where
  "aget_control_key ns r tid s =
     (let t = thread_ref_of tid in
      case sm_control_keys s (t, r) of
        Some m \<Rightarrow> (Some m, s)
      | None \<Rightarrow>
          (case rd_control s (control_key ns t r) of
             None \<Rightarrow> (None, s)
           | Some data \<Rightarrow>
               let m = \<lparr>ms_topic = ''run:'' @ uuid_str r @ '':control'', ms_data = data, ms_id = None\<rparr>
               in (Some m, s\<lparr>sm_control_keys := (sm_control_keys s)((t, r) \<mapsto> m)\<rparr>)))"

section \<open>Resumption\<close>

definition id_after :: "string \<Rightarrow> message \<Rightarrow> bool" where
  "id_after cursor m =
     (case ms_id m of None \<Rightarrow> False | Some i \<Rightarrow> i \<noteq> [] \<and> ms_seq_id_gt i cursor)"

definition restore_messages :: "uuid \<Rightarrow> uuid option \<Rightarrow> string option \<Rightarrow> stream \<Rightarrow> message list" where
  "restore_messages r tid message_id s =
     (case message_id of
        None \<Rightarrow> []
      | Some cursor \<Rightarrow> filter (id_after cursor) (sm_stores s (thread_ref_of tid, r)))"

text \<open>\<open>XRANGE\<close> from the cursor on, without the entry of the cursor itself.\<close>

definition arestore_messages :: "string \<Rightarrow> uuid \<Rightarrow> uuid option \<Rightarrow> string option \<Rightarrow> stream \<Rightarrow> message list"
where
  "arestore_messages ns r tid message_id s =
     (case message_id of
        None \<Rightarrow> []
      | Some cursor \<Rightarrow>
          map (\<lambda>(i, m). m\<lparr>ms_id := Some i\<rparr>)
            (filter (\<lambda>(i, _). ms_seq_id_gt i cursor)
              (rd_streams s (stream_key ns (thread_ref_of tid) r))))"

text \<open>\<open>up\<close>: Redis answers; when it does not, or has nothing, the local buffer is used.\<close>

definition restore_messages_async ::
  "string \<Rightarrow> bool \<Rightarrow> uuid \<Rightarrow> uuid option \<Rightarrow> string option \<Rightarrow> stream \<Rightarrow> message list" where
  "restore_messages_async ns up r tid message_id s =
     (let from_redis = (if up then arestore_messages ns r tid message_id s else [])
      in if from_redis \<noteq> [] then from_redis else restore_messages r tid message_id s)"

section \<open>Cleanup\<close>

definition drop_local_store :: "thread_ref \<Rightarrow> uuid \<Rightarrow> stream \<Rightarrow> stream" where
  "drop_local_store t r s = s\<lparr>sm_stores := (sm_stores s)((t, r) := [])\<rparr>"

text \<open>The state before the grace period ends; \<open>drop_local_store\<close> follows after it.\<close>

definition clear_run_buffers :: "string \<Rightarrow> uuid \<Rightarrow> uuid option \<Rightarrow> stream \<Rightarrow> stream" where
  "clear_run_buffers ns r tid s =
     (let t = thread_ref_of tid
      in s\<lparr>sm_control_keys := (sm_control_keys s)((t, r) := None),
           rd_control := (rd_control s)(control_key ns t r := None)\<rparr>)"

section \<open>Job hints and wake-ups\<close>

record wake_state =
  wk_jobs :: "string list"
  wk_gen :: nat
  wk_event :: "bool option" \<comment> \<open>the asyncio event, absent before \<open>start_stream\<close>\<close>
  wk_published :: nat

definition signal_local_wake :: "wake_state \<Rightarrow> wake_state" where
  "signal_local_wake s =
     s\<lparr>wk_gen := wk_gen s + 1, wk_event := map_option (\<lambda>_. True) (wk_event s)\<rparr>"

definition enqueue_run :: "uuid \<Rightarrow> wake_state \<Rightarrow> wake_state" where
  "enqueue_run r s = s\<lparr>wk_jobs := wk_jobs s @ [uuid_str r], wk_published := wk_published s + 1\<rparr>"

definition dequeue_run_hint :: "wake_state \<Rightarrow> string option \<times> wake_state" where
  "dequeue_run_hint s =
     (case wk_jobs s of [] \<Rightarrow> (None, s) | j # js \<Rightarrow> (Some j, s\<lparr>wk_jobs := js\<rparr>))"

definition wake_run_queue :: "wake_state \<Rightarrow> wake_state" where
  "wake_run_queue s = (let s1 = signal_local_wake s in s1\<lparr>wk_published := wk_published s1 + 1\<rparr>)"

text \<open>
  \<open>wait_for_queue_wake\<close>: \<open>during\<close> counts the wake-ups that arrive while the call waits; it times
  out when there is none.
\<close>

definition wait_for_queue_wake :: "nat \<Rightarrow> wake_state \<Rightarrow> bool \<times> wake_state" where
  "wait_for_queue_wake during s =
     (case wk_event s of
        None \<Rightarrow> (False, s)
      | Some True \<Rightarrow> (True, s\<lparr>wk_event := Some False\<rparr>)
      | Some False \<Rightarrow>
          if during = 0 then (False, s)
          else (True, s\<lparr>wk_gen := wk_gen s + during, wk_event := Some False\<rparr>))"

section \<open>Identifiers increase\<close>

lemma parse_ms_seq_text: "parse_ms_seq_id (ms_seq_text a b) = Some (int a, int b)"
proof -
  have "CHR ''-'' \<notin> set (nat_str a)" using nat_str_digits digit_facts(2) by blast
  then have "split_once CHR ''-'' (nat_str a @ CHR ''-'' # nat_str b) = Some (nat_str a, nat_str b)"
    by (rule split_once_app)
  then show ?thesis
    by (simp add: parse_ms_seq_id_def ms_seq_text_def parse_int_nat_str)
qed

lemma ms_seq_id_gt_text:
  "ms_seq_id_gt (ms_seq_text a b) (ms_seq_text c d) \<longleftrightarrow> c < a \<or> c = a \<and> d < b"
  by (auto simp: ms_seq_id_gt_def parse_ms_seq_text less_prod_def)

text \<open>The identifiers a clock has issued, one per call, whatever the wall clock shows.\<close>

fun issue_ids :: "nat list \<Rightarrow> id_clock \<Rightarrow> string list" where
  "issue_ids [] c = []"
| "issue_ids (ms # rest) c =
     (case generate_ms_seq_id ms c of (i, c') \<Rightarrow> i # issue_ids rest c')"

definition clock_after :: "id_clock \<Rightarrow> string \<Rightarrow> bool" where
  "clock_after c i \<longleftrightarrow> (\<exists>a b. i = ms_seq_text a b \<and> (ic_last_ms c < a \<or> ic_last_ms c = a \<and> ic_seq c < b))"

lemma issue_ids_after: "i \<in> set (issue_ids ms c) \<Longrightarrow> clock_after c i"
proof (induction ms arbitrary: c)
  case (Cons m ms)
  obtain i0 c' where g: "generate_ms_seq_id m c = (i0, c')" by fastforce
  then have c': "i0 = ms_seq_text (ic_last_ms c') (ic_seq c')"
    "ic_last_ms c < ic_last_ms c' \<or> ic_last_ms c = ic_last_ms c' \<and> ic_seq c < ic_seq c'"
    by (auto simp: generate_ms_seq_id_def Let_def split: if_splits)
  have "clock_after c' x \<Longrightarrow> clock_after c x" for x
    using c'(2) unfolding clock_after_def by (metis order.strict_trans)
  with Cons g c' show ?case by (auto simp: clock_after_def)
qed simp

lemma issue_ids_sorted: "sorted_wrt (\<lambda>x y. ms_seq_id_gt y x) (issue_ids ms c)"
proof (induction ms arbitrary: c)
  case (Cons m ms)
  obtain i0 c' where g: "generate_ms_seq_id m c = (i0, c')" by fastforce
  then have "i0 = ms_seq_text (ic_last_ms c') (ic_seq c')"
    by (auto simp: generate_ms_seq_id_def Let_def)
  with Cons g issue_ids_after [of _ ms c'] show ?case
    by (fastforce simp: clock_after_def ms_seq_id_gt_text)
qed simp

section \<open>The window of delivered identifiers\<close>

definition seen_ok :: "seen_ids \<Rightarrow> bool" where
  "seen_ok s \<longleftrightarrow> si_ids s = set (si_order s) \<and> distinct (si_order s) \<and>
     length (si_order s) \<le> si_maxlen s \<and> 0 < si_maxlen s"

lemma seen_ok_new: "0 < n \<Longrightarrow> seen_ok (new_seen n)"
  by (simp add: seen_ok_def new_seen_def)

lemma distinct_take_drop: "distinct xs \<Longrightarrow> set xs - set (take n xs) = set (drop n xs)"
  by (metis Diff_cancel Diff_triv Un_Diff Un_empty_left append_take_drop_id distinct_append inf_commute set_append)

lemma seen_add_known: "mid \<in> si_ids s \<Longrightarrow> seen_add mid s = (False, s)"
  by (simp add: seen_add_def)

lemma seen_add_room:
  "mid \<notin> si_ids s \<Longrightarrow> length (si_order s) < si_maxlen s \<Longrightarrow>
   seen_add mid s = (True, s\<lparr>si_order := si_order s @ [mid], si_ids := insert mid (si_ids s)\<rparr>)"
  by (simp add: seen_add_def)

lemma seen_add_full:
  assumes "mid \<notin> si_ids s" "\<not> length (si_order s) < si_maxlen s" "seen_ok s"
    "order = si_order s @ [mid]" "n = length order div 2"
  shows "seen_add mid s = (True, s\<lparr>si_order := drop n order, si_ids := set (drop n order)\<rparr>)"
proof -
  have o: "distinct order" "set order = insert mid (si_ids s)"
    using assms(1,3,4) by (auto simp: seen_ok_def)
  then have "insert mid (si_ids s) - set (take n order) = set (drop n order)"
    using distinct_take_drop [OF o(1), of n] by simp
  with assms(1,2) show ?thesis
    by (simp add: seen_add_def Let_def flip: assms(4)) (simp add: assms(4,5))
qed

lemma seen_add_ok:
  assumes "seen_ok s"
  shows "seen_ok (snd (seen_add mid s))" "fst (seen_add mid s) \<longleftrightarrow> mid \<notin> si_ids s"
    "mid \<in> si_ids (snd (seen_add mid s))" "si_maxlen (snd (seen_add mid s)) = si_maxlen s"
proof -
  show "fst (seen_add mid s) \<longleftrightarrow> mid \<notin> si_ids s" "si_maxlen (snd (seen_add mid s)) = si_maxlen s"
    by (simp_all add: seen_add_def Let_def)
  consider (known) "mid \<in> si_ids s" | (room) "mid \<notin> si_ids s" "length (si_order s) < si_maxlen s"
    | (full) "mid \<notin> si_ids s" "\<not> length (si_order s) < si_maxlen s" by blast
  then have "seen_ok (snd (seen_add mid s)) \<and> mid \<in> si_ids (snd (seen_add mid s))"
  proof cases
    case known
    with assms show ?thesis by (simp add: seen_add_known)
  next
    case room
    with assms show ?thesis by (auto simp: seen_add_room seen_ok_def)
  next
    case full
    define order where "order = si_order s @ [mid]"
    define n where "n = length order div 2"
    have o: "distinct order" "length order = Suc (length (si_order s))" "si_maxlen s = length (si_order s)"
      using assms full by (auto simp: seen_ok_def order_def)
    have n: "n \<le> length (si_order s)" "0 < si_maxlen s"
      using assms by (auto simp: n_def o(2) seen_ok_def)
    have "1 \<le> n" using n(2) o(2,3) by (cases "si_order s") (simp_all add: n_def)
    then have "length (drop n order) \<le> si_maxlen s"
      using o(2,3) by simp
    moreover have "mid \<in> set (drop n order)"
      using n(1) by (simp add: order_def)
    ultimately show ?thesis
      using seen_add_full [OF full assms order_def n_def] o(1) n(2) by (simp add: seen_ok_def)
  qed
  then show "seen_ok (snd (seen_add mid s))" "mid \<in> si_ids (snd (seen_add mid s))" by blast+
qed

section \<open>Channels and envelopes\<close>

lemma starts_with_append [simp]: "starts_with p (p @ s)"
  by (simp add: starts_with_def)

lemma split_rev:
  assumes "sep \<notin> set b"
  shows "rsplit_once sep (a @ sep # b) = Some (a, b)"
  using split_once_app [of sep "rev b" "rev a"] assms by (simp add: rsplit_once_def)

lemma no_colon_uuid: "CHR '':'' \<notin> set (uuid_str u)"
  using set_uuid_str [of u] by auto

lemma uuid_not_threadless: "uuid_str u \<noteq> ''no-thread''"
proof
  assume "uuid_str u = ''no-thread''"
  then have "CHR ''n'' \<in> set (uuid_str u)" by simp
  with set_uuid_str [of u] have "CHR ''n'' \<in> set ''0123456789abcdef-''" by blast
  then show False by simp
qed

fun ref_ok :: "thread_ref \<Rightarrow> bool" where
  "ref_ok Threadless = True"
| "ref_ok (Thread t) = (t < 2 ^ 128)"

lemma parse_run_fanout_alt:
  assumes "prefix = ns @ '':run-fanout:''" "channel = prefix @ rest"
    "rsplit_once CHR '':'' rest = Some (thread_part, run_part)"
  shows "parse_run_fanout_channel ns channel =
    (case parse_uuid run_part of
       None \<Rightarrow> None
     | Some r \<Rightarrow>
         if thread_part = ''no-thread'' then Some (Threadless, r)
         else (case parse_uuid thread_part of None \<Rightarrow> None | Some t \<Rightarrow> Some (Thread t, r)))"
  unfolding parse_run_fanout_channel_def Let_def assms(1) [symmetric] assms(2)
  by (simp add: assms(3))

lemma run_channel_roundtrip:
  assumes "ref_ok t" "r < 2 ^ 128"
  shows "parse_run_fanout_channel ns (fanout_channel ns t r) = Some (t, r)"
proof -
  have f: "fanout_channel ns t r = (ns @ '':run-fanout:'') @ (ref_str t @ CHR '':'' # uuid_str r)"
    by (simp add: fanout_channel_def)
  have s: "rsplit_once CHR '':'' (ref_str t @ CHR '':'' # uuid_str r) = Some (ref_str t, uuid_str r)"
    by (rule split_rev [OF no_colon_uuid])
  show ?thesis
    using assms uuid_not_threadless parse_run_fanout_alt [OF refl f s]
    by (cases t) (simp_all add: parse_uuid_str)
qed

lemma parse_thread_fanout_alt:
  assumes "prefix = ns @ '':thread-fanout:''" "channel = prefix @ rest"
  shows "parse_thread_fanout_channel ns channel = parse_uuid rest"
  unfolding parse_thread_fanout_channel_def Let_def assms(1) [symmetric] assms(2) by simp

lemma thread_channel_roundtrip:
  assumes "t < 2 ^ 128"
  shows "parse_thread_fanout_channel ns (thread_fanout_channel ns t) = Some t"
proof -
  have "thread_fanout_channel ns t = (ns @ '':thread-fanout:'') @ uuid_str t"
    by (simp add: thread_fanout_channel_def)
  from parse_thread_fanout_alt [OF refl this] show ?thesis
    by (simp only: parse_uuid_str [OF assms])
qed

definition wire_ok :: "wire \<Rightarrow> message \<Rightarrow> bool \<Rightarrow> bool" where
  "wire_ok w m control \<longleftrightarrow> wi_unb64 w (wi_b64 w (ms_data m)) = Some (ms_data m) \<and>
     (\<forall>j. j = JObj [(''topic'', JStr (ms_topic m)), (''data'', JStr (wi_b64 w (ms_data m))),
       (''id'', JStr (opt_or (ms_id m) [])), (''control'', JBool control)] \<longrightarrow>
       wi_loads w (wi_dumps w j) = Some j)"

lemma envelope_roundtrip:
  assumes "wire_ok w m control" "ms_id m \<noteq> Some []"
  shows "decode_envelope w (encode_envelope w m control) = Some m"
  using assms
  by (cases "ms_id m") (auto simp: decode_envelope_def encode_envelope_def wire_ok_def opt_or_def dget_def)

section \<open>Delivery\<close>

lemma fanout_fold:
  "distinct qs \<Longrightarrow> fold (\<lambda>q box. box(q := box q @ [m])) qs box q =
     (if q \<in> set qs then box q @ [m] else box q)"
  by (induction qs arbitrary: box) auto

lemma fanout_put_box:
  "distinct qs \<Longrightarrow> sm_box (fanout_put qs m s) q =
     (if q \<in> set qs then sm_box s q @ [m] else sm_box s q)"
  by (simp add: fanout_put_def fanout_fold)

lemma fanout_put_sel [simp]:
  "sm_queues (fanout_put qs m s) = sm_queues s" "sm_stores (fanout_put qs m s) = sm_stores s"
  "sm_seen (fanout_put qs m s) = sm_seen s" "sm_clock (fanout_put qs m s) = sm_clock s"
  "sm_control_keys (fanout_put qs m s) = sm_control_keys s"
  "sm_control_queues (fanout_put qs m s) = sm_control_queues s"
  "sm_thread_streams (fanout_put qs m s) = sm_thread_streams s"
  "rd_published (fanout_put qs m s) = rd_published s" "rd_control (fanout_put qs m s) = rd_control s"
  "rd_streams (fanout_put qs m s) = rd_streams s" "sm_next (fanout_put qs m s) = sm_next s"
  by (simp_all add: fanout_put_def)

definition seen_key :: "string \<Rightarrow> string \<Rightarrow> string" where
  "seen_key scope mid = scope @ '':'' @ mid"

lemma mark_seen_id:
  "ms_id m = Some mid \<Longrightarrow> mid \<noteq> [] \<Longrightarrow> mark_seen scope m s =
     (fst (seen_add (seen_key scope mid) (sm_seen s)),
      s\<lparr>sm_seen := snd (seen_add (seen_key scope mid) (sm_seen s))\<rparr>)"
  by (simp add: mark_seen_def seen_key_def split: prod.split)

text \<open>A message that was delivered in its scope is not delivered again.\<close>

lemma deliver_local_again:
  assumes "ms_id m = Some mid" "mid \<noteq> []" "seen_key (run_scope t r) mid \<in> si_ids (sm_seen s)"
  shows "deliver_local t r m c s = s"
proof -
  have "mark_seen (run_scope t r) m s = (False, s)"
    using assms by (simp add: mark_seen_id seen_add_known)
  then show ?thesis by (simp add: deliver_local_def)
qed

lemma deliver_local_marks:
  assumes "ms_id m = Some mid" "mid \<noteq> []" "seen_ok (sm_seen s)"
  shows "seen_key (run_scope t r) mid \<in> si_ids (sm_seen (deliver_local t r m c s))"
    "seen_ok (sm_seen (deliver_local t r m c s))"
proof -
  note k = seen_add_ok [OF assms(3), of "seen_key (run_scope t r) mid"]
  have "sm_seen (deliver_local t r m c s) = snd (seen_add (seen_key (run_scope t r) mid) (sm_seen s))"
    using assms by (simp add: deliver_local_def mark_seen_id split: bool.split)
  with k show "seen_key (run_scope t r) mid \<in> si_ids (sm_seen (deliver_local t r m c s))"
    "seen_ok (sm_seen (deliver_local t r m c s))" by simp_all
qed

lemma deliver_local_fresh:
  assumes "ms_id m = Some mid" "mid \<noteq> []" "seen_key (run_scope t r) mid \<notin> si_ids (sm_seen s)"
  shows "deliver_local t r m False s =
    fanout_put (sm_queues s (t, r)) m
      (s\<lparr>sm_seen := snd (seen_add (seen_key (run_scope t r) mid) (sm_seen s))\<rparr>)"
proof -
  have "fst (seen_add (seen_key (run_scope t r) mid) (sm_seen s))"
    using assms(3) by (simp add: seen_add_def Let_def)
  with assms(1,2) show ?thesis by (simp add: deliver_local_def mark_seen_id)
qed

text \<open>The identifier \<open>put\<close> gives a message.\<close>

definition put_id :: "nat \<Rightarrow> string \<Rightarrow> bool \<Rightarrow> stream \<Rightarrow> string" where
  "put_id ms entry_id resumable s =
     (if resumable then entry_id else fst (generate_ms_seq_id ms (sm_clock s)))"

lemma put_id_ne: "entry_id \<noteq> [] \<Longrightarrow> put_id ms entry_id resumable s \<noteq> []"
  by (auto simp: put_id_def generate_ms_seq_id_def Let_def ms_seq_text_def)

lemma buffer_append_sel [simp]:
  "sm_queues (buffer_append k m s) = sm_queues s" "sm_seen (buffer_append k m s) = sm_seen s"
  "sm_box (buffer_append k m s) = sm_box s" "rd_published (buffer_append k m s) = rd_published s"
  "sm_control_queues (buffer_append k m s) = sm_control_queues s"
  "sm_clock (buffer_append k m s) = sm_clock s"
  by (simp_all add: buffer_append_def Let_def)

lemma buffer_append_store:
  "sm_stores (buffer_append k m s) k' =
     (if k' = k then drop (length (sm_stores s k) + 1 - 2000) (sm_stores s k @ [m]) else sm_stores s k')"
  by (simp add: buffer_append_def Let_def)

text \<open>What \<open>put\<close> does before it publishes.\<close>

lemma put_message_shape:
  assumes "put_message ns w ms entry_id dropped (Some r) tid m resumable s = Inr s'"
    "t = thread_ref_of tid" "m1 = m\<lparr>ms_id := Some (put_id ms entry_id resumable s)\<rparr>"
    "control = is_control (ms_topic m)"
  obtains s1 s3 where
    "sm_queues s1 = sm_queues s" "sm_seen s1 = sm_seen s" "sm_box s1 = sm_box s"
    "control \<Longrightarrow> sm_stores s1 = sm_stores s"
    "\<not> control \<Longrightarrow> sm_stores s1 = sm_stores (buffer_append (t, r) m1 s)"
    "s3 = deliver_local t r m1 control s1" "sm_queues s' = sm_queues s3" "sm_seen s' = sm_seen s3"
    "sm_box s' = sm_box s3" "sm_stores s' = sm_stores s3"
    "rd_published s' = rd_published s3 @ [(fanout_channel ns t r, encode_envelope w m1 control)]"
proof -
  define s0 where "s0 = (if resumable then xadd (stream_key ns t r) entry_id dropped m s
    else snd (assign_id ms m s))"
  define s1 where "s1 = (if control then s0\<lparr>sm_control_keys := (sm_control_keys s0)((t, r) \<mapsto> m1)\<rparr>
    else buffer_append (t, r) m1 s0)"
  define s3 where "s3 = deliver_local t r m1 control s1"
  have s0: "sm_queues s0 = sm_queues s" "sm_seen s0 = sm_seen s" "sm_box s0 = sm_box s"
    "sm_stores s0 = sm_stores s"
    by (auto simp: s0_def xadd_def assign_id_def split: prod.split)
  have p: "(if resumable then (m\<lparr>ms_id := Some entry_id\<rparr>, xadd (stream_key ns t r) entry_id dropped m s)
      else assign_id ms m s) = (m1, s0)"
    by (auto simp: assms(3) put_id_def s0_def assign_id_def split: prod.split)
  have e: "s' = publish (fanout_channel ns t r) (encode_envelope w m1 control)
      (if control then s3\<lparr>rd_control := (rd_control s3)(control_key ns t r \<mapsto> ms_data m1)\<rparr> else s3)"
    using assms(1) unfolding put_message_def option.case Let_def assms(2,4) [symmetric] p prod.case
      s3_def s1_def by (simp only: sum.inject)
  show thesis
    by (rule that [of s1 s3])
      (auto simp: e s1_def s3_def s0 publish_def buffer_append_def Let_def)
qed

text \<open>The copy of a published message that Redis sends back changes nothing.\<close>

lemma put_echo_ignored:
  assumes "put_message ns w ms entry_id dropped (Some r) tid m resumable s = Inr s'"
    "seen_ok (sm_seen s)" "entry_id \<noteq> []" "ref_ok (thread_ref_of tid)" "r < 2 ^ 128"
    "wire_ok w (m\<lparr>ms_id := Some (put_id ms entry_id resumable s)\<rparr>) (is_control (ms_topic m))"
  shows "handle_run_fanout_message ns w (last (rd_published s')) s' = s'"
proof -
  let ?t = "thread_ref_of tid"
  let ?i = "put_id ms entry_id resumable s"
  let ?m = "m\<lparr>ms_id := Some ?i\<rparr>"
  note ne = put_id_ne [OF assms(3), of ms resumable s]
  from put_message_shape [OF assms(1) refl refl refl] obtain s1 s3 where
    1: "sm_seen s1 = sm_seen s" "s3 = deliver_local ?t r ?m (is_control (ms_topic m)) s1"
      "sm_seen s' = sm_seen s3"
      "rd_published s' = rd_published s3 @
         [(fanout_channel ns ?t r, encode_envelope w ?m (is_control (ms_topic m)))]"
    by metis
  have "seen_key (run_scope ?t r) ?i \<in> si_ids (sm_seen s')"
    using deliver_local_marks(1) [of ?m ?i s1 ?t r "is_control (ms_topic m)"] 1(1-3) assms(2) ne by simp
  then have "deliver_local ?t r ?m c s' = s'" for c
    using ne by (intro deliver_local_again [of _ ?i]) simp_all
  moreover have "decode_envelope w (encode_envelope w ?m (is_control (ms_topic m))) = Some ?m"
    using assms(6) ne by (intro envelope_roundtrip) simp_all
  ultimately show ?thesis
    by (simp add: 1(4) handle_run_fanout_message_def run_channel_roundtrip [OF assms(4,5)])
qed

text \<open>A fresh message reaches every subscriber of its run once, at the end of its queue.\<close>

lemma put_delivers:
  assumes "put_message ns w ms entry_id dropped (Some r) tid m resumable s = Inr s'"
    "entry_id \<noteq> []" "\<not> is_control (ms_topic m)" "t = thread_ref_of tid"
    "m1 = m\<lparr>ms_id := Some (put_id ms entry_id resumable s)\<rparr>" "distinct (sm_queues s (t, r))"
    "seen_key (run_scope t r) (put_id ms entry_id resumable s) \<notin> si_ids (sm_seen s)"
  shows "sm_box s' q = (if q \<in> set (sm_queues s (t, r)) then sm_box s q @ [m1] else sm_box s q)"
    "sm_stores s' (t, r) = drop (length (sm_stores s (t, r)) + 1 - 2000) (sm_stores s (t, r) @ [m1])"
proof -
  note ne = put_id_ne [OF assms(2), of ms resumable s]
  from put_message_shape [OF assms(1) assms(4,5) refl] assms(3) obtain s1 s3 where
    1: "sm_queues s1 = sm_queues s" "sm_seen s1 = sm_seen s" "sm_box s1 = sm_box s"
      "sm_stores s1 = sm_stores (buffer_append (t, r) m1 s)"
      "s3 = deliver_local t r m1 False s1" "sm_box s' = sm_box s3" "sm_stores s' = sm_stores s3"
    by metis
  have d: "s3 = fanout_put (sm_queues s1 (t, r)) m1
      (s1\<lparr>sm_seen := snd (seen_add (seen_key (run_scope t r) (put_id ms entry_id resumable s)) (sm_seen s1))\<rparr>)"
    unfolding 1(5) by (rule deliver_local_fresh) (use ne assms(5,7) 1(2) in simp_all)
  show "sm_box s' q = (if q \<in> set (sm_queues s (t, r)) then sm_box s q @ [m1] else sm_box s q)"
    unfolding 1(6) d using assms(6) 1(1,3) by (simp add: fanout_put_box)
  show "sm_stores s' (t, r) = drop (length (sm_stores s (t, r)) + 1 - 2000) (sm_stores s (t, r) @ [m1])"
    unfolding 1(7) d by (simp add: 1(4) buffer_append_store)
qed

lemma add_queue_box:
  assumes "add_queue r tid after_id replay s = (q, s')" "t = thread_ref_of tid"
  shows "q = sm_next s" "sm_queues s' (t, r) = sm_queues s (t, r) @ [q]"
    "sm_box s' q = (if replay then filter (after_cursor after_id) (sm_stores s (t, r)) else [])"
    "sm_stores s' = sm_stores s" "sm_seen s' = sm_seen s" "sm_clock s' = sm_clock s"
    "\<And>x. x \<noteq> q \<Longrightarrow> sm_box s' x = sm_box s x"
  using assms
  by (auto simp: add_queue_def new_queue_def replay_into_queue_def Let_def split: if_splits)

end
