(* ===== verification/Transport.thy ===== *)
theory Transport
  imports RedisStream
begin

text \<open>
  What the Redis transport guarantees: identifiers that increase whatever the clock does, a
  bounded memory of delivered identifiers that forgets only the oldest half, and delivery of each
  published message once to every subscriber, early or late, in spite of its echo.
\<close>

section \<open>Identifiers\<close>

text \<open>
  The identifiers a process issues are strictly increasing in the order \<open>ms_seq_id_gt\<close> decides,
  whatever the wall clock shows: when it stands still or steps back, the sequence part grows.
\<close>

theorem issued_ids_increase: "sorted_wrt (\<lambda>x y. ms_seq_id_gt y x) (issue_ids clock c)"
  by (rule issue_ids_sorted)

section \<open>De-duplication\<close>

fun seen_adds :: "string list \<Rightarrow> seen_ids \<Rightarrow> seen_ids" where
  "seen_adds [] s = s"
| "seen_adds (m # ms) s = seen_adds ms (snd (seen_add m s))"

lemma seen_adds_ok:
  "seen_ok s \<Longrightarrow> seen_ok (seen_adds ms s) \<and> si_maxlen (seen_adds ms s) = si_maxlen s"
  by (induction ms arbitrary: s) (simp_all add: seen_add_ok)

text \<open>The last \<open>k\<close> entries of the order survive an addition while they are at most half the room.\<close>

lemma seen_add_order:
  assumes "seen_ok s" "mid \<notin> si_ids s"
  shows "\<exists>n. si_order (snd (seen_add mid s)) = drop n (si_order s @ [mid]) \<and>
    (n = 0 \<or> length (si_order s) = si_maxlen s \<and> n = Suc (si_maxlen s) div 2)"
proof (cases "length (si_order s) < si_maxlen s")
  case True
  then show ?thesis using seen_add_room [OF assms(2)] by (intro exI [of _ 0]) simp
next
  case False
  with assms(1) have "length (si_order s) = si_maxlen s" by (simp add: seen_ok_def)
  then show ?thesis
    using seen_add_full [OF assms(2) False assms(1) refl refl] by (intro exI [of _ "Suc (si_maxlen s) div 2"]) simp
qed

lemma seen_add_recent:
  assumes "seen_ok s" "si_order s = xs @ ys" "length ys \<le> si_maxlen s div 2"
  shows "\<exists>xs'. si_order (snd (seen_add mid s)) = xs' @ ys @ (if mid \<in> si_ids s then [] else [mid])"
proof (cases "mid \<in> si_ids s")
  case True
  then show ?thesis using assms(2) by (simp add: seen_add_known)
next
  case False
  from seen_add_order [OF assms(1) False] obtain n where n:
    "si_order (snd (seen_add mid s)) = drop n (si_order s @ [mid])"
    "n = 0 \<or> length (si_order s) = si_maxlen s \<and> n = Suc (si_maxlen s) div 2" by blast
  have "n \<le> length xs" using n(2) assms(2,3) by auto
  then have "drop n (si_order s @ [mid]) = drop n xs @ ys @ [mid]" using assms(2) by simp
  with n(1) False show ?thesis by auto
qed

lemma seen_adds_recent:
  assumes "seen_ok s" "si_order s = xs @ mid # ys" "length ys + length ms \<le> si_maxlen s div 2 - 1"
    "0 < si_maxlen s div 2"
  shows "mid \<in> si_ids (seen_adds ms s)"
  using assms
proof (induction ms arbitrary: s xs ys)
  case Nil
  then show ?case by (simp add: seen_ok_def)
next
  case (Cons m ms)
  let ?s = "snd (seen_add m s)"
  let ?zs = "ys @ (if m \<in> si_ids s then [] else [m])"
  have "length (mid # ys) \<le> si_maxlen s div 2" using Cons.prems(3,4) by simp
  then obtain xs' where "si_order ?s = xs' @ mid # ?zs"
    using seen_add_recent [OF Cons.prems(1), of xs "mid # ys" m] Cons.prems(2) by auto
  moreover have "seen_ok ?s" "si_maxlen ?s = si_maxlen s" using seen_add_ok [OF Cons.prems(1)] by simp_all
  ultimately show ?case
    using Cons.IH [of ?s xs' ?zs] Cons.prems(3,4) by (auto split: if_splits)
qed

text \<open>
  The memory of delivered identifiers is bounded and never forgets recent ones: after any
  number of deliveries it holds at most \<open>si_maxlen\<close> identifiers, and an identifier is still
  known while fewer than \<open>si_maxlen div 2\<close> further ones were added after it.
\<close>

theorem seen_window:
  assumes "seen_ok s" "mid \<notin> si_ids s" "Suc (length ms) \<le> si_maxlen s div 2"
  shows "length (si_order (seen_adds ms (snd (seen_add mid s)))) \<le> si_maxlen s \<and>
    seen_add mid (seen_adds ms (snd (seen_add mid s))) = (False, seen_adds ms (snd (seen_add mid s)))"
proof -
  let ?s = "snd (seen_add mid s)"
  have ok: "seen_ok ?s" "si_maxlen ?s = si_maxlen s" using seen_add_ok [OF assms(1)] by simp_all
  obtain xs' where "si_order ?s = xs' @ mid # []"
    using seen_add_recent [OF assms(1), of _ "[]" mid] assms(2) by auto
  then have "mid \<in> si_ids (seen_adds ms ?s)"
    using seen_adds_recent [OF ok(1), of xs' mid "[]" ms] assms(3) ok(2) by simp
  then show ?thesis
    using seen_adds_ok [OF ok(1), of ms] ok(2) by (simp add: seen_add_known seen_ok_def)
qed

theorem seen_window_witness:
  "seen_add ''a'' (seen_adds [''b''] (snd (seen_add ''a'' (new_seen 4)))) =
     (False, seen_adds [''b''] (snd (seen_add ''a'' (new_seen 4))))"
  using seen_window [OF seen_ok_new [of 4], of "''a''" "[''b'']"] by (simp add: new_seen_def)

section \<open>Delivery\<close>

text \<open>A wire that knows one document, and a stream with one subscriber of run 5 on thread 3.\<close>

definition demo_message :: message where
  "demo_message = \<lparr>ms_topic = ''event:values'', ms_data = ''d'', ms_id = None\<rparr>"

definition demo_document :: json where
  "demo_document = JObj [(''topic'', JStr ''event:values''), (''data'', JStr ''d''), (''id'', JStr ''7-0''),
     (''control'', JBool False)]"

definition demo_wire :: wire where
  "demo_wire = \<lparr>wi_dumps = (\<lambda>_. ''j''), wi_loads = (\<lambda>_. Some demo_document), wi_b64 = (\<lambda>s. s), wi_unb64 = Some\<rparr>"

definition demo_stream0 :: stream where
  "demo_stream0 = snd (add_queue 5 (Some 3) None True (new_stream \<lparr>ic_last_ms = 0, ic_seq = 0\<rparr>))"

lemma demo_id: "ms_seq_text 7 0 = ''7-0''"
  by code_simp

lemma demo_stream0_sel:
  "sm_queues demo_stream0 (Thread 3, 5) = [0]" "sm_seen demo_stream0 = new_seen 10000"
  "sm_box demo_stream0 0 = []" "put_id 7 x False demo_stream0 = ''7-0''"
  by (simp_all add: demo_stream0_def add_queue_def new_queue_def new_stream_def replay_into_queue_def
      thread_ref_of_def Let_def put_id_def generate_ms_seq_id_def demo_id)

lemma demo_put: "\<exists>s'. put_message ''n'' demo_wire 7 ''x'' 0 (Some 5) (Some 3) demo_message False demo_stream0 = Inr s'"
  by (simp add: put_message_def Let_def split: prod.split)

lemma demo_not_control: "\<not> is_control (ms_topic demo_message)"
  by code_simp

lemma demo_wire_ok: "wire_ok demo_wire (demo_message\<lparr>ms_id := Some ''7-0''\<rparr>) False"
  by (simp add: wire_ok_def demo_wire_def demo_message_def demo_document_def opt_or_def)

text \<open>
  a message that is published is put once at the end of every queue subscribed to its run and
  into no other queue, it is kept for late subscribers, and the copy that Redis sends back to
  this process changes nothing.
\<close>

theorem put_delivers_once:
  assumes "put_message ns w ms entry_id dropped (Some r) tid m resumable s = Inr s'"
    "seen_ok (sm_seen s)" "entry_id \<noteq> []" "\<not> is_control (ms_topic m)" "t = thread_ref_of tid"
    "m1 = m\<lparr>ms_id := Some (put_id ms entry_id resumable s)\<rparr>" "distinct (sm_queues s (t, r))"
    "seen_key (run_scope t r) (put_id ms entry_id resumable s) \<notin> si_ids (sm_seen s)"
    "ref_ok t" "r < 2 ^ 128" "wire_ok w m1 False"
  shows "sm_box s' = (\<lambda>q. if q \<in> set (sm_queues s (t, r)) then sm_box s q @ [m1] else sm_box s q) \<and>
    last (sm_stores s' (t, r)) = m1 \<and> length (sm_stores s' (t, r)) \<le> max 2000 (length (sm_stores s (t, r))) \<and>
    handle_run_fanout_message ns w (last (rd_published s')) s' = s'"
proof -
  note d = put_delivers [OF assms(1,3,4,5,6,7,8)]
  have "handle_run_fanout_message ns w (last (rd_published s')) s' = s'"
    by (rule put_echo_ignored [OF assms(1,2,3)]) (use assms in simp_all)
  with d show ?thesis by (auto simp: fun_eq_iff last_drop)
qed

theorem put_delivers_once_witness:
  "\<exists>s'. put_message ''n'' demo_wire 7 ''x'' 0 (Some 5) (Some 3) demo_message False demo_stream0 = Inr s' \<and>
     sm_box s' 0 = [demo_message\<lparr>ms_id := Some ''7-0''\<rparr>] \<and>
     handle_run_fanout_message ''n'' demo_wire (last (rd_published s')) s' = s'"
proof -
  obtain s' where p: "put_message ''n'' demo_wire 7 ''x'' 0 (Some 5) (Some 3) demo_message False demo_stream0 = Inr s'"
    using demo_put by blast
  have "seen_ok (sm_seen demo_stream0)" by (simp add: demo_stream0_sel seen_ok_new)
  from put_delivers_once [OF p this, of "Thread 3" "demo_message\<lparr>ms_id := Some ''7-0''\<rparr>"] p
  show ?thesis
    using demo_not_control demo_wire_ok
    by (auto simp: demo_stream0_sel thread_ref_of_def new_seen_def)
qed

text \<open>
  A subscriber that comes late misses nothing and gets nothing twice: after it is added with a
  cursor and one more message is put, its queue holds the kept messages after the cursor, then
  the new one.
\<close>

theorem late_subscriber_is_complete:
  assumes "add_queue r tid after_id True s = (q, s1)" "t = thread_ref_of tid"
    "put_message ns w ms entry_id dropped (Some r) tid m resumable s1 = Inr s'"
    "entry_id \<noteq> []" "\<not> is_control (ms_topic m)"
    "m1 = m\<lparr>ms_id := Some (put_id ms entry_id resumable s1)\<rparr>" "distinct (sm_queues s (t, r))"
    "sm_next s \<notin> set (sm_queues s (t, r))"
    "seen_key (run_scope t r) (put_id ms entry_id resumable s1) \<notin> si_ids (sm_seen s)"
  shows "sm_box s' q = filter (after_cursor after_id) (sm_stores s (t, r)) @ [m1]"
proof -
  note a = add_queue_box [OF assms(1,2)]
  have "distinct (sm_queues s1 (t, r))" using a assms(7,8) by simp
  from put_delivers(1) [OF assms(3,4,5,2,6) this, of q] assms(9) a show ?thesis by simp
qed

theorem late_subscriber_is_complete_witness:
  "\<exists>s'. put_message ''n'' demo_wire 7 ''x'' 0 (Some 5) (Some 3) demo_message False demo_stream0 = Inr s' \<and>
     sm_box s' 0 = [demo_message\<lparr>ms_id := Some ''7-0''\<rparr>]"
proof -
  let ?s = "new_stream \<lparr>ic_last_ms = 0, ic_seq = 0\<rparr>"
  have q: "add_queue 5 (Some 3) None True ?s = (0, demo_stream0)"
    by (simp add: demo_stream0_def add_queue_def new_queue_def new_stream_def Let_def)
  obtain s' where p: "put_message ''n'' demo_wire 7 ''x'' 0 (Some 5) (Some 3) demo_message False demo_stream0 = Inr s'"
    using demo_put by blast
  from late_subscriber_is_complete [OF q refl p, of "demo_message\<lparr>ms_id := Some ''7-0''\<rparr>"] p
  show ?thesis using demo_not_control by (simp add: demo_stream0_sel new_stream_def new_seen_def)
qed

text \<open>
  what one replica publishes for a run, another one reads back: the channel names the same
  thread and run, and the envelope holds the same topic, data and identifier.
\<close>

theorem fanout_roundtrip:
  assumes "ref_ok t" "r < 2 ^ 128" "wire_ok w m control" "ms_id m \<noteq> Some []"
  shows "parse_run_fanout_channel ns (fanout_channel ns t r) = Some (t, r) \<and>
    decode_envelope w (encode_envelope w m control) = Some m"
  using run_channel_roundtrip [OF assms(1,2)] envelope_roundtrip [OF assms(3,4)] by blast

theorem fanout_roundtrip_witness:
  "parse_run_fanout_channel ''n'' (fanout_channel ''n'' (Thread 3) 5) = Some (Thread 3, 5) \<and>
   decode_envelope demo_wire (encode_envelope demo_wire (demo_message\<lparr>ms_id := Some ''7-0''\<rparr>) False) =
     Some (demo_message\<lparr>ms_id := Some ''7-0''\<rparr>)"
  by (rule fanout_roundtrip) (simp_all add: demo_wire_ok)

end
