(* ===== verification/Database.thy ===== *)
theory Database
  imports AuthFilter
begin

text \<open>
  \<open>database.py\<close>: the dictionary views of the rows (\<open>row_to_dict\<close> and its five instances), the
  retry counter table, the transaction scope \<open>connect()\<close> with its commit and rollback hooks, and
  the normalisation of database URLs and their TLS settings. A dictionary view holds Python
  objects, not JSON: UUIDs and datetimes keep their types.
\<close>

section \<open>Dictionary views\<close>

datatype cell = CJson json | CUuid uuid | CTime time

type_synonym row_dict = "(string \<times> cell) list"

fun cell_text :: "string option \<Rightarrow> cell" where
  "cell_text None = CJson JNull"
| "cell_text (Some s) = CJson (JStr s)"

fun cell_time :: "time option \<Rightarrow> cell" where
  "cell_time None = CJson JNull"
| "cell_time (Some t) = CTime t"

fun cell_uuid :: "uuid option \<Rightarrow> cell" where
  "cell_uuid None = CJson JNull"
| "cell_uuid (Some u) = CUuid u"

definition ASSISTANT_KEYS :: "string list" where
  "ASSISTANT_KEYS = [''assistant_id'', ''graph_id'', ''name'', ''description'', ''config'',
     ''context'', ''metadata'', ''version'', ''created_at'', ''updated_at'']"

definition ASSISTANT_VERSION_KEYS :: "string list" where
  "ASSISTANT_VERSION_KEYS = [''assistant_id'', ''version'', ''graph_id'', ''config'', ''context'',
     ''metadata'', ''name'', ''description'', ''created_at'']"

definition THREAD_KEYS :: "string list" where
  "THREAD_KEYS = [''thread_id'', ''graph_id'', ''status'', ''event_seq'', ''metadata'', ''config'',
     ''values'', ''interrupts'', ''error'', ''created_at'', ''updated_at'', ''state_updated_at'']"

definition RUN_KEYS :: "string list" where
  "RUN_KEYS = [''run_id'', ''thread_id'', ''assistant_id'', ''status'', ''reason'', ''retry_count'',
     ''max_attempts'', ''next_attempt_at'', ''idempotency_key'', ''lease_owner'',
     ''lease_expires_at'', ''heartbeat_at'', ''event_seq'', ''metadata'', ''kwargs'',
     ''multitask_strategy'', ''created_at'', ''updated_at'']"

definition CRON_KEYS :: "string list" where
  "CRON_KEYS = [''cron_id'', ''assistant_id'', ''thread_id'', ''schedule'', ''payload'', ''metadata'',
     ''next_run_date'', ''end_time'', ''user_id'', ''timezone'', ''on_run_completed'', ''enabled'',
     ''created_at'', ''updated_at'']"

text \<open>
  The attributes of a row object, by the key of the dictionary (\<open>metadata_\<close> and \<open>values_\<close> under
  \<open>metadata\<close> and \<open>values\<close>); a missing attribute reads as \<open>None\<close>.
\<close>

definition row_to_dict :: "row_dict \<Rightarrow> string list \<Rightarrow> row_dict" where
  "row_to_dict attrs ks =
     map (\<lambda>k. (k, case map_of attrs k of None \<Rightarrow> CJson JNull | Some v \<Rightarrow> v)) ks"

definition assistant_attrs :: "assistant_row \<Rightarrow> row_dict" where
  "assistant_attrs r =
     [(''assistant_id'', CUuid (as_id r)), (''graph_id'', CJson (JStr (as_graph_id r))),
      (''name'', CJson (JStr (as_name r))), (''description'', cell_text (as_description r)),
      (''config'', CJson (JObj (as_config r))), (''context'', CJson (JObj (as_context r))),
      (''metadata'', CJson (JObj (as_metadata r))), (''version'', CJson (JInt (as_version r))),
      (''created_at'', CTime (as_created_at r)), (''updated_at'', CTime (as_updated_at r))]"

definition version_attrs :: "assistant_version_row \<Rightarrow> row_dict" where
  "version_attrs r =
     [(''assistant_id'', CUuid (av_assistant_id r)), (''version'', CJson (JInt (av_version r))),
      (''graph_id'', CJson (JStr (av_graph_id r))), (''config'', CJson (JObj (av_config r))),
      (''context'', CJson (JObj (av_context r))), (''metadata'', CJson (JObj (av_metadata r))),
      (''name'', CJson (JStr (av_name r))), (''description'', cell_text (av_description r)),
      (''created_at'', CTime (av_created_at r))]"

definition thread_attrs :: "thread_row \<Rightarrow> row_dict" where
  "thread_attrs r =
     [(''thread_id'', CUuid (th_id r)), (''graph_id'', cell_text (th_graph_id r)),
      (''status'', CJson (JStr (th_status r))), (''event_seq'', CJson (JInt (th_event_seq r))),
      (''metadata'', CJson (JObj (th_metadata r))), (''config'', CJson (JObj (th_config r))),
      (''values'', CJson (th_values r)), (''interrupts'', CJson (JObj (th_interrupts r))),
      (''error'', CJson (th_error r)), (''created_at'', CTime (th_created_at r)),
      (''updated_at'', CTime (th_updated_at r)),
      (''state_updated_at'', cell_time (th_state_updated_at r))]"

definition run_attrs :: "run_row \<Rightarrow> row_dict" where
  "run_attrs r =
     [(''run_id'', CUuid (run_id r)), (''thread_id'', cell_uuid (run_thread_id r)),
      (''assistant_id'', CUuid (run_assistant_id r)), (''status'', CJson (JStr (run_status r))),
      (''reason'', cell_text (run_reason r)), (''retry_count'', CJson (JInt (run_retry_count r))),
      (''max_attempts'', CJson (JInt (run_max_attempts r))),
      (''next_attempt_at'', cell_time (run_next_attempt_at r)),
      (''idempotency_key'', cell_text (run_idempotency_key r)),
      (''lease_owner'', cell_text (run_lease_owner r)),
      (''lease_expires_at'', cell_time (run_lease_expires_at r)),
      (''heartbeat_at'', cell_time (run_heartbeat_at r)),
      (''event_seq'', CJson (JInt (run_event_seq r))),
      (''metadata'', CJson (JObj (run_metadata r))), (''kwargs'', CJson (JObj (run_kwargs r))),
      (''multitask_strategy'', cell_text (run_multitask_strategy r)),
      (''created_at'', CTime (run_created_at r)), (''updated_at'', CTime (run_updated_at r))]"

definition cron_attrs :: "cron_row \<Rightarrow> row_dict" where
  "cron_attrs r =
     [(''cron_id'', CUuid (cr_id r)), (''assistant_id'', CUuid (cr_assistant_id r)),
      (''thread_id'', cell_uuid (cr_thread_id r)), (''schedule'', CJson (JStr (cr_schedule r))),
      (''payload'', CJson (JObj (cr_payload r))), (''metadata'', CJson (JObj (cr_metadata r))),
      (''next_run_date'', cell_time (cr_next_run_date r)), (''end_time'', cell_time (cr_end_time r)),
      (''user_id'', cell_text (cr_user_id r)), (''timezone'', cell_text (cr_timezone r)),
      (''on_run_completed'', cell_text (cr_on_run_completed r)),
      (''enabled'', CJson (JBool (cr_enabled r))), (''created_at'', CTime (cr_created_at r)),
      (''updated_at'', CTime (cr_updated_at r))]"

definition assistant_to_dict :: "assistant_row \<Rightarrow> row_dict" where
  "assistant_to_dict r = row_to_dict (assistant_attrs r) ASSISTANT_KEYS"

definition assistant_version_to_dict :: "assistant_version_row \<Rightarrow> row_dict" where
  "assistant_version_to_dict r = row_to_dict (version_attrs r) ASSISTANT_VERSION_KEYS"

definition thread_to_dict :: "thread_row \<Rightarrow> row_dict" where
  "thread_to_dict r = row_to_dict (thread_attrs r) THREAD_KEYS"

definition run_to_dict :: "run_row \<Rightarrow> row_dict" where
  "run_to_dict r = row_to_dict (run_attrs r) RUN_KEYS"

definition cron_to_dict :: "cron_row \<Rightarrow> row_dict" where
  "cron_to_dict r = row_to_dict (cron_attrs r) CRON_KEYS"

text \<open>\<open>d.setdefault(k, v)\<close> on a view.\<close>

definition rset_default :: "string \<Rightarrow> cell \<Rightarrow> row_dict \<Rightarrow> row_dict" where
  "rset_default k v d = (case map_of d k of None \<Rightarrow> d @ [(k, v)] | Some _ \<Rightarrow> d)"

definition rget :: "row_dict \<Rightarrow> string \<Rightarrow> cell" where
  "rget d k = (case map_of d k of None \<Rightarrow> CJson JNull | Some v \<Rightarrow> v)"

lemma row_to_dict_keys [simp]: "map fst (row_to_dict attrs ks) = ks"
  by (simp add: row_to_dict_def comp_def)

lemma map_of_row_to_dict [simp]:
  "map_of (row_to_dict attrs ks) k =
     (if k \<in> set ks then Some (case map_of attrs k of None \<Rightarrow> CJson JNull | Some v \<Rightarrow> v) else None)"
  unfolding row_to_dict_def by (induction ks) auto

lemma cell_text_inject [simp]: "cell_text a = cell_text b \<longleftrightarrow> a = b"
  by (cases a; cases b) simp_all

lemma cell_time_inject [simp]: "cell_time a = cell_time b \<longleftrightarrow> a = b"
  by (cases a; cases b) simp_all

lemma cell_uuid_inject [simp]: "cell_uuid a = cell_uuid b \<longleftrightarrow> a = b"
  by (cases a; cases b) simp_all

section \<open>The retry counter\<close>

definition get_counter :: "uuid \<Rightarrow> db \<Rightarrow> int" where
  "get_counter k d = (case t_get rc_run_id k (db_retry_counters d) of None \<Rightarrow> 0 | Some r \<Rightarrow> rc_count r)"

definition increment_counter :: "uuid \<Rightarrow> db \<Rightarrow> int \<times> db" where
  "increment_counter k d =
     (case t_get rc_run_id k (db_retry_counters d) of
        None \<Rightarrow> (1, d\<lparr>db_retry_counters := db_retry_counters d @ [\<lparr>rc_run_id = k, rc_count = 1\<rparr>]\<rparr>)
      | Some r \<Rightarrow>
          (rc_count r + 1,
           d\<lparr>db_retry_counters :=
               t_upd rc_run_id k (\<lambda>c. c\<lparr>rc_count := rc_count c + 1\<rparr>) (db_retry_counters d)\<rparr>))"

lemma increment_counter_get:
  "increment_counter k d = (n, d') \<Longrightarrow> n = get_counter k d + 1 \<and> get_counter k d' = n"
  by (auto simp: increment_counter_def get_counter_def t_get_append t_get_upd split: option.splits)

lemma increment_counter_other:
  "k' \<noteq> k \<Longrightarrow> get_counter k' (snd (increment_counter k d)) = get_counter k' d"
  by (auto simp: increment_counter_def get_counter_def t_get_append t_get_upd split: option.splits)

section \<open>The transaction scope\<close>

text \<open>
  A connection sees the database as its session left it; the checkpoint saver works on a pool of
  its own that commits at once, so its effects also reach the committed database. Hooks are the
  callbacks the operations register.
\<close>

datatype hook =
    WakeRunQueue
  | CleanupCheckpoints uuid \<comment> \<open>\<open>Threads.delete\<close>\<close>
  | ScrubCheckpoints uuid \<comment> \<open>\<open>Threads.copy\<close>\<close>

record conn =
  cn_committed :: db
  cn_db :: db
  cn_after_commit :: "hook list"
  cn_after_rollback :: "hook list"

definition open_conn :: "db \<Rightarrow> conn" where
  "open_conn d = \<lparr>cn_committed = d, cn_db = d, cn_after_commit = [], cn_after_rollback = []\<rparr>"

definition schedule_after_commit :: "hook \<Rightarrow> conn \<Rightarrow> conn" where
  "schedule_after_commit h c = c\<lparr>cn_after_commit := cn_after_commit c @ [h]\<rparr>"

definition schedule_after_rollback :: "hook \<Rightarrow> conn \<Rightarrow> conn" where
  "schedule_after_rollback h c = c\<lparr>cn_after_rollback := cn_after_rollback c @ [h]\<rparr>"

text \<open>A hook's exception is logged and dropped.\<close>

definition run_hooks :: "(hook \<Rightarrow> db \<Rightarrow> db res) \<Rightarrow> hook list \<Rightarrow> db \<Rightarrow> db" where
  "run_hooks act hs d = fold (\<lambda>h d. case act h d of Inl _ \<Rightarrow> d | Inr d' \<Rightarrow> d') hs d"

definition connect ::
  "(hook \<Rightarrow> db \<Rightarrow> db res) \<Rightarrow> (conn \<Rightarrow> 'a res \<times> conn) \<Rightarrow> db \<Rightarrow> 'a res \<times> db" where
  "connect act body d =
     (case body (open_conn d) of
        (Inl err, c) \<Rightarrow> (Inl err, run_hooks act (cn_after_rollback c) (cn_committed c))
      | (Inr x, c) \<Rightarrow> (Inr x, run_hooks act (cn_after_commit c) (cn_db c)))"

text \<open>An operation of the session alone, and the sequence of two operations.\<close>

definition in_session :: "(db \<Rightarrow> ('a \<times> db) res) \<Rightarrow> conn \<Rightarrow> 'a res \<times> conn" where
  "in_session f c =
     (case f (cn_db c) of Inl err \<Rightarrow> (Inl err, c) | Inr (x, d) \<Rightarrow> (Inr x, c\<lparr>cn_db := d\<rparr>))"

definition cbind ::
  "(conn \<Rightarrow> 'a res \<times> conn) \<Rightarrow> ('a \<Rightarrow> conn \<Rightarrow> 'b res \<times> conn) \<Rightarrow> conn \<Rightarrow> 'b res \<times> conn" where
  "cbind f g c = (case f c of (Inl err, c') \<Rightarrow> (Inl err, c') | (Inr x, c') \<Rightarrow> g x c')"

text \<open>What the saver's own pool changes: the three checkpoint tables.\<close>

definition copy_saver_tables :: "db \<Rightarrow> db \<Rightarrow> db" where
  "copy_saver_tables from d =
     d\<lparr>db_checkpoints := db_checkpoints from, db_writes := db_writes from, db_blobs := db_blobs from\<rparr>"

definition autocommit :: "(db \<Rightarrow> db) \<Rightarrow> conn \<Rightarrow> conn" where
  "autocommit f c =
     (let d = f (cn_committed c)
      in c\<lparr>cn_committed := copy_saver_tables d (cn_committed c),
           cn_db := copy_saver_tables d (cn_db c)\<rparr>)"

text \<open>A session whose body fails leaves the tables as they were committed.\<close>

lemma connect_fails:
  "fst (connect act (in_session f) d) = Inl err \<Longrightarrow> snd (connect act (in_session f) d) = d"
  by (auto simp: connect_def in_session_def open_conn_def run_hooks_def
      split: sum.splits prod.splits)

lemma connect_commits:
  "f d = Inr (x, d') \<Longrightarrow> connect act (in_session f) d = (Inr x, d')"
  by (simp add: connect_def in_session_def open_conn_def run_hooks_def)

section \<open>Database URLs\<close>

definition SCHEME_ASYNCPG :: string where "SCHEME_ASYNCPG = ''postgresql+asyncpg://''"
definition SCHEME_ASYNCPG_SHORT :: string where "SCHEME_ASYNCPG_SHORT = ''postgres+asyncpg://''"
definition SCHEME_PSYCOPG :: string where "SCHEME_PSYCOPG = ''postgresql://''"
definition SCHEME_PSYCOPG_SHORT :: string where "SCHEME_PSYCOPG_SHORT = ''postgres://''"

definition URI_PREFIXES_TO_PSYCOPG :: "string list" where
  "URI_PREFIXES_TO_PSYCOPG =
     [SCHEME_ASYNCPG, SCHEME_ASYNCPG_SHORT, ''postgresql+psycopg://'', ''postgresql+psycopg2://'',
      ''postgres+psycopg://'', ''postgres+psycopg2://'', SCHEME_PSYCOPG, SCHEME_PSYCOPG_SHORT]"

fun has_infix :: "string \<Rightarrow> string \<Rightarrow> bool" where
  "has_infix p [] = (p = [])"
| "has_infix p (c # cs) = (starts_with p (c # cs) \<or> has_infix p cs)"

text \<open>\<open>get_database_uri\<close> of the environment variable; \<open>uri or get_database_uri()\<close>.\<close>

definition get_database_uri :: "string option \<Rightarrow> string res" where
  "get_database_uri var =
     (case var of
        None \<Rightarrow> Inl (RuntimeError ''DATABASE_URI is required for langgraph_runtime_pg'')
      | Some u \<Rightarrow> if u = [] then Inl (RuntimeError ''DATABASE_URI is required for langgraph_runtime_pg'')
                  else Inr u)"

definition given_uri :: "string option \<Rightarrow> string option \<Rightarrow> string res" where
  "given_uri var uri =
     (case uri of None \<Rightarrow> get_database_uri var
      | Some u \<Rightarrow> if u = [] then get_database_uri var else Inr u)"

definition to_psycopg_uri :: "string option \<Rightarrow> string option \<Rightarrow> string res" where
  "to_psycopg_uri var uri =
     rbind (given_uri var uri) (\<lambda>u.
       case find (\<lambda>p. starts_with p u) URI_PREFIXES_TO_PSYCOPG of
         Some p \<Rightarrow> Inr (SCHEME_PSYCOPG @ drop (length p) u)
       | None \<Rightarrow>
           if has_infix ''://'' u then Inl (ValueError ''Unsupported DATABASE_URI scheme'') else Inr u)"

definition to_async_sqlalchemy_uri :: "string option \<Rightarrow> string option \<Rightarrow> string res" where
  "to_async_sqlalchemy_uri var uri =
     rbind (given_uri var uri) (\<lambda>u.
       if starts_with SCHEME_ASYNCPG u then Inr u
       else if starts_with SCHEME_ASYNCPG_SHORT u then
         Inr (SCHEME_ASYNCPG @ drop (length SCHEME_ASYNCPG_SHORT) u)
       else rbind (to_psycopg_uri var (Some u)) (\<lambda>bare.
         if starts_with SCHEME_PSYCOPG bare
         then Inr (SCHEME_ASYNCPG @ drop (length SCHEME_PSYCOPG) bare)
         else Inr bare))"

lemmas uri_schemes = SCHEME_ASYNCPG_def SCHEME_ASYNCPG_SHORT_def SCHEME_PSYCOPG_def
  SCHEME_PSYCOPG_SHORT_def

lemma starts_with_prefix [simp]: "starts_with p (p @ s)"
  by (simp add: starts_with_def)

lemma starts_withE: "starts_with p s \<Longrightarrow> (\<And>r. s = p @ r \<Longrightarrow> thesis) \<Longrightarrow> thesis"
  by (metis append_take_drop_id starts_with_def)

lemma psycopg_of_async: "to_psycopg_uri var (Some (SCHEME_ASYNCPG @ r)) = Inr (SCHEME_PSYCOPG @ r)"
  by (simp add: to_psycopg_uri_def given_uri_def URI_PREFIXES_TO_PSYCOPG_def)
    (simp add: uri_schemes)

lemma psycopg_of_short:
  "to_psycopg_uri var (Some (SCHEME_ASYNCPG_SHORT @ r)) = Inr (SCHEME_PSYCOPG @ r)"
  by (simp add: to_psycopg_uri_def given_uri_def URI_PREFIXES_TO_PSYCOPG_def)
    (simp add: uri_schemes starts_with_def)

text \<open>The result of either normalisation of a non-empty URL: a scheme, or no scheme at all.\<close>

lemma psycopg_shape:
  assumes "to_psycopg_uri var (Some u) = Inr b" "u \<noteq> []"
  shows "(\<exists>r. b = SCHEME_PSYCOPG @ r) \<or>
    (b = u \<and> find (\<lambda>p. starts_with p u) URI_PREFIXES_TO_PSYCOPG = None)"
  using assms by (auto simp: to_psycopg_uri_def given_uri_def split: option.splits if_splits)

lemma no_prefix:
  assumes "find (\<lambda>p. starts_with p u) URI_PREFIXES_TO_PSYCOPG = None"
  shows "\<not> starts_with SCHEME_ASYNCPG u" "\<not> starts_with SCHEME_ASYNCPG_SHORT u"
    "\<not> starts_with SCHEME_PSYCOPG u"
  using assms by (auto simp: URI_PREFIXES_TO_PSYCOPG_def split: if_splits)

lemma async_cases:
  assumes "to_async_sqlalchemy_uri var (Some u) = Inr a" "u \<noteq> []"
  obtains (url) r where "a = SCHEME_ASYNCPG @ r" "to_psycopg_uri var (Some u) = Inr (SCHEME_PSYCOPG @ r)"
  | (dsn) "a = u" "to_psycopg_uri var (Some u) = Inr u"
      "find (\<lambda>p. starts_with p u) URI_PREFIXES_TO_PSYCOPG = None"
proof -
  from assms(2) have g: "given_uri var (Some u) = Inr u" by (simp add: given_uri_def)
  consider (full) r where "u = SCHEME_ASYNCPG @ r" | (short) r where "u = SCHEME_ASYNCPG_SHORT @ r"
    | (rest) "\<not> starts_with SCHEME_ASYNCPG u" "\<not> starts_with SCHEME_ASYNCPG_SHORT u"
    by (metis starts_withE)
  then show thesis
  proof cases
    case full
    then show ?thesis
      using assms(1) g psycopg_of_async by (intro url [of r]) (auto simp: to_async_sqlalchemy_uri_def)
  next
    case short
    then have "\<not> starts_with SCHEME_ASYNCPG u" by (simp add: uri_schemes starts_with_def)
    with short show ?thesis
      using assms(1) g psycopg_of_short by (intro url [of r]) (auto simp: to_async_sqlalchemy_uri_def)
  next
    case rest
    with assms(1) g obtain b where b: "to_psycopg_uri var (Some u) = Inr b"
      and i: "(if starts_with SCHEME_PSYCOPG b then Inr (SCHEME_ASYNCPG @ drop (length SCHEME_PSYCOPG) b)
                   else Inr b) = (Inr a :: string res)"
      unfolding to_async_sqlalchemy_uri_def by (simp add: rbind_eq_Inr) blast
    from i have a: "a = (if starts_with SCHEME_PSYCOPG b
        then SCHEME_ASYNCPG @ drop (length SCHEME_PSYCOPG) b else b)"
      by (simp split: if_splits)
    from psycopg_shape [OF b assms(2)] show ?thesis
    proof (elim disjE exE conjE)
      fix r assume "b = SCHEME_PSYCOPG @ r"
      with a b show ?thesis by (intro url [of r]) auto
    next
      assume "b = u" "find (\<lambda>p. starts_with p u) URI_PREFIXES_TO_PSYCOPG = None"
      with a b no_prefix [of u] show ?thesis by (intro dsn) auto
    qed
  qed
qed

text \<open>
  Both normal forms name the same database: the form for asyncpg normalises to the form psycopg
  gets from the original, and is already normal.
\<close>

lemma uri_normal_forms:
  assumes "to_async_sqlalchemy_uri var (Some u) = Inr a" "u \<noteq> []"
  shows "to_psycopg_uri var (Some a) = to_psycopg_uri var (Some u)"
    "to_async_sqlalchemy_uri var (Some a) = Inr a"
proof -
  have n: "SCHEME_ASYNCPG \<noteq> []" by (simp add: uri_schemes)
  show "to_psycopg_uri var (Some a) = to_psycopg_uri var (Some u)"
    using assms by (cases rule: async_cases) (simp_all add: psycopg_of_async)
  show "to_async_sqlalchemy_uri var (Some a) = Inr a"
    using assms
  proof (cases rule: async_cases)
    case (url r)
    then show ?thesis using n by (simp add: to_async_sqlalchemy_uri_def given_uri_def)
  qed (use assms(1) in simp)
qed

section \<open>TLS settings of a URL\<close>

text \<open>The pairs are \<open>parse_qsl(query, keep_blank_values=True)\<close>.\<close>

record ssl_settings =
  ssl_mode :: "string option"
  ssl_rootcert :: "string option"
  ssl_cert :: "string option"
  ssl_key :: "string option"
  ssl_password :: "string option"

definition no_ssl :: ssl_settings where
  "no_ssl = \<lparr>ssl_mode = None, ssl_rootcert = None, ssl_cert = None, ssl_key = None,
     ssl_password = None\<rparr>"

definition LIBPQ_SSL_QUERY_KEYS :: "string list" where
  "LIBPQ_SSL_QUERY_KEYS = [''sslmode'', ''sslcert'', ''sslkey'', ''sslrootcert'', ''sslcrl'',
     ''sslpassword'', ''channel_binding'', ''gssencmode'']"

definition ssl_step ::
  "string \<times> string \<Rightarrow> (string \<times> string) list \<times> ssl_settings \<Rightarrow> (string \<times> string) list \<times> ssl_settings" where
  "ssl_step = (\<lambda>(key, value) (kept, ssl).
     let kl = ascii_lower key in
     if kl = ''sslmode'' then (kept, ssl\<lparr>ssl_mode := Some (ascii_lower value)\<rparr>)
     else if kl = ''sslrootcert'' then (kept, ssl\<lparr>ssl_rootcert := Some value\<rparr>)
     else if kl = ''sslcert'' then (kept, ssl\<lparr>ssl_cert := Some value\<rparr>)
     else if kl = ''sslkey'' then (kept, ssl\<lparr>ssl_key := Some value\<rparr>)
     else if kl = ''sslpassword'' then (kept, ssl\<lparr>ssl_password := Some value\<rparr>)
     else if kl \<in> set LIBPQ_SSL_QUERY_KEYS then (kept, ssl)
     else (kept @ [(key, value)], ssl))"

definition parse_libpq_ssl_query ::
  "(string \<times> string) list \<Rightarrow> (string \<times> string) list \<times> ssl_settings" where
  "parse_libpq_ssl_query pairs = fold ssl_step pairs ([], no_ssl)"

text \<open>
  The \<open>ssl\<close> argument for asyncpg: none, a boolean, or a context described by its certificate
  authority, whether it checks host names and certificates, and the client certificate loaded.
\<close>

datatype ssl_arg =
    NoSslArg
  | SslBool bool
  | SslContext "string option" bool "(string \<times> string \<times> string option) option"

fun given :: "string option \<Rightarrow> bool" where
  "given None = False"
| "given (Some s) = (s \<noteq> [])"

definition build_asyncpg_ssl_connect_arg :: "ssl_settings \<Rightarrow> ssl_arg" where
  "build_asyncpg_ssl_connect_arg s =
     (let has_certs = given (ssl_rootcert s) \<or> given (ssl_cert s) \<or> given (ssl_key s) in
      if ssl_mode s = Some ''disable'' then SslBool False
      else if ssl_mode s \<notin> Some ` set [''require'', ''verify-ca'', ''verify-full''] \<and> \<not> has_certs
        then NoSslArg
      else if ssl_mode s = Some ''require'' \<and> \<not> has_certs then SslBool True
      else SslContext
        (if given (ssl_rootcert s) then ssl_rootcert s else None)
        (ssl_mode s \<noteq> Some ''require'')
        (case (ssl_cert s, ssl_key s) of
           (Some c, Some k) \<Rightarrow>
             if c \<noteq> [] \<and> k \<noteq> [] then Some (c, k, ssl_password s) else None
         | _ \<Rightarrow> None))"

end
