(* ===== verification/OpsCommon.thy ===== *)
theory OpsCommon
  imports Database
begin

text \<open>
  What the compatibility operations of \<open>ops.py\<close> share: the authorisation hook of the SDK, name
  matching, the thread status a checkpoint implies, stream mode selection, sort fields, the two
  search pipelines (filter and sort in Python, or push down to the database) and the checks for
  work in flight. The packages \<open>langgraph_api\<close> and \<open>langgraph_sdk\<close> are a parameter, the record
  \<open>api\<close>; Redis heartbeats are a function from run ids to alive, gone or unknown.
\<close>

section \<open>Third-party functions\<close>

text \<open>
  \<open>api_handle\<close> is \<open>langgraph_api.auth.custom.handle_event\<close>: it raises, or returns the filters and
  the payload as the application's handler left it, having changed its objects in place.
  \<open>api_graph\<close> is \<open>assert_graph_exists\<close> (\<open>None\<close>: the import fails), \<open>api_patch\<close> is \<open>patch_interrupt\<close>,
  \<open>api_serde\<close> is \<open>json_loads(json_dumpb(v))\<close> of a value and \<open>api_exc\<close> of an exception,
  \<open>api_extract\<close> is \<open>extract_path_value\<close>, and \<open>api_fold\<close> the case folding of the database's
  collation. \<open>api_test\<close> is the \<open>LG_RUNTIME_PG_TEST\<close> switch.
\<close>

datatype run_exc = UserInterrupt json | UserRollback json | OtherExc json

record caller =
  ca_user :: dict
  ca_permissions :: json

record api =
  api_handle :: "auth_context \<Rightarrow> dict \<Rightarrow> (json \<times> dict) res"
  api_caller :: "caller option"
  api_test :: bool
  api_graph :: "(string \<Rightarrow> unit res) option"
  api_patch :: "json \<Rightarrow> dict"
  api_serde :: "json \<Rightarrow> json"
  api_exc :: "run_exc \<Rightarrow> json"
  api_extract :: "row_dict \<Rightarrow> json \<Rightarrow> json"
  api_fold :: "char \<Rightarrow> char"

definition auth_context_of :: "string \<Rightarrow> caller \<Rightarrow> string \<Rightarrow> auth_context" where
  "auth_context_of resource c action =
     \<lparr>ac_user = ca_user c, ac_permissions = ca_permissions c, ac_resource = resource,
      ac_action = action\<rparr>"

definition handle_event ::
  "api \<Rightarrow> string \<Rightarrow> caller option \<Rightarrow> string \<Rightarrow> dict \<Rightarrow> (json \<times> dict) res" where
  "handle_event a resource ctx action payload =
     (case (case ctx of Some c \<Rightarrow> Some c | None \<Rightarrow> api_caller a) of
        None \<Rightarrow> Inr (JNull, payload)
      | Some c \<Rightarrow> api_handle a (auth_context_of resource c action) payload)"

fun json_opt :: "string option \<Rightarrow> json" where
  "json_opt None = JNull"
| "json_opt (Some s) = JStr s"

definition assert_graph_exists :: "api \<Rightarrow> string \<Rightarrow> unit res" where
  "assert_graph_exists a g =
     (if api_test a then Inr ()
      else case api_graph a of None \<Rightarrow> Inr () | Some f \<Rightarrow> f g)"

text \<open>\<open>_ensure_uuid\<close> of a string or nothing; \<open>uuid4()\<close> is the next identifier of the stream.\<close>

definition ensure_uuid :: "env \<Rightarrow> uuid option \<Rightarrow> db \<Rightarrow> uuid \<times> db" where
  "ensure_uuid e u d =
     (case u of Some k \<Rightarrow> (k, d) | None \<Rightarrow> (e_uuid e (db_draws d), d\<lparr>db_draws := db_draws d + 1\<rparr>))"

section \<open>Name matching\<close>

definition escape_char :: "char \<Rightarrow> string" where
  "escape_char c =
     (if c = CHR 0x5C \<or> c = CHR ''%'' \<or> c = CHR ''_'' then [CHR 0x5C, c] else [c])"

text \<open>The three replacements one after the other, as the code makes them.\<close>

definition replace_char :: "char \<Rightarrow> string \<Rightarrow> string \<Rightarrow> string" where
  "replace_char c by s = concat (map (\<lambda>x. if x = c then by else [x]) s)"

definition escape_like :: "string \<Rightarrow> string" where
  "escape_like v =
     replace_char CHR ''_'' [CHR 0x5C, CHR ''_'']
       (replace_char CHR ''%'' [CHR 0x5C, CHR ''%'']
         (replace_char CHR 0x5C [CHR 0x5C, CHR 0x5C] v))"

text \<open>SQL's \<open>ILIKE\<close> with the escape character \<open>\\<close>; \<open>f\<close> folds case.\<close>

fun ilike :: "(char \<Rightarrow> char) \<Rightarrow> string \<Rightarrow> string \<Rightarrow> bool" where
  "ilike f [] s = (s = [])"
| "ilike f (p # ps) s =
     (if p = CHR ''%'' then ilike f ps s \<or> (case s of [] \<Rightarrow> False | _ # cs \<Rightarrow> ilike f (p # ps) cs)
      else if p = CHR ''_'' then (case s of [] \<Rightarrow> False | _ # cs \<Rightarrow> ilike f ps cs)
      else if p = CHR 0x5C then
        (case (ps, s) of (q # qs, c # cs) \<Rightarrow> f q = f c \<and> ilike f qs cs | _ \<Rightarrow> False)
      else (case s of [] \<Rightarrow> False | c # cs \<Rightarrow> f p = f c \<and> ilike f ps cs))"

definition name_ilike :: "(char \<Rightarrow> char) \<Rightarrow> string \<Rightarrow> string \<Rightarrow> bool" where
  "name_ilike f name value = ilike f (''%'' @ escape_like name @ ''%'') value"

lemma escape_like_concat: "escape_like v = concat (map escape_char v)"
  by (induction v) (simp_all add: escape_like_def replace_char_def escape_char_def)

lemma ilike_percent: "ilike f (CHR ''%'' # ps) s \<longleftrightarrow> (\<exists>a b. s = a @ b \<and> ilike f ps b)"
proof (induction s)
  case Nil
  then show ?case by simp
next
  case (Cons c s)
  have "ilike f (CHR ''%'' # ps) (c # s) \<longleftrightarrow>
      ilike f ps (c # s) \<or> (\<exists>a b. s = a @ b \<and> ilike f ps b)"
    using Cons.IH by simp
  also have "\<dots> \<longleftrightarrow> (\<exists>a b. c # s = a @ b \<and> ilike f ps b)"
    by (metis append_Cons append_Nil append_eq_Cons_conv)
  finally show ?case .
qed

lemma ilike_escaped:
  "ilike f (escape_char c @ ps) s \<longleftrightarrow> (\<exists>x cs. s = x # cs \<and> f c = f x \<and> ilike f ps cs)"
  by (auto simp: escape_char_def split: list.splits)

lemma ilike_literal:
  "ilike f (escape_like name @ ps) s \<longleftrightarrow>
     (\<exists>a b. s = a @ b \<and> map f a = map f name \<and> ilike f ps b)"
proof (induction name arbitrary: s)
  case Nil
  then show ?case by (simp add: escape_like_concat)
next
  case (Cons c name)
  have "ilike f (escape_like (c # name) @ ps) s \<longleftrightarrow>
      (\<exists>x cs. s = x # cs \<and> f c = f x \<and> ilike f (escape_like name @ ps) cs)"
    using ilike_escaped [of f c "escape_like name @ ps" s] by (simp add: escape_like_concat)
  also have "\<dots> \<longleftrightarrow> (\<exists>a b. s = a @ b \<and> map f a = map f (c # name) \<and> ilike f ps b)"
    unfolding Cons.IH by (auto simp: Cons_eq_append_conv map_eq_Cons_conv) (metis append_Cons)+
  finally show ?case .
qed

text \<open>A name search finds exactly the values that contain the name, up to case.\<close>

lemma name_ilike_infix:
  "name_ilike f name value \<longleftrightarrow> (\<exists>a b c. value = a @ b @ c \<and> map f b = map f name)"
proof -
  have e: "ilike f ''%'' s" for s
    using ilike_percent [of f "[]" s] by simp
  show ?thesis
    unfolding name_ilike_def append.simps ilike_percent ilike_literal
    by (auto simp: e)
qed

section \<open>The status a checkpoint implies\<close>

text \<open>A snapshot is a dictionary or \<open>None\<close>; a task that is not a mapping has no \<open>get\<close>, and a task id is
  a string, the key of a JSON object.\<close>

definition snapshot_has_next :: "dict option \<Rightarrow> bool" where
  "snapshot_has_next checkpoint =
     (case checkpoint of None \<Rightarrow> False | Some c \<Rightarrow> truthy (dget c ''next''))"

definition is_user_control :: "run_exc \<Rightarrow> bool" where
  "is_user_control x = (case x of UserInterrupt _ \<Rightarrow> True | UserRollback _ \<Rightarrow> True | OtherExc _ \<Rightarrow> False)"

definition compute_base_status :: "run_exc option \<Rightarrow> bool \<Rightarrow> bool \<Rightarrow> string" where
  "compute_base_status exc has_next ignore_user_control =
     (case exc of
        None \<Rightarrow> if has_next then ''interrupted'' else ''idle''
      | Some x \<Rightarrow>
          if \<not> ignore_user_control then ''error''
          else if \<not> is_user_control x then ''error''
          else if has_next then ''interrupted'' else ''idle'')"

fun task_interrupts :: "api \<Rightarrow> json list \<Rightarrow> dict \<Rightarrow> dict res" where
  "task_interrupts a [] acc = Inr acc"
| "task_interrupts a (t # ts) acc =
     (case t of
        JObj task \<Rightarrow>
          if \<not> truthy (dget task ''interrupts'') then task_interrupts a ts acc
          else (case map_of task ''id'' of
              None \<Rightarrow> Inl (KeyError ''id'')
            | Some (JStr i) \<Rightarrow>
                rbind (py_list (dget task ''interrupts'')) (\<lambda>xs.
                  task_interrupts a ts (dset i (JList (map (\<lambda>x. JObj (api_patch a x)) xs)) acc))
            | Some _ \<Rightarrow> Inl (TypeError ''task id''))
      | _ \<Rightarrow> Inl (AttributeError ''get''))"

definition extract_interrupts :: "api \<Rightarrow> dict option \<Rightarrow> dict res" where
  "extract_interrupts a checkpoint =
     (case checkpoint of
        None \<Rightarrow> Inr []
      | Some c \<Rightarrow>
          rbind (py_list (dgetor c ''tasks'' (JList []))) (\<lambda>ts. task_interrupts a ts []))"

definition thread_status_from_checkpoint ::
  "api \<Rightarrow> dict option \<Rightarrow> run_exc option \<Rightarrow> bool \<Rightarrow> (string \<times> dict) res" where
  "thread_status_from_checkpoint a checkpoint exc ignore_user_control =
     rbind (extract_interrupts a checkpoint) (\<lambda>interrupts.
       Inr (compute_base_status exc (snapshot_has_next checkpoint) ignore_user_control, interrupts))"

text \<open>The statuses a thread row takes.\<close>

definition THREAD_STATUSES :: "string list" where
  "THREAD_STATUSES = [''idle'', ''busy'', ''interrupted'', ''error'']"

lemma base_status_public: "compute_base_status exc n i \<in> set THREAD_STATUSES - {''busy''}"
  by (auto simp: compute_base_status_def THREAD_STATUSES_def split: option.splits)

section \<open>Stream modes\<close>

datatype mode_arg = NoModes | OneMode string | ModeList "string list"

definition modes_of :: "mode_arg \<Rightarrow> string list" where
  "modes_of m = (case m of NoModes \<Rightarrow> [] | OneMode s \<Rightarrow> [s] | ModeList ms \<Rightarrow> ms)"

definition run_stream_mode_matches :: "string \<Rightarrow> mode_arg \<Rightarrow> bool" where
  "run_stream_mode_matches event_mode stream_mode =
     (let modes = modes_of stream_mode in
      if stream_mode = NoModes \<or> stream_mode = OneMode [] \<or> stream_mode = ModeList [] then True
      else if event_mode \<in> set modes then True
      else if (''messages'' \<in> set modes \<or> ''messages-tuple'' \<in> set modes) \<and>
              starts_with ''messages'' event_mode then True
      else if CHR ''|'' \<in> set event_mode \<and>
              takeWhile (\<lambda>c. c \<noteq> CHR ''|'') event_mode \<in> set modes then True
      else False)"

section \<open>Sort fields\<close>

definition ASSISTANT_SORT_FIELDS :: "string list" where
  "ASSISTANT_SORT_FIELDS = [''assistant_id'', ''graph_id'', ''name'', ''created_at'', ''updated_at'']"

definition THREAD_SORT_FIELDS :: "string list" where
  "THREAD_SORT_FIELDS =
     [''thread_id'', ''created_at'', ''updated_at'', ''state_updated_at'', ''status'']"

definition CRON_SORT_FIELDS :: "string list" where
  "CRON_SORT_FIELDS = [''cron_id'', ''assistant_id'', ''thread_id'', ''next_run_date'', ''end_time'',
     ''created_at'', ''updated_at'']"

definition resolve_sort_field :: "string option \<Rightarrow> string list \<Rightarrow> string \<Rightarrow> bool \<Rightarrow> string res" where
  "resolve_sort_field sort_by allowed fallback raise_invalid =
     (let sb = (case sort_by of None \<Rightarrow> [] | Some s \<Rightarrow> ascii_lower s) in
      if sb \<in> set allowed then Inr sb
      else if sort_by \<noteq> None \<and> sort_by \<noteq> Some [] \<and> raise_invalid
        then Inl (HTTPException 422 ''Invalid sort_by field'')
      else Inr fallback)"

text \<open>\<open>not (sort_order and sort_order.upper() == "ASC")\<close>.\<close>

definition sort_reverse :: "string option \<Rightarrow> bool" where
  "sort_reverse order = (case order of None \<Rightarrow> True | Some s \<Rightarrow> ascii_lower s \<noteq> ''asc'')"

text \<open>
  \<open>_row_sort_key\<close>, the pair \<open>(val is None, val)\<close>: absent values come last in ascending order. A
  sort field holds UUIDs, texts or times, compared as Python compares them; the model's database
  compares them alike (a \<open>C\<close> collation, \<open>NULLS LAST\<close> ascending and \<open>NULLS FIRST\<close> descending).
\<close>

datatype sort_val = SortUuid nat | SortText string | SortTime int | SortNone

fun sort_code :: "sort_val \<Rightarrow> nat \<times> nat \<times> string \<times> int" where
  "sort_code (SortUuid u) = (0, u, [], 0)"
| "sort_code (SortText s) = (1, 0, s, 0)"
| "sort_code (SortTime t) = (2, 0, [], t)"
| "sort_code SortNone = (3, 0, [], 0)"

lemma sort_code_inject [simp]: "sort_code a = sort_code b \<longleftrightarrow> a = b"
  by (cases a; cases b) auto

instantiation sort_val :: linorder
begin

definition less_eq_sort_val :: "sort_val \<Rightarrow> sort_val \<Rightarrow> bool" where
  "less_eq_sort_val a b = (sort_code a \<le> sort_code b)"

definition less_sort_val :: "sort_val \<Rightarrow> sort_val \<Rightarrow> bool" where
  "less_sort_val a b = (sort_code a < sort_code b)"

instance
proof
  fix x y z :: sort_val
  show "(x < y) = (x \<le> y \<and> \<not> y \<le> x)"
    unfolding less_eq_sort_val_def less_sort_val_def by (rule less_le_not_le)
  show "x \<le> x" by (simp add: less_eq_sort_val_def)
  show "x \<le> y \<Longrightarrow> y \<le> z \<Longrightarrow> x \<le> z"
    unfolding less_eq_sort_val_def by (rule order_trans)
  show "x \<le> y \<Longrightarrow> y \<le> x \<Longrightarrow> x = y"
    unfolding less_eq_sort_val_def by (metis antisym sort_code_inject)
  show "x \<le> y \<or> y \<le> x"
    unfolding less_eq_sort_val_def by (rule linear)
qed

end

definition cell_key :: "cell \<Rightarrow> sort_val" where
  "cell_key c =
     (case c of CUuid u \<Rightarrow> SortUuid u | CTime t \<Rightarrow> SortTime t
      | CJson v \<Rightarrow> (case v of JStr s \<Rightarrow> SortText s | _ \<Rightarrow> SortNone))"

definition row_sort_key :: "row_dict \<Rightarrow> string \<Rightarrow> sort_val" where
  "row_sort_key attrs attr = cell_key (rget attrs attr)"

section \<open>Searching\<close>

fun rfilter :: "('a \<Rightarrow> bool res) \<Rightarrow> 'a list \<Rightarrow> 'a list res" where
  "rfilter p [] = Inr []"
| "rfilter p (x # xs) =
     rbind (p x) (\<lambda>b. rbind (rfilter p xs) (\<lambda>ys. Inr (if b then x # ys else ys)))"

text \<open>\<open>list.sort\<close> is stable, also with \<open>reverse=True\<close>; SQL leaves rows with equal keys in any order.\<close>

definition sort_rows :: "bool \<Rightarrow> ('r \<Rightarrow> sort_val) \<Rightarrow> 'r list \<Rightarrow> 'r list" where
  "sort_rows reverse key rows =
     (if reverse then rev (sort_key key (rev rows)) else sort_key key rows)"

definition select_fields :: "string list option \<Rightarrow> row_dict \<Rightarrow> row_dict" where
  "select_fields sel d =
     (case sel of None \<Rightarrow> d
      | Some ks \<Rightarrow> if ks = [] then d else filter (\<lambda>(k, _). k \<in> set ks) d)"

text \<open>\<open>_materialize_page\<close>: the item builder of threads, or the dictionary view projected.\<close>

definition materialize_page ::
  "('r \<Rightarrow> row_dict) option \<Rightarrow> ('r \<Rightarrow> row_dict) \<Rightarrow> string list option \<Rightarrow> 'r list \<Rightarrow> row_dict list" where
  "materialize_page item_fn to_dict sel page =
     (case item_fn of Some f \<Rightarrow> map f page | None \<Rightarrow> map (\<lambda>r. select_fields sel (to_dict r)) page)"

record 'r search_args =
  sr_meta :: "'r \<Rightarrow> dict"
  sr_attrs :: "'r \<Rightarrow> row_dict"
  sr_build :: "'r list \<Rightarrow> row_dict list"
  sr_sort_by :: "string option"
  sr_sort_order :: "string option"
  sr_offset :: nat
  sr_limit :: nat
  sr_allowed :: "string list"
  sr_default :: string

definition search_with_python_filter ::
  "'r search_args \<Rightarrow> json \<Rightarrow> 'r list \<Rightarrow> (row_dict list \<times> nat option) res" where
  "search_with_python_filter q filters rows =
     rbind (rfilter (\<lambda>r. filter_match (sr_meta q r) filters) rows) (\<lambda>kept.
     rbind (resolve_sort_field (sr_sort_by q) (sr_allowed q) (sr_default q) False) (\<lambda>sb.
       let sorted = sort_rows (sort_reverse (sr_sort_order q)) (\<lambda>r. row_sort_key (sr_attrs q r) sb) kept;
           page = take (sr_limit q) (drop (sr_offset q) sorted);
           cursor = (if length sorted > sr_offset q + sr_limit q
                     then Some (sr_offset q + sr_limit q) else None)
       in Inr (sr_build q page, cursor)))"

definition search_with_db_sort ::
  "'r search_args \<Rightarrow> 'r list \<Rightarrow> (row_dict list \<times> nat option) res" where
  "search_with_db_sort q rows =
     rbind (resolve_sort_field (sr_sort_by q) (sr_allowed q) (sr_default q) False) (\<lambda>sb.
       let sorted = sort_rows (sort_reverse (sr_sort_order q)) (\<lambda>r. row_sort_key (sr_attrs q r) sb) rows;
           fetched = take (sr_limit q + 1) (drop (sr_offset q) sorted);
           cursor = (if length fetched > sr_limit q then Some (sr_offset q + sr_limit q) else None)
       in Inr (sr_build q (take (sr_limit q) fetched), cursor))"

text \<open>The choice between the two that every \<open>search\<close> makes, after its own conditions.\<close>

definition search_rows ::
  "'r search_args \<Rightarrow> json \<Rightarrow> 'r list \<Rightarrow> (row_dict list \<times> nat option) res" where
  "search_rows q filters rows =
     (case plain_metadata_filter filters of
        Some plain \<Rightarrow>
          if plain \<noteq> []
          then search_with_db_sort q
                 (filter (\<lambda>r. jsonb_contains (JObj (sr_meta q r)) (JObj plain)) rows)
          else if truthy filters then search_with_python_filter q filters rows
          else search_with_db_sort q rows
      | None \<Rightarrow>
          if truthy filters then search_with_python_filter q filters rows
          else search_with_db_sort q rows)"

definition count_with_auth ::
  "('r \<Rightarrow> dict) \<Rightarrow> ('r \<Rightarrow> bool) \<Rightarrow> json \<Rightarrow> 'r list \<Rightarrow> nat res" where
  "count_with_auth meta clauses filters rows =
     (let plain = plain_metadata_filter filters in
      if truthy filters \<and> plain = None then
        rbind (rfilter (\<lambda>r. filter_match (meta r) filters) (filter clauses rows)) (\<lambda>kept.
          Inr (length kept))
      else case plain of
          Some p \<Rightarrow>
            Inr (length (filter (\<lambda>r. clauses r \<and>
              (p \<noteq> [] \<longrightarrow> jsonb_contains (JObj (meta r)) (JObj p))) rows))
        | None \<Rightarrow> Inr (length (filter clauses rows)))"

definition assistant_where_clauses ::
  "api \<Rightarrow> string option \<Rightarrow> string option \<Rightarrow> dict \<Rightarrow> assistant_row \<Rightarrow> bool" where
  "assistant_where_clauses a graph_id name metadata r =
     ((case graph_id of None \<Rightarrow> True | Some g \<Rightarrow> g = [] \<or> as_graph_id r = g) \<and>
      (case name of None \<Rightarrow> True | Some n \<Rightarrow> n = [] \<or> name_ilike (api_fold a) n (as_name r)) \<and>
      (metadata \<noteq> [] \<longrightarrow> jsonb_contains (JObj (as_metadata r)) (JObj metadata)))"

definition thread_where_clauses :: "dict \<Rightarrow> dict \<Rightarrow> string option \<Rightarrow> thread_row \<Rightarrow> bool" where
  "thread_where_clauses metadata wanted status r =
     ((metadata \<noteq> [] \<longrightarrow> jsonb_contains (JObj (th_metadata r)) (JObj metadata)) \<and>
      (wanted \<noteq> [] \<longrightarrow> jsonb_contains (th_values r) (JObj wanted)) \<and>
      (case status of None \<Rightarrow> True | Some s \<Rightarrow> s = [] \<or> th_status r = s))"

definition cron_where_clauses :: "uuid option \<Rightarrow> uuid option \<Rightarrow> dict option \<Rightarrow> cron_row \<Rightarrow> bool" where
  "cron_where_clauses assistant_id thread_id metadata r =
     ((case assistant_id of None \<Rightarrow> True | Some k \<Rightarrow> cr_assistant_id r = k) \<and>
      (case thread_id of None \<Rightarrow> True | Some k \<Rightarrow> cr_thread_id r = Some k) \<and>
      (case metadata of None \<Rightarrow> True
       | Some m \<Rightarrow> m \<noteq> [] \<longrightarrow> jsonb_contains (JObj (cr_metadata r)) (JObj m)))"

section \<open>Configuration and context\<close>

text \<open>
  \<open>_normalize_config_context\<close>: configurable settings given either way end up in both; the request
  schema makes \<open>configurable\<close> an object.
\<close>

definition normalize_config_context :: "dict \<Rightarrow> dict \<Rightarrow> (dict \<times> dict) res" where
  "normalize_config_context config context =
     (if truthy (dget config ''configurable'') \<and> context \<noteq> []
      then Inl (HTTPException 400 ''Cannot specify both configurable and context.'')
      else if truthy (dget config ''configurable'')
        then Inr (config, obj_of (dget config ''configurable''))
      else if context \<noteq> [] then Inr (dset ''configurable'' (JObj context) config, context)
      else Inr (config, context))"

section \<open>Work in flight\<close>

text \<open>\<open>hb\<close> is \<open>has_run_heartbeat\<close>: alive, gone, or \<open>None\<close> when Redis cannot tell.\<close>

definition thread_has_live_worker :: "(uuid \<Rightarrow> bool option) \<Rightarrow> uuid \<Rightarrow> db \<Rightarrow> bool" where
  "thread_has_live_worker hb t d =
     list_ex (\<lambda>r. run_thread_id r = Some t \<and>
        run_status r \<in> set [''pending'', ''running'', ''interrupted''] \<and> hb (run_id r) \<noteq> Some False)
       (db_runs d)"

definition pending_runs :: "uuid \<Rightarrow> db \<Rightarrow> run_row list" where
  "pending_runs t d =
     filter (\<lambda>r. run_thread_id r = Some t \<and> run_status r \<in> set [''pending'', ''running''])
       (db_runs d)"

definition thread_has_inflight_work :: "(uuid \<Rightarrow> bool option) \<Rightarrow> uuid \<Rightarrow> db \<Rightarrow> bool" where
  "thread_has_inflight_work hb t d = (pending_runs t d \<noteq> [] \<or> thread_has_live_worker hb t d)"

definition delete_retry_counters :: "uuid list \<Rightarrow> db \<Rightarrow> db" where
  "delete_retry_counters ids d =
     d\<lparr>db_retry_counters := filter (\<lambda>c. rc_run_id c \<notin> set ids) (db_retry_counters d)\<rparr>"

section \<open>What a search returns\<close>

text \<open>
  The reference: the admitted rows in order, the page at the offset, and a cursor exactly when
  rows remain behind the page.
\<close>

definition search_spec :: "'r search_args \<Rightarrow> 'r list \<Rightarrow> (row_dict list \<times> nat option) res" where
  "search_spec q rows =
     rbind (resolve_sort_field (sr_sort_by q) (sr_allowed q) (sr_default q) False) (\<lambda>sb.
       let sorted = sort_rows (sort_reverse (sr_sort_order q)) (\<lambda>r. row_sort_key (sr_attrs q r) sb) rows
       in Inr (sr_build q (take (sr_limit q) (drop (sr_offset q) sorted)),
               if length sorted > sr_offset q + sr_limit q then Some (sr_offset q + sr_limit q)
               else None))"

lemma mset_sort_rows [simp]: "mset (sort_rows rev' key rows) = mset rows"
  by (simp add: sort_rows_def)

lemma length_sort_rows [simp]: "length (sort_rows rev' key rows) = length rows"
  by (metis mset_sort_rows size_mset)

lemma set_sort_rows [simp]: "set (sort_rows rev' key rows) = set rows"
  by (metis mset_sort_rows set_mset_mset)

lemma sort_rows_sorted:
  "sorted (map key (if rev' then rev (sort_rows rev' key rows) else sort_rows rev' key rows))"
  by (simp add: sort_rows_def)

lemma rfilter_total:
  "(\<And>x. x \<in> set xs \<Longrightarrow> p x = Inr (q x)) \<Longrightarrow> rfilter p xs = Inr (filter q xs)"
  by (induction xs) simp_all

lemma rfilter_Inr:
  "rfilter p xs = Inr ys \<Longrightarrow> ys = filter (\<lambda>x. p x = Inr True) xs \<and> (\<forall>x \<in> set xs. \<exists>b. p x = Inr b)"
proof (induction xs arbitrary: ys)
  case (Cons x xs)
  then obtain b zs where "p x = Inr b" "rfilter p xs = Inr zs" "ys = (if b then x # zs else zs)"
    by (auto simp: rbind_eq_Inr)
  with Cons.IH [of zs] show ?case by (cases b) auto
qed simp

lemma db_search_spec: "search_with_db_sort q rows = search_spec q rows"
proof -
  have t: "take l (take (l + 1) xs) = take l xs" for l and xs :: "'b list"
    by (simp add: min_def)
  have c: "length (take (l + 1) (drop k xs)) > l \<longleftrightarrow> length xs > k + l" for l k and xs :: "'b list"
    by auto
  show ?thesis
    unfolding search_with_db_sort_def search_spec_def Let_def t c ..
qed

lemma python_search_spec:
  "search_with_python_filter q filters rows =
     rbind (rfilter (\<lambda>r. filter_match (sr_meta q r) filters) rows) (search_spec q)"
  by (simp add: search_with_python_filter_def search_spec_def [abs_def] Let_def)

text \<open>Filters that compare keys with strings: the fragment the database evaluates alike.\<close>

definition string_filter :: "dict \<Rightarrow> bool" where
  "string_filter f = list_all (\<lambda>(k, v). \<not> starts_with ''$'' k \<and> is_str v) f"

lemma string_filter_plain: "string_filter f \<Longrightarrow> f \<noteq> [] \<Longrightarrow> plain_metadata_filter (JObj f) = Some f"
proof -
  assume f: "string_filter f" "f \<noteq> []"
  have "\<not> list_ex (\<lambda>(k, v). starts_with ''$'' k \<or>
         (case v of JObj d \<Rightarrow> list_ex (\<lambda>(k', _). starts_with ''$'' k') d | _ \<Rightarrow> False)) f"
    using f(1) by (auto simp: string_filter_def list_ex_iff list_all_iff dest!: is_str_cases)
  with f(2) show ?thesis by (simp add: plain_metadata_filter_def)
qed

lemma string_filter_simple: "string_filter f \<Longrightarrow> simple_items f"
  unfolding string_filter_def simple_items_def
  by (induction f) (auto dest: is_str_cases)

lemma string_filter_kv:
  "string_filter f \<Longrightarrow> check_kv_filters m f = Inr (jsonb_contains (JObj m) (JObj f))"
proof (induction f)
  case (Cons a f)
  obtain k v where a: "a = (k, v)" by (cases a)
  from Cons.prems a obtain s where v: "v = JStr s" and f: "string_filter f"
    by (auto simp: string_filter_def dest: is_str_cases)
  show ?case using Cons.IH [OF f] by (auto simp: a v split: option.split)
qed simp

lemma string_filter_match:
  "string_filter f \<Longrightarrow> filter_match m (JObj f) = Inr (jsonb_contains (JObj m) (JObj f))"
proof -
  assume f: "string_filter f"
  show ?thesis
  proof (cases "f = []")
    case True
    then show ?thesis by (simp add: filter_match_def check_filter_match.simps)
  next
    case False
    then show ?thesis
      using string_filter_kv [OF f] no_groups [OF string_filter_simple [OF f]]
      by (simp add: filter_match_def numeral_3_eq_3 check_filter_match.simps [of "Suc _"])
  qed
qed

text \<open>Filters on which the pushed-down condition and the evaluation in Python agree.\<close>

definition pushable :: "json \<Rightarrow> bool" where
  "pushable filters =
     (\<not> truthy filters \<or> plain_metadata_filter filters = None \<or>
      (case filters of JObj f \<Rightarrow> string_filter f | _ \<Rightarrow> False))"

lemma search_rows_spec:
  assumes "pushable filters"
  shows "search_rows q filters rows =
    rbind (rfilter (\<lambda>r. filter_match (sr_meta q r) filters) rows) (search_spec q)"
proof -
  consider (none) "\<not> truthy filters" | (python) "truthy filters" "plain_metadata_filter filters = None"
    | (strings) f where "filters = JObj f" "string_filter f" "f \<noteq> []"
    using assms by (cases filters) (auto simp: pushable_def)
  then show ?thesis
  proof cases
    case none
    then have "rfilter (\<lambda>r. filter_match (sr_meta q r) filters) rows = Inr rows"
      by (subst rfilter_total [where q = "\<lambda>_. True"])
        (simp_all add: filter_match_def check_filter_match.simps)
    with none show ?thesis
      by (simp add: search_rows_def plain_metadata_filter_def db_search_spec)
  next
    case python
    then show ?thesis by (simp add: search_rows_def python_search_spec)
  next
    case strings
    then have "rfilter (\<lambda>r. filter_match (sr_meta q r) filters) rows =
        Inr (filter (\<lambda>r. jsonb_contains (JObj (sr_meta q r)) (JObj f)) rows)"
      by (intro rfilter_total) (simp add: string_filter_match)
    with strings string_filter_plain [OF strings(2,3)] show ?thesis
      by (simp add: search_rows_def db_search_spec)
  qed
qed

text \<open>The pages at the multiples of a limit are the whole list, and the cursor ends with the last.\<close>

lemma concat_pages:
  "0 < l \<Longrightarrow> length xs \<le> n * l \<Longrightarrow> concat (map (\<lambda>k. take l (drop (k * l) xs)) [0..<n]) = xs"
proof (induction n arbitrary: xs)
  case (Suc n)
  have "concat (map (\<lambda>k. take l (drop (k * l) xs)) [0..<Suc n]) =
      take l xs @ concat (map (\<lambda>k. take l (drop (k * l) (drop l xs))) [0..<n])"
    by (simp add: upt_conv_Cons map_Suc_upt [symmetric] comp_def add.commute del: upt_Suc)
  also have "\<dots> = take l xs @ drop l xs"
    using Suc.IH [of "drop l xs"] Suc.prems by simp
  finally show ?case by simp
qed simp

end
