(* ===== verification/AssistantOps.thy ===== *)
theory AssistantOps
  imports OpsCommon
begin

text \<open>
  \<open>Assistants\<close> of \<open>ops.py\<close>: search, get, put, patch, set_latest, get_versions and count. Every
  edit of an assistant writes a version row with the fields it leaves; the invariant
  \<open>assistants_wf\<close> says that an assistant's current fields are those of the version row it names.
  Iterators are the lists they yield. \<open>delete\<close> needs threads and runs and follows those theories.
\<close>

section \<open>Reading\<close>

definition assistant_query :: "api \<Rightarrow> string option \<Rightarrow> string option \<Rightarrow> dict \<Rightarrow> db \<Rightarrow> assistant_row list" where
  "assistant_query a graph_id name metadata d =
     filter (assistant_where_clauses a graph_id name metadata) (db_assistants d)"

definition assistant_search_args ::
  "string option \<Rightarrow> string option \<Rightarrow> nat \<Rightarrow> nat \<Rightarrow> string list option \<Rightarrow> assistant_row search_args" where
  "assistant_search_args sort_by sort_order offset limit sel =
     \<lparr>sr_meta = as_metadata, sr_attrs = assistant_attrs,
      sr_build = materialize_page None assistant_to_dict sel,
      sr_sort_by = sort_by, sr_sort_order = sort_order, sr_offset = offset, sr_limit = limit,
      sr_allowed = ASSISTANT_SORT_FIELDS, sr_default = ''created_at''\<rparr>"

definition opt_graph_exists :: "api \<Rightarrow> string option \<Rightarrow> unit res" where
  "opt_graph_exists a graph_id =
     (case graph_id of None \<Rightarrow> Inr () | Some g \<Rightarrow> assert_graph_exists a g)"

definition assistants_search ::
  "api \<Rightarrow> caller option \<Rightarrow> string option \<Rightarrow> string option \<Rightarrow> dict option \<Rightarrow> nat \<Rightarrow> nat \<Rightarrow>
   string option \<Rightarrow> string option \<Rightarrow> string list option \<Rightarrow> db \<Rightarrow> (row_dict list \<times> nat option) res" where
  "assistants_search a ctx graph_id name metadata limit offset sort_by sort_order sel d =
     rbind (handle_event a ''assistants'' ctx ''search''
       [(''graph_id'', json_opt graph_id),
        (''metadata'', JObj (case metadata of None \<Rightarrow> [] | Some m \<Rightarrow> m)),
        (''limit'', JInt (int limit)), (''offset'', JInt (int offset))]) (\<lambda>(filters, payload).
     rbind (opt_graph_exists a graph_id) (\<lambda>_.
       search_rows (assistant_search_args sort_by sort_order offset limit sel) filters
         (assistant_query a graph_id name (obj_of (dget payload ''metadata'')) d)))"

definition assistants_get ::
  "api \<Rightarrow> caller option \<Rightarrow> uuid \<Rightarrow> db \<Rightarrow> row_dict list res" where
  "assistants_get a ctx k d =
     rbind (handle_event a ''assistants'' ctx ''read'' [(''assistant_id'', JStr (uuid_str k))])
       (\<lambda>(filters, _).
        case get_assistant k d of
          None \<Rightarrow> Inr []
        | Some r \<Rightarrow>
            rbind (auth_denies (Some (as_metadata r)) filters) (\<lambda>denied.
              Inr (if denied then [] else [assistant_to_dict r])))"

definition assistants_count ::
  "api \<Rightarrow> caller option \<Rightarrow> string option \<Rightarrow> string option \<Rightarrow> dict option \<Rightarrow> db \<Rightarrow> nat res" where
  "assistants_count a ctx graph_id name metadata d =
     rbind (handle_event a ''assistants'' ctx ''search''
       [(''graph_id'', json_opt graph_id),
        (''metadata'', JObj (case metadata of None \<Rightarrow> [] | Some m \<Rightarrow> m)),
        (''limit'', JInt 0), (''offset'', JInt 0)]) (\<lambda>(filters, payload).
     rbind (opt_graph_exists a graph_id) (\<lambda>_.
       count_with_auth as_metadata
         (assistant_where_clauses a graph_id name (obj_of (dget payload ''metadata''))) filters
         (db_assistants d)))"

text \<open>The row by primary key that the caller may see, or 404.\<close>

definition visible_assistant :: "json \<Rightarrow> uuid \<Rightarrow> db \<Rightarrow> assistant_row res" where
  "visible_assistant filters k d =
     (case get_assistant k d of
        None \<Rightarrow> Inl (HTTPException 404 (''Assistant '' @ uuid_str k @ '' not found''))
      | Some r \<Rightarrow>
          rbind (auth_denies (Some (as_metadata r)) filters) (\<lambda>denied.
            if denied then Inl (HTTPException 404 (''Assistant '' @ uuid_str k @ '' not found''))
            else Inr r))"

definition version_key :: "assistant_version_row \<Rightarrow> uuid \<times> int" where
  "version_key v = (av_assistant_id v, av_version v)"

fun neg_version :: "assistant_version_row \<Rightarrow> int" where
  "neg_version v = - av_version v"

text \<open>Filtered rows are dropped after the page was cut, so a page may be short.\<close>

definition assistants_get_versions ::
  "api \<Rightarrow> caller option \<Rightarrow> uuid \<Rightarrow> dict option \<Rightarrow> nat \<Rightarrow> nat \<Rightarrow> db \<Rightarrow> row_dict list res" where
  "assistants_get_versions a ctx k metadata limit offset d =
     rbind (handle_event a ''assistants'' ctx ''read'' [(''assistant_id'', JStr (uuid_str k))])
       (\<lambda>(filters, _).
        case get_assistant k d of
          None \<Rightarrow> Inl (HTTPException 404 (''Assistant '' @ uuid_str k @ '' not found''))
        | Some r \<Rightarrow>
            (let m = (case metadata of None \<Rightarrow> [] | Some m \<Rightarrow> m);
                 rows = filter (\<lambda>v. av_assistant_id v = k \<and>
                     (m \<noteq> [] \<longrightarrow> jsonb_contains (JObj (av_metadata v)) (JObj m))) (db_versions d);
                 page = take limit (drop offset (sort_key neg_version rows))
             in rbind (rfilter (\<lambda>v. rbind (auth_denies (Some (av_metadata v)) filters) (\<lambda>x. Inr (\<not> x))) page)
                  (\<lambda>kept. Inr (map (\<lambda>v.
                     rset_default ''description'' (cell_text (as_description r))
                       (rset_default ''name'' (CJson (JStr (as_name r))) (assistant_version_to_dict v)))
                     kept))))"

section \<open>Writing\<close>

definition handle_existing_assistant ::
  "assistant_row option \<Rightarrow> uuid \<Rightarrow> string \<Rightarrow> json \<Rightarrow> row_dict list res" where
  "handle_existing_assistant existing k if_exists filters =
     (let taken = Inl (HTTPException 409 (''Assistant '' @ uuid_str k @ '' already exists'')) in
      case existing of
        None \<Rightarrow> taken
      | Some r \<Rightarrow>
          rbind (auth_denies (Some (as_metadata r)) filters) (\<lambda>denied.
            if denied then taken else if if_exists = ''raise'' then taken
            else Inr [assistant_to_dict r]))"

text \<open>
  \<open>put\<close> looks the assistant up in \<open>d0\<close> and inserts into \<open>d1\<close>, the database as other requests have
  left it by then; both inserts do nothing on a conflict.
\<close>

record assistant_args =
  aa_graph_id :: string
  aa_config :: dict
  aa_context :: dict
  aa_metadata :: dict
  aa_name :: string
  aa_description :: "string option"

definition new_assistant :: "env \<Rightarrow> uuid \<Rightarrow> assistant_args \<Rightarrow> assistant_row" where
  "new_assistant e k x =
     \<lparr>as_id = k, as_graph_id = aa_graph_id x, as_name = aa_name x,
      as_description = aa_description x, as_config = aa_config x, as_context = aa_context x,
      as_metadata = aa_metadata x, as_version = 1, as_created_at = e_now e,
      as_updated_at = e_now e\<rparr>"

definition version_of :: "time \<Rightarrow> assistant_row \<Rightarrow> assistant_version_row" where
  "version_of now r =
     \<lparr>av_assistant_id = as_id r, av_version = as_version r, av_graph_id = as_graph_id r,
      av_config = as_config r, av_context = as_context r, av_metadata = as_metadata r,
      av_name = as_name r, av_description = as_description r, av_created_at = now\<rparr>"

definition insert_assistant :: "env \<Rightarrow> uuid \<Rightarrow> assistant_args \<Rightarrow> db \<Rightarrow> db" where
  "insert_assistant e k x d =
     (let r = new_assistant e k x; v = version_of (e_now e) r
      in d\<lparr>db_assistants := db_assistants d @ [r],
           db_versions := (if version_key v \<in> version_key ` set (db_versions d)
                           then db_versions d else db_versions d @ [v])\<rparr>)"

definition assistants_put ::
  "api \<Rightarrow> env \<Rightarrow> caller option \<Rightarrow> uuid \<Rightarrow> assistant_args \<Rightarrow> string \<Rightarrow> db \<Rightarrow> db \<Rightarrow> (row_dict list \<times> db) res" where
  "assistants_put a e ctx k x if_exists d0 d1 =
     rbind (handle_event a ''assistants'' ctx ''create''
       [(''assistant_id'', JStr (uuid_str k)), (''graph_id'', JStr (aa_graph_id x)),
        (''config'', JObj (aa_config x)), (''context'', JObj (aa_context x)),
        (''metadata'', JObj (aa_metadata x)), (''name'', JStr (aa_name x))]) (\<lambda>(filters, payload).
     rbind (assert_graph_exists a (aa_graph_id x)) (\<lambda>_.
     rbind (normalize_config_context (obj_of (dget payload ''config''))
              (obj_of (dget payload ''context''))) (\<lambda>(config, context).
       case get_assistant k d0 of
         Some r \<Rightarrow> rbind (handle_existing_assistant (Some r) k if_exists filters) (\<lambda>ys. Inr (ys, d1))
       | None \<Rightarrow>
           (case get_assistant k d1 of
              Some r \<Rightarrow>
                rbind (handle_existing_assistant (Some r) k if_exists filters) (\<lambda>ys. Inr (ys, d1))
            | None \<Rightarrow>
                (let x' = x\<lparr>aa_config := config, aa_context := context,
                             aa_metadata := obj_of (dget payload ''metadata'')\<rparr>
                 in Inr ([assistant_to_dict (new_assistant e k x')], insert_assistant e k x' d1))))))"

record assistant_patch =
  ap_graph_id :: "string option"
  ap_config :: "dict option"
  ap_context :: "dict option"
  ap_metadata :: "dict option"
  ap_name :: "string option"
  ap_description :: "string option"

text \<open>
  \<open>_apply_assistant_patch_fields\<close> after \<open>patch\<close> has replaced an absent configuration, context and
  metadata by empty dictionaries.
\<close>

definition patched_assistant ::
  "time \<Rightarrow> int \<Rightarrow> assistant_patch \<Rightarrow> dict \<Rightarrow> dict option \<Rightarrow> dict \<Rightarrow> assistant_row \<Rightarrow> assistant_row" where
  "patched_assistant now version p config context metadata r =
     r\<lparr>as_graph_id := (case ap_graph_id p of None \<Rightarrow> as_graph_id r | Some g \<Rightarrow> g),
       as_config := (if config \<noteq> [] then config else as_config r),
       as_context := (case context of None \<Rightarrow> as_context r | Some c \<Rightarrow> c),
       as_metadata := (if metadata \<noteq> [] then dmerge (as_metadata r) metadata else as_metadata r),
       as_name := (case ap_name p of None \<Rightarrow> as_name r | Some n \<Rightarrow> n),
       as_description := (case ap_description p of None \<Rightarrow> as_description r | Some x \<Rightarrow> Some x),
       as_updated_at := now, as_version := version\<rparr>"

definition next_version :: "uuid \<Rightarrow> db \<Rightarrow> int" where
  "next_version k d =
     max_or0 (map av_version (filter (\<lambda>v. av_assistant_id v = k) (db_versions d))) + 1"

definition assistants_patch ::
  "api \<Rightarrow> env \<Rightarrow> caller option \<Rightarrow> uuid \<Rightarrow> assistant_patch \<Rightarrow> db \<Rightarrow> (row_dict list \<times> db) res" where
  "assistants_patch a e ctx k p d =
     rbind (handle_event a ''assistants'' ctx ''update''
       [(''assistant_id'', JStr (uuid_str k)), (''graph_id'', json_opt (ap_graph_id p)),
        (''config'', JObj (case ap_config p of None \<Rightarrow> [] | Some c \<Rightarrow> c)),
        (''metadata'', JObj (case ap_metadata p of None \<Rightarrow> [] | Some m \<Rightarrow> m))]) (\<lambda>(filters, payload).
     rbind (opt_graph_exists a (ap_graph_id p)) (\<lambda>_.
     rbind (normalize_config_context (obj_of (dget payload ''config''))
              (case ap_context p of None \<Rightarrow> [] | Some c \<Rightarrow> c)) (\<lambda>(config, context).
     rbind (visible_assistant filters k d) (\<lambda>r.
       let r' = patched_assistant (e_now e) (next_version k d) p config (Some context)
                  (obj_of (dget payload ''metadata'')) r;
           d' = upd_assistant k (\<lambda>_. r') d
       in Inr ([assistant_to_dict r'],
               d'\<lparr>db_versions := db_versions d' @ [version_of (e_now e) r']\<rparr>)))))"

definition restored_assistant :: "time \<Rightarrow> assistant_version_row \<Rightarrow> assistant_row \<Rightarrow> assistant_row" where
  "restored_assistant now v r =
     r\<lparr>as_graph_id := av_graph_id v, as_config := av_config v, as_context := av_context v,
       as_metadata := av_metadata v, as_version := av_version v, as_updated_at := now,
       as_name := av_name v, as_description := av_description v\<rparr>"

definition assistants_set_latest ::
  "api \<Rightarrow> env \<Rightarrow> caller option \<Rightarrow> uuid \<Rightarrow> int \<Rightarrow> db \<Rightarrow> (row_dict list \<times> db) res" where
  "assistants_set_latest a e ctx k version d =
     rbind (handle_event a ''assistants'' ctx ''update''
       [(''assistant_id'', JStr (uuid_str k)), (''version'', JInt version)]) (\<lambda>(filters, _).
     rbind (visible_assistant filters k d) (\<lambda>r.
       case t_get version_key (k, version) (db_versions d) of
         None \<Rightarrow> Inl (HTTPException 404 (''Version '' @ int_str version @ '' not found''))
       | Some v \<Rightarrow>
           (let r' = restored_assistant (e_now e) v r
            in Inr ([assistant_to_dict r'], upd_assistant k (\<lambda>_. r') d))))"

section \<open>The version history\<close>

definition records :: "assistant_version_row \<Rightarrow> assistant_row \<Rightarrow> bool" where
  "records v r =
     (version_key v = (as_id r, as_version r) \<and> av_graph_id v = as_graph_id r \<and>
      av_config v = as_config r \<and> av_context v = as_context r \<and> av_metadata v = as_metadata r \<and>
      av_name v = as_name r \<and> av_description v = as_description r)"

definition assistants_wf :: "db \<Rightarrow> bool" where
  "assistants_wf d =
     (distinct (map as_id (db_assistants d)) \<and> distinct (map version_key (db_versions d)) \<and>
      (\<forall>r \<in> set (db_assistants d). \<exists>v \<in> set (db_versions d). records v r) \<and>
      (\<forall>v \<in> set (db_versions d). av_assistant_id v \<in> as_id ` set (db_assistants d) \<and> 1 \<le> av_version v))"

lemma assistants_wfI:
  assumes "distinct (map as_id (db_assistants d))" "distinct (map version_key (db_versions d))"
    and "\<And>r. r \<in> set (db_assistants d) \<Longrightarrow> \<exists>v \<in> set (db_versions d). records v r"
    and "\<And>v. v \<in> set (db_versions d) \<Longrightarrow>
      av_assistant_id v \<in> as_id ` set (db_assistants d) \<and> 1 \<le> av_version v"
  shows "assistants_wf d"
  using assms by (simp add: assistants_wf_def)

lemma records_version_of [simp]: "records (version_of now r) r"
  by (simp add: records_def version_of_def version_key_def)

lemma version_of_simps [simp]:
  "av_assistant_id (version_of now r) = as_id r" "av_version (version_of now r) = as_version r"
  "version_key (version_of now r) = (as_id r, as_version r)"
  by (simp_all add: version_of_def version_key_def)

lemma patched_simps [simp]:
  "as_id (patched_assistant now n p c x m r) = as_id r"
  "as_version (patched_assistant now n p c x m r) = n"
  by (simp_all add: patched_assistant_def)

lemma restored_simps [simp]:
  "as_id (restored_assistant now v r) = as_id r"
  "as_version (restored_assistant now v r) = av_version v"
  by (simp_all add: restored_assistant_def)

lemma visible_Inr: "visible_assistant filters k d = Inr r \<Longrightarrow> get_assistant k d = Some r"
  by (auto simp: visible_assistant_def rbind_eq_Inr split: option.splits if_splits)

lemma next_version_fresh:
  assumes "v \<in> set (db_versions d)" "av_assistant_id v = k"
  shows "av_version v < next_version k d"
proof -
  have "av_version v \<le> max_or0 (map av_version (filter (\<lambda>v. av_assistant_id v = k) (db_versions d)))"
    using assms by (intro max_or0_ge) auto
  then show ?thesis by (simp add: next_version_def)
qed

lemma next_version_pos: "assistants_wf d \<Longrightarrow> 1 \<le> next_version k d"
  using max_or0_cases [of "map av_version (filter (\<lambda>v. av_assistant_id v = k) (db_versions d))"]
  by (force simp: next_version_def assistants_wf_def)

text \<open>Replacing an assistant's row by one that some version row records keeps the invariant.\<close>

lemma replace_assistant_wf:
  assumes wf: "assistants_wf d" and get: "get_assistant k d = Some r" and id: "as_id r' = k"
    and vs: "set (db_versions d) \<subseteq> set vs" "distinct (map version_key vs)"
    and rec: "\<exists>v \<in> set vs. records v r'"
    and new: "\<And>v. v \<in> set vs \<Longrightarrow> v \<notin> set (db_versions d) \<Longrightarrow> av_assistant_id v = k \<and> 1 \<le> av_version v"
  shows "assistants_wf ((upd_assistant k (\<lambda>_. r') d)\<lparr>db_versions := vs\<rparr>)"
proof (rule assistants_wfI; simp add: upd_assistant_def)
  let ?as = "t_upd as_id k (\<lambda>_. r') (db_assistants d)"
  have k: "k \<in> as_id ` set (db_assistants d)"
    using assistants_t.get_Some [OF get] by auto
  have ids: "map as_id ?as = map as_id (db_assistants d)"
    using id by (auto simp: t_upd_def)
  show "distinct (map as_id ?as)"
    using wf by (simp add: ids assistants_wf_def)
  show "distinct (map version_key vs)" by (rule vs)
  show "\<exists>v \<in> set vs. records v x" if "x \<in> set ?as" for x
  proof (cases "x = r'")
    case False
    with that have "x \<in> set (db_assistants d)" by (auto simp: set_t_upd split: if_splits)
    with wf obtain v where "v \<in> set (db_versions d)" "records v x" by (auto simp: assistants_wf_def)
    with vs(1) show ?thesis by blast
  qed (use rec in blast)
  have img: "as_id ` set ?as = as_id ` set (db_assistants d)"
    using ids by (metis list.set_map)
  show "av_assistant_id v \<in> as_id ` set ?as \<and> 1 \<le> av_version v" if "v \<in> set vs" for v
    using that wf new [of v] k unfolding img by (cases "v \<in> set (db_versions d)") (auto simp: assistants_wf_def)
qed

lemma patch_Inr:
  assumes "assistants_patch a e ctx k p d = Inr (ys, d')"
  obtains r cf cx md where "get_assistant k d = Some r"
    "ys = [assistant_to_dict (patched_assistant (e_now e) (next_version k d) p cf (Some cx) md r)]"
    "d' = (upd_assistant k
             (\<lambda>_. patched_assistant (e_now e) (next_version k d) p cf (Some cx) md r) d)
          \<lparr>db_versions := db_versions d @ [version_of (e_now e)
             (patched_assistant (e_now e) (next_version k d) p cf (Some cx) md r)]\<rparr>"
  using assms
  by (auto simp: assistants_patch_def rbind_eq_Inr Let_def upd_assistant_def dest!: visible_Inr
      split: prod.splits)

lemma patch_wf:
  assumes "assistants_wf d" "assistants_patch a e ctx k p d = Inr (ys, d')"
  shows "assistants_wf d'"
proof -
  obtain r cf cx md where get: "get_assistant k d = Some r"
    and d': "d' = (upd_assistant k
             (\<lambda>_. patched_assistant (e_now e) (next_version k d) p cf (Some cx) md r) d)
          \<lparr>db_versions := db_versions d @ [version_of (e_now e)
             (patched_assistant (e_now e) (next_version k d) p cf (Some cx) md r)]\<rparr>"
    using patch_Inr [OF assms(2)] by metis
  have id: "as_id r = k" using assistants_t.get_Some [OF get] by simp
  have fresh: "(k, next_version k d) \<notin> version_key ` set (db_versions d)"
    using next_version_fresh by (fastforce simp: version_key_def)
  show ?thesis
    unfolding d'
    by (rule replace_assistant_wf [OF assms(1) get])
      (use assms(1) fresh next_version_pos [OF assms(1)] in \<open>auto simp: id assistants_wf_def\<close>)
qed

lemma set_latest_Inr:
  assumes "assistants_set_latest a e ctx k n d = Inr (ys, d')"
  obtains r v where "get_assistant k d = Some r" "t_get version_key (k, n) (db_versions d) = Some v"
    "d' = upd_assistant k (\<lambda>_. restored_assistant (e_now e) v r) d"
    "ys = [assistant_to_dict (restored_assistant (e_now e) v r)]"
  using assms
  by (auto simp: assistants_set_latest_def rbind_eq_Inr Let_def dest!: visible_Inr
      split: option.splits prod.splits)

lemma records_restored:
  "version_key v = (as_id r, n) \<Longrightarrow> records v (restored_assistant now v r)"
  by (simp add: records_def restored_assistant_def version_key_def)

lemma set_latest_wf:
  assumes "assistants_wf d" "assistants_set_latest a e ctx k n d = Inr (ys, d')"
  shows "assistants_wf d'"
proof -
  obtain r v where r: "get_assistant k d = Some r"
    and v: "t_get version_key (k, n) (db_versions d) = Some v"
    and d': "d' = upd_assistant k (\<lambda>_. restored_assistant (e_now e) v r) d"
    using set_latest_Inr [OF assms(2)] by metis
  have id: "as_id r = k" using assistants_t.get_Some [OF r] by simp
  have vk: "v \<in> set (db_versions d)" "version_key v = (k, n)" using t_get_Some [OF v] by auto
  have e: "d' = (upd_assistant k (\<lambda>_. restored_assistant (e_now e) v r) d)\<lparr>db_versions := db_versions d\<rparr>"
    by (simp add: d' upd_assistant_def)
  have "records v (restored_assistant (e_now e) v r)"
    using vk id by (intro records_restored [where n = n]) simp
  with vk(1) show ?thesis
    unfolding e
    by (intro replace_assistant_wf [OF assms(1) r]) (use assms(1) id in \<open>auto simp: assistants_wf_def\<close>)
qed

lemma insert_wf:
  assumes "assistants_wf d" "get_assistant k d = None"
  shows "assistants_wf (insert_assistant e k x d)"
proof -
  have k: "k \<notin> as_id ` set (db_assistants d)" using assms(2) by (simp add: assistants_t.get_None)
  have n: "(k, 1) \<notin> version_key ` set (db_versions d)"
    using assms(1) k by (auto simp: assistants_wf_def version_key_def)
  have new [simp]: "as_id (new_assistant e k x) = k" "as_version (new_assistant e k x) = 1"
    by (simp_all add: new_assistant_def)
  have r: "records (version_of (e_now e) (new_assistant e k x)) (new_assistant e k x)" by simp
  show ?thesis
    using assms(1) k n r by (auto simp: insert_assistant_def Let_def assistants_wf_def)
qed

lemma put_cases:
  assumes "assistants_put a e ctx k x if_exists d0 d1 = Inr (ys, d')"
  shows "d' = d1 \<or> (get_assistant k d0 = None \<and> get_assistant k d1 = None \<and>
    (\<exists>x'. d' = insert_assistant e k x' d1 \<and> ys = [assistant_to_dict (new_assistant e k x')]))"
  using assms
  by (auto simp: assistants_put_def rbind_eq_Inr Let_def split: option.splits prod.splits)

lemma put_wf:
  assumes "assistants_wf d1" "assistants_put a e ctx k x if_exists d0 d1 = Inr (ys, d')"
  shows "assistants_wf d'"
  using put_cases [OF assms(2)] insert_wf assms(1) by auto

end
