(* ===== verification/ThreadOps.thy ===== *)
theory ThreadOps
  imports OpsCommon RunStore
begin

text \<open>
  \<open>Threads\<close> of \<open>ops.py\<close>: search, get, put, patch, delete, the two status updates a worker makes,
  copy, count, prune, and the guards and status updates of \<open>Threads.State\<close>. Operations with hooks
  or effects on the checkpoint saver's own pool work on a connection, the others on the session's
  database. The saver is a parameter, the record \<open>saver\<close>.
\<close>

section \<open>Reading\<close>

definition thread_item ::
  "api \<Rightarrow> string list option \<Rightarrow> (string \<times> json) list \<Rightarrow> thread_row \<Rightarrow> row_dict" where
  "thread_item a sel extract r =
     (let d0 = thread_to_dict r;
          d = rset_default ''state_updated_at'' (rget d0 ''updated_at'') d0;
          out = select_fields sel d
      in if extract = [] then out
         else filter (\<lambda>(k, _). k \<noteq> ''extracted'') out @
           [(''extracted'', CJson (JObj (map (\<lambda>(alias, path). (alias, api_extract a d path)) extract)))])"

definition thread_search_args ::
  "api \<Rightarrow> string option \<Rightarrow> string option \<Rightarrow> nat \<Rightarrow> nat \<Rightarrow> string list option \<Rightarrow> (string \<times> json) list \<Rightarrow>
   thread_row search_args" where
  "thread_search_args a sort_by sort_order offset limit sel extract =
     \<lparr>sr_meta = th_metadata, sr_attrs = thread_attrs,
      sr_build = materialize_page (Some (thread_item a sel extract)) thread_to_dict sel,
      sr_sort_by = sort_by, sr_sort_order = sort_order, sr_offset = offset, sr_limit = limit,
      sr_allowed = THREAD_SORT_FIELDS, sr_default = ''updated_at''\<rparr>"

fun opt_dict :: "dict option \<Rightarrow> dict" where
  "opt_dict None = []"
| "opt_dict (Some d) = d"

definition thread_query :: "uuid list \<Rightarrow> dict \<Rightarrow> dict \<Rightarrow> string option \<Rightarrow> db \<Rightarrow> thread_row list" where
  "thread_query ids metadata wanted status d =
     filter (\<lambda>r. (ids \<noteq> [] \<longrightarrow> th_id r \<in> set ids) \<and> thread_where_clauses metadata wanted status r)
       (db_threads d)"

definition threads_search ::
  "api \<Rightarrow> caller option \<Rightarrow> uuid list \<Rightarrow> dict option \<Rightarrow> dict option \<Rightarrow> string option \<Rightarrow> nat \<Rightarrow> nat \<Rightarrow>
   string option \<Rightarrow> string option \<Rightarrow> string list option \<Rightarrow> (string \<times> json) list \<Rightarrow> db \<Rightarrow>
   (row_dict list \<times> nat option) res" where
  "threads_search a ctx ids metadata wanted status limit offset sort_by sort_order sel extract d =
     rbind (handle_event a ''threads'' ctx ''search''
       [(''metadata'', JObj (opt_dict metadata)), (''values'', JObj (opt_dict wanted)),
        (''status'', json_opt status), (''limit'', JInt (int limit)),
        (''offset'', JInt (int offset))]) (\<lambda>(filters, payload).
       search_rows (thread_search_args a sort_by sort_order offset limit sel extract) filters
         (thread_query ids (obj_of (dget payload ''metadata'')) (obj_of (dget payload ''values''))
            status d))"

definition no_such_thread :: "uuid \<Rightarrow> 'a res" where
  "no_such_thread k = Inl (HTTPException 404 (''Thread '' @ uuid_str k @ '' not found''))"

text \<open>The thread by primary key when the filters admit it.\<close>

definition visible_thread :: "json \<Rightarrow> uuid \<Rightarrow> db \<Rightarrow> thread_row option res" where
  "visible_thread filters k d =
     (case get_thread k d of
        None \<Rightarrow> Inr None
      | Some r \<Rightarrow>
          rbind (auth_denies (Some (th_metadata r)) filters) (\<lambda>denied.
            Inr (if denied then None else Some r)))"

definition with_state_time :: "row_dict \<Rightarrow> row_dict" where
  "with_state_time d = rset_default ''state_updated_at'' (rget d ''updated_at'') d"

definition threads_get_row :: "api \<Rightarrow> caller option \<Rightarrow> uuid \<Rightarrow> db \<Rightarrow> thread_row res" where
  "threads_get_row a ctx k d =
     rbind (handle_event a ''threads'' ctx ''read'' [(''thread_id'', JStr (uuid_str k))]) (\<lambda>(filters, _).
     rbind (visible_thread filters k d) (\<lambda>v.
       case v of None \<Rightarrow> no_such_thread k | Some r \<Rightarrow> Inr r))"

definition threads_get :: "api \<Rightarrow> caller option \<Rightarrow> uuid \<Rightarrow> db \<Rightarrow> row_dict list res" where
  "threads_get a ctx k d =
     rbind (threads_get_row a ctx k d) (\<lambda>r. Inr [with_state_time (thread_to_dict r)])"

definition threads_count ::
  "api \<Rightarrow> caller option \<Rightarrow> dict option \<Rightarrow> dict option \<Rightarrow> string option \<Rightarrow> db \<Rightarrow> nat res" where
  "threads_count a ctx metadata wanted status d =
     rbind (handle_event a ''threads'' ctx ''search''
       [(''metadata'', JObj (opt_dict metadata)), (''values'', JObj (opt_dict wanted)),
        (''status'', json_opt status), (''limit'', JInt 0), (''offset'', JInt 0)])
       (\<lambda>(filters, payload).
         count_with_auth th_metadata
           (thread_where_clauses (obj_of (dget payload ''metadata'')) (obj_of (dget payload ''values'')) status)
           filters (db_threads d))"

section \<open>Writing\<close>

definition handle_existing_thread :: "thread_row option \<Rightarrow> uuid \<Rightarrow> string \<Rightarrow> json \<Rightarrow> row_dict list res" where
  "handle_existing_thread existing k if_exists filters =
     (let taken = Inl (HTTPException 409 (''Thread '' @ uuid_str k @ '' already exists'')) in
      case existing of
        None \<Rightarrow> taken
      | Some r \<Rightarrow>
          rbind (auth_denies (Some (th_metadata r)) filters) (\<lambda>denied.
            if denied then taken else if if_exists = ''raise'' then taken
            else Inr [thread_to_dict r]))"

definition new_thread :: "time \<Rightarrow> uuid \<Rightarrow> string \<Rightarrow> dict \<Rightarrow> dict \<Rightarrow> thread_row" where
  "new_thread now k status metadata config =
     \<lparr>th_id = k, th_graph_id = None, th_status = status, th_event_seq = 0,
      th_event_pruned_through = 0, th_metadata = metadata, th_config = config, th_values = JNull,
      th_interrupts = [], th_error = JNull, th_created_at = now, th_updated_at = now,
      th_state_updated_at = Some now\<rparr>"

definition insert_thread :: "thread_row \<Rightarrow> db \<Rightarrow> db" where
  "insert_thread r d = d\<lparr>db_threads := db_threads d @ [r]\<rparr>"

text \<open>As for assistants, \<open>d0\<close> is what the lookup saw and \<open>d1\<close> what the insert finds.\<close>

definition threads_put ::
  "api \<Rightarrow> env \<Rightarrow> caller option \<Rightarrow> uuid \<Rightarrow> dict option \<Rightarrow> string \<Rightarrow> db \<Rightarrow> db \<Rightarrow> (row_dict list \<times> db) res" where
  "threads_put a e ctx k metadata if_exists d0 d1 =
     rbind (handle_event a ''threads'' ctx ''create''
       [(''thread_id'', JStr (uuid_str k)), (''metadata'', JObj (opt_dict metadata)),
        (''if_exists'', JStr if_exists)]) (\<lambda>(filters, payload).
       case get_thread k d0 of
         Some r \<Rightarrow> rbind (handle_existing_thread (Some r) k if_exists filters) (\<lambda>ys. Inr (ys, d1))
       | None \<Rightarrow>
           (case get_thread k d1 of
              Some r \<Rightarrow> rbind (handle_existing_thread (Some r) k if_exists filters) (\<lambda>ys. Inr (ys, d1))
            | None \<Rightarrow>
                (let r = new_thread (e_now e) k ''idle'' (obj_of (dget payload ''metadata'')) []
                 in Inr ([thread_to_dict r], insert_thread r d1))))"

definition patched_thread :: "time \<Rightarrow> dict \<Rightarrow> thread_row \<Rightarrow> thread_row" where
  "patched_thread now m r =
     (if m = [] then r
      else r\<lparr>th_metadata := dmerge (th_metadata r) m, th_updated_at := now\<rparr>)"

text \<open>The handler's payload shares the caller's metadata only when that is not empty.\<close>

definition threads_patch ::
  "api \<Rightarrow> env \<Rightarrow> caller option \<Rightarrow> uuid \<Rightarrow> dict option \<Rightarrow> db \<Rightarrow> (row_dict list \<times> db) res" where
  "threads_patch a e ctx k metadata d =
     rbind (handle_event a ''threads'' ctx ''update''
       [(''thread_id'', JStr (uuid_str k)), (''metadata'', JObj (opt_dict metadata))])
       (\<lambda>(filters, payload).
     rbind (visible_thread filters k d) (\<lambda>v.
       case v of
         None \<Rightarrow> Inr ([], d)
       | Some r \<Rightarrow>
           (let r' = patched_thread (e_now e)
                  (if opt_dict metadata = [] then [] else obj_of (dget payload ''metadata'')) r
            in Inr ([with_state_time (thread_to_dict r')], upd_thread k (\<lambda>_. r') d))))"

text \<open>
  Deleting the rows of a thread: its runs (with their leases, baselines and events), its crons,
  and the thread with what references it.
\<close>

definition thread_run_ids :: "uuid \<Rightarrow> db \<Rightarrow> uuid list" where
  "thread_run_ids k d = map run_id (filter (\<lambda>r. run_thread_id r = Some k) (db_runs d))"

definition del_thread :: "uuid \<Rightarrow> db \<Rightarrow> db" where
  "del_thread k d = d\<lparr>db_threads := t_del th_id k (db_threads d),
     db_baselines := filter (\<lambda>b. bl_thread_id b \<noteq> k) (db_baselines d),
     db_events := filter (\<lambda>x. ev_thread_id x \<noteq> Some k) (db_events d)\<rparr>"

definition delete_thread_rows :: "uuid \<Rightarrow> db \<Rightarrow> db" where
  "delete_thread_rows k d =
     (let ids = thread_run_ids k d;
          d1 = fold del_run ids (delete_retry_counters ids d);
          d2 = d1\<lparr>db_crons := filter (\<lambda>c. cr_thread_id c \<noteq> Some k) (db_crons d1)\<rparr>
      in del_thread k d2)"

definition threads_delete :: "api \<Rightarrow> caller option \<Rightarrow> uuid \<Rightarrow> conn \<Rightarrow> uuid list res \<times> conn" where
  "threads_delete a ctx k c =
     (case rbind (handle_event a ''threads'' ctx ''delete'' [(''thread_id'', JStr (uuid_str k))])
             (\<lambda>(filters, _). rbind (visible_thread filters k (cn_db c)) (\<lambda>v.
               case v of None \<Rightarrow> no_such_thread k | Some r \<Rightarrow> Inr r)) of
        Inl err \<Rightarrow> (Inl err, c)
      | Inr _ \<Rightarrow>
          (Inr [k], schedule_after_commit (CleanupCheckpoints k)
                      (c\<lparr>cn_db := delete_thread_rows k (cn_db c)\<rparr>)))"

section \<open>Status updates\<close>

text \<open>The unique index on running runs guards every status written.\<close>

definition write_run_status :: "uuid \<Rightarrow> string \<Rightarrow> time \<Rightarrow> db \<Rightarrow> db res" where
  "write_run_status k status now d =
     (case get_run k d of
        None \<Rightarrow> Inr d
      | Some r \<Rightarrow>
          if status = ''running'' \<and> run_thread_id r \<noteq> None \<and>
             list_ex (\<lambda>x. run_id x \<noteq> k \<and> run_thread_id x = run_thread_id r \<and>
                run_status x = ''running'') (db_runs d)
          then Inl IntegrityError
          else Inr (upd_run k (\<lambda>r. r\<lparr>run_status := status, run_updated_at := now\<rparr>) d))"

definition joint_thread ::
  "api \<Rightarrow> time \<Rightarrow> string \<Rightarrow> dict option \<Rightarrow> run_exc option \<Rightarrow> string \<Rightarrow> dict \<Rightarrow> bool \<Rightarrow> thread_row \<Rightarrow> thread_row" where
  "joint_thread a now graph_id checkpoint exc base interrupts pending t =
     t\<lparr>th_metadata := dset ''graph_id'' (JStr graph_id) (th_metadata t),
       th_status := (if pending then ''busy'' else base),
       th_updated_at := now, th_state_updated_at := Some now, th_interrupts := interrupts,
       th_error := (case exc of None \<Rightarrow> JNull | Some x \<Rightarrow> api_exc a x),
       th_values := (case checkpoint of None \<Rightarrow> th_values t
                     | Some c \<Rightarrow> api_serde a (dget c ''values''))\<rparr>"

definition set_joint_status ::
  "api \<Rightarrow> env \<Rightarrow> uuid \<Rightarrow> uuid \<Rightarrow> string \<Rightarrow> string \<Rightarrow> dict option \<Rightarrow> run_exc option \<Rightarrow> db \<Rightarrow> db res" where
  "set_joint_status a e k rid run_status' graph_id checkpoint exc d =
     rbind (thread_status_from_checkpoint a checkpoint exc True) (\<lambda>(base, interrupts).
       case get_thread k d of
         None \<Rightarrow> no_such_thread k
       | Some t \<Rightarrow>
           (case get_run rid d of
              None \<Rightarrow> Inl (HTTPException 404 (''Run '' @ uuid_str rid @ '' not found''))
            | Some r \<Rightarrow>
                if run_thread_id r \<noteq> Some k
                then Inl (HTTPException 404 (''Run '' @ uuid_str rid @ '' not found''))
                else
                  rbind (if run_status' = ''rollback''
                         then Inr (del_run rid (delete_retry_counters [rid] d))
                         else write_run_status rid run_status' (e_now e) d) (\<lambda>d1.
                    Inr (upd_thread k
                      (joint_thread a (e_now e) graph_id checkpoint exc base interrupts
                         (pending_runs k d1 \<noteq> [])) d1))))"

definition threads_set_status ::
  "api \<Rightarrow> env \<Rightarrow> uuid \<Rightarrow> dict option \<Rightarrow> run_exc option \<Rightarrow> db \<Rightarrow> db res" where
  "threads_set_status a e k checkpoint exc d =
     (case get_thread k d of
        None \<Rightarrow> no_such_thread k
      | Some _ \<Rightarrow>
          rbind (thread_status_from_checkpoint a checkpoint exc False) (\<lambda>(status, interrupts).
            Inr (upd_thread k (\<lambda>t. t\<lparr>
              th_updated_at := e_now e, th_state_updated_at := Some (e_now e),
              th_status := (if pending_runs k d \<noteq> [] then ''busy'' else status),
              th_values := (case checkpoint of None \<Rightarrow> th_values t
                            | Some c \<Rightarrow> api_serde a (dget c ''values'')),
              th_interrupts := interrupts,
              th_error := (case exc of None \<Rightarrow> JNull | Some x \<Rightarrow> api_exc a x)\<rparr>) d)))"

section \<open>Copying a thread\<close>

text \<open>
  The checkpoint saver: \<open>acopy_thread\<close>, \<open>alist\<close>, \<open>aput\<close>, \<open>aput_writes\<close> and \<open>adelete_thread\<close>. Each
  call commits by itself, so a copy that fails half-way leaves what it had stored.
\<close>

record saver =
  sv_copy :: "string \<Rightarrow> string \<Rightarrow> db \<Rightarrow> db res"
  sv_list :: "string \<Rightarrow> db \<Rightarrow> saver_item list"
  sv_put :: "dict \<Rightarrow> dict \<Rightarrow> dict \<Rightarrow> dict \<Rightarrow> db \<Rightarrow> (dict \<times> db) res"
  sv_put_writes :: "dict \<Rightarrow> (string \<times> json) list \<Rightarrow> string \<Rightarrow> db \<Rightarrow> db res"
  sv_delete :: "string \<Rightarrow> db \<Rightarrow> db res"

definition copied_config :: "string \<Rightarrow> saver_item \<Rightarrow> dict" where
  "copied_config target item =
     (let src = obj_of (dget (si_config item) ''configurable'');
          base = [(''thread_id'', JStr target),
                  (''checkpoint_ns'', dgetdef src ''checkpoint_ns'' (JStr []))];
          parent = (case si_parent_config item of None \<Rightarrow> JNull | Some p \<Rightarrow> dget p ''configurable'');
          parent_id = (if truthy parent then dget (obj_of parent) ''checkpoint_id'' else JNull)
      in [(''configurable'',
           JObj (if parent_id \<noteq> JNull then dset ''checkpoint_id'' parent_id base else base))])"

definition copied_metadata :: "string \<Rightarrow> saver_item \<Rightarrow> dict" where
  "copied_metadata target item =
     (if dhas (si_metadata item) ''thread_id'' then dset ''thread_id'' (JStr target) (si_metadata item)
      else si_metadata item)"

definition copy_single_checkpoint :: "saver \<Rightarrow> string \<Rightarrow> saver_item \<Rightarrow> db \<Rightarrow> (dict \<times> db) res" where
  "copy_single_checkpoint sv target item d =
     sv_put sv (copied_config target item) (si_checkpoint item) (copied_metadata target item)
       (obj_of (dgetdef (si_checkpoint item) ''channel_versions'' (JObj []))) d"

text \<open>The keys of a dictionary built by repeated \<open>setdefault\<close>, in order of first occurrence.\<close>

definition remdups_first :: "'a list \<Rightarrow> 'a list" where
  "remdups_first xs = rev (remdups (rev xs))"

text \<open>\<open>writes_by_task\<close>: the writes of each task together, tasks in order of their first write.\<close>

definition writes_by_task ::
  "(string \<times> string \<times> json) list \<Rightarrow> (string \<times> (string \<times> json) list) list" where
  "writes_by_task ws =
     map (\<lambda>task. (task, map snd (filter (\<lambda>w. fst w = task) ws))) (remdups_first (map fst ws))"

fun put_task_writes ::
  "saver \<Rightarrow> dict \<Rightarrow> (string \<times> (string \<times> json) list) list \<Rightarrow> db \<Rightarrow> unit res \<times> db" where
  "put_task_writes sv config [] d = (Inr (), d)"
| "put_task_writes sv config ((task, ws) # rest) d =
     (case sv_put_writes sv config ws task d of
        Inl err \<Rightarrow> (Inl err, d)
      | Inr d' \<Rightarrow> put_task_writes sv config rest d')"

fun copy_all :: "saver \<Rightarrow> string \<Rightarrow> saver_item list \<Rightarrow> db \<Rightarrow> unit res \<times> db" where
  "copy_all sv target [] d = (Inr (), d)"
| "copy_all sv target (item # items) d =
     (case copy_single_checkpoint sv target item d of
        Inl err \<Rightarrow> (Inl err, d)
      | Inr (stored, d1) \<Rightarrow>
          (case put_task_writes sv stored (writes_by_task (si_pending_writes item)) d1 of
             (Inl err, d2) \<Rightarrow> (Inl err, d2)
           | (Inr _, d2) \<Rightarrow> copy_all sv target items d2))"

definition item_checkpoint_id :: "env \<Rightarrow> saver_item \<Rightarrow> string" where
  "item_checkpoint_id e item =
     py_str e (dget (obj_of (dget (si_config item) ''configurable'')) ''checkpoint_id'')"

definition acopy_thread_checkpoints ::
  "saver \<Rightarrow> env \<Rightarrow> string \<Rightarrow> string \<Rightarrow> db \<Rightarrow> unit res \<times> db" where
  "acopy_thread_checkpoints sv e source target d =
     (case sv_copy sv source target d of
        Inr d' \<Rightarrow> (Inr (), d')
      | Inl NotImplementedError \<Rightarrow>
          copy_all sv target (sort_key (item_checkpoint_id e) (sv_list sv source d)) d
      | Inl err \<Rightarrow> (Inl err, d))"

definition scrub :: "saver \<Rightarrow> uuid \<Rightarrow> db \<Rightarrow> db" where
  "scrub sv k d = (case sv_delete sv (uuid_str k) d of Inl _ \<Rightarrow> d | Inr d' \<Rightarrow> d')"

text \<open>What the three hooks do; a failing clean-up is logged.\<close>

definition hook_action :: "saver \<Rightarrow> hook \<Rightarrow> db \<Rightarrow> db res" where
  "hook_action sv h d =
     (case h of
        WakeRunQueue \<Rightarrow> Inr d
      | CleanupCheckpoints k \<Rightarrow> Inr (copy_saver_tables (scrub sv k d) d)
      | ScrubCheckpoints k \<Rightarrow> Inr (copy_saver_tables (scrub sv k d) d))"

definition copied_thread :: "time \<Rightarrow> uuid \<Rightarrow> dict \<Rightarrow> thread_row \<Rightarrow> thread_row" where
  "copied_thread now k metadata r =
     \<lparr>th_id = k, th_graph_id = None, th_status = ''idle'', th_event_seq = 0,
      th_event_pruned_through = 0, th_metadata = metadata, th_config = th_config r,
      th_values = th_values r, th_interrupts = th_interrupts r, th_error = JNull,
      th_created_at = now, th_updated_at = now, th_state_updated_at = Some now\<rparr>"

definition threads_copy ::
  "api \<Rightarrow> env \<Rightarrow> saver \<Rightarrow> caller option \<Rightarrow> uuid \<Rightarrow> conn \<Rightarrow> row_dict list res \<times> conn" where
  "threads_copy a e sv ctx k c =
     (case rbind (handle_event a ''threads'' ctx ''read'' [(''thread_id'', JStr (uuid_str k))])
             (\<lambda>(filters, _). visible_thread filters k (cn_db c)) of
        Inl err \<Rightarrow> (Inl err, c)
      | Inr None \<Rightarrow> (Inr [], c)
      | Inr (Some r) \<Rightarrow>
          (let new = e_uuid e (db_draws (cn_db c));
               d0 = (cn_db c)\<lparr>db_draws := db_draws (cn_db c) + 1\<rparr>
           in case handle_event a ''threads'' ctx ''create''
                [(''thread_id'', JStr (uuid_str new)), (''metadata'', JObj (th_metadata r)),
                 (''if_exists'', JStr ''raise'')] of
             Inl err \<Rightarrow> (Inl err, c)
           | Inr (_, payload) \<Rightarrow>
               (let row = copied_thread (e_now e) new (obj_of (dget payload ''metadata'')) r;
                    c1 = c\<lparr>cn_db := insert_thread row d0\<rparr>;
                    out = acopy_thread_checkpoints sv e (uuid_str k) (uuid_str new) (cn_committed c1)
                in case out of
                  (Inl err, d') \<Rightarrow> (Inl err, autocommit (\<lambda>_. scrub sv new d') c1)
                | (Inr _, d') \<Rightarrow>
                    (Inr [thread_to_dict row],
                     schedule_after_rollback (ScrubCheckpoints new) (autocommit (\<lambda>_. d') c1)))))"

section \<open>Pruning\<close>

text \<open>\<open>strategy="delete"\<close>: threads that cannot be deleted are passed over.\<close>

fun prune_delete :: "api \<Rightarrow> caller option \<Rightarrow> uuid list \<Rightarrow> nat \<Rightarrow> conn \<Rightarrow> nat res \<times> conn" where
  "prune_delete a ctx [] n c = (Inr n, c)"
| "prune_delete a ctx (k # ks) n c =
     (case threads_delete a ctx k c of
        (Inr ys, c') \<Rightarrow> prune_delete a ctx ks (n + length ys) c'
      | (Inl (HTTPException code detail), c') \<Rightarrow> prune_delete a ctx ks n c'
      | (Inl err, c') \<Rightarrow> (Inl err, c'))"

fun prune_keep :: "api \<Rightarrow> env \<Rightarrow> caller option \<Rightarrow> uuid list \<Rightarrow> nat \<Rightarrow> db \<Rightarrow> (nat \<times> db) res" where
  "prune_keep a e ctx [] n d = Inr (n, d)"
| "prune_keep a e ctx (k # ks) n d =
     rbind (handle_event a ''threads'' ctx ''delete'' [(''thread_id'', JStr (uuid_str k))]) (\<lambda>(filters, _).
     rbind (visible_thread filters k d) (\<lambda>v.
       case v of
         None \<Rightarrow> prune_keep a e ctx ks n d
       | Some _ \<Rightarrow>
           (case prune_checkpoints e k d of
              Inl (CheckpointConflict msg) \<Rightarrow> Inl (HTTPException 409 msg)
            | Inl err \<Rightarrow> Inl err
            | Inr d' \<Rightarrow> prune_keep a e ctx ks (n + 1) d')))"

definition threads_prune ::
  "api \<Rightarrow> env \<Rightarrow> saver \<Rightarrow> caller option \<Rightarrow> uuid list \<Rightarrow> string \<Rightarrow> db \<Rightarrow> nat res \<times> db" where
  "threads_prune a e sv ctx ids strategy d =
     (if ids = [] then (Inr 0, d)
      else if strategy \<notin> set [''delete'', ''keep_latest'']
        then (Inl (HTTPException 422 ''invalid prune strategy''), d)
      else if strategy = ''keep_latest'' then
        connect (hook_action sv) (in_session (prune_keep a e ctx (sort (remdups ids)) 0)) d
      else connect (hook_action sv) (prune_delete a ctx ids 0) d)"

section \<open>Thread state\<close>

text \<open>The stored configuration of the thread overlaid with the caller's.\<close>

definition merged_thread_config :: "dict \<Rightarrow> dict \<Rightarrow> dict" where
  "merged_thread_config thread_config config =
     dset ''configurable''
       (JObj (dmerge (obj_of (dgetdef thread_config ''configurable'' (JObj [])))
                     (obj_of (dgetdef config ''configurable'' (JObj []))))) thread_config"

definition latest_run :: "uuid \<Rightarrow> db \<Rightarrow> run_row option" where
  "latest_run k d =
     min_by (\<lambda>r. - run_created_at r) (filter (\<lambda>r. run_thread_id r = Some k) (db_runs d))"

definition run_graph_id :: "run_row \<Rightarrow> json" where
  "run_graph_id r =
     (case dgetdef (run_kwargs r) ''config'' (JObj []) of
        JObj cfg \<Rightarrow>
          (case dgetdef cfg ''configurable'' (JObj []) of JObj c \<Rightarrow> dget c ''graph_id'' | _ \<Rightarrow> JNull)
      | _ \<Rightarrow> JNull)"

definition state_graph_id :: "thread_row \<Rightarrow> db \<Rightarrow> json" where
  "state_graph_id t d =
     (let g = dget (th_metadata t) ''graph_id'' in
      if truthy g then g
      else case latest_run (th_id t) d of None \<Rightarrow> g | Some r \<Rightarrow> run_graph_id r)"

text \<open>
  \<open>State.get\<close> up to the graph: \<open>None\<close> is the empty snapshot, otherwise the graph to load and its
  configuration. An unreadable thread reads as empty.
\<close>

definition state_get_plan ::
  "api \<Rightarrow> caller option \<Rightarrow> uuid \<Rightarrow> dict \<Rightarrow> db \<Rightarrow> (json \<times> dict) option res" where
  "state_get_plan a ctx k config d =
     (case threads_get_row a ctx k d of
        Inl (HTTPException _ _) \<Rightarrow> Inr None
      | Inl err \<Rightarrow> Inl err
      | Inr t \<Rightarrow>
          (let g = state_graph_id t d in
           Inr (if truthy g then Some (g, merged_thread_config (th_config t) config) else None)))"

definition no_graph_detail :: "uuid \<Rightarrow> string" where
  "no_graph_detail k =
     ''Thread '' @ [CHR 0x27] @ uuid_str k @ [CHR 0x27] @
     '' has no assigned graph ID. Make a run first or set metadata.graph_id.''"

text \<open>
  The guards \<open>State.post\<close> and \<open>State.bulk\<close> share: permission to update, a visible thread, no work
  in flight, a graph. The result is the graph, the thread's configuration and the caller's
  configuration with the graph filled in.
\<close>

definition state_update_plan ::
  "api \<Rightarrow> (uuid \<Rightarrow> bool option) \<Rightarrow> caller option \<Rightarrow> uuid \<Rightarrow> dict \<Rightarrow> db \<Rightarrow> (json \<times> dict \<times> dict) res" where
  "state_update_plan a hb ctx k config d =
     rbind (handle_event a ''threads'' ctx ''update'' [(''thread_id'', JStr (uuid_str k))])
       (\<lambda>(filters, _).
     rbind (threads_get_row a ctx k d) (\<lambda>t.
     rbind (auth_denies (Some (th_metadata t)) filters) (\<lambda>denied.
       if denied then Inl (HTTPException 403 ''Forbidden'')
       else if thread_has_inflight_work hb k d
         then Inl (HTTPException 409 (''Thread '' @ uuid_str k @ '' has in-flight runs''))
       else
         let g = dget (th_metadata t) ''graph_id'';
             conf = obj_of (dget config ''configurable'')
         in if \<not> truthy g then Inl (HTTPException 400 (no_graph_detail k))
            else Inr (g, merged_thread_config (th_config t) config,
                      dset ''configurable'' (JObj (if dhas conf ''graph_id'' then conf
                                                else dset ''graph_id'' g conf)) config))))"

text \<open>
  \<open>update\<close> stands for the graph: it gets the graph's id, the thread's configuration and the
  caller's, and returns the next configuration, the snapshot the status is computed from (with
  \<open>next\<close>, \<open>values\<close> and \<open>tasks\<close>) and the database with the checkpoints it stored.
\<close>

definition state_post ::
  "api \<Rightarrow> env \<Rightarrow> (uuid \<Rightarrow> bool option) \<Rightarrow> (json \<Rightarrow> dict \<Rightarrow> dict \<Rightarrow> db \<Rightarrow> (dict \<times> dict \<times> db) res) \<Rightarrow>
   caller option \<Rightarrow> uuid \<Rightarrow> dict \<Rightarrow> db \<Rightarrow> (dict \<times> db) res" where
  "state_post a e hb update ctx k config d =
     rbind (state_update_plan a hb ctx k config d) (\<lambda>(g, thread_config, config').
       let conf = obj_of (dget config' ''configurable'');
           update_config = dset ''configurable''
             (JObj (dset ''checkpoint_ns'' (dgetdef conf ''checkpoint_ns'' (JStr [])) conf)) config'
       in rbind (update g thread_config update_config d) (\<lambda>(next_config, snapshot, d1).
          rbind (threads_set_status a e k (Some snapshot) None d1) (\<lambda>d2.
            Inr (next_config, d2))))"

definition state_bulk ::
  "api \<Rightarrow> env \<Rightarrow> (uuid \<Rightarrow> bool option) \<Rightarrow> (json \<Rightarrow> dict \<Rightarrow> dict \<Rightarrow> db \<Rightarrow> (dict \<times> dict \<times> db) res) \<Rightarrow>
   caller option \<Rightarrow> uuid \<Rightarrow> dict \<Rightarrow> db \<Rightarrow> (dict \<times> db) res" where
  "state_bulk a e hb update ctx k config d =
     rbind (state_update_plan a hb ctx k config d) (\<lambda>(g, thread_config, config').
       let conf = obj_of (dget config' ''configurable'');
           config'' = dset ''configurable''
             (JObj (if dhas conf ''checkpoint_ns'' then conf
                    else dset ''checkpoint_ns'' (JStr []) conf)) config'
       in rbind (update g thread_config config'' d) (\<lambda>(next_config, snapshot, d1).
          rbind (threads_set_status a e k (Some snapshot) None d1) (\<lambda>d2.
            Inr (next_config, d2))))"

section \<open>Lemmas\<close>

lemma visible_thread_Some: "visible_thread filters k d = Inr (Some r) \<Longrightarrow> get_thread k d = Some r"
  by (auto simp: visible_thread_def rbind_eq_Inr split: option.splits if_splits)

lemma threads_get_row_Inr: "threads_get_row a ctx k d = Inr r \<Longrightarrow> get_thread k d = Some r"
  by (auto simp: threads_get_row_def no_such_thread_def rbind_eq_Inr dest!: visible_thread_Some
      split: option.splits prod.splits)

lemma del_run_runs [simp]: "db_runs (del_run k d) = filter (\<lambda>r. run_id r \<noteq> k) (db_runs d)"
  by (simp add: del_run_def t_del_def)

lemma del_run_frame [simp]:
  "db_threads (del_run k d) = db_threads d" "db_crons (del_run k d) = db_crons d"
  "db_assistants (del_run k d) = db_assistants d" "db_versions (del_run k d) = db_versions d"
  "db_checkpoints (del_run k d) = db_checkpoints d" "db_writes (del_run k d) = db_writes d"
  "db_blobs (del_run k d) = db_blobs d" "db_draws (del_run k d) = db_draws d"
  "db_retry_counters (del_run k d) = db_retry_counters d"
  by (simp_all add: del_run_def)

lemma fold_del_run:
  "db_runs (fold del_run ids d) = filter (\<lambda>r. run_id r \<notin> set ids) (db_runs d)"
  "db_leases (fold del_run ids d) = filter (\<lambda>l. ls_run_id l \<notin> set ids) (db_leases d)"
  "db_baselines (fold del_run ids d) = filter (\<lambda>b. bl_run_id b \<notin> set ids) (db_baselines d)"
  "db_events (fold del_run ids d) = filter (\<lambda>x. ev_run_id x \<notin> Some ` set ids) (db_events d)"
  "db_threads (fold del_run ids d) = db_threads d" "db_crons (fold del_run ids d) = db_crons d"
  "db_assistants (fold del_run ids d) = db_assistants d"
  "db_versions (fold del_run ids d) = db_versions d"
  "db_checkpoints (fold del_run ids d) = db_checkpoints d"
  "db_writes (fold del_run ids d) = db_writes d" "db_blobs (fold del_run ids d) = db_blobs d"
  "db_retry_counters (fold del_run ids d) = db_retry_counters d"
  by (induction ids arbitrary: d)
    (auto simp: del_run_def t_del_def intro!: filter_cong)

text \<open>Nothing of a deleted thread is left in the rows the runtime keeps.\<close>

definition thread_gone :: "uuid \<Rightarrow> db \<Rightarrow> bool" where
  "thread_gone k d =
     (get_thread k d = None \<and>
      (\<forall>r \<in> set (db_runs d). run_thread_id r \<noteq> Some k) \<and>
      (\<forall>c \<in> set (db_crons d). cr_thread_id c \<noteq> Some k) \<and>
      (\<forall>b \<in> set (db_baselines d). bl_thread_id b \<noteq> k) \<and>
      (\<forall>x \<in> set (db_events d). ev_thread_id x \<noteq> Some k))"

lemma delete_thread_rows_gone: "thread_gone k (delete_thread_rows k d)"
  by (auto simp: thread_gone_def delete_thread_rows_def del_thread_def Let_def fold_del_run
      delete_retry_counters_def thread_run_ids_def get_thread_def)

lemma delete_thread_rows_keeps:
  assumes "distinct (map run_id (db_runs d))"
  shows "t \<noteq> k \<Longrightarrow> get_thread t (delete_thread_rows k d) = get_thread t d"
    "db_runs (delete_thread_rows k d) = filter (\<lambda>r. run_thread_id r \<noteq> Some k) (db_runs d)"
    "db_assistants (delete_thread_rows k d) = db_assistants d"
    "db_versions (delete_thread_rows k d) = db_versions d"
proof -
  show "t \<noteq> k \<Longrightarrow> get_thread t (delete_thread_rows k d) = get_thread t d"
    by (simp add: delete_thread_rows_def del_thread_def Let_def fold_del_run
        delete_retry_counters_def get_thread_def)
  have "run_id r \<notin> set (thread_run_ids k d) \<longleftrightarrow> run_thread_id r \<noteq> Some k"
    if "r \<in> set (db_runs d)" for r
    using that assms by (auto simp: thread_run_ids_def distinct_map inj_on_def)
  then show "db_runs (delete_thread_rows k d) = filter (\<lambda>r. run_thread_id r \<noteq> Some k) (db_runs d)"
    by (auto simp: delete_thread_rows_def del_thread_def Let_def fold_del_run
        delete_retry_counters_def intro!: filter_cong)
qed (simp_all add: delete_thread_rows_def del_thread_def Let_def fold_del_run delete_retry_counters_def)

end
