(* ===== verification/RunOps.thy ===== *)
theory RunOps
  imports ThreadOps
begin

text \<open>
  \<open>Runs\<close> of \<open>ops.py\<close>: putting a run (and the thread it needs), reading, deleting, cancelling and
  searching runs, the claiming loop \<open>Runs.next\<close> with its transaction \<open>_claim_next_run\<close>, and the
  sweep of runs whose heartbeat is gone.
\<close>

section \<open>The configuration of a run\<close>

definition configurable_of :: "dict \<Rightarrow> dict" where
  "configurable_of config = obj_of (dgetor config ''configurable'' (JObj []))"

definition metadata_of :: "dict \<Rightarrow> dict" where
  "metadata_of config = obj_of (dgetor config ''metadata'' (JObj []))"

definition PROTECTED_KEYS :: "string list" where
  "PROTECTED_KEYS = [''user_id'', ''role'', ''permissions'']"

definition build_run_configurable ::
  "dict \<Rightarrow> thread_row option \<Rightarrow> assistant_row \<Rightarrow> uuid \<Rightarrow> uuid \<Rightarrow> uuid \<Rightarrow> string option \<Rightarrow> dict" where
  "build_run_configurable config thread assistant rid tid aid user_id =
     (let incoming = configurable_of config;
          of_thread = (case thread of None \<Rightarrow> [] | Some t \<Rightarrow> configurable_of (th_config t));
          of_assistant = configurable_of (as_config assistant);
          resolved = dmerge (dmerge (dmerge of_assistant of_thread) incoming)
            [(''run_id'', JStr (uuid_str rid)), (''thread_id'', JStr (uuid_str tid)),
             (''graph_id'', JStr (as_graph_id assistant)), (''assistant_id'', JStr (uuid_str aid))];
          cleaned = fold dpop PROTECTED_KEYS resolved
      in case user_id of None \<Rightarrow> cleaned | Some u \<Rightarrow> dset ''user_id'' (JStr u) cleaned)"

definition build_run_metadata :: "assistant_row \<Rightarrow> thread_row option \<Rightarrow> dict \<Rightarrow> dict \<Rightarrow> uuid \<Rightarrow> dict" where
  "build_run_metadata assistant thread config metadata aid =
     dset ''assistant_id'' (JStr (uuid_str aid))
       (dmerge (dmerge (dmerge (as_metadata assistant)
                  (case thread of None \<Rightarrow> [] | Some t \<Rightarrow> th_metadata t)) (metadata_of config)) metadata)"

section \<open>Threads of a run\<close>

definition run_thread_config :: "assistant_row \<Rightarrow> dict \<Rightarrow> dict" where
  "run_thread_config assistant config =
     merge_jsonb [Some (as_config assistant), Some config,
       Some [(''configurable'',
         JObj (merge_jsonb [Some (configurable_of (as_config assistant))]))]]"

definition run_thread_metadata :: "assistant_row \<Rightarrow> dict \<Rightarrow> dict \<Rightarrow> uuid \<Rightarrow> dict" where
  "run_thread_metadata assistant config metadata aid =
     dmerge (dmerge [(''graph_id'', JStr (as_graph_id assistant)),
                     (''assistant_id'', JStr (uuid_str aid))] (metadata_of config)) metadata"

text \<open>\<open>_ensure_run_thread\<close>: the id, the row found or created, and whether it was created.\<close>

definition ensure_run_thread ::
  "env \<Rightarrow> uuid option \<Rightarrow> assistant_row \<Rightarrow> dict \<Rightarrow> dict \<Rightarrow> uuid \<Rightarrow> db \<Rightarrow>
   uuid \<times> thread_row option \<times> bool \<times> db" where
  "ensure_run_thread e tid assistant config metadata aid d =
     (let (k, d1) = ensure_uuid e tid d in
      case get_thread k d1 of
        Some t \<Rightarrow> (k, Some t, False, d1)
      | None \<Rightarrow>
          (let t = new_thread (e_now e) k ''busy'' (run_thread_metadata assistant config metadata aid)
                     (run_thread_config assistant config)
           in (k, Some t, True, insert_thread t d1)))"

definition promote_thread_busy :: "time \<Rightarrow> assistant_row \<Rightarrow> uuid \<Rightarrow> dict \<Rightarrow> thread_row \<Rightarrow> thread_row" where
  "promote_thread_busy now assistant aid config t =
     (if th_status t = ''busy'' then t
      else t\<lparr>th_status := ''busy'',
        th_metadata := merge_jsonb [Some (th_metadata t),
          Some [(''graph_id'', JStr (as_graph_id assistant)), (''assistant_id'', JStr (uuid_str aid))]],
        th_config := merge_jsonb [Some (as_config assistant), Some (th_config t), Some config,
          Some [(''configurable'', JObj (merge_jsonb [Some (configurable_of (as_config assistant)),
                                                    Some (configurable_of (th_config t))]))]],
        th_updated_at := now\<rparr>)"

section \<open>Putting a run\<close>

record run_args =
  ra_assistant_id :: uuid
  ra_kwargs :: dict
  ra_thread_id :: "uuid option"
  ra_user_id :: "string option"
  ra_run_id :: "uuid option"
  ra_status :: "string option"
  ra_metadata :: dict
  ra_prevent_insert :: bool
  ra_multitask :: string
  ra_if_not_exists :: string
  ra_after_seconds :: int

definition run_put_check_assistant :: "api \<Rightarrow> caller option \<Rightarrow> uuid \<Rightarrow> db \<Rightarrow> assistant_row option res" where
  "run_put_check_assistant a ctx k d =
     (case get_assistant k d of
        None \<Rightarrow> Inr None
      | Some r \<Rightarrow>
          if dget (as_metadata r) ''created_by'' = JStr ''system'' then Inr (Some r)
          else rbind (handle_event a ''assistants'' ctx ''read'' [(''assistant_id'', JStr (uuid_str k))])
            (\<lambda>(filters, _).
              rbind (auth_denies (Some (as_metadata r)) filters) (\<lambda>denied.
                Inr (if denied then None else Some r))))"

definition run_status_of :: "string option \<Rightarrow> string" where
  "run_status_of s = (case s of None \<Rightarrow> ''pending'' | Some x \<Rightarrow> if x = [] then ''pending'' else x)"

definition new_run_row ::
  "env \<Rightarrow> run_args \<Rightarrow> uuid \<Rightarrow> uuid \<Rightarrow> assistant_row \<Rightarrow> thread_row option \<Rightarrow> dict \<Rightarrow> dict \<Rightarrow> dict \<Rightarrow> run_row" where
  "new_run_row e x rid tid assistant thread config metadata kwargs =
     (let conf = build_run_configurable config thread assistant rid tid (ra_assistant_id x) (ra_user_id x);
          meta = build_run_metadata assistant thread config metadata (ra_assistant_id x);
          cfg = dset ''metadata'' (JObj meta)
                  (dset ''configurable'' (JObj conf) (dmerge (as_config assistant) config));
          cx = dmerge (as_context assistant) (obj_of (dgetor kwargs ''context'' (JObj [])))
      in \<lparr>run_id = rid, run_thread_id = Some tid, run_assistant_id = ra_assistant_id x,
          run_status = run_status_of (ra_status x), run_reason = None, run_retry_count = 0,
          run_max_attempts = 3, run_next_attempt_at = None, run_idempotency_key = None,
          run_lease_owner = None, run_lease_expires_at = None, run_heartbeat_at = None,
          run_event_seq = 0, run_event_pruned_through = 0, run_metadata = meta,
          run_kwargs = dset ''context'' (JObj cx) (dset ''config'' (JObj cfg) kwargs),
          run_queue_position = None, run_multitask_strategy = Some (ra_multitask x),
          run_created_at = e_now e + 1000000 * ra_after_seconds x, run_updated_at = e_now e\<rparr>)"

definition insert_run_row :: "run_row \<Rightarrow> db \<Rightarrow> db res" where
  "insert_run_row r d =
     (if run_conflict r d then Inl IntegrityError else Inr (d\<lparr>db_runs := db_runs d @ [r]\<rparr>))"

definition run_payload :: "run_args \<Rightarrow> uuid \<Rightarrow> dict" where
  "run_payload x rid =
     [(''thread_id'', case ra_thread_id x of
          None \<Rightarrow> JNull
        | Some t \<Rightarrow> if truthy (dgetdef (ra_kwargs x) ''temporary'' (JBool False)) then JNull
                    else JStr (uuid_str t)),
      (''assistant_id'', JStr (uuid_str (ra_assistant_id x))), (''run_id'', JStr (uuid_str rid)),
      (''status'', json_opt (ra_status x)), (''metadata'', JObj (ra_metadata x)),
      (''prevent_insert_if_inflight'', JBool (ra_prevent_insert x)),
      (''multitask_strategy'', JStr (ra_multitask x)),
      (''if_not_exists'', JStr (ra_if_not_exists x)),
      (''after_seconds'', JInt (ra_after_seconds x)), (''kwargs'', JObj (ra_kwargs x))]"

text \<open>From the locked thread on: promotion, the runs in flight, the insert.\<close>

definition put_into_thread ::
  "env \<Rightarrow> run_args \<Rightarrow> uuid \<Rightarrow> uuid \<Rightarrow> assistant_row \<Rightarrow> bool \<Rightarrow> thread_row \<Rightarrow> dict \<Rightarrow> dict \<Rightarrow> dict \<Rightarrow> db \<Rightarrow>
   (row_dict list \<times> hook list \<times> db) res" where
  "put_into_thread e x rid tid assistant created thread config metadata kwargs d =
     (let thread' = (if created then thread
            else promote_thread_busy (e_now e) assistant (ra_assistant_id x) config thread);
          d1 = upd_thread tid (\<lambda>_. thread') d;
          inflight = map run_to_dict (pending_runs tid d1)
      in if ra_prevent_insert x \<and> inflight \<noteq> [] then Inr (inflight, [], d1)
         else
           let r = new_run_row e x rid tid assistant (Some thread') config metadata kwargs
           in rbind (insert_run_row r d1) (\<lambda>d2.
                Inr (run_to_dict r # inflight,
                     if run_status_of (ra_status x) = ''pending'' then [WakeRunQueue] else [], d2)))"

text \<open>
  \<open>Runs.put\<close>. The assistant and the thread are looked up in \<open>d0\<close>; the thread is created or
  locked in \<open>d1\<close>, where other requests may have created or removed it. The middle part, with the
  assistant known, finds or creates the thread.
\<close>

definition thread_for_run ::
  "env \<Rightarrow> run_args \<Rightarrow> assistant_row \<Rightarrow> dict \<Rightarrow> dict \<Rightarrow> thread_row option \<Rightarrow> db \<Rightarrow> uuid \<times> bool \<times> db" where
  "thread_for_run e x assistant config metadata existing d =
     (case existing of
        Some t \<Rightarrow> (th_id t, False, d)
      | None \<Rightarrow>
          (case ensure_run_thread e (ra_thread_id x) assistant config metadata (ra_assistant_id x) d of
             (k, _, created, d') \<Rightarrow> (k, created, d')))"

definition put_for_assistant ::
  "env \<Rightarrow> run_args \<Rightarrow> uuid \<Rightarrow> json \<Rightarrow> assistant_row \<Rightarrow> dict \<Rightarrow> dict \<Rightarrow> db \<Rightarrow> db \<Rightarrow>
   (row_dict list \<times> hook list \<times> db) res" where
  "put_for_assistant e x rid filters assistant metadata kwargs d0 d1 =
     (let config = obj_of (dgetdef kwargs ''config'' (JObj []));
          existing = (case ra_thread_id x of None \<Rightarrow> None | Some t \<Rightarrow> get_thread t d0)
      in rbind (case existing of None \<Rightarrow> Inr False
                | Some t \<Rightarrow> auth_denies (Some (th_metadata t)) filters) (\<lambda>denied.
           if denied then Inr ([], [], d1)
           else if existing = None \<and> ra_thread_id x \<noteq> None \<and> ra_if_not_exists x \<noteq> ''create''
             then Inr ([], [], d1)
           else
             (case thread_for_run e x assistant config metadata existing d1 of (tid, created, d2) \<Rightarrow>
               (case get_thread tid d2 of
                  None \<Rightarrow> Inr ([], [], d2)
                | Some thread \<Rightarrow>
                    rbind (if created then Inr False
                           else auth_denies (Some (th_metadata thread)) filters) (\<lambda>denied.
                      if denied then Inr ([], [], d2)
                      else put_into_thread e x rid tid assistant created thread config metadata
                             kwargs d2)))))"

definition runs_put ::
  "api \<Rightarrow> env \<Rightarrow> caller option \<Rightarrow> run_args \<Rightarrow> db \<Rightarrow> db \<Rightarrow> (row_dict list \<times> hook list \<times> db) res" where
  "runs_put a e ctx x d0 d =
     (case ensure_uuid e (ra_run_id x) d of (rid, d1) \<Rightarrow>
      rbind (handle_event a ''threads'' ctx ''create_run'' (run_payload x rid)) (\<lambda>(filters, payload).
      rbind (run_put_check_assistant a ctx (ra_assistant_id x) d0) (\<lambda>found.
        case found of
          None \<Rightarrow> Inr ([], [], d1)
        | Some assistant \<Rightarrow>
            put_for_assistant e x rid filters assistant (obj_of (dget payload ''metadata''))
              (obj_of (dget payload ''kwargs'')) d0 d1)))"

section \<open>Reading and deleting\<close>

definition run_thread_denied :: "json \<Rightarrow> uuid \<Rightarrow> db \<Rightarrow> bool res" where
  "run_thread_denied filters tid d =
     (if \<not> truthy filters then Inr False
      else case get_thread tid d of None \<Rightarrow> Inr True
        | Some t \<Rightarrow> auth_denies (Some (th_metadata t)) filters)"

definition runs_get :: "api \<Rightarrow> caller option \<Rightarrow> uuid \<Rightarrow> uuid \<Rightarrow> db \<Rightarrow> row_dict list res" where
  "runs_get a ctx rid tid d =
     rbind (handle_event a ''threads'' ctx ''read'' [(''thread_id'', JStr (uuid_str tid))]) (\<lambda>(filters, _).
       case get_run rid d of
         None \<Rightarrow> Inr []
       | Some r \<Rightarrow>
           if run_thread_id r \<noteq> Some tid then Inr []
           else rbind (run_thread_denied filters tid d) (\<lambda>denied.
             Inr (if denied then [] else [run_to_dict r])))"

definition runs_delete_row ::
  "api \<Rightarrow> caller option \<Rightarrow> uuid \<Rightarrow> uuid \<Rightarrow> db \<Rightarrow> (uuid list \<times> db) res" where
  "runs_delete_row a ctx rid tid d =
     rbind (handle_event a ''threads'' ctx ''delete''
       [(''run_id'', JStr (uuid_str rid)), (''thread_id'', JStr (uuid_str tid))]) (\<lambda>(filters, _).
       case get_run rid d of
         None \<Rightarrow> Inl (HTTPException 404 ''Run not found'')
       | Some r \<Rightarrow>
           if run_thread_id r \<noteq> Some tid then Inl (HTTPException 404 ''Run not found'')
           else rbind (run_thread_denied filters tid d) (\<lambda>denied.
             if denied then Inl (HTTPException 404 ''Run not found'')
             else Inr ([rid], del_run rid (delete_retry_counters [rid] d))))"

definition runs_search ::
  "api \<Rightarrow> caller option \<Rightarrow> uuid \<Rightarrow> nat \<Rightarrow> nat \<Rightarrow> string option \<Rightarrow> string list option \<Rightarrow> db \<Rightarrow>
   row_dict list res" where
  "runs_search a ctx tid limit offset status sel d =
     rbind (handle_event a ''threads'' ctx ''search''
       [(''thread_id'', JStr (uuid_str tid)), (''limit'', JInt (int limit)),
        (''offset'', JInt (int offset))]) (\<lambda>(filters, _).
     rbind (run_thread_denied filters tid d) (\<lambda>denied.
       if denied then Inr []
       else
         let rows = filter (\<lambda>r. run_thread_id r = Some tid \<and>
               (case status of None \<Rightarrow> True | Some s \<Rightarrow> run_status r = s)) (db_runs d);
             sorted = sort_rows True (\<lambda>r. SortTime (run_created_at r)) rows
         in Inr (map (\<lambda>r. select_fields sel (run_to_dict r)) (take limit (drop offset sorted)))))"

definition runs_set_status :: "env \<Rightarrow> uuid \<Rightarrow> string \<Rightarrow> db \<Rightarrow> (row_dict option \<times> db) res" where
  "runs_set_status e rid status d =
     (case get_run rid d of
        None \<Rightarrow> Inr (None, d)
      | Some r \<Rightarrow>
          rbind (write_run_status rid status (e_now e) d) (\<lambda>d'.
            Inr (Some (run_to_dict (r\<lparr>run_status := status, run_updated_at := e_now e\<rparr>)), d')))"

definition runs_stats :: "db \<Rightarrow> nat \<times> nat" where
  "runs_stats d =
     (length (filter (\<lambda>r. run_status r = ''pending'') (db_runs d)),
      length (filter (\<lambda>r. run_status r = ''running'') (db_runs d)))"

section \<open>Cancelling\<close>

definition validate_cancel_args ::
  "uuid option \<Rightarrow> uuid option \<Rightarrow> uuid list option \<Rightarrow> string option \<Rightarrow> unit res" where
  "validate_cancel_args assistant_id thread_id run_ids status =
     (if assistant_id \<noteq> None then
        (if thread_id \<noteq> None \<or> run_ids \<noteq> None \<or> status \<noteq> None
         then Inl (HTTPException 422 ''Cannot specify thread_id, run_ids, or status when using assistant_id'')
         else Inr ())
      else if status \<noteq> None then
        (if thread_id \<noteq> None \<or> run_ids \<noteq> None
         then Inl (HTTPException 422 ''Cannot specify thread_id or run_ids when using status'')
         else Inr ())
      else if thread_id = None \<or> run_ids = None
        then Inl (HTTPException 422 ''Must provide a status, an assistant_id, or thread_id and run_ids'')
      else Inr ())"

definition resolve_cancel_statuses :: "string \<Rightarrow> string list res" where
  "resolve_cancel_statuses status =
     (if status = ''all'' then Inr [''pending'', ''running'']
      else if status = ''pending'' \<or> status = ''running'' then Inr [status]
      else Inl (HTTPException 422 ''Invalid status''))"

definition cancel_query ::
  "uuid option \<Rightarrow> string option \<Rightarrow> uuid list option \<Rightarrow> uuid option \<Rightarrow> db \<Rightarrow> run_row list res" where
  "cancel_query assistant_id status run_ids thread_id d =
     (case assistant_id of
        Some k \<Rightarrow> Inr (filter (\<lambda>r. run_assistant_id r = k \<and>
                     run_status r \<in> set [''pending'', ''running'']) (db_runs d))
      | None \<Rightarrow>
          (case status of
             Some s \<Rightarrow> rbind (resolve_cancel_statuses s) (\<lambda>ss.
                 Inr (filter (\<lambda>r. run_status r \<in> set ss) (db_runs d)))
           | None \<Rightarrow>
               Inr (filter (\<lambda>r. run_id r \<in> set (case run_ids of None \<Rightarrow> [] | Some ks \<Rightarrow> ks) \<and>
                    run_thread_id r = thread_id) (db_runs d))))"

definition cancel_allowed :: "json \<Rightarrow> db \<Rightarrow> run_row \<Rightarrow> bool res" where
  "cancel_allowed filters d r =
     (case run_thread_id r of
        None \<Rightarrow> Inr False
      | Some t \<Rightarrow>
          (case get_thread t d of
             None \<Rightarrow> Inr False
           | Some th \<Rightarrow> rbind (auth_denies (Some (th_metadata th)) filters) (\<lambda>x. Inr (\<not> x))))"

text \<open>
  One candidate: the run still pending or running is told to stop, and is deleted (a rollback of
  a pending run nobody listens to) or marked interrupted. \<open>queues\<close> says whether the process has
  local queues for a run; the result is the run's thread and whether the run was pending.
\<close>

definition cancel_single_run ::
  "(uuid \<Rightarrow> bool) \<Rightarrow> string \<Rightarrow> time \<Rightarrow> uuid \<Rightarrow> db \<Rightarrow> (uuid option \<times> bool) option \<times> db" where
  "cancel_single_run queues action now rid d =
     (case get_run rid d of
        None \<Rightarrow> (None, d)
      | Some r \<Rightarrow>
          if run_status r \<notin> set [''pending'', ''running''] then (None, d)
          else
            let was_pending = (run_status r = ''pending'');
                d' = (if action = ''rollback'' \<and> was_pending \<and> \<not> queues rid
                      then del_run rid (delete_retry_counters [rid] d)
                      else upd_run rid (\<lambda>r. r\<lparr>run_status := ''interrupted'', run_updated_at := now\<rparr>) d)
            in (Some (run_thread_id r, was_pending), d'))"

fun cancel_candidates_loop ::
  "(uuid \<Rightarrow> bool option) \<Rightarrow> (uuid \<Rightarrow> bool) \<Rightarrow> string \<Rightarrow> time \<Rightarrow> uuid list \<Rightarrow> db \<Rightarrow> uuid list \<times> uuid list \<times> db" where
  "cancel_candidates_loop hb queues action now [] d = ([], [], d)"
| "cancel_candidates_loop hb queues action now (rid # rids) d =
     (case cancel_single_run queues action now rid d of
        (None, d1) \<Rightarrow> cancel_candidates_loop hb queues action now rids d1
      | (Some (t, was_pending), d1) \<Rightarrow>
          (case cancel_candidates_loop hb queues action now rids d1 of (affected, told, d2) \<Rightarrow>
            ((case t of None \<Rightarrow> [] | Some k \<Rightarrow> if was_pending \<or> hb rid = Some False then [k] else [])
             @ affected, rid # told, d2)))"

fun idle_affected_threads :: "uuid list \<Rightarrow> time \<Rightarrow> db \<Rightarrow> db" where
  "idle_affected_threads [] now d = d"
| "idle_affected_threads (t # ts) now d =
     idle_affected_threads ts now
       (if pending_runs t d \<noteq> [] then d
        else upd_thread t (\<lambda>th. if th_status th = ''busy''
               then th\<lparr>th_status := ''idle'', th_updated_at := now\<rparr> else th) d)"

text \<open>The result lists the runs that were sent the action.\<close>

definition runs_cancel ::
  "api \<Rightarrow> env \<Rightarrow> (uuid \<Rightarrow> bool option) \<Rightarrow> (uuid \<Rightarrow> bool) \<Rightarrow> caller option \<Rightarrow> uuid list option \<Rightarrow> string \<Rightarrow>
   uuid option \<Rightarrow> string option \<Rightarrow> uuid option \<Rightarrow> db \<Rightarrow> (uuid list \<times> db) res" where
  "runs_cancel a e hb queues ctx run_ids action thread_id status assistant_id d =
     rbind (validate_cancel_args assistant_id thread_id run_ids status) (\<lambda>_.
     rbind (handle_event a ''threads'' ctx ''update''
       [(''thread_id'', case thread_id of None \<Rightarrow> JNull | Some t \<Rightarrow> JStr (uuid_str t)),
        (''action'', JStr action),
        (''metadata'', JObj [(''run_ids'', case run_ids of None \<Rightarrow> JNull
             | Some ks \<Rightarrow> JList (map (\<lambda>k. JStr (uuid_str k)) ks)), (''status'', json_opt status)])])
       (\<lambda>(filters, _).
     rbind (cancel_query assistant_id status run_ids thread_id d) (\<lambda>found.
     rbind (if truthy filters then rfilter (cancel_allowed filters d) found else Inr found)
       (\<lambda>candidates.
       if candidates = [] \<and> assistant_id = None then Inl (HTTPException 404 ''No runs found to cancel'')
       else
         case cancel_candidates_loop hb queues action (e_now e) (map run_id candidates) d of
           (affected, told, d1) \<Rightarrow>
             Inr (told, idle_affected_threads (remdups affected) (e_now e) d1)))))"

section \<open>Claiming\<close>

text \<open>
  \<open>_claim_next_run\<close>. The candidate is selected in \<open>d0\<close>, skipping rows other transactions hold
  (\<open>locked\<close>) and the threads found blocked before; the checks after the thread's lock read \<open>d1\<close>.
\<close>

datatype claim_result =
    ClaimEmpty
  | ClaimBlocked uuid uuid
  | Claimed row_dict int

definition claim_candidates :: "time \<Rightarrow> uuid set \<Rightarrow> uuid list \<Rightarrow> db \<Rightarrow> run_row list" where
  "claim_candidates now locked blocked d =
     filter (\<lambda>r. run_status r = ''pending'' \<and> run_created_at r \<le> now \<and>
        \<not> list_ex (\<lambda>x. run_thread_id x \<noteq> None \<and> run_thread_id x = run_thread_id r \<and>
             run_status x = ''running'') (db_runs d) \<and>
        (run_thread_id r = None \<or> run_thread_id r \<notin> Some ` set blocked) \<and>
        run_id r \<notin> locked) (db_runs d)"

definition has_heartbeating_sibling :: "(uuid \<Rightarrow> bool option) \<Rightarrow> uuid \<Rightarrow> uuid \<Rightarrow> db \<Rightarrow> bool" where
  "has_heartbeating_sibling hb t rid d =
     list_ex (\<lambda>r. run_thread_id r = Some t \<and> run_id r \<noteq> rid \<and>
        run_status r \<in> set [''running'', ''interrupted''] \<and> hb (run_id r) \<noteq> Some False) (db_runs d)"

definition other_running :: "uuid \<Rightarrow> uuid \<Rightarrow> db \<Rightarrow> bool" where
  "other_running t rid d =
     list_ex (\<lambda>r. run_thread_id r = Some t \<and> run_status r = ''running'' \<and> run_id r \<noteq> rid) (db_runs d)"

definition begin_run :: "env \<Rightarrow> run_row \<Rightarrow> db \<Rightarrow> (claim_result \<times> db) res" where
  "begin_run e r d =
     (let d1 = (case run_thread_id r of None \<Rightarrow> d
                | Some t \<Rightarrow> upd_thread t (\<lambda>th. th\<lparr>th_status := ''busy''\<rparr>) d)
      in rbind (write_run_status (run_id r) ''running'' (e_now e) d1) (\<lambda>d2.
         case increment_counter (run_id r) d2 of (attempt, d3) \<Rightarrow>
           Inr (Claimed (run_to_dict (r\<lparr>run_status := ''running'', run_updated_at := e_now e\<rparr>)) attempt,
                d3)))"

definition claim_next_run ::
  "env \<Rightarrow> (uuid \<Rightarrow> bool option) \<Rightarrow> uuid set \<Rightarrow> uuid list \<Rightarrow> db \<Rightarrow> db \<Rightarrow> (claim_result \<times> db) res" where
  "claim_next_run e hb locked blocked d0 d1 =
     (case min_by run_created_at (claim_candidates (e_now e) locked blocked d0) of
        None \<Rightarrow> Inr (ClaimEmpty, d1)
      | Some cand \<Rightarrow>
          (case get_run (run_id cand) d1 of
             None \<Rightarrow> Inr (ClaimEmpty, d1)
           | Some r \<Rightarrow>
               (case run_thread_id r of
                  None \<Rightarrow> begin_run e r d1
                | Some t \<Rightarrow>
                    if other_running t (run_id r) d1 then Inr (ClaimBlocked (run_id r) t, d1)
                    else if has_heartbeating_sibling hb t (run_id r) d1
                      then Inr (ClaimBlocked (run_id r) t,
                                upd_run (run_id r) (\<lambda>r. r\<lparr>run_status := ''pending''\<rparr>) d1)
                    else begin_run e r d1)))"

text \<open>
  \<open>Runs.next\<close>: claims until the limit, an empty queue, or as many conflicts as the budget allows.
  \<open>world i\<close> is what other transactions do to the database during the \<open>i\<close>-th claim; the result
  lists what was yielded, the number of transactions and the blocked threads.
\<close>

record claim_state =
  cs_left :: nat
  cs_budget :: nat
  cs_blocked :: "uuid list"
  cs_tries :: nat
  cs_yielded :: "(row_dict \<times> int) list"
  cs_db :: db

function claim_loop ::
  "env \<Rightarrow> (uuid \<Rightarrow> bool option) \<Rightarrow> (nat \<Rightarrow> uuid set) \<Rightarrow> (nat \<Rightarrow> db \<Rightarrow> db) \<Rightarrow> claim_state \<Rightarrow> claim_state" where
  "claim_loop e hb locked world s =
     (if cs_left s = 0 \<or> cs_budget s = 0 then s
      else
        let i = cs_tries s; d1 = world i (cs_db s); s1 = s\<lparr>cs_tries := i + 1, cs_db := d1\<rparr>
        in case claim_next_run e hb (locked i) (cs_blocked s) (cs_db s) d1 of
             Inr (ClaimEmpty, d) \<Rightarrow> s1\<lparr>cs_db := d\<rparr>
           | Inr (ClaimBlocked _ t, d) \<Rightarrow>
               claim_loop e hb locked world
                 (s1\<lparr>cs_db := d, cs_blocked := cs_blocked s @ [t], cs_budget := cs_budget s - 1\<rparr>)
           | Inr (Claimed run attempt, d) \<Rightarrow>
               claim_loop e hb locked world
                 (s1\<lparr>cs_db := d, cs_left := cs_left s - 1,
                     cs_yielded := cs_yielded s @ [(run, attempt)]\<rparr>)
           | Inl _ \<Rightarrow>
               claim_loop e hb locked world (s1\<lparr>cs_budget := cs_budget s - 1\<rparr>))"
  by pat_completeness auto

termination
  by (relation "measure (\<lambda>(e, hb, locked, world, s). cs_left s + cs_budget s)") auto

declare claim_loop.simps [simp del]

definition runs_next ::
  "env \<Rightarrow> (uuid \<Rightarrow> bool option) \<Rightarrow> (nat \<Rightarrow> uuid set) \<Rightarrow> (nat \<Rightarrow> db \<Rightarrow> db) \<Rightarrow> nat \<Rightarrow> db \<Rightarrow> claim_state" where
  "runs_next e hb locked world limit d =
     claim_loop e hb locked world
       \<lparr>cs_left = limit, cs_budget = max (limit * 8) 8, cs_blocked = [], cs_tries = 0,
        cs_yielded = [], cs_db = d\<rparr>"

section \<open>The sweep\<close>

definition swept_error :: json where
  "swept_error = JObj [(''error'', JStr ''RuntimeError''),
     (''message'', JStr ''Run swept after exceeding max retries'')]"

definition mark_thread_error_if_idle :: "time \<Rightarrow> uuid \<Rightarrow> db \<Rightarrow> db" where
  "mark_thread_error_if_idle now t d =
     (if pending_runs t d \<noteq> [] then d
      else upd_thread t (\<lambda>th. th\<lparr>th_status := ''error'', th_updated_at := now,
             th_error := (if th_error th = JNull then swept_error else th_error th)\<rparr>) d)"

definition sweep_single_run :: "env \<Rightarrow> int \<Rightarrow> uuid \<Rightarrow> db \<Rightarrow> bool \<times> db" where
  "sweep_single_run e max_retries rid d =
     (let new_status = (if get_counter rid d \<ge> max_retries then ''error'' else ''pending'') in
      case get_run rid d of
        None \<Rightarrow> (False, d)
      | Some r \<Rightarrow>
          if run_status r \<noteq> ''running'' then (False, d)
          else
            let d1 = upd_run rid (\<lambda>r. r\<lparr>run_status := new_status, run_updated_at := e_now e\<rparr>) d
            in (True,
                if new_status = ''error''
                then (case run_thread_id r of None \<Rightarrow> d1
                      | Some t \<Rightarrow> mark_thread_error_if_idle (e_now e) t d1)
                else d1))"

fun sweep_runs :: "env \<Rightarrow> (uuid \<Rightarrow> bool option) \<Rightarrow> int \<Rightarrow> uuid list \<Rightarrow> db \<Rightarrow> uuid list \<times> db" where
  "sweep_runs e hb max_retries [] d = ([], d)"
| "sweep_runs e hb max_retries (rid # rids) d =
     (if hb rid \<noteq> Some False then sweep_runs e hb max_retries rids d
      else
        (case sweep_single_run e max_retries rid d of (swept, d1) \<Rightarrow>
         (case sweep_runs e hb max_retries rids d1 of (ids, d2) \<Rightarrow>
           (if swept then rid # ids else ids, d2))))"

fun idle_orphans :: "(uuid \<Rightarrow> bool option) \<Rightarrow> time \<Rightarrow> uuid list \<Rightarrow> db \<Rightarrow> db" where
  "idle_orphans hb now [] d = d"
| "idle_orphans hb now (t # ts) d =
     idle_orphans hb now ts
       (if thread_has_inflight_work hb t d then d
        else upd_thread t (\<lambda>th. th\<lparr>th_status := ''idle'', th_updated_at := now\<rparr>) d)"

definition idle_orphaned_busy_threads :: "(uuid \<Rightarrow> bool option) \<Rightarrow> time \<Rightarrow> db \<Rightarrow> db" where
  "idle_orphaned_busy_threads hb now d =
     idle_orphans hb now (map th_id (filter (\<lambda>t. th_status t = ''busy'') (db_threads d))) d"

definition runs_sweep :: "env \<Rightarrow> (uuid \<Rightarrow> bool option) \<Rightarrow> int \<Rightarrow> db \<Rightarrow> uuid list \<times> db" where
  "runs_sweep e hb max_retries d =
     (case sweep_runs e hb max_retries
             (map run_id (filter (\<lambda>r. run_status r = ''running'') (db_runs d))) d of
        (ids, d1) \<Rightarrow> (ids, idle_orphaned_busy_threads hb (e_now e) d1))"

end
