(* ===== verification/CronOps.thy ===== *)
theory CronOps
  imports ThreadOps
begin

text \<open>
  \<open>Crons\<close> of \<open>ops.py\<close>: put, update, get, delete, search, count, the claiming of due crons
  (\<open>Crons.next\<close>) and \<open>set_next_run_date\<close>. The \<open>croniter\<close> package and the graph registry of
  \<open>langgraph_api\<close> are a parameter, the record \<open>cron_lib\<close>.
\<close>

section \<open>Third-party functions\<close>

text \<open>
  \<open>cl_valid\<close> is \<open>croniter.is_valid\<close>, \<open>cl_next\<close> is \<open>next_cron_date\<close> of a schedule, a time and a
  time zone, \<open>cl_assistant\<close> is \<open>get_assistant_id\<close> and \<open>cl_system\<close> the \<open>SYSTEM_ASSISTANT_IDS\<close>.
\<close>

record cron_lib =
  cl_valid :: "string \<Rightarrow> bool"
  cl_next :: "string \<Rightarrow> time \<Rightarrow> string option \<Rightarrow> time"
  cl_assistant :: "string \<Rightarrow> string"
  cl_system :: "string set"

definition cron_missing :: "uuid \<Rightarrow> 'a res" where
  "cron_missing k = Inl (HTTPException 404 (''Cron '' @ uuid_str k @ '' not found''))"

definition invalid_schedule :: "string \<Rightarrow> 'a res" where
  "invalid_schedule s = Inl (HTTPException 422 (''Invalid cron schedule: '' @ s))"

section \<open>Putting\<close>

text \<open>The payload a cron stores: its id in the configurable settings and the resolved assistant.\<close>

definition cron_payload_with_id :: "uuid \<Rightarrow> dict \<Rightarrow> dict" where
  "cron_payload_with_id k payload =
     (let config = obj_of (dgetor payload ''config'' (JObj []));
          configurable = obj_of (dgetor config ''configurable'' (JObj []))
      in dset ''config'' (JObj (dset ''configurable''
           (JObj (dset ''cron_id'' (JStr (uuid_str k)) configurable)) config)) payload)"

record cron_args =
  ca_payload :: dict
  ca_schedule :: string
  ca_cron_id :: "uuid option"
  ca_thread_id :: "uuid option"
  ca_end_time :: "time option"
  ca_metadata :: dict
  ca_enabled :: bool
  ca_timezone :: "string option"
  ca_on_run_completed :: "string option"

definition caller_identity :: "caller option \<Rightarrow> string option" where
  "caller_identity c =
     (case c of None \<Rightarrow> None
      | Some x \<Rightarrow> (case dget (ca_user x) ''identity'' of JStr s \<Rightarrow> Some s | _ \<Rightarrow> None))"

definition cron_put_check_refs ::
  "api \<Rightarrow> cron_lib \<Rightarrow> caller option \<Rightarrow> uuid \<Rightarrow> uuid option \<Rightarrow> db \<Rightarrow> unit res" where
  "cron_put_check_refs a cl ctx aid tid d =
     (let no_assistant = Inl (HTTPException 404 (''Assistant '' @ uuid_str aid @ '' not found''));
          no_thread = (\<lambda>t. Inl (HTTPException 404 (''Thread '' @ uuid_str t @ '' not found'')))
      in case get_assistant aid d of
        None \<Rightarrow> no_assistant
      | Some r \<Rightarrow>
          rbind (if uuid_str aid \<in> cl_system cl then Inr False
                 else rbind (handle_event a ''assistants'' ctx ''read''
                        [(''assistant_id'', JStr (uuid_str aid))])
                   (\<lambda>(filters, _). auth_denies (Some (as_metadata r)) filters)) (\<lambda>denied.
            if denied then no_assistant
            else case tid of
                None \<Rightarrow> Inr ()
              | Some t \<Rightarrow>
                  rbind (handle_event a ''threads'' ctx ''read'' [(''thread_id'', JStr (uuid_str t))])
                    (\<lambda>(filters, _).
                      case get_thread t d of
                        None \<Rightarrow> no_thread t
                      | Some th \<Rightarrow>
                          rbind (auth_denies (Some (th_metadata th)) filters) (\<lambda>denied.
                            if denied then no_thread t else Inr ()))))"

definition new_cron ::
  "env \<Rightarrow> cron_lib \<Rightarrow> cron_args \<Rightarrow> uuid \<Rightarrow> uuid \<Rightarrow> dict \<Rightarrow> string option \<Rightarrow> cron_row" where
  "new_cron e cl x k aid payload user_id =
     \<lparr>cr_id = k, cr_assistant_id = aid, cr_thread_id = ca_thread_id x, cr_schedule = ca_schedule x,
      cr_payload = payload, cr_metadata = ca_metadata x,
      cr_next_run_date = Some (cl_next cl (ca_schedule x) (e_now e) (ca_timezone x)),
      cr_end_time = ca_end_time x, cr_user_id = user_id, cr_timezone = ca_timezone x,
      cr_on_run_completed = ca_on_run_completed x, cr_enabled = ca_enabled x,
      cr_created_at = e_now e, cr_updated_at = e_now e\<rparr>"

definition cron_put_return_existing :: "cron_row \<Rightarrow> json \<Rightarrow> row_dict list res" where
  "cron_put_return_existing r filters =
     rbind (auth_denies (Some (cr_metadata r)) filters) (\<lambda>denied.
       if denied then cron_missing (cr_id r) else Inr [cron_to_dict r])"

definition crons_put ::
  "api \<Rightarrow> env \<Rightarrow> cron_lib \<Rightarrow> caller option \<Rightarrow> cron_args \<Rightarrow> db \<Rightarrow> (row_dict list \<times> db) res" where
  "crons_put a e cl ctx0 x d =
     (if \<not> cl_valid cl (ca_schedule x) then invalid_schedule (ca_schedule x)
      else
        let ctx = (case ctx0 of Some c \<Rightarrow> Some c | None \<Rightarrow> api_caller a);
            (k, d1) = ensure_uuid e (ca_cron_id x) d
        in case parse_uuid (cl_assistant cl (py_str e (dget (ca_payload x) ''assistant_id''))) of
             None \<Rightarrow> Inl (ValueError ''badly formed hexadecimal UUID string'')
           | Some aid \<Rightarrow>
               (let payload = dset ''assistant_id'' (JStr (uuid_str aid))
                                (cron_payload_with_id k (ca_payload x))
                in rbind (handle_event a ''crons'' ctx ''create''
                     [(''payload'', JObj payload), (''schedule'', JStr (ca_schedule x)),
                      (''cron_id'', JStr (uuid_str k)),
                      (''thread_id'', case ca_thread_id x of None \<Rightarrow> JNull | Some t \<Rightarrow> JStr (uuid_str t)),
                      (''end_time'', case ca_end_time x of None \<Rightarrow> JNull | Some t \<Rightarrow> JInt t)])
                     (\<lambda>(filters, out).
                   rbind (cron_put_check_refs a cl ctx aid (ca_thread_id x) d1) (\<lambda>_.
                     case get_cron k d1 of
                       Some r \<Rightarrow> rbind (cron_put_return_existing r filters) (\<lambda>ys. Inr (ys, d1))
                     | None \<Rightarrow>
                         (let r = new_cron e cl x k aid (obj_of (dget out ''payload''))
                                    (caller_identity ctx)
                          in Inr ([cron_to_dict r], d1\<lparr>db_crons := db_crons d1 @ [r]\<rparr>))))))"

section \<open>Updating\<close>

record cron_update =
  cu_schedule :: "string option"
  cu_end_time :: "time option"
  cu_enabled :: "bool option"
  cu_on_run_completed :: "string option"
  cu_payload :: "dict option"
  cu_metadata :: "dict option"
  cu_timezone :: "string option"

definition merge_cron_payload :: "dict \<Rightarrow> dict \<Rightarrow> uuid \<Rightarrow> dict" where
  "merge_cron_payload existing payload k =
     (let merged = dmerge existing payload;
          kept = dset ''assistant_id'' (dgetdef existing ''assistant_id'' (dget merged ''assistant_id'')) merged
      in cron_payload_with_id k kept)"

definition apply_cron_updates :: "cron_lib \<Rightarrow> time \<Rightarrow> cron_update \<Rightarrow> cron_row \<Rightarrow> cron_row res" where
  "apply_cron_updates cl now u r =
     (let r1 = (case cu_timezone u of None \<Rightarrow> r | Some z \<Rightarrow> r\<lparr>cr_timezone := Some z\<rparr>) in
      rbind (case cu_schedule u of
          Some s \<Rightarrow>
            if \<not> cl_valid cl s then invalid_schedule s
            else Inr (r1\<lparr>cr_schedule := s, cr_next_run_date := Some (cl_next cl s now (cr_timezone r1))\<rparr>)
        | None \<Rightarrow>
            Inr (case cu_timezone u of None \<Rightarrow> r1
                 | Some z \<Rightarrow> r1\<lparr>cr_next_run_date := Some (cl_next cl (cr_schedule r1) now (Some z))\<rparr>))
       (\<lambda>r2. Inr (r2\<lparr>
          cr_end_time := (case cu_end_time u of None \<Rightarrow> cr_end_time r2 | Some t \<Rightarrow> Some t),
          cr_enabled := (case cu_enabled u of None \<Rightarrow> cr_enabled r2 | Some b \<Rightarrow> b),
          cr_on_run_completed :=
            (case cu_on_run_completed u of None \<Rightarrow> cr_on_run_completed r2 | Some s \<Rightarrow> Some s),
          cr_metadata := (case cu_metadata u of None \<Rightarrow> cr_metadata r2 | Some m \<Rightarrow> dmerge (cr_metadata r2) m),
          cr_payload := (case cu_payload u of None \<Rightarrow> cr_payload r2
                         | Some p \<Rightarrow> merge_cron_payload (cr_payload r2) p (cr_id r2))\<rparr>)))"

definition has_cron_updates :: "cron_update \<Rightarrow> bool" where
  "has_cron_updates u =
     (cu_schedule u \<noteq> None \<or> cu_end_time u \<noteq> None \<or> cu_enabled u \<noteq> None \<or>
      cu_on_run_completed u \<noteq> None \<or> cu_payload u \<noteq> None \<or> cu_metadata u \<noteq> None \<or>
      cu_timezone u \<noteq> None)"

definition visible_cron :: "json \<Rightarrow> uuid \<Rightarrow> db \<Rightarrow> cron_row option res" where
  "visible_cron filters k d =
     (case get_cron k d of
        None \<Rightarrow> Inr None
      | Some r \<Rightarrow> rbind (auth_denies (Some (cr_metadata r)) filters) (\<lambda>denied.
          Inr (if denied then None else Some r)))"

definition crons_update ::
  "api \<Rightarrow> env \<Rightarrow> cron_lib \<Rightarrow> caller option \<Rightarrow> uuid \<Rightarrow> cron_update \<Rightarrow> db \<Rightarrow> (row_dict list \<times> db) res" where
  "crons_update a e cl ctx k u d =
     (if \<not> has_cron_updates u then Inl (HTTPException 400 ''No fields to update'')
      else
        rbind (handle_event a ''crons'' ctx ''update''
          [(''cron_id'', JStr (uuid_str k)),
           (''payload'', case cu_payload u of None \<Rightarrow> JNull | Some p \<Rightarrow> JObj p),
           (''schedule'', json_opt (cu_schedule u))]) (\<lambda>(filters, out).
        rbind (visible_cron filters k d) (\<lambda>v.
          case v of None \<Rightarrow> cron_missing k
          | Some r \<Rightarrow>
              (let u' = u\<lparr>cu_payload := (case cu_payload u of None \<Rightarrow> None
                                          | Some _ \<Rightarrow> Some (obj_of (dget out ''payload'')))\<rparr>
               in rbind (apply_cron_updates cl (e_now e) u' r) (\<lambda>r'.
                    let r'' = r'\<lparr>cr_updated_at := e_now e\<rparr>
                    in Inr ([cron_to_dict r''], upd_cron k (\<lambda>_. r'') d))))))"

section \<open>Reading and deleting\<close>

definition crons_get :: "api \<Rightarrow> caller option \<Rightarrow> uuid \<Rightarrow> db \<Rightarrow> row_dict list res" where
  "crons_get a ctx k d =
     rbind (handle_event a ''crons'' ctx ''read'' [(''cron_id'', JStr (uuid_str k))]) (\<lambda>(filters, _).
     rbind (visible_cron filters k d) (\<lambda>v.
       Inr (case v of None \<Rightarrow> [] | Some r \<Rightarrow> [cron_to_dict r])))"

definition crons_delete :: "api \<Rightarrow> caller option \<Rightarrow> uuid \<Rightarrow> db \<Rightarrow> (uuid list \<times> db) res" where
  "crons_delete a ctx k d =
     rbind (handle_event a ''crons'' ctx ''delete'' [(''cron_id'', JStr (uuid_str k))]) (\<lambda>(filters, _).
     rbind (visible_cron filters k d) (\<lambda>v.
       Inr (case v of None \<Rightarrow> ([], d)
            | Some _ \<Rightarrow> ([k], d\<lparr>db_crons := t_del cr_id k (db_crons d)\<rparr>))))"

definition paginate_crons_query ::
  "json \<Rightarrow> dict option \<Rightarrow> nat \<Rightarrow> nat \<Rightarrow> cron_row list \<Rightarrow> (cron_row list \<times> nat option) res" where
  "paginate_crons_query filters plain offset limit rows =
     (if truthy filters \<and> plain = None then
        rbind (rfilter (\<lambda>r. rbind (auth_denies (Some (cr_metadata r)) filters) (\<lambda>x. Inr (\<not> x))) rows)
          (\<lambda>kept. Inr (take limit (drop offset kept),
             if length kept > offset + limit then Some (offset + limit) else None))
      else
        let fetched = take (limit + 1) (drop offset rows)
        in Inr (take limit fetched, if length fetched > limit then Some (offset + limit) else None))"

definition crons_search ::
  "api \<Rightarrow> caller option \<Rightarrow> uuid option \<Rightarrow> uuid option \<Rightarrow> bool option \<Rightarrow> nat \<Rightarrow> nat \<Rightarrow> string list option \<Rightarrow>
   string option \<Rightarrow> string option \<Rightarrow> dict option \<Rightarrow> db \<Rightarrow> (row_dict list \<times> nat option) res" where
  "crons_search a ctx aid tid enabled limit offset sel sort_by sort_order metadata d =
     rbind (handle_event a ''crons'' ctx ''search''
       [(''assistant_id'', case aid of None \<Rightarrow> JNull | Some k \<Rightarrow> JStr (uuid_str k)),
        (''thread_id'', case tid of None \<Rightarrow> JNull | Some k \<Rightarrow> JStr (uuid_str k)),
        (''limit'', JInt (int limit)), (''offset'', JInt (int offset))]) (\<lambda>(filters, _).
     let plain = plain_metadata_filter filters;
         rows = filter (\<lambda>r. cron_where_clauses aid tid metadata r \<and>
              (case enabled of None \<Rightarrow> True | Some b \<Rightarrow> cr_enabled r = b) \<and>
              (case plain of None \<Rightarrow> True
               | Some p \<Rightarrow> p \<noteq> [] \<longrightarrow> jsonb_contains (JObj (cr_metadata r)) (JObj p))) (db_crons d)
     in rbind (resolve_sort_field sort_by CRON_SORT_FIELDS ''created_at'' True) (\<lambda>sb.
        rbind (paginate_crons_query filters plain offset limit
                 (sort_rows (sort_reverse sort_order) (\<lambda>r. row_sort_key (cron_attrs r) sb) rows))
          (\<lambda>(page, cursor). Inr (map (\<lambda>r. select_fields sel (cron_to_dict r)) page, cursor))))"

definition crons_count ::
  "api \<Rightarrow> caller option \<Rightarrow> uuid option \<Rightarrow> uuid option \<Rightarrow> dict option \<Rightarrow> db \<Rightarrow> nat res" where
  "crons_count a ctx aid tid metadata d =
     rbind (handle_event a ''crons'' ctx ''search''
       [(''assistant_id'', case aid of None \<Rightarrow> JNull | Some k \<Rightarrow> JStr (uuid_str k)),
        (''thread_id'', case tid of None \<Rightarrow> JNull | Some k \<Rightarrow> JStr (uuid_str k)),
        (''limit'', JInt 0), (''offset'', JInt 0)]) (\<lambda>(filters, _).
       count_with_auth cr_metadata (cron_where_clauses aid tid metadata) filters (db_crons d))"

section \<open>Due crons\<close>

definition cron_due :: "time \<Rightarrow> cron_row \<Rightarrow> bool" where
  "cron_due now r =
     (cr_enabled r \<and> (case cr_end_time r of None \<Rightarrow> True | Some t \<Rightarrow> t \<ge> now) \<and>
      (case cr_next_run_date r of None \<Rightarrow> True | Some t \<Rightarrow> t \<le> now))"

text \<open>\<open>ORDER BY next_run_date ASC NULLS FIRST\<close>.\<close>

definition due_key :: "cron_row \<Rightarrow> bool \<times> time" where
  "due_key r = (case cr_next_run_date r of None \<Rightarrow> (False, 0) | Some t \<Rightarrow> (True, t))"

definition advance_cron :: "cron_lib \<Rightarrow> time \<Rightarrow> cron_row \<Rightarrow> cron_row" where
  "advance_cron cl now r =
     r\<lparr>cr_next_run_date := Some (cl_next cl (cr_schedule r) now (cr_timezone r)), cr_updated_at := now\<rparr>"

definition due_crons :: "time \<Rightarrow> uuid set \<Rightarrow> db \<Rightarrow> uuid list" where
  "due_crons now locked d =
     map cr_id (sort_key due_key (filter (\<lambda>r. cron_due now r \<and> cr_id r \<notin> locked) (db_crons d)))"

fun claim_crons :: "cron_lib \<Rightarrow> time \<Rightarrow> uuid list \<Rightarrow> db \<Rightarrow> row_dict list \<times> db" where
  "claim_crons cl now [] d = ([], d)"
| "claim_crons cl now (k # ks) d =
     (case get_cron k d of
        None \<Rightarrow> claim_crons cl now ks d
      | Some r \<Rightarrow>
          (case claim_crons cl now ks (upd_cron k (advance_cron cl now) d) of
             (ys, d') \<Rightarrow> (rset_default ''now'' (CTime now) (cron_to_dict r) # ys, d')))"

definition crons_next :: "env \<Rightarrow> cron_lib \<Rightarrow> uuid set \<Rightarrow> db \<Rightarrow> row_dict list \<times> db" where
  "crons_next e cl locked d = claim_crons cl (e_now e) (due_crons (e_now e) locked d) d"

definition crons_set_next_run_date :: "env \<Rightarrow> uuid \<Rightarrow> time \<Rightarrow> db \<Rightarrow> db" where
  "crons_set_next_run_date e k date d =
     upd_cron k (\<lambda>r. r\<lparr>cr_next_run_date := Some date, cr_updated_at := e_now e\<rparr>) d"

end
