(* ===== verification/CompatOps.thy ===== *)
theory CompatOps
  imports AssistantOps RunOps CronOps
begin

text \<open>
  The operations that span resources: deleting an assistant with its threads, runs, versions and
  crons, and cancelling one run. The step relation \<open>assistant_step\<close> collects the operations that
  write assistants, and the invariant of their version history is proved over it.
\<close>

section \<open>Deleting an assistant\<close>

definition assistant_threads :: "uuid \<Rightarrow> db \<Rightarrow> uuid list" where
  "assistant_threads k d =
     map th_id (filter (\<lambda>t. jsonb_contains (JObj (th_metadata t))
        (JObj [(''assistant_id'', JStr (uuid_str k))])) (db_threads d))"

text \<open>Threads that cannot be deleted are passed over.\<close>

fun cascade_threads :: "api \<Rightarrow> caller option \<Rightarrow> uuid list \<Rightarrow> conn \<Rightarrow> unit res \<times> conn" where
  "cascade_threads a ctx [] c = (Inr (), c)"
| "cascade_threads a ctx (t # ts) c =
     (case threads_delete a ctx t c of
        (Inr _, c') \<Rightarrow> cascade_threads a ctx ts c'
      | (Inl (HTTPException code detail), c') \<Rightarrow> cascade_threads a ctx ts c'
      | (Inl err, c') \<Rightarrow> (Inl err, c'))"

definition del_assistant :: "uuid \<Rightarrow> db \<Rightarrow> db" where
  "del_assistant k d =
     d\<lparr>db_versions := filter (\<lambda>v. av_assistant_id v \<noteq> k) (db_versions d),
       db_crons := filter (\<lambda>c. cr_assistant_id c \<noteq> k) (db_crons d),
       db_assistants := t_del as_id k (db_assistants d)\<rparr>"

definition assistants_delete ::
  "api \<Rightarrow> env \<Rightarrow> (uuid \<Rightarrow> bool option) \<Rightarrow> (uuid \<Rightarrow> bool) \<Rightarrow> caller option \<Rightarrow> uuid \<Rightarrow> bool \<Rightarrow> conn \<Rightarrow>
   uuid list res \<times> conn" where
  "assistants_delete a e hb queues ctx k delete_threads c =
     (case rbind (handle_event a ''assistants'' ctx ''delete'' [(''assistant_id'', JStr (uuid_str k))])
             (\<lambda>(filters, _). visible_assistant filters k (cn_db c)) of
        Inl err \<Rightarrow> (Inl err, c)
      | Inr _ \<Rightarrow>
          cbind (if delete_threads then cascade_threads a ctx (assistant_threads k (cn_db c))
                 else (\<lambda>c. (Inr (), c))) (\<lambda>_.
          cbind (in_session (runs_cancel a e hb queues ctx None ''interrupt'' None None (Some k)))
            (\<lambda>_. in_session (\<lambda>d. Inr ([k], del_assistant k d)))) c)"

definition cancel_run ::
  "api \<Rightarrow> env \<Rightarrow> (uuid \<Rightarrow> bool option) \<Rightarrow> (uuid \<Rightarrow> bool) \<Rightarrow> caller option \<Rightarrow> uuid \<Rightarrow> uuid \<Rightarrow> db \<Rightarrow>
   (uuid list \<times> db) res" where
  "cancel_run a e hb queues ctx tid rid d =
     runs_cancel a e hb queues ctx (Some [rid]) ''interrupt'' (Some tid) None None d"

section \<open>Frame lemmas\<close>

lemma pending_upd_run:
  "(\<And>r. run_thread_id (f r) = run_thread_id r) \<Longrightarrow>
   pending_runs t (upd_run k f d) =
     filter (\<lambda>r. run_thread_id r = Some t \<and> run_status r \<in> set [''pending'', ''running''])
       (map (\<lambda>r. if run_id r = k then f r else r) (db_runs d))"
  by (simp add: pending_runs_def upd_run_def t_upd_def)

lemma pending_upd_thread [simp]: "pending_runs t (upd_thread k g d) = pending_runs t d"
  by (simp add: pending_runs_def)

lemma cancel_single_frame:
  "db_assistants (snd (cancel_single_run q act now rid d)) = db_assistants d"
  "db_versions (snd (cancel_single_run q act now rid d)) = db_versions d"
  "db_threads (snd (cancel_single_run q act now rid d)) = db_threads d"
  "db_crons (snd (cancel_single_run q act now rid d)) = db_crons d"
  by (auto simp: cancel_single_run_def Let_def delete_retry_counters_def split: option.splits)

lemma cancel_loop_frame:
  "cancel_candidates_loop hb q act now rids d = (affected, told, d') \<Longrightarrow>
   db_assistants d' = db_assistants d \<and> db_versions d' = db_versions d \<and>
   db_threads d' = db_threads d \<and> db_crons d' = db_crons d"
proof (induction rids arbitrary: d d' affected told)
  case (Cons rid rids)
  obtain res d1 where c: "cancel_single_run q act now rid d = (res, d1)"
    by (cases "cancel_single_run q act now rid d")
  note fr = cancel_single_frame [of q act now rid d, unfolded c, simplified]
  obtain af tl d2 where l: "cancel_candidates_loop hb q act now rids d1 = (af, tl, d2)"
    by (cases "cancel_candidates_loop hb q act now rids d1") auto
  from Cons.IH [OF l] fr Cons.prems c l show ?case by (auto split: option.splits)
qed simp

lemma idle_affected_frame:
  "db_assistants (idle_affected_threads ts now d) = db_assistants d \<and>
   db_versions (idle_affected_threads ts now d) = db_versions d \<and>
   db_runs (idle_affected_threads ts now d) = db_runs d \<and>
   db_crons (idle_affected_threads ts now d) = db_crons d"
  by (induction ts arbitrary: d) (simp_all)

lemma runs_cancel_Inr:
  assumes "runs_cancel a e hb q ctx rids act tid st aid d = Inr (ids, d')"
  obtains filters found candidates affected d1 where
    "validate_cancel_args aid tid rids st = Inr ()" "cancel_query aid st rids tid d = Inr found"
    "(if truthy filters then rfilter (cancel_allowed filters d) found else Inr found) = Inr candidates"
    "cancel_candidates_loop hb q act (e_now e) (map run_id candidates) d = (affected, ids, d1)"
    "d' = idle_affected_threads (remdups affected) (e_now e) d1"
proof -
  from assms obtain u filters found candidates where
    u: "validate_cancel_args aid tid rids st = Inr u" and v: "cancel_query aid st rids tid d = Inr found"
    "(if truthy filters then rfilter (cancel_allowed filters d) found else Inr found) = Inr candidates"
    and r: "(if candidates = [] \<and> aid = None then Inl (HTTPException 404 ''No runs found to cancel'')
       else case cancel_candidates_loop hb q act (e_now e) (map run_id candidates) d of
           (affected, told, d1) \<Rightarrow>
             Inr (told, idle_affected_threads (remdups affected) (e_now e) d1)) = Inr (ids, d')"
    unfolding runs_cancel_def by (simp only: rbind_eq_Inr split_paired_Ex prod.case) blast
  from u have u: "validate_cancel_args aid tid rids st = Inr ()" by (cases u) simp
  obtain affected told d1 where
    l: "cancel_candidates_loop hb q act (e_now e) (map run_id candidates) d = (affected, told, d1)"
    by (cases "cancel_candidates_loop hb q act (e_now e) (map run_id candidates) d") auto
  from r l show thesis by (intro that [OF u v, of affected d1]) (auto split: if_splits)
qed

lemma runs_cancel_frame:
  assumes "runs_cancel a e hb q ctx rids act tid st aid d = Inr (ids, d')"
  shows "db_assistants d' = db_assistants d" "db_versions d' = db_versions d" "db_crons d' = db_crons d"
  using runs_cancel_Inr [OF assms] by (metis cancel_loop_frame idle_affected_frame)+

lemma delete_thread_frame:
  "db_assistants (delete_thread_rows k d) = db_assistants d"
  "db_versions (delete_thread_rows k d) = db_versions d"
  by (simp_all add: delete_thread_rows_def del_thread_def Let_def fold_del_run delete_retry_counters_def)

lemma threads_delete_frame:
  "threads_delete a ctx k c = (res, c') \<Longrightarrow>
   db_assistants (cn_db c') = db_assistants (cn_db c) \<and> db_versions (cn_db c') = db_versions (cn_db c)"
  by (auto simp: threads_delete_def schedule_after_commit_def delete_thread_frame split: sum.splits)

lemma cascade_frame:
  "cascade_threads a ctx ts c = (res, c') \<Longrightarrow>
   db_assistants (cn_db c') = db_assistants (cn_db c) \<and> db_versions (cn_db c') = db_versions (cn_db c)"
proof (induction ts arbitrary: c)
  case (Cons t ts)
  obtain r1 c1 where t: "threads_delete a ctx t c = (r1, c1)" by (cases "threads_delete a ctx t c")
  have c1: "db_assistants (cn_db c1) = db_assistants (cn_db c) \<and> db_versions (cn_db c1) = db_versions (cn_db c)"
    using threads_delete_frame [OF t] .
  from Cons.prems t have "cascade_threads a ctx ts c1 = (res, c') \<or> c' = c1"
    by (auto split: sum.splits py_error.splits)
  then show ?case using Cons.IH [of c1] c1 by auto
qed simp

lemma records_id: "records v r \<Longrightarrow> av_assistant_id v = as_id r"
  by (simp add: records_def version_key_def)

lemma del_assistant_wf: "assistants_wf d \<Longrightarrow> assistants_wf (del_assistant k d)"
proof -
  assume wf: "assistants_wf d"
  let ?vs = "filter (\<lambda>v. av_assistant_id v \<noteq> k) (db_versions d)"
  have rec: "\<exists>v \<in> set ?vs. records v r" if "r \<in> set (db_assistants d)" "as_id r \<noteq> k" for r
  proof -
    from that(1) wf obtain v where v: "v \<in> set (db_versions d)" "records v r"
      by (auto simp: assistants_wf_def)
    with that(2) records_id [OF v(2)] show ?thesis by (intro bexI [of _ v]) auto
  qed
  show ?thesis
    using wf rec by (auto simp: assistants_wf_def del_assistant_def t_del_def distinct_map_filter)
qed

section \<open>The history invariant\<close>

text \<open>A successful write of assistants, from one database to the next.\<close>

inductive assistant_step :: "db \<Rightarrow> db \<Rightarrow> bool" where
  put: "assistants_put a e ctx k x if_exists d0 d = Inr (ys, d') \<Longrightarrow> assistant_step d d'"
| patch: "assistants_patch a e ctx k p d = Inr (ys, d') \<Longrightarrow> assistant_step d d'"
| set_latest: "assistants_set_latest a e ctx k n d = Inr (ys, d') \<Longrightarrow> assistant_step d d'"
| delete: "assistants_delete a e hb queues ctx k delete_threads c = (Inr ys, c') \<Longrightarrow>
    assistant_step (cn_db c) (cn_db c')"
| other: "db_assistants d' = db_assistants d \<Longrightarrow> db_versions d' = db_versions d \<Longrightarrow> assistant_step d d'"

lemma delete_wf:
  assumes "assistants_wf (cn_db c)"
    and "assistants_delete a e hb queues ctx k delete_threads c = (Inr ys, c')"
  shows "assistants_wf (cn_db c')"
proof -
  let ?casc = "if delete_threads then cascade_threads a ctx (assistant_threads k (cn_db c))
               else (\<lambda>c. (Inr (), c))"
  obtain r1 c1 where casc: "?casc c = (r1, c1)" by (cases "?casc c")
  have f1: "db_assistants (cn_db c1) = db_assistants (cn_db c) \<and> db_versions (cn_db c1) = db_versions (cn_db c)"
    using casc by (auto split: if_splits dest: cascade_frame)
  from assms(2) casc obtain ids d2 where
    r1: "runs_cancel a e hb queues ctx None ''interrupt'' None None (Some k) (cn_db c1) = Inr (ids, d2)"
    and c': "cn_db c' = del_assistant k d2"
    by (auto simp: assistants_delete_def cbind_def in_session_def split: sum.splits prod.splits)
  have "db_assistants d2 = db_assistants (cn_db c)" "db_versions d2 = db_versions (cn_db c)"
    using runs_cancel_frame [OF r1] f1 by simp_all
  then have "assistants_wf d2" using assms(1) by (simp add: assistants_wf_def)
  then show ?thesis unfolding c' by (rule del_assistant_wf)
qed

lemma assistant_step_wf: "assistant_step d d' \<Longrightarrow> assistants_wf d \<Longrightarrow> assistants_wf d'"
proof (induction rule: assistant_step.induct)
  case (put a e ctx k x if_exists d0 d ys d')
  then show ?case using put_wf by blast
next
  case (patch a e ctx k p d ys d')
  then show ?case using patch_wf by blast
next
  case (set_latest a e ctx k n d ys d')
  then show ?case using set_latest_wf by blast
next
  case (delete a e hb queues ctx k delete_threads c ys c')
  then show ?case using delete_wf by blast
qed (simp add: assistants_wf_def)

end
