(* ===== verification/CompatInvariant.thy ===== *)
theory CompatInvariant
  imports CompatOps
begin

text \<open>
  What every compatibility operation keeps: run and thread statuses stay within their
  vocabularies, run identifiers stay distinct and a thread has at most one running run. The
  operations are reduced to \<open>row_step\<close>, the changes of single rows they make.
\<close>

section \<open>The invariant\<close>

definition statuses_typed :: "db \<Rightarrow> bool" where
  "statuses_typed d =
     ((\<forall>r \<in> set (db_runs d). run_status r \<in> set PUBLIC_RUN_STATUSES) \<and>
      (\<forall>t \<in> set (db_threads d). th_status t \<in> set THREAD_STATUSES))"

definition clash :: "run_row \<Rightarrow> run_row \<Rightarrow> bool" where
  "clash r x =
     (run_status r = ''running'' \<and> run_status x = ''running'' \<and> run_thread_id r \<noteq> None \<and>
      run_thread_id x = run_thread_id r \<and> run_id x \<noteq> run_id r)"

definition unique_running :: "db \<Rightarrow> bool" where
  "unique_running d =
     (distinct (map run_id (db_runs d)) \<and>
      (\<forall>r \<in> set (db_runs d). \<forall>x \<in> set (db_runs d). \<not> clash r x))"

definition compat_ok :: "db \<Rightarrow> bool" where
  "compat_ok d = (statuses_typed d \<and> unique_running d)"

inductive row_step :: "db \<Rightarrow> db \<Rightarrow> bool" where
  written: "write_run_status k s now d = Inr d' \<Longrightarrow> s \<in> set PUBLIC_RUN_STATUSES \<Longrightarrow> row_step d d'"
| stopped: "s \<in> set PUBLIC_RUN_STATUSES \<Longrightarrow> s \<noteq> ''running'' \<Longrightarrow>
    (\<And>r. run_id (f r) = run_id r \<and> run_thread_id (f r) = run_thread_id r \<and> run_status (f r) = s) \<Longrightarrow>
    row_step d (upd_run k f d)"
| removed: "row_step d (del_run k d)"
| inserted: "insert_run_row r d = Inr d' \<Longrightarrow> run_status r \<in> set PUBLIC_RUN_STATUSES \<Longrightarrow> row_step d d'"
| thread: "(\<And>t. th_status t \<in> set THREAD_STATUSES \<Longrightarrow> th_status (g t) \<in> set THREAD_STATUSES) \<Longrightarrow>
    row_step d (upd_thread k g d)"
| thread_new: "th_status t \<in> set THREAD_STATUSES \<Longrightarrow> row_step d (insert_thread t d)"
| frame: "db_runs d' = db_runs d \<Longrightarrow> set (db_threads d') \<subseteq> set (db_threads d) \<Longrightarrow> row_step d d'"

definition public_lits :: "string list" where
  "public_lits = [''pending'', ''running'', ''success'', ''error'', ''timeout'', ''interrupted'']"

lemma public_statuses: "PUBLIC_RUN_STATUSES = public_lits"
  by (simp add: PUBLIC_RUN_STATUSES_def all_statuses_def public_lits_def)

lemma lits_public [simp]:
  "''pending'' \<in> set PUBLIC_RUN_STATUSES" "''running'' \<in> set PUBLIC_RUN_STATUSES"
  "''interrupted'' \<in> set PUBLIC_RUN_STATUSES" "''error'' \<in> set PUBLIC_RUN_STATUSES"
  by (simp_all add: public_statuses public_lits_def)

lemma lits_thread [simp]:
  "''idle'' \<in> set THREAD_STATUSES" "''busy'' \<in> set THREAD_STATUSES"
  "''error'' \<in> set THREAD_STATUSES" "''interrupted'' \<in> set THREAD_STATUSES"
  by (simp_all add: THREAD_STATUSES_def)

lemma upd_run_rows: "set (db_runs (upd_run k f d)) = (\<lambda>r. if run_id r = k then f r else r) ` set (db_runs d)"
  by (simp add: upd_run_def set_t_upd)

lemma upd_run_ids:
  "(\<And>r. run_id (f r) = run_id r) \<Longrightarrow> map run_id (db_runs (upd_run k f d)) = map run_id (db_runs d)"
  by (simp add: upd_run_def keys_t_upd)

lemma unique_runningD:
  "unique_running d \<Longrightarrow> r \<in> set (db_runs d) \<Longrightarrow> x \<in> set (db_runs d) \<Longrightarrow> \<not> clash r x"
  by (simp add: unique_running_def)

lemma unique_running_map:
  assumes u: "unique_running d" and id: "\<And>r. run_id (f r) = run_id r"
    and c: "\<And>r x. r \<in> set (db_runs d) \<Longrightarrow> x \<in> set (db_runs d) \<Longrightarrow>
      clash (if run_id r = k then f r else r) (if run_id x = k then f x else x) \<Longrightarrow> clash r x"
  shows "unique_running (upd_run k f d)"
proof -
  have "distinct (map run_id (db_runs (upd_run k f d)))"
    unfolding upd_run_ids [OF id] using u by (simp add: unique_running_def)
  moreover have "\<not> clash a b" if ab: "a \<in> set (db_runs (upd_run k f d))" "b \<in> set (db_runs (upd_run k f d))" for a b
  proof -
    from ab obtain r x where "r \<in> set (db_runs d)" "x \<in> set (db_runs d)"
      "a = (if run_id r = k then f r else r)" "b = (if run_id x = k then f x else x)"
      unfolding upd_run_rows by (elim imageE)
    with c [of r x] unique_runningD [OF u, of r x] show ?thesis by blast
  qed
  ultimately show ?thesis by (simp add: unique_running_def)
qed

lemma unique_running_stop:
  assumes u: "unique_running d" and s: "s \<noteq> ''running''"
    and f: "\<And>r. run_id (f r) = run_id r \<and> run_thread_id (f r) = run_thread_id r \<and> run_status (f r) = s"
  shows "unique_running (upd_run k f d)"
proof (rule unique_running_map [OF u])
  show "run_id (f r) = run_id r" for r using f by blast
  show "clash (if run_id r = k then f r else r) (if run_id x = k then f x else x) \<Longrightarrow> clash r x" for r x
    using f [of r] f [of x] s by (cases "run_id r = k"; cases "run_id x = k") (simp_all add: clash_def)
qed

lemma unique_running_write:
  assumes u: "unique_running d" and w: "write_run_status k s now d = Inr d'"
  shows "unique_running d'"
proof (cases "get_run k d")
  case None
  with w u show ?thesis by (simp add: write_run_status_def)
next
  case (Some r)
  let ?f = "\<lambda>r. r\<lparr>run_status := s, run_updated_at := now\<rparr>"
  from w Some have d': "d' = upd_run k ?f d"
    by (simp add: write_run_status_def split: if_splits)
  have g: "s = ''running'' \<Longrightarrow> run_thread_id r \<noteq> None \<Longrightarrow> x \<in> set (db_runs d) \<Longrightarrow> run_id x \<noteq> k \<Longrightarrow>
      run_thread_id x = run_thread_id r \<Longrightarrow> run_status x \<noteq> ''running''" for x
    using w Some unfolding write_run_status_def list_ex_iff by (simp split: if_splits) blast
  have r: "x = r" if "x \<in> set (db_runs d)" "run_id x = k" for x
    using runs_t.get_in [of d x] that u Some by (simp add: unique_running_def)
  show ?thesis
    unfolding d'
  proof (rule unique_running_map [OF u])
    fix x y
    assume m: "x \<in> set (db_runs d)" "y \<in> set (db_runs d)"
      and c: "clash (if run_id x = k then ?f x else x) (if run_id y = k then ?f y else y)"
    show "clash x y"
    proof (cases "run_id x = k"; cases "run_id y = k")
      assume k: "run_id x = k" "run_id y \<noteq> k"
      with c r [OF m(1)] have "s = ''running''" "run_thread_id r \<noteq> None"
        "run_thread_id y = run_thread_id r" "run_status y = ''running''" by (simp_all add: clash_def)
      with g [of y] m k show ?thesis by blast
    next
      assume k: "run_id x \<noteq> k" "run_id y = k"
      with c r [OF m(2)] have "s = ''running''" "run_thread_id r \<noteq> None"
        "run_thread_id x = run_thread_id r" "run_status x = ''running''" by (auto simp: clash_def)
      with g [of x] m k show ?thesis by blast
    qed (use c in \<open>simp_all add: clash_def\<close>)
  qed simp
qed

lemma unique_running_insert:
  assumes u: "unique_running d" and w: "insert_run_row r d = Inr d'"
  shows "unique_running d'"
proof -
  from w have c: "\<not> run_conflict r d" and d': "d' = d\<lparr>db_runs := db_runs d @ [r]\<rparr>"
    by (simp_all add: insert_run_row_def split: if_splits)
  have c: "run_id x \<noteq> run_id r \<and> \<not> clash r x \<and> \<not> clash x r" if "x \<in> set (db_runs d)" for x
    using c that unfolding run_conflict_def list_ex_iff clash_def by metis
  have "\<not> clash r r" by (simp add: clash_def)
  moreover have "run_id r \<notin> run_id ` set (db_runs d)" using c by fastforce
  ultimately show ?thesis
    using u c by (simp add: unique_running_def d' ball_Un)
qed

lemma typed_upd_run:
  "statuses_typed d \<Longrightarrow> (\<And>r. run_status (f r) \<in> set PUBLIC_RUN_STATUSES) \<Longrightarrow> statuses_typed (upd_run k f d)"
  by (auto simp: statuses_typed_def upd_run_rows)

lemma unique_running_filter:
  assumes "unique_running d" "db_runs d' = filter P (db_runs d)"
  shows "unique_running d'"
  using assms(1) unfolding unique_running_def assms(2) by (auto simp: distinct_map_filter)

lemma row_step_ok: "row_step d d' \<Longrightarrow> compat_ok d \<Longrightarrow> compat_ok d'"
proof (induction rule: row_step.induct)
  case (written k s now d d')
  then have "statuses_typed d'"
    by (auto simp: compat_ok_def write_run_status_def intro: typed_upd_run split: option.splits if_splits)
  with written show ?case using unique_running_write by (auto simp: compat_ok_def)
next
  case (stopped s f d k)
  then show ?case
    using unique_running_stop [of d s f k] typed_upd_run [of d f k] by (simp add: compat_ok_def)
next
  case (removed d k)
  then show ?case
    using unique_running_filter [of d "del_run k d"] by (auto simp: compat_ok_def statuses_typed_def)
next
  case (inserted r d d')
  then have "statuses_typed d'"
    by (auto simp: compat_ok_def statuses_typed_def insert_run_row_def split: if_splits)
  with inserted show ?case using unique_running_insert by (auto simp: compat_ok_def)
next
  case (thread g d k)
  then show ?case
    by (auto simp: compat_ok_def statuses_typed_def unique_running_def upd_thread_def set_t_upd)
next
  case (thread_new t d)
  then show ?case
    by (auto simp: compat_ok_def statuses_typed_def unique_running_def insert_thread_def)
next
  case (frame d' d)
  then show ?case by (auto simp: compat_ok_def statuses_typed_def unique_running_def)
qed

abbreviation row_steps :: "db \<Rightarrow> db \<Rightarrow> bool" where
  "row_steps \<equiv> row_step\<^sup>*\<^sup>*"

lemma row_steps_ok: "row_steps d d' \<Longrightarrow> compat_ok d \<Longrightarrow> compat_ok d'"
  by (induction rule: rtranclp_induct) (auto intro: row_step_ok)

lemma row_steps_frame:
  "db_runs d' = db_runs d \<Longrightarrow> set (db_threads d') \<subseteq> set (db_threads d) \<Longrightarrow> row_steps d d'"
  by (rule r_into_rtranclp) (rule row_step.frame)

section \<open>Operations as row steps\<close>

text \<open>The steps compose: \<open>rt\<close> prefixes one step.\<close>

lemma rt: "row_step d d1 \<Longrightarrow> row_steps d1 d2 \<Longrightarrow> row_steps d d2"
  by (rule converse_rtranclp_into_rtranclp)

lemma thread_step:
  "(\<And>t. th_status t \<in> set THREAD_STATUSES \<Longrightarrow> th_status (g t) \<in> set THREAD_STATUSES) \<Longrightarrow>
   row_steps d (upd_thread k g d)"
  by (rule r_into_rtranclp) (rule row_step.thread)

lemma thread_const_step:
  assumes "get_thread k d = Some t" "compat_ok d"
    and "th_status t \<in> set THREAD_STATUSES \<Longrightarrow> th_status t' \<in> set THREAD_STATUSES"
  shows "row_steps d (upd_thread k (\<lambda>_. t') d)"
proof (rule thread_step)
  have "th_status t \<in> set THREAD_STATUSES"
    using threads_t.get_Some [OF assms(1)] assms(2) by (simp add: compat_ok_def statuses_typed_def)
  then show "th_status t' \<in> set THREAD_STATUSES" by (rule assms(3))
qed

lemma counters_step: "row_steps d (delete_retry_counters ids d)"
  by (rule row_steps_frame) (simp_all add: delete_retry_counters_def)

lemma del_runs_step: "row_steps d (fold del_run ids d)"
  by (induction ids arbitrary: d) (auto intro: rt row_step.removed)

lemma delete_run_step: "row_steps d (del_run k (delete_retry_counters ids d))"
  using counters_step by (rule rtranclp.rtrancl_into_rtrancl) (rule row_step.removed)

lemma delete_thread_step: "row_steps d (delete_thread_rows k d)"
proof -
  let ?ids = "thread_run_ids k d"
  let ?d1 = "fold del_run ?ids (delete_retry_counters ?ids d)"
  have "row_steps d ?d1"
    using counters_step del_runs_step by (rule rtranclp_trans)
  also have "row_steps ?d1 (delete_thread_rows k d)"
    by (rule row_steps_frame) (auto simp: delete_thread_rows_def del_thread_def Let_def t_del_def)
  finally show ?thesis .
qed

lemma threads_delete_step: "threads_delete a ctx k c = (res, c') \<Longrightarrow> row_steps (cn_db c) (cn_db c')"
  by (auto simp: threads_delete_def schedule_after_commit_def delete_thread_step split: sum.splits)

lemma cascade_step: "cascade_threads a ctx ts c = (res, c') \<Longrightarrow> row_steps (cn_db c) (cn_db c')"
proof (induction ts arbitrary: c)
  case (Cons t ts)
  obtain r1 c1 where t: "threads_delete a ctx t c = (r1, c1)" by (cases "threads_delete a ctx t c")
  from Cons.prems t have "cascade_threads a ctx ts c1 = (res, c') \<or> c' = c1"
    by (auto split: sum.splits py_error.splits)
  with threads_delete_step [OF t] Cons.IH [of c1] show ?case by (auto intro: rtranclp_trans)
qed simp

lemma prune_delete_step: "prune_delete a ctx ts n c = (res, c') \<Longrightarrow> row_steps (cn_db c) (cn_db c')"
proof (induction ts arbitrary: c n)
  case (Cons t ts)
  obtain r1 c1 where t: "threads_delete a ctx t c = (r1, c1)" by (cases "threads_delete a ctx t c")
  from Cons.prems t have "(\<exists>n. prune_delete a ctx ts n c1 = (res, c')) \<or> c' = c1"
    by (auto split: sum.splits py_error.splits)
  with threads_delete_step [OF t] Cons.IH [of _ c1] show ?case by (auto intro: rtranclp_trans)
qed simp

lemma put_thread_step:
  assumes "threads_put a e ctx k m ie d0 d = Inr (ys, d')"
  shows "row_steps d d'"
proof -
  from assms have "d' = d \<or> (\<exists>m. d' = insert_thread (new_thread (e_now e) k ''idle'' m []) d)"
    by (auto simp: threads_put_def rbind_eq_Inr Let_def split: option.splits prod.splits)
  moreover have "row_steps d (insert_thread (new_thread (e_now e) k ''idle'' m []) d)" for m
    by (rule r_into_rtranclp) (simp add: row_step.thread_new new_thread_def)
  ultimately show ?thesis by auto
qed

lemma patch_thread_step:
  assumes "threads_patch a e ctx k m d = Inr (ys, d')" "compat_ok d"
  shows "row_steps d d'"
proof -
  from assms(1) consider "d' = d"
    | (row) t m' where "get_thread k d = Some t"
        "d' = upd_thread k (\<lambda>_. patched_thread (e_now e) m' t) d"
    by (auto simp: threads_patch_def rbind_eq_Inr Let_def dest!: visible_thread_Some
        split: option.splits prod.splits)
  then show ?thesis
  proof cases
    case row
    show ?thesis
      unfolding row(2) by (rule thread_const_step [OF row(1) assms(2)]) (simp add: patched_thread_def)
  qed simp
qed

lemma base_status_thread:
  "thread_status_from_checkpoint a cp x i = Inr (b, ints) \<Longrightarrow> b \<in> set THREAD_STATUSES"
  using base_status_public by (auto simp: thread_status_from_checkpoint_def rbind_eq_Inr)

lemma joint_step:
  assumes "set_joint_status a e k rid s g cp x d = Inr d'"
    and s: "s \<in> set PUBLIC_RUN_STATUSES \<or> s = ''rollback''"
  shows "row_steps d d'"
proof -
  from assms(1) obtain b ints d1 where st: "thread_status_from_checkpoint a cp x True = Inr (b, ints)"
    and w: "(if s = ''rollback'' then Inr (del_run rid (delete_retry_counters [rid] d))
             else write_run_status rid s (e_now e) d) = Inr d1"
    and d': "d' = upd_thread k (joint_thread a (e_now e) g cp x b ints (pending_runs k d1 \<noteq> [])) d1"
    by (auto simp: set_joint_status_def rbind_eq_Inr no_such_thread_def split: option.splits if_splits)
  have "row_steps d d1"
    using w s delete_run_step by (cases "s = ''rollback''") (auto intro: r_into_rtranclp row_step.written)
  also have "row_steps d1 d'"
    unfolding d' using base_status_thread [OF st] by (intro thread_step) (simp add: joint_thread_def)
  finally show ?thesis .
qed

lemma set_status_step:
  assumes "threads_set_status a e k cp x d = Inr d'"
  shows "row_steps d d'"
  using assms base_status_thread
  by (fastforce simp: threads_set_status_def rbind_eq_Inr no_such_thread_def intro!: thread_step
      split: option.splits)

lemma stop_step:
  "s \<in> set PUBLIC_RUN_STATUSES \<Longrightarrow> s \<noteq> ''running'' \<Longrightarrow>
   (\<And>r. run_id (f r) = run_id r \<and> run_thread_id (f r) = run_thread_id r \<and> run_status (f r) = s) \<Longrightarrow>
   row_steps d (upd_run k f d)"
  by (rule r_into_rtranclp) (rule row_step.stopped)

lemma autocommit_step:
  "db_runs (cn_db (autocommit f c)) = db_runs (cn_db c)"
  "db_threads (cn_db (autocommit f c)) = db_threads (cn_db c)"
  by (simp_all add: autocommit_def copy_saver_tables_def Let_def)

lemma copy_step:
  assumes "threads_copy a e sv ctx k c = (res, c')"
  shows "row_steps (cn_db c) (cn_db c')"
proof -
  from assms consider "c' = c"
    | (row) m r where "db_runs (cn_db c') = db_runs (cn_db c)"
      "db_threads (cn_db c') = db_threads (cn_db c) @ [copied_thread (e_now e) (e_uuid e (db_draws (cn_db c))) m r]"
    by (auto simp: threads_copy_def Let_def schedule_after_rollback_def autocommit_step
        insert_thread_def split: sum.splits prod.splits option.splits)
  then show ?thesis
  proof cases
    case row
    let ?t = "copied_thread (e_now e) (e_uuid e (db_draws (cn_db c))) m r"
    have "row_step (cn_db c) (insert_thread ?t (cn_db c))"
      by (rule row_step.thread_new) (simp add: copied_thread_def)
    moreover have "row_steps (insert_thread ?t (cn_db c)) (cn_db c')"
      using row by (intro row_steps_frame) (simp_all add: insert_thread_def)
    ultimately show ?thesis by (rule rt)
  qed simp
qed

lemma prune_keep_step: "prune_keep a e ctx ts n d = Inr (m, d') \<Longrightarrow> row_steps d d'"
proof (induction ts arbitrary: n d)
  case (Cons k ts)
  from Cons.prems consider n' where "prune_keep a e ctx ts n' d = Inr (m, d')"
    | (pruned) n' d1 where "prune_checkpoints e k d = Inr d1" "prune_keep a e ctx ts n' d1 = Inr (m, d')"
    by (auto simp: rbind_eq_Inr split: option.splits sum.splits py_error.splits prod.splits)
  then show ?case
  proof cases
    case pruned
    from pruned(1) have "row_steps d d1"
      by (intro row_steps_frame) (auto simp: prune_checkpoints_def Let_def split: if_splits)
    then show ?thesis using Cons.IH [OF pruned(2)] by (rule rtranclp_trans)
  qed (use Cons.IH in blast)
qed simp

lemma ensure_uuid_frame:
  "db_runs (snd (ensure_uuid e u d)) = db_runs d" "db_threads (snd (ensure_uuid e u d)) = db_threads d"
  by (auto simp: ensure_uuid_def split: option.splits)

lemma ensure_run_thread_step:
  "ensure_run_thread e tid as cfg m aid d = (k, t, c, d') \<Longrightarrow> row_steps d d'"
proof -
  assume a: "ensure_run_thread e tid as cfg m aid d = (k, t, c, d')"
  let ?d = "snd (ensure_uuid e tid d)"
  have f: "row_steps d ?d" by (rule row_steps_frame) (simp_all add: ensure_uuid_frame)
  from a have "d' = ?d \<or> (\<exists>k md cf. d' = insert_thread (new_thread (e_now e) k ''busy'' md cf) ?d)"
    by (auto simp: ensure_run_thread_def Let_def split: prod.splits option.splits)
  moreover have "row_steps ?d (insert_thread (new_thread (e_now e) k ''busy'' md cf) ?d)" for k md cf
    by (rule r_into_rtranclp) (simp add: row_step.thread_new new_thread_def)
  ultimately show ?thesis using f by (auto intro: rtranclp_trans)
qed

lemma put_into_thread_step:
  assumes "put_into_thread e x rid tid as created thread cfg m kw d = Inr (ys, hs, d')"
    and "get_thread tid d = Some thread" "compat_ok d"
    and "run_status_of (ra_status x) \<in> set PUBLIC_RUN_STATUSES"
  shows "row_steps d d'"
proof -
  let ?t = "if created then thread else promote_thread_busy (e_now e) as (ra_assistant_id x) cfg thread"
  let ?d = "upd_thread tid (\<lambda>_. ?t) d"
  have "row_steps d ?d"
    by (rule thread_const_step [OF assms(2,3)]) (simp add: promote_thread_busy_def)
  also have "row_steps ?d d'"
  proof -
    from assms(1) consider "d' = ?d"
      | (row) r where "insert_run_row r ?d = Inr d'" "run_status r = run_status_of (ra_status x)"
      by (auto simp: put_into_thread_def Let_def rbind_eq_Inr new_run_row_def split: if_splits)
    then show ?thesis
    proof cases
      case row
      then show ?thesis
        using assms(4) by (intro r_into_rtranclp row_step.inserted [of r]) simp_all
    qed simp
  qed
  finally show ?thesis .
qed

lemma thread_for_run_step:
  "thread_for_run e x as cfg m existing d = (tid, c, d') \<Longrightarrow> row_steps d d'"
  by (auto simp: thread_for_run_def dest: ensure_run_thread_step split: option.splits prod.splits)

lemma put_for_assistant_cases:
  assumes "put_for_assistant e x rid filters as m kw d0 d = Inr (ys, hs, d')"
  obtains (same) "d' = d"
  | (thread) tid c existing cfg where "thread_for_run e x as cfg m existing d = (tid, c, d')"
  | (put) tid c existing cfg d2 thread where "thread_for_run e x as cfg m existing d = (tid, c, d2)"
      "get_thread tid d2 = Some thread"
      "put_into_thread e x rid tid as c thread cfg m kw d2 = Inr (ys, hs, d')"
proof -
  let ?cfg = "obj_of (dgetdef kw ''config'' (JObj []))"
  let ?ex = "case ra_thread_id x of None \<Rightarrow> None | Some t \<Rightarrow> get_thread t d0"
  obtain tid c d2 where t: "thread_for_run e x as ?cfg m ?ex d = (tid, c, d2)"
    by (cases "thread_for_run e x as ?cfg m ?ex d") auto
  have "d' = d \<or> d' = d2 \<or> (\<exists>thread. get_thread tid d2 = Some thread \<and>
      put_into_thread e x rid tid as c thread ?cfg m kw d2 = Inr (ys, hs, d'))"
    using assms unfolding put_for_assistant_def Let_def t
    by (auto simp: rbind_eq_Inr split: if_splits option.splits)
  with t show thesis by (auto intro: same thread put)
qed

lemma runs_put_step:
  assumes "runs_put a e ctx x d0 d = Inr (ys, hs, d')" "compat_ok d"
    and "run_status_of (ra_status x) \<in> set PUBLIC_RUN_STATUSES"
  shows "row_steps d d'"
proof -
  let ?d = "snd (ensure_uuid e (ra_run_id x) d)"
  have f: "row_steps d ?d" by (rule row_steps_frame) (simp_all add: ensure_uuid_frame)
  with assms(2) have ok: "compat_ok ?d" using row_steps_ok by blast
  from assms(1) consider "d' = ?d"
    | (put) filters as m kw rid where "put_for_assistant e x rid filters as m kw d0 ?d = Inr (ys, hs, d')"
    by (auto simp: runs_put_def rbind_eq_Inr split: prod.splits option.splits)
  then have "row_steps ?d d'"
  proof cases
    case put
    then show ?thesis
    proof (cases rule: put_for_assistant_cases)
      case (put tid c existing cfg d2 thread)
      have "row_steps ?d d2" by (rule thread_for_run_step [OF put(1)])
      moreover have "row_steps d2 d'"
        using put_into_thread_step [OF put(3,2)] row_steps_ok [OF calculation ok] assms(3) by blast
      ultimately show ?thesis by (rule rtranclp_trans)
    qed (auto dest: thread_for_run_step)
  qed simp
  with f show ?thesis by (rule rtranclp_trans)
qed

lemma cancel_single_step: "row_steps d (snd (cancel_single_run q act now rid d))"
  using stop_step [of "''interrupted''" "\<lambda>r. r\<lparr>run_status := ''interrupted'', run_updated_at := now\<rparr>" d rid]
  by (auto simp: cancel_single_run_def Let_def delete_run_step split: option.splits)

lemma cancel_loop_step:
  "cancel_candidates_loop hb q act now rids d = (affected, told, d') \<Longrightarrow> row_steps d d'"
proof (induction rids arbitrary: d d' affected told)
  case (Cons rid rids)
  obtain res d1 where c: "cancel_single_run q act now rid d = (res, d1)"
    by (cases "cancel_single_run q act now rid d")
  obtain af tl d2 where l: "cancel_candidates_loop hb q act now rids d1 = (af, tl, d2)"
    by (cases "cancel_candidates_loop hb q act now rids d1") auto
  have "row_steps d d1" using cancel_single_step [of d q act now rid] by (simp add: c)
  moreover have "d' = d2" using Cons.prems c l by (auto split: option.splits)
  ultimately show ?case using Cons.IH [OF l] by (auto intro: rtranclp_trans)
qed simp

lemma idle_affected_step: "row_steps d (idle_affected_threads ts now d)"
proof (induction ts arbitrary: d)
  case (Cons t ts)
  let ?d = "if pending_runs t d \<noteq> [] then d
        else upd_thread t (\<lambda>th. if th_status th = ''busy''
               then th\<lparr>th_status := ''idle'', th_updated_at := now\<rparr> else th) d"
  have "row_steps d ?d" by (auto intro!: thread_step)
  then show ?case using Cons.IH [of ?d] by (auto intro: rtranclp_trans simp del: if_split)
qed simp

lemma runs_cancel_step:
  assumes "runs_cancel a e hb q ctx rids act tid st aid d = Inr (ids, d')"
  shows "row_steps d d'"
  using runs_cancel_Inr [OF assms] cancel_loop_step idle_affected_step
  by (metis (no_types, lifting) rtranclp_trans)

lemma counter_frame:
  "db_runs (snd (increment_counter k d)) = db_runs d"
  "db_threads (snd (increment_counter k d)) = db_threads d"
  by (auto simp: increment_counter_def split: option.splits)

lemma begin_run_step:
  assumes "begin_run e r d = Inr (res, d')"
  shows "row_steps d d'"
proof -
  define d1 where "d1 = (case run_thread_id r of None \<Rightarrow> d
     | Some t \<Rightarrow> upd_thread t (\<lambda>th. th\<lparr>th_status := ''busy''\<rparr>) d)"
  from assms obtain d2 where w: "write_run_status (run_id r) ''running'' (e_now e) d1 = Inr d2"
    and d': "d' = snd (increment_counter (run_id r) d2)"
    unfolding begin_run_def Let_def d1_def [symmetric] by (auto simp: rbind_eq_Inr case_prod_beta)
  have "row_steps d d1"
    unfolding d1_def by (cases "run_thread_id r") (simp_all add: thread_step)
  moreover have "row_steps d1 d2"
    by (rule r_into_rtranclp) (rule row_step.written [OF w lits_public(2)])
  moreover have "row_steps d2 d'"
    unfolding d' by (rule row_steps_frame) (simp_all add: counter_frame)
  ultimately show ?thesis by (meson rtranclp_trans)
qed

lemma claim_step:
  assumes "claim_next_run e hb locked blocked d0 d = Inr (res, d')"
  shows "row_steps d d'"
proof -
  from assms consider "d' = d" | (started) r where "begin_run e r d = Inr (res, d')"
    | (blocked) k where "d' = upd_run k (\<lambda>r. r\<lparr>run_status := ''pending''\<rparr>) d"
    by (auto simp: claim_next_run_def split: option.splits if_splits)
  then show ?thesis
    using stop_step [of "''pending''" "\<lambda>r. r\<lparr>run_status := ''pending''\<rparr>" d]
    by cases (auto intro: begin_run_step)
qed

text \<open>One round of the claiming loop, as the states it can lead to.\<close>

lemma claim_loop_cases:
  assumes "cs_left s \<noteq> 0" "cs_budget s \<noteq> 0"
  obtains (empty) d where
      "claim_next_run e hb (locked (cs_tries s)) (cs_blocked s) (cs_db s) (world (cs_tries s) (cs_db s))
         = Inr (ClaimEmpty, d)"
      "claim_loop e hb locked world s = s\<lparr>cs_tries := cs_tries s + 1, cs_db := d\<rparr>"
  | (blocked) k t d where
      "claim_next_run e hb (locked (cs_tries s)) (cs_blocked s) (cs_db s) (world (cs_tries s) (cs_db s))
         = Inr (ClaimBlocked k t, d)"
      "claim_loop e hb locked world s = claim_loop e hb locked world
         (s\<lparr>cs_tries := cs_tries s + 1, cs_db := d, cs_blocked := cs_blocked s @ [t],
            cs_budget := cs_budget s - 1\<rparr>)"
  | (claimed) run n d where
      "claim_next_run e hb (locked (cs_tries s)) (cs_blocked s) (cs_db s) (world (cs_tries s) (cs_db s))
         = Inr (Claimed run n, d)"
      "claim_loop e hb locked world s = claim_loop e hb locked world
         (s\<lparr>cs_tries := cs_tries s + 1, cs_db := d, cs_left := cs_left s - 1,
            cs_yielded := cs_yielded s @ [(run, n)]\<rparr>)"
  | (conflict) err where
      "claim_next_run e hb (locked (cs_tries s)) (cs_blocked s) (cs_db s) (world (cs_tries s) (cs_db s))
         = Inl err"
      "claim_loop e hb locked world s = claim_loop e hb locked world
         (s\<lparr>cs_tries := cs_tries s + 1, cs_db := world (cs_tries s) (cs_db s),
            cs_budget := cs_budget s - 1\<rparr>)"
proof -
  let ?c = "claim_next_run e hb (locked (cs_tries s)) (cs_blocked s) (cs_db s) (world (cs_tries s) (cs_db s))"
  show thesis
  proof (cases ?c)
    case (Inl err)
    with assms show ?thesis
      by (intro conflict [OF Inl]) (simp add: claim_loop.simps [of e hb locked world s] Let_def)
  next
    case (Inr p)
    obtain res d where p: "p = (res, d)" by (cases p)
    note c = Inr [unfolded p]
    show ?thesis
    proof (cases res)
      case ClaimEmpty
      with assms c show ?thesis
        by (intro empty [of d]) (simp_all add: claim_loop.simps [of e hb locked world s] Let_def)
    next
      case (ClaimBlocked k t)
      with assms c show ?thesis
        by (intro blocked [of k t d]) (simp_all add: claim_loop.simps [of e hb locked world s] Let_def)
    next
      case (Claimed run n)
      with assms c show ?thesis
        by (intro claimed [of run n d]) (simp_all add: claim_loop.simps [of e hb locked world s] Let_def)
    qed
  qed
qed

lemma claim_loop_stop:
  "cs_left s = 0 \<or> cs_budget s = 0 \<Longrightarrow> claim_loop e hb locked world s = s"
  by (simp add: claim_loop.simps [of e hb locked world s])

lemma claim_loop_ok:
  assumes w: "\<And>i d. compat_ok d \<Longrightarrow> compat_ok (world i d)"
  shows "compat_ok (cs_db s) \<Longrightarrow> compat_ok (cs_db (claim_loop e hb locked world s))"
proof (induction "cs_left s + cs_budget s" arbitrary: s rule: less_induct)
  case less
  note c = row_steps_ok [OF claim_step w [OF less.prems]]
  show ?case
  proof (cases "cs_left s = 0 \<or> cs_budget s = 0")
    case False
    then have pos: "cs_left s \<noteq> 0" "cs_budget s \<noteq> 0" by simp_all
    show ?thesis
      using pos
    proof (cases rule: claim_loop_cases [of s e hb locked world])
      case (empty d)
      with c show ?thesis by simp
    next
      case (blocked k t d)
      have "compat_ok d" using c [OF blocked(1)] .
      with pos show ?thesis unfolding blocked(2) by (intro less.hyps) simp_all
    next
      case (claimed run n d)
      have "compat_ok d" using c [OF claimed(1)] .
      with pos show ?thesis unfolding claimed(2) by (intro less.hyps) simp_all
    next
      case (conflict err)
      with pos w [OF less.prems] show ?thesis unfolding conflict(2) by (intro less.hyps) simp_all
    qed
  qed (use less.prems in \<open>simp add: claim_loop_stop\<close>)
qed

text \<open>Each round costs a run or a unit of the budget, except the last.\<close>

lemma claim_loop_bounds:
  "cs_tries (claim_loop e hb locked world s) \<le> cs_tries s + cs_left s + cs_budget s \<and>
   length (cs_yielded (claim_loop e hb locked world s)) \<le> length (cs_yielded s) + cs_left s"
proof (induction "cs_left s + cs_budget s" arbitrary: s rule: less_induct)
  case less
  show ?case
  proof (cases "cs_left s = 0 \<or> cs_budget s = 0")
    case False
    then have pos: "cs_left s \<noteq> 0" "cs_budget s \<noteq> 0" by simp_all
    show ?thesis
      using pos
    proof (cases rule: claim_loop_cases [of s e hb locked world])
      case (blocked k t d)
      let ?s = "s\<lparr>cs_tries := cs_tries s + 1, cs_db := d, cs_blocked := cs_blocked s @ [t],
            cs_budget := cs_budget s - 1\<rparr>"
      from less [of ?s] pos show ?thesis unfolding blocked(2) by simp
    next
      case (claimed run n d)
      let ?s = "s\<lparr>cs_tries := cs_tries s + 1, cs_db := d, cs_left := cs_left s - 1,
            cs_yielded := cs_yielded s @ [(run, n)]\<rparr>"
      from less [of ?s] pos show ?thesis unfolding claimed(2) by simp
    next
      case (conflict err)
      let ?s = "s\<lparr>cs_tries := cs_tries s + 1, cs_db := world (cs_tries s) (cs_db s),
            cs_budget := cs_budget s - 1\<rparr>"
      from less [of ?s] pos show ?thesis unfolding conflict(2) by simp
    qed (use pos in simp)
  qed (simp add: claim_loop_stop)
qed

lemma mark_error_step: "row_steps d (mark_thread_error_if_idle now t d)"
  by (auto simp: mark_thread_error_if_idle_def intro!: thread_step)

lemma sweep_single_step: "row_steps d (snd (sweep_single_run e m rid d))"
proof -
  let ?f = "\<lambda>s r. r\<lparr>run_status := s, run_updated_at := e_now e\<rparr>"
  have p: "row_steps d (upd_run rid (?f ''pending'') d)"
    by (rule stop_step [of "''pending''"]) simp_all
  have x: "row_steps d (upd_run rid (?f ''error'') d)"
    by (rule stop_step [of "''error''"]) simp_all
  show ?thesis
    using p x by (auto simp: sweep_single_run_def Let_def intro: rtranclp_trans [OF _ mark_error_step]
        split: option.splits)
qed

lemma sweep_runs_step: "sweep_runs e hb m ids d = (swept, d') \<Longrightarrow> row_steps d d'"
proof (induction ids arbitrary: d d' swept)
  case (Cons rid ids)
  obtain b d1 where b: "sweep_single_run e m rid d = (b, d1)" by (cases "sweep_single_run e m rid d")
  obtain rest d2 where r: "sweep_runs e hb m ids d1 = (rest, d2)" by (cases "sweep_runs e hb m ids d1")
  have "row_steps d d1" using sweep_single_step [of d e m rid] by (simp add: b)
  then show ?case
    using Cons.prems b r Cons.IH [of d] Cons.IH [OF r]
    by (auto intro: rtranclp_trans split: if_splits prod.splits)
qed simp

lemma idle_orphans_step: "row_steps d (idle_orphans hb now ts d)"
proof (induction ts arbitrary: d)
  case (Cons t ts)
  let ?d = "if thread_has_inflight_work hb t d then d
        else upd_thread t (\<lambda>th. th\<lparr>th_status := ''idle'', th_updated_at := now\<rparr>) d"
  have "row_steps d ?d" by (auto intro!: thread_step)
  then show ?case using Cons.IH [of ?d] by (auto intro: rtranclp_trans simp del: if_split)
qed simp

lemma runs_sweep_step: "row_steps d (snd (runs_sweep e hb m d))"
  using rtranclp_trans [OF sweep_runs_step idle_orphans_step]
  by (simp add: runs_sweep_def idle_orphaned_busy_threads_def split: prod.split)

section \<open>The step relation of the compatibility operations\<close>

text \<open>
  One operation that returned, from the session's database to the one it leaves. Statuses passed
  in come from the run vocabulary, as the request schemas demand; \<open>cn_db\<close> is the database a
  connection's session sees. The graph run by \<open>State.post\<close> writes checkpoints only.
\<close>

definition quiet_update :: "(json \<Rightarrow> dict \<Rightarrow> dict \<Rightarrow> db \<Rightarrow> (dict \<times> dict \<times> db) res) \<Rightarrow> bool" where
  "quiet_update update \<longleftrightarrow>
     (\<forall>g tc uc d n sn d'. update g tc uc d = Inr (n, sn, d') \<longrightarrow>
        db_runs d' = db_runs d \<and> db_threads d' = db_threads d)"

inductive compat_step :: "db \<Rightarrow> db \<Rightarrow> bool" where
  thread_put: "threads_put a e ctx k m if_exists d0 d = Inr (ys, d') \<Longrightarrow> compat_step d d'"
| thread_patch: "threads_patch a e ctx k m d = Inr (ys, d') \<Longrightarrow> compat_step d d'"
| thread_delete: "threads_delete a ctx k c = (Inr ys, c') \<Longrightarrow> compat_step (cn_db c) (cn_db c')"
| thread_copy: "threads_copy a e sv ctx k c = (Inr ys, c') \<Longrightarrow> compat_step (cn_db c) (cn_db c')"
| thread_prune_delete: "prune_delete a ctx ks n c = (Inr m, c') \<Longrightarrow> compat_step (cn_db c) (cn_db c')"
| thread_prune_keep: "prune_keep a e ctx ks n d = Inr (m, d') \<Longrightarrow> compat_step d d'"
| joint: "set_joint_status a e k rid s g cp x d = Inr d' \<Longrightarrow>
    s \<in> set PUBLIC_RUN_STATUSES \<or> s = ''rollback'' \<Longrightarrow> compat_step d d'"
| thread_status: "threads_set_status a e k cp x d = Inr d' \<Longrightarrow> compat_step d d'"
| state_post: "state_post a e hb update ctx k config d = Inr (n, d') \<Longrightarrow> quiet_update update \<Longrightarrow>
    compat_step d d'"
| state_bulk: "state_bulk a e hb update ctx k config d = Inr (n, d') \<Longrightarrow> quiet_update update \<Longrightarrow>
    compat_step d d'"
| run_put: "runs_put a e ctx x d0 d = Inr (ys, hs, d') \<Longrightarrow>
    run_status_of (ra_status x) \<in> set PUBLIC_RUN_STATUSES \<Longrightarrow> compat_step d d'"
| run_delete: "runs_delete_row a ctx rid tid d = Inr (ys, d') \<Longrightarrow> compat_step d d'"
| run_cancel: "runs_cancel a e hb queues ctx rids act tid st aid d = Inr (ids, d') \<Longrightarrow> compat_step d d'"
| run_set_status: "runs_set_status e rid s d = Inr (y, d') \<Longrightarrow> s \<in> set PUBLIC_RUN_STATUSES \<Longrightarrow>
    compat_step d d'"
| run_claim: "claim_next_run e hb locked blocked d0 d = Inr (res, d') \<Longrightarrow> compat_step d d'"
| run_sweep: "compat_step d (snd (runs_sweep e hb m d))"
| assistant_delete: "assistants_delete a e hb queues ctx k delete_threads c = (Inr ys, c') \<Longrightarrow>
    compat_step (cn_db c) (cn_db c')"
| elsewhere: "db_runs d' = db_runs d \<Longrightarrow> db_threads d' = db_threads d \<Longrightarrow> compat_step d d'"

text \<open>The other writes of assistants and crons are steps of the last kind.\<close>

lemma assistant_writes_elsewhere:
  "assistants_put a e ctx k x ie d0 d = Inr (ys, d') \<Longrightarrow> compat_step d d'"
  "assistants_patch a e ctx k p d = Inr (ys, d') \<Longrightarrow> compat_step d d'"
  "assistants_set_latest a e ctx k n d = Inr (ys, d') \<Longrightarrow> compat_step d d'"
proof -
  show "assistants_put a e ctx k x ie d0 d = Inr (ys, d') \<Longrightarrow> compat_step d d'"
    by (drule put_cases) (auto intro!: compat_step.elsewhere simp: insert_assistant_def Let_def)
  show "assistants_patch a e ctx k p d = Inr (ys, d') \<Longrightarrow> compat_step d d'"
    by (erule patch_Inr) (auto intro!: compat_step.elsewhere simp: upd_assistant_def)
  show "assistants_set_latest a e ctx k n d = Inr (ys, d') \<Longrightarrow> compat_step d d'"
    by (erule set_latest_Inr) (auto intro!: compat_step.elsewhere simp: upd_assistant_def)
qed

lemma claim_crons_frame:
  "claim_crons cl now ks d = (ys, d') \<Longrightarrow> db_runs d' = db_runs d \<and> db_threads d' = db_threads d"
proof (induction ks arbitrary: d ys)
  case (Cons k ks)
  obtain zs d1 where "claim_crons cl now ks (upd_cron k (advance_cron cl now) d) = (zs, d1)"
    by (cases "claim_crons cl now ks (upd_cron k (advance_cron cl now) d)")
  with Cons show ?case by (fastforce simp: upd_cron_def split: option.splits)
qed simp

lemma cron_writes_elsewhere:
  "crons_put a e cl ctx x d = Inr (ys, d') \<Longrightarrow> compat_step d d'"
  "crons_update a e cl ctx k u d = Inr (ys, d') \<Longrightarrow> compat_step d d'"
  "crons_delete a ctx k d = Inr (ids, d') \<Longrightarrow> compat_step d d'"
  "compat_step d (snd (crons_next e cl locked d))"
  "compat_step d (crons_set_next_run_date e k date d)"
proof -
  show "crons_put a e cl ctx x d = Inr (ys, d') \<Longrightarrow> compat_step d d'"
    by (rule compat_step.elsewhere)
      (auto simp: crons_put_def rbind_eq_Inr Let_def invalid_schedule_def case_prod_beta
        ensure_uuid_frame split: if_splits option.splits)
  show "crons_update a e cl ctx k u d = Inr (ys, d') \<Longrightarrow> compat_step d d'"
    by (rule compat_step.elsewhere)
      (auto simp: crons_update_def rbind_eq_Inr Let_def cron_missing_def upd_cron_def
        split: if_splits option.splits)
  show "crons_delete a ctx k d = Inr (ids, d') \<Longrightarrow> compat_step d d'"
    by (rule compat_step.elsewhere)
      (auto simp: crons_delete_def rbind_eq_Inr split: option.splits)
  show "compat_step d (snd (crons_next e cl locked d))"
    using claim_crons_frame [OF surjective_pairing]
    by (intro compat_step.elsewhere) (auto simp: crons_next_def)
  show "compat_step d (crons_set_next_run_date e k date d)"
    by (rule compat_step.elsewhere) (simp_all add: crons_set_next_run_date_def upd_cron_def)
qed

lemma state_write_steps:
  assumes "quiet_update update"
    and "update g tc uc d = Inr (n, sn, d1)" "threads_set_status a e k (Some sn) None d1 = Inr d'"
  shows "row_steps d d'"
proof -
  have "row_steps d d1"
    using assms(1,2) by (intro row_steps_frame) (auto simp: quiet_update_def)
  then show ?thesis using set_status_step [OF assms(3)] by (rule rtranclp_trans)
qed

lemma state_post_step:
  "state_post a e hb update ctx k config d = Inr (n, d') \<Longrightarrow> quiet_update update \<Longrightarrow> row_steps d d'"
  by (auto simp: state_post_def rbind_eq_Inr Let_def intro: state_write_steps)

lemma state_bulk_step:
  "state_bulk a e hb update ctx k config d = Inr (n, d') \<Longrightarrow> quiet_update update \<Longrightarrow> row_steps d d'"
  by (auto simp: state_bulk_def rbind_eq_Inr Let_def intro: state_write_steps)

lemma delete_row_step: "runs_delete_row a ctx rid tid d = Inr (ys, d') \<Longrightarrow> row_steps d d'"
  by (auto simp: runs_delete_row_def rbind_eq_Inr delete_run_step split: option.splits if_splits)

lemma run_set_status_step:
  "runs_set_status e rid s d = Inr (y, d') \<Longrightarrow> s \<in> set PUBLIC_RUN_STATUSES \<Longrightarrow> row_steps d d'"
  by (auto simp: runs_set_status_def rbind_eq_Inr intro: r_into_rtranclp row_step.written
      split: option.splits)

lemma assistants_delete_step:
  assumes "assistants_delete a e hb queues ctx k delete_threads c = (Inr ys, c')"
  shows "row_steps (cn_db c) (cn_db c')"
proof -
  let ?casc = "if delete_threads then cascade_threads a ctx (assistant_threads k (cn_db c))
               else (\<lambda>c. (Inr (), c))"
  obtain r1 c1 where casc: "?casc c = (r1, c1)" by (cases "?casc c")
  from assms casc obtain ids d2 where
    r1: "runs_cancel a e hb queues ctx None ''interrupt'' None None (Some k) (cn_db c1) = Inr (ids, d2)"
    and c': "cn_db c' = del_assistant k d2"
    by (auto simp: assistants_delete_def cbind_def in_session_def split: sum.splits prod.splits)
  have "row_steps (cn_db c) (cn_db c1)"
    using casc by (auto split: if_splits dest: cascade_step)
  also have "row_steps (cn_db c1) d2" by (rule runs_cancel_step [OF r1])
  also have "row_steps d2 (cn_db c')"
    unfolding c' by (rule row_steps_frame) (simp_all add: del_assistant_def)
  finally show ?thesis .
qed

lemma compat_step_rows: "compat_step d d' \<Longrightarrow> compat_ok d \<Longrightarrow> row_steps d d'"
proof (induction rule: compat_step.induct)
  case (thread_prune_delete a ctx ks n c m c')
  then show ?case by (auto dest: prune_delete_step)
next
  case (run_sweep d e hb m)
  show ?case by (rule runs_sweep_step)
next
  case (elsewhere d' d)
  then show ?case by (intro row_steps_frame) simp_all
qed (blast intro: put_thread_step patch_thread_step threads_delete_step copy_step prune_keep_step
    joint_step set_status_step state_post_step state_bulk_step runs_put_step delete_row_step
    runs_cancel_step run_set_status_step claim_step assistants_delete_step)+

lemma compat_step_ok: "compat_step d d' \<Longrightarrow> compat_ok d \<Longrightarrow> compat_ok d'"
  using compat_step_rows row_steps_ok by blast

lemma compat_steps_ok: "compat_step\<^sup>*\<^sup>* d d' \<Longrightarrow> compat_ok d \<Longrightarrow> compat_ok d'"
  by (induction rule: rtranclp_induct) (auto intro: compat_step_ok)

lemma empty_compat_ok: "compat_ok empty_db"
  by (simp add: compat_ok_def statuses_typed_def unique_running_def empty_db_def)

end
