(* ===== verification/Lifecycles.thy ===== *)
theory Lifecycles
  imports CompatInvariant Scenario
begin

text \<open>
  Properties of threads and crons under the compatibility operations: what a transaction that
  deletes or copies a thread leaves behind when it commits and when it is rolled back, and when a
  due cron fires again.
\<close>

section \<open>Deleting a thread\<close>

lemma threads_delete_cases:
  obtains (refused) err where "threads_delete a ctx k c = (Inl err, c)"
  | (deleted) "threads_delete a ctx k c = (Inr [k], schedule_after_commit (CleanupCheckpoints k)
      (c\<lparr>cn_db := delete_thread_rows k (cn_db c)\<rparr>))"
proof -
  let ?r = "rbind (handle_event a ''threads'' ctx ''delete'' [(''thread_id'', JStr (uuid_str k))])
             (\<lambda>(filters, _). rbind (visible_thread filters k (cn_db c)) (\<lambda>v.
               case v of None \<Rightarrow> no_such_thread k | Some r \<Rightarrow> Inr r))"
  show thesis
  proof (cases ?r)
    case (Inl err)
    then show ?thesis by (intro refused [of err]) (simp add: threads_delete_def)
  next
    case (Inr t)
    then show ?thesis by (intro deleted) (simp add: threads_delete_def)
  qed
qed

text \<open>
  C18: deleting a thread is part of its transaction. If anything in the transaction fails the database
  is what it was, checkpoints included; if it commits, the rest of the transaction ran on a database
  with nothing left of the thread, and only then are its checkpoints removed.
\<close>

theorem thread_delete_is_transactional:
  "case connect (hook_action sv) (cbind (threads_delete a ctx k) (\<lambda>_. in_session f)) d of
     (Inl err, d') \<Rightarrow> d' = d
   | (Inr x, d') \<Rightarrow> \<exists>d1 d2. thread_gone k d1 \<and> copy_saver_tables d d1 = d1 \<and> f d1 = Inr (x, d2) \<and>
       d' = copy_saver_tables (scrub sv k d2) d2"
proof (cases a ctx k "open_conn d" rule: threads_delete_cases)
  case (refused err)
  then show ?thesis by (simp add: connect_def cbind_def open_conn_def run_hooks_def)
next
  case deleted
  let ?d1 = "delete_thread_rows k d"
  have s: "copy_saver_tables d ?d1 = ?d1"
    by (simp add: copy_saver_tables_def delete_thread_rows_def del_thread_def Let_def fold_del_run
        delete_retry_counters_def)
  show ?thesis
  proof (cases "f ?d1")
    case (Inl err)
    with deleted show ?thesis
      by (simp add: connect_def cbind_def in_session_def open_conn_def schedule_after_commit_def
          run_hooks_def)
  next
    case (Inr p)
    obtain x d2 where p: "p = (x, d2)" by (cases p)
    with Inr deleted have
      "connect (hook_action sv) (cbind (threads_delete a ctx k) (\<lambda>_. in_session f)) d =
         (Inr x, copy_saver_tables (scrub sv k d2) d2)"
      by (simp add: connect_def cbind_def in_session_def open_conn_def schedule_after_commit_def
          run_hooks_def hook_action_def)
    moreover have "\<exists>d1 d2'. thread_gone k d1 \<and> copy_saver_tables d d1 = d1 \<and> f d1 = Inr (x, d2') \<and>
        copy_saver_tables (scrub sv k d2) d2 = copy_saver_tables (scrub sv k d2') d2'"
      using Inr p s delete_thread_rows_gone by (intro exI [of _ ?d1] exI [of _ d2]) simp
    ultimately show ?thesis by simp
  qed
qed

section \<open>Copying a thread\<close>

definition no_saver_rows :: "string \<Rightarrow> db \<Rightarrow> bool" where
  "no_saver_rows t d =
     (list_all (\<lambda>x. cp_thread_id x \<noteq> t) (db_checkpoints d) \<and>
      list_all (\<lambda>x. cw_thread_id x \<noteq> t) (db_writes d) \<and>
      list_all (\<lambda>x. cb_thread_id x \<noteq> t) (db_blobs d))"

text \<open>The saver's documented behaviour: deleting a thread leaves none of its rows.\<close>

definition deletes_threads :: "saver \<Rightarrow> bool" where
  "deletes_threads sv \<longleftrightarrow> (\<forall>t d. \<exists>d'. sv_delete sv t d = Inr d' \<and> no_saver_rows t d')"

lemma copy_saver_simps [simp]:
  "copy_saver_tables x (copy_saver_tables y d) = copy_saver_tables x d"
  "copy_saver_tables (copy_saver_tables x y) d = copy_saver_tables x d"
  "copy_saver_tables d d = d"
  "no_saver_rows t (copy_saver_tables x d) = no_saver_rows t x"
  by (simp_all add: copy_saver_tables_def no_saver_rows_def)

lemma scrub_clean: "deletes_threads sv \<Longrightarrow> no_saver_rows (uuid_str k) (scrub sv k d)"
proof -
  assume "deletes_threads sv"
  then obtain d' where "sv_delete sv (uuid_str k) d = Inr d'" "no_saver_rows (uuid_str k) d'"
    unfolding deletes_threads_def by blast
  then show ?thesis by (simp add: scrub_def)
qed

text \<open>The outcomes of a copy on a fresh connection.\<close>

lemma threads_copy_cases:
  assumes "threads_copy a e sv ctx k (open_conn d) = (res, c)"
  obtains (nothing) "c = open_conn d"
  | (failed) err x where "res = Inl err" "cn_after_rollback c = []"
      "cn_committed c = copy_saver_tables (scrub sv (e_uuid e (db_draws d)) x) d"
  | (copied) ys x where "res = Inr ys" "cn_after_rollback c = [ScrubCheckpoints (e_uuid e (db_draws d))]"
      "cn_committed c = copy_saver_tables x d"
  using assms
  by (auto simp: threads_copy_def Let_def autocommit_def schedule_after_rollback_def open_conn_def
      split: sum.splits prod.splits option.splits)


definition quiet_api :: api where
  "quiet_api = \<lparr>api_handle = (\<lambda>_ v. Inr (JNull, v)), api_caller = None, api_test = True,
     api_graph = None, api_patch = obj_of, api_serde = (\<lambda>v. v), api_exc = (\<lambda>_. JStr ''error''),
     api_extract = (\<lambda>_ _. JNull), api_fold = (\<lambda>c. c)\<rparr>"

definition row_saver :: saver where
  "row_saver = \<lparr>
     sv_copy = (\<lambda>s t d. Inr (d\<lparr>db_checkpoints := db_checkpoints d @
        map (\<lambda>x. x\<lparr>cp_thread_id := t\<rparr>) (filter (\<lambda>x. cp_thread_id x = s) (db_checkpoints d))\<rparr>)),
     sv_list = (\<lambda>_ _. []), sv_put = (\<lambda>c _ _ _ d. Inr (c, d)), sv_put_writes = (\<lambda>_ _ _ d. Inr d),
     sv_delete = (\<lambda>t d. Inr (d\<lparr>
        db_checkpoints := filter (\<lambda>x. cp_thread_id x \<noteq> t) (db_checkpoints d),
        db_writes := filter (\<lambda>x. cw_thread_id x \<noteq> t) (db_writes d),
        db_blobs := filter (\<lambda>x. cb_thread_id x \<noteq> t) (db_blobs d)\<rparr>))\<rparr>"

lemma row_saver_deletes: "deletes_threads row_saver"
  by (simp add: deletes_threads_def row_saver_def no_saver_rows_def list_all_iff)

definition demo_saved :: db where
  "demo_saved = demo_db0\<lparr>db_checkpoints := [\<lparr>cp_thread_id = uuid_str 1, cp_ns = [], cp_id = ''a'',
     cp_parent_id = None, cp_checkpoint = [], cp_metadata = [], cp_rest = JNull\<rparr>]\<rparr>"

definition fails_after :: "db \<Rightarrow> (unit \<times> db) res" where
  "fails_after d = Inl (if length (db_threads d) = 2 then ValueError ''late'' else ValueError ''early'')"


section \<open>Crons\<close>

lemma claim_crons_rows:
  "distinct ks \<Longrightarrow> claim_crons cl now ks d = (ys, d') \<Longrightarrow>
   db_crons d' = map (\<lambda>r. if cr_id r \<in> set ks then advance_cron cl now r else r) (db_crons d) \<and>
   map (\<lambda>y. rget y ''cron_id'') ys = map CUuid (filter (\<lambda>k. get_cron k d \<noteq> None) ks)"
proof (induction ks arbitrary: d d' ys)
  case (Cons k ks)
  have key: "cr_id (advance_cron cl now r) = cr_id r" for r by (simp add: advance_cron_def)
  let ?d = "upd_cron k (advance_cron cl now) d"
  show ?case
  proof (cases "get_cron k d")
    case None
    with Cons have "db_crons d' = map (\<lambda>r. if cr_id r \<in> set ks then advance_cron cl now r else r) (db_crons d)"
      "map (\<lambda>y. rget y ''cron_id'') ys = map CUuid (filter (\<lambda>k. get_cron k d \<noteq> None) ks)" by simp_all
    moreover have "k \<notin> cr_id ` set (db_crons d)" using None by (simp add: crons_t.get_None)
    ultimately show ?thesis using None by auto
  next
    case (Some r)
    obtain zs d1 where c: "claim_crons cl now ks ?d = (zs, d1)"
      by (cases "claim_crons cl now ks ?d")
    with Cons.prems(2) Some have ys: "ys = rset_default ''now'' (CTime now) (cron_to_dict r) # zs" "d' = d1"
      by simp_all
    have id: "cr_id r = k" using crons_t.get_Some [OF Some] by simp
    have head: "rget (rset_default ''now'' (CTime now) (cron_to_dict r)) ''cron_id'' = CUuid k"
      by (simp add: rget_def rset_default_def cron_to_dict_def row_to_dict_def CRON_KEYS_def cron_attrs_def id)
    have present: "get_cron x ?d \<noteq> None \<longleftrightarrow> get_cron x d \<noteq> None" for x
      using key by (simp add: crons_t.get_upd)
    from Cons.IH [OF _ c] Cons.prems(1) have
      "db_crons d1 = map (\<lambda>r. if cr_id r \<in> set ks then advance_cron cl now r else r) (db_crons ?d)"
      "map (\<lambda>y. rget y ''cron_id'') zs = map CUuid (filter (\<lambda>k. get_cron k d \<noteq> None) ks)"
      by (simp_all only: present distinct.simps)
    then show ?thesis
      using Cons.prems(1) ys head Some key by (auto simp: upd_cron_def t_upd_def)
  qed
qed simp

lemma due_crons_rows:
  assumes "distinct (map cr_id (db_crons d))"
  shows "distinct (due_crons now locked d)"
    and "k \<in> set (due_crons now locked d) \<longleftrightarrow>
      k \<notin> locked \<and> (\<exists>r. get_cron k d = Some r \<and> cron_due now r)"
proof -
  show "distinct (due_crons now locked d)"
    using assms by (simp add: due_crons_def distinct_map inj_on_def)
  show "k \<in> set (due_crons now locked d) \<longleftrightarrow>
      k \<notin> locked \<and> (\<exists>r. get_cron k d = Some r \<and> cron_due now r)"
    using assms crons_t.get_in crons_t.get_Some by (fastforce simp: due_crons_def)
qed

text \<open>
  C22: a pass over the crons claims every due cron that no other pass holds, once, and a later pass
  claims one of them again only when the next date of its schedule, counted from the first pass,
  has come.
\<close>

theorem due_cron_fires_once:
  assumes "distinct (map cr_id (db_crons d))"
    and "crons_next e cl locked d = (ys, d1)" "crons_next e2 cl locked2 d1 = (zs, d2)"
  shows "map (\<lambda>y. rget y ''cron_id'') ys = map CUuid (due_crons (e_now e) locked d) \<and>
    (\<forall>k r. CUuid k \<in> (\<lambda>y. rget y ''cron_id'') ` (set ys) \<inter> (\<lambda>y. rget y ''cron_id'') ` (set zs) \<longrightarrow>
       get_cron k d = Some r \<longrightarrow> cl_next cl (cr_schedule r) (e_now e) (cr_timezone r) \<le> e_now e2)"
proof -
  let ?id = "\<lambda>y. rget y ''cron_id''" and ?due = "due_crons (e_now e) locked d"
  let ?adv = "\<lambda>r. if cr_id r \<in> set ?due then advance_cron cl (e_now e) r else r"
  note due = due_crons_rows [OF assms(1)]
  have first: "db_crons d1 = map ?adv (db_crons d)" "map ?id ys = map CUuid ?due"
  proof -
    have "filter (\<lambda>k. get_cron k d \<noteq> None) ?due = ?due"
      using due(2) by (auto simp: filter_id_conv)
    then show "db_crons d1 = map ?adv (db_crons d)" "map ?id ys = map CUuid ?due"
      using claim_crons_rows [OF due(1) assms(2) [unfolded crons_next_def]] by simp_all
  qed
  have "map cr_id (db_crons d1) = map cr_id (db_crons d)"
    unfolding first by (simp add: advance_cron_def)
  with assms(1) have d1: "distinct (map cr_id (db_crons d1))" by simp
  note due1 = due_crons_rows [OF d1]
  have second: "?id ` set zs \<subseteq> CUuid ` set (due_crons (e_now e2) locked2 d1)"
    using claim_crons_rows [OF due1(1) assms(3) [unfolded crons_next_def]]
    by (metis (no_types, lifting) filter_is_subset image_mono list.set_map)
  have "cl_next cl (cr_schedule r) (e_now e) (cr_timezone r) \<le> e_now e2"
    if k: "CUuid k \<in> ?id ` set ys \<inter> ?id ` set zs" and r: "get_cron k d = Some r" for k r
  proof -
    have "CUuid k \<in> CUuid ` set ?due" using k first(2) by (metis IntD1 list.set_map)
    then have in1: "k \<in> set ?due" by auto
    have "k \<in> set (due_crons (e_now e2) locked2 d1)" using k second by auto
    then obtain r' where r': "get_cron k d1 = Some r'" "cron_due (e_now e2) r'" using due1(2) by blast
    have rd: "r \<in> set (db_crons d)" "cr_id r = k" using crons_t.get_Some [OF r] by simp_all
    then have "advance_cron cl (e_now e) r \<in> set (db_crons d1)"
      unfolding first using in1 by force
    then have "r' = advance_cron cl (e_now e) r"
      using crons_t.get_in [OF d1] r'(1) rd(2) by (fastforce simp: advance_cron_def)
    with r'(2) show ?thesis by (simp add: cron_due_def advance_cron_def)
  qed
  with first(2) show ?thesis by blast
qed

definition hourly :: cron_lib where
  "hourly = \<lparr>cl_valid = (\<lambda>_. True), cl_next = (\<lambda>_ t _. t + 3600), cl_assistant = (\<lambda>s. s),
     cl_system = {}\<rparr>"

definition demo_cron :: cron_row where
  "demo_cron = \<lparr>cr_id = 9, cr_assistant_id = 7, cr_thread_id = None, cr_schedule = ''0 * * * *'',
     cr_payload = [], cr_metadata = [], cr_next_run_date = Some 100, cr_end_time = None,
     cr_user_id = None, cr_timezone = None, cr_on_run_completed = None, cr_enabled = True,
     cr_created_at = 0, cr_updated_at = 0\<rparr>"

definition demo_crons :: db where
  "demo_crons = empty_db\<lparr>db_crons := [demo_cron]\<rparr>"

theorem due_cron_fires_once_witness:
  "map (\<lambda>y. rget y ''cron_id'') (fst (crons_next (demo_env 150) hourly {} demo_crons)) = [CUuid 9] \<and>
   fst (crons_next (demo_env 200) hourly {} (snd (crons_next (demo_env 150) hourly {} demo_crons))) = []"
proof -
  let ?a = "crons_next (demo_env 150) hourly {} demo_crons"
  let ?b = "crons_next (demo_env 200) hourly {} (snd ?a)"
  have d: "distinct (map cr_id (db_crons demo_crons))" by (simp add: demo_crons_def)
  have due: "due_crons (e_now (demo_env 150)) {} demo_crons = [9]" by code_simp
  have b: "fst ?b = []" by code_simp
  from due_cron_fires_once [OF d surjective_pairing surjective_pairing, of "demo_env 150" hourly "{}"
      "demo_env 200" "{}"] due b
  show ?thesis by auto
qed

end
