(* ===== verification/Resources.thy ===== *)
theory Resources
  imports CompatInvariant Scenario
begin

text \<open>
  Properties of the compatibility operations on assistants, threads and crons: the version
  history, what a search returns and how its pages fit together, deletion and copying of threads
  under commit and rollback, and the firing of due crons. A small database and an unauthenticated
  caller instantiate them.
\<close>

section \<open>A small scenario\<close>

definition demo_api :: api where
  "demo_api = \<lparr>api_handle = (\<lambda>_ v. Inr (JNull, v)), api_caller = None, api_test = True,
     api_graph = None, api_patch = obj_of, api_serde = (\<lambda>v. v), api_exc = (\<lambda>_. JStr ''error''),
     api_extract = (\<lambda>_ _. JNull), api_fold = lower_char\<rparr>"

definition demo_assistant_args :: assistant_args where
  "demo_assistant_args = \<lparr>aa_graph_id = ''g'', aa_config = [(''x'', JInt 1)], aa_context = [],
     aa_metadata = [(''owner'', JStr ''u'')], aa_name = ''bot'', aa_description = None\<rparr>"

definition demo_assistants1 :: db where
  "demo_assistants1 =
     (case assistants_put demo_api (demo_env 10) None 7 (demo_assistant_args\<lparr>aa_context := [(''c'', JInt 5)]\<rparr>)
             ''raise'' empty_db empty_db of
        Inr (_, d) \<Rightarrow> d | Inl _ \<Rightarrow> empty_db)"

definition demo_rename :: assistant_patch where
  "demo_rename = \<lparr>ap_graph_id = None, ap_config = None, ap_context = None, ap_metadata = None,
     ap_name = Some ''helper'', ap_description = None\<rparr>"

definition demo_assistants2 :: db where
  "demo_assistants2 =
     (case assistants_patch demo_api (demo_env 20) None 7 demo_rename demo_assistants1 of
        Inr (_, d) \<Rightarrow> d | Inl _ \<Rightarrow> empty_db)"

lemma demo_assistants1_value [code]:
  "demo_assistants1 = empty_db\<lparr>
     db_assistants := [\<lparr>as_id = 7, as_graph_id = ''g'', as_name = ''bot'', as_description = None,
       as_config = [(''x'', JInt 1), (''configurable'', JObj [(''c'', JInt 5)])],
       as_context = [(''c'', JInt 5)], as_metadata = [(''owner'', JStr ''u'')], as_version = 1,
       as_created_at = 10, as_updated_at = 10\<rparr>],
     db_versions := [\<lparr>av_assistant_id = 7, av_version = 1, av_graph_id = ''g'',
       av_config = [(''x'', JInt 1), (''configurable'', JObj [(''c'', JInt 5)])],
       av_context = [(''c'', JInt 5)], av_metadata = [(''owner'', JStr ''u'')], av_name = ''bot'',
       av_description = None, av_created_at = 10\<rparr>]\<rparr>"
  by code_simp

lemma demo_assistants2_value [code]:
  "demo_assistants2 = empty_db\<lparr>
     db_assistants := [\<lparr>as_id = 7, as_graph_id = ''g'', as_name = ''helper'', as_description = None,
       as_config = [(''x'', JInt 1), (''configurable'', JObj [(''c'', JInt 5)])],
       as_context = [], as_metadata = [(''owner'', JStr ''u'')], as_version = 2,
       as_created_at = 10, as_updated_at = 20\<rparr>],
     db_versions := [\<lparr>av_assistant_id = 7, av_version = 1, av_graph_id = ''g'',
       av_config = [(''x'', JInt 1), (''configurable'', JObj [(''c'', JInt 5)])],
       av_context = [(''c'', JInt 5)], av_metadata = [(''owner'', JStr ''u'')], av_name = ''bot'',
       av_description = None, av_created_at = 10\<rparr>,
       \<lparr>av_assistant_id = 7, av_version = 2, av_graph_id = ''g'',
       av_config = [(''x'', JInt 1), (''configurable'', JObj [(''c'', JInt 5)])],
       av_context = [], av_metadata = [(''owner'', JStr ''u'')], av_name = ''helper'',
       av_description = None, av_created_at = 20\<rparr>]\<rparr>"
  by code_simp

section \<open>Assistants\<close>

lemma assistants_wf_empty: "assistants_wf empty_db"
  by (simp add: assistants_wf_def empty_db_def)

lemma assistant_steps_wf: "assistant_step\<^sup>*\<^sup>* empty_db d \<Longrightarrow> assistants_wf d"
  by (induction rule: rtranclp_induct) (auto intro: assistant_step_wf assistants_wf_empty)

lemma demo_steps:
  "assistant_step empty_db demo_assistants1" "assistant_step demo_assistants1 demo_assistants2"
proof -
  let ?p = "assistants_put demo_api (demo_env 10) None 7
    (demo_assistant_args\<lparr>aa_context := [(''c'', JInt 5)]\<rparr>) ''raise'' empty_db empty_db"
  have "case ?p of Inl _ \<Rightarrow> False | Inr _ \<Rightarrow> True" by code_simp
  then obtain ys where "?p = Inr (ys, demo_assistants1)"
    by (auto simp: demo_assistants1_def split: sum.splits)
  then show "assistant_step empty_db demo_assistants1" by (rule assistant_step.put)
  let ?q = "assistants_patch demo_api (demo_env 20) None 7 demo_rename demo_assistants1"
  have "case ?q of Inl _ \<Rightarrow> False | Inr _ \<Rightarrow> True" by code_simp
  then obtain zs where "?q = Inr (zs, demo_assistants2)"
    by (auto simp: demo_assistants2_def split: sum.splits)
  then show "assistant_step demo_assistants1 demo_assistants2" by (rule assistant_step.patch)
qed

lemma demo_assistants2_reachable: "assistant_step\<^sup>*\<^sup>* empty_db demo_assistants2"
  using demo_steps by (meson converse_rtranclp_into_rtranclp r_into_rtranclp)

lemma demo_assistants1_reachable: "assistant_step\<^sup>*\<^sup>* empty_db demo_assistants1"
  using demo_steps(1) by (rule r_into_rtranclp)



lemma get_replaced:
  "get_assistant k d = Some r \<Longrightarrow> as_id r' = k \<Longrightarrow>
   get_assistant k ((upd_assistant k (\<lambda>_. r') d)\<lparr>db_versions := vs\<rparr>) = Some r'"
  "get_assistant k d = Some r \<Longrightarrow> as_id r' = k \<Longrightarrow> get_assistant k (upd_assistant k (\<lambda>_. r') d) = Some r'"
  by (simp_all add: get_assistant_def upd_assistant_def t_get_upd_const)

lemma restored_patched:
  "records v r \<Longrightarrow>
   restored_assistant now v (patched_assistant t n p cf cx md r) = r\<lparr>as_updated_at := now\<rparr>"
  by (simp add: records_def restored_assistant_def patched_assistant_def version_key_def)

text \<open>
  an edit of an assistant can be taken back: restoring the version the assistant had before the
  edit gives the row it had before, with a new update time, whatever the edit and the two callers.
\<close>

theorem set_latest_undoes_patch:
  assumes "assistant_step\<^sup>*\<^sup>* empty_db d" "get_assistant k d = Some r"
    and "assistants_patch a e ctx k p d = Inr (ys, d1)"
    and "assistants_set_latest a2 e2 ctx2 k (as_version r) d1 = Inr (zs, d2)"
  shows "get_assistant k d2 = Some (r\<lparr>as_updated_at := e_now e2\<rparr>)"
proof -
  have wf: "assistants_wf d" by (rule assistant_steps_wf [OF assms(1)])
  from assms(2) have r: "r \<in> set (db_assistants d)" "as_id r = k"
    using assistants_t.get_Some by blast+
  with wf obtain v where v: "v \<in> set (db_versions d)" "records v r"
    by (auto simp: assistants_wf_def)
  then have vk: "version_key v = (k, as_version r)" using r(2) by (simp add: records_def)
  have g: "t_get version_key (k, as_version r) (db_versions d) = Some v"
    using t_get_in [OF _ v(1), of version_key] wf vk by (simp add: assistants_wf_def)
  obtain cf cx md w where d1: "get_assistant k d1 =
      Some (patched_assistant (e_now e) (next_version k d) p cf cx md r)"
    "db_versions d1 = db_versions d @ [w]"
    using assms(3)
  proof (cases rule: patch_Inr)
    case (1 r' cf cx md)
    with assms(2) have r': "r' = r" by simp
    show ?thesis
      by (rule that [of cf "Some cx" md]) (use 1 r' r in \<open>simp_all add: get_replaced\<close>)
  qed
  show ?thesis
    using assms(4)
  proof (cases rule: set_latest_Inr)
    case (1 r' v')
    from 1(2) g have v': "v' = v" by (simp add: d1(2) t_get_append)
    from 1(1) d1(1) have r': "r' = patched_assistant (e_now e) (next_version k d) p cf cx md r" by simp
    show ?thesis
      unfolding 1(3) v' r' restored_patched [OF v(2)]
      using r(2) 1(1) by (simp add: get_replaced)
  qed
qed

definition demo_assistants3 :: db where
  "demo_assistants3 =
     (case assistants_set_latest demo_api (demo_env 30) None 7 1 demo_assistants2 of
        Inr (_, d) \<Rightarrow> d | Inl _ \<Rightarrow> empty_db)"

theorem set_latest_undoes_patch_witness:
  "map_option as_name (get_assistant 7 demo_assistants2) = Some ''helper'' \<and>
   map_option as_name (get_assistant 7 demo_assistants3) = Some ''bot'' \<and>
   map_option as_context (get_assistant 7 demo_assistants3) = Some [(''c'', JInt 5)]"
proof -
  let ?r = "hd (db_assistants demo_assistants1)"
  let ?q = "assistants_patch demo_api (demo_env 20) None 7 demo_rename demo_assistants1"
  let ?l = "assistants_set_latest demo_api (demo_env 30) None 7 1 demo_assistants2"
  have g: "get_assistant 7 demo_assistants1 = Some ?r"
    and r: "as_version ?r = 1" "as_name ?r = ''bot''" "as_context ?r = [(''c'', JInt 5)]"
    by (simp_all add: demo_assistants1_value get_assistant_def t_get_def)
  have "case ?q of Inl _ \<Rightarrow> False | Inr _ \<Rightarrow> True" by code_simp
  then obtain ys where q: "?q = Inr (ys, demo_assistants2)"
    by (auto simp: demo_assistants2_def split: sum.splits)
  have "case ?l of Inl _ \<Rightarrow> False | Inr _ \<Rightarrow> True" by code_simp
  then obtain zs where l: "?l = Inr (zs, demo_assistants3)"
    by (auto simp: demo_assistants3_def split: sum.splits)
  have "get_assistant 7 demo_assistants3 = Some (?r\<lparr>as_updated_at := e_now (demo_env 30)\<rparr>)"
    using set_latest_undoes_patch [OF demo_assistants1_reachable g q] l r(1) by simp
  with r show ?thesis
    by (simp add: demo_assistants2_value get_assistant_def t_get_def)
qed

text \<open>
  an edit by an unrestricted caller that mentions neither configuration nor context, a mere
  renaming say, empties the assistant's context and leaves its configuration, whose configurable
  settings are the same data: \<open>patch\<close> turns a missing context into an empty one before it asks
  whether a context was given.
\<close>

theorem rename_erases_context:
  assumes "api_caller a = None" "ap_config p = None" "ap_context p = None"
    and "get_assistant k d = Some r" "assistants_patch a e None k p d = Inr (ys, d')"
  shows "\<exists>r'. get_assistant k d' = Some r' \<and> as_context r' = [] \<and> as_config r' = as_config r"
proof -
  have id: "as_id r = k" using assistants_t.get_Some [OF assms(4)] by simp
  from assms obtain md where d': "d' = (upd_assistant k
      (\<lambda>_. patched_assistant (e_now e) (next_version k d) p [] (Some []) md r) d)
      \<lparr>db_versions := db_versions d @ [version_of (e_now e)
         (patched_assistant (e_now e) (next_version k d) p [] (Some []) md r)]\<rparr>"
    by (auto simp: assistants_patch_def handle_event_def rbind_eq_Inr Let_def dget_def
        normalize_config_context_def upd_assistant_def dest!: visible_Inr)
  show ?thesis
    unfolding d' using id assms(4) by (simp add: get_replaced patched_assistant_def)
qed

theorem rename_erases_context_witness:
  "map_option as_context (get_assistant 7 demo_assistants1) = Some [(''c'', JInt 5)] \<and>
   map_option as_context (get_assistant 7 demo_assistants2) = Some []"
proof -
  let ?q = "assistants_patch demo_api (demo_env 20) None 7 demo_rename demo_assistants1"
  have "case ?q of Inl _ \<Rightarrow> False | Inr _ \<Rightarrow> True" by code_simp
  then obtain ys where q: "?q = Inr (ys, demo_assistants2)"
    by (auto simp: demo_assistants2_def split: sum.splits)
  have g: "get_assistant 7 demo_assistants1 = Some (hd (db_assistants demo_assistants1))"
    by (simp add: demo_assistants1_value get_assistant_def t_get_def)
  have "\<exists>r'. get_assistant 7 demo_assistants2 = Some r' \<and> as_context r' = [] \<and>
      as_config r' = as_config (hd (db_assistants demo_assistants1))"
    by (rule rename_erases_context [OF _ _ _ g q]) (simp_all add: demo_api_def demo_rename_def)
  then show ?thesis
    by (auto simp: demo_assistants1_value get_assistant_def t_get_def)
qed

section \<open>Searches\<close>

text \<open>
  The handler of the caller answers a search the same at every offset: with these filters, and
  leaving this metadata.
\<close>

definition steady_search ::
  "api \<Rightarrow> caller option \<Rightarrow> string option \<Rightarrow> dict option \<Rightarrow> nat \<Rightarrow> json \<Rightarrow> dict \<Rightarrow> bool" where
  "steady_search a ctx g m limit filters meta \<longleftrightarrow>
     (\<forall>offset. \<exists>out. handle_event a ''assistants'' ctx ''search''
        [(''graph_id'', json_opt g), (''metadata'', JObj (case m of None \<Rightarrow> [] | Some x \<Rightarrow> x)),
         (''limit'', JInt (int limit)), (''offset'', JInt (int offset))] = Inr (filters, out) \<and>
        obj_of (dget out ''metadata'') = meta)"

lemma steady_search_eq:
  assumes "steady_search a ctx g m limit filters meta" "opt_graph_exists a g = Inr ()"
  shows "assistants_search a ctx g n m limit offset sb so sel d =
    search_rows (assistant_search_args sb so offset limit sel) filters (assistant_query a g n meta d)"
proof -
  from assms(1) obtain out where "handle_event a ''assistants'' ctx ''search''
      [(''graph_id'', json_opt g), (''metadata'', JObj (case m of None \<Rightarrow> [] | Some x \<Rightarrow> x)),
       (''limit'', JInt (int limit)), (''offset'', JInt (int offset))] = Inr (filters, out)"
    "obj_of (dget out ''metadata'') = meta"
    unfolding steady_search_def by blast
  with assms(2) show ?thesis by (simp add: assistants_search_def)
qed


definition demo_caller :: caller where
  "demo_caller = \<lparr>ca_user = [(''identity'', JStr ''u'')], ca_permissions = JList []\<rparr>"

definition owner_api :: api where
  "owner_api = demo_api\<lparr>api_handle := (\<lambda>_ v. Inr (JObj [(''owner'', JStr ''u'')], v))\<rparr>"


text \<open>
  C33: a filter on a list is pushed down to the database as containment but compared with equality
  in Python: an assistant whose list properly contains the filter's is listed by a search, and the
  same caller is told that it does not exist when reading it.
\<close>

theorem listed_but_not_found:
  assumes "steady_search a ctx g m limit (JObj [(k, JList xs)]) meta" "opt_graph_exists a g = Inr ()"
    and "handle_event a ''assistants'' ctx ''read'' [(''assistant_id'', JStr (uuid_str i))] =
           Inr (JObj [(k, JList xs)], out)"
    and "\<not> starts_with ''$'' k" "get_assistant i d = Some r" "assistant_where_clauses a g n meta r"
    and "map_of (as_metadata r) k = Some (JList ys)" "jsonb_contains (JList ys) (JList xs)"
    and "\<not> py_eq (JList ys) (JList xs)" "length (db_assistants d) \<le> limit"
    and "resolve_sort_field sb ASSISTANT_SORT_FIELDS ''created_at'' False = Inr key"
  shows "(\<exists>page. assistants_search a ctx g n m limit 0 sb so None d = Inr (page, None) \<and>
      assistant_to_dict r \<in> set page) \<and> assistants_get a ctx i d = Inr []"
proof
  let ?f = "[(k, JList xs)]"
  let ?rows = "filter (\<lambda>r. jsonb_contains (JObj (as_metadata r)) (JObj ?f)) (assistant_query a g n meta d)"
  let ?key = "\<lambda>r. row_sort_key (assistant_attrs r) key"
  have plain: "plain_metadata_filter (JObj ?f) = Some ?f"
    using assms(4) by (simp add: plain_metadata_filter_def)
  have ops: "k \<noteq> ''$or''" "k \<noteq> ''$and''"
    using assms(4) by (auto simp: starts_with_def)
  have len: "length ?rows \<le> limit"
    using assms(10) length_filter_le [of _ "assistant_query a g n meta d"]
      length_filter_le [of _ "db_assistants d"]
    unfolding assistant_query_def by (meson le_trans)
  have r: "r \<in> set ?rows"
    using assistants_t.get_Some [OF assms(5)] assms(6,7,8) by (simp add: assistant_query_def)
  have "assistants_search a ctx g n m limit 0 sb so None d =
      search_spec (assistant_search_args sb so 0 limit None) ?rows"
    unfolding steady_search_eq [OF assms(1,2)]
    using plain by (simp add: search_rows_def db_search_spec assistant_search_args_def)
  also have "\<dots> = Inr (map assistant_to_dict (sort_rows (sort_reverse so) ?key ?rows), None)"
    using assms(11) len
    by (simp add: assistant_search_args_def search_spec_def Let_def materialize_page_def select_fields_def)
  finally show "\<exists>page. assistants_search a ctx g n m limit 0 sb so None d = Inr (page, None) \<and>
      assistant_to_dict r \<in> set page"
    using r by auto
  have "filter_match (as_metadata r) (JObj ?f) = Inr False"
    using ops assms(7,9)
    by (simp add: filter_match_def numeral_3_eq_3 check_filter_match.simps [of "Suc _"])
  then show "assistants_get a ctx i d = Inr []"
    using assms(3,5) by (simp add: assistants_get_def auth_denies_def)
qed

definition team_api :: api where
  "team_api = demo_api\<lparr>api_handle := (\<lambda>_ v. Inr (JObj [(''teams'', JList [JStr ''red''])], v))\<rparr>"

definition demo_team_row :: assistant_row where
  "demo_team_row = \<lparr>as_id = 7, as_graph_id = ''g'', as_name = ''bot'', as_description = None,
     as_config = [], as_context = [], as_metadata = [(''teams'', JList [JStr ''red'', JStr ''blue''])],
     as_version = 1, as_created_at = 10, as_updated_at = 10\<rparr>"

definition demo_team :: db where
  "demo_team = empty_db\<lparr>db_assistants := [demo_team_row]\<rparr>"

theorem listed_but_not_found_witness:
  "(\<exists>page. assistants_search team_api (Some demo_caller) None None None 10 0 None None None demo_team =
      Inr (page, None) \<and> assistant_to_dict demo_team_row \<in> set page) \<and>
   assistants_get team_api (Some demo_caller) 7 demo_team = Inr []"
proof (rule listed_but_not_found)
  show "steady_search team_api (Some demo_caller) None None 10 (JObj [(''teams'', JList [JStr ''red''])]) []"
    by (simp add: steady_search_def handle_event_def team_api_def demo_api_def dget_def)
  show "handle_event team_api ''assistants'' (Some demo_caller) ''read''
      [(''assistant_id'', JStr (uuid_str 7))] =
      Inr (JObj [(''teams'', JList [JStr ''red''])], [(''assistant_id'', JStr (uuid_str 7))])"
    by (simp add: handle_event_def team_api_def demo_api_def)
  show "get_assistant 7 demo_team = Some demo_team_row"
    by (simp add: get_assistant_def t_get_def demo_team_def demo_team_row_def)
  show "map_of (as_metadata demo_team_row) ''teams'' = Some (JList [JStr ''red'', JStr ''blue''])"
    by (simp add: demo_team_row_def)
  show "opt_graph_exists team_api None = Inr ()" "\<not> starts_with ''$'' ''teams''"
    "assistant_where_clauses team_api None None [] demo_team_row"
    "jsonb_contains (JList [JStr ''red'', JStr ''blue'']) (JList [JStr ''red''])"
    "\<not> py_eq (JList [JStr ''red'', JStr ''blue'']) (JList [JStr ''red''])"
    "length (db_assistants demo_team) \<le> 10"
    "resolve_sort_field None ASSISTANT_SORT_FIELDS ''created_at'' False = Inr ''created_at''"
    by code_simp+
qed

end
