(* ===== verification/OpsStream.thy ===== *)
theory OpsStream
  imports RunOps RedisStream
begin

text \<open>
  The event streams of \<open>ops.py\<close>: acceptance of a message (cursor and duplicates), the filters of
  thread streams, replay and live draining of a thread's events, and the stream of one run. The
  stream codec of \<open>langgraph_api\<close> and \<open>orjson\<close> are parameters: a message decodes to an event name
  and a payload, or raises.
\<close>

section \<open>Acceptance\<close>

text \<open>
  \<open>_accept_message\<close> and \<open>_run_join_accept\<close>: a message without an identifier always passes; one
  with an identifier passes once, and only behind the cursor. The second component is the set of
  identifiers emitted so far.
\<close>

definition accept_message :: "message \<Rightarrow> string list \<Rightarrow> string option \<Rightarrow> bool \<times> string list" where
  "accept_message m emitted cursor =
     (case ms_id m of
        None \<Rightarrow> (True, emitted)
      | Some mid \<Rightarrow>
          if mid = [] then (True, emitted)
          else if mid \<in> set emitted then (False, emitted)
          else if (case cursor of None \<Rightarrow> False | Some c \<Rightarrow> \<not> ms_seq_id_gt mid c) then (False, emitted)
          else (True, mid # emitted))"

definition resume_cursor_of :: "string option \<Rightarrow> string option" where
  "resume_cursor_of last_event_id =
     (case last_event_id of None \<Rightarrow> None
      | Some c \<Rightarrow> if c = ''-'' \<or> c = [] then None else Some c)"

text \<open>What \<open>join_event_streaming\<close> replays from: nothing, the beginning, or the cursor.\<close>

definition restore_cursor_of :: "string option \<Rightarrow> string option" where
  "restore_cursor_of last_event_id =
     (case last_event_id of None \<Rightarrow> None
      | Some c \<Rightarrow> if c = ''-'' \<or> c = [] then Some ''-'' else Some c)"

section \<open>Thread streams\<close>

record codec =
  cd_decode :: "string \<Rightarrow> string \<Rightarrow> (string \<times> string) res"
  cd_loads :: "string \<Rightarrow> json option"
  cd_dumps :: "json \<Rightarrow> string"

record frame =
  fr_event :: string
  fr_payload :: string
  fr_id :: "string option"
  fr_run :: "string option"

definition run_done_payload :: "codec \<Rightarrow> string \<Rightarrow> string" where
  "run_done_payload cd rid =
     cd_dumps cd (JObj [(''status'', JStr ''run_done''), (''run_id'', JStr rid)])"

definition rewrite_control_done :: "codec \<Rightarrow> string \<Rightarrow> string \<Rightarrow> string \<Rightarrow> string \<times> string" where
  "rewrite_control_done cd event payload rid =
     (if event = ''control'' \<and> payload = ''done'' then (''metadata'', run_done_payload cd rid)
      else (event, payload))"

text \<open>The result \<open>True\<close> drops the event, despite the name.\<close>

definition lifecycle_passes :: "codec \<Rightarrow> string \<Rightarrow> bool res" where
  "lifecycle_passes cd payload =
     (case cd_loads cd payload of
        None \<Rightarrow> Inr True
      | Some (JObj d) \<Rightarrow>
          if dget d ''status'' = JStr ''run_done'' then Inr False
          else Inr (\<not> (dhas d ''attempt'' \<and> dhas d ''run_id''))
      | Some _ \<Rightarrow> Inl (AttributeError ''get''))"

definition event_filter :: "codec \<Rightarrow> string list \<Rightarrow> string \<Rightarrow> string \<Rightarrow> bool res" where
  "event_filter cd modes event payload =
     (if ''run_modes'' \<in> set modes \<and> event \<noteq> ''state_update'' then Inr False
      else if ''state_update'' \<in> set modes \<and> event = ''state_update'' then Inr False
      else if ''lifecycle'' \<in> set modes \<and> event = ''metadata'' then lifecycle_passes cd payload
      else Inr True)"

text \<open>\<open>topic.split("run:")[1].split(":")[0]\<close>.\<close>

fun after_run :: "string \<Rightarrow> string option" where
  "after_run [] = None"
| "after_run (c # cs) =
     (if starts_with ''run:'' (c # cs) then Some (drop 4 (c # cs)) else after_run cs)"

fun until_run :: "string \<Rightarrow> string" where
  "until_run [] = []"
| "until_run (c # cs) = (if starts_with ''run:'' (c # cs) then [] else c # until_run cs)"

definition topic_run_id :: "string \<Rightarrow> string res" where
  "topic_run_id topic =
     (case after_run topic of
        None \<Rightarrow> Inl (IndexError ''list index out of range'')
      | Some rest \<Rightarrow> Inr (takeWhile (\<lambda>c. c \<noteq> CHR '':'') (until_run rest)))"

definition make_done_frame :: "codec \<Rightarrow> string list \<Rightarrow> message \<Rightarrow> frame option res" where
  "make_done_frame cd modes m =
     rbind (topic_run_id (ms_topic m)) (\<lambda>rid.
     rbind (event_filter cd modes ''metadata'' (run_done_payload cd rid)) (\<lambda>dropped.
       Inr (if dropped then None
            else Some \<lparr>fr_event = ''metadata'', fr_payload = run_done_payload cd rid,
                       fr_id = ms_id m, fr_run = Some rid\<rparr>)))"

definition skips :: "py_error \<Rightarrow> bool" where
  "skips err = (case err of ValueError _ \<Rightarrow> True | KeyError _ \<Rightarrow> True | _ \<Rightarrow> False)"

text \<open>One message of a drained queue: the frame it gives, if any, and the identifiers emitted.\<close>

definition drain_message ::
  "codec \<Rightarrow> string list \<Rightarrow> string option \<Rightarrow> uuid \<Rightarrow> message \<Rightarrow> string list \<Rightarrow> (frame option \<times> string list) res" where
  "drain_message cd modes cursor rid m emitted =
     (case accept_message m emitted cursor of
        (False, em) \<Rightarrow> Inr (None, em)
      | (True, em) \<Rightarrow>
          (case cd_decode cd (ms_data m) (ms_topic m) of
             Inl err \<Rightarrow> if skips err then Inr (None, em) else Inl err
           | Inr (event, payload) \<Rightarrow>
               if event = ''control'' \<and> payload = ''done'' then
                 rbind (make_done_frame cd modes m) (\<lambda>f. Inr (f, em))
               else
                 rbind (event_filter cd modes event payload) (\<lambda>dropped.
                   Inr (if dropped then None
                        else Some \<lparr>fr_event = event, fr_payload = payload, fr_id = ms_id m,
                                   fr_run = Some (uuid_str rid)\<rparr>, em))))"

fun drain_single_queue ::
  "codec \<Rightarrow> string list \<Rightarrow> string option \<Rightarrow> uuid \<Rightarrow> message list \<Rightarrow> string list \<Rightarrow> (frame list \<times> string list) res" where
  "drain_single_queue cd modes cursor rid [] emitted = Inr ([], emitted)"
| "drain_single_queue cd modes cursor rid (m # ms) emitted =
     rbind (drain_message cd modes cursor rid m emitted) (\<lambda>(f, em).
     rbind (drain_single_queue cd modes cursor rid ms em) (\<lambda>(fs, em').
       Inr (case f of None \<Rightarrow> fs | Some x \<Rightarrow> x # fs, em')))"

text \<open>
  One message of the replay. Unlike the live queues the run is the one the message was stored
  under.
\<close>

definition restore_message ::
  "codec \<Rightarrow> string list \<Rightarrow> string option \<Rightarrow> message \<times> uuid \<Rightarrow> string list \<Rightarrow> (frame option \<times> string list) res" where
  "restore_message cd modes cursor = (\<lambda>(m, rid) emitted.
     (case accept_message m emitted cursor of
        (False, em) \<Rightarrow> Inr (None, em)
      | (True, em) \<Rightarrow>
          (case cd_decode cd (ms_data m) (ms_topic m) of
             Inl err \<Rightarrow> if skips err then Inr (None, em) else Inl err
           | Inr (event, payload) \<Rightarrow>
               (case rewrite_control_done cd event payload (uuid_str rid) of (ev, pl) \<Rightarrow>
                 rbind (event_filter cd modes ev pl) (\<lambda>dropped.
                   Inr (if dropped then None
                        else Some \<lparr>fr_event = ev, fr_payload = pl, fr_id = ms_id m,
                                   fr_run = Some (uuid_str rid)\<rparr>, em))))))"

fun restore_in_order ::
  "codec \<Rightarrow> string list \<Rightarrow> string option \<Rightarrow> (message \<times> uuid) list \<Rightarrow> string list \<Rightarrow> (frame list \<times> string list) res" where
  "restore_in_order cd modes cursor [] emitted = Inr ([], emitted)"
| "restore_in_order cd modes cursor (x # xs) emitted =
     rbind (restore_message cd modes cursor x emitted) (\<lambda>(f, em).
     rbind (restore_in_order cd modes cursor xs em) (\<lambda>(fs, em').
       Inr (case f of None \<Rightarrow> fs | Some y \<Rightarrow> y # fs, em')))"

definition message_sort_key :: "message \<times> uuid \<Rightarrow> int \<times> int \<times> string" where
  "message_sort_key x = ms_seq_id_sort_key (case ms_id (fst x) of None \<Rightarrow> [] | Some i \<Rightarrow> i)"

text \<open>\<open>stored\<close> are the messages \<open>restore_messages_async\<close> returned for the thread's runs.\<close>

definition restore_thread_events ::
  "codec \<Rightarrow> string list \<Rightarrow> string option \<Rightarrow> (message \<times> uuid) list \<Rightarrow> string list \<Rightarrow> (frame list \<times> string list) res" where
  "restore_thread_events cd modes cursor stored emitted =
     restore_in_order cd modes cursor (sort_key message_sort_key stored) emitted"

text \<open>Every subscribed queue in turn: one round of the live loop.\<close>

fun drain_round ::
  "codec \<Rightarrow> string list \<Rightarrow> string option \<Rightarrow> (uuid \<times> message list) list \<Rightarrow> string list \<Rightarrow> (frame list \<times> string list) res" where
  "drain_round cd modes cursor [] emitted = Inr ([], emitted)"
| "drain_round cd modes cursor ((rid, ms) # qs) emitted =
     rbind (drain_single_queue cd modes cursor rid ms emitted) (\<lambda>(fs, em).
     rbind (drain_round cd modes cursor qs em) (\<lambda>(gs, em'). Inr (fs @ gs, em')))"

text \<open>
  \<open>Stream.subscribe\<close>: the thread's own stream and one queue per run not seen before; the result
  lists the keys subscribed to now.
\<close>

definition stream_subscribe :: "uuid \<Rightarrow> uuid list \<Rightarrow> db \<Rightarrow> uuid list \<times> uuid list" where
  "stream_subscribe t seen d =
     (let s1 = (if t \<in> set seen then [] else [t]);
          new = filter (\<lambda>k. k \<notin> set (seen @ s1)) (remdups_first (thread_run_ids t d))
      in (s1 @ new, seen @ s1 @ new))"

definition maybe_resubscribe ::
  "rat \<Rightarrow> rat \<Rightarrow> uuid list \<Rightarrow> uuid \<Rightarrow> uuid list \<Rightarrow> db \<Rightarrow> rat \<times> uuid list \<times> uuid list" where
  "maybe_resubscribe now_mono prev queues t seen d =
     (if now_mono - prev < 15 / 100 \<and> queues \<noteq> [] then (prev, [], seen)
      else case stream_subscribe t seen d of (new, seen') \<Rightarrow> (now_mono, new, seen'))"

definition check_thread_stream_auth :: "api \<Rightarrow> caller option \<Rightarrow> uuid \<Rightarrow> db \<Rightarrow> unit res" where
  "check_thread_stream_auth a ctx t d =
     rbind (handle_event a ''threads'' ctx ''read'' [(''thread_id'', JStr (uuid_str t))]) (\<lambda>(filters, _).
       if \<not> truthy filters then Inr ()
       else
         let gone = Inl (HTTPException 404 ''Thread not found'')
         in case threads_get_row a ctx t d of
              Inl (HTTPException _ _) \<Rightarrow> gone
            | Inl err \<Rightarrow> Inl err
            | Inr r \<Rightarrow>
                rbind (filter_match (th_metadata r) filters) (\<lambda>ok. if ok then Inr () else gone))"

section \<open>Run streams\<close>

datatype run_frame = RunFrame string string "string option"

fun restore_run_messages ::
  "codec \<Rightarrow> mode_arg \<Rightarrow> string option \<Rightarrow> message list \<Rightarrow> string list \<Rightarrow> (run_frame list \<times> bool \<times> string list) res" where
  "restore_run_messages cd mode cursor [] emitted = Inr ([], False, emitted)"
| "restore_run_messages cd mode cursor (m # ms) emitted =
     (case accept_message m emitted cursor of
        (False, em) \<Rightarrow> restore_run_messages cd mode cursor ms em
      | (True, em) \<Rightarrow>
          rbind (cd_decode cd (ms_data m) (ms_topic m)) (\<lambda>(event, payload).
            if event = ''control'' \<and> payload = ''done'' then Inr ([], True, em)
            else rbind (restore_run_messages cd mode cursor ms em) (\<lambda>(fs, fin, em').
              Inr (if run_stream_mode_matches event mode
                   then RunFrame event payload (ms_id m) # fs else fs, fin, em'))))"

datatype decoded = Skip | Done | Emit run_frame

definition run_resumable :: "run_row option \<Rightarrow> bool" where
  "run_resumable run = (case run of None \<Rightarrow> False | Some r \<Rightarrow> truthy (dget (run_kwargs r) ''resumable''))"

definition decode_run_message ::
  "codec \<Rightarrow> mode_arg \<Rightarrow> string option \<Rightarrow> run_row option \<Rightarrow> message \<Rightarrow> string list \<Rightarrow> (decoded \<times> string list) res" where
  "decode_run_message cd mode cursor run m emitted =
     (case accept_message m emitted cursor of
        (False, em) \<Rightarrow> Inr (Skip, em)
      | (True, em) \<Rightarrow>
          rbind (cd_decode cd (ms_data m) (ms_topic m)) (\<lambda>(event, payload).
            if event = ''control'' \<and> payload = ''done'' then Inr (Done, em)
            else if \<not> run_stream_mode_matches event mode then Inr (Skip, em)
            else Inr (Emit (RunFrame event payload (if run_resumable run then ms_id m else None)), em)))"

datatype poll_action = PollBreak | PollError | PollContinue

definition run_poll_action :: "run_row option \<Rightarrow> bool \<Rightarrow> poll_action" where
  "run_poll_action run ignore_404 =
     (case run of
        None \<Rightarrow> if ignore_404 then PollBreak else PollError
      | Some r \<Rightarrow>
          if run_status r \<notin> set [''pending'', ''running''] then PollBreak else PollContinue)"

text \<open>What the live loop waits for: a message, or half a second and the run as it is then.\<close>

datatype queue_event = Arrived message | TimedOut "run_row option"

datatype stream_end = Ended | NotFoundFrame | StillOpen

fun stream_run_queue ::
  "codec \<Rightarrow> mode_arg \<Rightarrow> string option \<Rightarrow> bool \<Rightarrow> queue_event list \<Rightarrow> run_row option \<Rightarrow> string list \<Rightarrow>
   (run_frame list \<times> stream_end) res" where
  "stream_run_queue cd mode cursor ignore_404 [] run emitted = Inr ([], StillOpen)"
| "stream_run_queue cd mode cursor ignore_404 (TimedOut now # evs) run emitted =
     (case run_poll_action now ignore_404 of
        PollBreak \<Rightarrow> Inr ([], Ended)
      | PollError \<Rightarrow> Inr ([], NotFoundFrame)
      | PollContinue \<Rightarrow> stream_run_queue cd mode cursor ignore_404 evs now emitted)"
| "stream_run_queue cd mode cursor ignore_404 (Arrived m # evs) run emitted =
     rbind (decode_run_message cd mode cursor run m emitted) (\<lambda>(dec, em).
       case dec of
         Done \<Rightarrow> Inr ([], Ended)
       | Skip \<Rightarrow> stream_run_queue cd mode cursor ignore_404 evs run em
       | Emit f \<Rightarrow>
           rbind (stream_run_queue cd mode cursor ignore_404 evs run em) (\<lambda>(fs, fin).
             Inr (f # fs, fin)))"

definition check_run_stream_auth :: "api \<Rightarrow> caller option \<Rightarrow> uuid \<Rightarrow> db \<Rightarrow> unit res" where
  "check_run_stream_auth a ctx t d =
     rbind (handle_event a ''threads'' ctx ''read'' [(''thread_id'', JStr (uuid_str t))]) (\<lambda>(filters, _).
     rbind (run_thread_denied filters t d) (\<lambda>denied.
       if denied then Inl (HTTPException 404 ''Thread not found'') else Inr ()))"

definition first_run :: "uuid \<Rightarrow> row_dict list \<Rightarrow> db \<Rightarrow> run_row option" where
  "first_run rid ys d = (if ys = [] then None else get_run rid d)"

text \<open>\<open>Runs.Stream.join\<close>: the check, the replay from the cursor, and the live queue unless done.\<close>

definition run_join ::
  "api \<Rightarrow> codec \<Rightarrow> caller option \<Rightarrow> uuid \<Rightarrow> uuid \<Rightarrow> mode_arg \<Rightarrow> bool \<Rightarrow> string option \<Rightarrow>
   message list \<Rightarrow> queue_event list \<Rightarrow> db \<Rightarrow> (run_frame list \<times> stream_end) res" where
  "run_join a cd ctx rid t mode ignore_404 last_event_id stored evs d =
     (let cursor = resume_cursor_of last_event_id in
      rbind (check_run_stream_auth a ctx t d) (\<lambda>_.
      rbind (runs_get a ctx rid t d) (\<lambda>ys.
      rbind (restore_run_messages cd mode cursor stored []) (\<lambda>(frames, fin, emitted).
        if fin then Inr (frames, Ended)
        else rbind (stream_run_queue cd mode cursor ignore_404 evs (first_run rid ys d) emitted)
          (\<lambda>(fs, fin'). Inr (frames @ fs, fin'))))))"

section \<open>Cancellation signals\<close>

datatype stop_signal = SigInterrupt | SigRollback | SigDone

fun listen_queue :: "string list \<Rightarrow> stop_signal option" where
  "listen_queue [] = None"
| "listen_queue (p # ps) =
     (if p = ''rollback'' then Some SigRollback
      else if p = ''interrupt'' then Some SigInterrupt
      else if p = ''done'' then Some SigDone
      else listen_queue ps)"

text \<open>The control key in Redis is read first, then the messages of the control queue in order.\<close>

definition listen_for_cancellation :: "string option \<Rightarrow> string list \<Rightarrow> stop_signal option" where
  "listen_for_cancellation key payloads =
     (if key = Some ''rollback'' then Some SigRollback
      else if key = Some ''interrupt'' then Some SigInterrupt
      else listen_queue payloads)"

section \<open>Identifiers on a stream\<close>

text \<open>The non-empty identifiers of a sequence of frames.\<close>

definition id_list :: "string option \<Rightarrow> string list" where
  "id_list i = (case i of None \<Rightarrow> [] | Some s \<Rightarrow> if s = [] then [] else [s])"

definition run_frame_ids :: "run_frame list \<Rightarrow> string list" where
  "run_frame_ids fs = concat (map (\<lambda>f. case f of RunFrame _ _ i \<Rightarrow> id_list i) fs)"

definition frame_ids :: "frame list \<Rightarrow> string list" where
  "frame_ids fs = concat (map (\<lambda>f. id_list (fr_id f)) fs)"

definition behind :: "string option \<Rightarrow> string \<Rightarrow> bool" where
  "behind cursor i = (case cursor of None \<Rightarrow> True | Some c \<Rightarrow> ms_seq_id_gt i c)"

text \<open>
  A stretch of a stream: its identifiers are new, distinct, behind the cursor, and remembered
  afterwards.
\<close>

definition ids_fresh :: "string option \<Rightarrow> string list \<Rightarrow> string list \<Rightarrow> string list \<Rightarrow> bool" where
  "ids_fresh cursor emitted ids emitted' =
     (distinct ids \<and> set ids \<inter> set emitted = {} \<and> set emitted \<union> set ids \<subseteq> set emitted' \<and>
      (\<forall>i \<in> set ids. behind cursor i))"

lemma run_frame_ids_simps [simp]:
  "run_frame_ids [] = []" "run_frame_ids (RunFrame e p i # fs) = id_list i @ run_frame_ids fs"
  "run_frame_ids (fs @ gs) = run_frame_ids fs @ run_frame_ids gs"
  by (simp_all add: run_frame_ids_def)

lemma frame_ids_simps [simp]:
  "frame_ids [] = []" "frame_ids (f # fs) = id_list (fr_id f) @ frame_ids fs"
  "frame_ids (fs @ gs) = frame_ids fs @ frame_ids gs"
  by (simp_all add: frame_ids_def)

lemma id_list_None [simp]: "id_list None = []"
  by (simp add: id_list_def)

lemma fresh_nil [simp]: "set em \<subseteq> set em' \<Longrightarrow> ids_fresh cursor em [] em'"
  by (simp add: ids_fresh_def)

lemma fresh_append:
  "ids_fresh cursor em xs em1 \<Longrightarrow> ids_fresh cursor em1 ys em2 \<Longrightarrow> ids_fresh cursor em (xs @ ys) em2"
  by (fastforce simp: ids_fresh_def)

lemma fresh_trans: "ids_fresh cursor em [] em1 \<Longrightarrow> ids_fresh cursor em1 ys em2 \<Longrightarrow> ids_fresh cursor em ys em2"
  using fresh_append [of cursor em "[]" em1 ys em2] by simp

lemma accept_fresh:
  "accept_message m em cursor = (True, em') \<Longrightarrow> ids_fresh cursor em (id_list (ms_id m)) em'"
  by (auto simp: accept_message_def ids_fresh_def id_list_def behind_def
      split: option.splits if_splits)

lemma accept_mono: "accept_message m em cursor = (b, em') \<Longrightarrow> set em \<subseteq> set em'"
  by (auto simp: accept_message_def split: option.splits if_splits)

lemma accept_refused: "accept_message m em cursor = (False, em') \<Longrightarrow> em' = em"
  by (auto simp: accept_message_def split: option.splits if_splits)

lemma fresh_skip: "accept_message m em cursor = (b, em1) \<Longrightarrow> ids_fresh cursor em1 ids em2 \<Longrightarrow>
   ids_fresh cursor em ids em2"
  using accept_mono [of m em cursor b em1] by (auto simp: ids_fresh_def)

lemma restore_run_fresh:
  "restore_run_messages cd mode cursor ms em = Inr (fs, fin, em') \<Longrightarrow>
   ids_fresh cursor em (run_frame_ids fs) em'"
proof (induction ms arbitrary: em fs)
  case (Cons m ms)
  obtain b em1 where acc: "accept_message m em cursor = (b, em1)"
    by (cases "accept_message m em cursor")
  show ?case
  proof (cases b)
    case False
    with Cons.prems acc have "restore_run_messages cd mode cursor ms em1 = Inr (fs, fin, em')" by simp
    from fresh_skip [OF acc Cons.IH [OF this]] show ?thesis .
  next
    case True
    with acc have acc': "accept_message m em cursor = (True, em1)" by simp
    from Cons.prems acc' obtain ev pl where
      d: "cd_decode cd (ms_data m) (ms_topic m) = Inr (ev, pl)"
      by (auto simp: rbind_eq_Inr)
    show ?thesis
    proof (cases "ev = ''control'' \<and> pl = ''done''")
      case True
      with Cons.prems acc' d have "fs = []" "em' = em1" by auto
      with accept_mono [OF acc] show ?thesis by simp
    next
      case False
      with Cons.prems acc' d obtain gs where
        g: "restore_run_messages cd mode cursor ms em1 = Inr (gs, fin, em')"
        and fs: "fs = (if run_stream_mode_matches ev mode then RunFrame ev pl (ms_id m) # gs else gs)"
        by (auto simp: rbind_eq_Inr)
      show ?thesis
        using fresh_append [OF accept_fresh [OF acc'] Cons.IH [OF g]] fresh_skip [OF acc Cons.IH [OF g]]
        by (simp add: fs)
    qed
  qed
qed simp

lemma decode_run_fresh:
  assumes "decode_run_message cd mode cursor run m em = Inr (dec, em')"
  shows "ids_fresh cursor em (case dec of Emit f \<Rightarrow> run_frame_ids [f] | _ \<Rightarrow> []) em'"
proof -
  obtain b em1 where acc: "accept_message m em cursor = (b, em1)"
    by (cases "accept_message m em cursor")
  note mono = accept_mono [OF acc]
  show ?thesis
    using assms acc mono accept_fresh [of m em cursor em1]
    by (cases b) (auto simp: decode_run_message_def rbind_eq_Inr split: if_splits)
qed

text \<open>Whatever the live loop emits is fresh against what was emitted before.\<close>

lemma stream_run_fresh:
  "stream_run_queue cd mode cursor ig evs run em = Inr (fs, fin) \<Longrightarrow>
   \<exists>em'. ids_fresh cursor em (run_frame_ids fs) em'"
proof (induction evs arbitrary: em fs run)
  case Nil
  then show ?case by (auto intro: exI [of _ em])
next
  case (Cons ev evs)
  show ?case
  proof (cases ev)
    case (TimedOut now)
    with Cons.prems have "fs = [] \<or> stream_run_queue cd mode cursor ig evs now em = Inr (fs, fin)"
      by (auto split: poll_action.splits)
    with Cons.IH [of now em fs] show ?thesis by (auto intro: exI [of _ em])
  next
    case (Arrived m)
    with Cons.prems obtain dec em1 where
      dec: "decode_run_message cd mode cursor run m em = Inr (dec, em1)"
      by (auto simp: rbind_eq_Inr)
    note f = decode_run_fresh [OF dec]
    show ?thesis
    proof (cases dec)
      case Done
      with Cons.prems Arrived dec have "fs = []" by simp
      then show ?thesis by (auto intro: exI [of _ em])
    next
      case Skip
      with Cons.prems Arrived dec have "stream_run_queue cd mode cursor ig evs run em1 = Inr (fs, fin)" by simp
      from Cons.IH [OF this] f show ?thesis by (auto simp: Skip intro: fresh_trans)
    next
      case (Emit x)
      with Cons.prems Arrived dec obtain gs where
        "stream_run_queue cd mode cursor ig evs run em1 = Inr (gs, fin)" "fs = x # gs"
        by (auto simp: rbind_eq_Inr)
      with Cons.IH [of run em1 gs] f show ?thesis
        by (cases x) (auto simp: Emit dest: fresh_append)
    qed
  qed
qed

end
