(* ===== verification/CompatRuns.thy ===== *)
theory CompatRuns
  imports Resources OpsStream
begin

text \<open>
  Properties of runs under the compatibility operations: the invariant of statuses and running runs
  over every sequence of operations, the settings a run is bound to, claiming, cancelling, the sweep
  of crashed runs, and the identifiers on a run's stream.
\<close>

section \<open>Statuses and running runs\<close>


definition demo_run_args :: run_args where
  "demo_run_args = \<lparr>ra_assistant_id = 7,
     ra_kwargs = [(''config'', JObj [(''configurable'', JObj [(''role'', JStr ''root''),
        (''run_id'', JStr ''x''), (''k'', JInt 1)])])],
     ra_thread_id = None, ra_user_id = Some ''u'', ra_run_id = Some 8, ra_status = None,
     ra_metadata = [], ra_prevent_insert = False, ra_multitask = ''reject'',
     ra_if_not_exists = ''reject'', ra_after_seconds = 0\<rparr>"

definition put_db :: "('a \<times> 'b \<times> db) res \<Rightarrow> db" where
  "put_db r = (case r of Inr (_, _, d) \<Rightarrow> d | Inl _ \<Rightarrow> empty_db)"

definition demo_put :: db where
  "demo_put = put_db (runs_put demo_api (demo_env 20) None demo_run_args demo_team demo_team)"

lemma demo_put_value [code]:
  "demo_put =
    \<lparr>db_assistants =
    [\<lparr>as_id = 7, as_graph_id = ''g'', as_name = ''bot'',
        as_description = None, as_config = [], as_context = [],
        as_metadata = [(''teams'', JList [JStr ''red'', JStr ''blue''])],
        as_version = 1, as_created_at = 10, as_updated_at = 10\<rparr>],
    db_versions = [],
    db_threads =
      [\<lparr>th_id = 2, th_graph_id = None, th_status = ''busy'',
          th_event_seq = 0, th_event_pruned_through = 0,
          th_metadata =
            [(''graph_id'', JStr ''g''),
             (''assistant_id'',
              JStr ''00000000-0000-0000-0000-000000000007'')],
          th_config = [(''configurable'', JObj [])], th_values = JNull,
          th_interrupts = [], th_error = JNull, th_created_at = 20,
          th_updated_at = 20, th_state_updated_at = Some 20\<rparr>],
    db_runs =
      [\<lparr>run_id = 8, run_thread_id = Some 2, run_assistant_id = 7,
          run_status = ''pending'', run_reason = None, run_retry_count = 0,
          run_max_attempts = 3, run_next_attempt_at = None,
          run_idempotency_key = None, run_lease_owner = None,
          run_lease_expires_at = None, run_heartbeat_at = None,
          run_event_seq = 0, run_event_pruned_through = 0,
          run_metadata =
            [(''teams'', JList [JStr ''red'', JStr ''blue'']),
             (''graph_id'', JStr ''g''),
             (''assistant_id'',
              JStr ''00000000-0000-0000-0000-000000000007'')],
          run_kwargs =
            [(''config'',
              JObj
               [(''configurable'',
                 JObj
                  [(''run_id'',
                    JStr ''00000000-0000-0000-0000-000000000008''),
                   (''k'', JInt 1),
                   (''thread_id'',
                    JStr ''00000000-0000-0000-0000-000000000002''),
                   (''graph_id'', JStr ''g''),
                   (''assistant_id'',
                    JStr ''00000000-0000-0000-0000-000000000007''),
                   (''user_id'', JStr ''u'')]),
                (''metadata'',
                 JObj
                  [(''teams'', JList [JStr ''red'', JStr ''blue'']),
                   (''graph_id'', JStr ''g''),
                   (''assistant_id'',
                    JStr ''00000000-0000-0000-0000-000000000007'')])]),
             (''context'', JObj [])],
          run_queue_position = None,
          run_multitask_strategy = Some ''reject'', run_created_at = 20,
          run_updated_at = 20\<rparr>],
    db_leases = [], db_events = [], db_baselines = [], db_checkpoints = [],
    db_writes = [], db_blobs = [], db_crons = [], db_retry_counters = [],
    db_draws = 1\<rparr>"
  by code_simp

definition all_gone :: "uuid \<Rightarrow> bool option" where
  "all_gone u = Some False"

definition demo_claimed :: db where
  "demo_claimed = (case claim_next_run (demo_env 30) all_gone {} [] demo_put demo_put of
     Inr (_, d) \<Rightarrow> d | Inl _ \<Rightarrow> empty_db)"

lemma demo_claimed_value [code]:
  "demo_claimed =
    \<lparr>db_assistants =
    [\<lparr>as_id = 7, as_graph_id = ''g'', as_name = ''bot'',
        as_description = None, as_config = [], as_context = [],
        as_metadata = [(''teams'', JList [JStr ''red'', JStr ''blue''])],
        as_version = 1, as_created_at = 10, as_updated_at = 10\<rparr>],
    db_versions = [],
    db_threads =
      [\<lparr>th_id = 2, th_graph_id = None, th_status = ''busy'',
          th_event_seq = 0, th_event_pruned_through = 0,
          th_metadata =
            [(''graph_id'', JStr ''g''),
             (''assistant_id'',
              JStr ''00000000-0000-0000-0000-000000000007'')],
          th_config = [(''configurable'', JObj [])], th_values = JNull,
          th_interrupts = [], th_error = JNull, th_created_at = 20,
          th_updated_at = 20, th_state_updated_at = Some 20\<rparr>],
    db_runs =
      [\<lparr>run_id = 8, run_thread_id = Some 2, run_assistant_id = 7,
          run_status = ''running'', run_reason = None, run_retry_count = 0,
          run_max_attempts = 3, run_next_attempt_at = None,
          run_idempotency_key = None, run_lease_owner = None,
          run_lease_expires_at = None, run_heartbeat_at = None,
          run_event_seq = 0, run_event_pruned_through = 0,
          run_metadata =
            [(''teams'', JList [JStr ''red'', JStr ''blue'']),
             (''graph_id'', JStr ''g''),
             (''assistant_id'',
              JStr ''00000000-0000-0000-0000-000000000007'')],
          run_kwargs =
            [(''config'',
              JObj
               [(''configurable'',
                 JObj
                  [(''run_id'',
                    JStr ''00000000-0000-0000-0000-000000000008''),
                   (''k'', JInt 1),
                   (''thread_id'',
                    JStr ''00000000-0000-0000-0000-000000000002''),
                   (''graph_id'', JStr ''g''),
                   (''assistant_id'',
                    JStr ''00000000-0000-0000-0000-000000000007''),
                   (''user_id'', JStr ''u'')]),
                (''metadata'',
                 JObj
                  [(''teams'', JList [JStr ''red'', JStr ''blue'']),
                   (''graph_id'', JStr ''g''),
                   (''assistant_id'',
                    JStr ''00000000-0000-0000-0000-000000000007'')])]),
             (''context'', JObj [])],
          run_queue_position = None,
          run_multitask_strategy = Some ''reject'', run_created_at = 20,
          run_updated_at = 30\<rparr>],
    db_leases = [], db_events = [], db_baselines = [], db_checkpoints = [],
    db_writes = [], db_blobs = [], db_crons = [],
    db_retry_counters = [\<lparr>rc_run_id = 8, rc_count = 1\<rparr>], db_draws = 1\<rparr>"
  by code_simp

lemma put_db_Inr: "(case r of Inl _ \<Rightarrow> False | Inr _ \<Rightarrow> True) \<Longrightarrow> \<exists>ys hs. r = Inr (ys, hs, put_db r)"
  by (auto simp: put_db_def split: sum.splits)

lemma demo_put_Inr: "\<exists>ys hs. runs_put demo_api (demo_env 20) None demo_run_args demo_team demo_team =
    Inr (ys, hs, demo_put)"
  unfolding demo_put_def by (rule put_db_Inr) code_simp

lemma demo_claimed_reachable: "compat_step\<^sup>*\<^sup>* empty_db demo_claimed"
proof -
  have "compat_step empty_db demo_team"
    by (rule compat_step.elsewhere) (simp_all add: demo_team_def)
  moreover have "compat_step demo_team demo_put"
  proof -
    have "run_status_of (ra_status demo_run_args) \<in> set PUBLIC_RUN_STATUSES" by code_simp
    with demo_put_Inr show ?thesis by (blast intro: compat_step.run_put)
  qed
  moreover have "compat_step demo_put demo_claimed"
  proof -
    let ?c = "claim_next_run (demo_env 30) all_gone {} [] demo_put demo_put"
    have "case ?c of Inl _ \<Rightarrow> False | Inr _ \<Rightarrow> True" by code_simp
    then obtain res where "?c = Inr (res, demo_claimed)"
      by (auto simp: demo_claimed_def split: sum.splits)
    then show ?thesis by (rule compat_step.run_claim)
  qed
  ultimately show ?thesis by (meson converse_rtranclp_into_rtranclp r_into_rtranclp)
qed


section \<open>What a run is bound to\<close>

lemma put_new_row:
  assumes "runs_put a e ctx x d0 d = Inr (ys, hs, d')" "r \<in> set (db_runs d')" "r \<notin> set (db_runs d)"
  obtains tid rid as thread cfg md kw where "get_assistant (ra_assistant_id x) d0 = Some as"
    "r = new_run_row e x rid tid as (Some thread) cfg md kw"
proof -
  let ?d = "snd (ensure_uuid e (ra_run_id x) d)"
  have same: "db_runs ?d = db_runs d" by (simp add: ensure_uuid_frame)
  from assms(1) consider "d' = ?d"
    | (put) filters as m kw rid where "get_assistant (ra_assistant_id x) d0 = Some as"
        "put_for_assistant e x rid filters as m kw d0 ?d = Inr (ys, hs, d')"
    by (auto simp: runs_put_def run_put_check_assistant_def rbind_eq_Inr
        split: prod.splits option.splits if_splits)
  then show thesis
  proof cases
    case put
    show thesis
      using put(2)
    proof (cases rule: put_for_assistant_cases)
      case (thread tid c existing cfg)
      then have "db_runs d' = db_runs ?d"
        by (auto simp: thread_for_run_def ensure_run_thread_def insert_thread_def Let_def ensure_uuid_def
            split: option.splits prod.splits)
      with assms(2,3) same show ?thesis by simp
    next
      case (put tid c existing cfg d2 thread)
      have "db_runs d2 = db_runs ?d"
        using put(1) by (auto simp: thread_for_run_def ensure_run_thread_def insert_thread_def Let_def
            ensure_uuid_def split: option.splits prod.splits)
      with put(3) assms(2,3) same obtain thread' where "r = new_run_row e x rid tid as (Some thread') cfg m kw"
        by (auto simp: put_into_thread_def Let_def rbind_eq_Inr insert_run_row_def split: if_splits)
      with \<open>get_assistant (ra_assistant_id x) d0 = Some as\<close> show ?thesis by (rule that)
    qed (use assms(2,3) same in simp)
  qed (use assms(2,3) same in simp)
qed

definition run_settings :: "run_row \<Rightarrow> dict" where
  "run_settings r = obj_of (dget (obj_of (dget (run_kwargs r) ''config'')) ''configurable'')"

lemma map_of_build:
  "map_of (build_run_configurable cfg th as rid tid aid user) k =
     (if k = ''user_id'' then map_option JStr user
      else if k \<in> {''role'', ''permissions''} then None
      else if k = ''run_id'' then Some (JStr (uuid_str rid))
      else if k = ''thread_id'' then Some (JStr (uuid_str tid))
      else if k = ''graph_id'' then Some (JStr (as_graph_id as))
      else if k = ''assistant_id'' then Some (JStr (uuid_str aid))
      else map_of (dmerge (dmerge (configurable_of (as_config as))
             (case th of None \<Rightarrow> [] | Some t \<Rightarrow> configurable_of (th_config t))) (configurable_of cfg)) k)"
  by (auto simp: build_run_configurable_def Let_def PROTECTED_KEYS_def split: option.splits)

text \<open>
  C17: the run a submission creates is bound to itself: its configurable settings name its own
  identifier and thread, the assistant asked for and that assistant's graph, and the caller's
  identity as the server knows it. No request, stored thread or assistant can choose these, and none
  can supply a role or permissions.
\<close>

theorem run_settings_are_bound:
  assumes "runs_put a e ctx x d0 d = Inr (ys, hs, d')" "r \<in> set (db_runs d')" "r \<notin> set (db_runs d)"
  shows "run_assistant_id r = ra_assistant_id x \<and>
    dget (run_settings r) ''run_id'' = JStr (uuid_str (run_id r)) \<and>
    (\<exists>t. run_thread_id r = Some t \<and> dget (run_settings r) ''thread_id'' = JStr (uuid_str t)) \<and>
    (\<exists>as. get_assistant (ra_assistant_id x) d0 = Some as \<and>
       dget (run_settings r) ''graph_id'' = JStr (as_graph_id as)) \<and>
    dget (run_settings r) ''assistant_id'' = JStr (uuid_str (ra_assistant_id x)) \<and>
    map_of (run_settings r) ''user_id'' = map_option JStr (ra_user_id x) \<and>
    map_of (run_settings r) ''role'' = None \<and> map_of (run_settings r) ''permissions'' = None"
proof -
  from assms obtain tid rid as thread cfg md kw where as: "get_assistant (ra_assistant_id x) d0 = Some as"
    and r: "r = new_run_row e x rid tid as (Some thread) cfg md kw" by (rule put_new_row)
  have s: "run_settings r =
      build_run_configurable cfg (Some thread) as rid tid (ra_assistant_id x) (ra_user_id x)"
    by (simp add: run_settings_def r new_run_row_def Let_def)
  have ids: "run_id r = rid" "run_thread_id r = Some tid" "run_assistant_id r = ra_assistant_id x"
    by (simp_all add: r new_run_row_def Let_def)
  show ?thesis
    using as ids by (simp add: dget_def s map_of_build)
qed

theorem run_settings_are_bound_witness:
  "\<exists>r \<in> set (db_runs demo_put). dget (run_settings r) ''run_id'' = JStr (uuid_str 8) \<and>
     map_of (run_settings r) ''role'' = None \<and> map_of (run_settings r) ''user_id'' = Some (JStr ''u'') \<and>
     dget (run_settings r) ''k'' = JInt 1"
proof -
  from demo_put_Inr obtain ys hs where
    p: "runs_put demo_api (demo_env 20) None demo_run_args demo_team demo_team = Inr (ys, hs, demo_put)" by blast
  let ?r = "hd (db_runs demo_put)"
  have "db_runs demo_team = []" by (simp add: demo_team_def empty_db_def)
  moreover have in_put: "?r \<in> set (db_runs demo_put)"
    by (rule hd_in_set) code_simp
  ultimately have "?r \<notin> set (db_runs demo_team)" by simp
  from run_settings_are_bound [OF p in_put this]
  have "dget (run_settings ?r) ''run_id'' = JStr (uuid_str (run_id ?r))" "map_of (run_settings ?r) ''role'' = None"
    "map_of (run_settings ?r) ''user_id'' = Some (JStr ''u'')"
    by (simp_all add: demo_run_args_def)
  moreover have "run_id ?r = 8 \<and> dget (run_settings ?r) ''k'' = JInt 1" by code_simp
  ultimately show ?thesis using in_put by (intro bexI [of _ ?r]) simp_all
qed

section \<open>Claiming\<close>

lemma claim_loop_end:
  "length (cs_yielded (claim_loop e hb locked world s)) + cs_left (claim_loop e hb locked world s) =
     length (cs_yielded s) + cs_left s \<and>
   (cs_left (claim_loop e hb locked world s) = 0 \<or> cs_budget (claim_loop e hb locked world s) = 0 \<or>
    (\<exists>i d0. claim_next_run e hb (locked i) (cs_blocked (claim_loop e hb locked world s)) d0 (world i d0) =
       Inr (ClaimEmpty, cs_db (claim_loop e hb locked world s))))"
proof (induction "cs_left s + cs_budget s" arbitrary: s rule: less_induct)
  case less
  show ?case
  proof (cases "cs_left s = 0 \<or> cs_budget s = 0")
    case False
    then have pos: "cs_left s \<noteq> 0" "cs_budget s \<noteq> 0" by simp_all
    show ?thesis
      using pos
    proof (cases rule: claim_loop_cases [of s e hb locked world])
      case (blocked k t d)
      let ?s = "s\<lparr>cs_tries := cs_tries s + 1, cs_db := d, cs_blocked := cs_blocked s @ [t],
            cs_budget := cs_budget s - 1\<rparr>"
      from less [of ?s] pos show ?thesis unfolding blocked(2) by simp
    next
      case (claimed run n d)
      let ?s = "s\<lparr>cs_tries := cs_tries s + 1, cs_db := d, cs_left := cs_left s - 1,
            cs_yielded := cs_yielded s @ [(run, n)]\<rparr>"
      from less [of ?s] pos show ?thesis unfolding claimed(2) by simp
    next
      case (conflict err)
      let ?s = "s\<lparr>cs_tries := cs_tries s + 1, cs_db := world (cs_tries s) (cs_db s),
            cs_budget := cs_budget s - 1\<rparr>"
      from less [of ?s] pos show ?thesis unfolding conflict(2) by simp
    next
      case (empty d)
      from empty(1) show ?thesis unfolding empty(2) by simp blast
    qed
  qed (auto simp: claim_loop_stop)
qed

text \<open>
  C15: whatever other transactions do in between, the claiming loop ends after at most the limit plus
  its conflict budget of transactions, hands out at most the limit of runs, and stops short of both
  only when a transaction found no run to claim outside the threads found blocked.
\<close>

theorem claiming_terminates:
  "let s = runs_next e hb locked world limit d in
     cs_tries s \<le> limit + max (limit * 8) 8 \<and>
     length (cs_yielded s) + cs_left s = limit \<and>
     (cs_left s = 0 \<or> cs_budget s = 0 \<or>
      (\<exists>i d0. claim_next_run e hb (locked i) (cs_blocked s) d0 (world i d0) = Inr (ClaimEmpty, cs_db s)))"
proof -
  let ?s = "\<lparr>cs_left = limit, cs_budget = max (limit * 8) 8, cs_blocked = [], cs_tries = 0,
        cs_yielded = [], cs_db = d\<rparr>"
  show ?thesis
    using claim_loop_bounds [of e hb locked world ?s] claim_loop_end [of e hb locked world ?s]
    by (simp add: runs_next_def Let_def)
qed

section \<open>Cancelling\<close>

definition active :: "run_row \<Rightarrow> bool" where
  "active r \<longleftrightarrow> run_status r \<in> set [''pending'', ''running'']"

definition stopped_as :: "(uuid \<Rightarrow> bool) \<Rightarrow> string \<Rightarrow> time \<Rightarrow> run_row \<Rightarrow> run_row option \<Rightarrow> bool" where
  "stopped_as queues act now r after \<longleftrightarrow>
     after = Some (r\<lparr>run_status := ''interrupted'', run_updated_at := now\<rparr>) \<or>
     (act = ''rollback'' \<and> run_status r = ''pending'' \<and> \<not> queues (run_id r) \<and> after = None)"

lemma get_run_del_run: "get_run k (del_run k' d) = (if k = k' then None else get_run k d)"
  by (simp add: get_run_def del_run_def)

lemma cancel_single_run_effect:
  assumes "cancel_single_run queues act now rid d = (res, d')"
  shows "k \<noteq> rid \<Longrightarrow> get_run k d' = get_run k d"
    and "res = None \<longleftrightarrow> (\<forall>r. get_run rid d = Some r \<longrightarrow> \<not> active r)"
    and "res = None \<Longrightarrow> d' = d"
    and "res \<noteq> None \<Longrightarrow> \<exists>r. get_run rid d = Some r \<and> active r \<and> stopped_as queues act now r (get_run rid d')"
proof -
  have f: "get_run k (delete_retry_counters x d) = get_run k d" for k x
    by (simp add: get_run_def delete_retry_counters_def)
  have u: "get_run k (upd_run rid (\<lambda>r. r\<lparr>run_status := ''interrupted'', run_updated_at := now\<rparr>) d) =
      (if k = rid then map_option (\<lambda>r. r\<lparr>run_status := ''interrupted'', run_updated_at := now\<rparr>) (get_run rid d)
       else get_run k d)" for k
    by (simp add: runs_t.get_upd)
  show "k \<noteq> rid \<Longrightarrow> get_run k d' = get_run k d"
    using assms by (auto simp: cancel_single_run_def Let_def get_run_del_run f u split: option.splits if_splits)
  show "res = None \<longleftrightarrow> (\<forall>r. get_run rid d = Some r \<longrightarrow> \<not> active r)" "res = None \<Longrightarrow> d' = d"
    using assms by (auto simp: cancel_single_run_def active_def Let_def split: option.splits if_splits)
  show "res \<noteq> None \<Longrightarrow> \<exists>r. get_run rid d = Some r \<and> active r \<and> stopped_as queues act now r (get_run rid d')"
  proof -
    assume "res \<noteq> None"
    with assms obtain r where r: "get_run rid d = Some r" "active r"
      and d': "d' = (if act = ''rollback'' \<and> run_status r = ''pending'' \<and> \<not> queues rid
                then del_run rid (delete_retry_counters [rid] d)
                else upd_run rid (\<lambda>r. r\<lparr>run_status := ''interrupted'', run_updated_at := now\<rparr>) d)"
      by (auto simp: cancel_single_run_def active_def Let_def split: option.splits if_splits)
    have "run_id r = rid" using runs_t.get_Some [OF r(1)] by simp
    with r show ?thesis by (simp add: d' stopped_as_def get_run_del_run u)
  qed
qed

lemma cancel_loop_effect:
  assumes "distinct rids" "cancel_candidates_loop hb queues act now rids d = (affected, told, d')"
  shows "told = filter (\<lambda>k. \<exists>r. get_run k d = Some r \<and> active r) rids \<and>
    (\<forall>k. k \<notin> set told \<longrightarrow> get_run k d' = get_run k d) \<and>
    (\<forall>k \<in> set told. \<exists>r. get_run k d = Some r \<and> active r \<and> stopped_as queues act now r (get_run k d'))"
  using assms
proof (induction rids arbitrary: d d' affected told)
  case (Cons rid rids)
  obtain res d1 where c: "cancel_single_run queues act now rid d = (res, d1)"
    by (cases "cancel_single_run queues act now rid d")
  obtain af tl d2 where l: "cancel_candidates_loop hb queues act now rids d1 = (af, tl, d2)"
    by (cases "cancel_candidates_loop hb queues act now rids d1") auto
  note eff = cancel_single_run_effect [OF c]
  from Cons.prems c l have t: "told = (if res = None then tl else rid # tl)" "d' = d2"
    by (auto split: option.splits)
  from Cons.prems(1) have d: "distinct rids" "rid \<notin> set rids" by simp_all
  have ih: "tl = filter (\<lambda>k. \<exists>r. get_run k d1 = Some r \<and> active r) rids"
    "\<And>k. k \<notin> set tl \<Longrightarrow> get_run k d2 = get_run k d1"
    "\<And>k. k \<in> set tl \<Longrightarrow> \<exists>r. get_run k d1 = Some r \<and> active r \<and> stopped_as queues act now r (get_run k d2)"
    using Cons.IH [OF d(1) l] by simp_all
  have same: "get_run k d1 = get_run k d" if "k \<noteq> rid" for k using eff(1) that .
  have tl: "tl = filter (\<lambda>k. \<exists>r. get_run k d = Some r \<and> active r) rids"
    unfolding ih(1)
  proof (rule filter_cong [OF refl])
    fix k assume "k \<in> set rids"
    with d(2) have "k \<noteq> rid" by blast
    from same [OF this]
    show "(\<exists>r. get_run k d1 = Some r \<and> active r) = (\<exists>r. get_run k d = Some r \<and> active r)" by simp
  qed
  have notin: "rid \<notin> set tl" using tl d(2) by simp
  have keep: "get_run rid d2 = get_run rid d1" by (rule ih(2) [OF notin])
  have head: "(\<exists>r. get_run rid d = Some r \<and> active r) \<longleftrightarrow> res \<noteq> None" using eff(2) by blast
  have "told = filter (\<lambda>k. \<exists>r. get_run k d = Some r \<and> active r) (rid # rids)"
    unfolding filter.simps head t(1) tl by simp
  moreover have "get_run k d' = get_run k d" if k: "k \<notin> set told" for k
  proof (cases "k = rid")
    case True
    with k t(1) have "res = None" by (auto split: if_splits)
    with eff(3) keep t(2) True show ?thesis by simp
  next
    case False
    with k t(1) have "k \<notin> set tl" by (auto split: if_splits)
    with ih(2) same [OF False] t(2) show ?thesis by simp
  qed
  moreover have "\<exists>r. get_run k d = Some r \<and> active r \<and> stopped_as queues act now r (get_run k d')"
    if k: "k \<in> set told" for k
  proof (cases "k = rid")
    case True
    with k t(1) notin have "res \<noteq> None" by (auto split: if_splits)
    from eff(4) [OF this] show ?thesis unfolding True t(2) keep .
  next
    case False
    with k t(1) have "k \<in> set tl" by (auto split: if_splits)
    from ih(3) [OF this] show ?thesis unfolding t(2) same [OF False] .
  qed
  ultimately show ?case by blast
qed simp

lemma idle_affected_runs [simp]: "db_runs (idle_affected_threads ts now d) = db_runs d"
  using idle_affected_frame by blast

lemma runs_cancel_handled:
  assumes "runs_cancel a e hb q ctx rids act tid st aid d = Inr (ids, d')"
  shows "\<exists>payload filters out found candidates affected d1.
    handle_event a ''threads'' ctx ''update'' payload = Inr (filters, out) \<and>
    cancel_query aid st rids tid d = Inr found \<and>
    (if truthy filters then rfilter (cancel_allowed filters d) found else Inr found) = Inr candidates \<and>
    cancel_candidates_loop hb q act (e_now e) (map run_id candidates) d = (affected, ids, d1) \<and>
    d' = idle_affected_threads (remdups affected) (e_now e) d1"
proof -
  from assms obtain payload filters out found candidates where
    v: "handle_event a ''threads'' ctx ''update'' payload = Inr (filters, out)"
    "cancel_query aid st rids tid d = Inr found"
    "(if truthy filters then rfilter (cancel_allowed filters d) found else Inr found) = Inr candidates"
    and r: "(if candidates = [] \<and> aid = None then Inl (HTTPException 404 ''No runs found to cancel'')
       else case cancel_candidates_loop hb q act (e_now e) (map run_id candidates) d of
           (affected, told, d1) \<Rightarrow>
             Inr (told, idle_affected_threads (remdups affected) (e_now e) d1)) = Inr (ids, d')"
    unfolding runs_cancel_def by (simp only: rbind_eq_Inr split_paired_Ex prod.case) blast
  obtain affected told d1 where
    l: "cancel_candidates_loop hb q act (e_now e) (map run_id candidates) d = (affected, told, d1)"
    by (cases "cancel_candidates_loop hb q act (e_now e) (map run_id candidates) d") auto
  from r l have "ids = told" "d' = idle_affected_threads (remdups affected) (e_now e) d1"
    by (auto split: if_splits)
  with v l show ?thesis by blast
qed

lemma cancel_query_rows: "cancel_query aid st rids tid d = Inr found \<Longrightarrow> \<exists>P. found = filter P (db_runs d)"
  by (auto simp: cancel_query_def rbind_eq_Inr split: option.splits)


definition no_queues :: "uuid \<Rightarrow> bool" where
  "no_queues u = False"

lemma demo_cancel_Inr:
  "\<exists>d'. runs_cancel demo_api (demo_env 40) all_gone no_queues None (Some [8]) ''interrupt'' (Some 2) None None
      demo_claimed = Inr ([8], d')"
proof -
  have h: "handle_event demo_api r None act p = Inr (JNull, p)" for r act p
    by (simp add: handle_event_def demo_api_def)
  have q: "cancel_query None None (Some [8]) (Some 2) demo_claimed = Inr (db_runs demo_claimed)"
    by (simp add: cancel_query_def demo_claimed_value)
  have n: "db_runs demo_claimed \<noteq> []" "map run_id (db_runs demo_claimed) = [8]" by code_simp+
  have l: "fst (snd (cancel_candidates_loop all_gone no_queues ''interrupt'' 40 [8] demo_claimed)) = [8]"
    by code_simp
  show ?thesis
    using l unfolding runs_cancel_def
    by (simp add: h q n validate_cancel_args_def demo_env_def case_prod_beta)
qed


section \<open>The sweep\<close>

text \<open>Workers that crash: claims and sweeps, nothing else.\<close>

inductive crash_step :: "int \<Rightarrow> db \<Rightarrow> db \<Rightarrow> bool" for m :: int where
  claim: "claim_next_run e hb locked blocked d d = Inr (res, d') \<Longrightarrow> crash_step m d d'"
| sweep: "crash_step m d (snd (runs_sweep e hb m d))"

definition within_retries :: "int \<Rightarrow> db \<Rightarrow> bool" where
  "within_retries m d =
     (distinct (map run_id (db_runs d)) \<and>
      (\<forall>r \<in> set (db_runs d). get_counter (run_id r) d \<le> m \<and>
         (run_status r = ''pending'' \<longrightarrow> get_counter (run_id r) d < m)))"

lemma get_counter_frame:
  "get_counter k (upd_run j f d) = get_counter k d" "get_counter k (upd_thread t g d) = get_counter k d"
  by (simp_all add: get_counter_def)

lemma within_retries_upd_run:
  assumes "within_retries m d" "\<And>r. run_id (f r) = run_id r"
    and "\<And>r. r \<in> set (db_runs d) \<Longrightarrow> run_id r = k \<Longrightarrow> run_status (f r) = ''pending'' \<Longrightarrow>
      get_counter k d < m"
  shows "within_retries m (upd_run k f d)"
proof -
  have "map run_id (db_runs (upd_run k f d)) = map run_id (db_runs d)" by (rule upd_run_ids) (rule assms(2))
  with assms show ?thesis
    by (auto simp: within_retries_def upd_run_rows get_counter_frame)
qed

lemma within_retries_frame:
  "db_runs d' = db_runs d \<Longrightarrow> db_retry_counters d' = db_retry_counters d \<Longrightarrow>
   within_retries m d' = within_retries m d"
  by (simp add: within_retries_def get_counter_def)

lemma begin_run_retries:
  assumes "within_retries m d" "r \<in> set (db_runs d)" "run_status r = ''pending''"
    and "begin_run e r d = Inr (res, d')"
  shows "within_retries m d'" "\<exists>row. res = Claimed row (get_counter (run_id r) d + 1)"
    "get_counter (run_id r) d + 1 \<le> m"
proof -
  define d1 where "d1 = (case run_thread_id r of None \<Rightarrow> d
     | Some t \<Rightarrow> upd_thread t (\<lambda>th. th\<lparr>th_status := ''busy''\<rparr>) d)"
  from assms(4) obtain d2 where w: "write_run_status (run_id r) ''running'' (e_now e) d1 = Inr d2"
    and d': "d' = snd (increment_counter (run_id r) d2)"
    and res: "\<exists>row. res = Claimed row (fst (increment_counter (run_id r) d2))"
    unfolding begin_run_def Let_def d1_def [symmetric] by (auto simp: rbind_eq_Inr case_prod_beta)
  have f: "db_runs d1 = db_runs d" "db_retry_counters d1 = db_retry_counters d"
    unfolding d1_def by (cases "run_thread_id r"; simp)+
  have get: "get_run (run_id r) d1 = Some r"
    using assms(1,2) f(1) by (intro runs_t.get_in) (simp_all add: within_retries_def)
  with w have d2: "d2 = upd_run (run_id r) (\<lambda>r. r\<lparr>run_status := ''running'', run_updated_at := e_now e\<rparr>) d1"
    by (auto simp: write_run_status_def split: if_splits)
  have c2: "get_counter k d2 = get_counter k d" for k
    by (simp add: d2 get_counter_frame f get_counter_def)
  have n: "fst (increment_counter (run_id r) d2) = get_counter (run_id r) d + 1"
    "get_counter (run_id r) d' = get_counter (run_id r) d + 1"
    using increment_counter_get [of "run_id r" d2 _ d'] c2 by (simp_all add: d' prod_eq_iff)
  with res show "\<exists>row. res = Claimed row (get_counter (run_id r) d + 1)" by simp
  show lt: "get_counter (run_id r) d + 1 \<le> m"
    using assms(1-3) by (auto simp: within_retries_def)
  have w2: "within_retries m d2"
    unfolding d2 using assms(1) by (intro within_retries_upd_run) (simp_all add: within_retries_frame [OF f])
  have runs: "db_runs d' = db_runs d2" unfolding d' by (rule counter_frame)
  have status: "run_status x = ''running''" if "x \<in> set (db_runs d2)" "run_id x = run_id r" for x
    using that by (auto simp: d2 upd_run_rows split: if_splits)
  have other: "get_counter k d' = get_counter k d2" if "k \<noteq> run_id r" for k
    unfolding d' by (rule increment_counter_other [OF that])
  show "within_retries m d'"
    unfolding within_retries_def runs
  proof (intro conjI ballI)
    show "distinct (map run_id (db_runs d2))" using w2 by (simp add: within_retries_def)
    fix x assume x: "x \<in> set (db_runs d2)"
    have "get_counter (run_id x) d' \<le> m \<and> (run_status x = ''pending'' \<longrightarrow> get_counter (run_id x) d' < m)"
    proof (cases "run_id x = run_id r")
      case True
      with status [OF x True] n(2) lt show ?thesis by simp
    next
      case False
      with w2 x show ?thesis unfolding other [OF False] by (simp add: within_retries_def)
    qed
    then show "get_counter (run_id x) d' \<le> m" "run_status x = ''pending'' \<longrightarrow> get_counter (run_id x) d' < m"
      by simp_all
  qed
qed

lemma claim_alone_cases:
  assumes "distinct (map run_id (db_runs d))" "claim_next_run e hb locked blocked d d = Inr (res, d')"
  obtains (same) "d' = d" "\<nexists>row n. res = Claimed row n"
  | (started) r where "r \<in> set (claim_candidates (e_now e) locked blocked d)"
      "begin_run e r d = Inr (res, d')"
  | (blocked) r where "r \<in> set (claim_candidates (e_now e) locked blocked d)"
      "d' = upd_run (run_id r) (\<lambda>r. r\<lparr>run_status := ''pending''\<rparr>) d" "\<nexists>row n. res = Claimed row n"
proof (cases "min_by run_created_at (claim_candidates (e_now e) locked blocked d)")
  case None
  with assms(2) show ?thesis by (intro same) (auto simp: claim_next_run_def)
next
  case (Some r)
  have c: "r \<in> set (claim_candidates (e_now e) locked blocked d)" by (rule min_by_in [OF Some])
  then have "r \<in> set (db_runs d)" by (simp add: claim_candidates_def)
  then have "get_run (run_id r) d = Some r" using assms(1) runs_t.get_in by blast
  with assms(2) Some show ?thesis
    by (auto simp: claim_next_run_def intro: same started [OF c] blocked [OF c]
        split: option.splits if_splits)
qed

lemma claim_retries:
  assumes w: "within_retries m d" and c: "claim_next_run e hb locked blocked d d = Inr (res, d')"
  shows "within_retries m d'" "res = Claimed row n \<Longrightarrow> n \<le> m"
proof -
  have "distinct (map run_id (db_runs d))" using w by (simp add: within_retries_def)
  then have "within_retries m d' \<and> (\<forall>row n. res = Claimed row n \<longrightarrow> n \<le> m)"
    using c
  proof (cases rule: claim_alone_cases)
    case (started r)
    then have "r \<in> set (db_runs d)" "run_status r = ''pending''" by (simp_all add: claim_candidates_def)
    from begin_run_retries [OF w this started(2)] show ?thesis by auto
  next
    case (blocked r)
    then have "get_counter (run_id r) d < m" using w by (auto simp: claim_candidates_def within_retries_def)
    with w have "within_retries m d'"
      unfolding blocked(2) by (intro within_retries_upd_run) simp_all
    with blocked(3) show ?thesis by blast
  qed (use w in blast)
  then show "within_retries m d'" "res = Claimed row n \<Longrightarrow> n \<le> m" by blast+
qed

lemma sweep_single_retries: "within_retries m d \<Longrightarrow> within_retries m (snd (sweep_single_run e m rid d))"
proof -
  assume w: "within_retries m d"
  have mark: "within_retries m (mark_thread_error_if_idle now t d')" if "within_retries m d'" for now t d'
    using that by (simp add: mark_thread_error_if_idle_def within_retries_frame [of "upd_thread _ _ _"])
  have p: "get_counter rid d < m \<Longrightarrow>
      within_retries m (upd_run rid (\<lambda>r. r\<lparr>run_status := ''pending'', run_updated_at := e_now e\<rparr>) d)"
    using w by (intro within_retries_upd_run) simp_all
  have x: "within_retries m (upd_run rid (\<lambda>r. r\<lparr>run_status := ''error'', run_updated_at := e_now e\<rparr>) d)"
    using w by (intro within_retries_upd_run) simp_all
  show ?thesis
    using w p x mark by (auto simp: sweep_single_run_def Let_def split: option.splits)
qed

lemma sweep_runs_retries: "sweep_runs e hb m ids d = (swept, d') \<Longrightarrow> within_retries m d \<Longrightarrow> within_retries m d'"
proof (induction ids arbitrary: d d' swept)
  case (Cons rid ids)
  obtain b d1 where b: "sweep_single_run e m rid d = (b, d1)" by (cases "sweep_single_run e m rid d")
  obtain rest d2 where r: "sweep_runs e hb m ids d1 = (rest, d2)" by (cases "sweep_runs e hb m ids d1")
  have "within_retries m d1" using sweep_single_retries [OF Cons.prems(2), of e rid] by (simp add: b)
  with Cons.IH [OF r] Cons.IH [of d swept d'] Cons.prems b r show ?case by (auto split: if_splits)
qed simp

lemma idle_orphans_retries: "within_retries m d \<Longrightarrow> within_retries m (idle_orphans hb now ts d)"
proof (induction ts arbitrary: d)
  case (Cons t ts)
  have "within_retries m (upd_thread t (\<lambda>th. th\<lparr>th_status := ''idle'', th_updated_at := now\<rparr>) d)"
    using Cons.prems by (subst within_retries_frame [of _ d]) simp_all
  with Cons show ?case by simp
qed simp

lemma crash_step_retries: "crash_step m d d' \<Longrightarrow> within_retries m d \<Longrightarrow> within_retries m d'"
proof (induction rule: crash_step.induct)
  case (claim e hb locked blocked d res d')
  then show ?case using claim_retries(1) by blast
next
  case (sweep d e hb)
  obtain ids d1 where s: "sweep_runs e hb m (map run_id (filter (\<lambda>r. run_status r = ''running'') (db_runs d))) d =
      (ids, d1)" by (cases "sweep_runs e hb m (map run_id (filter (\<lambda>r. run_status r = ''running'') (db_runs d))) d")
  show ?case
    using idle_orphans_retries [OF sweep_runs_retries [OF s sweep]]
    by (simp add: runs_sweep_def s idle_orphaned_busy_threads_def)
qed



section \<open>The stream of a run\<close>

text \<open>
  whatever is replayed and whatever arrives, in whatever order and however often, the frames a
  client gets from one run stream carry each identifier at most once, and only identifiers behind the
  client's cursor.
\<close>

theorem run_join_emits_once:
  assumes "run_join a cd ctx rid t mode ignore_404 last_event_id stored evs d = Inr (fs, fin)"
  shows "distinct (run_frame_ids fs) \<and>
    (\<forall>i \<in> set (run_frame_ids fs). behind (resume_cursor_of last_event_id) i)"
proof -
  let ?cur = "resume_cursor_of last_event_id"
  from assms obtain frames ended emitted ys where
    r: "restore_run_messages cd mode ?cur stored [] = Inr (frames, ended, emitted)"
    and rest: "(if ended then Inr (frames, Ended)
        else rbind (stream_run_queue cd mode ?cur ignore_404 evs (first_run rid ys d) emitted)
          (\<lambda>(fs, fin'). Inr (frames @ fs, fin'))) = Inr (fs, fin)"
    unfolding run_join_def Let_def by (simp only: rbind_eq_Inr split_paired_Ex prod.case) blast
  note f = restore_run_fresh [OF r]
  have "\<exists>em. ids_fresh ?cur [] (run_frame_ids fs) em"
  proof (cases ended)
    case True
    with rest f show ?thesis by auto
  next
    case False
    with rest obtain gs where
      g: "stream_run_queue cd mode ?cur ignore_404 evs (first_run rid ys d) emitted = Inr (gs, fin)"
      and fs: "fs = frames @ gs" by (auto simp: rbind_eq_Inr)
    from stream_run_fresh [OF g] obtain em where "ids_fresh ?cur emitted (run_frame_ids gs) em" ..
    from fresh_append [OF f this] show ?thesis by (auto simp: fs)
  qed
  then show ?thesis by (auto simp: ids_fresh_def)
qed

definition plain_codec :: codec where
  "plain_codec = \<lparr>cd_decode = (\<lambda>data topic. Inr (''values'', data)), cd_loads = (\<lambda>_. None),
     cd_dumps = (\<lambda>_. ''{}'')\<rparr>"

definition demo_message :: "string \<Rightarrow> message" where
  "demo_message i = \<lparr>ms_topic = ''t'', ms_data = ''x'', ms_id = Some i\<rparr>"

theorem run_join_emits_once_witness:
  "\<exists>fs fin. run_join demo_api plain_codec None 8 2 NoModes False (Some ''5-0'')
      [demo_message ''6-0'', demo_message ''4-0''] [Arrived (demo_message ''6-0''), Arrived (demo_message ''7-0'')]
      demo_claimed = Inr (fs, fin) \<and> length fs = 2 \<and> distinct (run_frame_ids fs)"
proof -
  let ?j = "run_join demo_api plain_codec None 8 2 NoModes False (Some ''5-0'')
      [demo_message ''6-0'', demo_message ''4-0''] [Arrived (demo_message ''6-0''), Arrived (demo_message ''7-0'')]
      demo_claimed"
  have ok: "case ?j of Inl _ \<Rightarrow> False | Inr (fs, _) \<Rightarrow> length fs = 2" by code_simp
  then obtain fs fin where j: "?j = Inr (fs, fin)" "length fs = 2" by (cases ?j) auto
  from run_join_emits_once [OF j(1)] j show ?thesis by blast
qed

end
