(* ===== verification/HttpApi.thy ===== *)
theory HttpApi
  imports Database Principal ProtocolEvents RunControl
begin

text \<open>
  What the HTTP handlers of \<open>langhost\<close> share: requests and responses, the deployment they run in,
  the authorisation of a resource, pagination, and the JSON views of the rows (\<open>core_api.py\<close>).
  A handler maps the database to a response and the database its transactions leave, or to the
  exception it lets escape; an escaping exception rolls its transaction back. UUIDs that a handler
  hands to an authorisation handler are written as their text.
\<close>

section \<open>Requests and responses\<close>

text \<open>
  \<open>hr_body\<close> is the parsed body, \<open>None\<close> when it is not JSON; parameters and headers are listed once
  each, with the value the framework's mappings give.
\<close>

record http_request =
  hr_method :: string
  hr_path :: "(string \<times> string) list"
  hr_query :: "(string \<times> string) list"
  hr_headers :: "(string \<times> string) list"
  hr_body :: "json option"

datatype payload = NoBody | TextBody string | JsonBody json

record response =
  rs_status :: int
  rs_body :: payload

definition json_response :: "json \<Rightarrow> response" where
  "json_response v = \<lparr>rs_status = 200, rs_body = JsonBody v\<rparr>"

definition json_response_at :: "int \<Rightarrow> json \<Rightarrow> response" where
  "json_response_at code v = \<lparr>rs_status = code, rs_body = JsonBody v\<rparr>"

definition error_response :: "int \<Rightarrow> string \<Rightarrow> response" where
  "error_response code detail = json_response_at code (JObj [(''detail'', JStr detail)])"

definition no_content :: response where
  "no_content = \<lparr>rs_status = 204, rs_body = NoBody\<rparr>"

text \<open>
  The body as a dictionary. A handler that reads a field of any other body raises.
\<close>

definition body_dict :: "http_request \<Rightarrow> dict res" where
  "body_dict rq =
     (case hr_body rq of
        None \<Rightarrow> Inl (ValueError ''Expecting value'')
      | Some (JObj d) \<Rightarrow> Inr d
      | Some _ \<Rightarrow> Inl (AttributeError ''get''))"

definition path_param :: "http_request \<Rightarrow> string \<Rightarrow> string res" where
  "path_param rq k = (case map_of (hr_path rq) k of None \<Rightarrow> Inl (KeyError k) | Some v \<Rightarrow> Inr v)"

text \<open>\<open>try: UUID(request.path_params[k]) except ValueError\<close>: no identifier.\<close>

definition path_uuid :: "http_request \<Rightarrow> string \<Rightarrow> uuid option res" where
  "path_uuid rq k = rbind (path_param rq k) (\<lambda>v. Inr (parse_uuid v))"

section \<open>The deployment\<close>

text \<open>
  \<open>hs_auth\<close> is the application's authorisation object, \<open>hs_principal\<close> what the middleware put on
  the request, \<open>hs_graphs\<close> the identifiers of the graph registry (\<open>None\<close>: no registry). The rest
  stands for the standard library and the database's collation: \<open>uuid5\<close> in the URL namespace,
  \<open>isoformat\<close> and \<open>fromisoformat\<close>, \<open>str\<close> of a tuple of strings, and case folding.
\<close>

record site =
  hs_auth :: auth_config
  hs_principal :: "principal option"
  hs_graphs :: "string list option"
  hs_uuid5 :: "string \<Rightarrow> uuid"
  hs_iso :: "time \<Rightarrow> string"
  hs_parse_iso :: "string \<Rightarrow> time option"
  hs_tuple :: "string list \<Rightarrow> string"
  hs_fold :: "char \<Rightarrow> char"

text \<open>\<open>principal.auth_user if principal is not None else None\<close>.\<close>

definition request_user :: "site \<Rightarrow> dict option" where
  "request_user s = (case hs_principal s of None \<Rightarrow> None | Some p \<Rightarrow> pr_auth_user p)"

definition authorize_request :: "site \<Rightarrow> string \<Rightarrow> string \<Rightarrow> dict \<Rightarrow> dict res \<times> dict" where
  "authorize_request s resource action value =
     authorize (hs_auth s) (request_user s) resource action value"

text \<open>The filters with the value as the handler left it.\<close>

definition authorized :: "site \<Rightarrow> string \<Rightarrow> string \<Rightarrow> dict \<Rightarrow> (dict \<times> dict) res" where
  "authorized s resource action value =
     (case authorize_request s resource action value of
        (Inl err, _) \<Rightarrow> Inl err
      | (Inr filters, v) \<Rightarrow> Inr (filters, v))"

definition compiled :: "dict \<Rightarrow> predicate res" where
  "compiled filters = metadata_predicate (JObj filters) 0"

text \<open>
  \<open>in_principal_scope\<close> has no condition left: the application's filters decide alone.
\<close>

definition in_principal_scope :: "'r \<Rightarrow> principal option \<Rightarrow> bool" where
  "in_principal_scope resource p = True"

declare in_principal_scope_def [simp]

definition id_field :: "string \<Rightarrow> string" where
  "id_field resource =
     (if resource = ''assistants'' then ''assistant_id''
      else if resource = ''threads'' then ''thread_id'' else ''cron_id'')"

text \<open>
  \<open>_authorized_resource\<close>: the row by its identifier when the compiled filters admit its metadata,
  and the value as the handler left it.
\<close>

definition authorized_resource ::
  "site \<Rightarrow> ('r \<Rightarrow> dict) \<Rightarrow> string \<Rightarrow> uuid \<Rightarrow> string \<Rightarrow> dict \<Rightarrow> 'r option \<Rightarrow> ('r option \<times> dict) res" where
  "authorized_resource s meta resource k action value row =
     rbind (authorized s resource action (dset (id_field resource) (JStr (uuid_str k)) value))
       (\<lambda>(filters, v).
     rbind (compiled filters) (\<lambda>p.
       Inr (case row of None \<Rightarrow> None | Some r \<Rightarrow> if p (meta r) then Some r else None, v)))"

definition authorized_run ::
  "site \<Rightarrow> uuid \<Rightarrow> string \<Rightarrow> dict \<Rightarrow> db \<Rightarrow> run_row option res" where
  "authorized_run s k action value d =
     (case get_run k d of
        None \<Rightarrow> Inr None
      | Some row \<Rightarrow>
          let event = dset ''run_id'' (JStr (uuid_str k))
                        (dset ''thread_id'' (opt_str (run_thread_id row)) value)
          in rbind (authorized s ''threads'' action event) (\<lambda>(filters, _).
             rbind (compiled filters) (\<lambda>p.
               let allowed = (case run_thread_id row of
                     None \<Rightarrow> p (run_metadata row)
                   | Some t \<Rightarrow> (case get_thread t d of None \<Rightarrow> False | Some th \<Rightarrow> p (th_metadata th)))
               in Inr (if allowed \<and> in_principal_scope row (hs_principal s) then Some row else None))))"

section \<open>Pagination\<close>

definition query_json :: "http_request \<Rightarrow> string \<Rightarrow> json \<Rightarrow> json" where
  "query_json rq k dflt = (case map_of (hr_query rq) k of None \<Rightarrow> dflt | Some v \<Rightarrow> JStr v)"

definition pagination :: "http_request \<Rightarrow> dict \<Rightarrow> (int \<times> int) res" where
  "pagination rq source =
     (case (py_int (dgetdef source ''limit'' (query_json rq ''limit'' (JInt 10))),
            py_int (dgetdef source ''offset'' (query_json rq ''offset'' (JInt 0)))) of
        (Some limit, Some offset) \<Rightarrow>
          if limit < 1 \<or> limit > 1000 \<or> offset < 0 then
            Inl (ValueError ''limit must be between 1 and 1000 and offset cannot be negative'')
          else Inr (limit, offset)
      | _ \<Rightarrow> Inl (ValueError ''limit and offset must be integers''))"

text \<open>\<open>query.limit(limit).offset(offset)\<close>.\<close>

definition page :: "int \<times> int \<Rightarrow> 'r list \<Rightarrow> 'r list" where
  "page p rows = take (nat (fst p)) (drop (nat (snd p)) rows)"

text \<open>\<open>order_by(column.desc())\<close>.\<close>

definition newest_first :: "('r \<Rightarrow> time) \<Rightarrow> 'r list \<Rightarrow> 'r list" where
  "newest_first key rows = sort_key (\<lambda>r. - key r) rows"

text \<open>\<open>_metadata_filter\<close>: the JSONB containment of a truthy value.\<close>

definition metadata_filter :: "json \<Rightarrow> dict \<Rightarrow> bool" where
  "metadata_filter wanted m = (truthy wanted \<longrightarrow> jsonb_contains (JObj m) wanted)"

lemma pagination_bounds:
  "pagination rq source = Inr (limit, offset) \<Longrightarrow> 1 \<le> limit \<and> limit \<le> 1000 \<and> 0 \<le> offset"
  by (auto simp: pagination_def split: option.splits if_splits)

lemma length_page: "length (page p rows) = min (length rows - nat (snd p)) (nat (fst p))"
  by (simp add: page_def min_def)

lemma newest_first_simps [simp]:
  "set (newest_first key rows) = set rows" "length (newest_first key rows) = length rows"
  "mset (newest_first key rows) = mset rows"
  by (simp_all add: newest_first_def)

section \<open>Views\<close>

text \<open>\<open>_plain\<close> of a row's fields: identifiers and times become text.\<close>

definition iso_time :: "site \<Rightarrow> time \<Rightarrow> json" where
  "iso_time s t = JStr (hs_iso s t)"

definition opt_iso :: "site \<Rightarrow> time option \<Rightarrow> json" where
  "opt_iso s t = (case t of None \<Rightarrow> JNull | Some x \<Rightarrow> iso_time s x)"

definition opt_int :: "int option \<Rightarrow> json" where
  "opt_int i = (case i of None \<Rightarrow> JNull | Some x \<Rightarrow> JInt x)"

definition assistant_view :: "site \<Rightarrow> assistant_row \<Rightarrow> json" where
  "assistant_view s r =
     JObj [(''assistant_id'', JStr (uuid_str (as_id r))), (''graph_id'', JStr (as_graph_id r)),
       (''config'', JObj (as_config r)), (''context'', JObj (as_context r)),
       (''metadata'', JObj (as_metadata r)), (''version'', JInt (as_version r)),
       (''name'', JStr (as_name r)), (''description'', opt_json (as_description r)),
       (''created_at'', iso_time s (as_created_at r)), (''updated_at'', iso_time s (as_updated_at r))]"

definition version_view :: "site \<Rightarrow> assistant_version_row \<Rightarrow> json" where
  "version_view s r =
     JObj [(''assistant_id'', JStr (uuid_str (av_assistant_id r))), (''version'', JInt (av_version r)),
       (''graph_id'', JStr (av_graph_id r)), (''config'', JObj (av_config r)),
       (''context'', JObj (av_context r)), (''metadata'', JObj (av_metadata r)),
       (''name'', JStr (av_name r)), (''description'', opt_json (av_description r)),
       (''created_at'', iso_time s (av_created_at r))]"

definition thread_view :: "site \<Rightarrow> thread_row \<Rightarrow> json" where
  "thread_view s r =
     JObj ([(''thread_id'', JStr (uuid_str (th_id r))), (''created_at'', iso_time s (th_created_at r)),
       (''updated_at'', iso_time s (th_updated_at r)), (''metadata'', JObj (th_metadata r)),
       (''status'', JStr (th_status r)), (''config'', JObj (th_config r)), (''values'', th_values r),
       (''state_updated_at'', opt_iso s (th_state_updated_at r))] @
       (if th_interrupts r \<noteq> [] then [(''interrupts'', JObj (th_interrupts r))] else []))"

text \<open>The trusted identity of a run stays on the server.\<close>

definition public_kwargs :: "dict \<Rightarrow> dict" where
  "public_kwargs kwargs = dpop ''runtime_context_token'' (dpop ''runtime_context'' kwargs)"

definition run_view :: "site \<Rightarrow> run_row \<Rightarrow> json" where
  "run_view s r =
     JObj [(''run_id'', JStr (uuid_str (run_id r))), (''thread_id'', opt_str (run_thread_id r)),
       (''assistant_id'', JStr (uuid_str (run_assistant_id r))),
       (''created_at'', iso_time s (run_created_at r)), (''updated_at'', iso_time s (run_updated_at r)),
       (''status'', JStr (run_status r)), (''metadata'', JObj (run_metadata r)),
       (''kwargs'', JObj (public_kwargs (run_kwargs r))),
       (''multitask_strategy'', JStr (case run_multitask_strategy r of
           None \<Rightarrow> ''enqueue'' | Some m \<Rightarrow> if m = [] then ''enqueue'' else m)),
       (''queue_position'', opt_int (run_queue_position r))]"

definition cron_view :: "site \<Rightarrow> cron_row \<Rightarrow> json" where
  "cron_view s r =
     JObj [(''cron_id'', JStr (uuid_str (cr_id r))),
       (''assistant_id'', JStr (uuid_str (cr_assistant_id r))),
       (''thread_id'', opt_str (cr_thread_id r)),
       (''on_run_completed'', opt_json (cr_on_run_completed r)),
       (''end_time'', opt_iso s (cr_end_time r)), (''schedule'', JStr (cr_schedule r)),
       (''timezone'', opt_json (cr_timezone r)), (''created_at'', iso_time s (cr_created_at r)),
       (''updated_at'', iso_time s (cr_updated_at r)), (''payload'', JObj (cr_payload r)),
       (''user_id'', opt_json (cr_user_id r)), (''next_run_date'', opt_iso s (cr_next_run_date r)),
       (''metadata'', JObj (cr_metadata r)), (''enabled'', JBool (cr_enabled r))]"

text \<open>
  Storing a JSON value in a typed column. A text column takes a string, a boolean column also the
  numbers 0 and 1; a JSONB column of the model holds an object, and a value of another shape leaves
  the model through \<open>DataError\<close>.
\<close>

definition text_column :: "json \<Rightarrow> string res" where
  "text_column v =
     (case v of JStr t \<Rightarrow> Inr t | JNull \<Rightarrow> Inl IntegrityError
      | _ \<Rightarrow> Inl (DataError ''expected str''))"

definition nullable_text :: "json \<Rightarrow> string option res" where
  "nullable_text v =
     (case v of JStr t \<Rightarrow> Inr (Some t) | JNull \<Rightarrow> Inr None | _ \<Rightarrow> Inl (DataError ''expected str''))"

definition object_column :: "json \<Rightarrow> dict res" where
  "object_column v = (case v of JObj d \<Rightarrow> Inr d | _ \<Rightarrow> Inl (DataError ''expected an object''))"

definition bool_column :: "json \<Rightarrow> bool res" where
  "bool_column v =
     (case v of
        JBool b \<Rightarrow> Inr b
      | JNull \<Rightarrow> Inl IntegrityError
      | JInt i \<Rightarrow> if i = 0 \<or> i = 1 then Inr (i = 1) else Inl (TypeError ''Not a boolean value'')
      | JFloat q \<Rightarrow> if q = 0 \<or> q = 1 then Inr (q = 1) else Inl (TypeError ''Not a boolean value'')
      | _ \<Rightarrow> Inl (TypeError ''Not a boolean value''))"

text \<open>\<open>if field in payload: setattr(row, field, payload[field])\<close>.\<close>

definition set_field ::
  "(json \<Rightarrow> 'c res) \<Rightarrow> ('c \<Rightarrow> 'r \<Rightarrow> 'r) \<Rightarrow> string \<Rightarrow> dict \<Rightarrow> 'r \<Rightarrow> 'r res" where
  "set_field column put field p r =
     (case map_of p field of None \<Rightarrow> Inr r | Some v \<Rightarrow> rbind (column v) (\<lambda>c. Inr (put c r)))"

lemma public_kwargs_hides:
  "dget (public_kwargs k) ''runtime_context'' = JNull"
  "dget (public_kwargs k) ''runtime_context_token'' = JNull"
  by (simp_all add: public_kwargs_def dget_def)

lemma authorized_resource_Inr:
  "authorized_resource s meta resource k action value row = Inr (Some r, v) \<Longrightarrow> row = Some r"
  by (auto simp: authorized_resource_def rbind_eq_Inr split: option.splits if_splits)

lemma authorized_resource_hidden:
  "authorized_resource s meta resource k action value row = Inr (None, v) \<Longrightarrow>
   authorized_resource s meta resource k action value None = Inr (None, v)"
  by (auto simp: authorized_resource_def rbind_eq_Inr split: option.splits if_splits)

lemma authorized_run_Inr:
  "authorized_run s k action value d = Inr (Some r) \<Longrightarrow> get_run k d = Some r"
  by (auto simp: authorized_run_def Let_def rbind_eq_Inr split: option.splits if_splits)

end
