(* ===== verification/AssistantHttp.thy ===== *)
theory AssistantHttp
  imports HttpApi AssistantOps
begin

text \<open>
  The assistant handlers of \<open>core_api.py\<close>: search, count, create, get, update, delete, versions,
  latest, and the registration of the deployment's default assistants. A handler reads and writes
  in one transaction; one that only reads returns the response alone.
\<close>

section \<open>Searching and counting\<close>

text \<open>The system's assistants of graphs that are no longer deployed are hidden.\<close>

definition deployed :: "site \<Rightarrow> assistant_row \<Rightarrow> bool" where
  "deployed s r =
     (case hs_graphs s of
        None \<Rightarrow> True
      | Some ids \<Rightarrow> dget (as_metadata r) ''created_by'' \<noteq> JStr ''system'' \<or> as_graph_id r \<in> set ids)"

text \<open>The name is put between percent signs as it is: its own wildcards stay wildcards.\<close>

definition raw_name_match :: "(char \<Rightarrow> char) \<Rightarrow> string \<Rightarrow> string \<Rightarrow> bool" where
  "raw_name_match f name value = ilike f (''%'' @ name @ ''%'') value"

definition assistant_matches :: "env \<Rightarrow> site \<Rightarrow> predicate \<Rightarrow> dict \<Rightarrow> assistant_row \<Rightarrow> bool" where
  "assistant_matches e s p q r =
     (p (as_metadata r) \<and> metadata_filter (dget q ''metadata'') (as_metadata r) \<and> deployed s r \<and>
      (truthy (dget q ''graph_id'') \<longrightarrow> as_graph_id r = py_str e (dget q ''graph_id'')) \<and>
      (truthy (dget q ''name'') \<longrightarrow>
        raw_name_match (hs_fold s) (py_str e (dget q ''name'')) (as_name r)))"

definition assistants_search_http :: "env \<Rightarrow> site \<Rightarrow> http_request \<Rightarrow> db \<Rightarrow> response res" where
  "assistants_search_http e s rq d =
     rbind (body_dict rq) (\<lambda>body.
     rbind (authorized s ''assistants'' ''search'' body) (\<lambda>(filters, q).
       case pagination rq q of
         Inl (ValueError msg) \<Rightarrow> Inr (error_response 422 msg)
       | Inl err \<Rightarrow> Inl err
       | Inr pg \<Rightarrow>
           rbind (compiled filters) (\<lambda>p.
             let rows = page pg (filter (assistant_matches e s p q)
                          (newest_first as_created_at (db_assistants d)));
                 items = JList (map (assistant_view s) rows)
             in Inr (json_response
                  (if dget q ''response_format'' = JStr ''object''
                   then JObj [(''assistants'', items), (''next'', JNull)] else items)))))"

definition assistants_count_http :: "env \<Rightarrow> site \<Rightarrow> http_request \<Rightarrow> db \<Rightarrow> response res" where
  "assistants_count_http e s rq d =
     rbind (body_dict rq) (\<lambda>body.
     rbind (authorized s ''assistants'' ''search'' body) (\<lambda>(filters, q).
     rbind (compiled filters) (\<lambda>p.
       Inr (json_response (JInt (int (length
         (filter (assistant_matches e s p q) (db_assistants d))))))))) "

section \<open>Creating\<close>

text \<open>An insert fails on a version row with the same key.\<close>

definition add_version :: "assistant_version_row \<Rightarrow> db \<Rightarrow> db res" where
  "add_version v d =
     (if version_key v \<in> version_key ` set (db_versions d) then Inl IntegrityError
      else Inr (d\<lparr>db_versions := db_versions d @ [v]\<rparr>))"

definition posted_assistant :: "env \<Rightarrow> uuid \<Rightarrow> string \<Rightarrow> dict \<Rightarrow> assistant_row res" where
  "posted_assistant e k graph_id q =
     rbind (nullable_text (dget q ''description'')) (\<lambda>description.
     rbind (object_column (dgetor q ''config'' (JObj []))) (\<lambda>config.
     rbind (object_column (dgetor q ''context'' (JObj []))) (\<lambda>ctx.
     rbind (object_column (dgetor q ''metadata'' (JObj []))) (\<lambda>metadata.
       Inr \<lparr>as_id = k, as_graph_id = graph_id,
            as_name = py_str e (dgetor q ''name'' (JStr ''Untitled'')),
            as_description = description, as_config = config, as_context = ctx,
            as_metadata = metadata, as_version = 1, as_created_at = e_now e,
            as_updated_at = e_now e\<rparr>))))"

text \<open>\<open>UUID(str(value)) if value else uuid4()\<close>.\<close>

definition given_or_new_uuid :: "env \<Rightarrow> json \<Rightarrow> db \<Rightarrow> (uuid \<times> db) res" where
  "given_or_new_uuid e v d =
     (if truthy v then
        (case parse_uuid (py_str e v) of
           None \<Rightarrow> Inl (ValueError ''badly formed hexadecimal UUID string'')
         | Some k \<Rightarrow> Inr (k, d))
      else Inr (e_uuid e (db_draws d), d\<lparr>db_draws := db_draws d + 1\<rparr>))"

definition assistants_create_http ::
  "env \<Rightarrow> site \<Rightarrow> http_request \<Rightarrow> db \<Rightarrow> (response \<times> db) res" where
  "assistants_create_http e s rq d =
     rbind (body_dict rq) (\<lambda>body.
       let graph_id = py_str e (dgetor body ''graph_id'' (JStr [])) in
       if graph_id = [] then Inr (error_response 422 ''graph_id is required'', d)
       else if (case hs_graphs s of None \<Rightarrow> False | Some ids \<Rightarrow> graph_id \<notin> set ids) then
         Inr (error_response 404 ''graph not found'', d)
       else
         rbind (given_or_new_uuid e (dget body ''assistant_id'') d) (\<lambda>(k, d1).
         rbind (authorized s ''assistants'' ''create'' (dset ''assistant_id'' (JStr (uuid_str k)) body))
           (\<lambda>(_, q).
           case get_assistant k d1 of
             Some existing \<Rightarrow>
               rbind (authorized_resource s as_metadata ''assistants'' k ''read'' [] (Some existing))
                 (\<lambda>(admitted, _).
                   if dget q ''if_exists'' = JStr ''do_nothing'' \<and> admitted \<noteq> None \<and>
                      in_principal_scope existing (hs_principal s)
                   then Inr (json_response (assistant_view s existing), d1)
                   else Inr (error_response 409 ''assistant already exists'', d1))
           | None \<Rightarrow>
               rbind (posted_assistant e k graph_id q) (\<lambda>r.
               rbind (add_version (version_of (e_now e) r)
                        (d1\<lparr>db_assistants := db_assistants d1 @ [r]\<rparr>)) (\<lambda>d2.
                 Inr (json_response (assistant_view s r), d2))))))"

section \<open>Reading one assistant\<close>

definition not_found :: "string \<Rightarrow> response" where
  "not_found what = error_response 404 (what @ '' not found'')"

definition graph_known :: "site \<Rightarrow> string \<Rightarrow> bool" where
  "graph_known s g = (case hs_graphs s of None \<Rightarrow> False | Some ids \<Rightarrow> g \<in> set ids)"

definition assistants_get_http :: "site \<Rightarrow> http_request \<Rightarrow> db \<Rightarrow> response res" where
  "assistants_get_http s rq d =
     rbind (path_param rq ''assistant_id'') (\<lambda>v.
       case (if graph_known s v then Some (hs_uuid5 s v) else parse_uuid v) of
         None \<Rightarrow> Inr (not_found ''assistant'')
       | Some k \<Rightarrow>
           rbind (authorized_resource s as_metadata ''assistants'' k ''read'' [] (get_assistant k d))
             (\<lambda>(row, _). Inr (case row of
                None \<Rightarrow> not_found ''assistant''
              | Some r \<Rightarrow> json_response (assistant_view s r))))"

definition assistants_versions_http :: "site \<Rightarrow> http_request \<Rightarrow> db \<Rightarrow> response res" where
  "assistants_versions_http s rq d =
     rbind (path_uuid rq ''assistant_id'') (\<lambda>u.
       case u of
         None \<Rightarrow> Inr (not_found ''assistant'')
       | Some k \<Rightarrow>
           rbind (body_dict rq) (\<lambda>body.
             case pagination rq body of
               Inl (ValueError msg) \<Rightarrow> Inr (error_response 422 msg)
             | Inl err \<Rightarrow> Inl err
             | Inr pg \<Rightarrow>
                 rbind (authorized_resource s as_metadata ''assistants'' k ''read'' [] (get_assistant k d))
                   (\<lambda>(row, _). Inr (case row of
                      None \<Rightarrow> not_found ''assistant''
                    | Some r \<Rightarrow> json_response (JList (map (version_view s)
                        (page pg (sort_key neg_version
                          (filter (\<lambda>v. av_assistant_id v = k) (db_versions d)))))))))) "

section \<open>Changing\<close>

definition next_edition :: "env \<Rightarrow> json \<Rightarrow> assistant_row \<Rightarrow> assistant_row" where
  "next_edition e metadata r =
     (case metadata of
        JObj m \<Rightarrow> r\<lparr>as_metadata := dmerge (as_metadata r) m\<rparr>
      | _ \<Rightarrow> r)\<lparr>as_version := as_version r + 1, as_updated_at := e_now e\<rparr>"

definition edited_assistant :: "env \<Rightarrow> dict \<Rightarrow> assistant_row \<Rightarrow> assistant_row res" where
  "edited_assistant e q r =
     rbind (set_field text_column (\<lambda>v x. x\<lparr>as_graph_id := v\<rparr>) ''graph_id'' q r) (\<lambda>r1.
     rbind (set_field text_column (\<lambda>v x. x\<lparr>as_name := v\<rparr>) ''name'' q r1) (\<lambda>r2.
     rbind (set_field nullable_text (\<lambda>v x. x\<lparr>as_description := v\<rparr>) ''description'' q r2) (\<lambda>r3.
     rbind (set_field object_column (\<lambda>v x. x\<lparr>as_config := v\<rparr>) ''config'' q r3) (\<lambda>r4.
     rbind (set_field object_column (\<lambda>v x. x\<lparr>as_context := v\<rparr>) ''context'' q r4) (\<lambda>r5.
       Inr (next_edition e (dget q ''metadata'') r5))))))"

definition assistants_update_http ::
  "env \<Rightarrow> site \<Rightarrow> http_request \<Rightarrow> db \<Rightarrow> (response \<times> db) res" where
  "assistants_update_http e s rq d =
     rbind (path_uuid rq ''assistant_id'') (\<lambda>u.
       case u of
         None \<Rightarrow> Inr (not_found ''assistant'', d)
       | Some k \<Rightarrow>
           rbind (body_dict rq) (\<lambda>body.
           rbind (authorized_resource s as_metadata ''assistants'' k ''update'' body (get_assistant k d))
             (\<lambda>(row, q).
             case row of
               None \<Rightarrow> Inr (not_found ''assistant'', d)
             | Some r \<Rightarrow>
                 rbind (edited_assistant e q r) (\<lambda>r'.
                 rbind (add_version (version_of (e_now e) r') (upd_assistant k (\<lambda>_. r') d)) (\<lambda>d'.
                   Inr (json_response (assistant_view s r'), d'))))))"

text \<open>The version rows have no foreign key: they stay.\<close>

definition assistants_delete_http :: "site \<Rightarrow> http_request \<Rightarrow> db \<Rightarrow> (response \<times> db) res" where
  "assistants_delete_http s rq d =
     rbind (path_uuid rq ''assistant_id'') (\<lambda>u.
       case u of
         None \<Rightarrow> Inr (no_content, d)
       | Some k \<Rightarrow>
           rbind (authorized_resource s as_metadata ''assistants'' k ''delete'' [] (get_assistant k d))
             (\<lambda>(row, _). Inr (no_content,
                case row of None \<Rightarrow> d
                | Some _ \<Rightarrow> d\<lparr>db_assistants := t_del as_id k (db_assistants d)\<rparr>)))"

definition assistants_latest_http ::
  "env \<Rightarrow> site \<Rightarrow> http_request \<Rightarrow> db \<Rightarrow> (response \<times> db) res" where
  "assistants_latest_http e s rq d =
     rbind (path_uuid rq ''assistant_id'') (\<lambda>u.
       case u of
         None \<Rightarrow> Inr (not_found ''assistant'', d)
       | Some k \<Rightarrow>
           rbind (body_dict rq) (\<lambda>body.
             case py_int (dget body ''version'') of
               None \<Rightarrow> Inr (error_response 422 ''version must be an integer'', d)
             | Some n \<Rightarrow>
                 rbind (authorized_resource s as_metadata ''assistants'' k ''update'' body
                          (get_assistant k d)) (\<lambda>(row, _).
                   case (row, t_get version_key (k, n) (db_versions d)) of
                     (Some r, Some v) \<Rightarrow>
                       (let r' = restored_assistant (e_now e) v r
                        in Inr (json_response (assistant_view s r'), upd_assistant k (\<lambda>_. r') d))
                   | _ \<Rightarrow> Inr (not_found ''assistant'', d))))"

section \<open>Default assistants\<close>

definition default_assistant :: "env \<Rightarrow> site \<Rightarrow> string \<Rightarrow> assistant_row" where
  "default_assistant e s g =
     \<lparr>as_id = hs_uuid5 s g, as_graph_id = g, as_name = g, as_description = None, as_config = [],
      as_context = [], as_metadata = [(''created_by'', JStr ''system'')], as_version = 1,
      as_created_at = e_now e, as_updated_at = e_now e\<rparr>"

text \<open>Both inserts do nothing on a conflict.\<close>

definition register_default :: "env \<Rightarrow> site \<Rightarrow> string \<Rightarrow> db \<Rightarrow> db" where
  "register_default e s g d =
     (let r = default_assistant e s g;
          d1 = (if get_assistant (as_id r) d = None
                then d\<lparr>db_assistants := db_assistants d @ [r]\<rparr> else d)
      in (case add_version (version_of (e_now e) r) d1 of Inl _ \<Rightarrow> d1 | Inr d2 \<Rightarrow> d2))"

definition register_default_assistants :: "env \<Rightarrow> site \<Rightarrow> db \<Rightarrow> db" where
  "register_default_assistants e s d =
     fold (register_default e s) (case hs_graphs s of None \<Rightarrow> [] | Some ids \<Rightarrow> ids) d"

section \<open>Lemmas\<close>

lemma add_version_Inr:
  "add_version v d = Inr d' \<longleftrightarrow>
     version_key v \<notin> version_key ` set (db_versions d) \<and>
     d' = d\<lparr>db_versions := db_versions d @ [v]\<rparr>"
  by (auto simp: add_version_def)

lemma add_version_taken:
  "version_key v \<in> version_key ` set (db_versions d) \<Longrightarrow> add_version v d = Inl IntegrityError"
  by (simp add: add_version_def)

lemma set_field_Inr:
  "set_field column put field p r = Inr r' \<Longrightarrow> r' = r \<or> (\<exists>c. r' = put c r)"
  by (auto simp: set_field_def rbind_eq_Inr split: option.splits)

lemma set_field_keeps:
  assumes "set_field column put field p r = Inr r'" "\<And>c x. f (put c x) = f x"
  shows "f r' = f r"
  using set_field_Inr [OF assms(1)] assms(2) by auto

lemma next_edition_simps [simp]:
  "as_id (next_edition e m r) = as_id r" "as_version (next_edition e m r) = as_version r + 1"
  by (simp_all add: next_edition_def split: json.split)

lemma edited_assistant_Inr:
  assumes "edited_assistant e q r = Inr r'"
  shows "as_id r' = as_id r" "as_version r' = as_version r + 1"
proof -
  from assms obtain r1 r2 r3 r4 r5 where
    s1: "set_field text_column (\<lambda>v x. x\<lparr>as_graph_id := v\<rparr>) ''graph_id'' q r = Inr r1" and
    s2: "set_field text_column (\<lambda>v x. x\<lparr>as_name := v\<rparr>) ''name'' q r1 = Inr r2" and
    s3: "set_field nullable_text (\<lambda>v x. x\<lparr>as_description := v\<rparr>) ''description'' q r2 = Inr r3" and
    s4: "set_field object_column (\<lambda>v x. x\<lparr>as_config := v\<rparr>) ''config'' q r3 = Inr r4" and
    s5: "set_field object_column (\<lambda>v x. x\<lparr>as_context := v\<rparr>) ''context'' q r4 = Inr r5" and
    r': "r' = next_edition e (dget q ''metadata'') r5"
    unfolding edited_assistant_def rbind_eq_Inr by blast
  have "as_id r5 = as_id r"
    using set_field_keeps [OF s1, of as_id] set_field_keeps [OF s2, of as_id]
      set_field_keeps [OF s3, of as_id] set_field_keeps [OF s4, of as_id]
      set_field_keeps [OF s5, of as_id] by simp
  moreover have "as_version r5 = as_version r"
    using set_field_keeps [OF s1, of as_version] set_field_keeps [OF s2, of as_version]
      set_field_keeps [OF s3, of as_version] set_field_keeps [OF s4, of as_version]
      set_field_keeps [OF s5, of as_version] by simp
  ultimately show "as_id r' = as_id r" "as_version r' = as_version r + 1" using r' by simp_all
qed

lemma posted_assistant_Inr:
  assumes "posted_assistant e k g q = Inr r"
  shows "as_id r = k" "as_version r = 1"
  using assms by (auto simp: posted_assistant_def rbind_eq_Inr)

lemma register_default_keeps:
  "set (db_assistants d) \<subseteq> set (db_assistants (register_default e s g d))"
  "set (db_versions d) \<subseteq> set (db_versions (register_default e s g d))"
  by (auto simp: register_default_def Let_def add_version_def)

lemma register_default_there:
  assumes "get_assistant (hs_uuid5 s g) d \<noteq> None" "(hs_uuid5 s g, 1) \<in> version_key ` set (db_versions d)"
  shows "register_default e s g d = d"
  using assms
  by (auto simp: register_default_def default_assistant_def add_version_def Let_def version_of_def
      version_key_def)

lemma register_default_adds:
  "get_assistant (hs_uuid5 s g) (register_default e s g d) \<noteq> None"
  "(hs_uuid5 s g, 1) \<in> version_key ` set (db_versions (register_default e s g d))"
  by (auto simp: register_default_def default_assistant_def Let_def add_version_def
      version_of_def version_key_def get_assistant_def t_get_append split: option.splits)

lemma registered_stays:
  assumes "get_assistant k d \<noteq> None"
  shows "get_assistant k (register_default e s g d) \<noteq> None"
  using assms register_default_keeps(1) [of d e s g]
  by (auto simp: assistants_t.get_None image_iff dest!: assistants_t.get_Some)

text \<open>Registering the defaults again, after a restart, changes nothing.\<close>

lemma registered_all:
  assumes "g \<in> set gs"
  shows "get_assistant (hs_uuid5 s g) (fold (register_default e s) gs d) \<noteq> None \<and>
    (hs_uuid5 s g, 1) \<in> version_key ` set (db_versions (fold (register_default e s) gs d))"
proof -
  have grow: "get_assistant k (fold (register_default e s) hs x) \<noteq> None"
    if "get_assistant k x \<noteq> None" for k hs x
    using that by (induction hs arbitrary: x) (use registered_stays in \<open>fastforce+\<close>)
  have vers: "set (db_versions x) \<subseteq> set (db_versions (fold (register_default e s) hs x))" for hs x
  proof (induction hs arbitrary: x)
    case (Cons h hs)
    show ?case using register_default_keeps(2) [of x e s h] Cons [of "register_default e s h x"] by simp
  qed simp
  from assms show ?thesis
  proof (induction gs arbitrary: d)
    case (Cons h gs)
    show ?case
    proof (cases "h = g")
      case True
      then show ?thesis
        using grow [OF register_default_adds(1) [of s g e d], of gs]
          vers [of "register_default e s g d" gs] register_default_adds(2) [of s g e d] by auto
    next
      case False
      with Cons show ?thesis by simp
    qed
  qed simp
qed

lemma register_default_again:
  "register_default_assistants e' s (register_default_assistants e s d) =
   register_default_assistants e s d"
proof -
  have again: "fold (register_default e' s) hs x = x"
    if "\<And>g. g \<in> set hs \<Longrightarrow> get_assistant (hs_uuid5 s g) x \<noteq> None \<and>
          (hs_uuid5 s g, 1) \<in> version_key ` set (db_versions x)" for hs x
    using that by (induction hs) (simp_all add: register_default_there)
  show ?thesis
    unfolding register_default_assistants_def by (rule again) (rule registered_all)
qed

text \<open>What a search and a count of the same request agree on.\<close>

lemma filter_newest_first: "length (filter P (newest_first key rows)) = length (filter P rows)"
  by (metis (no_types, lifting) mset_filter newest_first_simps(3) size_mset)

end
