(* ===== verification/ThreadHttp.thy ===== *)
theory ThreadHttp
  imports AssistantHttp ThreadOps
begin

text \<open>
  The thread handlers of \<open>core_api.py\<close>: create, search, count, get, update, delete, state, history,
  state updates, copy and prune. The checkpoint saver of the library is the record \<open>saver\<close> of the
  compatibility operations, compiled graphs are the record \<open>graph_lib\<close>. A handler whose effects
  outlive an exception returns the exception together with the database it leaves.
\<close>

section \<open>Graphs and checkpoints of the library\<close>

record snapshot =
  sn_values :: json
  sn_next :: json
  sn_config :: dict
  sn_metadata :: json
  sn_created_at :: json
  sn_parent_config :: "dict option"
  sn_tasks :: "json list" \<comment> \<open>\<open>task._asdict()\<close> of the tasks\<close>
  sn_interrupts :: json

text \<open>
  \<open>gl_tuple\<close> is \<open>aget_tuple\<close> of the checkpointer and \<open>gl_list\<close> its \<open>alist\<close>; \<open>gl_state\<close>, \<open>gl_history\<close>
  and \<open>gl_update\<close> are \<open>aget_state\<close>, \<open>aget_state_history\<close> and \<open>aupdate_state\<close> of an opened graph, and
  \<open>gl_text\<close> is \<open>str\<close> of an exception.
\<close>

record graph_lib =
  gl_tuple :: "dict \<Rightarrow> db \<Rightarrow> saver_item option res"
  gl_list :: "dict \<Rightarrow> json \<Rightarrow> int \<Rightarrow> db \<Rightarrow> saver_item list res"
  gl_state :: "string \<Rightarrow> dict \<Rightarrow> db \<Rightarrow> snapshot res"
  gl_history :: "string \<Rightarrow> dict \<Rightarrow> json \<Rightarrow> int \<Rightarrow> db \<Rightarrow> snapshot list res"
  gl_update :: "string \<Rightarrow> dict \<Rightarrow> json \<Rightarrow> json \<Rightarrow> db \<Rightarrow> dict res \<times> db"
  gl_text :: "py_error \<Rightarrow> string"

text \<open>The result of a transaction with the database it leaves.\<close>

definition settled :: "db \<Rightarrow> (response \<times> db) res \<Rightarrow> response res \<times> db" where
  "settled d r = (case r of Inl err \<Rightarrow> (Inl err, d) | Inr (x, d') \<Rightarrow> (Inr x, d'))"

fun delete_checkpoints :: "saver \<Rightarrow> uuid list \<Rightarrow> db \<Rightarrow> unit res \<times> db" where
  "delete_checkpoints sv [] d = (Inr (), d)"
| "delete_checkpoints sv (k # ks) d =
     (case sv_delete sv (uuid_str k) d of
        Inl err \<Rightarrow> (Inl err, d)
      | Inr d' \<Rightarrow> delete_checkpoints sv ks d')"

section \<open>Creating\<close>

definition field_is_object :: "dict \<Rightarrow> string \<Rightarrow> bool" where
  "field_is_object q k = (dget q k = JNull \<or> is_obj (dget q k))"

definition number_value :: "json \<Rightarrow> bool" where
  "number_value v = (case v of JInt _ \<Rightarrow> True | JFloat _ \<Rightarrow> True | _ \<Rightarrow> False)"

definition quoted :: "string \<Rightarrow> string" where
  "quoted t = [CHR 0x27] @ t @ [CHR 0x27]"

definition check_ttl :: "json \<Rightarrow> response option" where
  "check_ttl ttl =
     (case ttl of
        JNull \<Rightarrow> None
      | JObj t \<Rightarrow>
          if dget t ''strategy'' \<notin> {JNull, JStr ''delete'', JStr ''keep_latest''} then
            Some (error_response 422 (''ttl.strategy must be '' @ quoted ''delete'' @ '' or '' @ quoted ''keep_latest''))
          else if dhas t ''ttl'' \<and> \<not> number_value (dget t ''ttl'') then
            Some (error_response 422 ''ttl.ttl must be a number'')
          else None
      | _ \<Rightarrow> Some (error_response 422 ''ttl must be an object''))"

definition superstep_ok :: "json \<Rightarrow> bool" where
  "superstep_ok v =
     (case v of JObj s \<Rightarrow> (case dget s ''updates'' of JList _ \<Rightarrow> True | _ \<Rightarrow> False) | _ \<Rightarrow> False)"

definition check_supersteps :: "json \<Rightarrow> response option" where
  "check_supersteps v =
     (case v of
        JNull \<Rightarrow> None
      | JList xs \<Rightarrow>
          if list_all superstep_ok xs then None
          else Some (error_response 422 ''supersteps entries must contain an updates array'')
      | _ \<Rightarrow> Some (error_response 422 ''supersteps must be an array''))"

definition thread_create_payload :: "env \<Rightarrow> http_request \<Rightarrow> response + dict" where
  "thread_create_payload e rq =
     (case hr_body rq of
        None \<Rightarrow> Inl (error_response 400 ''request body must be valid JSON'')
      | Some (JObj q) \<Rightarrow>
          if dget q ''thread_id'' \<noteq> JNull \<and> parse_uuid (py_str e (dget q ''thread_id'')) = None then
            Inl (error_response 422 ''thread_id must be a valid UUID'')
          else if \<not> field_is_object q ''metadata'' then
            Inl (error_response 422 ''metadata must be an object'')
          else if \<not> field_is_object q ''config'' then
            Inl (error_response 422 ''config must be an object'')
          else if dget q ''if_exists'' \<notin> {JNull, JStr ''raise'', JStr ''do_nothing''} then
            Inl (error_response 422 (''if_exists must be '' @ quoted ''raise'' @ '' or '' @ quoted ''do_nothing''))
          else (case check_ttl (dget q ''ttl'') of
              Some r \<Rightarrow> Inl r
            | None \<Rightarrow>
                (case check_supersteps (dget q ''supersteps'') of Some r \<Rightarrow> Inl r | None \<Rightarrow> Inr q))
      | Some _ \<Rightarrow> Inl (error_response 422 ''request body must be an object''))"

definition posted_thread :: "env \<Rightarrow> uuid \<Rightarrow> dict \<Rightarrow> thread_row res" where
  "posted_thread e k q =
     rbind (object_column (dgetor q ''metadata'' (JObj []))) (\<lambda>metadata.
     rbind (object_column (dgetor q ''config'' (JObj []))) (\<lambda>config.
       let graph_id = dgetor q ''graph_id'' (dget metadata ''graph_id'')
       in Inr ((new_thread (e_now e) k ''idle'' metadata config)
            \<lparr>th_graph_id := (if truthy graph_id then Some (py_str e graph_id) else None)\<rparr>)))"

definition threads_create_http ::
  "env \<Rightarrow> site \<Rightarrow> http_request \<Rightarrow> db \<Rightarrow> (response \<times> db) res" where
  "threads_create_http e s rq d =
     (case thread_create_payload e rq of
        Inl r \<Rightarrow> Inr (r, d)
      | Inr body \<Rightarrow>
          rbind (given_or_new_uuid e (dget body ''thread_id'') d) (\<lambda>(k, d1).
          rbind (authorized s ''threads'' ''create'' (dset ''thread_id'' (JStr (uuid_str k)) body))
            (\<lambda>(filters, q).
            case get_thread k d1 of
              Some existing \<Rightarrow>
                rbind (compiled filters) (\<lambda>p.
                  if dget q ''if_exists'' = JStr ''do_nothing'' \<and> p (th_metadata existing) \<and>
                     in_principal_scope existing (hs_principal s)
                  then Inr (json_response (thread_view s existing), d1)
                  else Inr (error_response 409 ''thread already exists'', d1))
            | None \<Rightarrow>
                rbind (posted_thread e k q) (\<lambda>r.
                  Inr (json_response (thread_view s r), insert_thread r d1)))))"

section \<open>Searching and counting\<close>

text \<open>\<open>[UUID(str(item)) for item in payload["ids"]]\<close>; \<open>None\<close> when it raises.\<close>

fun uuid_items :: "env \<Rightarrow> json list \<Rightarrow> uuid list option" where
  "uuid_items e [] = Some []"
| "uuid_items e (x # xs) =
     (case parse_uuid (py_str e x) of
        None \<Rightarrow> None
      | Some k \<Rightarrow> (case uuid_items e xs of None \<Rightarrow> None | Some ks \<Rightarrow> Some (k # ks)))"

definition wanted_ids :: "env \<Rightarrow> json \<Rightarrow> uuid list option" where
  "wanted_ids e v = (case py_list v of Inl _ \<Rightarrow> None | Inr xs \<Rightarrow> uuid_items e xs)"

definition thread_matches :: "env \<Rightarrow> predicate \<Rightarrow> dict \<Rightarrow> uuid list option \<Rightarrow> thread_row \<Rightarrow> bool" where
  "thread_matches e p q ids r =
     (p (th_metadata r) \<and> metadata_filter (dget q ''metadata'') (th_metadata r) \<and>
      (truthy (dget q ''status'') \<longrightarrow> th_status r = py_str e (dget q ''status'')) \<and>
      (case ids of None \<Rightarrow> True | Some ks \<Rightarrow> th_id r \<in> set ks) \<and>
      (truthy (dget q ''values'') \<longrightarrow> jsonb_contains (th_values r) (dget q ''values'')))"

definition threads_search_http :: "env \<Rightarrow> site \<Rightarrow> http_request \<Rightarrow> db \<Rightarrow> response res" where
  "threads_search_http e s rq d =
     rbind (body_dict rq) (\<lambda>body.
     rbind (authorized s ''threads'' ''search'' body) (\<lambda>(filters, q).
       case pagination rq q of
         Inl (ValueError msg) \<Rightarrow> Inr (error_response 422 msg)
       | Inl err \<Rightarrow> Inl err
       | Inr pg \<Rightarrow>
           rbind (compiled filters) (\<lambda>p.
             let found = (\<lambda>ids. json_response (JList (map (thread_view s)
                   (page pg (filter (thread_matches e p q ids)
                     (newest_first th_updated_at (db_threads d)))))))
             in if dget q ''ids'' = JNull then Inr (found None)
                else (case wanted_ids e (dget q ''ids'') of
                    None \<Rightarrow> Inr (error_response 422 ''ids must contain UUIDs'')
                  | Some ks \<Rightarrow> Inr (found (Some ks))))))"

definition threads_count_http :: "env \<Rightarrow> site \<Rightarrow> http_request \<Rightarrow> db \<Rightarrow> response res" where
  "threads_count_http e s rq d =
     rbind (body_dict rq) (\<lambda>body.
     rbind (authorized s ''threads'' ''search'' body) (\<lambda>(filters, q).
     rbind (compiled filters) (\<lambda>p.
       let found = (\<lambda>ids. json_response
             (JInt (int (length (filter (thread_matches e p q ids) (db_threads d))))))
       in if dget q ''ids'' = JNull then Inr (found None)
          else (case wanted_ids e (dget q ''ids'') of
              None \<Rightarrow> Inr (error_response 422 ''ids must contain UUIDs'')
            | Some ks \<Rightarrow> Inr (found (Some ks))))))"

section \<open>One thread\<close>

text \<open>
  \<open>_get_thread\<close>: the identifier of the path with the row the filters admit, and the value as the
  handler left it; no identifier when the path has none.
\<close>

definition get_thread_http ::
  "site \<Rightarrow> http_request \<Rightarrow> string \<Rightarrow> dict \<Rightarrow> db \<Rightarrow> ((uuid \<times> thread_row) option \<times> dict) res" where
  "get_thread_http s rq action value d =
     (case (case map_of (hr_path rq) ''thread_id'' of None \<Rightarrow> None | Some v \<Rightarrow> parse_uuid v) of
        None \<Rightarrow> Inr (None, value)
      | Some k \<Rightarrow>
          rbind (authorized_resource s th_metadata ''threads'' k action value (get_thread k d))
            (\<lambda>(row, v). Inr (map_option (Pair k) row, v)))"

definition threads_get_http :: "site \<Rightarrow> http_request \<Rightarrow> db \<Rightarrow> response res" where
  "threads_get_http s rq d =
     rbind (get_thread_http s rq ''read'' [] d) (\<lambda>(found, _).
       Inr (case found of
          None \<Rightarrow> not_found ''thread''
        | Some (k, r) \<Rightarrow> json_response (thread_view s r)))"

definition merged_thread :: "time \<Rightarrow> dict \<Rightarrow> thread_row \<Rightarrow> thread_row" where
  "merged_thread now m r =
     r\<lparr>th_metadata := dmerge (th_metadata r) m, th_updated_at := now\<rparr>"

definition prefers_minimal :: "http_request \<Rightarrow> bool" where
  "prefers_minimal rq =
     has_infix ''return=minimal'' (case map_of (hr_headers rq) ''prefer'' of None \<Rightarrow> [] | Some v \<Rightarrow> v)"

definition threads_update_http ::
  "env \<Rightarrow> site \<Rightarrow> http_request \<Rightarrow> db \<Rightarrow> (response \<times> db) res" where
  "threads_update_http e s rq d =
     rbind (body_dict rq) (\<lambda>body.
     rbind (get_thread_http s rq ''update'' body d) (\<lambda>(found, q).
       case found of
         None \<Rightarrow> Inr (not_found ''thread'', d)
       | Some (k, r) \<Rightarrow>
           (case dget q ''metadata'' of
              JObj m \<Rightarrow>
                Inr (if prefers_minimal rq then no_content
                     else json_response (thread_view s (merged_thread (e_now e) m r)),
                     upd_thread k (merged_thread (e_now e) m) d)
            | _ \<Rightarrow> Inr (error_response 422 ''metadata must be an object'', d))))"

text \<open>The rows of the thread's runs and crons have no foreign key to it: they stay.\<close>

definition threads_delete_http ::
  "saver \<Rightarrow> site \<Rightarrow> http_request \<Rightarrow> db \<Rightarrow> response res \<times> db" where
  "threads_delete_http sv s rq d =
     (case get_thread_http s rq ''delete'' [] d of
        Inl err \<Rightarrow> (Inl err, d)
      | Inr (None, _) \<Rightarrow> (Inr (not_found ''thread''), d)
      | Inr (Some (k, r), _) \<Rightarrow>
          (case delete_checkpoints sv [k] (del_thread k d) of
             (Inl err, d') \<Rightarrow> (Inl err, d')
           | (Inr _, d') \<Rightarrow> (Inr no_content, d')))"

section \<open>State and history\<close>

definition checkpoint_config :: "uuid \<Rightarrow> json \<Rightarrow> json \<Rightarrow> dict" where
  "checkpoint_config k checkpoint_id checkpoint_ns =
     (let c0 = [(''thread_id'', JStr (uuid_str k))];
          c1 = (if truthy checkpoint_id then dset ''checkpoint_id'' checkpoint_id c0 else c0);
          c2 = (if checkpoint_ns \<noteq> JNull then dset ''checkpoint_ns'' checkpoint_ns c1 else c1)
      in [(''configurable'', JObj c2)])"

definition checkpoint_key :: "dict \<Rightarrow> json" where
  "checkpoint_key config =
     (let c = obj_of (dgetdef config ''configurable'' (JObj config))
      in JObj ([(''thread_id'', dget c ''thread_id''),
                (''checkpoint_ns'', dgetdef c ''checkpoint_ns'' (JStr [])),
                (''checkpoint_id'', dget c ''checkpoint_id'')] @
               (if dhas c ''checkpoint_map'' then [(''checkpoint_map'', dget c ''checkpoint_map'')]
                else [])))"

definition parent_key :: "dict option \<Rightarrow> json" where
  "parent_key config =
     (case config of None \<Rightarrow> JNull | Some c \<Rightarrow> if c = [] then JNull else checkpoint_key c)"

text \<open>Stored tasks are JSON values: none has an attribute \<open>interrupts\<close>.\<close>

definition state_from_tuple :: "saver_item \<Rightarrow> dict res" where
  "state_from_tuple item =
     (let c = si_checkpoint item in
      rbind (py_list (dgetor c ''tasks'' (JList []))) (\<lambda>tasks.
        Inr [(''values'', dgetdef c ''channel_values'' (dgetdef c ''values'' (JObj []))),
             (''next'', dgetdef c ''next'' (JList [])),
             (''checkpoint'', checkpoint_key (si_config item)),
             (''metadata'', JObj (si_metadata item)),
             (''created_at'', dget c ''ts''),
             (''parent_checkpoint'', parent_key (si_parent_config item)),
             (''tasks'', JList tasks), (''interrupts'', JList [])]))"

definition state_from_snapshot :: "snapshot \<Rightarrow> dict" where
  "state_from_snapshot sn =
     [(''values'', sn_values sn), (''next'', sn_next sn),
      (''checkpoint'', checkpoint_key (sn_config sn)),
      (''metadata'', if truthy (sn_metadata sn) then sn_metadata sn else JObj []),
      (''created_at'', sn_created_at sn), (''parent_checkpoint'', parent_key (sn_parent_config sn)),
      (''tasks'', JList (sn_tasks sn)), (''interrupts'', sn_interrupts sn)]"

definition has_projected_values :: "json \<Rightarrow> bool" where
  "has_projected_values v =
     (case v of JObj d \<Rightarrow> list_ex (\<lambda>(k, _). k \<noteq> ''__pregel_tasks'') d | _ \<Rightarrow> False)"

definition stored_interrupts :: "thread_row \<Rightarrow> json" where
  "stored_interrupts r = JList (map snd (th_interrupts r))"

definition pick :: "json \<Rightarrow> json \<Rightarrow> json" where
  "pick v w = (if truthy v then v else w)"

text \<open>The checkpoint a state request names: the path and the query first, then the posted body.\<close>

definition state_locator :: "http_request \<Rightarrow> json \<times> json" where
  "state_locator rq =
     (let cid = opt_json (map_of (hr_path rq) ''checkpoint_id'');
          ns = opt_json (map_of (hr_query rq) ''checkpoint_ns'')
      in if hr_method rq = ''POST'' then
           (case hr_body rq of
              Some (JObj b) \<Rightarrow>
                (let (cid1, ns1) = (case dget b ''checkpoint'' of
                       JObj cp \<Rightarrow> (pick cid (dget cp ''checkpoint_id''), pick ns (dget cp ''checkpoint_ns''))
                     | JStr c \<Rightarrow> (pick cid (JStr c), ns)
                     | _ \<Rightarrow> (cid, ns))
                 in (pick cid1 (dget b ''checkpoint_id''), pick ns1 (dget b ''checkpoint_ns'')))
            | _ \<Rightarrow> (cid, ns))
         else (cid, ns))"

text \<open>The graph of a thread, from its column or its metadata, when it is deployed.\<close>

definition thread_graph_id :: "thread_row \<Rightarrow> json" where
  "thread_graph_id r =
     (case th_graph_id r of
        Some g \<Rightarrow> if g \<noteq> [] then JStr g else dget (th_metadata r) ''graph_id''
      | None \<Rightarrow> dget (th_metadata r) ''graph_id'')"

definition open_graph :: "env \<Rightarrow> site \<Rightarrow> thread_row \<Rightarrow> string option" where
  "open_graph e s r =
     (let g = thread_graph_id r
      in if truthy g \<and> graph_known s (py_str e g) then Some (py_str e g) else None)"

definition empty_state :: "bool \<Rightarrow> dict \<Rightarrow> thread_row \<Rightarrow> dict" where
  "empty_state subgraph config r =
     [(''values'', if subgraph then JObj [] else pick (th_values r) (JObj [])),
      (''next'', JList []), (''checkpoint'', checkpoint_key config), (''metadata'', JObj []),
      (''created_at'', JNull), (''parent_checkpoint'', JNull), (''tasks'', JList []),
      (''interrupts'', if subgraph then JList [] else stored_interrupts r)]"

definition completed_state :: "bool \<Rightarrow> json \<Rightarrow> thread_row \<Rightarrow> dict \<Rightarrow> dict" where
  "completed_state subgraph checkpoint_id r state =
     (let st1 = (if \<not> subgraph \<and> \<not> truthy (dget state ''interrupts'')
                 then dset ''interrupts'' (stored_interrupts r) state else state)
      in if \<not> subgraph \<and> checkpoint_id = JNull \<and> \<not> has_projected_values (dget st1 ''values'') \<and>
            truthy (th_values r)
         then dset ''values'' (th_values r) st1 else st1)"

definition read_failed :: "graph_lib \<Rightarrow> string \<Rightarrow> py_error \<Rightarrow> response" where
  "read_failed gl what err = error_response 503 (what @ '' read failed: '' @ gl_text gl err)"

definition threads_state_http ::
  "env \<Rightarrow> graph_lib \<Rightarrow> site \<Rightarrow> http_request \<Rightarrow> db \<Rightarrow> response res" where
  "threads_state_http e gl s rq d =
     rbind (get_thread_http s rq ''read'' [] d) (\<lambda>(found, _).
       case found of
         None \<Rightarrow> Inr (not_found ''thread'')
       | Some (k, r) \<Rightarrow>
           (let (cid, ns) = state_locator rq;
                subgraph = truthy ns;
                config = checkpoint_config k cid ns
            in case (if subgraph then None else open_graph e s r) of
                 Some g \<Rightarrow>
                   Inr (case gl_state gl g config d of
                      Inl err \<Rightarrow> read_failed gl ''checkpoint'' err
                    | Inr sn \<Rightarrow> json_response (JObj (state_from_snapshot sn)))
               | None \<Rightarrow>
                   (case gl_tuple gl config d of
                      Inl err \<Rightarrow> Inr (read_failed gl ''checkpoint'' err)
                    | Inr None \<Rightarrow> Inr (json_response (JObj (empty_state subgraph config r)))
                    | Inr (Some item) \<Rightarrow>
                        rbind (state_from_tuple item) (\<lambda>state.
                          Inr (json_response (JObj (completed_state subgraph cid r state)))))))"

fun rmap :: "('a \<Rightarrow> 'b res) \<Rightarrow> 'a list \<Rightarrow> 'b list res" where
  "rmap f [] = Inr []"
| "rmap f (x # xs) = rbind (f x) (\<lambda>y. rbind (rmap f xs) (\<lambda>ys. Inr (y # ys)))"

text \<open>
  \<open>before\<close>: a posted value as it is, a query parameter parsed as JSON; \<open>loads\<close> is \<open>json.loads\<close>.
\<close>

definition history_before :: "(string \<Rightarrow> json option) \<Rightarrow> http_request \<Rightarrow> dict \<Rightarrow> json option" where
  "history_before loads rq body =
     (let raw = (if hr_method rq = ''POST'' then Some (dget body ''before'')
                 else (case map_of (hr_query rq) ''before'' of
                     None \<Rightarrow> Some JNull
                   | Some v \<Rightarrow> if hr_method rq = ''GET'' \<and> v \<noteq> [] then loads v else Some (JStr v)))
      in map_option (\<lambda>v. case v of
           JStr c \<Rightarrow> JObj [(''configurable'', JObj [(''checkpoint_id'', JStr c)])]
         | JObj c \<Rightarrow> JObj [(''configurable'', JObj c)]
         | _ \<Rightarrow> v) raw)"

definition history_ns :: "http_request \<Rightarrow> dict \<Rightarrow> json" where
  "history_ns rq body =
     (let posted = (if hr_method rq = ''POST'' then
                      pick (case dget body ''checkpoint'' of
                              JObj cp \<Rightarrow> dget cp ''checkpoint_ns'' | _ \<Rightarrow> JNull)
                           (dget body ''checkpoint_ns'')
                    else JNull)
      in pick posted (opt_json (map_of (hr_query rq) ''checkpoint_ns'')))"

definition threads_history_http ::
  "env \<Rightarrow> graph_lib \<Rightarrow> (string \<Rightarrow> json option) \<Rightarrow> site \<Rightarrow> http_request \<Rightarrow> db \<Rightarrow> response res" where
  "threads_history_http e gl loads s rq d =
     rbind (get_thread_http s rq ''read'' [] d) (\<lambda>(found, _).
       case found of
         None \<Rightarrow> Inr (not_found ''thread'')
       | Some (k, r) \<Rightarrow>
           rbind (if hr_method rq = ''POST'' then body_dict rq else Inr []) (\<lambda>body.
             case pagination rq body of
               Inl (ValueError msg) \<Rightarrow> Inr (error_response 422 msg)
             | Inl err \<Rightarrow> Inl err
             | Inr (limit, _) \<Rightarrow>
                 (let ns = history_ns rq body; config = checkpoint_config k JNull ns
                  in case history_before loads rq body of
                       None \<Rightarrow> Inr (error_response 422 ''before must be a JSON object'')
                     | Some before \<Rightarrow>
                         (case (if truthy ns then None else open_graph e s r) of
                            Some g \<Rightarrow>
                              Inr (case gl_history gl g config before limit d of
                                 Inl err \<Rightarrow> read_failed gl ''checkpoint history'' err
                               | Inr sns \<Rightarrow>
                                   json_response (JList (map (\<lambda>x. JObj (state_from_snapshot x)) sns)))
                          | None \<Rightarrow>
                              rbind (gl_list gl config before limit d) (\<lambda>items.
                              rbind (rmap state_from_tuple items) (\<lambda>states.
                                Inr (json_response (JList (map JObj states)))))))))"

definition threads_update_state_http ::
  "env \<Rightarrow> graph_lib \<Rightarrow> site \<Rightarrow> http_request \<Rightarrow> db \<Rightarrow> response res \<times> db" where
  "threads_update_state_http e gl s rq d =
     (case rbind (body_dict rq) (\<lambda>body. get_thread_http s rq ''update'' body d) of
        Inl err \<Rightarrow> (Inl err, d)
      | Inr (None, _) \<Rightarrow> (Inr (not_found ''thread''), d)
      | Inr (Some (k, r), q) \<Rightarrow>
          if hr_method rq = ''PATCH'' then
            (case dget q ''metadata'' of
               JObj m \<Rightarrow> (Inr no_content, upd_thread k (merged_thread (e_now e) m) d)
             | _ \<Rightarrow> (Inr (error_response 422 ''metadata must be an object''), d))
          else if \<not> truthy (thread_graph_id r) \<or> hs_graphs s = None then
            (Inr (error_response 422 ''thread has no registered graph''), d)
          else (case open_graph e s r of
              None \<Rightarrow> (Inr (not_found ''graph''), d)
            | Some g \<Rightarrow>
                (case gl_update gl g (checkpoint_config k (dget q ''checkpoint_id'') JNull)
                        (dget q ''values'') (dget q ''as_node'') d of
                   (Inl err, d1) \<Rightarrow>
                     (Inr (error_response 422 (''state update failed: '' @ gl_text gl err)), d1)
                 | (Inr next, d1) \<Rightarrow>
                     (Inr (json_response (JObj [(''checkpoint'', checkpoint_key next)])),
                      upd_thread k (\<lambda>x. x\<lparr>th_updated_at := e_now e,
                        th_state_updated_at := Some (e_now e)\<rparr>) d1))))"

section \<open>Copying and pruning\<close>

text \<open>
  \<open>copy_thread_checkpoints\<close> again, with what it has written when it raises: every write of the
  saver commits at once.
\<close>

fun copy_writes_partial ::
  "saver \<Rightarrow> env \<Rightarrow> dict \<Rightarrow> (string \<times> string \<times> json) list \<Rightarrow> db \<Rightarrow> unit res \<times> db" where
  "copy_writes_partial sv e config [] d = (Inr (), d)"
| "copy_writes_partial sv e config ((task, channel, value) # ws) d =
     (case fenced_aput_writes (\<lambda>c w t _. sv_put_writes sv c w t) e None config [(channel, value)]
             task [] d of
        Inl err \<Rightarrow> (Inl err, d)
      | Inr d' \<Rightarrow> copy_writes_partial sv e config ws d')"

fun copy_items_partial ::
  "saver \<Rightarrow> env \<Rightarrow> string \<Rightarrow> saver_item list \<Rightarrow> db \<Rightarrow> unit res \<times> db" where
  "copy_items_partial sv e target [] d = (Inr (), d)"
| "copy_items_partial sv e target (item # items) d =
     (case fenced_aput (sv_put sv) e None (copy_config e target item) (si_checkpoint item)
             (si_metadata item)
             (obj_of (dgetdef (si_checkpoint item) ''channel_versions'' (JObj []))) d of
        Inl err \<Rightarrow> (Inl err, d)
      | Inr (stored, d1) \<Rightarrow>
          (case copy_writes_partial sv e stored (si_pending_writes item) d1 of
             (Inl err, d2) \<Rightarrow> (Inl err, d2)
           | (Inr _, d2) \<Rightarrow> copy_items_partial sv e target items d2))"

definition copy_checkpoints_partial :: "saver \<Rightarrow> env \<Rightarrow> string \<Rightarrow> string \<Rightarrow> db \<Rightarrow> unit res \<times> db" where
  "copy_checkpoints_partial sv e source target d =
     copy_items_partial sv e target
       (sort_key (\<lambda>item. py_str e (dgetdef (si_checkpoint item) ''id'' (JStr [])))
         (sv_list sv source d)) d"

definition http_copied_thread :: "env \<Rightarrow> uuid \<Rightarrow> dict \<Rightarrow> thread_row \<Rightarrow> thread_row" where
  "http_copied_thread e k metadata r =
     r\<lparr>th_id := k, th_event_seq := 0, th_event_pruned_through := 0, th_metadata := metadata,
       th_created_at := e_now e, th_updated_at := e_now e, th_state_updated_at := None\<rparr>"

definition threads_copy_http ::
  "env \<Rightarrow> saver \<Rightarrow> site \<Rightarrow> http_request \<Rightarrow> db \<Rightarrow> response res \<times> db" where
  "threads_copy_http e sv s rq d =
     (case get_thread_http s rq ''read'' [] d of
        Inl err \<Rightarrow> (Inl err, d)
      | Inr (None, _) \<Rightarrow> (Inr (not_found ''thread''), d)
      | Inr (Some (k, r), _) \<Rightarrow>
          (let new = e_uuid e (db_draws d); d1 = d\<lparr>db_draws := db_draws d + 1\<rparr>
           in case rbind (authorized s ''threads'' ''create''
                    [(''thread_id'', JStr (uuid_str new)), (''metadata'', JObj (th_metadata r))])
                  (\<lambda>(_, v). case map_of v ''metadata'' of
                     None \<Rightarrow> Inl (KeyError ''metadata'')
                   | Some m \<Rightarrow> object_column m) of
                Inl err \<Rightarrow> (Inl err, d)
              | Inr metadata \<Rightarrow>
                  (if get_thread new d1 \<noteq> None then (Inl IntegrityError, d)
                   else
                     let copy = http_copied_thread e new metadata r
                     in case copy_checkpoints_partial sv e (uuid_str k) (uuid_str new)
                               (insert_thread copy d1) of
                          (Inr _, d2) \<Rightarrow> (Inr (json_response_at 201 (thread_view s copy)), d2)
                        | (Inl err, d2) \<Rightarrow> (Inl err, del_thread new d2))))"

definition prune_request :: "env \<Rightarrow> http_request \<Rightarrow> response + string \<times> uuid list" where
  "prune_request e rq =
     (case hr_body rq of
        None \<Rightarrow> Inl (error_response 422 ''thread_ids must contain UUIDs'')
      | Some (JObj q) \<Rightarrow>
          (case dget q ''thread_ids'' of
             JList xs \<Rightarrow>
               (case dgetdef q ''strategy'' (JStr ''delete'') of
                  JStr strategy \<Rightarrow>
                    if strategy \<notin> set [''delete'', ''keep_latest''] then
                      Inl (error_response 422 ''strategy must be delete or keep_latest'')
                    else (case uuid_items e xs of
                        None \<Rightarrow> Inl (error_response 422 ''thread_ids must contain UUIDs'')
                      | Some ks \<Rightarrow> Inr (strategy, rev (remdups (rev ks))))
                | _ \<Rightarrow> Inl (error_response 422 ''strategy must be delete or keep_latest''))
           | _ \<Rightarrow> Inl (error_response 422 ''thread_ids must be a list of UUIDs''))
      | Some _ \<Rightarrow> Inl (error_response 422 ''thread_ids must be a list of UUIDs''))"

fun prune_predicates :: "site \<Rightarrow> string \<Rightarrow> uuid list \<Rightarrow> (uuid \<times> predicate) list res" where
  "prune_predicates s action [] = Inr []"
| "prune_predicates s action (k # ks) =
     rbind (authorized s ''threads'' action [(''thread_id'', JStr (uuid_str k))]) (\<lambda>(filters, _).
     rbind (compiled filters) (\<lambda>p.
     rbind (prune_predicates s action ks) (\<lambda>ps. Inr ((k, p) # ps))))"

definition prune_rows :: "(uuid \<times> predicate) list \<Rightarrow> db \<Rightarrow> uuid list" where
  "prune_rows ps d =
     sort (map th_id (filter (\<lambda>r. list_ex (\<lambda>(k, p). th_id r = k \<and> p (th_metadata r)) ps) (db_threads d)))"

fun prune_all :: "env \<Rightarrow> uuid list \<Rightarrow> db \<Rightarrow> db res" where
  "prune_all e [] d = Inr d"
| "prune_all e (k # ks) d = rbind (prune_checkpoints e k d) (prune_all e ks)"

definition threads_prune_http ::
  "env \<Rightarrow> saver \<Rightarrow> site \<Rightarrow> http_request \<Rightarrow> db \<Rightarrow> response res \<times> db" where
  "threads_prune_http e sv s rq d =
     (case prune_request e rq of
        Inl r \<Rightarrow> (Inr r, d)
      | Inr (strategy, ks) \<Rightarrow>
          (case prune_predicates s (if strategy = ''delete'' then ''delete'' else ''update'') ks of
             Inl err \<Rightarrow> (Inl err, d)
           | Inr ps \<Rightarrow>
               (let rows = prune_rows ps d;
                    counted = json_response (JObj [(''pruned_count'', JInt (int (length rows)))])
                in if strategy = ''delete'' then
                     (case delete_checkpoints sv rows (fold del_thread rows d) of
                        (Inl err, d') \<Rightarrow> (Inl err, d')
                      | (Inr _, d') \<Rightarrow> (Inr counted, d'))
                   else (case prune_all e rows d of
                       Inr d' \<Rightarrow> (Inr counted, d')
                     | Inl (CheckpointConflict msg) \<Rightarrow> (Inr (error_response 409 msg), d)
                     | Inl err \<Rightarrow> (Inl err, d)))))"

section \<open>Lemmas\<close>

text \<open>The copy with partial effects is the copy of the checkpoint module when nothing raises.\<close>

lemma copy_writes_partial:
  "copy_writes (fenced_aput_writes (\<lambda>c w t _. sv_put_writes sv c w t) e None) config ws d = Inr d' \<Longrightarrow>
   copy_writes_partial sv e config ws d = (Inr (), d')"
  by (induction ws arbitrary: d) (auto simp: rbind_eq_Inr)

lemma copy_items_partial:
  "copy_items (fenced_aput (sv_put sv) e None)
     (fenced_aput_writes (\<lambda>c w t _. sv_put_writes sv c w t) e None) e target items d = Inr d' \<Longrightarrow>
   copy_items_partial sv e target items d = (Inr (), d')"
  by (induction items arbitrary: d) (auto simp: rbind_eq_Inr dest: copy_writes_partial split: prod.splits)

lemma copy_checkpoints_agree:
  "copy_thread_checkpoints (sv_list sv) (sv_put sv) (\<lambda>c w t _. sv_put_writes sv c w t) e source target d
     = Inr d' \<Longrightarrow> copy_checkpoints_partial sv e source target d = (Inr (), d')"
  by (simp add: copy_thread_checkpoints_def copy_checkpoints_partial_def copy_items_partial)

lemma get_thread_http_Inr:
  "get_thread_http s rq action value d = Inr (Some (k, r), v) \<Longrightarrow> get_thread k d = Some r"
  by (auto simp: get_thread_http_def rbind_eq_Inr dest: authorized_resource_Inr split: option.splits)

lemma settled_Inr: "settled d r = (Inr x, d') \<longleftrightarrow> r = Inr (x, d')"
  by (auto simp: settled_def split: sum.splits prod.splits)

lemma set_prune_rows: "k \<in> set (prune_rows ps d) \<longleftrightarrow>
  (\<exists>r \<in> set (db_threads d). th_id r = k \<and> (\<exists>p. (k, p) \<in> set ps \<and> p (th_metadata r)))"
  by (auto simp: prune_rows_def list_ex_iff)

end
