(* ===== verification/RunHttp.thy ===== *)
theory RunHttp
  imports ThreadHttp
begin

text \<open>
  The run handlers of \<open>core_api.py\<close>: submission with its authorisation, context and signed identity,
  listing, reading, deletion, cancellation of one run and of a selection, waiting, batches and the
  queue operation, together with the pure argument checks of \<open>graph_executor.py\<close>. Messages
  published after the commit belong to the stream; metrics to their registry.
\<close>

section \<open>Arguments of an execution\<close>

definition DURABILITY_MODES :: "string list" where
  "DURABILITY_MODES = [''sync'', ''async'', ''exit'']"

definition normalize_durability :: "json \<Rightarrow> json res" where
  "normalize_durability v =
     (case v of
        JNull \<Rightarrow> Inr JNull
      | JStr m \<Rightarrow> if m \<in> set DURABILITY_MODES then Inr (JStr m)
                  else Inl (ValueError ''durability must be one of: sync, async, exit'')
      | _ \<Rightarrow> Inl (ValueError ''durability must be one of: sync, async, exit''))"

definition node_name :: "json \<Rightarrow> bool" where
  "node_name v = (case v of JStr t \<Rightarrow> py_strip t \<noteq> [] | _ \<Rightarrow> False)"

definition normalize_interrupt_nodes :: "json \<Rightarrow> string \<Rightarrow> json res" where
  "normalize_interrupt_nodes v field =
     (if v = JNull \<or> v = JStr ''*'' then Inr v
      else case v of
          JList xs \<Rightarrow>
            if list_all node_name xs then Inr (JList xs)
            else Inl (ValueError (field @ '' must be '' @ quoted ''*'' @ '' or a list of node names''))
        | _ \<Rightarrow> Inl (ValueError (field @ '' must be '' @ quoted ''*'' @ '' or a list of node names'')))"

section \<open>The parts of a submission\<close>

definition runtime_context :: "env \<Rightarrow> principal option \<Rightarrow> dict option" where
  "runtime_context e p =
     (case p of
        None \<Rightarrow> None
      | Some q \<Rightarrow>
          Some ([(''accepted_at'', JInt (e_now e div 1000000)),
                 (''permissions'', JList (map JStr (sort (pr_scopes q)))),
                 (''auth_user'', JObj (case pr_auth_user q of
                     Some u \<Rightarrow> if u \<noteq> [] then u else [(''identity'', JStr (pr_subject q))]
                   | None \<Rightarrow> [(''identity'', JStr (pr_subject q))]))] @
                (case pr_request_id q of None \<Rightarrow> [] | Some i \<Rightarrow> [(''request_id'', JStr i)])))"

definition resolve_assistant :: "site \<Rightarrow> string \<Rightarrow> db \<Rightarrow> assistant_row option res" where
  "resolve_assistant s v d =
     (let aid = (if graph_known s v then Some (hs_uuid5 s v) else parse_uuid v) in
      rbind (authorized s ''assistants'' ''read'' [(''assistant_id'', opt_str aid)]) (\<lambda>(filters, _).
      rbind (compiled filters) (\<lambda>p.
        Inr (find (\<lambda>r. (case aid of Some k \<Rightarrow> as_id r = k | None \<Rightarrow> as_graph_id r = v) \<and>
               p (as_metadata r)) (db_assistants d)))))"

text \<open>\<open>_thread_for_run\<close>: the thread, created on demand under the \<open>create\<close> authorisation.\<close>

definition thread_for_run_http ::
  "env \<Rightarrow> site \<Rightarrow> json \<Rightarrow> bool \<Rightarrow> db \<Rightarrow> (thread_row option \<times> db) res" where
  "thread_for_run_http e s v create d =
     (if v = JNull then Inr (None, d)
      else case parse_uuid (py_str e v) of
          None \<Rightarrow> Inr (None, d)
        | Some k \<Rightarrow>
            (case get_thread k d of
               Some r \<Rightarrow> Inr (Some r, d)
             | None \<Rightarrow>
                 if \<not> create then Inr (None, d)
                 else rbind (authorized s ''threads'' ''create''
                        [(''thread_id'', JStr (uuid_str k)), (''metadata'', JObj [])]) (\<lambda>(_, value).
                   case map_of value ''metadata'' of
                     None \<Rightarrow> Inl (KeyError ''metadata'')
                   | Some m \<Rightarrow>
                       rbind (object_column m) (\<lambda>metadata.
                         let r = (new_thread (e_now e) k ''idle'' metadata [])
                                   \<lparr>th_state_updated_at := None\<rparr>
                         in Inr (Some r, insert_thread r d)))))"

text \<open>
  The settings a run stores: the caller's, without the trusted fields, with the assistant's context
  under the caller's; durability and interrupt nodes are checked in this order.
\<close>

definition merged_context :: "dict \<Rightarrow> assistant_row \<Rightarrow> dict \<Rightarrow> dict" where
  "merged_context body assistant run_payload =
     (case dget body ''context'' of
        JObj rc \<Rightarrow> dset ''context'' (JObj (dmerge (as_context assistant) rc)) run_payload
      | _ \<Rightarrow> if \<not> dhas body ''context'' \<and> as_context assistant \<noteq> []
              then dset ''context'' (JObj (as_context assistant)) run_payload
              else run_payload)"

definition checked_nodes :: "string \<Rightarrow> dict \<Rightarrow> dict res" where
  "checked_nodes field q =
     (if dhas q field
      then rbind (normalize_interrupt_nodes (dget q field) field) (\<lambda>v. Inr (dset field v q))
      else Inr q)"

definition stored_settings :: "dict \<Rightarrow> assistant_row \<Rightarrow> dict res" where
  "stored_settings body assistant =
     (let q0 = merged_context body assistant (public_kwargs body) in
      rbind (normalize_durability (dget q0 ''durability'')) (\<lambda>durability.
        let q1 = (if dhas q0 ''durability'' then dset ''durability'' durability q0 else q0) in
      rbind (checked_nodes ''interrupt_before'' q1) (\<lambda>q2. checked_nodes ''interrupt_after'' q2)))"

definition check_checkpoint ::
  "graph_lib \<Rightarrow> dict \<Rightarrow> thread_row option \<Rightarrow> db \<Rightarrow> response option" where
  "check_checkpoint gl q thread d =
     (case dget q ''checkpoint_id'' of
        JNull \<Rightarrow> None
      | v \<Rightarrow>
          (case thread of
             None \<Rightarrow> Some (error_response 422 ''checkpoint_id requires a thread'')
           | Some th \<Rightarrow>
               if \<not> node_name v then
                 Some (error_response 422 ''checkpoint_id must be a non-empty string'')
               else (case gl_tuple gl (checkpoint_config (th_id th) v JNull) d of
                   Inl err \<Rightarrow> Some (read_failed gl ''checkpoint'' err)
                 | Inr None \<Rightarrow> Some (not_found ''checkpoint'')
                 | Inr (Some _) \<Rightarrow> None)))"

section \<open>Submitting\<close>

text \<open>\<open>UUID(thread_value) if thread_value else None\<close>.\<close>

definition given_thread :: "json \<Rightarrow> json res" where
  "given_thread v =
     (if \<not> truthy v then Inr JNull
      else case v of
          JStr t \<Rightarrow> (case parse_uuid t of
              None \<Rightarrow> Inl (ValueError ''badly formed hexadecimal UUID string'')
            | Some k \<Rightarrow> Inr (JStr (uuid_str k)))
        | _ \<Rightarrow> Inl (AttributeError ''replace''))"

definition raw_idempotency_key :: "http_request \<Rightarrow> dict \<Rightarrow> json" where
  "raw_idempotency_key rq body =
     pick (opt_json (map_of (hr_headers rq) ''idempotency-key'')) (dget body ''idempotency_key'')"

text \<open>The parts of the deployment a submission uses.\<close>

record runtime_lib =
  rl_graphs :: graph_lib
  rl_repo :: repository
  rl_codec :: codec
  rl_settings :: settings

definition trusted_kwargs :: "string \<Rightarrow> dict \<Rightarrow> dict" where
  "trusted_kwargs token kwargs =
     dpop ''runtime_context'' (dset ''runtime_context_token'' (JStr token) kwargs)"

text \<open>The signed identity replaces the plain one, unless the run has its token already.\<close>

definition sign_run ::
  "env \<Rightarrow> runtime_lib \<Rightarrow> dict option \<Rightarrow> thread_row option \<Rightarrow> run_row \<Rightarrow> db \<Rightarrow> db res" where
  "sign_run e rl trusted thread run d =
     (case trusted of
        None \<Rightarrow> Inr d
      | Some ctx \<Rightarrow>
          if truthy (dget (run_kwargs run) ''runtime_context_token'') then Inr d
          else rbind (sign_runtime_context e (rl_codec rl) (rl_settings rl) ctx
                        (uuid_str (run_id run)) (map_option (\<lambda>t. uuid_str (th_id t)) thread))
            (\<lambda>token. Inr (upd_run (run_id run)
               (\<lambda>x. x\<lparr>run_kwargs := trusted_kwargs token (run_kwargs x)\<rparr>) d)))"

definition http_submission ::
  "env \<Rightarrow> runtime_lib \<Rightarrow> site \<Rightarrow> http_request \<Rightarrow> dict \<Rightarrow> assistant_row \<Rightarrow> thread_row option \<Rightarrow> dict
    \<Rightarrow> submission res" where
  "http_submission e rl s rq body assistant thread q =
     rbind (object_column (dgetor body ''metadata'' (JObj []))) (\<lambda>metadata.
       Inr \<lparr>sb_assistant_id = as_id assistant, sb_thread_id = map_option th_id thread,
            sb_kwargs = (case runtime_context e (hs_principal s) of
                None \<Rightarrow> q | Some ctx \<Rightarrow> dset ''runtime_context'' (JObj ctx) q),
            sb_metadata = metadata,
            sb_idempotency_key =
              scoped_idempotency_key e (rl_codec rl) (hs_principal s) (raw_idempotency_key rq body),
            sb_multitask_strategy =
              Some (py_str e (dgetor body ''multitask_strategy'' (JStr ''enqueue'')))\<rparr>)"

definition store_run ::
  "env \<Rightarrow> runtime_lib \<Rightarrow> site \<Rightarrow> http_request \<Rightarrow> dict \<Rightarrow> assistant_row \<Rightarrow> thread_row option \<Rightarrow> db
    \<Rightarrow> (response \<times> db) res" where
  "store_run e rl s rq body assistant thread d =
     (case stored_settings body assistant of
        Inl (ValueError msg) \<Rightarrow> Inr (error_response 422 msg, d)
      | Inl err \<Rightarrow> Inl err
      | Inr q \<Rightarrow>
          (case check_checkpoint (rl_graphs rl) q thread d of
             Some r \<Rightarrow> Inr (r, d)
           | None \<Rightarrow>
               rbind (http_submission e rl s rq body assistant thread q) (\<lambda>sub.
                 case create_run (rl_repo rl) e sub d d of
                   Inl (RunConflictError msg) \<Rightarrow> Inr (error_response 409 msg, d)
                 | Inl err \<Rightarrow> Inl err
                 | Inr (run, d1) \<Rightarrow>
                     rbind (sign_run e rl (runtime_context e (hs_principal s)) thread run d1) (\<lambda>d2.
                       case get_run (run_id run) d2 of
                         None \<Rightarrow> Inl (RuntimeError ''Could not refresh instance'')
                       | Some r \<Rightarrow> Inr (json_response (run_view s r), d2)))))"

definition runs_create_http ::
  "env \<Rightarrow> runtime_lib \<Rightarrow> site \<Rightarrow> http_request \<Rightarrow> json \<Rightarrow> dict \<Rightarrow> db \<Rightarrow> (response \<times> db) res" where
  "runs_create_http e rl s rq thread_value body0 d =
     (if dget body0 ''input'' \<noteq> JNull \<and> dget body0 ''command'' \<noteq> JNull then
        Inr (error_response 422 ''input and command cannot be combined'', d)
      else
        let assistant_value = py_str e (dgetor body0 ''assistant_id'' (JStr [])) in
        if assistant_value = [] then Inr (error_response 422 ''assistant_id is required'', d)
        else
          rbind (given_thread thread_value) (\<lambda>tid.
          rbind (authorized s ''threads'' ''create_run''
              (dset ''kwargs'' (JObj body0) (dset ''assistant_id'' (JStr assistant_value)
                (dset ''thread_id'' tid body0)))) (\<lambda>(filters, value).
            let body = dset ''metadata'' (dgetdef value ''metadata'' (JObj [])) body0 in
          rbind (resolve_assistant s assistant_value d) (\<lambda>found.
            case found of
              None \<Rightarrow> Inr (not_found ''assistant'', d)
            | Some assistant \<Rightarrow>
                rbind (thread_for_run_http e s thread_value
                         (dget body ''if_not_exists'' = JStr ''create'') d) (\<lambda>(thread, d1).
                  if thread_value \<noteq> JNull \<and> thread = None then Inr (not_found ''thread'', d1)
                  else (case thread of
                      None \<Rightarrow> store_run e rl s rq body assistant None d1
                    | Some th \<Rightarrow>
                        rbind (compiled filters) (\<lambda>p.
                          if \<not> p (th_metadata th) then Inr (not_found ''thread'', d1)
                          else store_run e rl s rq body assistant thread d1)))))))"

text \<open>\<open>runs_create_root\<close> and \<open>runs_create_thread\<close>.\<close>

definition runs_create_root_http ::
  "env \<Rightarrow> runtime_lib \<Rightarrow> site \<Rightarrow> http_request \<Rightarrow> db \<Rightarrow> (response \<times> db) res" where
  "runs_create_root_http e rl s rq d =
     rbind (body_dict rq) (\<lambda>body. runs_create_http e rl s rq JNull body d)"

definition runs_create_thread_http ::
  "env \<Rightarrow> runtime_lib \<Rightarrow> site \<Rightarrow> http_request \<Rightarrow> db \<Rightarrow> (response \<times> db) res" where
  "runs_create_thread_http e rl s rq d =
     rbind (body_dict rq) (\<lambda>body.
       runs_create_http e rl s rq (opt_json (map_of (hr_path rq) ''thread_id'')) body d)"

section \<open>Reading\<close>

definition listed_run :: "http_request \<Rightarrow> uuid \<Rightarrow> run_row \<Rightarrow> bool" where
  "listed_run rq k r =
     (run_thread_id r = Some k \<and>
      (case map_of (hr_query rq) ''status'' of
         None \<Rightarrow> True | Some v \<Rightarrow> v \<noteq> [] \<longrightarrow> run_status r = v))"

definition runs_list_http :: "site \<Rightarrow> http_request \<Rightarrow> db \<Rightarrow> response res" where
  "runs_list_http s rq d =
     rbind (path_uuid rq ''thread_id'') (\<lambda>u.
       case u of
         None \<Rightarrow> Inr (not_found ''thread'')
       | Some k \<Rightarrow>
           (case pagination rq [] of
              Inl (ValueError msg) \<Rightarrow> Inr (error_response 422 msg)
            | Inl err \<Rightarrow> Inl err
            | Inr pg \<Rightarrow>
                rbind (get_thread_http s rq ''search'' [] d) (\<lambda>(found, _).
                  Inr (case found of
                     None \<Rightarrow> not_found ''thread''
                   | Some _ \<Rightarrow> json_response (JList (map (run_view s)
                       (page pg (newest_first run_created_at
                         (filter (listed_run rq k) (db_runs d))))))))))"

definition path_run :: "http_request \<Rightarrow> (uuid \<times> uuid) option res" where
  "path_run rq =
     rbind (path_uuid rq ''thread_id'') (\<lambda>t.
       case t of
         None \<Rightarrow> Inr None
       | Some tid \<Rightarrow>
           rbind (path_uuid rq ''run_id'') (\<lambda>r. Inr (map_option (Pair tid) r)))"

definition runs_get_http :: "site \<Rightarrow> http_request \<Rightarrow> db \<Rightarrow> response res" where
  "runs_get_http s rq d =
     rbind (path_run rq) (\<lambda>ids.
       case ids of
         None \<Rightarrow> Inr (not_found ''run'')
       | Some (tid, rid) \<Rightarrow>
           rbind (authorized_run s rid ''read'' [] d) (\<lambda>row.
             Inr (case row of
                None \<Rightarrow> not_found ''run''
              | Some r \<Rightarrow> if run_thread_id r = Some tid then json_response (run_view s r)
                          else not_found ''run'')))"

definition runs_delete_http :: "site \<Rightarrow> http_request \<Rightarrow> db \<Rightarrow> (response \<times> db) res" where
  "runs_delete_http s rq d =
     rbind (path_run rq) (\<lambda>ids.
       case ids of
         None \<Rightarrow> Inr (no_content, d)
       | Some (tid, rid) \<Rightarrow>
           rbind (authorized_run s rid ''delete'' [] d) (\<lambda>row.
             Inr (no_content,
               case row of None \<Rightarrow> d
               | Some r \<Rightarrow> if run_thread_id r = Some tid then del_run rid d else d)))"

section \<open>Waiting\<close>

fun interrupt_items :: "json list \<Rightarrow> json list res" where
  "interrupt_items [] = Inr []"
| "interrupt_items (x # xs) =
     (case x of
        JObj i \<Rightarrow>
          (case map_of i ''value'' of
             None \<Rightarrow> Inl (KeyError ''value'')
           | Some v \<Rightarrow>
               (case map_of i ''id'' of
                  None \<Rightarrow> Inl (KeyError ''id'')
                | Some k \<Rightarrow> rbind (interrupt_items xs) (\<lambda>ys.
                    Inr (JObj [(''value'', v), (''id'', k)] # ys))))
      | _ \<Rightarrow> Inl (TypeError ''interrupt is not subscriptable''))"

definition run_output :: "dict \<Rightarrow> json res" where
  "run_output p =
     (let interrupts = dgetor p ''interrupts'' (JList []) in
      case dget p ''output'' of
        JObj out \<Rightarrow>
          if truthy interrupts then
            rbind (py_list interrupts) (\<lambda>xs. rbind (interrupt_items xs) (\<lambda>ys.
              Inr (JObj (dset ''__interrupt__'' (JList ys) out))))
          else Inr (JObj out)
      | output \<Rightarrow> Inr output)"

definition terminal_event :: "uuid \<Rightarrow> db \<Rightarrow> event_row option" where
  "terminal_event rid d = find (\<lambda>x. ev_run_id x = Some rid \<and> ev_terminal x) (db_events d)"

text \<open>
  \<open>_wait_for_run\<close> polls until the deadline: the list holds the databases the polls see.
\<close>

fun wait_for_run :: "uuid \<Rightarrow> db list \<Rightarrow> json res" where
  "wait_for_run rid [] =
     Inr (JObj [(''detail'', JStr ''run wait timed out''), (''run_id'', JStr (uuid_str rid))])"
| "wait_for_run rid (d # ds) =
     (case get_run rid d of
        None \<Rightarrow> Inr (JObj [(''detail'', JStr ''run not found'')])
      | Some row \<Rightarrow>
          rbind (is_terminal (run_status row)) (\<lambda>over.
            if over then
              (case terminal_event rid d of
                 Some ev \<Rightarrow> run_output (ev_payload ev)
               | None \<Rightarrow> Inr JNull)
            else wait_for_run rid ds))"

definition runs_join_http :: "site \<Rightarrow> http_request \<Rightarrow> (db \<Rightarrow> db list) \<Rightarrow> db \<Rightarrow> response res" where
  "runs_join_http s rq polls d =
     rbind (path_run rq) (\<lambda>ids.
       case ids of
         None \<Rightarrow> Inr (not_found ''run'')
       | Some (tid, rid) \<Rightarrow>
           rbind (authorized_run s rid ''read'' [] d) (\<lambda>row.
             case row of
               None \<Rightarrow> Inr (not_found ''run'')
             | Some r \<Rightarrow>
                 if run_thread_id r \<noteq> Some tid then Inr (not_found ''run'')
                 else rbind (wait_for_run rid (polls d)) (\<lambda>v. Inr (json_response v))))"

text \<open>\<open>_runs_wait_impl\<close>: a submission, then the wait for the run its response names.\<close>

definition created_run_id :: "response \<Rightarrow> uuid option" where
  "created_run_id r =
     (case rs_body r of
        JsonBody (JObj o1) \<Rightarrow> (case dget o1 ''run_id'' of JStr t \<Rightarrow> parse_uuid t | _ \<Rightarrow> None)
      | _ \<Rightarrow> None)"

definition runs_wait_http ::
  "env \<Rightarrow> runtime_lib \<Rightarrow> site \<Rightarrow> http_request \<Rightarrow> json \<Rightarrow> (db \<Rightarrow> db list) \<Rightarrow> db \<Rightarrow> response res \<times> db" where
  "runs_wait_http e rl s rq thread_value polls d =
     (case rbind (body_dict rq) (\<lambda>body. runs_create_http e rl s rq thread_value body d) of
        Inl err \<Rightarrow> (Inl err, d)
      | Inr (created, d1) \<Rightarrow>
          if rs_status created \<ge> 300 then (Inr created, d1)
          else (case created_run_id created of
              None \<Rightarrow> (Inr (error_response 500 ''run creation returned an invalid run''), d1)
            | Some rid \<Rightarrow>
                (rbind (wait_for_run rid (polls d1)) (\<lambda>v. Inr (json_response v)), d1)))"

section \<open>Cancelling\<close>

definition cancel_action :: "http_request \<Rightarrow> string" where
  "cancel_action rq =
     (case map_of (hr_query rq) ''action'' of None \<Rightarrow> ''interrupt'' | Some v \<Rightarrow> v)"

definition bad_action :: response where
  "bad_action = error_response 422 ''action must be interrupt or rollback''"

text \<open>The loop that completes a rollback until the run is gone; \<open>n\<close> is the number of polls left.\<close>

fun await_rollback :: "env \<Rightarrow> (uuid \<Rightarrow> bool) \<Rightarrow> uuid \<Rightarrow> nat \<Rightarrow> db \<Rightarrow> bool \<times> db" where
  "await_rollback e locked rid n d =
     (let d1 = complete_rollbacks e None (Some rid) locked d in
      if get_run rid d1 = None then (True, d1)
      else case n of 0 \<Rightarrow> (False, d1) | Suc m \<Rightarrow> await_rollback e locked rid m d1)"

declare await_rollback.simps [simp del]

definition waits :: "http_request \<Rightarrow> bool" where
  "waits rq =
     (case map_of (hr_query rq) ''wait'' of
        None \<Rightarrow> False | Some v \<Rightarrow> v \<in> set [''1'', ''true'', ''True''])"

definition runs_cancel_http ::
  "env \<Rightarrow> site \<Rightarrow> http_request \<Rightarrow> (db \<Rightarrow> db list) \<Rightarrow> (uuid \<Rightarrow> bool) \<Rightarrow> nat \<Rightarrow> db \<Rightarrow> response res \<times> db" where
  "runs_cancel_http e s rq polls locked n d =
     (let action = cancel_action rq in
      if action \<notin> set [''interrupt'', ''rollback''] then (Inr bad_action, d)
      else case path_run rq of
          Inl err \<Rightarrow> (Inl err, d)
        | Inr None \<Rightarrow> (Inr (not_found ''run''), d)
        | Inr (Some (tid, rid)) \<Rightarrow>
            (case authorized_run s rid ''update'' [(''action'', JStr action)] d of
               Inl err \<Rightarrow> (Inl err, d)
             | Inr None \<Rightarrow> (Inr (not_found ''run''), d)
             | Inr (Some row) \<Rightarrow>
                 if run_thread_id row \<noteq> Some tid then (Inr (not_found ''run''), d)
                 else (case cancel_row e rid action d of
                     Inl (CheckpointConflict msg) \<Rightarrow> (Inr (error_response 409 msg), d)
                   | Inl err \<Rightarrow> (Inl err, d)
                   | Inr (_, d1) \<Rightarrow>
                       if action = ''interrupt'' then
                         (if waits rq
                          then (rbind (wait_for_run rid (polls d1)) (\<lambda>v. Inr (json_response v)), d1)
                          else (Inr (case get_run rid d1 of
                              None \<Rightarrow> json_response (JObj [])
                            | Some r \<Rightarrow> json_response (run_view s r)), d1))
                       else if waits rq then
                         (case await_rollback e locked rid n d1 of
                            (True, d2) \<Rightarrow> (Inr (json_response (JObj [])), d2)
                          | (False, d2) \<Rightarrow>
                              (Inr (error_response 503 ''rollback is still waiting for worker shutdown''), d2))
                       else (Inr (json_response (JObj [])), d1))))"

text \<open>The runs a bulk cancellation selects, latest checkpoint baseline first.\<close>

definition cancel_selection :: "env \<Rightarrow> dict \<Rightarrow> response + (run_row \<Rightarrow> bool)" where
  "cancel_selection e q =
     (case (if truthy (dget q ''thread_id'')
            then map_option (\<lambda>t r. run_thread_id r = Some t) (parse_uuid (py_str e (dget q ''thread_id'')))
            else Some (\<lambda>_. True)) of
        None \<Rightarrow> Inl (error_response 422 ''thread_id must be a UUID'')
      | Some on_thread \<Rightarrow>
          (case (if truthy (dget q ''run_ids'')
                 then map_option (\<lambda>ks r. run_id r \<in> set ks) (wanted_ids e (dget q ''run_ids''))
                 else Some (\<lambda>_. True)) of
             None \<Rightarrow> Inl (error_response 422 ''run_ids must contain UUIDs'')
           | Some in_ids \<Rightarrow>
               if dget q ''status'' \<in> {JStr ''pending'', JStr ''running''} then
                 Inr (\<lambda>r. on_thread r \<and> in_ids r \<and> JStr (run_status r) = dget q ''status'')
               else if dget q ''status'' \<in> {JNull, JStr ''all''} then
                 Inr (\<lambda>r. on_thread r \<and> in_ids r)
               else Inl (error_response 422 ''status must be pending, running, or all'')))"

definition cancel_order :: "db \<Rightarrow> run_row \<Rightarrow> (nat \<times> int) \<times> int \<times> uuid" where
  "cancel_order d r =
     ((case get_baseline (run_id r) d of None \<Rightarrow> (0, 0) | Some b \<Rightarrow> (1, - pj_captured_at (bl_projection b))),
      - run_created_at r, run_id r)"

fun cancel_each :: "env \<Rightarrow> site \<Rightarrow> string \<Rightarrow> uuid list \<Rightarrow> db \<Rightarrow> db res" where
  "cancel_each e s action [] d = Inr d"
| "cancel_each e s action (k # ks) d =
     rbind (authorized_run s k ''update'' [(''action'', JStr action)] d) (\<lambda>row.
       case row of
         None \<Rightarrow> cancel_each e s action ks d
       | Some _ \<Rightarrow> rbind (cancel_row e k action d) (\<lambda>(_, d1). cancel_each e s action ks d1))"

definition runs_cancel_many_http ::
  "env \<Rightarrow> site \<Rightarrow> http_request \<Rightarrow> db \<Rightarrow> (response \<times> db) res" where
  "runs_cancel_many_http e s rq d =
     (let action = cancel_action rq in
      if action \<notin> set [''interrupt'', ''rollback''] then Inr (bad_action, d)
      else rbind (body_dict rq) (\<lambda>q.
        case cancel_selection e q of
          Inl r \<Rightarrow> Inr (r, d)
        | Inr selected \<Rightarrow>
            (case cancel_each e s action
                    (map run_id (sort_key (cancel_order d) (filter selected (db_runs d)))) d of
               Inr d1 \<Rightarrow> Inr (json_response (JObj []), d1)
             | Inl (CheckpointConflict msg) \<Rightarrow> Inr (error_response 409 msg, d)
             | Inl err \<Rightarrow> Inl err)))"

section \<open>Batches and the queue\<close>

text \<open>A batch is a sequence of transactions: what was created before a refusal stays.\<close>

fun batch_create ::
  "env \<Rightarrow> runtime_lib \<Rightarrow> site \<Rightarrow> http_request \<Rightarrow> json list \<Rightarrow> json list \<Rightarrow> db \<Rightarrow> response res \<times> db" where
  "batch_create e rl s rq [] acc d = (Inr (json_response_at 201 (JList (rev acc))), d)"
| "batch_create e rl s rq (x # xs) acc d =
     (case x of
        JObj body \<Rightarrow>
          (case runs_create_http e rl s rq (dget body ''thread_id'') body d of
             Inl err \<Rightarrow> (Inl err, d)
           | Inr (r, d1) \<Rightarrow>
               if rs_status r \<ge> 300 then (Inr r, d1)
               else batch_create e rl s rq xs
                      ((case rs_body r of JsonBody v \<Rightarrow> v | _ \<Rightarrow> JNull) # acc) d1)
      | _ \<Rightarrow> (Inl (AttributeError ''get''), d))"

definition runs_batch_http ::
  "env \<Rightarrow> runtime_lib \<Rightarrow> site \<Rightarrow> http_request \<Rightarrow> db \<Rightarrow> response res \<times> db" where
  "runs_batch_http e rl s rq d =
     (case hr_body rq of
        None \<Rightarrow> (Inl (ValueError ''Expecting value''), d)
      | Some (JList xs) \<Rightarrow> batch_create e rl s rq xs [] d
      | Some _ \<Rightarrow> (Inr (error_response 422 ''runs batch payload must be an array''), d))"

text \<open>\<open>runs_queue\<close>: the errors of the queue operation are responses.\<close>

definition refused :: "db \<Rightarrow> (response \<times> db) res \<Rightarrow> (response \<times> db) res" where
  "refused d r = (case r of Inl (HTTPException code msg) \<Rightarrow> Inr (error_response code msg, d) | _ \<Rightarrow> r)"

definition runs_queue_http ::
  "env \<Rightarrow> (uuid \<Rightarrow> bool) \<Rightarrow> site \<Rightarrow> http_request \<Rightarrow> db \<Rightarrow> (response \<times> db) res" where
  "runs_queue_http e locked s rq d =
     (case (case hr_body rq of
              None \<Rightarrow> Inl (HTTPException 422 ''invalid queue IDs'')
            | Some v \<Rightarrow> parse_queue v) of
        Inl err \<Rightarrow> refused d (Inl err)
      | Inr q \<Rightarrow>
          rbind (get_thread_http s rq ''update'' [] d) (\<lambda>(found, _).
            case found of
              None \<Rightarrow> Inr (not_found ''thread'', d)
            | Some (k, _) \<Rightarrow>
                refused d (rbind (runs_queue e locked k q d) (\<lambda>(_, d1).
                  Inr (json_response (JList (map (run_view s) (queue_response (qr_expected q) d1))), d1)))))"

end
