(* ===== verification/CronHttp.thy ===== *)
theory CronHttp
  imports RunHttp CronOps
begin

text \<open>
  The cron handlers of \<open>core_api.py\<close>: create, search, count, get, update and delete.
\<close>

section \<open>Searching\<close>

text \<open>\<open>UUID(str(value)) if value\<close>: no condition, a condition, or (\<open>None\<close>) a refusal.\<close>

definition id_condition :: "env \<Rightarrow> json \<Rightarrow> ('r \<Rightarrow> uuid option) \<Rightarrow> ('r \<Rightarrow> bool) option" where
  "id_condition e v column =
     (if truthy v then map_option (\<lambda>k r. column r = Some k) (parse_uuid (py_str e v))
      else Some (\<lambda>_. True))"

definition cron_conditions :: "env \<Rightarrow> dict \<Rightarrow> response + (cron_row \<Rightarrow> bool)" where
  "cron_conditions e q =
     (case id_condition e (dget q ''assistant_id'') (\<lambda>r. Some (cr_assistant_id r)) of
        None \<Rightarrow> Inl (error_response 422 ''assistant_id must be a UUID'')
      | Some on_assistant \<Rightarrow>
          (case id_condition e (dget q ''thread_id'') cr_thread_id of
             None \<Rightarrow> Inl (error_response 422 ''thread_id must be a UUID'')
           | Some on_thread \<Rightarrow> Inr (\<lambda>r. on_assistant r \<and> on_thread r)))"

definition enabled_condition :: "dict \<Rightarrow> cron_row \<Rightarrow> bool" where
  "enabled_condition q r =
     (dget q ''enabled'' \<noteq> JNull \<longrightarrow> cr_enabled r = truthy (dget q ''enabled''))"

definition cron_matches :: "predicate \<Rightarrow> dict \<Rightarrow> (cron_row \<Rightarrow> bool) \<Rightarrow> cron_row \<Rightarrow> bool" where
  "cron_matches p q wanted r =
     (wanted r \<and> p (cr_metadata r) \<and> metadata_filter (dget q ''metadata'') (cr_metadata r))"

definition crons_search_http :: "env \<Rightarrow> site \<Rightarrow> http_request \<Rightarrow> db \<Rightarrow> response res" where
  "crons_search_http e s rq d =
     rbind (body_dict rq) (\<lambda>body.
     rbind (authorized s ''crons'' ''search'' body) (\<lambda>(filters, q).
       case pagination rq q of
         Inl (ValueError msg) \<Rightarrow> Inr (error_response 422 msg)
       | Inl err \<Rightarrow> Inl err
       | Inr pg \<Rightarrow>
           (case cron_conditions e q of
              Inl r \<Rightarrow> Inr r
            | Inr wanted \<Rightarrow>
                rbind (compiled filters) (\<lambda>p.
                  Inr (json_response (JList (map (cron_view s) (page pg
                    (filter (\<lambda>r. cron_matches p q wanted r \<and> enabled_condition q r)
                      (newest_first cr_created_at (db_crons d)))))))))))"

definition crons_count_http :: "env \<Rightarrow> site \<Rightarrow> http_request \<Rightarrow> db \<Rightarrow> response res" where
  "crons_count_http e s rq d =
     rbind (body_dict rq) (\<lambda>body.
     rbind (authorized s ''crons'' ''search'' body) (\<lambda>(filters, q).
       case cron_conditions e q of
         Inl r \<Rightarrow> Inr r
       | Inr wanted \<Rightarrow>
           rbind (compiled filters) (\<lambda>p.
             Inr (json_response (JInt (int (length
               (filter (cron_matches p q wanted) (db_crons d)))))))))"

section \<open>Writing\<close>

text \<open>\<open>datetime.fromisoformat(str(value).replace("Z", "+00:00")) if value else None\<close>.\<close>

definition end_time_of :: "env \<Rightarrow> site \<Rightarrow> json \<Rightarrow> time option res" where
  "end_time_of e s v =
     (if \<not> truthy v then Inr None
      else case hs_parse_iso s (replace_char CHR ''Z'' ''+00:00'' (py_str e v)) of
          None \<Rightarrow> Inl (ValueError ''Invalid isoformat string'')
        | Some t \<Rightarrow> Inr (Some t))"

definition required :: "dict \<Rightarrow> string \<Rightarrow> json res" where
  "required q k = (case map_of q k of None \<Rightarrow> Inl (KeyError k) | Some v \<Rightarrow> Inr v)"

definition posted_cron ::
  "env \<Rightarrow> uuid \<Rightarrow> uuid \<Rightarrow> uuid option \<Rightarrow> time option \<Rightarrow> dict \<Rightarrow> cron_row res" where
  "posted_cron e k aid tid end_time q =
     rbind (required q ''schedule'') (\<lambda>schedule.
     rbind (object_column (dgetor q ''metadata'' (JObj []))) (\<lambda>metadata.
     rbind (nullable_text (dget q ''timezone'')) (\<lambda>tz.
     rbind (nullable_text (dget q ''on_run_completed'')) (\<lambda>completed.
       Inr \<lparr>cr_id = k, cr_assistant_id = aid, cr_thread_id = tid, cr_schedule = py_str e schedule,
            cr_payload = q, cr_metadata = metadata, cr_next_run_date = None, cr_end_time = end_time,
            cr_user_id = None, cr_timezone = tz, cr_on_run_completed = completed,
            cr_enabled = truthy (dgetdef q ''enabled'' (JBool True)), cr_created_at = e_now e,
            cr_updated_at = e_now e\<rparr>))))"

definition insert_cron :: "env \<Rightarrow> site \<Rightarrow> assistant_row \<Rightarrow> uuid option \<Rightarrow> dict \<Rightarrow> db \<Rightarrow> (response \<times> db) res" where
  "insert_cron e s assistant tid q d =
     (case end_time_of e s (dget q ''end_time'') of
        Inl _ \<Rightarrow> Inr (error_response 422 ''end_time must be an ISO date-time'', d)
      | Inr end_time \<Rightarrow>
          (let k = e_uuid e (db_draws d) in
           rbind (posted_cron e k (as_id assistant) tid end_time q) (\<lambda>r.
             if get_cron k d \<noteq> None then Inl IntegrityError
             else Inr (json_response (cron_view s r),
                    d\<lparr>db_crons := db_crons d @ [r], db_draws := db_draws d + 1\<rparr>))))"

definition cron_create_http ::
  "env \<Rightarrow> site \<Rightarrow> http_request \<Rightarrow> json \<Rightarrow> db \<Rightarrow> (response \<times> db) res" where
  "cron_create_http e s rq thread_value d =
     rbind (body_dict rq) (\<lambda>body.
       if \<not> truthy (dget body ''schedule'') \<or> \<not> truthy (dget body ''assistant_id'') then
         Inr (error_response 422 ''schedule and assistant_id are required'', d)
       else
         rbind (authorized s ''crons'' ''create'' (dset ''thread_id'' thread_value body)) (\<lambda>(_, q).
         rbind (required q ''assistant_id'') (\<lambda>av.
         rbind (resolve_assistant s (py_str e av) d) (\<lambda>found.
           case found of
             None \<Rightarrow> Inr (not_found ''assistant'', d)
           | Some assistant \<Rightarrow>
               rbind (thread_for_run_http e s thread_value False d) (\<lambda>(thread, d1).
                 if thread_value \<noteq> JNull \<and> thread = None then Inr (not_found ''thread'', d1)
                 else insert_cron e s assistant (map_option th_id thread) q d1)))))"

definition cron_get_http :: "site \<Rightarrow> http_request \<Rightarrow> db \<Rightarrow> response res" where
  "cron_get_http s rq d =
     rbind (path_uuid rq ''cron_id'') (\<lambda>u.
       case u of
         None \<Rightarrow> Inr (not_found ''cron'')
       | Some k \<Rightarrow>
           rbind (authorized_resource s cr_metadata ''crons'' k ''read'' [] (get_cron k d))
             (\<lambda>(row, _). Inr (case row of
                None \<Rightarrow> not_found ''cron'' | Some r \<Rightarrow> json_response (cron_view s r))))"

definition cron_edition :: "env \<Rightarrow> dict \<Rightarrow> time option \<Rightarrow> cron_row \<Rightarrow> cron_row" where
  "cron_edition e q end_time r =
     (case dget q ''metadata'' of
        JObj m \<Rightarrow> r\<lparr>cr_metadata := dmerge (cr_metadata r) m\<rparr>
      | _ \<Rightarrow> r)\<lparr>cr_end_time := end_time,
          cr_payload := dmerge (cr_payload r) (filter (\<lambda>(k, _). k \<noteq> ''cron_id'') q),
          cr_updated_at := e_now e\<rparr>"

definition edited_cron :: "env \<Rightarrow> site \<Rightarrow> dict \<Rightarrow> cron_row \<Rightarrow> cron_row res" where
  "edited_cron e s q r =
     rbind (set_field text_column (\<lambda>v x. x\<lparr>cr_schedule := v\<rparr>) ''schedule'' q r) (\<lambda>r1.
     rbind (set_field nullable_text (\<lambda>v x. x\<lparr>cr_timezone := v\<rparr>) ''timezone'' q r1) (\<lambda>r2.
     rbind (set_field nullable_text (\<lambda>v x. x\<lparr>cr_on_run_completed := v\<rparr>) ''on_run_completed'' q r2)
       (\<lambda>r3.
     rbind (set_field bool_column (\<lambda>v x. x\<lparr>cr_enabled := v\<rparr>) ''enabled'' q r3) (\<lambda>r4.
     rbind (if dhas q ''end_time'' then end_time_of e s (dget q ''end_time'') else Inr (cr_end_time r4))
       (\<lambda>end_time. Inr (cron_edition e q end_time r4))))))"

definition cron_update_http :: "env \<Rightarrow> site \<Rightarrow> http_request \<Rightarrow> db \<Rightarrow> (response \<times> db) res" where
  "cron_update_http e s rq d =
     rbind (path_uuid rq ''cron_id'') (\<lambda>u.
       case u of
         None \<Rightarrow> Inr (not_found ''cron'', d)
       | Some k \<Rightarrow>
           rbind (body_dict rq) (\<lambda>body.
           rbind (authorized_resource s cr_metadata ''crons'' k ''update'' body (get_cron k d))
             (\<lambda>(row, q).
             case row of
               None \<Rightarrow> Inr (not_found ''cron'', d)
             | Some r \<Rightarrow>
                 rbind (edited_cron e s q r) (\<lambda>r'.
                   Inr (json_response (cron_view s r'), upd_cron k (\<lambda>_. r') d)))))"

definition cron_delete_http :: "site \<Rightarrow> http_request \<Rightarrow> db \<Rightarrow> (response \<times> db) res" where
  "cron_delete_http s rq d =
     rbind (path_uuid rq ''cron_id'') (\<lambda>u.
       case u of
         None \<Rightarrow> Inr (no_content, d)
       | Some k \<Rightarrow>
           rbind (authorized_resource s cr_metadata ''crons'' k ''delete'' [] (get_cron k d))
             (\<lambda>(row, _). Inr (no_content,
                case row of None \<Rightarrow> d | Some _ \<Rightarrow> d\<lparr>db_crons := t_del cr_id k (db_crons d)\<rparr>)))"

section \<open>Lemmas\<close>

lemma edited_cron_id: "edited_cron e s q r = Inr r' \<Longrightarrow> cr_id r' = cr_id r"
proof -
  assume "edited_cron e s q r = Inr r'"
  then obtain r1 r2 r3 r4 t where
    s1: "set_field text_column (\<lambda>v x. x\<lparr>cr_schedule := v\<rparr>) ''schedule'' q r = Inr r1" and
    s2: "set_field nullable_text (\<lambda>v x. x\<lparr>cr_timezone := v\<rparr>) ''timezone'' q r1 = Inr r2" and
    s3: "set_field nullable_text (\<lambda>v x. x\<lparr>cr_on_run_completed := v\<rparr>) ''on_run_completed'' q r2
           = Inr r3" and
    s4: "set_field bool_column (\<lambda>v x. x\<lparr>cr_enabled := v\<rparr>) ''enabled'' q r3 = Inr r4" and
    r': "r' = cron_edition e q t r4"
    unfolding edited_cron_def rbind_eq_Inr by blast
  have "cr_id (cron_edition e q t r4) = cr_id r4"
    by (simp add: cron_edition_def split: json.split)
  with r' show ?thesis
    using set_field_keeps [OF s1, of cr_id] set_field_keeps [OF s2, of cr_id]
      set_field_keeps [OF s3, of cr_id] set_field_keeps [OF s4, of cr_id] by simp
qed

end
