(* ===== verification/HttpServer.thy ===== *)
theory HttpServer
  imports CronHttp
begin

text \<open>
  The application of \<open>server.py\<close>: its routing table and the way requests are matched to it, the
  operations its OpenAPI document lists, the middleware order, and the dispatch of a request to the
  handlers of the resource theories. Streams, the store, the thread protocol, MCP, graph
  introspection and the status pages are endpoints the dispatch leaves alone.
\<close>

section \<open>Routes\<close>

datatype endpoint =
    StatusOk | StatusLive | StatusReady | StatusInfo | OpenApi | ApiDocs | MetricsPage
  | AssistantsSearch | AssistantsCount | AssistantsList | AssistantsCreate | AssistantsVersions
  | AssistantsLatest | AssistantsGraph | AssistantsSchemas | AssistantsSubgraphs | AssistantsGet
  | AssistantsUpdate | AssistantsDelete
  | ThreadsSearch | ThreadsCount | ThreadsPrune | ThreadsList | ThreadsCreate | ThreadsCopy
  | ThreadsState | ThreadsUpdateState | ThreadsHistory | ThreadStream | ThreadsGet | ThreadsUpdate
  | ThreadsDelete
  | RunsStreamExisting | RunsStream | RunsBatch | RunsCancelMany | RunsWaitRoot | RunsCreateRoot
  | RunsWait | RunsList | RunsCreateThread | RunsQueue | RunsCancel | RunsJoin | RunsGet | RunsDelete
  | ProtocolCommands | ProtocolEventStream
  | StorePut | StoreGet | StoreDelete | StoreSearch | StoreListNamespaces
  | CronCreateThread | CronCreateRoot | CronsSearch | CronsCount | CronUpdate | CronGet | CronDelete
  | McpMount | CustomApp

type_synonym route = "string \<times> endpoint \<times> string list"

definition ROUTES :: "route list" where
  "ROUTES =
    [(''/ok'', StatusOk, [''GET'']), (''/live'', StatusLive, [''GET'']),
     (''/ready'', StatusReady, [''GET'']), (''/info'', StatusInfo, [''GET'']),
     (''/openapi.json'', OpenApi, [''GET'']), (''/docs'', ApiDocs, [''GET'']),
     (''/metrics'', MetricsPage, [''GET'']),
     (''/assistants/search'', AssistantsSearch, [''POST'']),
     (''/assistants/count'', AssistantsCount, [''POST'']),
     (''/assistants'', AssistantsList, [''GET'']),
     (''/assistants'', AssistantsCreate, [''POST'']),
     (''/assistants/{assistant_id}/versions'', AssistantsVersions, [''POST'']),
     (''/assistants/{assistant_id}/latest'', AssistantsLatest, [''POST'']),
     (''/assistants/{assistant_id}/graph'', AssistantsGraph, [''GET'']),
     (''/assistants/{assistant_id}/schemas'', AssistantsSchemas, [''GET'']),
     (''/assistants/{assistant_id}/subgraphs/{namespace}'', AssistantsSubgraphs, [''GET'']),
     (''/assistants/{assistant_id}/subgraphs'', AssistantsSubgraphs, [''GET'']),
     (''/assistants/{assistant_id}'', AssistantsGet, [''GET'']),
     (''/assistants/{assistant_id}'', AssistantsUpdate, [''PATCH'']),
     (''/assistants/{assistant_id}'', AssistantsDelete, [''DELETE'']),
     (''/threads/search'', ThreadsSearch, [''POST'']),
     (''/threads/count'', ThreadsCount, [''POST'']),
     (''/threads/prune'', ThreadsPrune, [''POST'']),
     (''/threads'', ThreadsList, [''GET'']),
     (''/threads'', ThreadsCreate, [''POST'']),
     (''/threads/{thread_id}/copy'', ThreadsCopy, [''POST'']),
     (''/threads/{thread_id}/state/checkpoint'', ThreadsState, [''POST'']),
     (''/threads/{thread_id}/state/{checkpoint_id}'', ThreadsState, [''GET'']),
     (''/threads/{thread_id}/state'', ThreadsState, [''GET'']),
     (''/threads/{thread_id}/state'', ThreadsUpdateState, [''POST'', ''PATCH'']),
     (''/threads/{thread_id}/history'', ThreadsHistory, [''GET'', ''POST'']),
     (''/threads/{thread_id}/stream'', ThreadStream, [''GET'']),
     (''/threads/{thread_id}'', ThreadsGet, [''GET'']),
     (''/threads/{thread_id}'', ThreadsUpdate, [''PATCH'']),
     (''/threads/{thread_id}'', ThreadsDelete, [''DELETE'']),
     (''/runs/{run_id}/stream'', RunsStreamExisting, [''GET'']),
     (''/runs/stream'', RunsStream, [''POST'']),
     (''/runs/batch'', RunsBatch, [''POST'']),
     (''/runs/cancel'', RunsCancelMany, [''POST'']),
     (''/runs/wait'', RunsWaitRoot, [''POST'']),
     (''/runs'', RunsCreateRoot, [''POST'']),
     (''/threads/{thread_id}/runs/crons'', CronCreateThread, [''POST'']),
     (''/threads/{thread_id}/runs/wait'', RunsWait, [''POST'']),
     (''/threads/{thread_id}/runs'', RunsList, [''GET'']),
     (''/threads/{thread_id}/runs/{run_id}/stream'', RunsStreamExisting, [''GET'']),
     (''/threads/{thread_id}/runs/stream'', RunsStream, [''POST'']),
     (''/threads/{thread_id}/commands'', ProtocolCommands, [''POST'']),
     (''/threads/{thread_id}/stream/events'', ProtocolEventStream, [''POST'']),
     (''/store/items'', StorePut, [''PUT'']),
     (''/store/items'', StoreGet, [''GET'']),
     (''/store/items'', StoreDelete, [''DELETE'']),
     (''/store/items/search'', StoreSearch, [''POST'']),
     (''/store/namespaces'', StoreListNamespaces, [''POST'']),
     (''/threads/{thread_id}/runs'', RunsCreateThread, [''POST'']),
     (''/threads/{thread_id}/runs/queue'', RunsQueue, [''POST'']),
     (''/threads/{thread_id}/runs/{run_id}/cancel'', RunsCancel, [''POST'']),
     (''/threads/{thread_id}/runs/{run_id}/join'', RunsJoin, [''GET'']),
     (''/threads/{thread_id}/runs/{run_id}'', RunsGet, [''GET'']),
     (''/threads/{thread_id}/runs/{run_id}'', RunsDelete, [''DELETE'']),
     (''/runs/crons/search'', CronsSearch, [''POST'']),
     (''/runs/crons/count'', CronsCount, [''POST'']),
     (''/runs/crons'', CronCreateRoot, [''POST'']),
     (''/runs/crons/{cron_id}'', CronUpdate, [''PATCH'']),
     (''/runs/crons/{cron_id}'', CronGet, [''GET'']),
     (''/runs/crons/{cron_id}'', CronDelete, [''DELETE''])]"

text \<open>The template and the methods of every operation that is routed.\<close>

definition routed_operations :: "(string \<times> string) list" where
  "routed_operations = concat (map (\<lambda>(template, ep, ms). map (Pair template) ms) ROUTES)"

section \<open>The OpenAPI document\<close>

text \<open>The operations of \<open>_openapi_document\<close>, with the methods in upper case.\<close>

definition DOCUMENTED :: "(string \<times> string list) list" where
  "DOCUMENTED =
    [(''/ok'', [''GET'']), (''/live'', [''GET'']), (''/ready'', [''GET'']), (''/info'', [''GET'']),
     (''/docs'', [''GET'']), (''/metrics'', [''GET'']), (''/mcp/'', [''DELETE'', ''GET'', ''POST'']),
     (''/assistants'', [''GET'', ''POST'']), (''/assistants/search'', [''POST'']),
     (''/assistants/count'', [''POST'']),
     (''/assistants/{assistant_id}'', [''GET'', ''PATCH'', ''DELETE'']),
     (''/assistants/{assistant_id}/versions'', [''POST'']),
     (''/assistants/{assistant_id}/latest'', [''POST'']),
     (''/assistants/{assistant_id}/graph'', [''GET'']),
     (''/assistants/{assistant_id}/schemas'', [''GET'']),
     (''/assistants/{assistant_id}/subgraphs'', [''GET'']),
     (''/assistants/{assistant_id}/subgraphs/{namespace}'', [''GET'']),
     (''/threads'', [''GET'', ''POST'']), (''/threads/search'', [''POST'']),
     (''/threads/count'', [''POST'']), (''/threads/prune'', [''POST'']),
     (''/threads/{thread_id}'', [''GET'', ''PATCH'', ''DELETE'']),
     (''/threads/{thread_id}/copy'', [''POST'']),
     (''/threads/{thread_id}/state'', [''GET'', ''POST'', ''PATCH'']),
     (''/threads/{thread_id}/state/checkpoint'', [''POST'']),
     (''/threads/{thread_id}/state/{checkpoint_id}'', [''GET'']),
     (''/threads/{thread_id}/history'', [''GET'', ''POST'']),
     (''/threads/{thread_id}/stream'', [''GET'']),
     (''/runs'', [''POST'']), (''/runs/wait'', [''POST'']), (''/runs/batch'', [''POST'']),
     (''/runs/cancel'', [''POST'']), (''/runs/stream'', [''POST'']),
     (''/runs/{run_id}/stream'', [''GET'']),
     (''/threads/{thread_id}/runs'', [''GET'', ''POST'']),
     (''/threads/{thread_id}/runs/wait'', [''POST'']),
     (''/threads/{thread_id}/runs/stream'', [''POST'']),
     (''/threads/{thread_id}/runs/{run_id}/stream'', [''GET'']),
     (''/threads/{thread_id}/runs/{run_id}'', [''GET'', ''DELETE'']),
     (''/threads/{thread_id}/runs/{run_id}/cancel'', [''POST'']),
     (''/threads/{thread_id}/runs/{run_id}/join'', [''GET'']),
     (''/threads/{thread_id}/commands'', [''POST'']),
     (''/threads/{thread_id}/stream/events'', [''POST'']),
     (''/store/items'', [''GET'', ''PUT'', ''DELETE'']), (''/store/items/search'', [''POST'']),
     (''/store/namespaces'', [''POST'']), (''/runs/crons'', [''POST'']),
     (''/runs/crons/search'', [''POST'']), (''/runs/crons/count'', [''POST'']),
     (''/runs/crons/{cron_id}'', [''GET'', ''PATCH'', ''DELETE'']),
     (''/threads/{thread_id}/runs/crons'', [''POST''])]"

definition documented_operations :: "(string \<times> string) list" where
  "documented_operations = concat (map (\<lambda>(template, ms). map (Pair template) ms) DOCUMENTED)"

section \<open>Dispatch\<close>

record deployment =
  dp_runtime :: runtime_lib
  dp_saver :: saver
  dp_loads :: "string \<Rightarrow> json option"
  dp_polls :: "db \<Rightarrow> db list" \<comment> \<open>the databases the polls of a wait see\<close>
  dp_locked :: "uuid \<Rightarrow> bool" \<comment> \<open>rows that other transactions hold\<close>
  dp_wait :: nat

text \<open>\<open>_assistants\<close> and \<open>_threads\<close> search with the query parameters as the body.\<close>

definition query_body :: "http_request \<Rightarrow> http_request" where
  "query_body rq = rq\<lparr>hr_body := Some (JObj (map (\<lambda>(k, v). (k, JStr v)) (hr_query rq)))\<rparr>"

definition reads :: "response res \<Rightarrow> db \<Rightarrow> (response res \<times> db) option" where
  "reads r d = Some (r, d)"

definition writes :: "(response \<times> db) res \<Rightarrow> db \<Rightarrow> (response res \<times> db) option" where
  "writes r d = Some (settled d r)"

definition serve ::
  "env \<Rightarrow> site \<Rightarrow> deployment \<Rightarrow> endpoint \<Rightarrow> http_request \<Rightarrow> db \<Rightarrow> (response res \<times> db) option" where
  "serve e s dp ep rq d =
     (let rl = dp_runtime dp; gl = rl_graphs rl; sv = dp_saver dp;
          tid = opt_json (map_of (hr_path rq) ''thread_id'')
      in case ep of
       AssistantsSearch \<Rightarrow> reads (assistants_search_http e s rq d) d
     | AssistantsCount \<Rightarrow> reads (assistants_count_http e s rq d) d
     | AssistantsList \<Rightarrow> reads (assistants_search_http e s (query_body rq) d) d
     | AssistantsCreate \<Rightarrow> writes (assistants_create_http e s rq d) d
     | AssistantsVersions \<Rightarrow> reads (assistants_versions_http s rq d) d
     | AssistantsLatest \<Rightarrow> writes (assistants_latest_http e s rq d) d
     | AssistantsGet \<Rightarrow> reads (assistants_get_http s rq d) d
     | AssistantsUpdate \<Rightarrow> writes (assistants_update_http e s rq d) d
     | AssistantsDelete \<Rightarrow> writes (assistants_delete_http s rq d) d
     | ThreadsSearch \<Rightarrow> reads (threads_search_http e s rq d) d
     | ThreadsCount \<Rightarrow> reads (threads_count_http e s rq d) d
     | ThreadsList \<Rightarrow> reads (threads_search_http e s (query_body rq) d) d
     | ThreadsPrune \<Rightarrow> Some (threads_prune_http e sv s rq d)
     | ThreadsCreate \<Rightarrow> writes (threads_create_http e s rq d) d
     | ThreadsCopy \<Rightarrow> Some (threads_copy_http e sv s rq d)
     | ThreadsState \<Rightarrow> reads (threads_state_http e gl s rq d) d
     | ThreadsUpdateState \<Rightarrow> Some (threads_update_state_http e gl s rq d)
     | ThreadsHistory \<Rightarrow> reads (threads_history_http e gl (dp_loads dp) s rq d) d
     | ThreadsGet \<Rightarrow> reads (threads_get_http s rq d) d
     | ThreadsUpdate \<Rightarrow> writes (threads_update_http e s rq d) d
     | ThreadsDelete \<Rightarrow> Some (threads_delete_http sv s rq d)
     | RunsBatch \<Rightarrow> Some (runs_batch_http e rl s rq d)
     | RunsCancelMany \<Rightarrow> writes (runs_cancel_many_http e s rq d) d
     | RunsWaitRoot \<Rightarrow> Some (runs_wait_http e rl s rq JNull (dp_polls dp) d)
     | RunsCreateRoot \<Rightarrow> writes (runs_create_root_http e rl s rq d) d
     | RunsWait \<Rightarrow> Some (runs_wait_http e rl s rq tid (dp_polls dp) d)
     | RunsList \<Rightarrow> reads (runs_list_http s rq d) d
     | RunsCreateThread \<Rightarrow> writes (runs_create_thread_http e rl s rq d) d
     | RunsQueue \<Rightarrow> writes (runs_queue_http e (dp_locked dp) s rq d) d
     | RunsCancel \<Rightarrow>
         Some (runs_cancel_http e s rq (dp_polls dp) (dp_locked dp) (dp_wait dp) d)
     | RunsJoin \<Rightarrow> reads (runs_join_http s rq (dp_polls dp) d) d
     | RunsGet \<Rightarrow> reads (runs_get_http s rq d) d
     | RunsDelete \<Rightarrow> writes (runs_delete_http s rq d) d
     | CronCreateThread \<Rightarrow> writes (cron_create_http e s rq tid d) d
     | CronCreateRoot \<Rightarrow> writes (cron_create_http e s rq JNull d) d
     | CronsSearch \<Rightarrow> reads (crons_search_http e s rq d) d
     | CronsCount \<Rightarrow> reads (crons_count_http e s rq d) d
     | CronUpdate \<Rightarrow> writes (cron_update_http e s rq d) d
     | CronGet \<Rightarrow> reads (cron_get_http s rq d) d
     | CronDelete \<Rightarrow> writes (cron_delete_http s rq d) d
     | _ \<Rightarrow> None)"

section \<open>Middleware\<close>

text \<open>
  The identity middleware is the outermost, so it also sees the preflight requests of browsers;
  the cross-origin middleware behind it answers those it is configured for.
\<close>

record cors =
  co_origins :: "string list"
  co_methods :: "string list"

text \<open>
  The framework is a parameter: \<open>fw_preflight\<close> is the answer of its cross-origin middleware to a
  preflight request (\<open>None\<close>: not a preflight), \<open>fw_route\<close> the route its router finds in a table.
\<close>

datatype routing = Handled endpoint "(string \<times> string) list" | WrongMethod | Unrouted

record framework =
  fw_preflight :: "cors \<Rightarrow> request \<Rightarrow> int option"
  fw_route :: "route list \<Rightarrow> string \<Rightarrow> string \<Rightarrow> routing"

text \<open>The mounts come last: MCP under its prefix unless it is disabled, and a custom application.\<close>

definition route_table :: "bool \<Rightarrow> bool \<Rightarrow> route list" where
  "route_table mcp custom =
     ROUTES @ (if mcp then [(''/mcp'', McpMount, [])] else []) @
     (if custom then [(''/'', CustomApp, [])] else [])"

datatype arrival =
    Answered int \<comment> \<open>answered before the routes\<close>
  | Escaped py_error
  | Routed "principal option" routing

definition arrive ::
  "env \<Rightarrow> framework \<Rightarrow> auth_handler_config \<Rightarrow> bool \<Rightarrow> cors \<Rightarrow> bool \<Rightarrow> bool \<Rightarrow> request \<Rightarrow> arrival" where
  "arrive e fw h allow_anonymous c mcp custom rq =
     (case principal_middleware e h allow_anonymous rq of
        Refuse code _ \<Rightarrow> Answered code
      | Crash err \<Rightarrow> Escaped err
      | Admit p \<Rightarrow>
          (case (if co_origins c = [] then None else fw_preflight fw c rq) of
             Some code \<Rightarrow> Answered code
           | None \<Rightarrow> Routed p (fw_route fw (route_table mcp custom) (rq_method rq) (rq_path rq))))"

text \<open>\<open>http_config["cors"]\<close> with the defaults of the source.\<close>

definition cors_methods :: "string list option \<Rightarrow> string list" where
  "cors_methods ms0 =
     (case ms0 of
        None \<Rightarrow> [''GET'', ''POST'', ''PATCH'', ''DELETE'', ''OPTIONS''] | Some ms \<Rightarrow> ms)"

end
