(* ===== verification/Isolation.thy ===== *)
theory Isolation
  imports HttpServer
begin

text \<open>
  What the application's authorisation filters guarantee across the HTTP handlers. A policy is a
  predicate on metadata that every filter the application returns implies. Reading handlers answer
  as if the rows outside the policy were not there, and writing handlers leave those rows, and the
  runs of those threads, exactly as they are.
\<close>

section \<open>Policies and hidden rows\<close>

definition policy :: "site \<Rightarrow> (dict \<Rightarrow> bool) \<Rightarrow> bool" where
  "policy s P = (\<forall>resource action value filters v p m.
     authorized s resource action value = Inr (filters, v) \<longrightarrow> compiled filters = Inr p \<longrightarrow> p m \<longrightarrow> P m)"

text \<open>Primary keys.\<close>

definition keyed :: "db \<Rightarrow> bool" where
  "keyed d = (distinct (map as_id (db_assistants d)) \<and> distinct (map th_id (db_threads d)) \<and>
     distinct (map run_id (db_runs d)) \<and> distinct (map cr_id (db_crons d)))"

definition thread_shown :: "(dict \<Rightarrow> bool) \<Rightarrow> db \<Rightarrow> uuid \<Rightarrow> bool" where
  "thread_shown P d t = list_ex (\<lambda>th. th_id th = t \<and> P (th_metadata th)) (db_threads d)"

definition visible_db :: "(dict \<Rightarrow> bool) \<Rightarrow> db \<Rightarrow> db" where
  "visible_db P d = d\<lparr>
     db_assistants := filter (\<lambda>r. P (as_metadata r)) (db_assistants d),
     db_versions := filter (\<lambda>v. list_ex (\<lambda>r. as_id r = av_assistant_id v \<and> P (as_metadata r))
                      (db_assistants d)) (db_versions d),
     db_threads := filter (\<lambda>r. P (th_metadata r)) (db_threads d),
     db_runs := filter (\<lambda>r. case run_thread_id r of
                          None \<Rightarrow> P (run_metadata r) | Some t \<Rightarrow> thread_shown P d t) (db_runs d),
     db_crons := filter (\<lambda>r. P (cr_metadata r)) (db_crons d)\<rparr>"

definition admitted_row :: "(dict \<Rightarrow> bool) \<Rightarrow> ('r \<Rightarrow> dict) \<Rightarrow> 'r option \<Rightarrow> 'r option" where
  "admitted_row P meta row =
     (case row of None \<Rightarrow> None | Some r \<Rightarrow> if P (meta r) then Some r else None)"

lemma policyD:
  "policy s P \<Longrightarrow> authorized s resource action value = Inr (filters, v) \<Longrightarrow>
   compiled filters = Inr p \<Longrightarrow> p m \<Longrightarrow> P m"
  unfolding policy_def by blast

lemma find_filter_unique:
  assumes "distinct (map key rows)"
  shows "find (\<lambda>r. key r = k) (filter P rows) =
    (case find (\<lambda>r. key r = k) rows of None \<Rightarrow> None | Some r \<Rightarrow> if P r then Some r else None)"
  using assms
proof (induction rows)
  case (Cons x xs)
  show ?case
  proof (cases "key x = k")
    case True
    then have "find (\<lambda>r. key r = k) (filter P xs) = None"
      using Cons.prems by (auto simp: find_None_iff image_iff)
    with True show ?thesis by simp
  qed (use Cons in simp)
qed simp

lemma get_visible:
  assumes "keyed d"
  shows "get_assistant k (visible_db P d) = admitted_row P as_metadata (get_assistant k d)"
    "get_thread k (visible_db P d) = admitted_row P th_metadata (get_thread k d)"
    "get_cron k (visible_db P d) = admitted_row P cr_metadata (get_cron k d)"
  using assms
  by (simp_all add: keyed_def visible_db_def get_assistant_def get_thread_def get_cron_def t_get_def
      find_filter_unique admitted_row_def)

lemma authorized_resource_admitted:
  assumes "policy s P"
  shows "authorized_resource s meta resource k action value (admitted_row P meta row) =
    authorized_resource s meta resource k action value row"
proof -
  have "(case admitted_row P meta row of None \<Rightarrow> None | Some r \<Rightarrow> if p (meta r) then Some r else None) =
        (case row of None \<Rightarrow> None | Some r \<Rightarrow> if p (meta r) then Some r else None)"
    if "\<And>m. p m \<Longrightarrow> P m" for p
    using that by (auto simp: admitted_row_def split: option.split)
  then show ?thesis
    using policyD [OF assms] unfolding authorized_resource_def
    by (intro rbind_cong refl) (auto intro!: rbind_cong)
qed

lemma get_thread_http_visible:
  assumes "policy s P" "keyed d"
  shows "get_thread_http s rq action value (visible_db P d) = get_thread_http s rq action value d"
  unfolding get_thread_http_def get_visible [OF assms(2)] authorized_resource_admitted [OF assms(1)] ..

lemma filter_sort_visible:
  assumes "\<And>r. M r \<Longrightarrow> P r"
  shows "filter M (newest_first key (filter P rows)) = filter M (newest_first key rows)"
    "filter M (filter P rows) = filter M rows"
proof -
  have "filter M (filter P xs) = filter M xs" for xs
    using assms by (auto simp: filter_filter intro: filter_cong)
  then show "filter M (filter P rows) = filter M rows"
    "filter M (newest_first key (filter P rows)) = filter M (newest_first key rows)"
    by (simp_all add: newest_first_def filter_sort)
qed

section \<open>Reading handlers\<close>

definition READ_ENDPOINTS :: "endpoint list" where
  "READ_ENDPOINTS = [AssistantsSearch, AssistantsCount, AssistantsList, AssistantsGet,
     AssistantsVersions, ThreadsSearch, ThreadsCount, ThreadsList, ThreadsGet, RunsList,
     CronsSearch, CronsCount, CronGet]"

lemma visible_tables [simp]:
  "db_assistants (visible_db P d) = filter (\<lambda>r. P (as_metadata r)) (db_assistants d)"
  "db_threads (visible_db P d) = filter (\<lambda>r. P (th_metadata r)) (db_threads d)"
  "db_crons (visible_db P d) = filter (\<lambda>r. P (cr_metadata r)) (db_crons d)"
  by (simp_all add: visible_db_def)


lemma assistants_search_visible:
  assumes "policy s P"
  shows "assistants_search_http e s rq (visible_db P d) = assistants_search_http e s rq d"
proof -
  have "filter (assistant_matches e s p q) (newest_first as_created_at
          (filter (\<lambda>r. P (as_metadata r)) (db_assistants d))) =
        filter (assistant_matches e s p q) (newest_first as_created_at (db_assistants d))"
    if "\<And>m. p m \<Longrightarrow> P m" for p q
    using that by (intro filter_sort_visible) (auto simp: assistant_matches_def)
  then show ?thesis
    using policyD [OF assms] unfolding assistants_search_http_def visible_tables
    by (intro rbind_cong refl) (auto simp: Let_def intro!: rbind_cong split: sum.split py_error.split prod.split)
qed

lemma assistants_count_visible:
  assumes "policy s P"
  shows "assistants_count_http e s rq (visible_db P d) = assistants_count_http e s rq d"
proof -
  have "filter (assistant_matches e s p q) (filter (\<lambda>r. P (as_metadata r)) (db_assistants d)) =
        filter (assistant_matches e s p q) (db_assistants d)"
    if "\<And>m. p m \<Longrightarrow> P m" for p q
    using that by (intro filter_sort_visible) (auto simp: assistant_matches_def)
  then show ?thesis
    using policyD [OF assms] unfolding assistants_count_http_def visible_tables
    by (intro rbind_cong refl) (auto intro!: rbind_cong split: prod.split)
qed

lemma assistants_get_visible:
  assumes "policy s P" "keyed d"
  shows "assistants_get_http s rq (visible_db P d) = assistants_get_http s rq d"
  unfolding assistants_get_http_def get_visible [OF assms(2)] authorized_resource_admitted [OF assms(1)] ..

lemma assistants_versions_visible:
  assumes "policy s P" "keyed d"
  shows "assistants_versions_http s rq (visible_db P d) = assistants_versions_http s rq d"
proof -
  have "filter (\<lambda>v. av_assistant_id v = k) (db_versions (visible_db P d)) =
        filter (\<lambda>v. av_assistant_id v = k) (db_versions d)"
    if a: "authorized_resource s as_metadata ''assistants'' k ''read'' [] (get_assistant k d) = Inr (Some r, v)"
    for k r v
  proof -
    have "authorized_resource s as_metadata ''assistants'' k ''read'' []
        (admitted_row P as_metadata (get_assistant k d)) = Inr (Some r, v)"
      using a unfolding authorized_resource_admitted [OF assms(1)] .
    from authorized_resource_Inr [OF this] have "get_assistant k d = Some r" "P (as_metadata r)"
      by (auto simp: admitted_row_def split: option.splits if_splits)
    then have "list_ex (\<lambda>r. as_id r = k \<and> P (as_metadata r)) (db_assistants d)"
      using assistants_t.get_Some [of k d r] by (auto simp: list_ex_iff)
    then show ?thesis
      by (auto simp: visible_db_def intro!: filter_cong)
  qed
  then show ?thesis
    unfolding assistants_versions_http_def get_visible [OF assms(2)] authorized_resource_admitted [OF assms(1)]
    by (intro rbind_cong refl)
      (auto intro!: rbind_cong split: option.split sum.split py_error.split prod.split)
qed

lemma threads_search_visible:
  assumes "policy s P"
  shows "threads_search_http e s rq (visible_db P d) = threads_search_http e s rq d"
proof -
  have "filter (thread_matches e p q ids) (newest_first th_updated_at
          (filter (\<lambda>r. P (th_metadata r)) (db_threads d))) =
        filter (thread_matches e p q ids) (newest_first th_updated_at (db_threads d))"
    if "\<And>m. p m \<Longrightarrow> P m" for p q ids
    using that by (intro filter_sort_visible) (auto simp: thread_matches_def)
  then show ?thesis
    using policyD [OF assms] unfolding threads_search_http_def visible_tables
    by (intro rbind_cong refl)
      (auto simp: Let_def intro!: rbind_cong split: sum.split py_error.split prod.split option.split)
qed

lemma threads_count_visible:
  assumes "policy s P"
  shows "threads_count_http e s rq (visible_db P d) = threads_count_http e s rq d"
proof -
  have "filter (thread_matches e p q ids) (filter (\<lambda>r. P (th_metadata r)) (db_threads d)) =
        filter (thread_matches e p q ids) (db_threads d)"
    if "\<And>m. p m \<Longrightarrow> P m" for p q ids
    using that by (intro filter_sort_visible) (auto simp: thread_matches_def)
  then show ?thesis
    using policyD [OF assms] unfolding threads_count_http_def visible_tables
    by (intro rbind_cong refl) (auto simp: Let_def intro!: rbind_cong split: prod.split option.split)
qed

lemma threads_get_visible:
  assumes "policy s P" "keyed d"
  shows "threads_get_http s rq (visible_db P d) = threads_get_http s rq d"
  unfolding threads_get_http_def get_thread_http_visible [OF assms] ..

lemma get_thread_http_shown:
  assumes "policy s P" "get_thread_http s rq action value d = Inr (Some (k, r), v)"
  shows "P (th_metadata r)"
  using assms
  by (auto simp: get_thread_http_def authorized_resource_def rbind_eq_Inr
      split: option.splits if_splits dest: policyD)

lemma runs_list_visible:
  assumes "policy s P" "keyed d"
  shows "runs_list_http s rq (visible_db P d) = runs_list_http s rq d"
proof -
  have r: "filter (listed_run rq k) (db_runs (visible_db P d)) = filter (listed_run rq k) (db_runs d)"
    if g: "get_thread_http s rq ''search'' [] d = Inr (Some (j, th), v)"
      and k: "path_uuid rq ''thread_id'' = Inr (Some k)" for k j th v
  proof -
    from g k have "j = k"
      by (auto simp: get_thread_http_def path_uuid_def path_param_def rbind_eq_Inr split: option.splits)
    with get_thread_http_shown [OF assms(1) g] get_thread_http_Inr [OF g]
    have "thread_shown P d k"
      using threads_t.get_Some [of k d th] by (auto simp: thread_shown_def list_ex_iff)
    then show ?thesis
      by (auto simp: visible_db_def listed_run_def intro!: filter_cong)
  qed
  show ?thesis
    unfolding runs_list_http_def get_thread_http_visible [OF assms]
    by (intro rbind_cong refl)
      (auto simp: r intro!: rbind_cong split: option.split sum.split py_error.split)
qed

lemma crons_search_visible:
  assumes "policy s P"
  shows "crons_search_http e s rq (visible_db P d) = crons_search_http e s rq d"
proof -
  have "filter (\<lambda>r. cron_matches p q W r \<and> enabled_condition q r) (newest_first cr_created_at
          (filter (\<lambda>r. P (cr_metadata r)) (db_crons d))) =
        filter (\<lambda>r. cron_matches p q W r \<and> enabled_condition q r)
          (newest_first cr_created_at (db_crons d))"
    if "\<And>m. p m \<Longrightarrow> P m" for p q W
    using that by (intro filter_sort_visible) (auto simp: cron_matches_def)
  then show ?thesis
    using policyD [OF assms] unfolding crons_search_http_def visible_tables
    by (intro rbind_cong refl)
      (auto simp: Let_def intro!: rbind_cong split: sum.split py_error.split prod.split)
qed

lemma crons_count_visible:
  assumes "policy s P"
  shows "crons_count_http e s rq (visible_db P d) = crons_count_http e s rq d"
proof -
  have "filter (cron_matches p q W) (filter (\<lambda>r. P (cr_metadata r)) (db_crons d)) =
        filter (cron_matches p q W) (db_crons d)"
    if "\<And>m. p m \<Longrightarrow> P m" for p q W
    using that by (intro filter_sort_visible) (auto simp: cron_matches_def)
  then show ?thesis
    using policyD [OF assms] unfolding crons_count_http_def visible_tables
    by (intro rbind_cong refl) (auto simp del: filter_filter intro!: rbind_cong split: sum.split prod.split)
qed

lemma cron_get_visible:
  assumes "policy s P" "keyed d"
  shows "cron_get_http s rq (visible_db P d) = cron_get_http s rq d"
  unfolding cron_get_http_def get_visible [OF assms(2)] authorized_resource_admitted [OF assms(1)] ..

end
