(* ===== verification/IsolationWrites.thy ===== *)
theory IsolationWrites
  imports Isolation RunRefinement
begin

text \<open>
  What the writing handlers leave alone: the relation \<open>touches R T\<close> (only runs in \<open>R\<close> and threads in
  \<open>T\<close> may change), established for the transactions the handlers are made of, and its consequence
  that rows outside a policy stay as they are.
\<close>

section \<open>What a transaction touches\<close>

definition touches :: "uuid set \<Rightarrow> uuid set \<Rightarrow> db \<Rightarrow> db \<Rightarrow> bool" where
  "touches R T d d' =
     (db_assistants d' = db_assistants d \<and> db_crons d' = db_crons d \<and>
      (\<forall>r \<in> set (db_runs d). run_id r \<notin> R \<longrightarrow> r \<in> set (db_runs d')) \<and>
      (\<forall>r' \<in> set (db_runs d'). \<exists>r \<in> set (db_runs d).
         run_id r = run_id r' \<and> run_thread_id r = run_thread_id r') \<and>
      (\<forall>x \<in> set (db_threads d). th_id x \<notin> T \<longrightarrow> x \<in> set (db_threads d')) \<and>
      (keyed d \<longrightarrow> keyed d'))"

lemma touches_refl [simp]: "touches R T d d"
  by (auto simp: touches_def)

lemma touches_trans: "touches R T d d1 \<Longrightarrow> touches R T d1 d2 \<Longrightarrow> touches R T d d2"
  unfolding touches_def by (elim conjE, intro conjI) (simp, simp, blast, metis, blast, blast)

lemma touches_mono: "touches R T d d' \<Longrightarrow> R \<subseteq> R' \<Longrightarrow> T \<subseteq> T' \<Longrightarrow> touches R' T' d d'"
  unfolding touches_def by blast

lemma touches_tables:
  "db_assistants d' = db_assistants d \<Longrightarrow> db_crons d' = db_crons d \<Longrightarrow> db_runs d' = db_runs d \<Longrightarrow>
   db_threads d' = db_threads d \<Longrightarrow> touches R T d d'"
  by (auto simp: touches_def keyed_def)

lemma touches_upd_run:
  "r \<in> R \<Longrightarrow> (\<And>x. run_id (f x) = run_id x) \<Longrightarrow> (\<And>x. run_thread_id (f x) = run_thread_id x) \<Longrightarrow>
   touches R T d (upd_run r f d)"
  by (auto simp: touches_def keyed_def runs_t.keys_upd runs_t.set_upd)

lemma touches_upd_thread:
  "t \<in> T \<Longrightarrow> (\<And>x. th_id (g x) = th_id x) \<Longrightarrow> touches R T d (upd_thread t g d)"
  by (auto simp: touches_def keyed_def threads_t.keys_upd threads_t.set_upd)

lemma touches_del_lease [simp]: "touches R T d (del_lease r d)"
  by (intro touches_tables) (simp_all add: del_lease_def)

lemma touches_del_run: "r \<in> R \<Longrightarrow> touches R T d (del_run r d)"
  by (auto simp: touches_def keyed_def del_run_def t_del_def distinct_map_filter)

lemma touches_del_thread: "t \<in> T \<Longrightarrow> touches R T d (del_thread t d)"
  by (auto simp: touches_def keyed_def del_thread_def t_del_def distinct_map_filter)

lemma touches_run_thread:
  assumes "touches R T d d'" "get_run k d' = Some r'" "keyed d"
  obtains r where "get_run k d = Some r" "run_thread_id r = run_thread_id r'"
proof -
  from runs_t.get_Some [OF assms(2)] assms(1) obtain r where
    r: "r \<in> set (db_runs d)" "run_id r = k" "run_thread_id r = run_thread_id r'"
    unfolding touches_def by force
  moreover have "get_run k d = Some r"
    using r assms(3) runs_t.get_in [of d r] by (simp add: keyed_def)
  ultimately show ?thesis using that by blast
qed

lemma append_event_touches:
  "append_event e rid tid s topic ns p tc term d = Inr (ev, d') \<Longrightarrow> touches R T d d'"
  by (intro touches_tables) (auto simp: append_event_Inr)

lemma record_run_event_touches:
  assumes "record_run_event e run topic p ns tc term d = Inr (ev, d')"
  shows "touches {run_id run} (set_option (run_thread_id run)) d d'"
proof (cases "run_thread_id run")
  case None
  with assms obtain s where a: "append_event e (Some (run_id run)) None s topic ns p tc term
      (upd_run (run_id run) (\<lambda>x. x\<lparr>run_event_seq := max (run_event_seq x) s\<rparr>) d) = Inr (ev, d')"
    by (auto simp: record_run_event_def Let_def)
  show ?thesis
    by (rule touches_trans [OF touches_upd_run append_event_touches [OF a]]) simp_all
next
  case (Some t)
  with assms obtain s where a: "append_event e (Some (run_id run)) (Some t) s topic ns p tc term
      (upd_run (run_id run) (\<lambda>x. x\<lparr>run_event_seq := max (run_event_seq x) s\<rparr>)
        (upd_thread t (\<lambda>x. x\<lparr>th_event_seq := s\<rparr>) d)) = Inr (ev, d')"
    by (auto simp: record_run_event_def Let_def split: option.splits)
  show ?thesis
    by (rule touches_trans [OF touches_upd_thread touches_trans [OF touches_upd_run
          append_event_touches [OF a]]]) (simp_all add: Some)
qed

lemma record_event_touches:
  assumes "record_event e (Some r) tid topic p ns tc term d = Inr (ev, d')" "get_run r d = Some run"
  shows "touches {r} (set_option (run_thread_id run)) d d'"
  using assms(1)
proof (cases rule: record_event_cases)
  case existing
  then show ?thesis by (simp add: touches_refl)
next
  case (run r' run')
  with assms(2) have "run' = run" "run_id run = r"
    using runs_t.get_Some [of r d run] by auto
  with record_run_event_touches [OF run(5)] show ?thesis by simp
qed simp

lemma rollback_run_touches:
  assumes "rollback_run e run v d = Inr d'"
  shows "touches {run_id run} (set_option (run_thread_id run)) d d'"
  using assms
proof (cases rule: rollback_run_cases)
  case (restored t b th)
  have c: "touches R T d (d\<lparr>db_writes := ws, db_checkpoints := cs\<rparr>)" for R T ws cs
    by (rule touches_tables) simp_all
  show ?thesis
    unfolding restored(8) restore_baseline_def
    by (rule touches_trans [OF c touches_trans [OF touches_upd_thread touches_del_run]])
      (simp_all add: restored(2) restore_thread_def)
qed (simp_all add: touches_refl touches_del_run)

lemma cancel_row_touches:
  assumes "cancel_row e rid action d = Inr (evs, d')" "get_run rid d = Some row"
  shows "touches {rid} (set_option (run_thread_id row)) d d'"
  using assms(1)
proof (cases rule: cancel_row_cases)
  case (rolled_back row')
  with assms(2) rollback_run_touches [OF rolled_back(4)] runs_t.get_Some [of rid d row]
  show ?thesis by simp
next
  case (marked row')
  then show ?thesis by (simp add: touches_upd_run marked_rollback_def)
next
  case (cancelled row' change ev)
  let ?d1 = "upd_run rid (cancelled_run e change) d"
  let ?d2 = "if run_status row' = ''running'' then ?d1 else del_lease rid ?d1"
  have row: "row' = row" using cancelled(1) assms(2) by simp
  have t1: "touches {rid} (set_option (run_thread_id row)) d ?d1"
    by (rule touches_upd_run) (simp_all add: cancelled_run_def Let_def)
  have t2: "touches {rid} (set_option (run_thread_id row)) ?d1 ?d2"
    by (simp add: touches_refl touches_del_lease)
  have g: "get_run rid ?d2 = Some (cancelled_run e change row)"
    using assms(2) runs_t.get_upd [of "cancelled_run e change" rid rid d]
    by (simp add: cancelled_run_def Let_def)
  have "run_thread_id (cancelled_run e change row) = run_thread_id row"
    by (simp add: cancelled_run_def Let_def)
  with record_event_touches [OF cancelled(6) g]
  have "touches {rid} (set_option (run_thread_id row)) ?d2 d'" by simp
  with t1 t2 show ?thesis by (blast intro: touches_trans)
qed (simp add: touches_refl)

lemma complete_rollback_touches:
  assumes "\<And>row. get_run rid d = Some row \<Longrightarrow> set_option (run_thread_id row) \<subseteq> T"
  shows "touches {rid} T d (complete_rollback e owner locked rid d)"
proof (cases "get_run rid d")
  case (Some row)
  then have "run_id row = rid" using runs_t.get_Some [OF Some] by simp
  then have "touches {rid} T d d'" if "rollback_run e row False d = Inr d'" for d'
    using touches_mono [OF rollback_run_touches [OF that] _ assms [OF Some]] by simp
  with Some show ?thesis
    by (auto simp: complete_rollback_def split: sum.split)
qed (simp add: complete_rollback_def)

text \<open>The thread of a run is the same in every database that touching leaves.\<close>

definition run_on :: "uuid set \<Rightarrow> uuid \<Rightarrow> db \<Rightarrow> bool" where
  "run_on T rid d = (\<forall>row. get_run rid d = Some row \<longrightarrow> set_option (run_thread_id row) \<subseteq> T)"

lemma run_on_step: "touches R T d d' \<Longrightarrow> keyed d \<Longrightarrow> run_on S k d \<Longrightarrow> run_on S k d' \<and> keyed d'"
  using touches_run_thread [of R T d d' k] unfolding run_on_def
  by (metis touches_def)

lemma complete_rollbacks_touches:
  assumes "run_on T rid d" "keyed d"
  shows "touches {rid} T d (complete_rollbacks e owner (Some rid) locked d)"
proof -
  have "touches {rid} T x (fold (complete_rollback e owner locked) ks x)"
    if "set ks \<subseteq> {rid}" "run_on T rid x" "keyed x" for ks x
    using that
  proof (induction ks arbitrary: x)
    case (Cons k ks)
    then have k: "k = rid" by simp
    have t: "touches {rid} T x (complete_rollback e owner locked k x)"
      unfolding k using Cons.prems(2) by (intro complete_rollback_touches) (simp add: run_on_def)
    with Cons show ?case
      using run_on_step [OF t] by (auto intro: touches_trans [OF t])
  qed simp
  moreover have "set (pending_rollbacks (Some rid) d) \<subseteq> {rid}"
    by (auto simp: pending_rollbacks_def)
  ultimately show ?thesis
    using assms by (simp add: complete_rollbacks_def)
qed

lemma await_rollback_touches:
  assumes "await_rollback e locked rid n d = (b, d')" "run_on T rid d" "keyed d"
  shows "touches {rid} T d d'"
  using assms
proof (induction n arbitrary: d)
  case 0
  then show ?case
    using complete_rollbacks_touches [OF 0(2,3), of e None locked]
    by (auto simp: await_rollback.simps [of e locked rid 0] Let_def split: if_splits)
next
  case (Suc n)
  let ?d1 = "complete_rollbacks e None (Some rid) locked d"
  have t: "touches {rid} T d ?d1" by (rule complete_rollbacks_touches [OF Suc.prems(2,3)])
  show ?case
  proof (cases "get_run rid ?d1 = None")
    case True
    with Suc.prems(1) t show ?thesis
      by (simp add: await_rollback.simps [of e locked rid "Suc n"] Let_def)
  next
    case False
    with Suc.prems(1) have "await_rollback e locked rid n ?d1 = (b, d')"
      by (simp add: await_rollback.simps [of e locked rid "Suc n"] Let_def)
    with Suc.IH run_on_step [OF t Suc.prems(3,2)] show ?thesis
      by (blast intro: touches_trans [OF t])
  qed
qed

lemma cancel_row_on:
  assumes "cancel_row e rid action d = Inr (evs, d')" "run_on T rid d"
  shows "touches {rid} T d d'"
proof (cases "get_run rid d")
  case None
  with assms(1) show ?thesis by (auto simp: cancel_row_def)
next
  case (Some row)
  with cancel_row_touches [OF assms(1) Some] assms(2) show ?thesis
    by (auto simp: run_on_def intro: touches_mono)
qed

lemma cancel_rows_touches:
  assumes "cancel_rows e ks d = Inr (evs, d')" "\<forall>k \<in> set ks. run_on T k d" "keyed d"
  shows "touches (set ks) T d d'"
  using assms
proof (induction ks arbitrary: d evs)
  case (Cons k ks)
  from Cons.prems(1) obtain ev1 d1 ev2 where
    c: "cancel_row e k ''interrupt'' d = Inr (ev1, d1)" and
    r: "cancel_rows e ks d1 = Inr (ev2, d')"
    by (auto simp: rbind_eq_Inr)
  have t: "touches {k} T d d1" by (rule cancel_row_on [OF c]) (use Cons.prems(2) in simp)
  have on: "\<forall>k' \<in> set ks. run_on T k' d1"
    using run_on_step [OF t Cons.prems(3)] Cons.prems(2) by simp
  have key: "keyed d1" using t Cons.prems(3) by (simp add: touches_def)
  have "touches (set (k # ks)) T d d1" by (rule touches_mono [OF t]) simp_all
  moreover have "touches (set (k # ks)) T d1 d'"
    by (rule touches_mono [OF Cons.IH [OF r on key]]) auto
  ultimately show ?case by (rule touches_trans)
qed simp

lemma set_positions_touches:
  "set (map fst ps) \<subseteq> R \<Longrightarrow> touches R T d (set_positions ps d)"
proof (induction ps arbitrary: d)
  case (Cons x ps)
  obtain k p where x: "x = (k, p)" by force
  have "touches R T d (upd_run k (\<lambda>x. x\<lparr>run_queue_position := Some p\<rparr>) d)"
    using Cons.prems x by (intro touches_upd_run) simp_all
  with Cons show ?case
    by (auto simp: set_positions_def x intro: touches_trans)
qed (simp add: set_positions_def)

text \<open>The queue operation touches runs that are queued on its thread.\<close>

lemma queue_rows_on:
  assumes "k \<in> set (map run_id (queue_rows t locked d))" "keyed d" "get_run k d = Some row"
  shows "run_thread_id row = Some t"
proof -
  from assms(1) obtain r where "r \<in> set (db_runs d)" "run_id r = k" "run_thread_id r = Some t"
    by (auto simp: queue_rows_def queued_def)
  with assms(2,3) runs_t.get_in [of d r] show ?thesis by (auto simp: keyed_def)
qed

lemma runs_queue_touches:
  assumes "runs_queue e locked t q d = Inr (evs, d')" "keyed d" "set (qr_requested q) \<subseteq> set (qr_expected q)"
  shows "touches (set (qr_requested q)) {t} d d'"
    "\<And>k row. k \<in> set (qr_requested q) \<Longrightarrow> get_run k d = Some row \<Longrightarrow> run_thread_id row = Some t"
proof -
  from assms(1) have e: "map run_id (queue_rows t locked d) = qr_expected q"
    and c: "if qr_cancel q then cancel_rows e (qr_requested q) d = Inr (evs, d')
      else d' = set_positions (zip (qr_requested q) (row_positions (queue_rows t locked d))) d"
    by (auto simp: runs_queue_def Let_def split: if_splits)
  show on: "run_thread_id row = Some t" if "k \<in> set (qr_requested q)" "get_run k d = Some row" for k row
    using queue_rows_on [OF _ assms(2) that(2), of t locked] e assms(3) that(1) by auto
  show "touches (set (qr_requested q)) {t} d d'"
  proof (cases "qr_cancel q")
    case True
    with c have "cancel_rows e (qr_requested q) d = Inr (evs, d')" by simp
    from cancel_rows_touches [OF this _ assms(2)] on show ?thesis by (simp add: run_on_def)
  next
    case False
    with c show ?thesis
      by (auto intro!: set_positions_touches dest!: set_zip_leftD)
  qed
qed

section \<open>Rows outside the policy\<close>

definition on_hidden :: "(dict \<Rightarrow> bool) \<Rightarrow> db \<Rightarrow> run_row \<Rightarrow> bool" where
  "on_hidden P d r =
     (case run_thread_id r of
        None \<Rightarrow> \<not> P (run_metadata r)
      | Some t \<Rightarrow> list_ex (\<lambda>x. th_id x = t \<and> \<not> P (th_metadata x)) (db_threads d))"

definition keeps :: "(dict \<Rightarrow> bool) \<Rightarrow> db \<Rightarrow> db \<Rightarrow> bool" where
  "keeps P d d' =
     (keyed d \<longrightarrow> keyed d' \<and>
      (\<forall>r \<in> set (db_assistants d). \<not> P (as_metadata r) \<longrightarrow> r \<in> set (db_assistants d')) \<and>
      (\<forall>r \<in> set (db_threads d). \<not> P (th_metadata r) \<longrightarrow> r \<in> set (db_threads d')) \<and>
      (\<forall>r \<in> set (db_runs d). on_hidden P d r \<longrightarrow> r \<in> set (db_runs d')) \<and>
      (\<forall>r \<in> set (db_crons d). \<not> P (cr_metadata r) \<longrightarrow> r \<in> set (db_crons d')))"

lemma keeps_refl [simp]: "keeps P d d"
  by (simp add: keeps_def)

lemma keeps_trans:
  assumes "keeps P d d1" "keeps P d1 d2"
  shows "keeps P d d2"
proof -
  have "on_hidden P d1 r" if "keyed d" "on_hidden P d r" for r
    using that assms(1)
    by (auto simp: on_hidden_def keeps_def list_ex_iff split: option.splits)
  then show ?thesis
    using assms unfolding keeps_def by meson
qed

lemma keeps_touches:
  assumes "touches R T d d'"
    "\<And>k r. keyed d \<Longrightarrow> k \<in> R \<Longrightarrow> get_run k d = Some r \<Longrightarrow> \<not> on_hidden P d r"
    "\<And>x. keyed d \<Longrightarrow> x \<in> set (db_threads d) \<Longrightarrow> th_id x \<in> T \<Longrightarrow> P (th_metadata x)"
  shows "keeps P d d'"
proof -
  have "run_id r \<notin> R" if "keyed d" "r \<in> set (db_runs d)" "on_hidden P d r" for r
    using assms(2) [OF that(1)] runs_t.get_in [of d r] that by (auto simp: keyed_def)
  then show ?thesis
    using assms(1,3) unfolding keeps_def touches_def by auto
qed

text \<open>Replacing, adding and removing rows the policy admits.\<close>

lemma keeps_assistants:
  assumes "db_threads d' = db_threads d" "db_runs d' = db_runs d" "db_crons d' = db_crons d"
    "keyed d \<Longrightarrow> distinct (map as_id (db_assistants d')) \<and>
       (\<forall>r \<in> set (db_assistants d). \<not> P (as_metadata r) \<longrightarrow> r \<in> set (db_assistants d'))"
  shows "keeps P d d'"
  using assms by (simp add: keeps_def keyed_def)

lemma keeps_crons:
  assumes "db_threads d' = db_threads d" "db_runs d' = db_runs d" "db_assistants d' = db_assistants d"
    "keyed d \<Longrightarrow> distinct (map cr_id (db_crons d')) \<and>
       (\<forall>r \<in> set (db_crons d). \<not> P (cr_metadata r) \<longrightarrow> r \<in> set (db_crons d'))"
  shows "keeps P d d'"
  using assms by (simp add: keeps_def keyed_def)

lemma table_keeps:
  assumes "distinct (map key rows)" "t_get key k rows = Some r" "P (meta r)"
  shows "key r' = k \<Longrightarrow> distinct (map key (t_upd key k (\<lambda>_. r') rows)) \<and>
      (\<forall>x \<in> set rows. \<not> P (meta x) \<longrightarrow> x \<in> set (t_upd key k (\<lambda>_. r') rows))"
    "distinct (map key (t_del key k rows)) \<and>
      (\<forall>x \<in> set rows. \<not> P (meta x) \<longrightarrow> x \<in> set (t_del key k rows))"
proof -
  have one: "x = r" if "x \<in> set rows" "key x = k" for x
    using that t_get_in [OF assms(1) that(1)] assms(2) by simp
  then show "distinct (map key (t_del key k rows)) \<and>
      (\<forall>x \<in> set rows. \<not> P (meta x) \<longrightarrow> x \<in> set (t_del key k rows))"
    using assms(1,3) by (auto simp: t_del_def distinct_map_filter)
  assume "key r' = k"
  then have "map key (t_upd key k (\<lambda>_. r') rows) = map key rows" by (simp add: t_upd_def)
  then show "distinct (map key (t_upd key k (\<lambda>_. r') rows)) \<and>
      (\<forall>x \<in> set rows. \<not> P (meta x) \<longrightarrow> x \<in> set (t_upd key k (\<lambda>_. r') rows))"
    using assms(1,3) one by (auto simp: set_t_upd image_iff)
qed

lemma keeps_assistant:
  assumes "get_assistant k d = Some r" "P (as_metadata r)"
  shows "as_id r' = k \<Longrightarrow> keeps P d ((upd_assistant k (\<lambda>_. r') d)\<lparr>db_versions := vs\<rparr>)"
    "as_id r' = k \<Longrightarrow> keeps P d (upd_assistant k (\<lambda>_. r') d)"
    "keeps P d (d\<lparr>db_assistants := t_del as_id k (db_assistants d)\<rparr>)"
  using table_keeps [of as_id "db_assistants d" k r P as_metadata] assms
  by (auto intro!: keeps_assistants simp: upd_assistant_def keyed_def get_assistant_def)

lemma keeps_cron:
  assumes "get_cron k d = Some r" "P (cr_metadata r)"
  shows "cr_id r' = k \<Longrightarrow> keeps P d (upd_cron k (\<lambda>_. r') d)"
    "keeps P d (d\<lparr>db_crons := t_del cr_id k (db_crons d)\<rparr>)"
  using table_keeps [of cr_id "db_crons d" k r P cr_metadata] assms
  by (auto intro!: keeps_crons simp: upd_cron_def keyed_def get_cron_def)

lemma keeps_insert_thread:
  "get_thread (th_id r) d = None \<Longrightarrow> keeps P d (insert_thread r d)"
  by (auto simp: keeps_def keyed_def insert_thread_def threads_t.get_None on_hidden_def)

lemma keeps_draws [simp]: "keeps P d (d\<lparr>db_draws := n\<rparr>)"
  by (simp add: keeps_def keyed_def)

section \<open>What the authorisation admits\<close>

lemma authorized_resource_admits:
  assumes "policy s P" "authorized_resource s meta resource k action value row = Inr (Some r, v)"
  shows "row = Some r \<and> P (meta r)"
  using assms(2) policyD [OF assms(1)]
  by (auto simp: authorized_resource_def rbind_eq_Inr split: option.splits if_splits)

lemma authorized_run_admits:
  assumes "policy s P" "keyed d" "authorized_run s k action value d = Inr (Some r)"
  shows "get_run k d = Some r" "\<not> on_hidden P d r"
proof -
  show g: "get_run k d = Some r" by (rule authorized_run_Inr [OF assms(3)])
  from assms(3) g obtain filters v p where
    a: "authorized s ''threads'' action (dset ''run_id'' (JStr (uuid_str k))
          (dset ''thread_id'' (opt_str (run_thread_id r)) value)) = Inr (filters, v)" and
    c: "compiled filters = Inr p" and
    ok: "case run_thread_id r of None \<Rightarrow> p (run_metadata r)
         | Some t \<Rightarrow> (case get_thread t d of None \<Rightarrow> False | Some th \<Rightarrow> p (th_metadata th))"
    by (auto simp: authorized_run_def Let_def rbind_eq_Inr split: if_splits)
  have "th = x" if "get_thread t d = Some th" "x \<in> set (db_threads d)" "th_id x = t" for t th x
    using that assms(2) threads_t.get_in [of d x] by (simp add: keyed_def)
  with ok policyD [OF assms(1) a c] show "\<not> on_hidden P d r"
    by (auto simp: on_hidden_def list_ex_iff split: option.splits)
qed

lemma thread_admits:
  assumes "policy s P" "keyed d" "get_thread_http s rq action value d = Inr (Some (k, r), v)"
    "x \<in> set (db_threads d)" "th_id x = k"
  shows "P (th_metadata x)"
  using get_thread_http_shown [OF assms(1,3)] get_thread_http_Inr [OF assms(3)]
    threads_t.get_in [of d x] assms(2,4,5) by (simp add: keyed_def)

lemma not_hidden_thread:
  "keyed d \<Longrightarrow> get_run k d = Some r \<Longrightarrow> \<not> on_hidden P d r \<Longrightarrow> x \<in> set (db_threads d) \<Longrightarrow>
   th_id x \<in> set_option (run_thread_id r) \<Longrightarrow> P (th_metadata x)"
  by (auto simp: on_hidden_def list_ex_iff split: option.splits)

text \<open>Touching an admitted run and its thread keeps the hidden rows.\<close>

lemma keeps_run:
  assumes "touches {k} (set_option (run_thread_id r)) d d'" "get_run k d = Some r"
    "keyed d \<Longrightarrow> \<not> on_hidden P d r"
  shows "keeps P d d'"
  by (rule keeps_touches [OF assms(1)])
    (use assms(2,3) not_hidden_thread [OF _ assms(2), of P] in auto)

lemma run_on_self: "get_run k d = Some r \<Longrightarrow> run_on (set_option (run_thread_id r)) k d"
  by (simp add: run_on_def)

section \<open>Assistants and crons\<close>

text \<open>
  What a transaction keeps when it commits, by the shape of its definition.
\<close>

definition commits :: "(dict \<Rightarrow> bool) \<Rightarrow> db \<Rightarrow> ('a \<times> db) res \<Rightarrow> bool" where
  "commits P d r = (\<forall>x d'. r = Inr (x, d') \<longrightarrow> keeps P d d')"

named_theorems commit \<open>what a transaction keeps, by its shape\<close>

lemma commits_Inl [commit]: "commits P d (Inl err)"
  by (simp add: commits_def)

lemma commits_Inr [commit]: "keeps P d d' \<Longrightarrow> commits P d (Inr (x, d'))"
  by (simp add: commits_def)

lemma commits_rbind [commit]: "(\<And>y. r = Inr y \<Longrightarrow> commits P d (f y)) \<Longrightarrow> commits P d (rbind r f)"
  by (auto simp: commits_def rbind_eq_Inr)

lemma commits_if [commit]:
  "(c \<Longrightarrow> commits P d r1) \<Longrightarrow> (\<not> c \<Longrightarrow> commits P d r2) \<Longrightarrow> commits P d (if c then r1 else r2)"
  by simp

lemma commits_option [commit]:
  "(v = None \<Longrightarrow> commits P d r1) \<Longrightarrow> (\<And>y. v = Some y \<Longrightarrow> commits P d (f y)) \<Longrightarrow>
   commits P d (case v of None \<Rightarrow> r1 | Some y \<Rightarrow> f y)"
  by (simp split: option.split)

lemma commits_sum [commit]:
  "(\<And>y. v = Inl y \<Longrightarrow> commits P d (g y)) \<Longrightarrow> (\<And>y. v = Inr y \<Longrightarrow> commits P d (f y)) \<Longrightarrow>
   commits P d (case v of Inl y \<Rightarrow> g y | Inr y \<Rightarrow> f y)"
  by (simp split: sum.split)

lemma commits_prod [commit]:
  "(\<And>a b. v = (a, b) \<Longrightarrow> commits P d (f a b)) \<Longrightarrow> commits P d (case v of (a, b) \<Rightarrow> f a b)"
  by (simp split: prod.split)

lemma commits_settled: "commits P d r \<Longrightarrow> keeps P d (snd (settled d r))"
  by (auto simp: commits_def settled_def split: sum.split)

lemma given_or_new_keeps: "given_or_new_uuid e v d = Inr (k, d') \<Longrightarrow> keeps P d d'"
  by (auto simp: given_or_new_uuid_def split: option.splits if_splits)

lemma add_assistant_keeps:
  "get_assistant (as_id r) d = None \<Longrightarrow>
   keeps P d (d\<lparr>db_assistants := db_assistants d @ [r], db_versions := vs\<rparr>)"
  by (rule keeps_assistants) (auto simp: keyed_def assistants_t.get_None)

lemma posted_assistant_id: "posted_assistant e k g q = Inr r \<Longrightarrow> as_id r = k"
  by (auto simp: posted_assistant_def rbind_eq_Inr)

lemma assistants_create_commits: "commits P d (assistants_create_http e s rq d)"
proof -
  have new: "keeps P d d2"
    if "given_or_new_uuid e v d = Inr (k, d1)" "get_assistant k d1 = None"
      "posted_assistant e k g q = Inr r"
      "add_version (version_of (e_now e) r) (d1\<lparr>db_assistants := db_assistants d1 @ [r]\<rparr>) = Inr d2"
    for v k d1 g q r d2
  proof -
    have "keeps P d1 d2"
      using that(2,4) posted_assistant_id [OF that(3)]
      by (auto simp: add_version_Inr intro!: add_assistant_keeps)
    with given_or_new_keeps [OF that(1)] show ?thesis by (rule keeps_trans)
  qed
  show ?thesis
    unfolding assistants_create_http_def Let_def
    by (intro commit) (auto intro: given_or_new_keeps new)
qed

lemma assistants_update_commits:
  assumes "policy s P"
  shows "commits P d (assistants_update_http e s rq d)"
proof -
  have "keeps P d d'"
    if "authorized_resource s as_metadata ''assistants'' k ''update'' body (get_assistant k d) = Inr (Some r, q)"
      "edited_assistant e q r = Inr r'" "add_version v (upd_assistant k (\<lambda>_. r') d) = Inr d'"
    for k body r q r' v d'
  proof -
    have "as_id r' = k"
      using assistants_t.get_Some [OF authorized_resource_Inr [OF that(1)]]
        edited_assistant_Inr(1) [OF that(2)] by simp
    with authorized_resource_admits [OF assms that(1)] that(3) show ?thesis
      by (auto simp: add_version_Inr intro: keeps_assistant(1))
  qed
  then show ?thesis
    unfolding assistants_update_http_def by (intro commit) auto
qed

lemma assistants_delete_commits:
  assumes "policy s P"
  shows "commits P d (assistants_delete_http s rq d)"
  unfolding assistants_delete_http_def
  by (intro commit)
    (auto split: option.split dest!: authorized_resource_admits [OF assms] intro: keeps_assistant(3))

lemma assistants_latest_commits:
  assumes "policy s P"
  shows "commits P d (assistants_latest_http e s rq d)"
proof -
  have "keeps P d (upd_assistant k (\<lambda>_. restored_assistant now v r) d)"
    if a: "authorized_resource s as_metadata ''assistants'' k ''update'' body (get_assistant k d) = Inr (Some r, q)"
    for k body r q v now
  proof -
    have "as_id (restored_assistant now v r) = k"
      using assistants_t.get_Some [OF authorized_resource_Inr [OF a]] by (simp add: restored_assistant_def)
    with authorized_resource_admits [OF assms a] show ?thesis by (blast intro: keeps_assistant(2))
  qed
  then show ?thesis
    unfolding assistants_latest_http_def Let_def by (intro commit) auto
qed

lemma cron_update_commits:
  assumes "policy s P"
  shows "commits P d (cron_update_http e s rq d)"
proof -
  have "keeps P d (upd_cron k (\<lambda>_. r') d)"
    if a: "authorized_resource s cr_metadata ''crons'' k ''update'' body (get_cron k d) = Inr (Some r, q)"
      and e: "edited_cron e s q r = Inr r'" for k body r q r'
  proof -
    have "cr_id r' = k"
      using crons_t.get_Some [OF authorized_resource_Inr [OF a]] edited_cron_id [OF e] by simp
    with authorized_resource_admits [OF assms a] show ?thesis by (blast intro: keeps_cron(1))
  qed
  then show ?thesis
    unfolding cron_update_http_def by (intro commit) auto
qed

lemma cron_delete_commits:
  assumes "policy s P"
  shows "commits P d (cron_delete_http s rq d)"
  unfolding cron_delete_http_def
  by (intro commit)
    (auto split: option.split dest!: authorized_resource_admits [OF assms] intro: keeps_cron(2))

lemma thread_for_run_keeps:
  "thread_for_run_http e s v create d = Inr (th, d') \<Longrightarrow> keeps P d d'"
  by (auto simp: thread_for_run_http_def rbind_eq_Inr Let_def new_thread_def
      split: if_splits option.splits intro!: keeps_insert_thread)

lemma insert_cron_commits: "commits P d (insert_cron e s a t q d)"
proof -
  have k: "cr_id r = k" if "posted_cron e k aid tid et q = Inr r" for k aid tid et r
    using that by (auto simp: posted_cron_def rbind_eq_Inr)
  show ?thesis
    unfolding insert_cron_def Let_def
    by (intro commit) (auto simp: keyed_def crons_t.get_None dest!: k intro!: keeps_crons)
qed

lemma cron_create_commits: "commits P d (cron_create_http e s rq v d)"
proof -
  have i: "commits P d (insert_cron e s a t q d1)" if "keeps P d d1" for a t q d1
    using insert_cron_commits [of P d1 e s a t q] that keeps_trans by (fastforce simp: commits_def)
  show ?thesis
    unfolding cron_create_http_def by (intro commit) (auto intro: i thread_for_run_keeps)
qed

section \<open>Threads\<close>

text \<open>Operations of the checkpoint library write its own tables only.\<close>

definition library_tables :: "db \<Rightarrow> db \<Rightarrow> bool" where
  "library_tables d d' = (copy_saver_tables d' d = d')"

definition confined :: "saver \<Rightarrow> graph_lib \<Rightarrow> bool" where
  "confined sv gl =
     ((\<forall>t d d'. sv_delete sv t d = Inr d' \<longrightarrow> library_tables d d') \<and>
      (\<forall>c x m v d out d'. sv_put sv c x m v d = Inr (out, d') \<longrightarrow> library_tables d d') \<and>
      (\<forall>c w t d d'. sv_put_writes sv c w t d = Inr d' \<longrightarrow> library_tables d d') \<and>
      (\<forall>g c v n d. library_tables d (snd (gl_update gl g c v n d))))"

lemma copy_saver_tables_rows:
  "db_assistants (copy_saver_tables f d) = db_assistants d" "db_crons (copy_saver_tables f d) = db_crons d"
  "db_runs (copy_saver_tables f d) = db_runs d" "db_threads (copy_saver_tables f d) = db_threads d"
  by (simp_all add: copy_saver_tables_def)

lemma library_touches: "library_tables d d' \<Longrightarrow> touches R T d d'"
  by (intro touches_tables) (metis library_tables_def copy_saver_tables_rows)+

lemma keeps_thread:
  assumes "touches {} {k} d d'" "policy s P" "get_thread_http s rq action value d = Inr (Some (k, r), v)"
  shows "keeps P d d'"
  by (rule keeps_touches [OF assms(1)]) (use thread_admits [OF assms(2) _ assms(3)] in auto)

lemma delete_checkpoints_touches:
  assumes "confined sv gl" "delete_checkpoints sv ks d = (x, d')"
  shows "touches R T d d'"
  using assms(2)
proof (induction ks arbitrary: d)
  case (Cons k ks)
  show ?case
  proof (cases "sv_delete sv (uuid_str k) d")
    case (Inr d1)
    then have "touches R T d d1" using assms(1) by (auto simp: confined_def intro: library_touches)
    moreover have "touches R T d1 d'" using Cons Inr by simp
    ultimately show ?thesis by (rule touches_trans)
  qed (use Cons in simp)
qed simp

lemma threads_create_commits: "commits P d (threads_create_http e s rq d)"
proof -
  have new: "keeps P d (insert_thread r d1)"
    if "given_or_new_uuid e v d = Inr (k, d1)" "get_thread k d1 = None" "posted_thread e k q = Inr r"
    for v k d1 q r
  proof -
    have "th_id r = k" using that(3) by (auto simp: posted_thread_def rbind_eq_Inr Let_def new_thread_def)
    with that(2) have "keeps P d1 (insert_thread r d1)" by (intro keeps_insert_thread) simp
    with given_or_new_keeps [OF that(1)] show ?thesis by (rule keeps_trans)
  qed
  show ?thesis
    unfolding threads_create_http_def by (intro commit) (auto intro: given_or_new_keeps new)
qed

lemma merged_thread_touches: "touches {} {k} d (upd_thread k (merged_thread now m) d)"
  by (rule touches_upd_thread) (simp_all add: merged_thread_def)

lemma threads_update_commits:
  assumes "policy s P"
  shows "commits P d (threads_update_http e s rq d)"
proof -
  have "keeps P d (upd_thread k (merged_thread now m) d)"
    if "get_thread_http s rq ''update'' body d = Inr (Some (k, r), q)" for k body r q now m
    by (rule keeps_thread [OF merged_thread_touches assms that])
  then show ?thesis
    unfolding threads_update_http_def
    by (intro commit) (auto intro!: commit split: json.split)
qed

lemma threads_delete_keeps:
  assumes "policy s P" "confined sv gl"
  shows "keeps P d (snd (threads_delete_http sv s rq d))"
proof -
  have "keeps P d d'"
    if g: "get_thread_http s rq ''delete'' [] d = Inr (Some (k, r), v)"
      and c: "delete_checkpoints sv [k] (del_thread k d) = (x, d')" for k r v x d'
  proof -
    have "touches {} {k} d d'"
      by (rule touches_trans [OF touches_del_thread delete_checkpoints_touches [OF assms(2) c]]) simp
    then show ?thesis by (rule keeps_thread [OF _ assms(1) g])
  qed
  then show ?thesis
    unfolding threads_delete_http_def by (auto split: sum.split option.split prod.split)
qed

lemma prune_predicates_admit:
  assumes "policy s P" "prune_predicates s action ks = Inr ps" "(k, p) \<in> set ps" "p m"
  shows "P m"
  using assms(2,3)
proof (induction ks arbitrary: ps)
  case (Cons k' ks)
  from Cons.prems(1) obtain filters v p' ps' where
    "authorized s ''threads'' action [(''thread_id'', JStr (uuid_str k'))] = Inr (filters, v)"
    "compiled filters = Inr p'" "prune_predicates s action ks = Inr ps'" "ps = (k', p') # ps'"
    by (auto simp: rbind_eq_Inr)
  with Cons.IH Cons.prems(2) policyD [OF assms(1)] assms(4) show ?case by auto
qed simp

lemma prune_rows_admit:
  assumes "policy s P" "prune_predicates s action ks = Inr ps" "keyed d"
    "x \<in> set (db_threads d)" "th_id x \<in> set (prune_rows ps d)"
  shows "P (th_metadata x)"
proof -
  from assms(5) obtain r p where r: "r \<in> set (db_threads d)" "th_id r = th_id x" "p (th_metadata r)"
    "(th_id x, p) \<in> set ps"
    by (auto simp: set_prune_rows)
  then have "r = x" using assms(3,4) by (auto simp: keyed_def distinct_map inj_on_def)
  with r prune_predicates_admit [OF assms(1,2)] show ?thesis by blast
qed

lemma fold_del_thread_touches: "set ks \<subseteq> T \<Longrightarrow> touches R T d (fold del_thread ks d)"
  by (induction ks arbitrary: d) (auto intro: touches_trans touches_del_thread)

lemma prune_all_touches: "prune_all e ks d = Inr d' \<Longrightarrow> touches R T d d'"
proof (induction ks arbitrary: d)
  case (Cons k ks)
  then obtain d1 where p: "prune_checkpoints e k d = Inr d1" and a: "prune_all e ks d1 = Inr d'"
    by (auto simp: rbind_eq_Inr)
  have "touches R T d d1"
    using p by (intro touches_tables) (auto simp: prune_checkpoints_def Let_def split: if_splits)
  then show ?case by (rule touches_trans) (rule Cons.IH [OF a])
qed simp

lemma threads_prune_keeps:
  assumes "policy s P" "confined sv gl"
  shows "keeps P d (snd (threads_prune_http e sv s rq d))"
proof -
  have del: "keeps P d d'"
    if "prune_predicates s action ks = Inr ps"
      "delete_checkpoints sv (prune_rows ps d) (fold del_thread (prune_rows ps d) d) = (x, d')"
    for action ks ps x d'
    by (rule keeps_touches [OF touches_trans [OF fold_del_thread_touches [OF subset_refl, where R = "{}"]
          delete_checkpoints_touches [OF assms(2) that(2)]]])
      (use prune_rows_admit [OF assms(1) that(1)] in auto)
  have "keeps P d d'" if "prune_all e ks d = Inr d'" for ks d'
    by (rule keeps_touches [OF prune_all_touches [OF that, where R = "{}" and T = "{}"]]) simp_all
  with del show ?thesis
    unfolding threads_prune_http_def
    by (auto simp: Let_def split: sum.split prod.split py_error.split)
qed

text \<open>A copy adds a thread and checkpoints.\<close>

lemma fenced_writer_touches: "fenced_writer e w c d = Inr d' \<Longrightarrow> touches R T d d'"
  by (intro touches_tables) (auto simp: fenced_writer_def Let_def rbind_eq_Inr split: if_splits option.splits)

lemma fenced_aput_touches:
  assumes "confined sv gl" "fenced_aput (sv_put sv) e w c x m v d = Inr (out, d')"
  shows "touches R T d d'"
proof -
  from assms(2) obtain d1 m' where "fenced_writer e w c d = Inr d1" "sv_put sv c x m' v d1 = Inr (out, d')"
    by (auto simp: fenced_aput_def Let_def rbind_eq_Inr)
  with assms(1) have "touches R T d d1" "touches R T d1 d'"
    by (auto simp: confined_def intro: fenced_writer_touches library_touches)
  then show ?thesis by (rule touches_trans)
qed

lemma fenced_aput_writes_touches:
  assumes "confined sv gl"
    "fenced_aput_writes (\<lambda>c w t _. sv_put_writes sv c w t) e wr c ws task p d = Inr d'"
  shows "touches R T d d'"
proof -
  from assms(2) obtain d1 where "fenced_writer e wr c d = Inr d1" "sv_put_writes sv c ws task d1 = Inr d'"
    by (auto simp: fenced_aput_writes_def rbind_eq_Inr)
  with assms(1) have "touches R T d d1" "touches R T d1 d'"
    by (auto simp: confined_def intro: fenced_writer_touches library_touches)
  then show ?thesis by (rule touches_trans)
qed

lemma copy_writes_touches:
  assumes "confined sv gl" "copy_writes_partial sv e config ws d = (x, d')"
  shows "touches R T d d'"
  using assms(2)
proof (induction ws arbitrary: d)
  case (Cons w ws)
  obtain task channel v where w: "w = (task, channel, v)" by (cases w) auto
  let ?put = "fenced_aput_writes (\<lambda>c w t _. sv_put_writes sv c w t) e None config [(channel, v)] task [] d"
  show ?case
  proof (cases ?put)
    case (Inr d1)
    with Cons.prems w have "copy_writes_partial sv e config ws d1 = (x, d')" by simp
    with fenced_aput_writes_touches [OF assms(1) Inr] show ?thesis
      by (blast intro: touches_trans Cons.IH)
  qed (use Cons.prems w in simp)
qed simp

lemma copy_items_touches:
  assumes "confined sv gl" "copy_items_partial sv e target items d = (x, d')"
  shows "touches R T d d'"
  using assms(2)
proof (induction items arbitrary: d)
  case (Cons i items)
  let ?put = "fenced_aput (sv_put sv) e None (copy_config e target i) (si_checkpoint i) (si_metadata i)
    (obj_of (dgetdef (si_checkpoint i) ''channel_versions'' (JObj []))) d"
  show ?case
  proof (cases ?put)
    case (Inr r)
    obtain stored d1 where r: "r = (stored, d1)" by force
    obtain y d2 where w: "copy_writes_partial sv e stored (si_pending_writes i) d1 = (y, d2)" by force
    have "touches R T d d2"
      using fenced_aput_touches [OF assms(1) Inr [unfolded r]] copy_writes_touches [OF assms(1) w]
      by (rule touches_trans)
    moreover have "touches R T d2 d'"
      using Cons Inr r w by (cases y) auto
    ultimately show ?thesis by (rule touches_trans)
  qed (use Cons.prems in simp)
qed simp

lemma threads_copy_keeps:
  assumes "confined sv gl"
  shows "keeps P d (snd (threads_copy_http e sv s rq d))"
proof -
  have c: "keeps P d d2 \<and> keeps P d (del_thread n d2)"
    if "get_thread n d = None"
      "copy_checkpoints_partial sv e t u (insert_thread (http_copied_thread e n m r) (d\<lparr>db_draws := k\<rparr>)) = (x, d2)"
    for n k t u m r x d2
  proof -
    let ?c = "insert_thread (http_copied_thread e n m r) (d\<lparr>db_draws := k\<rparr>)"
    have i: "keeps P d ?c"
      using that(1)
      by (intro keeps_trans [OF keeps_draws keeps_insert_thread])
        (simp add: http_copied_thread_def get_thread_def)
    have t: "touches {} {} ?c d2"
      using copy_items_touches [OF assms] that(2) unfolding copy_checkpoints_partial_def by blast
    from i keeps_touches [OF t] have k: "keeps P d d2" by (auto intro: keeps_trans)
    moreover have "\<not> keyed d \<or> (\<forall>x \<in> set (db_threads d). th_id x \<noteq> n)"
      using that(1) by (auto simp: threads_t.get_None)
    ultimately have "keeps P d (del_thread n d2)"
      by (auto simp: keeps_def del_thread_def keyed_def t_del_def distinct_map_filter)
    with k show ?thesis by simp
  qed
  show ?thesis
    unfolding threads_copy_http_def Let_def
    by (auto split: sum.split option.split prod.split intro: c [THEN conjunct1] c [THEN conjunct2]
        simp: get_thread_def)
qed

lemma threads_update_state_keeps:
  assumes "policy s P" "confined sv gl"
  shows "keeps P d (snd (threads_update_state_http e gl s rq d))"
proof -
  have m: "keeps P d (upd_thread k (merged_thread now m) d)"
    if "rbind (body_dict rq) (\<lambda>body. get_thread_http s rq ''update'' body d) = Inr (Some (k, r), q)"
    for k r q now m
    using that keeps_thread [OF merged_thread_touches assms(1)] by (auto simp: rbind_eq_Inr)
  have u: "keeps P d d1" if "gl_update gl g c v n d = (x, d1)" for g c v n x d1
  proof -
    have "library_tables d d1" using assms(2) that unfolding confined_def by (metis snd_conv)
    from keeps_touches [OF library_touches [OF this, where R = "{}" and T = "{}"]] show ?thesis by simp
  qed
  have w: "keeps P d (upd_thread k (\<lambda>x. x\<lparr>th_updated_at := now, th_state_updated_at := Some now\<rparr>) d1)"
    if "rbind (body_dict rq) (\<lambda>body. get_thread_http s rq ''update'' body d) = Inr (Some (k, r), q)"
      "gl_update gl g c v n d = (x, d1)" for k r q g c v n x d1 now
  proof -
    have "library_tables d d1" using assms(2) that(2) unfolding confined_def by (metis snd_conv)
    then have "touches {} {k} d (upd_thread k (\<lambda>x. x\<lparr>th_updated_at := now, th_state_updated_at := Some now\<rparr>) d1)"
      by (intro touches_trans [OF library_touches touches_upd_thread]) simp_all
    with that(1) keeps_thread [OF _ assms(1)] show ?thesis by (auto simp: rbind_eq_Inr)
  qed
  show ?thesis
    unfolding threads_update_state_http_def Let_def
    by (auto split: sum.split option.split prod.split json.split simp: m u w)
qed

section \<open>Runs\<close>

lemma runs_delete_commits:
  assumes "policy s P"
  shows "commits P d (runs_delete_http s rq d)"
proof -
  have "keeps P d (del_run k d)" if "authorized_run s k ''delete'' [] d = Inr (Some r)" for k r
    using authorized_run_Inr [OF that] authorized_run_admits [OF assms _ that]
    by (intro keeps_run [OF touches_del_run]) auto
  then show ?thesis
    unfolding runs_delete_http_def by (intro commit) (auto split: option.split)
qed

lemma cancel_row_keeps:
  assumes "policy s P" "authorized_run s k action' v d = Inr (Some r)"
    "cancel_row e k action d = Inr (evs, d')"
  shows "keeps P d d'"
  using cancel_row_touches [OF assms(3) authorized_run_Inr [OF assms(2)]]
    authorized_run_Inr [OF assms(2)] authorized_run_admits(2) [OF assms(1) _ assms(2)]
  by (rule keeps_run)

lemma cancel_await_keeps:
  assumes "policy s P" "authorized_run s k action' v d = Inr (Some r)"
    "cancel_row e k action d = Inr (evs, d1)" "await_rollback e locked k n d1 = (b, d2)"
  shows "keeps P d d2"
proof (cases "keyed d")
  case True
  let ?T = "set_option (run_thread_id r)"
  note g = authorized_run_Inr [OF assms(2)]
  have t: "touches {k} ?T d d1" by (rule cancel_row_touches [OF assms(3) g])
  with run_on_step [OF t True run_on_self [OF g]] await_rollback_touches [OF assms(4)]
  have "touches {k} ?T d d2" by (blast intro: touches_trans)
  then show ?thesis
    using g authorized_run_admits(2) [OF assms(1) _ assms(2)] by (rule keeps_run)
qed (simp add: keeps_def)

lemma runs_cancel_keeps:
  assumes "policy s P"
  shows "keeps P d (snd (runs_cancel_http e s rq polls locked n d))"
  unfolding runs_cancel_http_def Let_def
  by (auto split: sum.split option.split prod.split py_error.split bool.split
      intro: cancel_row_keeps [OF assms] cancel_await_keeps [OF assms])

lemma cancel_each_keeps:
  assumes "policy s P" "cancel_each e s action ks d = Inr d'"
  shows "keeps P d d'"
  using assms(2)
proof (induction ks arbitrary: d)
  case (Cons k ks)
  from Cons.prems obtain row where a: "authorized_run s k ''update'' [(''action'', JStr action)] d = Inr row"
    and c: "case row of None \<Rightarrow> cancel_each e s action ks d = Inr d'
      | Some _ \<Rightarrow> \<exists>evs d1. cancel_row e k action d = Inr (evs, d1) \<and> cancel_each e s action ks d1 = Inr d'"
    by (auto simp: rbind_eq_Inr split: option.splits)
  show ?case
  proof (cases row)
    case None
    with c Cons.IH show ?thesis by simp
  next
    case (Some r)
    with c obtain evs d1 where "cancel_row e k action d = Inr (evs, d1)" "cancel_each e s action ks d1 = Inr d'"
      by auto
    with Some a Cons.IH cancel_row_keeps [OF assms(1)] show ?thesis by (blast intro: keeps_trans)
  qed
qed simp

lemma runs_cancel_many_commits:
  assumes "policy s P"
  shows "commits P d (runs_cancel_many_http e s rq d)"
  unfolding runs_cancel_many_http_def Let_def
  by (intro commit) (auto intro!: commit split: py_error.split intro: cancel_each_keeps [OF assms])

lemma parse_queue_subset:
  "parse_queue v = Inr q \<Longrightarrow> set (qr_requested q) \<subseteq> set (qr_expected q)"
  by (auto simp: parse_queue_def split: json.splits if_splits option.splits)

lemma runs_queue_keeps:
  assumes "policy s P" "parse_queue v = Inr q"
    "get_thread_http s rq ''update'' [] d = Inr (Some (t, th), w)"
    "runs_queue e locked t q d = Inr (evs, d')"
  shows "keeps P d d'"
proof (cases "keyed d")
  case True
  have p: "P (th_metadata x)" if "x \<in> set (db_threads d)" "th_id x = t" for x
    by (rule thread_admits [OF assms(1) True assms(3) that])
  note r = runs_queue_touches [OF assms(4) True parse_queue_subset [OF assms(2)]]
  show ?thesis
  proof (rule keeps_touches [OF r(1)])
    fix k row
    assume "k \<in> set (qr_requested q)" "get_run k d = Some row"
    from r(2) [OF this] p show "\<not> on_hidden P d row" by (auto simp: on_hidden_def list_ex_iff)
  qed (use p in auto)
qed (simp add: keeps_def)

lemma commits_refused: "commits P d r \<Longrightarrow> commits P d (refused d r)"
  by (auto simp: commits_def refused_def split: sum.splits py_error.splits)

lemma runs_queue_commits:
  assumes "policy s P"
  shows "commits P d (runs_queue_http e locked s rq d)"
  unfolding runs_queue_http_def
  by (intro commit commits_refused) (auto split: option.splits intro: runs_queue_keeps [OF assms])

section \<open>Dispatch\<close>

definition WRITE_ENDPOINTS :: "endpoint list" where
  "WRITE_ENDPOINTS = [AssistantsCreate, AssistantsLatest, AssistantsUpdate, AssistantsDelete,
     ThreadsPrune, ThreadsCreate, ThreadsCopy, ThreadsUpdateState, ThreadsUpdate, ThreadsDelete,
     RunsCancelMany, RunsQueue, RunsCancel, RunsDelete, CronCreateThread, CronCreateRoot, CronUpdate,
     CronDelete]"

lemma serve_keeps:
  assumes "ep \<in> set WRITE_ENDPOINTS" "policy s P"
    "confined (dp_saver dp) (rl_graphs (dp_runtime dp))" "serve e s dp ep rq d = Some r"
  shows "keeps P d (snd r)"
proof -
  note c = assistants_create_commits threads_create_commits cron_create_commits
    assistants_update_commits [OF assms(2)] assistants_delete_commits [OF assms(2)]
    assistants_latest_commits [OF assms(2)] threads_update_commits [OF assms(2)]
    runs_delete_commits [OF assms(2)] runs_cancel_many_commits [OF assms(2)]
    runs_queue_commits [OF assms(2)] cron_update_commits [OF assms(2)] cron_delete_commits [OF assms(2)]
  note k = c [THEN commits_settled] runs_cancel_keeps [OF assms(2)] threads_copy_keeps [OF assms(3)]
    threads_prune_keeps [OF assms(2,3)] threads_update_state_keeps [OF assms(2,3)]
    threads_delete_keeps [OF assms(2,3)]
  from assms(1,4) show ?thesis
    by (auto simp: WRITE_ENDPOINTS_def serve_def writes_def Let_def intro: k)
qed

end
