(* ===== verification/HttpGuarantees.thy ===== *)
theory HttpGuarantees
  imports IsolationWrites Resources Identity
begin

text \<open>
  What the HTTP interface guarantees, across its handlers, and where the code falls short of it.
\<close>

section \<open>Reading handlers see the policy's rows only\<close>

section \<open>A deployment with owners\<close>

text \<open>
  The application's handler admits what the caller owns: it sets the owner of a new resource and
  filters every other access by it.
\<close>

definition owner_handler :: auth_handler where
  "owner_handler c v =
     (let me = dget (ac_user c) ''identity''
      in (AuthFilter [(''owner'', me)],
          if ac_action c = ''create''
          then dset ''metadata'' (JObj (dset ''owner'' me (obj_of (dget v ''metadata'')))) v else v))"

definition principal_of :: "string \<Rightarrow> principal" where
  "principal_of me =
     \<lparr>pr_subject = me, pr_roles = [], pr_scopes = [''*''], pr_credential_type = ''custom'', pr_jti = [],
      pr_claims = [], pr_auth_user = Some [(''identity'', JStr me)], pr_request_id = None\<rparr>"

definition owner_site :: "string \<Rightarrow> site" where
  "owner_site me =
     \<lparr>hs_auth = SdkAuth \<lparr>sa_handlers = (\<lambda>_. []), sa_global = [owner_handler]\<rparr>,
      hs_principal = Some (principal_of me), hs_graphs = Some [''agent''], hs_uuid5 = length,
      hs_iso = (\<lambda>_. ''t''), hs_parse_iso = (\<lambda>_. None), hs_tuple = concat, hs_fold = id\<rparr>"

definition owned_by :: "string \<Rightarrow> dict \<Rightarrow> bool" where
  "owned_by me m = (dget m ''owner'' = JStr me)"

text \<open>Such a handler implements the policy of ownership.\<close>

lemma owner_policy: "policy (owner_site me) (owned_by me)"
proof -
  have "owned_by me m"
    if a: "authorized (owner_site me) resource action val = Inr (filters, v)"
      and c: "compiled filters = Inr p" "p m" for resource action val filters v p m
  proof -
    from a have "filters = [(''owner'', JStr me)]"
      by (auto simp: authorized_def authorize_request_def authorize_def owner_site_def principal_of_def
          request_user_def select_handler_def owner_handler_def Let_def dget_def)
    with c show ?thesis
      by (auto simp: compiled_def eq_clause_def owned_by_def dget_def starts_with_def split: option.splits)
  qed
  then show ?thesis unfolding policy_def by blast
qed

text \<open>Two tenants with a thread and a pending run each, and a library without checkpoints.\<close>

definition tenant_thread :: "uuid \<Rightarrow> string \<Rightarrow> thread_row" where
  "tenant_thread k who = demo_thread\<lparr>th_id := k, th_metadata := [(''owner'', JStr who)]\<rparr>"

definition tenant_run :: "uuid \<Rightarrow> uuid \<Rightarrow> time \<Rightarrow> run_row" where
  "tenant_run k t now =
     (new_run demo_cfg (demo_env now) (demo_submission\<lparr>sb_thread_id := Some t\<rparr>) 1 empty_db)
       \<lparr>run_id := k, run_idempotency_key := None\<rparr>"

definition tenant_assistant :: "int \<Rightarrow> assistant_row" where
  "tenant_assistant version =
     demo_team_row\<lparr>as_id := 5, as_metadata := [(''owner'', JStr ''ann'')], as_version := version\<rparr>"

definition tenants :: db where
  "tenants = empty_db\<lparr>db_threads := [tenant_thread 2 ''ann'', tenant_thread 3 ''bob''],
     db_runs := [tenant_run 4 2 10, tenant_run 5 3 20],
     db_assistants := [tenant_assistant 1], db_versions := [version_of 0 (tenant_assistant 1)],
     db_draws := 10\<rparr>"

definition no_saver :: saver where
  "no_saver = \<lparr>sv_copy = (\<lambda>_ _ d. Inr d), sv_list = (\<lambda>_ _. []), sv_put = (\<lambda>c _ _ _ d. Inr (c, d)),
     sv_put_writes = (\<lambda>_ _ _ d. Inr d), sv_delete = (\<lambda>_ d. Inr d)\<rparr>"

definition no_graphs :: graph_lib where
  "no_graphs = \<lparr>gl_tuple = (\<lambda>_ _. Inr None), gl_list = (\<lambda>_ _ _ _. Inr []),
     gl_state = (\<lambda>_ _ _. Inl (KeyError [])), gl_history = (\<lambda>_ _ _ _ _. Inr []),
     gl_update = (\<lambda>_ c _ _ d. (Inr c, d)), gl_text = (\<lambda>_. [])\<rparr>"

definition demo_runtime :: runtime_lib where
  "demo_runtime = \<lparr>rl_graphs = no_graphs, rl_repo = demo_cfg, rl_codec = demo_codec,
     rl_settings = demo_settings\<rparr>"

definition demo_deployment :: deployment where
  "demo_deployment = \<lparr>dp_runtime = demo_runtime, dp_saver = no_saver, dp_loads = (\<lambda>_. None),
     dp_polls = (\<lambda>d. [d]), dp_locked = no_lock, dp_wait = 0\<rparr>"

definition get_request :: "(string \<times> string) list \<Rightarrow> http_request" where
  "get_request path = \<lparr>hr_method = ''GET'', hr_path = path, hr_query = [], hr_headers = [], hr_body = None\<rparr>"

definition posted :: "(string \<times> string) list \<Rightarrow> dict \<Rightarrow> http_request" where
  "posted path body =
     \<lparr>hr_method = ''POST'', hr_path = path, hr_query = [], hr_headers = [], hr_body = Some (JObj body)\<rparr>"

lemma no_saver_confined: "confined no_saver no_graphs"
  by (simp add: confined_def no_saver_def no_graphs_def library_tables_def copy_saver_tables_def)

lemma tenants_keyed: "keyed tenants"
  by (simp add: keyed_def tenants_def tenant_thread_def tenant_run_def empty_db_def)

section \<open>Isolation\<close>





section \<open>Submitted identities\<close>

lemma dget_without: "k \<noteq> j \<Longrightarrow> dget (filter (\<lambda>(x, _). x \<noteq> j) q) k = dget q k"
  by (induction q) (auto simp: dget_def)

definition untrusted :: "dict \<Rightarrow> bool" where
  "untrusted q = (dget q ''runtime_context'' = JNull \<and> dget q ''runtime_context_token'' = JNull)"

lemma untrusted_dset:
  "untrusted q \<Longrightarrow> k \<notin> {''runtime_context'', ''runtime_context_token''} \<Longrightarrow> untrusted (dset k v q)"
  by (auto simp: untrusted_def)

lemma checked_nodes_untrusted:
  "checked_nodes f q = Inr q' \<Longrightarrow> untrusted q \<Longrightarrow> f \<notin> {''runtime_context'', ''runtime_context_token''} \<Longrightarrow>
   untrusted q'"
  by (auto simp: checked_nodes_def rbind_eq_Inr intro: untrusted_dset split: if_splits)

lemma merged_context_untrusted: "untrusted q \<Longrightarrow> untrusted (merged_context body a q)"
  by (auto simp: merged_context_def intro: untrusted_dset split: json.split)

text \<open>Whatever the caller sends, the trusted fields are not among the stored settings.\<close>

lemma stored_settings_untrusted:
  assumes "stored_settings body a = Inr q"
  shows "untrusted q"
proof -
  let ?q0 = "merged_context body a (public_kwargs body)"
  have u0: "untrusted ?q0"
    by (rule merged_context_untrusted) (simp add: untrusted_def public_kwargs_hides)
  from assms obtain v q2 where
    "checked_nodes ''interrupt_before''
       (if dhas ?q0 ''durability'' then dset ''durability'' v ?q0 else ?q0) = Inr q2"
    "checked_nodes ''interrupt_after'' q2 = Inr q"
    by (auto simp: stored_settings_def Let_def rbind_eq_Inr)
  note c = this
  have "untrusted (if dhas ?q0 ''durability'' then dset ''durability'' v ?q0 else ?q0)"
    using u0 untrusted_dset [OF u0, of "''durability''" v] by simp
  from checked_nodes_untrusted [OF c(1) this] have "untrusted q2" by simp
  from checked_nodes_untrusted [OF c(2) this] show ?thesis by simp
qed

text \<open>The identity a run stores: none, or the token signed for this run and its thread.\<close>

definition bound_identity :: "env \<Rightarrow> runtime_lib \<Rightarrow> principal option \<Rightarrow> run_row \<Rightarrow> bool" where
  "bound_identity e rl p r =
     (dget (run_kwargs r) ''runtime_context'' = JNull \<and>
      (case runtime_context e p of
         None \<Rightarrow> dget (run_kwargs r) ''runtime_context_token'' = JNull
       | Some ctx \<Rightarrow>
           (case sign_runtime_context e (rl_codec rl) (rl_settings rl) ctx (uuid_str (run_id r))
                   (map_option uuid_str (run_thread_id r)) of
              Inl _ \<Rightarrow> False
            | Inr token \<Rightarrow> dget (run_kwargs r) ''runtime_context_token'' = JStr token)))"

text \<open>What a transaction inserts carries a bound identity.\<close>

definition binds :: "env \<Rightarrow> runtime_lib \<Rightarrow> principal option \<Rightarrow> db \<Rightarrow> (response \<times> db) res \<Rightarrow> bool" where
  "binds e rl p d r =
     (\<forall>x d'. r = Inr (x, d') \<longrightarrow>
        (\<forall>y \<in> set (db_runs d'). run_id y \<notin> run_id ` set (db_runs d) \<longrightarrow> bound_identity e rl p y))"

lemma signed_run_bound:
  assumes "create_insert (rl_repo rl) e sub pos d1 = Inr (run, d2)" "db_runs d2 \<noteq> db_runs d1"
    "sb_thread_id sub = map_option th_id thread" "untrusted q"
    "sb_kwargs sub = (case runtime_context e p of None \<Rightarrow> q | Some ctx \<Rightarrow> dset ''runtime_context'' (JObj ctx) q)"
    "sign_run e rl (runtime_context e p) thread run d2 = Inr d3"
    "y \<in> set (db_runs d3)" "run_id y \<notin> run_id ` set (db_runs d1)"
  shows "bound_identity e rl p y"
proof -
  from assms(1,2) have run: "run = new_run (rl_repo rl) e sub pos d1" and d2: "db_runs d2 = db_runs d1 @ [run]"
    by (auto simp: create_insert_def Let_def rbind_eq_Inr split: if_splits option.splits)
  have token: "dget (run_kwargs run) ''runtime_context_token'' = JNull"
    using assms(4,5) by (auto simp: run new_run_def dget_without untrusted_def split: option.splits)
  show ?thesis
  proof (cases "runtime_context e p")
    case None
    with assms(6) have "d3 = d2" by (simp add: sign_run_def)
    with assms(7,8) d2 have "y = run" by auto
    moreover have "dget (run_kwargs run) ''runtime_context'' = JNull"
      using assms(4,5) None by (simp add: run new_run_def dget_without untrusted_def)
    ultimately show ?thesis using None token by (simp add: bound_identity_def)
  next
    case (Some ctx)
    with assms(6) token obtain t where
      t: "sign_runtime_context e (rl_codec rl) (rl_settings rl) ctx (uuid_str (run_id run))
           (map_option (\<lambda>t. uuid_str (th_id t)) thread) = Inr t" and
      d3: "d3 = upd_run (run_id run) (\<lambda>x. x\<lparr>run_kwargs := trusted_kwargs t (run_kwargs x)\<rparr>) d2"
      by (auto simp: sign_run_def rbind_eq_Inr)
    have thr: "map_option (\<lambda>t. uuid_str (th_id t)) thread = map_option uuid_str (run_thread_id run)"
      using assms(3) by (cases thread) (simp_all add: run new_run_def)
    from d3 assms(7,8) d2 have "y = run\<lparr>run_kwargs := trusted_kwargs t (run_kwargs run)\<rparr>"
      by (auto simp: runs_t.set_upd image_iff)
    with t thr Some show ?thesis
      by (simp add: bound_identity_def trusted_kwargs_def dget_def)
  qed
qed

lemma sign_run_ids:
  "sign_run e rl t thread run d = Inr d' \<Longrightarrow> map run_id (db_runs d') = map run_id (db_runs d)"
  by (auto simp: sign_run_def rbind_eq_Inr runs_t.keys_upd split: option.splits if_splits)

lemma store_run_cases:
  assumes "store_run e rl s rq body a thread d = Inr (x, d')"
  shows "d' = d \<or> (\<exists>q sub run d2. stored_settings body a = Inr q \<and>
      http_submission e rl s rq body a thread q = Inr sub \<and>
      create_run (rl_repo rl) e sub d d = Inr (run, d2) \<and>
      sign_run e rl (runtime_context e (hs_principal s)) thread run d2 = Inr d')"
proof (cases "stored_settings body a")
  case (Inl err)
  with assms show ?thesis by (cases err) (auto simp: store_run_def)
next
  case q: (Inr q)
  show ?thesis
  proof (cases "check_checkpoint (rl_graphs rl) q thread d")
    case None
    with assms q obtain sub where sub: "http_submission e rl s rq body a thread q = Inr sub"
      by (auto simp: store_run_def rbind_eq_Inr)
    show ?thesis
    proof (cases "create_run (rl_repo rl) e sub d d")
      case (Inl err)
      with assms q None sub show ?thesis by (cases err) (auto simp: store_run_def)
    next
      case (Inr r)
      with assms q None sub show ?thesis
        by (cases r) (auto simp: store_run_def rbind_eq_Inr split: option.splits)
    qed
  qed (use assms q in \<open>simp add: store_run_def\<close>)
qed

lemma store_run_binds: "binds e rl (hs_principal s) d (store_run e rl s rq body a thread d)"
proof -
  have "bound_identity e rl (hs_principal s) y"
    if st: "stored_settings body a = Inr q" and sub: "http_submission e rl s rq body a thread q = Inr sub"
      and c: "create_run (rl_repo rl) e sub d d = Inr (run, d2)"
      and sg: "sign_run e rl (runtime_context e (hs_principal s)) thread run d2 = Inr d3"
      and y: "y \<in> set (db_runs d3)" "run_id y \<notin> run_id ` set (db_runs d)"
    for q sub run d2 d3 y
  proof -
    have new: "db_runs d2 \<noteq> db_runs d" using sign_run_ids [OF sg] y by (metis list.set_map imageI)
    obtain p where "create_plan sub d = Inr p" using c by (auto simp: create_run_def rbind_eq_Inr)
    with c new obtain pos where i: "create_insert (rl_repo rl) e sub pos d = Inr (run, d2)"
      by (cases p) (auto simp: create_run_def)
    from sub have f: "sb_thread_id sub = map_option th_id thread"
      "sb_kwargs sub = (case runtime_context e (hs_principal s) of
         None \<Rightarrow> q | Some ctx \<Rightarrow> dset ''runtime_context'' (JObj ctx) q)"
      by (auto simp: http_submission_def rbind_eq_Inr)
    show ?thesis
      by (rule signed_run_bound [OF i new f(1) stored_settings_untrusted [OF st] f(2) sg y])
  qed
  moreover have "d' = d \<or> (\<exists>q sub run d2. stored_settings body a = Inr q \<and>
      http_submission e rl s rq body a thread q = Inr sub \<and>
      create_run (rl_repo rl) e sub d d = Inr (run, d2) \<and>
      sign_run e rl (runtime_context e (hs_principal s)) thread run d2 = Inr d')"
    if "store_run e rl s rq body a thread d = Inr (x, d')" for x d'
    using that by (rule store_run_cases)
  ultimately show ?thesis unfolding binds_def by blast
qed

lemma thread_for_run_runs:
  "thread_for_run_http e s v create d = Inr (th, d') \<Longrightarrow> db_runs d' = db_runs d"
  by (auto simp: thread_for_run_http_def rbind_eq_Inr Let_def insert_thread_def
      split: if_splits option.splits)


text \<open>A request with a forged identity, the submission made of it and the rows it leaves.\<close>

definition forged :: dict where
  "forged = [(''assistant_id'', JStr ''agent''), (''runtime_context'', JObj [(''auth_user'', JStr ''root'')])]"

definition forged_settings :: dict where
  "forged_settings = [(''assistant_id'', JStr ''agent''), (''metadata'', JObj [])]"

definition ann_context :: "dict option" where
  "ann_context = runtime_context (demo_env 30) (Some (principal_of ''ann''))"

definition forged_submission :: submission where
  "forged_submission = (case http_submission (demo_env 30) demo_runtime (owner_site ''ann'') (posted [] [])
       (dset ''metadata'' (JObj []) forged) (tenant_assistant 1) None forged_settings of
     Inr x \<Rightarrow> x | Inl _ \<Rightarrow> demo_submission)"

lemma forged_submission_value [code]:
  "forged_submission = \<lparr>sb_assistant_id = 5, sb_thread_id = None,
     sb_kwargs = [(''assistant_id'', JStr ''agent''), (''metadata'', JObj []),
       (''runtime_context'', JObj [(''accepted_at'', JInt 0), (''permissions'', JList [JStr ''*'']),
          (''auth_user'', JObj [(''identity'', JStr ''ann'')])])],
     sb_metadata = [], sb_idempotency_key = None, sb_multitask_strategy = Some ''enqueue''\<rparr>"
  by code_simp

text \<open>The row of the run as it is inserted and as it is stored.\<close>

definition forged_run :: run_row where
  "forged_run = new_run demo_cfg (demo_env 30) forged_submission 1 tenants"

definition forged_inserted :: db where
  "forged_inserted = tenants\<lparr>db_runs := db_runs tenants @ [forged_run], db_draws := 11\<rparr>"

definition forged_stored :: db where
  "forged_stored =
     upd_run 12 (\<lambda>x. x\<lparr>run_kwargs := trusted_kwargs ''doc.s/doc'' (run_kwargs x)\<rparr>) forged_inserted"

lemma forged_run_simps [simp]:
  "run_id forged_run = 12" "run_thread_id forged_run = None"
  "dget (run_kwargs forged_run) ''runtime_context_token'' = JNull"
  by (simp_all add: forged_run_def new_run_def forged_submission_value tenants_def demo_env_def dget_def)

lemma tenants_simps [simp]:
  "db_runs tenants = [tenant_run 4 2 10, tenant_run 5 3 20]" "db_draws tenants = 10"
  "run_id (tenant_run k t now) = k" "run_thread_id (tenant_run k t now) = Some t"
  by (simp_all add: tenants_def tenant_run_def new_run_def demo_submission_def)

lemma forged_get: "get_run 12 forged_stored = Some (forged_run\<lparr>run_kwargs :=
    trusted_kwargs ''doc.s/doc'' (run_kwargs forged_run)\<rparr>)"
  by (simp add: forged_stored_def forged_inserted_def upd_run_def get_run_def t_get_def t_upd_def)

lemma forged_create:
  "create_run demo_cfg (demo_env 30) forged_submission tenants tenants = Inr (forged_run, forged_inserted)"
proof -
  have "next_position None tenants = 1" by code_simp
  moreover have "\<not> run_conflict forged_run tenants"
    by (simp add: run_conflict_def) (simp add: forged_run_def new_run_def forged_submission_value)
  ultimately show ?thesis
    by (simp add: create_run_def create_plan_def create_insert_def has_key_def forged_submission_value
        forged_run_def [symmetric] Let_def)
      (simp add: forged_inserted_def forged_run_def forged_submission_value)
qed

lemma forged_sign:
  "sign_run (demo_env 30) demo_runtime ann_context None forged_run forged_inserted = Inr forged_stored"
proof -
  have a: "ann_context = Some [(''accepted_at'', JInt 0), (''permissions'', JList [JStr ''*'']),
      (''auth_user'', JObj [(''identity'', JStr ''ann'')])]"
    by code_simp
  have "sign_runtime_context (demo_env 30) demo_codec demo_settings
      [(''accepted_at'', JInt 0), (''permissions'', JList [JStr ''*'']),
       (''auth_user'', JObj [(''identity'', JStr ''ann'')])] (uuid_str 12) None = Inr ''doc.s/doc''"
    by code_simp
  then show ?thesis
    unfolding sign_run_def a by (simp add: demo_runtime_def forged_stored_def)
qed

lemma forged_submit:
  "stored_settings (dset ''metadata'' (JObj []) forged) (tenant_assistant 1) = Inr forged_settings"
  "http_submission (demo_env 30) demo_runtime (owner_site ''ann'') (posted [] [])
     (dset ''metadata'' (JObj []) forged) (tenant_assistant 1) None forged_settings = Inr forged_submission"
proof -
  show "stored_settings (dset ''metadata'' (JObj []) forged) (tenant_assistant 1) = Inr forged_settings"
    by code_simp
  have "case http_submission (demo_env 30) demo_runtime (owner_site ''ann'') (posted [] [])
      (dset ''metadata'' (JObj []) forged) (tenant_assistant 1) None forged_settings of
      Inl _ \<Rightarrow> False | Inr _ \<Rightarrow> True" by code_simp
  then show "http_submission (demo_env 30) demo_runtime (owner_site ''ann'') (posted [] [])
      (dset ''metadata'' (JObj []) forged) (tenant_assistant 1) None forged_settings = Inr forged_submission"
    by (auto simp: forged_submission_def split: sum.splits)
qed

lemma forged_request:
  "\<exists>resp. runs_create_http (demo_env 30) demo_runtime (owner_site ''ann'') (posted [] []) JNull forged tenants =
     Inr (resp, forged_stored)"
proof -
  have "case resolve_assistant (owner_site ''ann'') ''agent'' tenants of
      Inr (Some a) \<Rightarrow> a = tenant_assistant 1 | _ \<Rightarrow> False" by code_simp
  then have a: "resolve_assistant (owner_site ''ann'') ''agent'' tenants = Inr (Some (tenant_assistant 1))"
    by (auto split: sum.splits option.splits)
  have v: "authorized (owner_site ''ann'') ''threads'' ''create_run'' (dset ''kwargs'' (JObj forged)
      (dset ''assistant_id'' (JStr ''agent'') (dset ''thread_id'' JNull forged))) =
      Inr ([(''owner'', JStr ''ann'')], dset ''kwargs'' (JObj forged)
      (dset ''assistant_id'' (JStr ''agent'') (dset ''thread_id'' JNull forged)))"
    by (simp add: authorized_def authorize_request_def authorize_def owner_site_def principal_of_def
        request_user_def select_handler_def owner_handler_def Let_def dget_def)
  have "check_checkpoint (rl_graphs demo_runtime) forged_settings None tenants = None" by code_simp
  then have "\<exists>resp. store_run (demo_env 30) demo_runtime (owner_site ''ann'') (posted [] [])
      (dset ''metadata'' (JObj []) forged) (tenant_assistant 1) None tenants = Inr (resp, forged_stored)"
    using forged_submit forged_create forged_sign
    by (simp add: store_run_def ann_context_def owner_site_def demo_runtime_def forged_get)
  moreover have "dgetdef (dset ''kwargs'' (JObj forged) (dset ''assistant_id'' (JStr ''agent'')
      (dset ''thread_id'' JNull forged))) ''metadata'' (JObj []) = JObj []" by code_simp
  moreover have "py_str (demo_env 30) (dgetor forged ''assistant_id'' (JStr [])) = ''agent''" by code_simp
  moreover have "dget forged ''input'' = JNull" by code_simp
  ultimately show ?thesis
    by (simp add: runs_create_http_def given_thread_def v a thread_for_run_http_def)
qed


end
