(* ===== verification/HttpLifecycles.thy ===== *)
theory HttpLifecycles
  imports HttpGuarantees
begin

text \<open>
  Whole lifecycles over HTTP: registering, editing, restoring and deleting assistants, deleting
  threads, searching and counting, and the published description of the routes.
\<close>

section \<open>Versions\<close>

lemma not_ok [simp]:
  "rs_status (not_found what) = 404" "rs_status (error_response code msg) = code"
  "rs_status (json_response v) = 200"
  by (simp_all add: not_found_def error_response_def json_response_at_def json_response_def)

lemma latest_restores:
  assumes "assistants_latest_http e s rq d = Inr (resp, d')" "rs_status resp = 200"
    "path_uuid rq ''assistant_id'' = Inr (Some k)" "body_dict rq = Inr body"
    "py_int (dget body ''version'') = Some n"
  obtains r v where "get_assistant k d = Some r" "t_get version_key (k, n) (db_versions d) = Some v"
    "d' = upd_assistant k (\<lambda>_. restored_assistant (e_now e) v r) d"
proof -
  let ?a = "authorized_resource s as_metadata ''assistants'' k ''update'' body (get_assistant k d)"
  let ?f = "\<lambda>row. case (row, t_get version_key (k, n) (db_versions d)) of
      (Some r, Some v) \<Rightarrow>
        (Inr (json_response (assistant_view s (restored_assistant (e_now e) v r)),
          upd_assistant k (\<lambda>_. restored_assistant (e_now e) v r) d) :: (response \<times> db) res)
    | _ \<Rightarrow> Inr (not_found ''assistant'', d)"
  have "assistants_latest_http e s rq d = rbind ?a (\<lambda>(row, _). ?f row)"
    unfolding assistants_latest_http_def Let_def by (simp add: assms(3-5))
  with assms(1) obtain row q where a: "?a = Inr (row, q)" and c: "?f row = Inr (resp, d')"
    by (auto simp: rbind_eq_Inr)
  from c assms(2) obtain r v where r: "row = Some r" and v: "t_get version_key (k, n) (db_versions d) = Some v"
      and d': "d' = upd_assistant k (\<lambda>_. restored_assistant (e_now e) v r) d"
    by (cases row; cases "t_get version_key (k, n) (db_versions d)") auto
  show ?thesis by (rule that [OF authorized_resource_Inr [OF a [unfolded r]] v d'])
qed

section \<open>A history to restore\<close>

definition history :: db where
  "history = tenants\<lparr>db_assistants := [tenant_assistant 2],
     db_versions := [version_of 0 (tenant_assistant 1), version_of 0 (tenant_assistant 2)]\<rparr>"

definition assistant_path :: "(string \<times> string) list" where
  "assistant_path = [(''assistant_id'', uuid_str 5)]"

definition ann :: site where
  "ann = owner_site ''ann''"

definition restore_request :: http_request where
  "restore_request = posted assistant_path [(''version'', JInt 1)]"

definition restored :: db where
  "restored = upd_assistant 5
     (\<lambda>_. restored_assistant 40 (version_of 0 (tenant_assistant 1)) (tenant_assistant 2)) history"

text \<open>What Ann may do with what she owns.\<close>

lemma ann_authorized:
  "action \<noteq> ''create'' \<Longrightarrow> authorized ann resource action v = Inr ([(''owner'', JStr ''ann'')], v)"
  by (simp add: authorized_def authorize_request_def authorize_def ann_def owner_site_def principal_of_def
      request_user_def select_handler_def owner_handler_def Let_def dget_def)

lemma ann_resource:
  assumes "action \<noteq> ''create''" "owned_by ''ann'' (meta r)"
  shows "authorized_resource ann meta resource k action v (Some r) =
    Inr (Some r, dset (id_field resource) (JStr (uuid_str k)) v)"
proof -
  have "map_of (meta r) ''owner'' = Some (JStr ''ann'')"
    using assms(2) by (auto simp: owned_by_def dget_def split: option.splits)
  then show ?thesis
    by (simp add: authorized_resource_def ann_authorized [OF assms(1)] compiled_def starts_with_def
        eq_clause_def)
qed

lemma tenant_assistant_simps [simp]:
  "as_id (tenant_assistant n) = 5" "as_version (tenant_assistant n) = n"
  "owned_by ''ann'' (as_metadata (tenant_assistant n))"
  by (simp_all add: tenant_assistant_def owned_by_def dget_def)

lemma body_posted [simp]: "body_dict (posted path body) = Inr body"
  by (simp add: body_dict_def posted_def)

lemma demo_now [simp]: "e_now (demo_env now) = now"
  by (simp add: demo_env_def)

lemma assistant_path_uuid: "path_uuid (posted assistant_path body) ''assistant_id'' = Inr (Some 5)"
  by (simp add: path_uuid_def path_param_def posted_def assistant_path_def parse_uuid_str)

text \<open>
  C34: After an assistant was restored to version \<open>n\<close> while version \<open>n + 1\<close> is in its history, no
  update of it succeeds: a request that passes the authorisation asks for the number \<open>n + 1\<close> again
  and fails on the key of the version table.
\<close>

theorem updates_fail_after_restore:
  assumes "assistants_latest_http e s rq d = Inr (resp, d1)" "rs_status resp = 200"
    "path_uuid rq ''assistant_id'' = Inr (Some k)" "body_dict rq = Inr body"
    "py_int (dget body ''version'') = Some n"
    "(k, n + 1) \<in> version_key ` set (db_versions d)"
    "path_uuid rq' ''assistant_id'' = Inr (Some k)"
  shows "case assistants_update_http e' s' rq' d1 of
      Inl _ \<Rightarrow> True
    | Inr (resp', d2) \<Rightarrow> rs_status resp' = 404 \<and> d2 = d1"
proof (cases "assistants_update_http e' s' rq' d1")
  case (Inr out)
  obtain resp' d2 where out: "out = (resp', d2)" by force
  obtain r v where
    r: "get_assistant k d = Some r" and v: "t_get version_key (k, n) (db_versions d) = Some v" and
    d1: "d1 = upd_assistant k (\<lambda>_. restored_assistant (e_now e) v r) d"
    by (rule latest_restores [OF assms(1-5)])
  have n: "as_version (restored_assistant (e_now e) v r) = n"
    using t_get_Some [OF v] by (simp add: restored_assistant_def version_key_def)
  have k: "as_id (restored_assistant (e_now e) v r) = k"
    using assistants_t.get_Some [OF r] by (simp add: restored_assistant_def)
  have g: "get_assistant k d1 = Some (restored_assistant (e_now e) v r)"
    using r k unfolding d1 by (simp add: get_assistant_def upd_assistant_def t_get_upd_const)
  from Inr out assms(7) obtain body' row q where
    a: "authorized_resource s' as_metadata ''assistants'' k ''update'' body' (get_assistant k d1) = Inr (row, q)" and
    c: "(case row of None \<Rightarrow> Inr (not_found ''assistant'', d1)
       | Some r1 \<Rightarrow> rbind (edited_assistant e' q r1) (\<lambda>r'.
           rbind (add_version (version_of (e_now e') r') (upd_assistant k (\<lambda>_. r') d1)) (\<lambda>d'.
             Inr (json_response (assistant_view s' r'), d')))) = Inr (resp', d2)"
    by (auto simp: assistants_update_http_def rbind_eq_Inr)
  show ?thesis
  proof (cases row)
    case None
    with c Inr out show ?thesis by auto
  next
    case (Some r1)
    from authorized_resource_Inr [OF a [unfolded Some]] g
    have r1: "r1 = restored_assistant (e_now e) v r" by simp
    from c Some obtain r' where e: "edited_assistant e' q r1 = Inr r'"
      and n': "version_key (version_of (e_now e') r') \<notin> version_key ` set (db_versions (upd_assistant k (\<lambda>_. r') d1))"
      by (auto simp: rbind_eq_Inr add_version_Inr)
    have "version_key (version_of (e_now e') r') = (k, n + 1)"
      using edited_assistant_Inr [OF e] n k r1 by (simp add: version_key_def version_of_def)
    with n' assms(6) show ?thesis by (simp add: d1 upd_assistant_def)
  qed
qed simp

theorem updates_fail_after_restore_witness:
  "(\<exists>resp. assistants_latest_http (demo_env 40) ann restore_request history = Inr (resp, restored) \<and>
     rs_status resp = 200) \<and>
   (case assistants_update_http (demo_env 50) ann (posted assistant_path [(''name'', JStr ''b'')]) restored of
      Inl _ \<Rightarrow> True | Inr (resp', d2) \<Rightarrow> rs_status resp' = 404 \<and> d2 = restored)"
proof -
  have h: "get_assistant 5 history = Some (tenant_assistant 2)"
    "t_get version_key (5, 1) (db_versions history) = Some (version_of 0 (tenant_assistant 1))"
    by (simp_all add: history_def get_assistant_def t_get_def version_key_def version_of_def)
  have b: "body_dict restore_request = Inr [(''version'', JInt 1)]"
      "py_int (dget [(''version'', JInt 1)] ''version'') = Some 1"
      "path_uuid restore_request ''assistant_id'' = Inr (Some 5)"
    by (simp_all add: restore_request_def dget_def assistant_path_uuid)
  obtain resp where l: "assistants_latest_http (demo_env 40) ann restore_request history = Inr (resp, restored)"
      "rs_status resp = 200"
    by (simp add: assistants_latest_http_def b h ann_resource Let_def restored_def)
  have key: "(5, 1 + 1) \<in> version_key ` set (db_versions history)"
    by (simp add: history_def version_key_def version_of_def)
  show ?thesis
    using updates_fail_after_restore [OF l b(3,1,2) key assistant_path_uuid] l by blast
qed

text \<open>
  C35: The versions of a deleted assistant stay. Creating an assistant again under its identifier
  never succeeds: once the request is authorised and well formed, the insert of version 1 fails.
\<close>

theorem deleted_assistant_cannot_return:
  assumes "assistants_delete_http s rq d = Inr (resp, d1)" "path_uuid rq ''assistant_id'' = Inr (Some k)"
    "(k, 1) \<in> version_key ` set (db_versions d)" "get_assistant k d1 = None"
    "body_dict rq' = Inr body" "truthy (dget body ''assistant_id'')"
    "parse_uuid (py_str e (dget body ''assistant_id'')) = Some k"
  shows "case assistants_create_http e s' rq' d1 of
      Inl _ \<Rightarrow> True
    | Inr (resp', d2) \<Rightarrow> rs_status resp' \<in> {404, 422} \<and> d2 = d1"
proof -
  have v: "db_versions d1 = db_versions d"
    using assms(1,2) by (auto simp: assistants_delete_http_def rbind_eq_Inr split: option.splits)
  have g: "given_or_new_uuid e (dget body ''assistant_id'') d1 = Inr (k, d1)"
    using assms(6,7) by (simp add: given_or_new_uuid_def)
  have "add_version (version_of (e_now e) r) (d1\<lparr>db_assistants := db_assistants d1 @ [r]\<rparr>) = Inl IntegrityError"
    if "posted_assistant e k gr q = Inr r" for gr q r
    using posted_assistant_Inr [OF that] assms(3) v
    by (intro add_version_taken) (simp add: version_key_def version_of_def)
  then have never: False
    if "posted_assistant e k gr q = Inr r"
      "add_version (version_of (e_now e) r) (d1\<lparr>db_assistants := db_assistants d1 @ [r]\<rparr>) = Inr d2"
    for gr q r d2
    using that by simp
  show ?thesis
    using assms(4,5) g never
    by (auto simp: assistants_create_http_def Let_def rbind_eq_Inr split: sum.split option.splits if_splits)
qed

definition without_assistant :: db where
  "without_assistant = tenants\<lparr>db_assistants := []\<rparr>"

definition recreate_request :: http_request where
  "recreate_request = posted [] [(''assistant_id'', JStr (uuid_str 5)), (''graph_id'', JStr ''agent'')]"

theorem deleted_assistant_cannot_return_witness:
  "assistants_delete_http ann (posted assistant_path []) tenants = Inr (no_content, without_assistant) \<and>
   (case assistants_create_http (demo_env 50) ann recreate_request without_assistant of
      Inl _ \<Rightarrow> True
    | Inr (resp', d2) \<Rightarrow> rs_status resp' \<in> {404, 422} \<and> d2 = without_assistant)"
proof -
  have "get_assistant 5 tenants = Some (tenant_assistant 1)"
    by (simp add: tenants_def get_assistant_def t_get_def)
  then have d: "assistants_delete_http ann (posted assistant_path []) tenants = Inr (no_content, without_assistant)"
    by (simp add: assistants_delete_http_def assistant_path_uuid ann_resource without_assistant_def
        tenants_def t_del_def)
  have v: "(5, 1) \<in> version_key ` set (db_versions tenants)"
    by (simp add: tenants_def version_key_def version_of_def)
  have n: "uuid_str k \<noteq> []" for k by (simp add: uuid_str_def Let_def)
  have g: "get_assistant 5 without_assistant = None"
    by (simp add: without_assistant_def get_assistant_def t_get_def)
  show ?thesis
    using deleted_assistant_cannot_return [OF d assistant_path_uuid v g, of recreate_request] d
    by (simp add: recreate_request_def dget_def parse_uuid_str n)
qed

text \<open>C36: Registering the deployment's default assistants again, as every restart does, changes nothing.\<close>

theorem defaults_are_registered_once:
  "register_default_assistants e' s (register_default_assistants e s d) =
     register_default_assistants e s d"
  by (rule register_default_again)

section \<open>Deleted threads\<close>

lemma del_thread_rest:
  "db_runs (del_thread k d) = db_runs d" "db_crons (del_thread k d) = db_crons d"
  by (simp_all add: del_thread_def)

lemma deleted_thread_rows:
  assumes "confined sv gl" "threads_delete_http sv s rq d = (x, d')"
    "get_thread_http s rq ''delete'' [] d = Inr (Some (k, th), v)"
  shows "get_thread k d' = None" "db_runs d' = db_runs d" "db_crons d' = db_crons d"
proof -
  from assms(2,3) obtain y where "delete_checkpoints sv [k] (del_thread k d) = (y, d')"
    by (auto simp: threads_delete_http_def split: prod.splits sum.splits)
  then have l: "d' = del_thread k d \<or> library_tables (del_thread k d) d'"
    using assms(1) by (auto simp: confined_def split: sum.splits)
  have t: "get_thread k (del_thread k d) = None"
    by (simp add: get_thread_def del_thread_def)
  from l show "db_runs d' = db_runs d" "db_crons d' = db_crons d"
    by (metis library_tables_def copy_saver_tables_rows del_thread_rest)+
  have "db_threads d' = db_threads (del_thread k d)"
    using l by (metis library_tables_def copy_saver_tables_rows(4))
  with t show "get_thread k d' = None" by (simp add: get_thread_def)
qed

text \<open>
  Deleting a thread leaves its runs and crons in place, and the runs are out of reach from then
  on: whoever asks, with any filters, no run of the thread can be read, cancelled or deleted.
\<close>

lemma deleted_thread_strands_its_runs:
  assumes "confined sv gl" "threads_delete_http sv s rq d = (x, d')"
    "get_thread_http s rq ''delete'' [] d = Inr (Some (k, th), v)"
    "r \<in> set (db_runs d)" "run_thread_id r = Some k" "keyed d"
  shows "r \<in> set (db_runs d') \<and> authorized_run s' (run_id r) action w d' \<noteq> Inr (Some y)"
proof -
  note rows = deleted_thread_rows [OF assms(1-3)]
  have g: "get_run (run_id r) d' = Some r"
    using assms(4,6) rows(2) runs_t.get_in [of d' r] by (simp add: keyed_def)
  have "authorized_run s' (run_id r) action w d' \<noteq> Inr (Some y)"
    by (auto simp: authorized_run_def g assms(5) rows(1) Let_def rbind_eq_Inr)
  with assms(4) rows(2) show ?thesis by simp
qed


definition thread_request :: http_request where
  "thread_request = get_request [(''thread_id'', uuid_str 2)]"

lemma ann_deletes:
  "get_thread_http ann thread_request ''delete'' [] tenants =
     Inr (Some (2, tenant_thread 2 ''ann''), [(''thread_id'', JStr (uuid_str 2))])"
  "threads_delete_http no_saver ann thread_request tenants = (Inr no_content, del_thread 2 tenants)"
proof -
  have t: "get_thread 2 tenants = Some (tenant_thread 2 ''ann'')"
    by (simp add: tenants_def get_thread_def t_get_def tenant_thread_def)
  have o: "owned_by ''ann'' (th_metadata (tenant_thread 2 ''ann''))"
    by (simp add: tenant_thread_def owned_by_def dget_def)
  show g: "get_thread_http ann thread_request ''delete'' [] tenants =
     Inr (Some (2, tenant_thread 2 ''ann''), [(''thread_id'', JStr (uuid_str 2))])"
    by (simp add: get_thread_http_def thread_request_def get_request_def parse_uuid_str t
        ann_resource [where meta = th_metadata, OF _ o] id_field_def dset_def)
  show "threads_delete_http no_saver ann thread_request tenants = (Inr no_content, del_thread 2 tenants)"
    by (simp add: threads_delete_http_def g no_saver_def)
qed


section \<open>Crons\<close>


definition cron_request :: http_request where
  "cron_request = posted [] [(''schedule'', JStr ''* * * * *''), (''assistant_id'', JStr ''agent'')]"


section \<open>Searching and counting\<close>



section \<open>The published description\<close>


text \<open>
  The identity middleware stands before the cross-origin middleware, so a preflight request, which
  carries no credentials, is refused before the cross-origin configuration is looked at.
\<close>

lemma preflight_is_refused:
  assumes "rq_type rq = ''http''" "rq_path rq \<notin> set PUBLIC_PATHS" "header_value rq ''authorization'' = []"
    "header_value rq ''x-graphharbor-management-key'' = []" "\<not> configured h"
  shows "arrive e fw h False c mcp custom rq = Answered 401"
  using assms by (simp add: arrive_def principal_middleware_def)

text \<open>A browser's preflight for the store's \<open>PUT\<close> finds no such method in the default configuration.\<close>

lemma default_methods_lack_put: "''PUT'' \<notin> set (cors_methods None)"
  by (simp add: cors_methods_def)


text \<open>The update is well formed and authorised: what refuses it is the key of the versions.\<close>

lemma update_hits_the_key:
  "assistants_update_http (demo_env 50) ann (posted assistant_path [(''name'', JStr ''b'')]) restored =
     Inl IntegrityError"
proof -
  let ?r = "restored_assistant 40 (version_of 0 (tenant_assistant 1)) (tenant_assistant 2)"
  have g: "get_assistant 5 restored = Some ?r"
    by (simp add: restored_def history_def get_assistant_def upd_assistant_def t_get_def t_upd_def
        restored_assistant_def)
  have o: "owned_by ''ann'' (as_metadata ?r)"
    by (simp add: restored_assistant_def version_of_def tenant_assistant_def owned_by_def dget_def)
  have v: "as_version ?r = 1" "as_id ?r = 5" by (simp_all add: restored_assistant_def version_of_def)
  obtain r' where e: "edited_assistant (demo_env 50)
      (dset ''assistant_id'' (JStr (uuid_str 5)) [(''name'', JStr ''b'')]) ?r = Inr r'"
    by (simp add: edited_assistant_def set_field_def text_column_def nullable_text_def object_column_def)
  have "add_version (version_of 50 r') (upd_assistant 5 (\<lambda>_. r') restored) = Inl IntegrityError"
    using edited_assistant_Inr [OF e] v
    by (intro add_version_taken)
      (simp add: restored_def history_def upd_assistant_def version_key_def version_of_def)
  with e g show ?thesis
    by (simp add: assistants_update_http_def assistant_path_uuid ann_resource [where meta = as_metadata, OF _ o] id_field_def)
qed

end
