(* ===== verification/Spec2Isabelle.thy ===== *)
theory Spec2Isabelle
  imports Ownership Guarantees Maintenance Streams Queue Identity Transport Lifecycles CompatRuns HttpLifecycles
begin

text \<open>
  GraphHarbor: durable execution of LangGraph runs on PostgreSQL and Redis.
\<close>

end
